(* ===== verification/Prelude.thy ===== *)
theory Prelude
  imports Complex_Main "HOL-Library.Char_ord" "HOL-Library.List_Lexorder"
begin

text \<open>
  Shared vocabulary of the development: JavaScript numbers and dynamic values, strings with
  the operations the sources use on them, thrown errors as the left side of a sum, the
  database transaction wrapper, and the value guards of \<^verbatim>\<open>src/src/shared/utils\<close> and
  \<^verbatim>\<open>src/src/persistence/postgres/row-guards.ts\<close>.

  Conventions. A finite double is modelled by the real it denotes, so rounding is not
  modelled, while \<open>NaN\<close> and the infinities are kept apart because the guards of the code
  exist to refuse them. A string is a list of characters, so code units above 255 are not
  represented. A call that throws returns \<open>Inl\<close> of the error.
\<close>

section \<open>Proof collections\<close>

named_theorems guard_simps \<open>unfolding of value guards\<close>
named_theorems op_defs \<open>definitions of component operations\<close>

section \<open>Errors and fallible results\<close>

text \<open>
  \<open>Error m\<close> is a JavaScript error with its message; \<open>DatabaseError c\<close> is a statement the
  database refused because of the named constraint.
\<close>

datatype js_error = Error string | DatabaseError string

type_synonym 'a result = "js_error + 'a"

definition rbind :: "'a result \<Rightarrow> ('a \<Rightarrow> 'b result) \<Rightarrow> 'b result" where
  "rbind m f = (case m of Inl e \<Rightarrow> Inl e | Inr x \<Rightarrow> f x)"

definition throwIf :: "bool \<Rightarrow> string \<Rightarrow> 'a result \<Rightarrow> 'a result" where
  "throwIf b msg k = (if b then Inl (Error msg) else k)"

lemma rbind_simps [simp]:
  "rbind (Inl e) f = Inl e"
  "rbind (Inr x) f = f x"
  by (simp_all add: rbind_def)

lemma rbind_eq_Inr: "rbind m f = Inr y \<longleftrightarrow> (\<exists>x. m = Inr x \<and> f x = Inr y)"
  by (cases m) auto

lemma rbind_eq_Inl: "rbind m f = Inl e \<longleftrightarrow> m = Inl e \<or> (\<exists>x. m = Inr x \<and> f x = Inl e)"
  by (cases m) auto

lemma throwIf_eq_Inr [simp]: "throwIf b msg k = Inr y \<longleftrightarrow> \<not> b \<and> k = Inr y"
  by (simp add: throwIf_def)

lemma throwIf_simps [simp]:
  "throwIf True msg k = Inl (Error msg)"
  "throwIf False msg k = k"
  by (simp_all add: throwIf_def)

lemmas result_simps = rbind_eq_Inr rbind_eq_Inl throwIf_def

text \<open>
  \<^verbatim>\<open>withPostgresClient\<close>: the handler runs between \<^verbatim>\<open>BEGIN\<close> and \<^verbatim>\<open>COMMIT\<close>; if it throws, the
  transaction is rolled back and the error is rethrown.
\<close>

definition withPostgresClient :: "('s \<Rightarrow> ('a \<times> 's) result) \<Rightarrow> 's \<Rightarrow> 'a result \<times> 's" where
  "withPostgresClient handler s =
     (case handler s of Inl e \<Rightarrow> (Inl e, s) | Inr (a, s') \<Rightarrow> (Inr a, s'))"

lemma withPostgresClient_Inr:
  "withPostgresClient h s = (Inr a, s') \<longleftrightarrow> h s = Inr (a, s')"
  by (auto simp: withPostgresClient_def split: sum.splits prod.splits)

lemma withPostgresClient_Inl:
  "withPostgresClient h s = (Inl e, s') \<longleftrightarrow> h s = Inl e \<and> s' = s"
  by (auto simp: withPostgresClient_def split: sum.splits prod.splits)

lemma withPostgresClient_keeps:
  assumes "\<And>a s'. h s = Inr (a, s') \<Longrightarrow> P s'" and "P s"
  shows "P (snd (withPostgresClient h s))"
  using assms by (auto simp: withPostgresClient_def split: sum.splits prod.splits)

text \<open>
  \<open>guarded m k\<close> runs a pure guard before a stateful continuation: a guard that throws
  leaves the state as it was.
\<close>

definition guarded :: "'a result \<Rightarrow> ('a \<Rightarrow> 's \<Rightarrow> 'b result \<times> 's) \<Rightarrow> 's \<Rightarrow> 'b result \<times> 's" where
  "guarded m k s = (case m of Inl e \<Rightarrow> (Inl e, s) | Inr x \<Rightarrow> k x s)"

lemma guarded_simps [simp]:
  "guarded (Inl e) k s = (Inl e, s)"
  "guarded (Inr x) k s = k x s"
  by (simp_all add: guarded_def)

lemma guarded_eq_Inr:
  "guarded m k s = (Inr y, s') \<longleftrightarrow> (\<exists>x. m = Inr x \<and> k x s = (Inr y, s'))"
  by (cases m) auto

lemma guarded_eq_Inl:
  "guarded m k s = (Inl e, s') \<longleftrightarrow>
     (m = Inl e \<and> s' = s) \<or> (\<exists>x. m = Inr x \<and> k x s = (Inl e, s'))"
  by (cases m) auto

lemma snd_guarded: "(\<And>x. m = Inr x \<Longrightarrow> P (snd (k x s))) \<Longrightarrow> P s \<Longrightarrow> P (snd (guarded m k s))"
  by (cases m) auto

text \<open>
  Handlers of a transaction: state in, result and state out, or a thrown error.
\<close>

type_synonym ('s, 'a) tx = "'s \<Rightarrow> ('a \<times> 's) result"

definition txret :: "'a \<Rightarrow> ('s, 'a) tx" where
  "txret a s = Inr (a, s)"

definition txthrow :: "string \<Rightarrow> ('s, 'a) tx" where
  "txthrow msg s = Inl (Error msg)"

definition txbind :: "('s, 'a) tx \<Rightarrow> ('a \<Rightarrow> ('s, 'b) tx) \<Rightarrow> ('s, 'b) tx" where
  "txbind m f s = (case m s of Inl e \<Rightarrow> Inl e | Inr (a, s') \<Rightarrow> f a s')"

definition txget :: "('s \<Rightarrow> 'a) \<Rightarrow> ('s, 'a) tx" where
  "txget f s = Inr (f s, s)"

definition txpure :: "'a result \<Rightarrow> ('s, 'a) tx" where
  "txpure r s = (case r of Inl e \<Rightarrow> Inl e | Inr a \<Rightarrow> Inr (a, s))"

definition txif :: "bool \<Rightarrow> ('s, unit) tx \<Rightarrow> ('s, unit) tx" where
  "txif b m = (if b then m else txret ())"

text \<open>
  A statement changes the tables and is refused when a constraint fails afterwards.
\<close>

definition txexec :: "('s \<Rightarrow> bool) \<Rightarrow> ('s \<Rightarrow> 's) \<Rightarrow> ('s, unit) tx" where
  "txexec ok f s = (if ok (f s) then Inr ((), f s) else Inl (DatabaseError ''constraint violation''))"

lemma tx_Inr:
  "txret a s = Inr (x, s') \<longleftrightarrow> x = a \<and> s' = s"
  "txthrow msg s = Inr (y, s') \<longleftrightarrow> False"
  "txbind m f s = Inr (z, s') \<longleftrightarrow> (\<exists>a s1. m s = Inr (a, s1) \<and> f a s1 = Inr (z, s'))"
  "txget g s = Inr (u, s') \<longleftrightarrow> u = g s \<and> s' = s"
  "txpure r s = Inr (v, s') \<longleftrightarrow> r = Inr v \<and> s' = s"
  "txexec ok h s = Inr (w, s') \<longleftrightarrow> ok (h s) \<and> s' = h s"
  by (auto simp: txret_def txthrow_def txbind_def txget_def txpure_def txexec_def
      split: sum.splits prod.splits)

lemma txif_simps [simp]:
  "txif True m = m"
  "txif False m = txret ()"
  by (simp_all add: txif_def)

lemma txbind_simps [simp]:
  "txbind (txret a) f = f a"
  "txbind (txthrow msg) f = txthrow msg"
  by (simp_all add: fun_eq_iff txbind_def txret_def txthrow_def)

lemma txbind_Inr_simp:
  "m s = Inr (a, s1) \<Longrightarrow> txbind m f s = f a s1"
  "m s = Inl e \<Longrightarrow> txbind m f s = Inl e"
  by (simp_all add: txbind_def)

text \<open>
  \<open>tx_within R m\<close>: whenever \<open>m\<close> returns, the states before and after are related by \<open>R\<close>.
\<close>

definition tx_within :: "('s \<Rightarrow> 's \<Rightarrow> bool) \<Rightarrow> ('s, 'a) tx \<Rightarrow> bool" where
  "tx_within R m \<longleftrightarrow> (\<forall>s x s'. m s = Inr (x, s') \<longrightarrow> R s s')"

named_theorems tx_rules \<open>introduction rules for \<open>tx_within\<close>\<close>

lemma tx_withinD: "tx_within R m \<Longrightarrow> m s = Inr (x, s') \<Longrightarrow> R s s'"
  by (simp add: tx_within_def)

lemma tx_within_basic [tx_rules]:
  assumes "reflp R"
  shows "tx_within R (txret a)" "tx_within R (txthrow msg)" "tx_within R (txget g)"
    "tx_within R (txpure r)"
  using assms by (auto simp: tx_within_def tx_Inr reflp_def)

lemma tx_within_bind [tx_rules]:
  assumes "transp R" "tx_within R m" "\<And>x. tx_within R (f x)"
  shows "tx_within R (txbind m f)"
  using assms unfolding tx_within_def tx_Inr transp_def by blast

lemma tx_within_exec: "(\<And>s. ok (h s) \<Longrightarrow> R s (h s)) \<Longrightarrow> tx_within R (txexec ok h)"
  by (auto simp: tx_within_def tx_Inr)

lemma tx_within_if [tx_rules]:
  "(b \<Longrightarrow> tx_within R m) \<Longrightarrow> (\<not> b \<Longrightarrow> tx_within R n) \<Longrightarrow> tx_within R (if b then m else n)"
  by simp

lemma tx_within_txif [tx_rules]: "reflp R \<Longrightarrow> tx_within R m \<Longrightarrow> tx_within R (txif b m)"
  by (simp add: txif_def tx_within_basic)

lemma tx_within_option [tx_rules]:
  "tx_within R m \<Longrightarrow> (\<And>x. tx_within R (f x)) \<Longrightarrow>
     tx_within R (case v of None \<Rightarrow> m | Some x \<Rightarrow> f x)"
  by (cases v) auto

lemma tx_within_mono: "tx_within R m \<Longrightarrow> (\<And>s s'. R s s' \<Longrightarrow> Q s s') \<Longrightarrow> tx_within Q m"
  by (auto simp: tx_within_def)

text \<open>
  A store object: its closed flag and its tables; an operation on a closed store throws.
\<close>

record 'd pg_store =
  store_closed :: bool
  store_db :: 'd

definition store_transaction :: "string \<Rightarrow> ('d, 'a) tx \<Rightarrow> 'd pg_store \<Rightarrow> 'a result \<times> 'd pg_store" where
  "store_transaction closed_msg handler st =
     (if store_closed st then (Inl (Error closed_msg), st)
      else (case withPostgresClient handler (store_db st) of (r, d) \<Rightarrow> (r, st\<lparr>store_db := d\<rparr>)))"

lemma store_transaction_Inr:
  "store_transaction c h st = (Inr a, st') \<longleftrightarrow>
     \<not> store_closed st \<and> (\<exists>d. h (store_db st) = Inr (a, d) \<and> st' = st\<lparr>store_db := d\<rparr>)"
  by (auto simp: store_transaction_def withPostgresClient_def split: sum.splits prod.splits)

lemma store_transaction_Inl:
  "store_transaction c h st = (Inl e, st') \<longleftrightarrow>
     st' = st \<and> (if store_closed st then e = Error c else h (store_db st) = Inl e)"
  by (auto simp: store_transaction_def withPostgresClient_def split: sum.splits prod.splits)

section \<open>Asynchronous procedures\<close>

text \<open>
  A procedure that awaits effectful calls: it always ends in some world, with a value or with a
  thrown error. \<open>iotry m h k\<close> is \<^verbatim>\<open>try { x = m } catch (e) { return h }\<close> followed by \<open>k x\<close>.
\<close>

type_synonym ('w, 'a) io = "'w \<Rightarrow> 'a result \<times> 'w"

definition ioret :: "'a \<Rightarrow> ('w, 'a) io" where
  "ioret a w = (Inr a, w)"

definition iothrow :: "js_error \<Rightarrow> ('w, 'a) io" where
  "iothrow e w = (Inl e, w)"

definition iobind :: "('w, 'a) io \<Rightarrow> ('a \<Rightarrow> ('w, 'b) io) \<Rightarrow> ('w, 'b) io" where
  "iobind m f w = (case m w of (Inl e, w') \<Rightarrow> (Inl e, w') | (Inr a, w') \<Rightarrow> f a w')"

definition iotry :: "('w, 'a) io \<Rightarrow> (js_error \<Rightarrow> ('w, 'b) io) \<Rightarrow> ('a \<Rightarrow> ('w, 'b) io) \<Rightarrow> ('w, 'b) io" where
  "iotry m h k w = (case m w of (Inl e, w') \<Rightarrow> h e w' | (Inr a, w') \<Rightarrow> k a w')"

definition iopure :: "'a result \<Rightarrow> ('w, 'a) io" where
  "iopure r w = (r, w)"

text \<open>
  Hoare triples: from \<open>P\<close>, the outcome of \<open>m\<close> (value or error) and its final world satisfy \<open>Q\<close>.
\<close>

definition iotriple :: "('w \<Rightarrow> bool) \<Rightarrow> ('w, 'a) io \<Rightarrow> ('a result \<Rightarrow> 'w \<Rightarrow> bool) \<Rightarrow> bool" where
  "iotriple P m Q \<longleftrightarrow> (\<forall>w. P w \<longrightarrow> Q (fst (m w)) (snd (m w)))"

abbreviation iokeeps :: "('w \<Rightarrow> bool) \<Rightarrow> ('w, 'a) io \<Rightarrow> bool" where
  "iokeeps P m \<equiv> iotriple P m (\<lambda>_. P)"

named_theorems io_rules \<open>introduction rules for triples over an invariant\<close>

lemma iotripleI: "(\<And>w r w'. P w \<Longrightarrow> m w = (r, w') \<Longrightarrow> Q r w') \<Longrightarrow> iotriple P m Q"
  unfolding iotriple_def by (metis prod.collapse)

lemma iotripleD: "iotriple P m Q \<Longrightarrow> m w = (r, w') \<Longrightarrow> P w \<Longrightarrow> Q r w'"
  unfolding iotriple_def by (metis fst_conv snd_conv)

lemma iotriple_weaken: "iotriple P m Q \<Longrightarrow> (\<And>r w. Q r w \<Longrightarrow> Q' r w) \<Longrightarrow> iotriple P m Q'"
  by (auto simp: iotriple_def)

lemma iotriple_basic [io_rules]:
  "(\<And>w. P w \<Longrightarrow> Q (Inr a) w) \<Longrightarrow> iotriple P (ioret a) Q"
  "(\<And>w. P w \<Longrightarrow> Q' (Inl e) w) \<Longrightarrow> iotriple P (iothrow e) Q'"
  by (simp_all add: iotriple_def ioret_def iothrow_def)

lemma iotriple_pure: "iotriple P (iopure r) (\<lambda>r'. if r' = r then P else (\<lambda>_. False))"
  by (simp add: iotriple_def iopure_def)

lemma iokeeps_pure [io_rules]: "iokeeps P (iopure r)"
  by (simp add: iotriple_def iopure_def)

lemma iotriple_bind:
  "iotriple P m (\<lambda>r. case r of Inl e \<Rightarrow> Q (Inl e) | Inr a \<Rightarrow> R a) \<Longrightarrow> (\<And>a. iotriple (R a) (f a) Q) \<Longrightarrow>
   iotriple P (iobind m f) Q"
  by (fastforce simp: iotriple_def iobind_def split: prod.splits sum.splits)

lemma iotriple_try:
  "iotriple P m (\<lambda>r. case r of Inl e \<Rightarrow> R e | Inr a \<Rightarrow> S a) \<Longrightarrow> (\<And>e. iotriple (R e) (h e) Q) \<Longrightarrow>
   (\<And>a. iotriple (S a) (k a) Q) \<Longrightarrow> iotriple P (iotry m h k) Q"
  by (fastforce simp: iotriple_def iotry_def split: prod.splits sum.splits)

text \<open>Sequencing after a call that keeps the invariant.\<close>

lemma iokeeps_bind [io_rules]:
  "iokeeps P m \<Longrightarrow> (\<And>e w. P w \<Longrightarrow> Q (Inl e) w) \<Longrightarrow> (\<And>a. iotriple P (f a) Q) \<Longrightarrow> iotriple P (iobind m f) Q"
  by (fastforce simp: iotriple_def iobind_def split: prod.splits sum.splits)

lemma iokeeps_try [io_rules]:
  "iokeeps P m \<Longrightarrow> (\<And>e. iotriple P (h e) Q) \<Longrightarrow> (\<And>a. iotriple P (k a) Q) \<Longrightarrow> iotriple P (iotry m h k) Q"
  by (fastforce simp: iotriple_def iotry_def split: prod.splits sum.splits)

lemma iotriple_cases [io_rules]:
  "(b \<Longrightarrow> iotriple P m Q) \<Longrightarrow> (\<not> b \<Longrightarrow> iotriple P n Q) \<Longrightarrow> iotriple P (if b then m else n) Q"
  "(v = None \<Longrightarrow> iotriple P m' Q) \<Longrightarrow> (\<And>x. v = Some x \<Longrightarrow> iotriple P (f x) Q) \<Longrightarrow>
     iotriple P (case v of None \<Rightarrow> m' | Some x \<Rightarrow> f x) Q"
  "(\<And>x. s = Inl x \<Longrightarrow> iotriple P (g x) Q) \<Longrightarrow> (\<And>x. s = Inr x \<Longrightarrow> iotriple P (k x) Q) \<Longrightarrow>
     iotriple P (case s of Inl x \<Rightarrow> g x | Inr x \<Rightarrow> k x) Q"
  by (simp_all split: option.splits sum.splits)

text \<open>Symbolic execution: rewriting a procedure with the outcome of its first call.\<close>

lemma io_exec:
  "m w = (Inl e, w1) \<Longrightarrow> iotry m h k w = h e w1"
  "m w = (Inr a, w1) \<Longrightarrow> iotry m h k w = k a w1"
  "m w = (Inl e, w1) \<Longrightarrow> iobind m f w = (Inl e, w1)"
  "m w = (Inr a, w1) \<Longrightarrow> iobind m f w = f a w1"
  "iopure r w = (r, w)"
  by (simp_all add: iotry_def iobind_def iopure_def)

lemma io_pure_exec [simp]:
  "iotry (iopure (Inl e)) h k = h e"
  "iotry (iopure (Inr a)) h k = k a"
  "iotry (ioret a) h k = k a"
  "iobind (iopure (Inl e)) f = iothrow e"
  "iobind (iopure (Inr a)) f = f a"
  "iobind (ioret a) f = f a"
  "iobind (iothrow e) f = iothrow e"
  by (simp_all add: fun_eq_iff iotry_def iobind_def iopure_def ioret_def iothrow_def)

lemma iobind_assoc: "iobind (iobind m f) g = iobind m (\<lambda>x. iobind (f x) g)"
  by (auto simp: fun_eq_iff iobind_def split: prod.splits sum.splits)

lemma io_Inr:
  "ioret a w = (Inr x, w') \<longleftrightarrow> x = a \<and> w' = w"
  "iothrow e w = (Inr y, w') \<longleftrightarrow> False"
  "iopure r w = (Inr z, w') \<longleftrightarrow> r = Inr z \<and> w' = w"
  "iobind m f w = (Inr u, w') \<longleftrightarrow> (\<exists>a w1. m w = (Inr a, w1) \<and> f a w1 = (Inr u, w'))"
  "iotry m' h k w = (Inr v, w') \<longleftrightarrow>
     (\<exists>e w1. m' w = (Inl e, w1) \<and> h e w1 = (Inr v, w')) \<or> (\<exists>a w1. m' w = (Inr a, w1) \<and> k a w1 = (Inr v, w'))"
  by (auto simp: ioret_def iothrow_def iopure_def iobind_def iotry_def split: prod.splits sum.splits)

section \<open>Participation\<close>

text \<open>The availability a companion may announce.\<close>

datatype availability_state = Available | Open_to_chat | Busy | Resting | Do_not_disturb

text \<open>The ternary a participation appraiser may choose.\<close>

datatype participation_action = Action_ignore | Action_react | Action_reply

section \<open>Rows of a table\<close>

text \<open>\<^verbatim>\<open>UPDATE ... SET f WHERE P\<close> on the rows of a table.\<close>

definition update_where :: "('r \<Rightarrow> bool) \<Rightarrow> ('r \<Rightarrow> 'r) \<Rightarrow> 'r list \<Rightarrow> 'r list" where
  "update_where P f = map (\<lambda>r. if P r then f r else r)"

lemma update_where_simps [simp]:
  "update_where P f [] = []"
  "update_where P f (r # rs) = (if P r then f r else r) # update_where P f rs"
  "update_where P f (rs @ ts) = update_where P f rs @ update_where P f ts"
  "length (update_where P f rs) = length rs"
  "update_where P f rs = [] \<longleftrightarrow> rs = []"
  by (simp_all add: update_where_def)

lemma set_update_where: "set (update_where P f rs) = (\<lambda>r. if P r then f r else r) ` set rs"
  by (simp add: update_where_def)

lemma map_update_where:
  "(\<And>r. P r \<Longrightarrow> g (f r) = g r) \<Longrightarrow> map g (update_where P f rs) = map g rs"
  by (auto simp: update_where_def)

lemma image_update_where:
  assumes "\<And>r. P r \<Longrightarrow> g (f r) = g r"
  shows "g ` set (update_where P f rs) = g ` set rs"
proof -
  have "set (map g (update_where P f rs)) = set (map g rs)" using map_update_where assms by metis
  then show ?thesis by simp
qed

lemma filter_update_where:
  "(\<And>r. P r \<Longrightarrow> Q (f r) = Q r) \<Longrightarrow> filter Q (update_where P f rs) = update_where P f (filter Q rs)"
  by (induction rs) auto

lemma list_all_update_where:
  "(\<And>r. Q (f r) = Q r) \<Longrightarrow> list_all Q (update_where P f rs) = list_all Q rs"
  by (induction rs) auto

lemma update_where_none: "(\<And>r. r \<in> set rs \<Longrightarrow> \<not> P r) \<Longrightarrow> update_where P f rs = rs"
  by (induction rs) auto

lemma butlast_update_where: "butlast (update_where P f rs) = update_where P f (butlast rs)"
  by (simp add: update_where_def map_butlast)

lemma last_update_where:
  "rs \<noteq> [] \<Longrightarrow> last (update_where P f rs) = (if P (last rs) then f (last rs) else last rs)"
  by (simp add: update_where_def last_map)

lemma find_Some_iff': "find P xs = Some x \<Longrightarrow> P x \<and> x \<in> set xs"
  by (induction xs) (auto split: if_splits)

lemma find_None_iff': "find P xs = None \<longleftrightarrow> (\<forall>x \<in> set xs. \<not> P x)"
  by (induction xs) auto

lemma find_snoc: "find P (xs @ [x]) = (case find P xs of None \<Rightarrow> if P x then Some x else None | Some y \<Rightarrow> Some y)"
  by (induction xs) auto

lemma find_distinct:
  "distinct (map g xs) \<Longrightarrow> x \<in> set xs \<Longrightarrow> find (\<lambda>k. g k = g x) xs = Some x"
  by (induction xs) force+

section \<open>JavaScript numbers\<close>

datatype jsnum = Fin real | NaN | PosInf | NegInf

fun numval :: "jsnum \<Rightarrow> real" where
  "numval (Fin r) = r"
| "numval _ = 0"

text \<open>Comparison and subtraction of doubles; \<open>NaN\<close> compares false with everything.\<close>

fun js_lt :: "jsnum \<Rightarrow> jsnum \<Rightarrow> bool" where
  "js_lt (Fin a) (Fin b) = (a < b)"
| "js_lt (Fin a) PosInf = True"
| "js_lt NegInf (Fin b) = True"
| "js_lt NegInf PosInf = True"
| "js_lt _ _ = False"

fun js_eq :: "jsnum \<Rightarrow> jsnum \<Rightarrow> bool" where
  "js_eq NaN b = False"
| "js_eq a b = (a = b)"

definition js_le :: "jsnum \<Rightarrow> jsnum \<Rightarrow> bool" where
  "js_le a b \<longleftrightarrow> js_lt a b \<or> js_eq a b"

fun js_minus :: "jsnum \<Rightarrow> jsnum \<Rightarrow> jsnum" where
  "js_minus (Fin a) (Fin b) = Fin (a - b)"
| "js_minus (Fin a) PosInf = NegInf"
| "js_minus (Fin a) NegInf = PosInf"
| "js_minus PosInf (Fin b) = PosInf"
| "js_minus PosInf NegInf = PosInf"
| "js_minus NegInf (Fin b) = NegInf"
| "js_minus NegInf PosInf = NegInf"
| "js_minus _ _ = NaN"

fun js_plus :: "jsnum \<Rightarrow> jsnum \<Rightarrow> jsnum" where
  "js_plus (Fin a) (Fin b) = Fin (a + b)"
| "js_plus (Fin a) PosInf = PosInf"
| "js_plus (Fin a) NegInf = NegInf"
| "js_plus PosInf (Fin b) = PosInf"
| "js_plus PosInf PosInf = PosInf"
| "js_plus NegInf (Fin b) = NegInf"
| "js_plus NegInf NegInf = NegInf"
| "js_plus _ _ = NaN"

text \<open>\<^verbatim>\<open>Math.max\<close> of two numbers.\<close>

definition js_max :: "jsnum \<Rightarrow> jsnum \<Rightarrow> jsnum" where
  "js_max a b = (if a = NaN \<or> b = NaN then NaN else if js_lt a b then b else a)"

lemma js_le_Fin [simp]: "js_le (Fin a) (Fin b) \<longleftrightarrow> a \<le> b"
  by (auto simp: js_le_def)

fun isFinite :: "jsnum \<Rightarrow> bool" where
  "isFinite (Fin r) = True"
| "isFinite _ = False"

definition is_whole :: "real \<Rightarrow> bool" where
  "is_whole r \<longleftrightarrow> of_int \<lfloor>r\<rfloor> = r"

definition MAX_SAFE_INTEGER :: int where
  "MAX_SAFE_INTEGER = 9007199254740991"

fun isInteger :: "jsnum \<Rightarrow> bool" where
  "isInteger (Fin r) = is_whole r"
| "isInteger _ = False"

fun isSafeInteger :: "jsnum \<Rightarrow> bool" where
  "isSafeInteger (Fin r) = (is_whole r \<and> \<bar>\<lfloor>r\<rfloor>\<bar> \<le> MAX_SAFE_INTEGER)"
| "isSafeInteger _ = False"

definition jsint :: "int \<Rightarrow> jsnum" where
  "jsint i = Fin (of_int i)"

definition intval :: "jsnum \<Rightarrow> int" where
  "intval n = \<lfloor>numval n\<rfloor>"

lemma is_whole_of_int [simp]: "is_whole (of_int i)"
  by (simp add: is_whole_def)

lemma is_whole_numeral [simp]: "is_whole (numeral k)" "is_whole 0" "is_whole 1"
  by (simp_all add: is_whole_def)

lemma intval_jsint [simp]: "intval (jsint i) = i"
  by (simp add: intval_def jsint_def)

lemma isFinite_jsint [simp]: "isFinite (jsint i)"
  by (simp add: jsint_def)

lemma numval_jsint [simp]: "numval (jsint i) = of_int i"
  by (simp add: jsint_def)

lemma isFinite_iff: "isFinite n \<longleftrightarrow> n = Fin (numval n)"
  by (cases n) auto

lemma isSafeInteger_imp_finite: "isSafeInteger n \<Longrightarrow> isFinite n"
  by (cases n) auto

lemma isSafeInteger_jsint [simp]: "isSafeInteger (jsint i) \<longleftrightarrow> \<bar>i\<bar> \<le> MAX_SAFE_INTEGER"
  by (simp add: jsint_def)

lemma isSafeInteger_intval: "isSafeInteger n \<Longrightarrow> n = jsint (intval n)"
  by (cases n) (auto simp: jsint_def intval_def is_whole_def)

section \<open>Strings\<close>

text \<open>
  \<^verbatim>\<open>String.prototype.trim\<close> removes white space at both ends; among the characters below 256
  these are tab, line feed, vertical tab, form feed, carriage return, space and the
  no-break space.
\<close>

definition white_space :: "char list" where
  "white_space = [CHR 0x09, CHR 0x0A, CHR 0x0B, CHR 0x0C, CHR 0x0D, CHR 0x20, CHR 0xA0]"

definition js_trim :: "string \<Rightarrow> string" where
  "js_trim s = rev (dropWhile (\<lambda>c. c \<in> set white_space)
                 (rev (dropWhile (\<lambda>c. c \<in> set white_space) s)))"

lemma dropWhile_id: "xs = [] \<or> \<not> P (hd xs) \<Longrightarrow> dropWhile P xs = xs"
  by (cases xs) auto

lemma js_trim_idem [simp]: "js_trim (js_trim s) = js_trim s"
proof -
  let ?P = "\<lambda>c. c \<in> set white_space"
  define d where "d = dropWhile ?P s"
  define t where "t = rev (dropWhile ?P (rev d))"
  obtain u where u: "d = t @ u" unfolding t_def by (metis rev_append rev_rev_ident takeWhile_dropWhile_id)
  have "t = [] \<or> \<not> ?P (hd t)"
  proof (cases t)
    case (Cons c t')
    then have "dropWhile ?P s = c # t' @ u" using u by (simp add: d_def)
    then have "\<not> ?P c" using hd_dropWhile [of ?P s] by simp
    then show ?thesis by (simp add: Cons)
  qed simp
  then have "dropWhile ?P t = t" by (rule dropWhile_id)
  moreover have "js_trim s = t" by (simp add: js_trim_def t_def d_def)
  moreover have "dropWhile ?P (rev t) = rev t" by (simp add: t_def dropWhile_idem)
  ultimately show ?thesis by (simp add: js_trim_def [of t])
qed

lemma trim_ends: "k \<noteq> [] \<Longrightarrow> hd k \<notin> set white_space \<Longrightarrow> last k \<notin> set white_space \<Longrightarrow> js_trim k = k"
  by (simp add: js_trim_def dropWhile_id hd_rev)

fun starts_with :: "string \<Rightarrow> string \<Rightarrow> bool" where
  "starts_with [] s = True"
| "starts_with (p # ps) [] = False"
| "starts_with (p # ps) (c # cs) = (p = c \<and> starts_with ps cs)"

fun js_includes :: "string \<Rightarrow> string \<Rightarrow> bool" where
  "js_includes [] pat = (pat = [])"
| "js_includes (c # cs) pat = (starts_with pat (c # cs) \<or> js_includes cs pat)"

lemma starts_with_append [simp]: "starts_with p (p @ s)"
  by (induction p) auto

lemma starts_with_iff: "starts_with p s \<longleftrightarrow> (\<exists>t. s = p @ t)"
  by (induction p s rule: starts_with.induct) auto

lemma js_includes_iff: "js_includes s pat \<longleftrightarrow> (\<exists>u v. s = u @ pat @ v)"
proof (induction s)
  case Nil
  then show ?case by auto
next
  case (Cons c cs)
  show ?case
  proof
    assume "js_includes (c # cs) pat"
    then consider "starts_with pat (c # cs)" | "js_includes cs pat" by auto
    then show "\<exists>u v. c # cs = u @ pat @ v"
    proof cases
      case 1
      then show ?thesis by (auto simp: starts_with_iff intro: exI [of _ "[]"])
    next
      case 2
      then show ?thesis using Cons.IH by (metis append_Cons)
    qed
  next
    assume "\<exists>u v. c # cs = u @ pat @ v"
    then obtain u v where uv: "c # cs = u @ pat @ v" by blast
    show "js_includes (c # cs) pat"
    proof (cases u)
      case Nil
      with uv have "starts_with pat (c # cs)" by (auto simp: starts_with_iff)
      then show ?thesis by simp
    next
      case (Cons x u')
      then show ?thesis using uv Cons.IH by auto
    qed
  qed
qed

lemma js_includes_append: "js_includes (u @ pat @ v) pat"
  by (auto simp: js_includes_iff)

lemma js_trim_empty_iff: "js_trim s = [] \<longleftrightarrow> (\<forall>c \<in> set s. c \<in> set white_space)"
proof -
  have "js_trim s = [] \<longleftrightarrow> (\<forall>c \<in> set (dropWhile (\<lambda>c. c \<in> set white_space) s). c \<in> set white_space)"
    by (auto simp: js_trim_def dropWhile_eq_Nil_conv)
  also have "\<dots> \<longleftrightarrow> (\<forall>c \<in> set s. c \<in> set white_space)"
    by (induction s) auto
  finally show ?thesis .
qed

text \<open>
  \<^verbatim>\<open>RFC_4122_UUID_PATTERN\<close>: thirty-six characters, lowercase hexadecimal digits with dashes
  after the eighth, twelfth, sixteenth and twentieth digit, a version digit 1 to 5 and a
  variant digit 8, 9, a or b.
\<close>

definition is_hex :: "char \<Rightarrow> bool" where
  "is_hex c \<longleftrightarrow> c \<in> set ''0123456789abcdef''"

definition uuid_pattern :: "(char \<Rightarrow> bool) list" where
  "uuid_pattern =
     replicate 8 is_hex @ [\<lambda>c. c = CHR ''-''] @ replicate 4 is_hex @ [\<lambda>c. c = CHR ''-'']
     @ [\<lambda>c. c \<in> set ''12345''] @ replicate 3 is_hex @ [\<lambda>c. c = CHR ''-'']
     @ [\<lambda>c. c \<in> set ''89ab''] @ replicate 3 is_hex @ [\<lambda>c. c = CHR ''-'']
     @ replicate 12 is_hex"

definition isRfc4122Uuid :: "string \<Rightarrow> bool" where
  "isRfc4122Uuid s \<longleftrightarrow> list_all2 (\<lambda>p c. p c) uuid_pattern s"

definition isBoundedString :: "string \<Rightarrow> nat \<Rightarrow> nat \<Rightarrow> bool" where
  "isBoundedString s maximum minimum \<longleftrightarrow> minimum \<le> length s \<and> length s \<le> maximum"

lemma isRfc4122Uuid_length: "isRfc4122Uuid s \<Longrightarrow> length s = 36"
  by (auto simp: isRfc4122Uuid_def uuid_pattern_def dest!: list_all2_lengthD)

section \<open>Value guards\<close>

definition requireUuid :: "string \<Rightarrow> string \<Rightarrow> string result" where
  "requireUuid value field =
     (if isRfc4122Uuid value then Inr value
      else Inl (Error (field @ '' must be an RFC 4122 UUID'')))"

definition requireSafeInteger :: "int \<Rightarrow> string \<Rightarrow> int result" where
  "requireSafeInteger value field =
     (if \<bar>value\<bar> \<le> MAX_SAFE_INTEGER then Inr value
      else Inl (Error (field @ '' must be a safe integer'')))"

definition requireIdentifier :: "string \<Rightarrow> string \<Rightarrow> string result" where
  "requireIdentifier value field =
     (if isBoundedString value 512 1 then Inr value
      else Inl (Error (field @ '' must be a non-empty string of at most 512 characters'')))"

definition requireTimestamp :: "jsnum \<Rightarrow> string \<Rightarrow> int result" where
  "requireTimestamp value field =
     (if \<not> isSafeInteger value \<or> numval value < 0
      then Inl (Error (field @ '' must be a non-negative safe integer timestamp''))
      else Inr (intval value))"

definition requireFutureDeadline :: "jsnum \<Rightarrow> int \<Rightarrow> string \<Rightarrow> int result" where
  "requireFutureDeadline expiresAtMs nowMs field =
     rbind (requireTimestamp expiresAtMs field) (\<lambda>value.
       throwIf (value \<le> nowMs) (field @ '' must be strictly greater than nowMs'') (Inr value))"

definition assertPositiveFinite :: "jsnum \<Rightarrow> string \<Rightarrow> jsnum result" where
  "assertPositiveFinite value field =
     (if \<not> isFinite value \<or> numval value \<le> 0
      then Inl (Error (field @ '' must be a finite number > 0''))
      else Inr value)"

definition assertNonNegativeFinite :: "jsnum \<Rightarrow> string \<Rightarrow> jsnum result" where
  "assertNonNegativeFinite value field =
     (if \<not> isFinite value \<or> numval value < 0
      then Inl (Error (field @ '' must be a finite number >= 0''))
      else Inr value)"

definition assertNonEmpty :: "string \<Rightarrow> string \<Rightarrow> string result" where
  "assertNonEmpty value field =
     (if js_trim value = [] then Inl (Error (field @ '' must be a non-empty string''))
      else Inr value)"

lemma requireUuid_Inr [guard_simps]:
  "requireUuid v f = Inr x \<longleftrightarrow> isRfc4122Uuid v \<and> x = v"
  by (auto simp: requireUuid_def)

lemma requireSafeInteger_Inr [guard_simps]:
  "requireSafeInteger v f = Inr x \<longleftrightarrow> \<bar>v\<bar> \<le> MAX_SAFE_INTEGER \<and> x = v"
  by (auto simp: requireSafeInteger_def)

lemma requireIdentifier_Inr [guard_simps]:
  "requireIdentifier v f = Inr x \<longleftrightarrow> isBoundedString v 512 1 \<and> x = v"
  by (auto simp: requireIdentifier_def)

definition is_timestamp :: "jsnum \<Rightarrow> bool" where
  "is_timestamp v \<longleftrightarrow> isSafeInteger v \<and> 0 \<le> numval v"

lemma is_timestampD:
  assumes "is_timestamp v"
  shows "v = jsint (intval v)" "0 \<le> intval v" "intval v \<le> MAX_SAFE_INTEGER"
proof -
  show v: "v = jsint (intval v)" using assms isSafeInteger_intval by (simp add: is_timestamp_def)
  from assms have "0 \<le> numval (jsint (intval v)) \<and> isSafeInteger (jsint (intval v))"
    unfolding is_timestamp_def using v by simp
  then show "0 \<le> intval v" "intval v \<le> MAX_SAFE_INTEGER" by (simp_all add: abs_le_iff)
qed

lemma is_timestamp_jsint [simp]: "is_timestamp (jsint t) \<longleftrightarrow> 0 \<le> t \<and> t \<le> MAX_SAFE_INTEGER"
  by (auto simp: is_timestamp_def abs_le_iff MAX_SAFE_INTEGER_def)

lemma is_timestamp_Fin [simp]:
  "is_timestamp (Fin (numeral k)) \<longleftrightarrow> (numeral k :: int) \<le> MAX_SAFE_INTEGER"
  "is_timestamp (Fin 0)" "is_timestamp (Fin 1)"
  by (auto simp: is_timestamp_def MAX_SAFE_INTEGER_def)

lemma requireTimestamp_Inr [guard_simps]:
  "requireTimestamp v f = Inr t \<longleftrightarrow> is_timestamp v \<and> t = intval v"
  by (auto simp: requireTimestamp_def is_timestamp_def)

lemma requireFutureDeadline_Inr [guard_simps]:
  "requireFutureDeadline v n f = Inr t \<longleftrightarrow> is_timestamp v \<and> n < intval v \<and> t = intval v"
  by (auto simp: requireFutureDeadline_def rbind_eq_Inr requireTimestamp_Inr)

lemma assertPositiveFinite_Inr [guard_simps]:
  "assertPositiveFinite v f = Inr x \<longleftrightarrow> isFinite v \<and> 0 < numval v \<and> x = v"
  by (auto simp: assertPositiveFinite_def)

lemma assertNonNegativeFinite_Inr [guard_simps]:
  "assertNonNegativeFinite v f = Inr x \<longleftrightarrow> isFinite v \<and> 0 \<le> numval v \<and> x = v"
  by (auto simp: assertNonNegativeFinite_def)

lemma assertNonEmpty_Inr [guard_simps]:
  "assertNonEmpty v f = Inr x \<longleftrightarrow> js_trim v \<noteq> [] \<and> x = v"
  by (auto simp: assertNonEmpty_def)

end
