(* ===== verification/Arbiter_Store.thy ===== *)
theory Arbiter_Store
  imports Prelude "HOL-Library.Product_Lexorder"
begin

text \<open>
  The gateway's speaking arbiter store: candidate reservations, fenced egress leases and room
  episodes. Models \<^verbatim>\<open>src/src/core/agent/arbiter/speaking-arbiter-store-port.ts\<close> (data and
  predicates), \<^verbatim>\<open>src/src/persistence/postgres/speaking-arbiter-store.ts\<close> (every operation)
  and the table constraints of \<^verbatim>\<open>src/src/persistence/postgres/shared-schema-migrations.ts\<close>.

  A table is the list of its rows in insertion order. A statement that breaks a CHECK, UNIQUE
  or foreign-key constraint throws and the transaction is rolled back. Mutations take the
  channel's advisory lock first, so a transaction is one atomic step; the identifiers the code
  draws with \<^verbatim>\<open>randomUUID\<close> are arguments. TypeScript's union types are datatypes, so the
  runtime checks for a text outside the union have no counterpart here.
\<close>

section \<open>Data\<close>

datatype reservation_status = Res_reserved | Res_released | Res_expired

datatype lease_status =
  Lease_held | Lease_released | Lease_expired | Lease_delivered | Lease_failed | Lease_overridden

datatype arbiter_reason =
  Silence | Ignore | Model_failure | Reason_delivered | Delivery_failure | Expiry | Superseded
| Urgent_override

datatype lease_completion =
  Complete_delivered | Complete_failed | Complete_released | Complete_overridden

datatype room_episode_status = Episode_open | Episode_closed

datatype room_breaker_state = Breaker_closed | Breaker_open | Breaker_half_open

fun reservationStatusText :: "reservation_status \<Rightarrow> string" where
  "reservationStatusText Res_reserved = ''reserved''"
| "reservationStatusText Res_released = ''released''"
| "reservationStatusText Res_expired = ''expired''"

fun leaseStatusText :: "lease_status \<Rightarrow> string" where
  "leaseStatusText Lease_held = ''held''"
| "leaseStatusText Lease_released = ''released''"
| "leaseStatusText Lease_expired = ''expired''"
| "leaseStatusText Lease_delivered = ''delivered''"
| "leaseStatusText Lease_failed = ''failed''"
| "leaseStatusText Lease_overridden = ''overridden''"

fun reasonText :: "arbiter_reason option \<Rightarrow> string" where
  "reasonText None = ''null''"
| "reasonText (Some Silence) = ''silence''"
| "reasonText (Some Ignore) = ''ignore''"
| "reasonText (Some Model_failure) = ''model_failure''"
| "reasonText (Some Reason_delivered) = ''delivered''"
| "reasonText (Some Delivery_failure) = ''delivery_failure''"
| "reasonText (Some Expiry) = ''expiry''"
| "reasonText (Some Superseded) = ''superseded''"
| "reasonText (Some Urgent_override) = ''urgent_override''"

fun speakingCompletionReason :: "lease_completion \<Rightarrow> arbiter_reason" where
  "speakingCompletionReason Complete_delivered = Reason_delivered"
| "speakingCompletionReason Complete_failed = Delivery_failure"
| "speakingCompletionReason Complete_released = Silence"
| "speakingCompletionReason Complete_overridden = Urgent_override"

fun completionStatus :: "lease_completion \<Rightarrow> lease_status" where
  "completionStatus Complete_delivered = Lease_delivered"
| "completionStatus Complete_failed = Lease_failed"
| "completionStatus Complete_released = Lease_released"
| "completionStatus Complete_overridden = Lease_overridden"

definition speakingCompletionIsSpeech :: "lease_completion \<Rightarrow> bool" where
  "speakingCompletionIsSpeech c \<longleftrightarrow> c \<in> set [Complete_delivered, Complete_overridden]"

definition isEgressLeaseLive :: "lease_status \<Rightarrow> int \<Rightarrow> int \<Rightarrow> bool" where
  "isEgressLeaseLive status expiresAtMs nowMs \<longleftrightarrow> status = Lease_held \<and> expiresAtMs > nowMs"

definition isReservationActive :: "reservation_status \<Rightarrow> int \<Rightarrow> int \<Rightarrow> bool" where
  "isReservationActive status expiresAtMs nowMs \<longleftrightarrow> status = Res_reserved \<and> expiresAtMs > nowMs"

section \<open>Tables\<close>

record episode_row =
  ep_id :: string
  ep_channel :: string
  ep_status :: room_episode_status
  ep_pressure :: real
  ep_turns :: int
  ep_lastSpeaker :: "string option"
  ep_openedAt :: int
  ep_lastActivityAt :: int
  ep_closedAt :: "int option"
  ep_breaker :: room_breaker_state
  ep_revision :: int

record participant_row =
  part_episode :: string
  part_companion :: string
  part_speakCount :: int
  part_lastSpokeAt :: "int option"

record reservation_row =
  res_id :: string
  res_channel :: string
  res_event :: string
  res_companion :: string
  res_episode :: string
  res_status :: reservation_status
  res_reason :: "arbiter_reason option"
  res_reservedAt :: int
  res_expiresAt :: int
  res_finalizedAt :: "int option"
  res_revision :: int

record lease_row =
  lease_id :: string
  lease_reservation :: string
  lease_channel :: string
  lease_event :: string
  lease_companion :: string
  lease_episode :: string
  lease_token :: int
  lease_charged :: real
  lease_status :: lease_status
  lease_reason :: "arbiter_reason option"
  lease_acquiredAt :: int
  lease_expiresAt :: int
  lease_finalizedAt :: "int option"
  lease_revision :: int

record arbiter_db =
  episodes :: "episode_row list"
  participation :: "participant_row list"
  reservations :: "reservation_row list"
  leases :: "lease_row list"

type_synonym arbiter_store = "arbiter_db pg_store"

type_synonym 'a arbiter_tx = "(arbiter_db, 'a) tx"

text \<open>Column and table constraints; INTEGER and BIGINT columns have their width.\<close>

definition INT4_MAX :: int where "INT4_MAX = 2147483647"

definition INT8_MAX :: int where "INT8_MAX = 9223372036854775807"

definition episode_check :: "episode_row \<Rightarrow> bool" where
  "episode_check e \<longleftrightarrow>
     0 \<le> ep_pressure e \<and> 0 \<le> ep_turns e \<and> ep_turns e \<le> INT4_MAX \<and> 0 \<le> ep_openedAt e
     \<and> ep_openedAt e \<le> ep_lastActivityAt e \<and> 1 \<le> ep_revision e \<and> ep_revision e \<le> INT8_MAX
     \<and> (ep_status e = Episode_closed) = (ep_closedAt e \<noteq> None)
     \<and> (case ep_closedAt e of None \<Rightarrow> True | Some t \<Rightarrow> ep_openedAt e \<le> t)"

definition participant_check :: "participant_row \<Rightarrow> bool" where
  "participant_check p \<longleftrightarrow>
     0 \<le> part_speakCount p \<and> part_speakCount p \<le> INT4_MAX
     \<and> (case part_lastSpokeAt p of None \<Rightarrow> True | Some t \<Rightarrow> 0 \<le> t)"

definition reservation_check :: "reservation_row \<Rightarrow> bool" where
  "reservation_check r \<longleftrightarrow>
     0 \<le> res_reservedAt r \<and> res_reservedAt r < res_expiresAt r
     \<and> 1 \<le> res_revision r \<and> res_revision r \<le> INT8_MAX
     \<and> (res_status r = Res_reserved) = (res_finalizedAt r = None)
     \<and> (res_status r = Res_reserved) = (res_reason r = None)
     \<and> (case res_finalizedAt r of None \<Rightarrow> True | Some t \<Rightarrow> res_reservedAt r \<le> t)"

definition lease_check :: "lease_row \<Rightarrow> bool" where
  "lease_check l \<longleftrightarrow>
     1 \<le> lease_token l \<and> lease_token l \<le> INT8_MAX \<and> 0 \<le> lease_charged l \<and> 0 \<le> lease_acquiredAt l
     \<and> lease_acquiredAt l < lease_expiresAt l \<and> 1 \<le> lease_revision l \<and> lease_revision l \<le> INT8_MAX
     \<and> (lease_status l = Lease_held) = (lease_finalizedAt l = None)
     \<and> (lease_status l = Lease_held) = (lease_reason l = None)
     \<and> (case lease_finalizedAt l of None \<Rightarrow> True | Some t \<Rightarrow> lease_acquiredAt l \<le> t)"

definition episodes_ok :: "arbiter_db \<Rightarrow> bool" where
  "episodes_ok db \<longleftrightarrow>
     list_all episode_check (episodes db) \<and> distinct (map ep_id (episodes db))
     \<and> distinct (map ep_channel (filter (\<lambda>e. ep_status e = Episode_open) (episodes db)))"

definition participation_ok :: "arbiter_db \<Rightarrow> bool" where
  "participation_ok db \<longleftrightarrow>
     list_all participant_check (participation db)
     \<and> distinct (map (\<lambda>p. (part_episode p, part_companion p)) (participation db))
     \<and> list_all (\<lambda>p. part_episode p \<in> set (map ep_id (episodes db))) (participation db)"

definition reservations_ok :: "arbiter_db \<Rightarrow> bool" where
  "reservations_ok db \<longleftrightarrow>
     list_all reservation_check (reservations db) \<and> distinct (map res_id (reservations db))
     \<and> distinct (map (\<lambda>r. (res_channel r, res_event r, res_companion r)) (reservations db))
     \<and> list_all (\<lambda>r. res_episode r \<in> set (map ep_id (episodes db))) (reservations db)"

definition leases_ok :: "arbiter_db \<Rightarrow> bool" where
  "leases_ok db \<longleftrightarrow>
     list_all lease_check (leases db) \<and> distinct (map lease_id (leases db))
     \<and> distinct (map (\<lambda>l. (lease_channel l, lease_event l, lease_token l)) (leases db))
     \<and> distinct (map (\<lambda>l. (lease_channel l, lease_event l))
          (filter (\<lambda>l. lease_status l = Lease_held) (leases db)))
     \<and> list_all (\<lambda>l. lease_reservation l \<in> set (map res_id (reservations db))) (leases db)
     \<and> list_all (\<lambda>l. lease_episode l \<in> set (map ep_id (episodes db))) (leases db)"

definition arbiter_constraints :: "arbiter_db \<Rightarrow> bool" where
  "arbiter_constraints db \<longleftrightarrow>
     episodes_ok db \<and> participation_ok db \<and> reservations_ok db \<and> leases_ok db"

abbreviation exec :: "(arbiter_db \<Rightarrow> arbiter_db) \<Rightarrow> unit arbiter_tx" where
  "exec \<equiv> txexec arbiter_constraints"

section \<open>Snapshots\<close>

text \<open>
  A reservation or lease snapshot has the fields of its row; reading it back checks that the
  integers are safe.
\<close>

record episode_participant =
  participant_companionId :: string
  participant_speakCount :: int
  participant_lastSpokeAtMs :: "int option"

record room_episode_snapshot =
  episode_episodeId :: string
  episode_channelId :: string
  episode_status :: room_episode_status
  episode_pressure :: real
  episode_openedAtMs :: int
  episode_lastActivityAtMs :: int
  episode_consecutiveAutonomousTurns :: int
  episode_lastSpeakerCompanionId :: "string option"
  episode_revision :: int
  episode_participants :: "episode_participant list"

definition nullableSafeInteger :: "int option \<Rightarrow> string \<Rightarrow> int option result" where
  "nullableSafeInteger v field =
     (case v of None \<Rightarrow> Inr None | Some i \<Rightarrow> rbind (requireSafeInteger i field) (Inr \<circ> Some))"

fun toParticipants :: "participant_row list \<Rightarrow> episode_participant list result" where
  "toParticipants [] = Inr []"
| "toParticipants (p # ps) =
     rbind (requireSafeInteger (part_speakCount p) ''episodeParticipant.speakCount'') (\<lambda>n.
     rbind (nullableSafeInteger (part_lastSpokeAt p) ''episodeParticipant.lastSpokeAtMs'') (\<lambda>t.
     rbind (toParticipants ps) (\<lambda>rest.
     Inr (\<lparr>participant_companionId = part_companion p, participant_speakCount = n,
           participant_lastSpokeAtMs = t\<rparr> # rest))))"

definition toEpisodeSnapshot ::
  "episode_row \<Rightarrow> participant_row list \<Rightarrow> room_episode_snapshot result" where
  "toEpisodeSnapshot row ps =
     rbind (toParticipants ps) (\<lambda>participants.
     rbind (requireSafeInteger (ep_openedAt row) ''episode.openedAtMs'') (\<lambda>opened.
     rbind (requireSafeInteger (ep_lastActivityAt row) ''episode.lastActivityAtMs'') (\<lambda>active.
     rbind (requireSafeInteger (ep_turns row) ''episode.consecutiveAutonomousTurns'') (\<lambda>turns.
     rbind (requireSafeInteger (ep_revision row) ''episode.revision'') (\<lambda>rev.
     Inr \<lparr>episode_episodeId = ep_id row, episode_channelId = ep_channel row,
          episode_status = ep_status row, episode_pressure = ep_pressure row,
          episode_openedAtMs = opened, episode_lastActivityAtMs = active,
          episode_consecutiveAutonomousTurns = turns,
          episode_lastSpeakerCompanionId = ep_lastSpeaker row, episode_revision = rev,
          episode_participants = participants\<rparr>)))))"

definition toReservationSnapshot :: "reservation_row \<Rightarrow> reservation_row result" where
  "toReservationSnapshot r =
     rbind (requireSafeInteger (res_reservedAt r) ''reservation.reservedAtMs'') (\<lambda>a.
     rbind (requireSafeInteger (res_expiresAt r) ''reservation.expiresAtMs'') (\<lambda>b.
     rbind (nullableSafeInteger (res_finalizedAt r) ''reservation.finalizedAtMs'') (\<lambda>c.
     rbind (requireSafeInteger (res_revision r) ''reservation.revision'') (\<lambda>d. Inr r))))"

definition toLeaseSnapshot :: "lease_row \<Rightarrow> lease_row result" where
  "toLeaseSnapshot l =
     rbind (requireSafeInteger (lease_token l) ''lease.fencingToken'') (\<lambda>a.
     rbind (requireSafeInteger (lease_acquiredAt l) ''lease.acquiredAtMs'') (\<lambda>b.
     rbind (requireSafeInteger (lease_expiresAt l) ''lease.expiresAtMs'') (\<lambda>c.
     rbind (nullableSafeInteger (lease_finalizedAt l) ''lease.finalizedAtMs'') (\<lambda>d.
     rbind (requireSafeInteger (lease_revision l) ''lease.revision'') (\<lambda>e. Inr l)))))"

section \<open>Statements shared by the operations\<close>

definition loadOpenEpisodeRow :: "string \<Rightarrow> episode_row option arbiter_tx" where
  "loadOpenEpisodeRow channelId =
     txget (\<lambda>db. find (\<lambda>e. ep_channel e = channelId \<and> ep_status e = Episode_open) (episodes db))"

definition fresh_episode :: "string \<Rightarrow> string \<Rightarrow> int \<Rightarrow> episode_row" where
  "fresh_episode episodeId channelId nowMs =
     \<lparr>ep_id = episodeId, ep_channel = channelId, ep_status = Episode_open, ep_pressure = 0,
      ep_turns = 0, ep_lastSpeaker = None, ep_openedAt = nowMs, ep_lastActivityAt = nowMs,
      ep_closedAt = None, ep_breaker = Breaker_closed, ep_revision = 1\<rparr>"

definition ensureOpenEpisode :: "string \<Rightarrow> int \<Rightarrow> string \<Rightarrow> episode_row arbiter_tx" where
  "ensureOpenEpisode channelId nowMs freshId =
     txbind (loadOpenEpisodeRow channelId) (\<lambda>existing.
     case existing of
       Some e \<Rightarrow> txret e
     | None \<Rightarrow>
         txbind (exec (\<lambda>db. db\<lparr>episodes := episodes db @ [fresh_episode freshId channelId nowMs]\<rparr>))
           (\<lambda>_. txret (fresh_episode freshId channelId nowMs)))"

definition ensureParticipant :: "string \<Rightarrow> string \<Rightarrow> unit arbiter_tx" where
  "ensureParticipant episodeId companionId =
     exec (\<lambda>db.
       if list_ex (\<lambda>p. part_episode p = episodeId \<and> part_companion p = companionId) (participation db)
       then db
       else db\<lparr>participation := participation db @
              [\<lparr>part_episode = episodeId, part_companion = companionId, part_speakCount = 0,
                part_lastSpokeAt = None\<rparr>]\<rparr>)"

text \<open>
  Participants in speak-least order: never spoken first, then least recent, ties by companion id.
\<close>

definition participant_order :: "participant_row \<Rightarrow> (bool \<times> int) \<times> string" where
  "participant_order p =
     (case part_lastSpokeAt p of None \<Rightarrow> (False, 0) | Some t \<Rightarrow> (True, t), part_companion p)"

definition loadEpisodeSnapshot :: "string \<Rightarrow> room_episode_snapshot arbiter_tx" where
  "loadEpisodeSnapshot episodeId =
     txbind (txget (\<lambda>db. find (\<lambda>e. ep_id e = episodeId) (episodes db))) (\<lambda>row.
     case row of
       None \<Rightarrow> txthrow (''speaking room episode '' @ episodeId @ '' not found'')
     | Some e \<Rightarrow>
         txbind (txget (\<lambda>db. sort_key participant_order
                   (filter (\<lambda>p. part_episode p = episodeId) (participation db)))) (\<lambda>ps.
         txpure (toEpisodeSnapshot e ps)))"

section \<open>Room episodes\<close>

abbreviation arbiter_transaction :: "'a arbiter_tx \<Rightarrow> arbiter_store \<Rightarrow> 'a result \<times> arbiter_store" where
  "arbiter_transaction \<equiv> store_transaction ''speaking arbiter store is closed''"

definition ensureRoomEpisode_tx :: "string \<Rightarrow> int \<Rightarrow> string \<Rightarrow> room_episode_snapshot arbiter_tx" where
  "ensureRoomEpisode_tx channelId nowMs freshId =
     txbind (ensureOpenEpisode channelId nowMs freshId) (\<lambda>e. loadEpisodeSnapshot (ep_id e))"

definition ensureRoomEpisode ::
  "string \<Rightarrow> jsnum \<Rightarrow> string \<Rightarrow> arbiter_store \<Rightarrow> room_episode_snapshot result \<times> arbiter_store" where
  "ensureRoomEpisode channelId nowMs freshId =
     guarded (requireIdentifier channelId ''speakingArbiter.channelId'') (\<lambda>ch.
     guarded (requireTimestamp nowMs ''speakingArbiter.nowMs'') (\<lambda>now.
     arbiter_transaction (ensureRoomEpisode_tx ch now freshId)))"

definition readRoomEpisode ::
  "string \<Rightarrow> arbiter_store \<Rightarrow> room_episode_snapshot option result \<times> arbiter_store" where
  "readRoomEpisode channelId =
     guarded (requireIdentifier channelId ''speakingArbiter.channelId'') (\<lambda>ch.
     arbiter_transaction
       (txbind (loadOpenEpisodeRow ch) (\<lambda>row.
        case row of None \<Rightarrow> txret None
        | Some e \<Rightarrow> txbind (loadEpisodeSnapshot (ep_id e)) (\<lambda>s. txret (Some s)))))"

definition readRoomEpisodeBreakerState ::
  "string \<Rightarrow> arbiter_store \<Rightarrow> room_breaker_state result \<times> arbiter_store" where
  "readRoomEpisodeBreakerState channelId =
     guarded (requireIdentifier channelId ''speakingArbiter.channelId'') (\<lambda>ch.
     arbiter_transaction
       (txget (\<lambda>db. case find (\<lambda>e. ep_channel e = ch \<and> ep_status e = Episode_open) (episodes db) of
                      None \<Rightarrow> Breaker_closed | Some e \<Rightarrow> ep_breaker e)))"

definition persistBreaker_tx :: "string \<Rightarrow> room_breaker_state \<Rightarrow> int \<Rightarrow> unit arbiter_tx" where
  "persistBreaker_tx channelId state nowMs =
     exec (\<lambda>db. db\<lparr>episodes :=
       update_where (\<lambda>e. ep_channel e = channelId \<and> ep_status e = Episode_open)
         (\<lambda>e. e\<lparr>ep_breaker := state, ep_lastActivityAt := max (ep_lastActivityAt e) nowMs,
                ep_revision := ep_revision e + 1\<rparr>) (episodes db)\<rparr>)"

definition persistRoomEpisodeBreakerState ::
  "string \<Rightarrow> room_breaker_state \<Rightarrow> jsnum \<Rightarrow> arbiter_store \<Rightarrow> unit result \<times> arbiter_store" where
  "persistRoomEpisodeBreakerState channelId state nowMs =
     guarded (requireIdentifier channelId ''speakingArbiter.channelId'') (\<lambda>ch.
     guarded (requireTimestamp nowMs ''speakingArbiter.nowMs'') (\<lambda>now.
     arbiter_transaction (persistBreaker_tx ch state now)))"

definition listActiveReservers ::
  "string \<Rightarrow> string \<Rightarrow> jsnum \<Rightarrow> arbiter_store \<Rightarrow> string list result \<times> arbiter_store" where
  "listActiveReservers channelId triggerEventId nowMs =
     guarded (requireIdentifier channelId ''speakingArbiter.channelId'') (\<lambda>ch.
     guarded (requireIdentifier triggerEventId ''speakingArbiter.triggerEventId'') (\<lambda>ev.
     guarded (requireTimestamp nowMs ''speakingArbiter.nowMs'') (\<lambda>now.
     arbiter_transaction
       (txget (\<lambda>db. sort (map res_companion
          (filter (\<lambda>r. res_channel r = ch \<and> res_event r = ev
                        \<and> isReservationActive (res_status r) (res_expiresAt r) now)
            (reservations db))))))))"

definition closeRoomEpisode_tx :: "string \<Rightarrow> int \<Rightarrow> room_episode_snapshot option arbiter_tx" where
  "closeRoomEpisode_tx channelId nowMs =
     txbind (loadOpenEpisodeRow channelId) (\<lambda>row.
     case row of
       None \<Rightarrow> txret None
     | Some e \<Rightarrow>
         txbind (txpure (requireSafeInteger (ep_openedAt e) ''episode.openedAtMs'')) (\<lambda>opened.
         let closedAt = max nowMs opened in
         txbind (exec (\<lambda>db. db\<lparr>episodes :=
             update_where (\<lambda>r. ep_id r = ep_id e)
               (\<lambda>r. r\<lparr>ep_status := Episode_closed, ep_closedAt := Some closedAt,
                      ep_lastActivityAt := max (ep_lastActivityAt r) closedAt,
                      ep_revision := ep_revision r + 1\<rparr>) (episodes db)\<rparr>)) (\<lambda>_.
         txbind (loadEpisodeSnapshot (ep_id e)) (\<lambda>s. txret (Some s)))))"

definition closeRoomEpisode ::
  "string \<Rightarrow> jsnum \<Rightarrow> arbiter_store \<Rightarrow> room_episode_snapshot option result \<times> arbiter_store" where
  "closeRoomEpisode channelId nowMs =
     guarded (requireIdentifier channelId ''speakingArbiter.channelId'') (\<lambda>ch.
     guarded (requireTimestamp nowMs ''speakingArbiter.nowMs'') (\<lambda>now.
     arbiter_transaction (closeRoomEpisode_tx ch now)))"

definition recordHumanActivity_tx :: "string \<Rightarrow> int \<Rightarrow> string \<Rightarrow> room_episode_snapshot arbiter_tx" where
  "recordHumanActivity_tx channelId nowMs freshId =
     txbind (ensureOpenEpisode channelId nowMs freshId) (\<lambda>e.
     txbind (exec (\<lambda>db. db\<lparr>episodes :=
         update_where (\<lambda>r. ep_id r = ep_id e)
           (\<lambda>r. r\<lparr>ep_turns := 0, ep_lastActivityAt := max (ep_lastActivityAt r) nowMs,
                  ep_revision := ep_revision r + 1\<rparr>) (episodes db)\<rparr>)) (\<lambda>_.
     loadEpisodeSnapshot (ep_id e)))"

definition recordHumanActivity ::
  "string \<Rightarrow> jsnum \<Rightarrow> string \<Rightarrow> arbiter_store \<Rightarrow> room_episode_snapshot result \<times> arbiter_store" where
  "recordHumanActivity channelId nowMs freshId =
     guarded (requireIdentifier channelId ''speakingArbiter.channelId'') (\<lambda>ch.
     guarded (requireTimestamp nowMs ''speakingArbiter.nowMs'') (\<lambda>now.
     arbiter_transaction (recordHumanActivity_tx ch now freshId)))"

section \<open>Reservations\<close>

datatype reserve_outcome = Reserve_reserved | Reserve_replayed

record reserve_result =
  reserve_outcome :: reserve_outcome
  reserve_reservation :: reservation_row
  reserve_episode :: room_episode_snapshot

definition fresh_reservation ::
  "string \<Rightarrow> string \<Rightarrow> string \<Rightarrow> string \<Rightarrow> string \<Rightarrow> int \<Rightarrow> int \<Rightarrow> reservation_row" where
  "fresh_reservation rid ch ev cid eid now expires =
     \<lparr>res_id = rid, res_channel = ch, res_event = ev, res_companion = cid, res_episode = eid,
      res_status = Res_reserved, res_reason = None, res_reservedAt = now, res_expiresAt = expires,
      res_finalizedAt = None, res_revision = 1\<rparr>"

definition reserve_tx ::
  "string \<Rightarrow> string \<Rightarrow> string \<Rightarrow> string \<Rightarrow> int \<Rightarrow> int \<Rightarrow> string \<Rightarrow> reserve_result arbiter_tx" where
  "reserve_tx reservationId ch ev companionId nowMs expiresAtMs freshId =
     txbind (ensureOpenEpisode ch nowMs freshId) (\<lambda>e.
     txbind (txpure (requireSafeInteger (ep_lastActivityAt e) ''episode.lastActivityAtMs'')) (\<lambda>active.
     txbind (txif (nowMs > active)
       (exec (\<lambda>db. db\<lparr>episodes :=
          update_where (\<lambda>r. ep_id r = ep_id e)
            (\<lambda>r. r\<lparr>ep_lastActivityAt := nowMs, ep_revision := ep_revision r + 1\<rparr>)
            (episodes db)\<rparr>))) (\<lambda>_.
     txbind (ensureParticipant (ep_id e) companionId) (\<lambda>_.
     txbind (txget (\<lambda>db. find (\<lambda>r. res_channel r = ch \<and> res_event r = ev
                               \<and> res_companion r = companionId) (reservations db))) (\<lambda>existing.
     case existing of
       None \<Rightarrow>
         (let row = fresh_reservation reservationId ch ev companionId (ep_id e) nowMs expiresAtMs in
          txbind (exec (\<lambda>db. db\<lparr>reservations := reservations db @ [row]\<rparr>)) (\<lambda>_.
          txbind (txpure (toReservationSnapshot row)) (\<lambda>r.
          txbind (loadEpisodeSnapshot (res_episode r)) (\<lambda>s.
          txret \<lparr>reserve_outcome = Reserve_reserved, reserve_reservation = r, reserve_episode = s\<rparr>))))
     | Some row \<Rightarrow>
          txbind (txpure (toReservationSnapshot row)) (\<lambda>r.
          txbind (loadEpisodeSnapshot (res_episode r)) (\<lambda>s.
          txret \<lparr>reserve_outcome = Reserve_replayed, reserve_reservation = r,
                 reserve_episode = s\<rparr>)))))))"

definition reserve ::
  "string \<Rightarrow> string \<Rightarrow> string \<Rightarrow> string \<Rightarrow> jsnum \<Rightarrow> jsnum \<Rightarrow> string \<Rightarrow> arbiter_store \<Rightarrow>
     reserve_result result \<times> arbiter_store" where
  "reserve reservationId channelId triggerEventId companionId nowMs expiresAtMs freshId =
     guarded (requireUuid reservationId ''speakingArbiter.reservationId'') (\<lambda>rid.
     guarded (requireIdentifier channelId ''speakingArbiter.channelId'') (\<lambda>ch.
     guarded (requireIdentifier triggerEventId ''speakingArbiter.triggerEventId'') (\<lambda>ev.
     guarded (requireUuid companionId ''speakingArbiter.companionId'') (\<lambda>cid.
     guarded (requireTimestamp nowMs ''speakingArbiter.nowMs'') (\<lambda>now.
     guarded (requireFutureDeadline expiresAtMs now ''speakingArbiter.reservation.expiresAtMs'') (\<lambda>expires.
     arbiter_transaction (reserve_tx rid ch ev cid now expires freshId)))))))"

definition release_row :: "arbiter_reason \<Rightarrow> int \<Rightarrow> reservation_row \<Rightarrow> reservation_row" where
  "release_row reason nowMs r =
     r\<lparr>res_status := Res_released, res_reason := Some reason, res_finalizedAt := Some nowMs,
       res_revision := res_revision r + 1\<rparr>"

definition releaseReservation_tx ::
  "string \<Rightarrow> string \<Rightarrow> arbiter_reason \<Rightarrow> int \<Rightarrow> reservation_row arbiter_tx" where
  "releaseReservation_tx reservationId channelId reason nowMs =
     txbind (txget (\<lambda>db. find (\<lambda>r. res_id r = reservationId) (reservations db))) (\<lambda>current.
     case current of
       None \<Rightarrow> txthrow (''speaking reservation '' @ reservationId @ '' not found'')
     | Some row \<Rightarrow>
         if res_channel row \<noteq> channelId
         then txthrow (''speaking reservation '' @ reservationId @ '' channel mismatch'')
         else if res_status row \<noteq> Res_reserved
         then (if res_reason row = Some reason then txpure (toReservationSnapshot row)
               else txthrow (''speaking reservation '' @ reservationId @ '' already terminal (''
                      @ reservationStatusText (res_status row) @ ''/'' @ reasonText (res_reason row)
                      @ '')''))
         else txbind (exec (\<lambda>db. db\<lparr>reservations :=
                  update_where (\<lambda>r. res_id r = reservationId \<and> res_status r = Res_reserved)
                    (release_row reason nowMs) (reservations db)\<rparr>)) (\<lambda>_.
              txpure (toReservationSnapshot (release_row reason nowMs row))))"

definition releaseReservation ::
  "string \<Rightarrow> string \<Rightarrow> arbiter_reason option \<Rightarrow> jsnum \<Rightarrow> arbiter_store \<Rightarrow>
     reservation_row result \<times> arbiter_store" where
  "releaseReservation reservationId channelId reason nowMs =
     guarded (requireUuid reservationId ''speakingArbiter.reservationId'') (\<lambda>rid.
     guarded (requireIdentifier channelId ''speakingArbiter.channelId'') (\<lambda>ch.
     guarded (requireTimestamp nowMs ''speakingArbiter.nowMs'') (\<lambda>now.
     guarded (case reason of None \<Rightarrow> Inl (Error ''speakingArbiter.releaseReservation requires a reason'')
              | Some r \<Rightarrow> Inr r) (\<lambda>why.
     arbiter_transaction (releaseReservation_tx rid ch why now)))))"

section \<open>Egress leases\<close>

datatype decline_reason = Decline_held | Decline_already_delivered

record held_by =
  heldBy_companionId :: string
  heldBy_leaseId :: string
  heldBy_fencingToken :: int

datatype acquire_result =
  Acq_acquired (acquired_lease: lease_row)
| Acq_declined (acquire_heldBy: held_by) (acquire_declineReason: decline_reason)

definition lease_of_event :: "string \<Rightarrow> string \<Rightarrow> lease_row \<Rightarrow> bool" where
  "lease_of_event ch ev l \<longleftrightarrow> lease_channel l = ch \<and> lease_event l = ev"

definition speech_terminal :: "lease_row \<Rightarrow> bool" where
  "speech_terminal l \<longleftrightarrow> lease_status l = Lease_delivered \<or> lease_status l = Lease_overridden"

text \<open>The speech-terminal lease with the highest token, the held lease, and the next token.\<close>

definition spent_lease :: "string \<Rightarrow> string \<Rightarrow> lease_row list \<Rightarrow> lease_row option" where
  "spent_lease ch ev ls =
     (case sort_key (\<lambda>l. - lease_token l) (filter (\<lambda>l. lease_of_event ch ev l \<and> speech_terminal l) ls) of
        [] \<Rightarrow> None | l # _ \<Rightarrow> Some l)"

definition held_lease :: "string \<Rightarrow> string \<Rightarrow> lease_row list \<Rightarrow> lease_row option" where
  "held_lease ch ev ls = find (\<lambda>l. lease_of_event ch ev l \<and> lease_status l = Lease_held) ls"

definition next_token :: "string \<Rightarrow> string \<Rightarrow> lease_row list \<Rightarrow> int" where
  "next_token ch ev ls = foldr max (map lease_token (filter (lease_of_event ch ev) ls)) 0 + 1"

definition heldBy_of :: "lease_row \<Rightarrow> held_by result" where
  "heldBy_of l =
     rbind (requireSafeInteger (lease_token l) ''lease.fencingToken'') (\<lambda>t.
     Inr \<lparr>heldBy_companionId = lease_companion l, heldBy_leaseId = lease_id l,
          heldBy_fencingToken = t\<rparr>)"

definition expire_lease :: "int \<Rightarrow> lease_row \<Rightarrow> lease_row" where
  "expire_lease nowMs l =
     l\<lparr>lease_status := Lease_expired, lease_reason := Some Expiry, lease_finalizedAt := Some nowMs,
       lease_revision := lease_revision l + 1\<rparr>"

definition fresh_lease ::
  "string \<Rightarrow> string \<Rightarrow> string \<Rightarrow> reservation_row \<Rightarrow> int \<Rightarrow> real \<Rightarrow> int \<Rightarrow> int \<Rightarrow> lease_row" where
  "fresh_lease leaseId reservationId ch rrow tok charged now expires =
     \<lparr>lease_id = leaseId, lease_reservation = reservationId, lease_channel = ch,
      lease_event = res_event rrow, lease_companion = res_companion rrow,
      lease_episode = res_episode rrow, lease_token = tok, lease_charged = charged,
      lease_status = Lease_held, lease_reason = None, lease_acquiredAt = now,
      lease_expiresAt = expires, lease_finalizedAt = None, lease_revision = 1\<rparr>"

definition grant_tx ::
  "string \<Rightarrow> string \<Rightarrow> string \<Rightarrow> reservation_row \<Rightarrow> real \<Rightarrow> int \<Rightarrow> int \<Rightarrow> acquire_result arbiter_tx" where
  "grant_tx leaseId reservationId ch rrow charged nowMs expiresAtMs =
     txbind (txget (\<lambda>db. next_token ch (res_event rrow) (leases db))) (\<lambda>next.
     txbind (txpure (requireSafeInteger next ''lease.fencingToken'')) (\<lambda>tok.
     let row = fresh_lease leaseId reservationId ch rrow tok charged nowMs expiresAtMs in
     txbind (exec (\<lambda>db. db\<lparr>leases := leases db @ [row]\<rparr>)) (\<lambda>_.
     txbind (txpure (toLeaseSnapshot row)) (\<lambda>l. txret (Acq_acquired l)))))"

definition acquire_tx ::
  "string \<Rightarrow> string \<Rightarrow> string \<Rightarrow> int \<Rightarrow> int \<Rightarrow> real \<Rightarrow> acquire_result arbiter_tx" where
  "acquire_tx leaseId reservationId ch nowMs expiresAtMs charged =
     txbind (txget (\<lambda>db. find (\<lambda>l. lease_id l = leaseId) (leases db))) (\<lambda>replay.
     case replay of
       Some l \<Rightarrow>
         if lease_reservation l \<noteq> reservationId \<or> lease_channel l \<noteq> ch
         then txthrow (''speaking egress lease '' @ leaseId @ '' replay binding mismatch'')
         else txbind (txpure (toLeaseSnapshot l)) (\<lambda>s. txret (Acq_acquired s))
     | None \<Rightarrow>
     txbind (txget (\<lambda>db. find (\<lambda>r. res_id r = reservationId) (reservations db))) (\<lambda>reservation.
     case reservation of
       None \<Rightarrow> txthrow (''speaking reservation '' @ reservationId @ '' not found'')
     | Some rrow \<Rightarrow>
     if res_channel rrow \<noteq> ch
     then txthrow (''speaking reservation '' @ reservationId @ '' channel mismatch'')
     else
     txbind (txget (\<lambda>db. spent_lease ch (res_event rrow) (leases db))) (\<lambda>spent.
     case spent of
       Some l \<Rightarrow>
         txbind (txpure (heldBy_of l)) (\<lambda>h. txret (Acq_declined h Decline_already_delivered))
     | None \<Rightarrow>
     if res_status rrow \<noteq> Res_reserved
     then txthrow (''speaking reservation '' @ reservationId @ '' is not reservable (''
            @ reservationStatusText (res_status rrow) @ '')'')
     else
     txbind (txpure (requireSafeInteger (res_expiresAt rrow) ''reservation.expiresAtMs'')) (\<lambda>resExpiry.
     if resExpiry \<le> nowMs
     then txthrow (''speaking reservation '' @ reservationId @ '' has expired'')
     else
     txbind (txget (\<lambda>db. held_lease ch (res_event rrow) (leases db))) (\<lambda>held.
     case held of
       None \<Rightarrow> grant_tx leaseId reservationId ch rrow charged nowMs expiresAtMs
     | Some h \<Rightarrow>
         txbind (txpure (requireSafeInteger (lease_expiresAt h) ''lease.expiresAtMs'')) (\<lambda>heldExpiry.
         if isEgressLeaseLive (lease_status h) heldExpiry nowMs
         then txbind (txpure (heldBy_of h)) (\<lambda>hb. txret (Acq_declined hb Decline_held))
         else
           txbind (exec (\<lambda>db. db\<lparr>leases :=
               update_where (\<lambda>l. lease_id l = lease_id h \<and> lease_status l = Lease_held)
                 (expire_lease nowMs) (leases db)\<rparr>)) (\<lambda>_.
           grant_tx leaseId reservationId ch rrow charged nowMs expiresAtMs)))))))"

definition acquireEgressLease ::
  "string \<Rightarrow> string \<Rightarrow> string \<Rightarrow> jsnum \<Rightarrow> jsnum \<Rightarrow> jsnum option \<Rightarrow> arbiter_store \<Rightarrow>
     acquire_result result \<times> arbiter_store" where
  "acquireEgressLease leaseId reservationId channelId nowMs expiresAtMs chargedUnits =
     guarded (requireUuid leaseId ''speakingArbiter.leaseId'') (\<lambda>lid.
     guarded (requireUuid reservationId ''speakingArbiter.reservationId'') (\<lambda>rid.
     guarded (requireIdentifier channelId ''speakingArbiter.channelId'') (\<lambda>ch.
     guarded (requireTimestamp nowMs ''speakingArbiter.nowMs'') (\<lambda>now.
     guarded (requireFutureDeadline expiresAtMs now ''speakingArbiter.lease.expiresAtMs'') (\<lambda>expires.
     guarded (case chargedUnits of None \<Rightarrow> Inr (Fin 0)
              | Some u \<Rightarrow> assertNonNegativeFinite u ''speakingArbiter.lease.chargedUnits'') (\<lambda>charged.
     arbiter_transaction (acquire_tx lid rid ch now expires (numval charged))))))))"

definition complete_lease :: "lease_completion \<Rightarrow> int \<Rightarrow> lease_row \<Rightarrow> lease_row" where
  "complete_lease completion nowMs l =
     l\<lparr>lease_status := completionStatus completion,
       lease_reason := Some (speakingCompletionReason completion),
       lease_finalizedAt := Some nowMs, lease_revision := lease_revision l + 1\<rparr>"

definition charge_episode :: "real \<Rightarrow> string \<Rightarrow> int \<Rightarrow> episode_row \<Rightarrow> episode_row" where
  "charge_episode delta companionId nowMs e =
     e\<lparr>ep_pressure := ep_pressure e + delta, ep_turns := ep_turns e + 1,
       ep_lastSpeaker := Some companionId, ep_lastActivityAt := max (ep_lastActivityAt e) nowMs,
       ep_revision := ep_revision e + 1\<rparr>"

definition count_speech :: "string \<Rightarrow> string \<Rightarrow> int \<Rightarrow> participant_row list \<Rightarrow> participant_row list" where
  "count_speech eid cid nowMs ps =
     (if list_ex (\<lambda>p. part_episode p = eid \<and> part_companion p = cid) ps
      then update_where (\<lambda>p. part_episode p = eid \<and> part_companion p = cid)
             (\<lambda>p. p\<lparr>part_speakCount := part_speakCount p + 1, part_lastSpokeAt := Some nowMs\<rparr>) ps
      else ps @ [\<lparr>part_episode = eid, part_companion = cid, part_speakCount = 1,
                  part_lastSpokeAt = Some nowMs\<rparr>])"

text \<open>The effects of a speech completion beside the lease and its own reservation.\<close>

definition record_speech_tx :: "lease_row \<Rightarrow> int \<Rightarrow> real \<Rightarrow> unit arbiter_tx" where
  "record_speech_tx l nowMs pressureDelta =
     txbind (exec (\<lambda>db. db\<lparr>reservations :=
         update_where (\<lambda>r. res_channel r = lease_channel l \<and> res_event r = lease_event l
                          \<and> res_status r = Res_reserved \<and> res_id r \<noteq> lease_reservation l)
           (release_row Superseded nowMs) (reservations db)\<rparr>)) (\<lambda>_.
     txbind (exec (\<lambda>db. db\<lparr>episodes :=
         update_where (\<lambda>e. ep_id e = lease_episode l)
           (charge_episode pressureDelta (lease_companion l) nowMs) (episodes db)\<rparr>)) (\<lambda>_.
     exec (\<lambda>db. db\<lparr>participation :=
         count_speech (lease_episode l) (lease_companion l) nowMs (participation db)\<rparr>)))"

definition complete_tx ::
  "string \<Rightarrow> string \<Rightarrow> int \<Rightarrow> lease_completion \<Rightarrow> int \<Rightarrow> real \<Rightarrow> lease_row arbiter_tx" where
  "complete_tx leaseId ch fencingToken completion nowMs pressureDelta =
     (let reason = speakingCompletionReason completion in
     txbind (txget (\<lambda>db. find (\<lambda>l. lease_id l = leaseId) (leases db))) (\<lambda>current.
     case current of
       None \<Rightarrow> txthrow (''speaking egress lease '' @ leaseId @ '' not found'')
     | Some row \<Rightarrow>
     if lease_channel row \<noteq> ch
     then txthrow (''speaking egress lease '' @ leaseId @ '' channel mismatch'')
     else
     txbind (txpure (requireSafeInteger (lease_token row) ''lease.fencingToken'')) (\<lambda>tok.
     if tok \<noteq> fencingToken
     then txthrow (''speaking egress lease '' @ leaseId @ '' stale fencing token'')
     else if lease_status row \<noteq> Lease_held
     then (if lease_reason row = Some reason then txpure (toLeaseSnapshot row)
           else txthrow (''speaking egress lease '' @ leaseId @ '' already terminal (''
                  @ leaseStatusText (lease_status row) @ ''/'' @ reasonText (lease_reason row) @ '')''))
     else
     txbind (exec (\<lambda>db. db\<lparr>leases :=
         update_where (\<lambda>l. lease_id l = leaseId \<and> lease_status l = Lease_held
                          \<and> lease_token l = fencingToken)
           (complete_lease completion nowMs) (leases db)\<rparr>)) (\<lambda>_.
     txbind (exec (\<lambda>db. db\<lparr>reservations :=
         update_where (\<lambda>r. res_id r = lease_reservation row \<and> res_status r = Res_reserved)
           (release_row reason nowMs) (reservations db)\<rparr>)) (\<lambda>_.
     txbind (txif (speakingCompletionIsSpeech completion)
       (record_speech_tx row nowMs pressureDelta)) (\<lambda>_.
     txpure (toLeaseSnapshot (complete_lease completion nowMs row))))))))"

definition completeEgressLease ::
  "string \<Rightarrow> string \<Rightarrow> int \<Rightarrow> lease_completion \<Rightarrow> jsnum \<Rightarrow> jsnum option \<Rightarrow> arbiter_store \<Rightarrow>
     lease_row result \<times> arbiter_store" where
  "completeEgressLease leaseId channelId fencingToken completion nowMs pressureDelta =
     guarded (requireUuid leaseId ''speakingArbiter.leaseId'') (\<lambda>lid.
     guarded (requireIdentifier channelId ''speakingArbiter.channelId'') (\<lambda>ch.
     guarded (requireSafeInteger fencingToken ''speakingArbiter.fencingToken'') (\<lambda>tok.
     guarded (requireTimestamp nowMs ''speakingArbiter.nowMs'') (\<lambda>now.
     guarded (case pressureDelta of None \<Rightarrow> Inr (Fin 0)
              | Some u \<Rightarrow> assertNonNegativeFinite u ''speakingArbiter.pressureDelta'') (\<lambda>delta.
     arbiter_transaction (complete_tx lid ch tok completion now (numval delta)))))))"

section \<open>The watchdog sweep\<close>

record sweep_result =
  sweep_expiredReservations :: nat
  sweep_expiredLeases :: nat

definition sweep_scope :: "string option \<Rightarrow> string \<Rightarrow> bool" where
  "sweep_scope channelId ch \<longleftrightarrow> (case channelId of None \<Rightarrow> True | Some c \<Rightarrow> ch = c)"

definition lease_lapsed :: "string option \<Rightarrow> int \<Rightarrow> lease_row \<Rightarrow> bool" where
  "lease_lapsed channelId nowMs l \<longleftrightarrow>
     lease_status l = Lease_held \<and> lease_expiresAt l \<le> nowMs \<and> sweep_scope channelId (lease_channel l)"

definition reservation_lapsed :: "string option \<Rightarrow> int \<Rightarrow> lease_row list \<Rightarrow> reservation_row \<Rightarrow> bool" where
  "reservation_lapsed channelId nowMs ls r \<longleftrightarrow>
     res_status r = Res_reserved \<and> res_expiresAt r \<le> nowMs \<and> sweep_scope channelId (res_channel r)
     \<and> \<not> list_ex (\<lambda>l. lease_reservation l = res_id r \<and> lease_status l = Lease_held) ls"

definition expire_reservation :: "int \<Rightarrow> reservation_row \<Rightarrow> reservation_row" where
  "expire_reservation nowMs r =
     r\<lparr>res_status := Res_expired, res_reason := Some Expiry, res_finalizedAt := Some nowMs,
       res_revision := res_revision r + 1\<rparr>"

definition sweep_tx :: "string option \<Rightarrow> int \<Rightarrow> sweep_result arbiter_tx" where
  "sweep_tx channelId nowMs =
     txbind (txget (\<lambda>db. length (filter (lease_lapsed channelId nowMs) (leases db)))) (\<lambda>nl.
     txbind (exec (\<lambda>db. db\<lparr>leases :=
         update_where (lease_lapsed channelId nowMs) (expire_lease nowMs) (leases db)\<rparr>)) (\<lambda>_.
     txbind (txget (\<lambda>db. length (filter (reservation_lapsed channelId nowMs (leases db))
                                  (reservations db)))) (\<lambda>nr.
     txbind (exec (\<lambda>db. db\<lparr>reservations :=
         update_where (reservation_lapsed channelId nowMs (leases db)) (expire_reservation nowMs)
           (reservations db)\<rparr>)) (\<lambda>_.
     txret \<lparr>sweep_expiredReservations = nr, sweep_expiredLeases = nl\<rparr>))))"

definition sweepExpired ::
  "string option \<Rightarrow> jsnum \<Rightarrow> arbiter_store \<Rightarrow> sweep_result result \<times> arbiter_store" where
  "sweepExpired channelId nowMs =
     guarded (requireTimestamp nowMs ''speakingArbiter.nowMs'') (\<lambda>now.
     guarded (case channelId of None \<Rightarrow> Inr None
              | Some c \<Rightarrow> rbind (requireIdentifier c ''speakingArbiter.channelId'') (Inr \<circ> Some)) (\<lambda>ch.
     arbiter_transaction (sweep_tx ch now)))"

definition closeArbiter :: "arbiter_store \<Rightarrow> arbiter_store" where
  "closeArbiter st = st\<lparr>store_closed := True\<rparr>"

end
