(* ===== verification/Arbiter_Safety.thy ===== *)
theory Arbiter_Safety
  imports Arbiter_Store
begin

text \<open>
  Safety of the speaking arbiter store. Every room event is seen as one slot that is idle,
  held or spent; the slot automaton is the abstract specification, and each store operation
  is shown to move every slot along it. The send-once guarantee, the fencing order and the
  permanence of a spoken event follow for every reachable state of the store, with arbitrary
  arguments and clocks.
\<close>

section \<open>Event slots\<close>

definition event_leases :: "string \<Rightarrow> string \<Rightarrow> arbiter_db \<Rightarrow> lease_row list" where
  "event_leases ch ev db = filter (lease_of_event ch ev) (leases db)"

definition lease_dead :: "lease_row \<Rightarrow> bool" where
  "lease_dead l \<longleftrightarrow> lease_status l \<noteq> Lease_held \<and> \<not> speech_terminal l"

datatype slot = Idle int | Held_by string int | Spent_by string int

definition slot_of :: "lease_row list \<Rightarrow> slot" where
  "slot_of L =
     (if L = [] then Idle 0
      else if lease_status (last L) = Lease_held then Held_by (lease_id (last L)) (lease_token (last L))
      else if speech_terminal (last L) then Spent_by (lease_id (last L)) (lease_token (last L))
      else Idle (lease_token (last L)))"

text \<open>
  The automaton: an idle slot that has issued \<open>n\<close> tokens can be granted with token \<open>n + 1\<close>; a
  held slot is relinquished (released, failed, expired) or spoken; a spent slot is final.
\<close>

inductive slot_step :: "slot \<Rightarrow> slot \<Rightarrow> bool" where
  slot_grant: "slot_step (Idle n) (Held_by lid (n + 1))"
| slot_relinquish: "slot_step (Held_by lid n) (Idle n)"
| slot_speak: "slot_step (Held_by lid n) (Spent_by lid n)"

inductive_cases slot_step_SpentE: "slot_step (Spent_by lid n) s"

abbreviation slot_steps :: "slot \<Rightarrow> slot \<Rightarrow> bool" where
  "slot_steps \<equiv> slot_step\<^sup>*\<^sup>*"

lemma slot_steps_Spent: "slot_steps (Spent_by lid n) s \<Longrightarrow> s = Spent_by lid n"
  by (erule converse_rtranclpE) (auto elim: slot_step_SpentE)

text \<open>
  The invariant of one event: tokens strictly increase in grant order and only the newest
  lease can be held or spoken.
\<close>

definition slot_ok :: "lease_row list \<Rightarrow> bool" where
  "slot_ok L \<longleftrightarrow>
     sorted_wrt (<) (map lease_token L) \<and> (\<forall>l \<in> set L. 1 \<le> lease_token l)
     \<and> (\<forall>l \<in> set (butlast L). lease_dead l)"

lemma slot_ok_Nil [simp]: "slot_ok []"
  by (simp add: slot_ok_def)

lemma slot_ok_last:
  assumes "slot_ok L" "l \<in> set L" "\<not> lease_dead l"
  shows "l = last L"
proof -
  have "L \<noteq> []" using assms(2) by auto
  then have "L = butlast L @ [last L]" by simp
  then have "set L = set (butlast L) \<union> {last L}" by (metis set_append list.simps(15) empty_set)
  then show ?thesis using assms by (auto simp: slot_ok_def)
qed

lemma foldr_max_last:
  fixes xs :: "int list"
  assumes "sorted_wrt (<) xs" "\<forall>x \<in> set xs. 1 \<le> x"
  shows "foldr max xs 0 = (if xs = [] then 0 else last xs)"
  using assms
proof (induction xs)
  case (Cons x xs)
  show ?case
  proof (cases "xs = []")
    case False
    then have "x < last xs" using Cons.prems by simp
    then show ?thesis using Cons False by simp
  qed (use Cons.prems in simp)
qed simp

lemma next_token_slot:
  assumes "slot_ok (event_leases ch ev db)"
  shows "next_token ch ev (leases db) =
     (if event_leases ch ev db = [] then 1 else lease_token (last (event_leases ch ev db)) + 1)"
  using assms foldr_max_last [of "map lease_token (event_leases ch ev db)"]
  by (auto simp: next_token_def event_leases_def slot_ok_def last_map)

lemma slot_ok_append:
  assumes "slot_ok L" "L \<noteq> [] \<Longrightarrow> lease_dead (last L)"
    and "lease_token l = (if L = [] then 1 else lease_token (last L) + 1)"
  shows "slot_ok (L @ [l])"
proof (cases L rule: rev_cases)
  case Nil
  then show ?thesis using assms by (simp add: slot_ok_def)
next
  case (snoc xs y)
  have "\<forall>x \<in> set xs. lease_token x < lease_token y" "lease_dead y" "1 \<le> lease_token y"
    using assms(1,2) snoc by (auto simp: slot_ok_def sorted_wrt_append)
  then show ?thesis
    using assms(1,3) snoc by (force simp: slot_ok_def sorted_wrt_append butlast_append)
qed

text \<open>Updates of held leases: they keep the invariant and relinquish or speak the slot.\<close>

lemma slot_ok_update:
  assumes "slot_ok L" "\<And>l. P l \<Longrightarrow> lease_status l = Lease_held"
    and "\<And>l. P l \<Longrightarrow> lease_token (f l) = lease_token l"
  shows "slot_ok (update_where P f L)"
proof -
  have "update_where P f (butlast L) = butlast L"
    using assms(1,2) by (intro update_where_none) (auto simp: slot_ok_def lease_dead_def)
  moreover have "lease_token l' \<ge> 1" if "l' \<in> set (update_where P f L)" for l'
    using that assms(1,3) by (auto simp: set_update_where slot_ok_def split: if_splits)
  ultimately show ?thesis
    using assms(1,3) by (simp add: slot_ok_def map_update_where butlast_update_where)
qed

lemma slot_step_update:
  assumes "slot_ok L" "\<And>l. P l \<Longrightarrow> lease_status l = Lease_held"
    and "\<And>l. P l \<Longrightarrow> lease_token (f l) = lease_token l \<and> lease_id (f l) = lease_id l"
    and "\<And>l. P l \<Longrightarrow> lease_status (f l) \<noteq> Lease_held"
  shows "slot_steps (slot_of L) (slot_of (update_where P f L))"
proof (cases "L \<noteq> [] \<and> P (last L)")
  case True
  then have l: "last (update_where P f L) = f (last L)" "update_where P f L \<noteq> []"
    by (auto simp: last_update_where)
  have "slot_step (slot_of L) (slot_of (update_where P f L))"
    using True assms(2-4) [of "last L"] l
    by (auto simp: slot_of_def intro: slot_relinquish slot_speak)
  then show ?thesis by blast
next
  case False
  have "\<not> P l" if "l \<in> set L" for l
  proof
    assume "P l"
    then have "\<not> lease_dead l" using assms(2) by (simp add: lease_dead_def)
    then have "l = last L" using slot_ok_last [OF assms(1) that] by simp
    then show False using False that \<open>P l\<close> by auto
  qed
  then have "update_where P f L = L" by (intro update_where_none)
  then show ?thesis by simp
qed

section \<open>The store invariant\<close>

definition res_keys :: "reservation_row \<Rightarrow> string \<times> string \<times> string \<times> string \<times> string" where
  "res_keys r = (res_id r, res_channel r, res_event r, res_companion r, res_episode r)"

definition lease_keys :: "lease_row \<Rightarrow> string \<times> string \<times> string \<times> string \<times> string" where
  "lease_keys l =
     (lease_reservation l, lease_channel l, lease_event l, lease_companion l, lease_episode l)"

definition leases_bound :: "arbiter_db \<Rightarrow> bool" where
  "leases_bound db \<longleftrightarrow> lease_keys ` set (leases db) \<subseteq> res_keys ` set (reservations db)"

text \<open>The recorded reason tells whether a lease was spoken.\<close>

definition reason_ok :: "lease_row \<Rightarrow> bool" where
  "reason_ok l \<longleftrightarrow>
     speech_terminal l = (lease_reason l = Some Reason_delivered \<or> lease_reason l = Some Urgent_override)"

definition arb_inv :: "arbiter_db \<Rightarrow> bool" where
  "arb_inv db \<longleftrightarrow> arbiter_constraints db \<and> leases_bound db \<and> (\<forall>l \<in> set (leases db). reason_ok l)
     \<and> (\<forall>ch ev. slot_ok (event_leases ch ev db))"

text \<open>What one transaction may do: keep the invariant and move every slot along the automaton.\<close>

definition arb_rel :: "arbiter_db \<Rightarrow> arbiter_db \<Rightarrow> bool" where
  "arb_rel db db' \<longleftrightarrow>
     (arb_inv db \<longrightarrow> arb_inv db' \<and>
        (\<forall>ch ev. slot_steps (slot_of (event_leases ch ev db)) (slot_of (event_leases ch ev db'))))"

lemma arb_rel_refl [tx_rules]: "reflp arb_rel"
  by (simp add: reflp_def arb_rel_def)

lemma arb_rel_trans [tx_rules]: "transp arb_rel"
  unfolding transp_def arb_rel_def by (blast intro: rtranclp_trans)

lemma arb_rel_same_leases:
  assumes "arbiter_constraints db'" "leases db' = leases db"
    and "res_keys ` set (reservations db) \<subseteq> res_keys ` set (reservations db')"
  shows "arb_rel db db'"
  using assms subset_trans [OF _ assms(3)]
  by (simp add: arb_rel_def arb_inv_def event_leases_def leases_bound_def)

lemma arb_rel_lease_update:
  assumes c: "arbiter_constraints (db\<lparr>leases := update_where P f (leases db)\<rparr>)"
    and P: "\<And>l. P l \<Longrightarrow> lease_status l = Lease_held"
    and f: "\<And>l. P l \<Longrightarrow> lease_token (f l) = lease_token l \<and> lease_id (f l) = lease_id l
                 \<and> lease_keys (f l) = lease_keys l \<and> lease_status (f l) \<noteq> Lease_held \<and> reason_ok (f l)"
  shows "arb_rel db (db\<lparr>leases := update_where P f (leases db)\<rparr>)"
proof -
  let ?db = "db\<lparr>leases := update_where P f (leases db)\<rparr>"
  have ev: "event_leases ch ev ?db = update_where P f (event_leases ch ev db)" for ch ev
    unfolding event_leases_def
    using f by (simp, intro filter_update_where) (auto simp: lease_of_event_def lease_keys_def)
  have keys: "lease_keys ` set (leases ?db) = lease_keys ` set (leases db)"
    using f by (simp add: image_update_where)
  show ?thesis
    unfolding arb_rel_def arb_inv_def
  proof (intro impI conjI allI; elim conjE)
    fix ch ev
    assume ok: "\<forall>ch ev. slot_ok (event_leases ch ev db)"
    show "slot_ok (event_leases ch ev ?db)"
      unfolding ev using ok P f by (intro slot_ok_update) auto
    show "slot_steps (slot_of (event_leases ch ev db)) (slot_of (event_leases ch ev ?db))"
      unfolding ev using ok P f by (intro slot_step_update) auto
  next
    assume "leases_bound db"
    then show "leases_bound ?db" using keys by (simp add: leases_bound_def)
  next
    assume "\<forall>l \<in> set (leases db). reason_ok l"
    then show "\<forall>l \<in> set (leases ?db). reason_ok l" using f by (auto simp: set_update_where)
  qed (rule c)
qed

text \<open>Statements that leave the leases alone.\<close>

lemma exec_episodes [tx_rules]: "tx_within arb_rel (exec (\<lambda>db. db\<lparr>episodes := f db\<rparr>))"
  by (intro tx_within_exec arb_rel_same_leases) auto

lemma exec_participation [tx_rules]: "tx_within arb_rel (exec (\<lambda>db. db\<lparr>participation := f db\<rparr>))"
  by (intro tx_within_exec arb_rel_same_leases) auto

lemma exec_participation_if [tx_rules]:
  "tx_within arb_rel (exec (\<lambda>db. if b db then db else db\<lparr>participation := f db\<rparr>))"
  by (intro tx_within_exec arb_rel_same_leases) auto

lemma exec_reservation_insert [tx_rules]:
  "tx_within arb_rel (exec (\<lambda>db. db\<lparr>reservations := reservations db @ [r]\<rparr>))"
  by (intro tx_within_exec arb_rel_same_leases) auto

lemma exec_reservation_update:
  assumes "\<And>r. res_keys (f r) = res_keys r"
  shows "tx_within arb_rel (exec (\<lambda>db. db\<lparr>reservations := update_where (P db) f (reservations db)\<rparr>))"
  by (intro tx_within_exec arb_rel_same_leases) (use assms in \<open>simp_all add: image_update_where\<close>)

lemma exec_release [tx_rules]:
  "tx_within arb_rel (exec (\<lambda>db. db\<lparr>reservations :=
     update_where (P db) (release_row reason n) (reservations db)\<rparr>))"
  by (rule exec_reservation_update) (simp add: res_keys_def release_row_def)

lemma exec_expire_reservation [tx_rules]:
  "tx_within arb_rel (exec (\<lambda>db. db\<lparr>reservations :=
     update_where (P db) (expire_reservation n) (reservations db)\<rparr>))"
  by (rule exec_reservation_update) (simp add: res_keys_def expire_reservation_def)

text \<open>Statements that end a held lease.\<close>

lemma exec_expire_one [tx_rules]:
  "tx_within arb_rel (exec (\<lambda>db. db\<lparr>leases :=
     update_where (\<lambda>l. lease_id l = x \<and> lease_status l = Lease_held) (expire_lease n) (leases db)\<rparr>))"
  by (intro tx_within_exec arb_rel_lease_update) (auto simp: expire_lease_def lease_keys_def reason_ok_def speech_terminal_def)

lemma exec_expire_lapsed [tx_rules]:
  "tx_within arb_rel (exec (\<lambda>db. db\<lparr>leases :=
     update_where (lease_lapsed c n) (expire_lease n) (leases db)\<rparr>))"
  by (intro tx_within_exec arb_rel_lease_update) (auto simp: expire_lease_def lease_keys_def lease_lapsed_def reason_ok_def speech_terminal_def)

lemma exec_complete [tx_rules]:
  "tx_within arb_rel (exec (\<lambda>db. db\<lparr>leases :=
     update_where (\<lambda>l. lease_id l = x \<and> lease_status l = Lease_held \<and> lease_token l = t)
       (complete_lease c n) (leases db)\<rparr>))"
  by (intro tx_within_exec arb_rel_lease_update)
    (cases c; auto simp: complete_lease_def lease_keys_def reason_ok_def speech_terminal_def)+

section \<open>Every transaction stays within the automaton\<close>

lemma ensureOpenEpisode_within [tx_rules]: "tx_within arb_rel (ensureOpenEpisode ch n x)"
  unfolding ensureOpenEpisode_def loadOpenEpisodeRow_def by (intro tx_rules)

lemma loadEpisodeSnapshot_within [tx_rules]: "tx_within arb_rel (loadEpisodeSnapshot x)"
  unfolding loadEpisodeSnapshot_def by (intro tx_rules)

lemma loadOpenEpisodeRow_within [tx_rules]: "tx_within arb_rel (loadOpenEpisodeRow x)"
  unfolding loadOpenEpisodeRow_def by (intro tx_rules)

lemma episode_txs_within [tx_rules]:
  "tx_within arb_rel (ensureRoomEpisode_tx ch n x)"
  "tx_within arb_rel (persistBreaker_tx ch b n)"
  "tx_within arb_rel (closeRoomEpisode_tx ch n)"
  "tx_within arb_rel (recordHumanActivity_tx ch n x)"
  unfolding ensureRoomEpisode_tx_def persistBreaker_tx_def closeRoomEpisode_tx_def
    recordHumanActivity_tx_def Let_def
  by (intro tx_rules)+

lemma reservation_txs_within [tx_rules]:
  "tx_within arb_rel (reserve_tx rid ch ev cid n x e)"
  "tx_within arb_rel (releaseReservation_tx rid ch reason n)"
  unfolding reserve_tx_def releaseReservation_tx_def ensureParticipant_def Let_def
  by (intro tx_rules)+

lemma sweep_within [tx_rules]: "tx_within arb_rel (sweep_tx ch n)"
  unfolding sweep_tx_def by (intro tx_rules)

lemma complete_within [tx_rules]: "tx_within arb_rel (complete_tx lid ch t c n d)"
  unfolding complete_tx_def record_speech_tx_def Let_def by (intro tx_rules)

section \<open>Granting a lease\<close>

lemma heldBy_of_Inr:
  "heldBy_of l = Inr h \<longleftrightarrow> \<bar>lease_token l\<bar> \<le> MAX_SAFE_INTEGER \<and>
     h = \<lparr>heldBy_companionId = lease_companion l, heldBy_leaseId = lease_id l,
          heldBy_fencingToken = lease_token l\<rparr>"
  by (auto simp: heldBy_of_def rbind_eq_Inr guard_simps)

lemma toLeaseSnapshot_Inr: "toLeaseSnapshot l = Inr x \<Longrightarrow> x = l"
  by (auto simp: toLeaseSnapshot_def rbind_eq_Inr)

lemma toReservationSnapshot_Inr: "toReservationSnapshot r = Inr x \<Longrightarrow> x = r"
  by (auto simp: toReservationSnapshot_def rbind_eq_Inr)

lemma spent_lease_None:
  "spent_lease ch ev ls = None \<longleftrightarrow> (\<forall>l \<in> set ls. lease_of_event ch ev l \<longrightarrow> \<not> speech_terminal l)"
proof -
  let ?xs = "sort_key (\<lambda>l. - lease_token l) (filter (\<lambda>l. lease_of_event ch ev l \<and> speech_terminal l) ls)"
  have "set ?xs = {l \<in> set ls. lease_of_event ch ev l \<and> speech_terminal l}" by simp
  then have "?xs = [] \<longleftrightarrow> (\<forall>l \<in> set ls. lease_of_event ch ev l \<longrightarrow> \<not> speech_terminal l)"
    by (metis (mono_tags, lifting) empty_Collect_eq set_empty)
  then show ?thesis by (auto simp: spent_lease_def split: list.splits)
qed

lemma spent_lease_Some:
  assumes "spent_lease ch ev ls = Some l"
  shows "l \<in> set ls" "lease_of_event ch ev l" "speech_terminal l"
proof -
  let ?xs = "sort_key (\<lambda>l. - lease_token l) (filter (\<lambda>l. lease_of_event ch ev l \<and> speech_terminal l) ls)"
  obtain ys where "?xs = l # ys" using assms by (auto simp: spent_lease_def split: list.splits)
  then have "l \<in> set ?xs" by (metis list.set_intros(1))
  then show "l \<in> set ls" "lease_of_event ch ev l" "speech_terminal l" by auto
qed

lemma held_lease_None:
  "held_lease ch ev ls = None \<longleftrightarrow> (\<forall>l \<in> set ls. lease_of_event ch ev l \<longrightarrow> lease_status l \<noteq> Lease_held)"
  by (auto simp: held_lease_def find_None_iff')

lemma held_lease_Some:
  assumes "held_lease ch ev ls = Some l"
  shows "l \<in> set ls" "lease_of_event ch ev l" "lease_status l = Lease_held"
  using assms by (auto simp: held_lease_def dest!: find_Some_iff')

lemma event_idle:
  assumes "spent_lease ch ev (leases db) = None" "held_lease ch ev (leases db) = None"
    and "event_leases ch ev db \<noteq> []"
  shows "lease_dead (last (event_leases ch ev db))"
proof -
  have "last (event_leases ch ev db) \<in> set (event_leases ch ev db)" using assms(3) by simp
  then show ?thesis
    using assms(1,2)
    by (auto simp: event_leases_def lease_dead_def spent_lease_None held_lease_None)
qed

lemma grant_tx_Inr:
  assumes "grant_tx lid rid ch rrow u n x db = Inr (r, db')"
  shows "r = Acq_acquired (fresh_lease lid rid ch rrow (next_token ch (res_event rrow) (leases db)) u n x)
    \<and> db' = db\<lparr>leases := leases db @
        [fresh_lease lid rid ch rrow (next_token ch (res_event rrow) (leases db)) u n x]\<rparr>
    \<and> arbiter_constraints db'"
  using assms
  by (auto simp: grant_tx_def tx_Inr Let_def guard_simps dest!: toLeaseSnapshot_Inr)

lemma grant_rel:
  assumes g: "grant_tx lid rid ch rrow u n x db = Inr (r, db')"
    and rrow: "rrow \<in> set (reservations db)" "res_id rrow = rid" "res_channel rrow = ch"
    and idle: "spent_lease ch (res_event rrow) (leases db) = None"
      "held_lease ch (res_event rrow) (leases db) = None"
  shows "arb_rel db db'"
proof -
  let ?ev = "res_event rrow" and ?l = "fresh_lease lid rid ch rrow (next_token ch (res_event rrow) (leases db)) u n x"
  from grant_tx_Inr [OF g] have db': "db' = db\<lparr>leases := leases db @ [?l]\<rparr>" and c: "arbiter_constraints db'"
    by auto
  have ev: "event_leases c e db' = event_leases c e db @ (if c = ch \<and> e = ?ev then [?l] else [])" for c e
    by (auto simp: event_leases_def db' lease_of_event_def fresh_lease_def)
  have keys: "lease_keys ?l = res_keys rrow"
    using rrow by (simp add: lease_keys_def fresh_lease_def res_keys_def)
  let ?L = "event_leases ch ?ev db"
  show ?thesis
    unfolding arb_rel_def arb_inv_def
  proof (intro impI conjI allI; elim conjE)
    fix c e
    assume ok: "\<forall>ch ev. slot_ok (event_leases ch ev db)"
    have tok: "lease_token ?l = (if ?L = [] then 1 else lease_token (last ?L) + 1)"
      using next_token_slot [of ch ?ev db] ok by (simp add: fresh_lease_def)
    have dead: "?L \<noteq> [] \<Longrightarrow> lease_dead (last ?L)" using event_idle [OF idle] .
    show "slot_ok (event_leases c e db')"
      using ok slot_ok_append [OF _ dead tok] by (auto simp: ev)
    have "slot_step (slot_of ?L) (slot_of (?L @ [?l]))"
    proof -
      have "slot_of (?L @ [?l]) = Held_by lid (lease_token ?l)" by (simp add: slot_of_def fresh_lease_def)
      moreover have "slot_of ?L = Idle (lease_token ?l - 1)"
        unfolding tok using dead by (simp add: slot_of_def lease_dead_def)
      ultimately show ?thesis using slot_grant [of "lease_token ?l - 1" lid] by simp
    qed
    then show "slot_steps (slot_of (event_leases c e db)) (slot_of (event_leases c e db'))"
      by (auto simp: ev)
  next
    assume "leases_bound db"
    then show "leases_bound db'"
      using keys rrow(1) by (auto simp: leases_bound_def db')
  next
    assume "\<forall>l \<in> set (leases db). reason_ok l"
    moreover have "reason_ok ?l" by (simp add: reason_ok_def fresh_lease_def speech_terminal_def)
    ultimately show "\<forall>l \<in> set (leases db'). reason_ok l" by (auto simp: db')
  qed (rule c)
qed

lemma acquire_tx_cases:
  assumes "acquire_tx lid rid ch n x u db = Inr (r, db')"
  obtains
    (replay) l where "find (\<lambda>l. lease_id l = lid) (leases db) = Some l" "lease_reservation l = rid"
      "lease_channel l = ch" "r = Acq_acquired l" "db' = db"
  | (spent) rrow l h where "find (\<lambda>l. lease_id l = lid) (leases db) = None"
      "find (\<lambda>r. res_id r = rid) (reservations db) = Some rrow" "res_channel rrow = ch"
      "spent_lease ch (res_event rrow) (leases db) = Some l" "heldBy_of l = Inr h"
      "r = Acq_declined h Decline_already_delivered" "db' = db"
  | (live) rrow l h where "find (\<lambda>l. lease_id l = lid) (leases db) = None"
      "find (\<lambda>r. res_id r = rid) (reservations db) = Some rrow" "res_channel rrow = ch"
      "spent_lease ch (res_event rrow) (leases db) = None"
      "held_lease ch (res_event rrow) (leases db) = Some l" "lease_expiresAt l > n" "heldBy_of l = Inr h"
      "r = Acq_declined h Decline_held" "db' = db"
  | (free) rrow where "find (\<lambda>l. lease_id l = lid) (leases db) = None"
      "find (\<lambda>r. res_id r = rid) (reservations db) = Some rrow" "res_channel rrow = ch"
      "res_status rrow = Res_reserved" "res_expiresAt rrow > n"
      "spent_lease ch (res_event rrow) (leases db) = None"
      "held_lease ch (res_event rrow) (leases db) = None"
      "grant_tx lid rid ch rrow u n x db = Inr (r, db')"
  | (reclaim) rrow l db1 where "find (\<lambda>l. lease_id l = lid) (leases db) = None"
      "find (\<lambda>r. res_id r = rid) (reservations db) = Some rrow" "res_channel rrow = ch"
      "res_status rrow = Res_reserved" "res_expiresAt rrow > n"
      "spent_lease ch (res_event rrow) (leases db) = None"
      "held_lease ch (res_event rrow) (leases db) = Some l" "lease_expiresAt l \<le> n"
      "db1 = db\<lparr>leases := update_where (\<lambda>k. lease_id k = lease_id l \<and> lease_status k = Lease_held)
                           (expire_lease n) (leases db)\<rparr>"
      "arbiter_constraints db1" "grant_tx lid rid ch rrow u n x db1 = Inr (r, db')"
proof (cases "find (\<lambda>l. lease_id l = lid) (leases db)")
  case (Some l)
  then show ?thesis
    using assms replay by (auto simp: acquire_tx_def tx_Inr split: if_splits dest!: toLeaseSnapshot_Inr)
next
  case None
  note nl = None
  show ?thesis
  proof (cases "find (\<lambda>r. res_id r = rid) (reservations db)")
    case None
    then show ?thesis using assms nl by (auto simp: acquire_tx_def tx_Inr)
  next
    case (Some rrow)
    then have ch: "res_channel rrow = ch"
      using assms nl by (auto simp: acquire_tx_def tx_Inr split: if_splits)
    note rr = Some
    show ?thesis
    proof (cases "spent_lease ch (res_event rrow) (leases db)")
      case (Some l)
      then show ?thesis using assms nl rr ch spent by (auto simp: acquire_tx_def tx_Inr)
    next
      case None
      note ns = None
      have st: "res_status rrow = Res_reserved" "res_expiresAt rrow > n"
        using assms nl rr ch ns by (auto simp: acquire_tx_def tx_Inr guard_simps split: if_splits)
      show ?thesis
      proof (cases "held_lease ch (res_event rrow) (leases db)")
        case None
        then show ?thesis
          using assms nl rr ch ns st free
          by (auto simp: acquire_tx_def tx_Inr guard_simps split: if_splits)
      next
        case (Some l)
        show ?thesis
        proof (cases "lease_expiresAt l > n")
          case True
          then have "isEgressLeaseLive (lease_status l) (lease_expiresAt l) n"
            using held_lease_Some(3) [OF Some] by (simp add: isEgressLeaseLive_def)
          then show ?thesis
            using assms nl rr ch ns st Some True live
            by (auto simp: acquire_tx_def tx_Inr guard_simps split: if_splits)
        next
          case False
          then have "\<not> isEgressLeaseLive (lease_status l) (lease_expiresAt l) n"
            by (simp add: isEgressLeaseLive_def)
          then show ?thesis
            using assms nl rr ch ns st Some False reclaim
            by (auto simp: acquire_tx_def tx_Inr guard_simps split: if_splits)
        qed
      qed
    qed
  qed
qed

lemma reclaimed_idle:
  assumes inv: "arb_inv db" and spent: "spent_lease ch ev (leases db) = None"
    and held: "held_lease ch ev (leases db) = Some l"
    and db1: "db1 = db\<lparr>leases := update_where (\<lambda>k. lease_id k = lease_id l \<and> lease_status k = Lease_held)
                           (expire_lease n) (leases db)\<rparr>"
  shows "spent_lease ch ev (leases db1) = None" "held_lease ch ev (leases db1) = None"
proof -
  have sl: "slot_ok (event_leases ch ev db)" using inv by (simp add: arb_inv_def)
  have only: "k = l" if "k \<in> set (leases db)" "lease_of_event ch ev k" "lease_status k = Lease_held" for k
  proof -
    have "k \<in> set (event_leases ch ev db)" "l \<in> set (event_leases ch ev db)"
      using that held_lease_Some [OF held] by (auto simp: event_leases_def)
    then show ?thesis
      using slot_ok_last [OF sl] that(3) held_lease_Some(3) [OF held] by (metis lease_dead_def)
  qed
  have same: "lease_of_event ch ev (expire_lease n k) = lease_of_event ch ev k"
    "\<not> speech_terminal (expire_lease n k)" "lease_status (expire_lease n k) \<noteq> Lease_held" for k
    by (simp_all add: expire_lease_def lease_of_event_def speech_terminal_def)
  show "spent_lease ch ev (leases db1) = None"
    using spent same by (auto simp: spent_lease_None db1 set_update_where)
  show "held_lease ch ev (leases db1) = None"
    using same only by (auto simp: held_lease_None db1 set_update_where)
qed

lemma acquire_within [tx_rules]: "tx_within arb_rel (acquire_tx lid rid ch n x u)"
  unfolding tx_within_def
proof (intro allI impI)
  fix db r db'
  assume a: "acquire_tx lid rid ch n x u db = Inr (r, db')"
  have rr: "rrow \<in> set (reservations db) \<and> res_id rrow = rid"
    if "find (\<lambda>r. res_id r = rid) (reservations db) = Some rrow" for rrow
    using find_Some_iff' [OF that] by simp
  from a show "arb_rel db db'"
  proof (cases rule: acquire_tx_cases)
    case (free rrow)
    then show ?thesis using rr grant_rel by blast
  next
    case (reclaim rrow l db1)
    show ?thesis
    proof (cases "arb_inv db")
      case True
      note idle = reclaimed_idle [OF True reclaim(6,7,9)]
      have "rrow \<in> set (reservations db1)" using rr [OF reclaim(2)] by (simp add: reclaim(9))
      then have "arb_rel db1 db'"
        using grant_rel [OF reclaim(11) _ _ reclaim(3) idle] rr [OF reclaim(2)] by blast
      moreover have "arb_rel db db1"
        using tx_withinD [OF exec_expire_one, of "lease_id l" n db "()" db1] reclaim(9,10) by (simp add: tx_Inr)
      ultimately show ?thesis using arb_rel_trans by (meson transpD)
    qed (simp add: arb_rel_def)
  qed (simp_all add: arb_rel_def)
qed

section \<open>Reachable stores\<close>

text \<open>
  The operations of the port with their arguments; \<open>apply_op\<close> is the store after the call,
  whatever the call returned.
\<close>

datatype arbiter_op =
  Op_ensureRoomEpisode string jsnum string
| Op_readRoomEpisode string
| Op_readBreaker string
| Op_persistBreaker string room_breaker_state jsnum
| Op_listActiveReservers string string jsnum
| Op_closeRoomEpisode string jsnum
| Op_recordHumanActivity string jsnum string
| Op_reserve string string string string jsnum jsnum string
| Op_releaseReservation string string "arbiter_reason option" jsnum
| Op_acquire string string string jsnum jsnum "jsnum option"
| Op_complete string string int lease_completion jsnum "jsnum option"
| Op_sweep "string option" jsnum
| Op_close

fun apply_op :: "arbiter_op \<Rightarrow> arbiter_store \<Rightarrow> arbiter_store" where
  "apply_op (Op_ensureRoomEpisode ch n x) st = snd (ensureRoomEpisode ch n x st)"
| "apply_op (Op_readRoomEpisode ch) st = snd (readRoomEpisode ch st)"
| "apply_op (Op_readBreaker ch) st = snd (readRoomEpisodeBreakerState ch st)"
| "apply_op (Op_persistBreaker ch b n) st = snd (persistRoomEpisodeBreakerState ch b n st)"
| "apply_op (Op_listActiveReservers ch ev n) st = snd (listActiveReservers ch ev n st)"
| "apply_op (Op_closeRoomEpisode ch n) st = snd (closeRoomEpisode ch n st)"
| "apply_op (Op_recordHumanActivity ch n x) st = snd (recordHumanActivity ch n x st)"
| "apply_op (Op_reserve rid ch ev cid n e x) st = snd (reserve rid ch ev cid n e x st)"
| "apply_op (Op_releaseReservation rid ch reason n) st = snd (releaseReservation rid ch reason n st)"
| "apply_op (Op_acquire lid rid ch n e u) st = snd (acquireEgressLease lid rid ch n e u st)"
| "apply_op (Op_complete lid ch t c n d) st = snd (completeEgressLease lid ch t c n d st)"
| "apply_op (Op_sweep ch n) st = snd (sweepExpired ch n st)"
| "apply_op Op_close st = closeArbiter st"

definition empty_arbiter :: arbiter_store where
  "empty_arbiter = \<lparr>store_closed = False,
     store_db = \<lparr>episodes = [], participation = [], reservations = [], leases = []\<rparr>\<rparr>"

inductive arbiter_reachable :: "arbiter_store \<Rightarrow> bool" where
  reach_init: "arbiter_reachable empty_arbiter"
| reach_step: "arbiter_reachable st \<Longrightarrow> arbiter_reachable (apply_op op st)"

lemma arbiter_transaction_rel:
  "tx_within arb_rel h \<Longrightarrow> arb_rel (store_db st) (store_db (snd (arbiter_transaction h st)))"
  by (cases "h (store_db st)")
    (auto simp: store_transaction_def withPostgresClient_def tx_within_def arb_rel_def)

lemma guarded_rel:
  assumes "\<And>x. arb_rel (store_db st) (store_db (snd (k x st)))"
  shows "arb_rel (store_db st) (store_db (snd (guarded m k st)))"
  using assms by (cases m) (auto simp: arb_rel_def)

lemma apply_op_rel: "arb_rel (store_db st) (store_db (apply_op op st))"
proof (cases op)
  case Op_close
  then show ?thesis by (simp add: closeArbiter_def arb_rel_def)
qed (simp_all add: ensureRoomEpisode_def readRoomEpisode_def readRoomEpisodeBreakerState_def
    persistRoomEpisodeBreakerState_def listActiveReservers_def closeRoomEpisode_def
    recordHumanActivity_def reserve_def releaseReservation_def acquireEgressLease_def
    completeEgressLease_def sweepExpired_def,
    (intro guarded_rel arbiter_transaction_rel tx_rules)+)

lemma reachable_inv: "arbiter_reachable st \<Longrightarrow> arb_inv (store_db st)"
proof (induction rule: arbiter_reachable.induct)
  case reach_init
  then show ?case
    by (simp add: empty_arbiter_def arb_inv_def arbiter_constraints_def episodes_ok_def
        participation_ok_def reservations_ok_def leases_ok_def leases_bound_def event_leases_def)
next
  case (reach_step st op)
  then show ?case using apply_op_rel [of st op] by (simp add: arb_rel_def)
qed

lemma reachable_fold: "arbiter_reachable st \<Longrightarrow> arbiter_reachable (fold apply_op ops st)"
  by (induction ops arbitrary: st) (auto intro: reach_step)

lemma reachable_slot_steps:
  assumes "arbiter_reachable st"
  shows "slot_steps (slot_of (event_leases ch ev (store_db st)))
           (slot_of (event_leases ch ev (store_db (fold apply_op ops st))))"
  using assms
proof (induction ops arbitrary: st)
  case (Cons op ops)
  have "slot_steps (slot_of (event_leases ch ev (store_db st)))
      (slot_of (event_leases ch ev (store_db (apply_op op st))))"
    using apply_op_rel [of st op] reachable_inv [OF Cons.prems] by (simp add: arb_rel_def)
  then show ?case using Cons.IH [OF reach_step [OF Cons.prems]] by (simp add: rtranclp_trans)
qed simp

lemma slot_ok_active:
  assumes "slot_ok L"
  shows "length (filter (\<lambda>l. \<not> lease_dead l) L) \<le> 1"
proof (cases L rule: rev_cases)
  case (snoc xs y)
  have "filter (\<lambda>l. \<not> lease_dead l) xs = []"
    using assms snoc by (auto simp: slot_ok_def filter_empty_conv)
  then show ?thesis using snoc by simp
qed simp

lemma spent_slot:
  assumes inv: "arb_inv db" and l: "l \<in> set (leases db)" "speech_terminal l"
  shows "slot_of (event_leases (lease_channel l) (lease_event l) db) = Spent_by (lease_id l) (lease_token l)"
proof -
  let ?L = "event_leases (lease_channel l) (lease_event l) db"
  have "l \<in> set ?L" using l by (simp add: event_leases_def lease_of_event_def)
  moreover have "slot_ok ?L" using inv by (simp add: arb_inv_def)
  ultimately have "last ?L = l" "?L \<noteq> []" using slot_ok_last l(2) by (auto simp: lease_dead_def)
  then show ?thesis using l(2) by (auto simp: slot_of_def speech_terminal_def)
qed

lemma slot_spent_lease:
  assumes inv: "arb_inv db" and s: "slot_of (event_leases ch ev db) = Spent_by lid tok"
  shows "\<exists>l. spent_lease ch ev (leases db) = Some l \<and> lease_id l = lid \<and> lease_token l = tok"
proof -
  let ?L = "event_leases ch ev db"
  have L: "?L \<noteq> []" "speech_terminal (last ?L)" "lease_id (last ?L) = lid" "lease_token (last ?L) = tok"
    using s by (auto simp: slot_of_def split: if_splits)
  then have mem: "last ?L \<in> set ?L" by simp
  then have "spent_lease ch ev (leases db) \<noteq> None"
    using L(2) by (auto simp: spent_lease_None event_leases_def)
  then obtain l where l: "spent_lease ch ev (leases db) = Some l" by auto
  then have "l \<in> set ?L" "speech_terminal l" using spent_lease_Some [OF l] by (auto simp: event_leases_def)
  moreover have "slot_ok ?L" using inv by (simp add: arb_inv_def)
  ultimately have "l = last ?L" using slot_ok_last by (simp add: lease_dead_def)
  then show ?thesis using l L by simp
qed

section \<open>Properties\<close>

text \<open>A concrete room for the witnesses: two companions answer one event.\<close>

definition demo_id :: "nat \<Rightarrow> string" where
  "demo_id n = ''00000000-0000-4000-8000-00000000000'' @ [''0123456789abcdef'' ! n]"

definition demo_ops :: "arbiter_op list" where
  "demo_ops =
     [Op_reserve (demo_id 1) ''room'' ''event'' (demo_id 10) (Fin 10) (Fin 1000) (demo_id 3),
      Op_reserve (demo_id 2) ''room'' ''event'' (demo_id 11) (Fin 12) (Fin 1000) (demo_id 4),
      Op_acquire (demo_id 5) (demo_id 1) ''room'' (Fin 20) (Fin 500) (Some (Fin 2))]"

definition demo_held :: arbiter_store where
  "demo_held = fold apply_op demo_ops empty_arbiter"

definition demo_spoken :: arbiter_store where
  "demo_spoken =
     apply_op (Op_complete (demo_id 5) ''room'' 1 Complete_delivered (Fin 30) (Some (Fin 3))) demo_held"

definition demo_episode :: episode_row where
  "demo_episode = (fresh_episode (demo_id 3) ''room'' 10)\<lparr>ep_lastActivityAt := 12, ep_revision := 2\<rparr>"

definition demo_reservation :: "nat \<Rightarrow> nat \<Rightarrow> int \<Rightarrow> reservation_row" where
  "demo_reservation i c n = fresh_reservation (demo_id i) ''room'' ''event'' (demo_id c) (demo_id 3) n 1000"

definition demo_lease :: lease_row where
  "demo_lease = fresh_lease (demo_id 5) (demo_id 1) ''room'' (demo_reservation 1 10 10) 1 2 20 500"

lemma demo_held_eval:
  "demo_held = \<lparr>store_closed = False, store_db =
     \<lparr>episodes = [demo_episode],
      participation = [\<lparr>part_episode = demo_id 3, part_companion = demo_id 10, part_speakCount = 0,
                        part_lastSpokeAt = None\<rparr>,
                       \<lparr>part_episode = demo_id 3, part_companion = demo_id 11, part_speakCount = 0,
                        part_lastSpokeAt = None\<rparr>],
      reservations = [demo_reservation 1 10 10, demo_reservation 2 11 12],
      leases = [demo_lease]\<rparr>\<rparr>"
  by code_simp

lemma demo_spoken_eval:
  "demo_spoken = \<lparr>store_closed = False, store_db =
     \<lparr>episodes = [charge_episode 3 (demo_id 10) 30 demo_episode],
      participation = [\<lparr>part_episode = demo_id 3, part_companion = demo_id 10, part_speakCount = 1,
                        part_lastSpokeAt = Some 30\<rparr>,
                       \<lparr>part_episode = demo_id 3, part_companion = demo_id 11, part_speakCount = 0,
                        part_lastSpokeAt = None\<rparr>],
      reservations = [release_row Reason_delivered 30 (demo_reservation 1 10 10),
                      release_row Superseded 30 (demo_reservation 2 11 12)],
      leases = [complete_lease Complete_delivered 30 demo_lease]\<rparr>\<rparr>"
  unfolding demo_spoken_def demo_held_eval by code_simp

lemma demo_id_eq [simp]: "i < 16 \<Longrightarrow> j < 16 \<Longrightarrow> demo_id i = demo_id j \<longleftrightarrow> i = j"
  by (simp add: demo_id_def nth_eq_iff_index_eq)

lemma demo_reachable: "arbiter_reachable demo_held" "arbiter_reachable demo_spoken"
  unfolding demo_held_def demo_spoken_def by (intro reach_step reachable_fold reach_init)+

text \<open>
  C2. Send-once per trigger: in every reachable state of the store, whatever calls were made
  with whatever arguments and clocks, at most one lease of a room event is held or has been
  spoken. Two companions never both hold or have delivered one event.
\<close>

theorem arbiter_send_once:
  assumes "arbiter_reachable st"
  shows "length (filter (\<lambda>l. lease_status l = Lease_held \<or> speech_terminal l)
           (event_leases ch ev (store_db st))) \<le> 1"
proof -
  have "slot_ok (event_leases ch ev (store_db st))"
    using reachable_inv [OF assms] by (simp add: arb_inv_def)
  then show ?thesis using slot_ok_active by (simp add: lease_dead_def)
qed

theorem arbiter_send_once_witness:
  "length (filter (\<lambda>l. lease_status l = Lease_held \<or> speech_terminal l)
     (event_leases ''room'' ''event'' (store_db demo_spoken))) \<le> 1
   \<and> length (leases (store_db demo_spoken)) = 1"
proof
  show "length (filter (\<lambda>l. lease_status l = Lease_held \<or> speech_terminal l)
     (event_leases ''room'' ''event'' (store_db demo_spoken))) \<le> 1"
    using arbiter_send_once [OF demo_reachable(2)] .
  show "length (leases (store_db demo_spoken)) = 1" by (simp add: demo_spoken_eval)
qed

text \<open>
  C24. Refinement: every operation of the store, on any reachable state and with any arguments,
  moves each room event along the slot automaton: idle slots are granted with the next fencing
  token, held slots are relinquished or spoken, spent slots never move again.
\<close>

theorem arbiter_refines_slots:
  assumes "arbiter_reachable st"
  shows "slot_steps (slot_of (event_leases ch ev (store_db st)))
           (slot_of (event_leases ch ev (store_db (apply_op op st))))"
  using reachable_slot_steps [OF assms, of ch ev "[op]"] by simp

theorem arbiter_refines_slots_witness:
  "slot_of (event_leases ''room'' ''event'' (store_db demo_held)) = Held_by (demo_id 5) 1
   \<and> slot_of (event_leases ''room'' ''event'' (store_db demo_spoken)) = Spent_by (demo_id 5) 1
   \<and> slot_steps (slot_of (event_leases ''room'' ''event'' (store_db demo_held)))
       (slot_of (event_leases ''room'' ''event'' (store_db demo_spoken)))"
proof (intro conjI)
  show "slot_of (event_leases ''room'' ''event'' (store_db demo_held)) = Held_by (demo_id 5) 1"
    unfolding demo_held_eval by code_simp
  show "slot_of (event_leases ''room'' ''event'' (store_db demo_spoken)) = Spent_by (demo_id 5) 1"
    unfolding demo_spoken_eval by code_simp
  show "slot_steps (slot_of (event_leases ''room'' ''event'' (store_db demo_held)))
       (slot_of (event_leases ''room'' ''event'' (store_db demo_spoken)))"
    unfolding demo_spoken_def using arbiter_refines_slots [OF demo_reachable(1)] .
qed

text \<open>
  A spoken event stays spoken: after a lease was delivered or overridden, and after any
  further calls, a new acquisition for the same event changes nothing and is declined as
  already delivered, naming the winning lease and its token.
\<close>

theorem arbiter_spent_forever:
  assumes "arbiter_reachable st" "l \<in> set (leases (store_db st))" "speech_terminal l"
    and "st' = fold apply_op ops st"
    and "find (\<lambda>r. res_id r = rid) (reservations (store_db st')) = Some r" "res_event r = lease_event l"
    and "lid \<notin> lease_id ` set (leases (store_db st'))"
    and "acquireEgressLease lid rid (lease_channel l) n x u st' = (Inr res, st'')"
  shows "st'' = st' \<and> (\<exists>h. res = Acq_declined h Decline_already_delivered
           \<and> heldBy_leaseId h = lease_id l \<and> heldBy_fencingToken h = lease_token l)"
proof -
  have inv': "arb_inv (store_db st')" unfolding assms(4)
    by (intro reachable_inv reachable_fold assms(1))
  have "slot_steps (Spent_by (lease_id l) (lease_token l))
      (slot_of (event_leases (lease_channel l) (lease_event l) (store_db st')))"
    using reachable_slot_steps [OF assms(1), of "lease_channel l" "lease_event l" ops]
      spent_slot [OF reachable_inv [OF assms(1)] assms(2,3)] assms(4) by simp
  from slot_spent_lease [OF inv' slot_steps_Spent [OF this]] obtain w where
    w: "spent_lease (lease_channel l) (lease_event l) (leases (store_db st')) = Some w"
      "lease_id w = lease_id l" "lease_token w = lease_token l"
    by auto
  from assms(8) obtain db charged where
    tx: "acquire_tx lid rid (lease_channel l) (intval n) (intval x) charged (store_db st') = Inr (res, db)"
    and st'': "st'' = st'\<lparr>store_db := db\<rparr>"
    by (auto simp: acquireEgressLease_def guarded_eq_Inr guard_simps store_transaction_Inr)
  have nf: "find (\<lambda>l. lease_id l = lid) (leases (store_db st')) = None"
    using assms(7) by (auto simp: find_None_iff')
  from tx show ?thesis
  proof (cases rule: acquire_tx_cases)
    case (spent rrow l' h)
    then show ?thesis using assms(5,6) w by (auto simp: st'' heldBy_of_Inr)
  qed (use nf assms(5,6) w in auto)
qed

theorem arbiter_spent_forever_witness:
  "\<exists>h. fst (acquireEgressLease (demo_id 6) (demo_id 2) ''room'' (Fin 40) (Fin 90) None demo_spoken)
      = Inr (Acq_declined h Decline_already_delivered) \<and> heldBy_leaseId h = demo_id 5"
proof -
  define l where "l = hd (leases (store_db demo_spoken))"
  define res where "res = acquireEgressLease (demo_id 6) (demo_id 2) ''room'' (Fin 40) (Fin 90) None demo_spoken"
  have l: "l \<in> set (leases (store_db demo_spoken))" "speech_terminal l" "lease_channel l = ''room''"
    "lease_event l = ''event''" "lease_id l = demo_id 5"
    unfolding l_def demo_spoken_eval by code_simp+
  have r: "map_option res_event (find (\<lambda>r. res_id r = demo_id 2) (reservations (store_db demo_spoken)))
      = Some ''event''"
    unfolding demo_spoken_eval by code_simp
  have f: "demo_id 6 \<notin> lease_id ` set (leases (store_db demo_spoken))"
    unfolding demo_spoken_eval by code_simp
  have ok: "isl (fst res) = False" unfolding res_def demo_spoken_eval by code_simp
  from r obtain rr where rr: "find (\<lambda>r. res_id r = demo_id 2) (reservations (store_db demo_spoken)) = Some rr"
    "res_event rr = lease_event l" using l by auto
  from ok obtain v where v: "acquireEgressLease (demo_id 6) (demo_id 2) (lease_channel l) (Fin 40) (Fin 90) None
      demo_spoken = (Inr v, snd res)"
    by (cases res) (auto simp: isl_def res_def l(3) split: sum.splits, metis sum.exhaust)
  show ?thesis
    using arbiter_spent_forever [OF demo_reachable(2) l(1,2), of demo_spoken "[]", OF _ rr f v]
      v l(3,5) by auto
qed

end
