(* ===== verification/Arbiter_Behaviour.thy ===== *)
theory Arbiter_Behaviour
  imports Arbiter_Safety
begin

text \<open>
  Behaviour of the arbiter's operations on top of the safety results: when an acquisition must
  succeed (crash recovery), what a completion changes and that it is idempotent, replay of a
  reservation, and the watchdog sweep.
\<close>

section \<open>Statements that respect the constraints\<close>

lemma filter_held_update:
  assumes "\<And>l. l \<in> set ls \<Longrightarrow> P l \<Longrightarrow> lease_status (f l) \<noteq> Lease_held"
  shows "filter (\<lambda>l. lease_status l = Lease_held) (update_where P f ls)
       = filter (\<lambda>l. \<not> P l) (filter (\<lambda>l. lease_status l = Lease_held) ls)"
  using assms by (induction ls) auto

lemma leases_ok_update:
  assumes ok: "leases_ok db"
    and f: "\<And>l. l \<in> set (leases db) \<Longrightarrow> P l \<Longrightarrow> lease_status (f l) \<noteq> Lease_held \<and> lease_check (f l)"
    and k: "\<And>l. lease_token (f l) = lease_token l \<and> lease_id (f l) = lease_id l \<and> lease_keys (f l) = lease_keys l"
  shows "leases_ok (db\<lparr>leases := update_where P f (leases db)\<rparr>)"
proof -
  let ?ls = "update_where P f (leases db)"
  have keys: "map g ?ls = map g (leases db)" if "\<And>l. g (f l) = g l" for g :: "lease_row \<Rightarrow> 'x"
    using that by (intro map_update_where)
  have k': "lease_reservation (f l) = lease_reservation l" "lease_channel (f l) = lease_channel l"
    "lease_event (f l) = lease_event l" "lease_episode (f l) = lease_episode l" for l
    using k [of l] by (auto simp: lease_keys_def)
  have "map lease_id ?ls = map lease_id (leases db)"
    "map (\<lambda>l. (lease_channel l, lease_event l, lease_token l)) ?ls
       = map (\<lambda>l. (lease_channel l, lease_event l, lease_token l)) (leases db)"
    by (intro map_update_where, simp add: k k')+
  moreover have "distinct (map (\<lambda>l. (lease_channel l, lease_event l))
      (filter (\<lambda>l. lease_status l = Lease_held) ?ls))"
  proof (subst filter_held_update)
    show "distinct (map (\<lambda>l. (lease_channel l, lease_event l))
        (filter (\<lambda>l. \<not> P l) (filter (\<lambda>l. lease_status l = Lease_held) (leases db))))"
      using ok unfolding leases_ok_def by (elim conjE) (rule distinct_map_filter)
  qed (use f in blast)
  moreover have "list_all lease_check ?ls"
    using ok f by (auto simp: leases_ok_def list_all_iff set_update_where)
  moreover have "list_all (\<lambda>l. lease_reservation l \<in> R) ?ls = list_all (\<lambda>l. lease_reservation l \<in> R) (leases db)"
    "list_all (\<lambda>l. lease_episode l \<in> E) ?ls = list_all (\<lambda>l. lease_episode l \<in> E) (leases db)" for R E
    by (intro list_all_update_where, simp add: k')+
  ultimately show ?thesis using ok by (simp add: leases_ok_def)
qed

lemma constraints_lease_update:
  assumes "arbiter_constraints db"
    and "\<And>l. l \<in> set (leases db) \<Longrightarrow> P l \<Longrightarrow> lease_status (f l) \<noteq> Lease_held \<and> lease_check (f l)"
    and "\<And>l. lease_token (f l) = lease_token l \<and> lease_id (f l) = lease_id l \<and> lease_keys (f l) = lease_keys l"
  shows "arbiter_constraints (db\<lparr>leases := update_where P f (leases db)\<rparr>)"
  using assms leases_ok_update [of db P f]
  by (simp add: arbiter_constraints_def episodes_ok_def participation_ok_def reservations_ok_def)

lemma lease_check_expire:
  "lease_check l \<Longrightarrow> lease_expiresAt l \<le> n \<Longrightarrow> lease_revision l < INT8_MAX \<Longrightarrow> lease_check (expire_lease n l)"
  by (auto simp: lease_check_def expire_lease_def)

lemma next_token_pos: "1 \<le> next_token ch ev ls"
proof -
  have "0 \<le> foldr max xs (0 :: int)" for xs by (induction xs) auto
  then show ?thesis by (simp add: next_token_def)
qed

lemma constraints_grant:
  assumes inv: "arb_inv db" and rrow: "rrow \<in> set (reservations db)"
    and fresh: "lid \<notin> lease_id ` set (leases db)"
    and args: "0 \<le> u" "0 \<le> n" "n < x"
    and idle: "held_lease (res_channel rrow) (res_event rrow) (leases db) = None"
    and tok: "next_token (res_channel rrow) (res_event rrow) (leases db) \<le> INT8_MAX"
  shows "arbiter_constraints (db\<lparr>leases := leases db @ [fresh_lease lid (res_id rrow) (res_channel rrow) rrow
           (next_token (res_channel rrow) (res_event rrow) (leases db)) u n x]\<rparr>)"
proof -
  let ?ch = "res_channel rrow" and ?ev = "res_event rrow"
  let ?t = "next_token ?ch ?ev (leases db)"
  let ?l = "fresh_lease lid (res_id rrow) ?ch rrow ?t u n x"
  let ?L = "event_leases ?ch ?ev db"
  have c: "arbiter_constraints db" and sl: "slot_ok ?L" using inv by (auto simp: arb_inv_def)
  have t: "?t = (if ?L = [] then 1 else lease_token (last ?L) + 1)" by (rule next_token_slot [OF sl])
  have bigger: "lease_token k < ?t" if "k \<in> set ?L" for k
  proof (cases ?L rule: rev_cases)
    case (snoc ks y)
    then show ?thesis using that sl t by (auto simp: slot_ok_def sorted_wrt_append)
  qed (use that in simp)
  have chk: "lease_check ?l"
    using args tok next_token_pos by (simp add: lease_check_def fresh_lease_def INT8_MAX_def)
  have new: "(?ch, ?ev, ?t) \<notin> (\<lambda>l. (lease_channel l, lease_event l, lease_token l)) ` set (leases db)"
    using bigger by (force simp: event_leases_def lease_of_event_def)
  have free: "(?ch, ?ev) \<notin> (\<lambda>l. (lease_channel l, lease_event l)) `
      set (filter (\<lambda>l. lease_status l = Lease_held) (leases db))"
    using idle by (auto simp: held_lease_None lease_of_event_def)
  have "res_episode rrow \<in> set (map ep_id (episodes db))" "res_id rrow \<in> set (map res_id (reservations db))"
    using c rrow by (auto simp: arbiter_constraints_def reservations_ok_def list_all_iff)
  then show ?thesis
    using c chk new free fresh
    by (simp add: arbiter_constraints_def episodes_ok_def participation_ok_def reservations_ok_def
        leases_ok_def fresh_lease_def)
qed

lemma grant_total:
  assumes "arb_inv db" "rrow \<in> set (reservations db)" "lid \<notin> lease_id ` set (leases db)"
    and "0 \<le> u" "0 \<le> n" "n < x" "x \<le> MAX_SAFE_INTEGER"
    and "held_lease (res_channel rrow) (res_event rrow) (leases db) = None"
    and tok: "next_token (res_channel rrow) (res_event rrow) (leases db) \<le> MAX_SAFE_INTEGER"
  shows "\<exists>db'. grant_tx lid (res_id rrow) (res_channel rrow) rrow u n x db
    = Inr (Acq_acquired (fresh_lease lid (res_id rrow) (res_channel rrow) rrow
            (next_token (res_channel rrow) (res_event rrow) (leases db)) u n x), db')"
proof -
  let ?t = "next_token (res_channel rrow) (res_event rrow) (leases db)"
  have t1: "1 \<le> ?t" by (rule next_token_pos)
  have "?t \<le> INT8_MAX" using tok by (simp add: MAX_SAFE_INTEGER_def INT8_MAX_def)
  note c = constraints_grant [OF assms(1-6,8) this]
  have "toLeaseSnapshot (fresh_lease lid (res_id rrow) (res_channel rrow) rrow ?t u n x)
      = Inr (fresh_lease lid (res_id rrow) (res_channel rrow) rrow ?t u n x)"
    using tok t1 assms(5-7)
    by (simp add: toLeaseSnapshot_def requireSafeInteger_def fresh_lease_def nullableSafeInteger_def
        MAX_SAFE_INTEGER_def)
  then show ?thesis
    using c tok t1
    by (simp add: grant_tx_def txbind_def txget_def txpure_def txexec_def txret_def
        requireSafeInteger_def Let_def)
qed

section \<open>Acquisition\<close>

text \<open>Arguments that pass the guards of \<^verbatim>\<open>acquireEgressLease\<close> for a reservation the caller holds.\<close>

definition acquirable :: "arbiter_db \<Rightarrow> string \<Rightarrow> reservation_row \<Rightarrow> int \<Rightarrow> int \<Rightarrow> bool" where
  "acquirable db lid rrow n x \<longleftrightarrow>
     isRfc4122Uuid lid \<and> lid \<notin> lease_id ` set (leases db)
     \<and> rrow \<in> set (reservations db) \<and> isRfc4122Uuid (res_id rrow) \<and> isBoundedString (res_channel rrow) 512 1
     \<and> isReservationActive (res_status rrow) (res_expiresAt rrow) n
     \<and> 0 \<le> n \<and> n < x \<and> x \<le> MAX_SAFE_INTEGER \<and> res_expiresAt rrow \<le> MAX_SAFE_INTEGER"

definition lapsed_holder :: "arbiter_db \<Rightarrow> string \<Rightarrow> string \<Rightarrow> int \<Rightarrow> bool" where
  "lapsed_holder db ch ev n \<longleftrightarrow>
     (case held_lease ch ev (leases db) of
        None \<Rightarrow> True
      | Some h \<Rightarrow> lease_expiresAt h \<le> n \<and> lease_expiresAt h \<le> MAX_SAFE_INTEGER \<and> lease_revision h < INT8_MAX)"

lemma next_token_expire:
  "next_token ch ev (update_where P (expire_lease n) ls) = next_token ch ev ls"
proof -
  have "filter (lease_of_event ch ev) (update_where P (expire_lease n) ls)
      = update_where P (expire_lease n) (filter (lease_of_event ch ev) ls)"
    by (rule filter_update_where) (simp add: lease_of_event_def expire_lease_def)
  then show ?thesis
    by (simp add: next_token_def map_update_where expire_lease_def)
qed

lemma find_res_id:
  assumes "arbiter_constraints db" "r \<in> set (reservations db)"
  shows "find (\<lambda>k. res_id k = res_id r) (reservations db) = Some r"
  using assms by (intro find_distinct) (simp_all add: arbiter_constraints_def reservations_ok_def)

lemma find_lease_id:
  assumes "arbiter_constraints db" "l \<in> set (leases db)"
  shows "find (\<lambda>k. lease_id k = lease_id l) (leases db) = Some l"
  using assms by (intro find_distinct) (simp_all add: arbiter_constraints_def leases_ok_def)

lemma lease_id_inj:
  "arbiter_constraints db \<Longrightarrow> k \<in> set (leases db) \<Longrightarrow> l \<in> set (leases db) \<Longrightarrow> lease_id k = lease_id l
     \<Longrightarrow> k = l"
  by (auto simp: arbiter_constraints_def leases_ok_def distinct_map dest: inj_onD)

lemma acquire_tx_total:
  assumes inv: "arb_inv db" and ok: "acquirable db lid rrow n x" and u: "0 \<le> u"
    and ns: "spent_lease (res_channel rrow) (res_event rrow) (leases db) = None"
    and lap: "lapsed_holder db (res_channel rrow) (res_event rrow) n"
    and tok: "next_token (res_channel rrow) (res_event rrow) (leases db) \<le> MAX_SAFE_INTEGER"
  shows "\<exists>db'. acquire_tx lid (res_id rrow) (res_channel rrow) n x u db
    = Inr (Acq_acquired (fresh_lease lid (res_id rrow) (res_channel rrow) rrow
            (next_token (res_channel rrow) (res_event rrow) (leases db)) u n x), db')"
proof -
  let ?ch = "res_channel rrow" and ?ev = "res_event rrow"
  have c: "arbiter_constraints db" using inv by (simp add: arb_inv_def)
  have rr: "rrow \<in> set (reservations db)" and fresh: "lid \<notin> lease_id ` set (leases db)"
    and st: "res_status rrow = Res_reserved" "res_expiresAt rrow > n"
    and ar: "0 \<le> n" "n < x" "x \<le> MAX_SAFE_INTEGER" "res_expiresAt rrow \<le> MAX_SAFE_INTEGER"
    using ok by (auto simp: acquirable_def isReservationActive_def)
  have nf: "find (\<lambda>l. lease_id l = lid) (leases db) = None"
    using fresh by (auto simp: find_None_iff')
  have safe: "requireSafeInteger (res_expiresAt rrow) f = Inr (res_expiresAt rrow)" for f
    using st ar by (simp add: requireSafeInteger_def)
  note start = nf find_res_id [OF c rr] ns safe st
  show ?thesis
  proof (cases "held_lease ?ch ?ev (leases db)")
    case None
    from grant_total [OF inv rr fresh u ar(1-3) None tok] show ?thesis
      using start None by (simp add: acquire_tx_def txbind_def txget_def txpure_def)
  next
    case (Some h)
    let ?P = "\<lambda>k. lease_id k = lease_id h \<and> lease_status k = Lease_held"
    let ?db1 = "db\<lparr>leases := update_where ?P (expire_lease n) (leases db)\<rparr>"
    have h: "lease_expiresAt h \<le> n" "lease_expiresAt h \<le> MAX_SAFE_INTEGER" "lease_revision h < INT8_MAX"
      using lap Some by (auto simp: lapsed_holder_def)
    have hm: "h \<in> set (leases db)" using held_lease_Some [OF Some] by simp
    then have hc: "lease_check h" using c by (auto simp: arbiter_constraints_def leases_ok_def list_all_iff)
    have "k = h" if "k \<in> set (leases db)" "lease_id k = lease_id h" for k
      using lease_id_inj [OF c that(1) hm that(2)] .
    then have c1: "arbiter_constraints ?db1"
      using h lease_check_expire [OF hc h(1,3)]
      by (intro constraints_lease_update [OF c]) (auto simp: expire_lease_def lease_keys_def)
    note idle = reclaimed_idle [OF inv ns Some refl, of n]
    have "arb_rel db ?db1"
      using tx_withinD [OF exec_expire_one, of "lease_id h" n db "()" ?db1] c1 by (simp add: tx_Inr)
    then have inv1: "arb_inv ?db1" using inv by (simp add: arb_rel_def)
    have fresh1: "lid \<notin> lease_id ` set (leases ?db1)"
      using fresh by (simp add: image_update_where expire_lease_def)
    have "\<exists>db'. grant_tx lid (res_id rrow) ?ch rrow u n x ?db1
      = Inr (Acq_acquired (fresh_lease lid (res_id rrow) ?ch rrow (next_token ?ch ?ev (leases db)) u n x), db')"
      using grant_total [OF inv1 _ fresh1 u ar(1-3) idle(2)] rr tok by (simp add: next_token_expire)
    moreover have "requireSafeInteger (lease_expiresAt h) f = Inr (lease_expiresAt h)" for f
      using h(2) hc by (simp add: requireSafeInteger_def lease_check_def)
    ultimately show ?thesis
      using start Some c1 h(1)
      by (simp add: acquire_tx_def txbind_def txget_def txpure_def txexec_def isEgressLeaseLive_def)
  qed
qed

section \<open>Completion\<close>

text \<open>
  What a completion that returned did: nothing if the lease was already terminal with the same
  reason, otherwise it ended the held lease and applied the speech effects.
\<close>

definition completed_db ::
  "arbiter_db \<Rightarrow> lease_row \<Rightarrow> lease_completion \<Rightarrow> int \<Rightarrow> real \<Rightarrow> arbiter_db" where
  "completed_db db l c n d =
     (let reason = speakingCompletionReason c;
          own = update_where (\<lambda>r. res_id r = lease_reservation l \<and> res_status r = Res_reserved)
                  (release_row reason n) (reservations db)
      in \<lparr>episodes = (if speakingCompletionIsSpeech c
                      then update_where (\<lambda>e. ep_id e = lease_episode l)
                             (charge_episode d (lease_companion l) n) (episodes db)
                      else episodes db),
          participation = (if speakingCompletionIsSpeech c
                           then count_speech (lease_episode l) (lease_companion l) n (participation db)
                           else participation db),
          reservations = (if speakingCompletionIsSpeech c
                          then update_where (\<lambda>r. res_channel r = lease_channel l \<and> res_event r = lease_event l
                                 \<and> res_status r = Res_reserved \<and> res_id r \<noteq> lease_reservation l)
                                 (release_row Superseded n) own
                          else own),
          leases = update_where (\<lambda>k. lease_id k = lease_id l \<and> lease_status k = Lease_held
                                    \<and> lease_token k = lease_token l) (complete_lease c n) (leases db)\<rparr>)"

lemma complete_tx_Inr:
  assumes "complete_tx lid ch t c n d db = Inr (l, db')"
  shows "\<exists>l0. find (\<lambda>k. lease_id k = lid) (leases db) = Some l0 \<and> lease_channel l0 = ch \<and> lease_token l0 = t
    \<and> (if lease_status l0 = Lease_held
       then l = complete_lease c n l0 \<and> db' = completed_db db l0 c n d \<and> arbiter_constraints db'
       else lease_reason l0 = Some (speakingCompletionReason c) \<and> l = l0 \<and> db' = db)"
proof (cases "find (\<lambda>k. lease_id k = lid) (leases db)")
  case None
  then show ?thesis using assms by (auto simp: complete_tx_def tx_Inr Let_def)
next
  case (Some l0)
  have lid: "lease_id l0 = lid" using find_Some_iff' [OF Some] by simp
  have b: "lease_channel l0 = ch" "lease_token l0 = t"
    using assms Some by (auto simp: complete_tx_def tx_Inr Let_def guard_simps split: if_splits)
  show ?thesis
  proof (cases "lease_status l0 = Lease_held")
    case False
    then show ?thesis
      using assms Some b
      by (auto simp: complete_tx_def tx_Inr Let_def guard_simps split: if_splits dest!: toLeaseSnapshot_Inr)
  next
    case True
    then show ?thesis
      using assms Some b lid
      by (cases "speakingCompletionIsSpeech c")
        (auto simp: complete_tx_def record_speech_tx_def tx_Inr Let_def guard_simps completed_db_def
          dest!: toLeaseSnapshot_Inr)
  qed
qed

lemma completeEgressLease_Inr:
  assumes "completeEgressLease lid ch t c n d st = (Inr l, st')"
  shows "\<exists>delta db'. 0 \<le> delta \<and> (d = None \<longrightarrow> delta = 0) \<and> (\<forall>v. d = Some v \<longrightarrow> delta = numval v)
    \<and> complete_tx lid ch t c (intval n) delta (store_db st) = Inr (l, db') \<and> st' = st\<lparr>store_db := db'\<rparr>"
  using assms
  by (cases d) (auto simp: completeEgressLease_def guarded_eq_Inr guard_simps store_transaction_Inr)

lemma completeEgressLease_Inl:
  "completeEgressLease lid ch t c n d st = (Inl e, st') \<Longrightarrow> st' = st"
  by (auto simp: completeEgressLease_def guarded_eq_Inl store_transaction_Inl)

text \<open>A lease that was expired can no longer be completed.\<close>

lemma expired_completion_throws:
  assumes "find (\<lambda>k. lease_id k = lid) (leases (store_db st)) = Some l"
    and "lease_status l = Lease_expired" "lease_reason l = Some Expiry"
  shows "\<exists>e. completeEgressLease lid ch t c n d st = (Inl e, st)"
proof (cases "completeEgressLease lid ch t c n d st")
  case (Pair r st2)
  show ?thesis
  proof (cases r)
    case (Inl e)
    then show ?thesis using Pair completeEgressLease_Inl by blast
  next
    case (Inr y)
    with Pair completeEgressLease_Inr obtain delta db' where
      "complete_tx lid ch t c (intval n) delta (store_db st) = Inr (y, db')" by blast
    from complete_tx_Inr [OF this] have "speakingCompletionReason c = Expiry"
      using assms by auto
    then show ?thesis by (cases c) auto
  qed
qed

lemma next_token_bigger:
  assumes "arb_inv db" "k \<in> set (leases db)" "lease_of_event ch ev k"
  shows "lease_token k < next_token ch ev (leases db)"
proof -
  have s: "slot_ok (event_leases ch ev db)" and k: "k \<in> set (event_leases ch ev db)"
    using assms by (auto simp: arb_inv_def event_leases_def)
  show ?thesis
    using next_token_slot [OF s] s k
    by (cases "event_leases ch ev db" rule: rev_cases) (auto simp: slot_ok_def sorted_wrt_append)
qed

lemma reclaimed_row:
  assumes inv: "arb_inv db" and tx: "acquire_tx lid (res_id rrow) ch n x u db = Inr (Acq_acquired l, db')"
    and fresh: "lid \<notin> lease_id ` set (leases db)" and rr: "rrow \<in> set (reservations db)"
    and k: "k \<in> set (leases db)" "lease_of_event ch (res_event rrow) k" "lease_status k = Lease_held"
  shows "find (\<lambda>j. lease_id j = lease_id k) (leases db') = Some (expire_lease n k)"
proof -
  have c: "arbiter_constraints db" and s: "slot_ok (event_leases ch (res_event rrow) db)"
    using inv by (auto simp: arb_inv_def)
  have c': "arbiter_constraints db'"
    using inv tx_withinD [OF acquire_within tx] by (simp add: arb_rel_def arb_inv_def)
  note fr = find_res_id [OF c rr]
  from tx show ?thesis
  proof (cases rule: acquire_tx_cases)
    case (replay l')
    then show ?thesis using fresh find_Some_iff' [OF replay(1)] by auto
  next
    case (free rr')
    then show ?thesis using fr k by (auto simp: held_lease_None)
  next
    case (reclaim rr' h db1)
    have "h \<in> set (event_leases ch (res_event rrow) db)" "\<not> lease_dead h"
      using held_lease_Some [OF reclaim(7)] reclaim(2) fr by (auto simp: event_leases_def lease_dead_def)
    moreover have "k \<in> set (event_leases ch (res_event rrow) db)" "\<not> lease_dead k"
      using k by (auto simp: event_leases_def lease_dead_def)
    ultimately have "k = h" using slot_ok_last [OF s] by metis
    then have "expire_lease n k \<in> set (leases db')"
      using grant_tx_Inr [OF reclaim(11)] k by (auto simp: reclaim(9) set_update_where)
    from find_lease_id [OF c' this] show ?thesis by (simp add: expire_lease_def)
  qed simp_all
qed

section \<open>Reservation and sweep\<close>

definition same_reservations :: "arbiter_db \<Rightarrow> arbiter_db \<Rightarrow> bool" where
  "same_reservations db db' \<longleftrightarrow> reservations db' = reservations db"

lemma same_reservations_rules:
  "reflp same_reservations" "transp same_reservations"
  by (simp_all add: same_reservations_def reflp_def transp_def)

lemma same_reservations_exec:
  "tx_within same_reservations (exec (\<lambda>db. db\<lparr>episodes := f db\<rparr>))"
  "tx_within same_reservations (exec (\<lambda>db. if b db then db else db\<lparr>participation := g db\<rparr>))"
  by (auto simp: tx_within_def tx_Inr same_reservations_def)

lemma reserve_prefix:
  "tx_within same_reservations (ensureOpenEpisode ch n x)"
  "tx_within same_reservations (ensureParticipant e c)"
  "tx_within same_reservations (loadEpisodeSnapshot e)"
  unfolding ensureOpenEpisode_def loadOpenEpisodeRow_def ensureParticipant_def loadEpisodeSnapshot_def
  by (intro tx_rules same_reservations_rules same_reservations_exec)+

definition reservation_for :: "string \<Rightarrow> string \<Rightarrow> string \<Rightarrow> arbiter_db \<Rightarrow> reservation_row option" where
  "reservation_for ch ev cid db =
     find (\<lambda>r. res_channel r = ch \<and> res_event r = ev \<and> res_companion r = cid) (reservations db)"

lemma reserve_tx_Inr:
  assumes "reserve_tx rid ch ev cid n x f db = Inr (r, db')"
  shows "(reservation_for ch ev cid db = None \<and> reserve_outcome r = Reserve_reserved
      \<and> (\<exists>eid. reserve_reservation r = fresh_reservation rid ch ev cid eid n x)
      \<and> reservations db' = reservations db @ [reserve_reservation r])
    \<or> (reservation_for ch ev cid db = Some (reserve_reservation r) \<and> reserve_outcome r = Reserve_replayed
      \<and> reservations db' = reservations db)"
proof -
  from assms obtain e db1 db2 db3 where
    p: "ensureOpenEpisode ch n f db = Inr (e, db1)" "txif (n > ep_lastActivityAt e)
       (exec (\<lambda>db. db\<lparr>episodes := update_where (\<lambda>r. ep_id r = ep_id e)
            (\<lambda>r. r\<lparr>ep_lastActivityAt := n, ep_revision := ep_revision r + 1\<rparr>) (episodes db)\<rparr>)) db1
       = Inr ((), db2)" "ensureParticipant (ep_id e) cid db2 = Inr ((), db3)"
    and rest: "(case reservation_for ch ev cid db3 of
       None \<Rightarrow>
         (let row = fresh_reservation rid ch ev cid (ep_id e) n x in
          txbind (exec (\<lambda>db. db\<lparr>reservations := reservations db @ [row]\<rparr>)) (\<lambda>_.
          txbind (txpure (toReservationSnapshot row)) (\<lambda>r.
          txbind (loadEpisodeSnapshot (res_episode r)) (\<lambda>s.
          txret \<lparr>reserve_outcome = Reserve_reserved, reserve_reservation = r, reserve_episode = s\<rparr>))))
     | Some row \<Rightarrow>
          txbind (txpure (toReservationSnapshot row)) (\<lambda>r.
          txbind (loadEpisodeSnapshot (res_episode r)) (\<lambda>s.
          txret \<lparr>reserve_outcome = Reserve_replayed, reserve_reservation = r,
                 reserve_episode = s\<rparr>))) db3 = Inr (r, db')"
    by (auto simp: reserve_tx_def tx_Inr guard_simps reservation_for_def)
  have same: "reservations db3 = reservations db"
    using tx_withinD [OF reserve_prefix(1) p(1)] tx_withinD [OF reserve_prefix(2) p(3)]
      tx_withinD [OF tx_within_txif [OF same_reservations_rules(1) same_reservations_exec(1)] p(2)]
    by (simp add: same_reservations_def)
  then have eq: "reservation_for ch ev cid db3 = reservation_for ch ev cid db"
    by (simp add: reservation_for_def)
  have snap: "reservations d = reservations d'" if "loadEpisodeSnapshot y d' = Inr (z, d)" for y z d d'
    using tx_withinD [OF reserve_prefix(3) that] by (simp add: same_reservations_def)
  show ?thesis
    using rest same eq
    by (cases "reservation_for ch ev cid db")
      (auto simp: tx_Inr Let_def dest!: toReservationSnapshot_Inr snap)
qed

lemma reserve_Inr:
  assumes "reserve rid ch ev cid n x f st = (Inr r, st')"
  shows "\<exists>db'. reserve_tx rid ch ev cid (intval n) (intval x) f (store_db st) = Inr (r, db')
    \<and> st' = st\<lparr>store_db := db'\<rparr>"
  using assms by (auto simp: reserve_def guarded_eq_Inr guard_simps store_transaction_Inr)

lemma reservation_for_append:
  "reservation_for ch ev cid db = None \<Longrightarrow> reservations db' = reservations db @ [row] \<Longrightarrow>
     res_channel row = ch \<Longrightarrow> res_event row = ev \<Longrightarrow> res_companion row = cid \<Longrightarrow>
     reservation_for ch ev cid db' = Some row"
  by (auto simp: reservation_for_def find_snoc)

lemma sweep_tx_Inr:
  "sweep_tx c n db = Inr (r, db') \<longleftrightarrow>
     (let ls = update_where (lease_lapsed c n) (expire_lease n) (leases db) in
      arbiter_constraints (db\<lparr>leases := ls\<rparr>) \<and> arbiter_constraints db'
      \<and> db' = db\<lparr>leases := ls, reservations :=
           update_where (reservation_lapsed c n ls) (expire_reservation n) (reservations db)\<rparr>
      \<and> r = \<lparr>sweep_expiredReservations = length (filter (reservation_lapsed c n ls) (reservations db)),
             sweep_expiredLeases = length (filter (lease_lapsed c n) (leases db))\<rparr>)"
  by (auto simp: sweep_tx_def tx_Inr Let_def)

section \<open>Properties\<close>

text \<open>
  C25. Crash recovery: in a reachable open store, a caller with an active reservation for an
  unspoken event and a fresh lease id is always granted the lease unless a live holder owns the
  event. A lapsed holder is reclaimed; the new fencing token exceeds every token issued for the
  event, and any later completion by the old holder throws and changes nothing.
\<close>

theorem arbiter_acquire_recovers:
  assumes "arbiter_reachable st" "\<not> store_closed st"
    and "acquirable (store_db st) lid rrow n x" "0 \<le> u"
    and "spent_lease (res_channel rrow) (res_event rrow) (leases (store_db st)) = None"
    and "lapsed_holder (store_db st) (res_channel rrow) (res_event rrow) n"
    and "next_token (res_channel rrow) (res_event rrow) (leases (store_db st)) \<le> MAX_SAFE_INTEGER"
  shows "\<exists>l st'. acquireEgressLease lid (res_id rrow) (res_channel rrow) (jsint n) (jsint x) (Some (Fin u)) st
      = (Inr (Acq_acquired l), st') \<and> lease_companion l = res_companion rrow \<and> lease_charged l = u
    \<and> (\<forall>k \<in> set (leases (store_db st)). lease_of_event (res_channel rrow) (res_event rrow) k \<longrightarrow>
          lease_token k < lease_token l)
    \<and> (\<forall>k \<in> set (leases (store_db st)). lease_of_event (res_channel rrow) (res_event rrow) k
          \<and> lease_status k = Lease_held \<longrightarrow>
              (\<forall>t c n' d. \<exists>e. completeEgressLease (lease_id k) (lease_channel k) t c n' d st' = (Inl e, st')))"
proof -
  let ?ch = "res_channel rrow" and ?ev = "res_event rrow" and ?db = "store_db st"
  let ?l = "fresh_lease lid (res_id rrow) ?ch rrow (next_token ?ch ?ev (leases ?db)) u n x"
  have inv: "arb_inv ?db" by (rule reachable_inv [OF assms(1)])
  from acquire_tx_total [OF inv assms(3,4,5,6,7)] obtain db' where
    tx: "acquire_tx lid (res_id rrow) ?ch n x u ?db = Inr (Acq_acquired ?l, db')" by blast
  define st' where "st' = st\<lparr>store_db := db'\<rparr>"
  have op: "acquireEgressLease lid (res_id rrow) ?ch (jsint n) (jsint x) (Some (Fin u)) st
      = (Inr (Acq_acquired ?l), st')"
    using tx assms(2,3,4)
    by (simp add: acquireEgressLease_def acquirable_def st'_def requireUuid_def requireIdentifier_def
        requireTimestamp_def requireFutureDeadline_def assertNonNegativeFinite_def
        withPostgresClient_def store_transaction_def)
  have "\<exists>e. completeEgressLease (lease_id k) (lease_channel k) t c n' d st' = (Inl e, st')"
    if "k \<in> set (leases ?db)" "lease_of_event ?ch ?ev k \<and> lease_status k = Lease_held" for k t c n' d
  proof (rule expired_completion_throws)
    show "find (\<lambda>j. lease_id j = lease_id k) (leases (store_db st')) = Some (expire_lease n k)"
      using reclaimed_row [OF inv tx] assms(3) that by (simp add: acquirable_def st'_def)
  qed (simp_all add: expire_lease_def)
  moreover have "lease_token k < lease_token ?l" if "k \<in> set (leases ?db)" "lease_of_event ?ch ?ev k" for k
    using next_token_bigger [OF inv that] by (simp add: fresh_lease_def)
  moreover have "lease_companion ?l = res_companion rrow" "lease_charged ?l = u"
    by (simp_all add: fresh_lease_def)
  ultimately show ?thesis using op by blast
qed

theorem arbiter_acquire_recovers_witness:
  "\<exists>l st'. acquireEgressLease (demo_id 6) (demo_id 2) ''room'' (jsint 600) (jsint 900) (Some (Fin 1)) demo_held
      = (Inr (Acq_acquired l), st') \<and> lease_companion l = demo_id 11 \<and> 1 < lease_token l
    \<and> (\<exists>e. completeEgressLease (demo_id 5) ''room'' 1 Complete_delivered (Fin 610) None st' = (Inl e, st'))"
proof -
  let ?r = "demo_reservation 2 11 12"
  have ids: "isRfc4122Uuid (demo_id 6)" "isRfc4122Uuid (demo_id 2)" by code_simp+
  have r: "res_id ?r = demo_id 2" "res_channel ?r = ''room''" "res_event ?r = ''event''"
    "res_companion ?r = demo_id 11" "res_status ?r = Res_reserved" "res_expiresAt ?r = 1000"
    by (simp_all add: demo_reservation_def fresh_reservation_def)
  have l: "lease_id demo_lease = demo_id 5" "lease_channel demo_lease = ''room''" "lease_event demo_lease = ''event''"
    "lease_token demo_lease = 1" "lease_status demo_lease = Lease_held" "lease_expiresAt demo_lease = 500"
    "lease_revision demo_lease = 1"
    by (simp_all add: demo_lease_def fresh_lease_def demo_reservation_def fresh_reservation_def)
  have h: "leases (store_db demo_held) = [demo_lease]" "?r \<in> set (reservations (store_db demo_held))"
    "\<not> store_closed demo_held" by (simp_all add: demo_held_eval)
  have "acquirable (store_db demo_held) (demo_id 6) ?r 600 900"
    using h ids by (simp add: acquirable_def r l isReservationActive_def isBoundedString_def MAX_SAFE_INTEGER_def)
  moreover have "spent_lease ''room'' ''event'' (leases (store_db demo_held)) = None"
    by (simp add: h spent_lease_None speech_terminal_def l)
  moreover have "lapsed_holder (store_db demo_held) ''room'' ''event'' 600"
    by (simp add: lapsed_holder_def h held_lease_def lease_of_event_def l MAX_SAFE_INTEGER_def INT8_MAX_def)
  moreover have "next_token ''room'' ''event'' (leases (store_db demo_held)) \<le> MAX_SAFE_INTEGER"
    by (simp add: h next_token_def lease_of_event_def l MAX_SAFE_INTEGER_def)
  ultimately obtain la st' where
    a: "acquireEgressLease (demo_id 6) (demo_id 2) ''room'' (jsint 600) (jsint 900) (Some (Fin 1)) demo_held
      = (Inr (Acq_acquired la), st')" "lease_companion la = demo_id 11"
    and t: "\<forall>k \<in> set (leases (store_db demo_held)). lease_of_event ''room'' ''event'' k \<longrightarrow>
      lease_token k < lease_token la"
    and s: "\<forall>k \<in> set (leases (store_db demo_held)). lease_of_event ''room'' ''event'' k
      \<and> lease_status k = Lease_held \<longrightarrow>
      (\<forall>t c n' d. \<exists>e. completeEgressLease (lease_id k) (lease_channel k) t c n' d st' = (Inl e, st'))"
    using arbiter_acquire_recovers [OF demo_reachable(1) h(3), of "demo_id 6" ?r 600 900 1] unfolding r by auto
  have "1 < lease_token la" using t by (simp add: h lease_of_event_def l)
  moreover have "\<exists>e. completeEgressLease (demo_id 5) ''room'' 1 Complete_delivered (Fin 610) None st' = (Inl e, st')"
    using s by (simp add: h lease_of_event_def l)
  ultimately show ?thesis using a by blast
qed

text \<open>
  What a completion does. If it returns, the caller presented the channel and the fencing
  token of the lease. On a held lease it ends the lease with the reported outcome, and exactly
  for a delivered or overridden lease it adds the pressure and one autonomous turn to the
  lease's episode, records the speaker, and leaves no reservation of the event open; a failed
  or released lease charges nothing. On a lease that already ended for the same reason it
  changes nothing, so a replay never charges twice.
\<close>

theorem arbiter_complete_effects:
  assumes "arbiter_reachable st" "completeEgressLease lid ch t c n d st = (Inr l, st')"
  shows "\<exists>l0. find (\<lambda>k. lease_id k = lid) (leases (store_db st)) = Some l0
    \<and> lease_channel l0 = ch \<and> lease_token l0 = t
    \<and> (lease_status l0 \<noteq> Lease_held \<longrightarrow>
         st' = st \<and> l = l0 \<and> lease_reason l0 = Some (speakingCompletionReason c))
    \<and> (lease_status l0 = Lease_held \<longrightarrow>
         l = complete_lease c (intval n) l0
         \<and> find (\<lambda>k. lease_id k = lid) (leases (store_db st')) = Some l
         \<and> (\<not> speakingCompletionIsSpeech c \<longrightarrow>
              episodes (store_db st') = episodes (store_db st)
              \<and> participation (store_db st') = participation (store_db st))
         \<and> (speakingCompletionIsSpeech c \<longrightarrow>
              episodes (store_db st') =
                map (\<lambda>e. if ep_id e = lease_episode l0
                         then charge_episode (case d of None \<Rightarrow> 0 | Some v \<Rightarrow> numval v)
                                (lease_companion l0) (intval n) e else e) (episodes (store_db st))
              \<and> (\<forall>r \<in> set (reservations (store_db st')).
                    res_channel r = ch \<and> res_event r = lease_event l0 \<longrightarrow> res_status r \<noteq> Res_reserved)))"
proof -
  from completeEgressLease_Inr [OF assms(2)] obtain delta db' where
    delta: "delta = (case d of None \<Rightarrow> 0 | Some v \<Rightarrow> numval v)"
    and tx: "complete_tx lid ch t c (intval n) delta (store_db st) = Inr (l, db')"
    and st': "st' = st\<lparr>store_db := db'\<rparr>"
    by (cases d) auto
  from complete_tx_Inr [OF tx] obtain l0 where
    l0: "find (\<lambda>k. lease_id k = lid) (leases (store_db st)) = Some l0" "lease_channel l0 = ch" "lease_token l0 = t"
    and eff: "if lease_status l0 = Lease_held
       then l = complete_lease c (intval n) l0 \<and> db' = completed_db (store_db st) l0 c (intval n) delta
         \<and> arbiter_constraints db'
       else lease_reason l0 = Some (speakingCompletionReason c) \<and> l = l0 \<and> db' = store_db st"
    by blast
  show ?thesis
  proof (cases "lease_status l0 = Lease_held")
    case False
    then show ?thesis using l0 eff st' by simp
  next
    case True
    from eff [unfolded if_P [OF True]] have e: "l = complete_lease c (intval n) l0"
      "db' = completed_db (store_db st) l0 c (intval n) delta" "arbiter_constraints db'" by blast+
    have lid: "lease_id l0 = lid" "l0 \<in> set (leases (store_db st))" using find_Some_iff' [OF l0(1)] by auto
    have "l \<in> set (leases db')"
      using True lid by (force simp: e completed_db_def Let_def set_update_where)
    from find_lease_id [OF e(3) this] have fl: "find (\<lambda>k. lease_id k = lid) (leases db') = Some l"
      by (simp add: e(1) complete_lease_def lid)
    have closed: "\<forall>r \<in> set (reservations db'). res_channel r = ch \<and> res_event r = lease_event l0
        \<longrightarrow> res_status r \<noteq> Res_reserved" if "speakingCompletionIsSpeech c"
      using that l0(2) by (auto simp: e(2) completed_db_def Let_def set_update_where release_row_def
          split: if_splits)
    have eps: "episodes db' = (if speakingCompletionIsSpeech c
        then map (\<lambda>e. if ep_id e = lease_episode l0
               then charge_episode (case d of None \<Rightarrow> 0 | Some v \<Rightarrow> numval v)
                      (lease_companion l0) (intval n) e else e) (episodes (store_db st))
        else episodes (store_db st))"
      "\<not> speakingCompletionIsSpeech c \<Longrightarrow> participation db' = participation (store_db st)"
      by (simp_all add: e(2) completed_db_def Let_def delta update_where_def)
    have db: "store_db st' = db'" by (simp add: st')
    show ?thesis
      unfolding db using True l0 fl e(1) closed eps by (intro exI [of _ l0]) simp
  qed
qed

theorem arbiter_complete_effects_witness:
  "\<exists>l st'. completeEgressLease (demo_id 5) ''room'' 1 Complete_delivered (Fin 30) (Some (Fin 3)) demo_held
      = (Inr l, st') \<and> lease_status l = Lease_delivered
    \<and> map ep_pressure (episodes (store_db st')) = [3] \<and> map ep_turns (episodes (store_db st')) = [1]"
proof -
  let ?r = "completeEgressLease (demo_id 5) ''room'' 1 Complete_delivered (Fin 30) (Some (Fin 3)) demo_held"
  have "\<not> isl (fst ?r)" unfolding demo_held_eval by code_simp
  then obtain l st' where r: "?r = (Inr l, st')" by (cases ?r; cases "fst ?r") auto
  have f: "find (\<lambda>k. lease_id k = demo_id 5) (leases (store_db demo_held)) = Some demo_lease"
    by (simp add: demo_held_eval demo_lease_def fresh_lease_def)
  have l: "lease_status demo_lease = Lease_held" "lease_episode demo_lease = demo_id 3"
    "ep_id demo_episode = demo_id 3" "ep_pressure demo_episode = 0" "ep_turns demo_episode = 0"
    by (simp_all add: demo_lease_def fresh_lease_def demo_reservation_def fresh_reservation_def
        demo_episode_def fresh_episode_def)
  have "l = complete_lease Complete_delivered (intval (Fin 30)) demo_lease"
    "episodes (store_db st') = map (\<lambda>e. if ep_id e = lease_episode demo_lease
       then charge_episode 3 (lease_companion demo_lease) (intval (Fin 30)) e else e) (episodes (store_db demo_held))"
    using arbiter_complete_effects [OF demo_reachable(1) r] unfolding f
    by (simp_all add: l speakingCompletionIsSpeech_def)
  then show ?thesis
    using r by (simp add: demo_held_eval l complete_lease_def charge_episode_def)
qed

text \<open>
  Reserving is idempotent per channel, event and companion: the first successful call
  inserts one reservation, and repeating it with any id, deadline or clock replays that
  reservation unchanged and inserts nothing.
\<close>

theorem arbiter_reserve_replays:
  assumes "reserve rid ch ev cid n x f st = (Inr r1, st1)"
    and "reserve rid' ch ev cid n' x' f' st1 = (Inr r2, st2)"
  shows "reserve_outcome r2 = Reserve_replayed
    \<and> reserve_reservation r2 = reserve_reservation r1
    \<and> reservations (store_db st2) = reservations (store_db st1)
    \<and> length (reservations (store_db st1)) =
        length (reservations (store_db st)) + (if reserve_outcome r1 = Reserve_reserved then 1 else 0)"
proof -
  from reserve_Inr [OF assms(1)] obtain db1 where
    t1: "reserve_tx rid ch ev cid (intval n) (intval x) f (store_db st) = Inr (r1, db1)"
    and s1: "store_db st1 = db1" by auto
  from reserve_Inr [OF assms(2)] obtain db2 where
    t2: "reserve_tx rid' ch ev cid (intval n') (intval x') f' db1 = Inr (r2, db2)"
    and s2: "store_db st2 = db2" by (auto simp: s1)
  have a: "reservation_for ch ev cid db1 = Some (reserve_reservation r1)
      \<and> length (reservations db1) =
        length (reservations (store_db st)) + (if reserve_outcome r1 = Reserve_reserved then 1 else 0)"
    using reserve_tx_Inr [OF t1]
  proof (elim disjE conjE exE)
    fix eid
    assume n: "reservation_for ch ev cid (store_db st) = None" "reserve_outcome r1 = Reserve_reserved"
      "reserve_reservation r1 = fresh_reservation rid ch ev cid eid (intval n) (intval x)"
      "reservations db1 = reservations (store_db st) @ [reserve_reservation r1]"
    then show ?thesis
      using reservation_for_append [OF n(1,4)] by (simp add: fresh_reservation_def)
  next
    assume "reservation_for ch ev cid (store_db st) = Some (reserve_reservation r1)"
      "reserve_outcome r1 = Reserve_replayed" "reservations db1 = reservations (store_db st)"
    then show ?thesis by (simp add: reservation_for_def)
  qed
  from reserve_tx_Inr [OF t2] a show ?thesis by (auto simp: s1 s2)
qed

theorem arbiter_reserve_replays_witness:
  "\<exists>r2 st2. reserve (demo_id 7) ''room'' ''event'' (demo_id 10) (Fin 50) (Fin 400) (demo_id 8) demo_held
      = (Inr r2, st2) \<and> (\<exists>r3 st3. reserve (demo_id 9) ''room'' ''event'' (demo_id 10) (Fin 60) (Fin 500)
          (demo_id 8) st2 = (Inr r3, st3) \<and> reserve_outcome r3 = Reserve_replayed
          \<and> reserve_reservation r3 = reserve_reservation r2)"
proof -
  let ?r = "reserve (demo_id 7) ''room'' ''event'' (demo_id 10) (Fin 50) (Fin 400) (demo_id 8) demo_held"
  let ?s = "reserve (demo_id 9) ''room'' ''event'' (demo_id 10) (Fin 60) (Fin 500) (demo_id 8) (snd ?r)"
  have ok: "\<not> isl (fst ?r)" "\<not> isl (fst ?s)" unfolding demo_held_eval by code_simp+
  then obtain r2 st2 where r: "?r = (Inr r2, st2)" by (cases ?r; cases "fst ?r") auto
  obtain r3 st3 where s: "reserve (demo_id 9) ''room'' ''event'' (demo_id 10) (Fin 60) (Fin 500) (demo_id 8) st2
      = (Inr r3, st3)"
    using ok(2) r by (cases ?s; cases "fst ?s") auto
  show ?thesis using arbiter_reserve_replays [OF r s] r s by blast
qed

text \<open>
  The watchdog sweep expires exactly what lapsed: afterwards no held lease in its scope is
  past its deadline, a reservation past its deadline stays open only while a live lease is held
  for it, leases and reservations that had not lapsed are untouched, and the counts returned
  are the numbers of rows expired.
\<close>

theorem arbiter_sweep_exact:
  assumes "sweepExpired c n st = (Inr r, st')"
  shows "(\<forall>l \<in> set (leases (store_db st')). lease_status l = Lease_held \<and> sweep_scope c (lease_channel l) \<longrightarrow>
           intval n < lease_expiresAt l)
    \<and> (\<forall>k \<in> set (reservations (store_db st')). res_status k = Res_reserved \<and> sweep_scope c (res_channel k)
           \<and> res_expiresAt k \<le> intval n \<longrightarrow>
           (\<exists>l \<in> set (leases (store_db st')). lease_reservation l = res_id k \<and> lease_status l = Lease_held))
    \<and> list_all2 (\<lambda>l l'. l' = (if lease_lapsed c (intval n) l then expire_lease (intval n) l else l))
           (leases (store_db st)) (leases (store_db st'))
    \<and> list_all2 (\<lambda>k k'. k' = k \<or> res_status k = Res_reserved \<and> res_expiresAt k \<le> intval n
                             \<and> k' = expire_reservation (intval n) k)
           (reservations (store_db st)) (reservations (store_db st'))
    \<and> sweep_expiredLeases r = length (filter (lease_lapsed c (intval n)) (leases (store_db st)))"
proof -
  let ?n = "intval n" and ?db = "store_db st"
  let ?ls = "update_where (lease_lapsed c ?n) (expire_lease ?n) (leases ?db)"
  from assms obtain db' where tx: "sweep_tx c ?n ?db = Inr (r, db')" and st': "st' = st\<lparr>store_db := db'\<rparr>"
    by (cases c) (auto simp: sweepExpired_def guarded_eq_Inr guard_simps store_transaction_Inr rbind_eq_Inr)
  from tx have e: "leases (store_db st') = ?ls"
    "reservations (store_db st') =
       update_where (reservation_lapsed c ?n ?ls) (expire_reservation ?n) (reservations ?db)"
    "sweep_expiredLeases r = length (filter (lease_lapsed c ?n) (leases ?db))"
    unfolding sweep_tx_Inr Let_def by (auto simp: st')
  have 1: "\<forall>l \<in> set ?ls. lease_status l = Lease_held \<and> sweep_scope c (lease_channel l) \<longrightarrow> ?n < lease_expiresAt l"
    by (auto simp: set_update_where lease_lapsed_def expire_lease_def)
  have 2: "\<forall>k \<in> set (reservations (store_db st')). res_status k = Res_reserved \<and> sweep_scope c (res_channel k)
      \<and> res_expiresAt k \<le> ?n \<longrightarrow>
      (\<exists>l \<in> set ?ls. lease_reservation l = res_id k \<and> lease_status l = Lease_held)"
    by (auto simp: e set_update_where [of "reservation_lapsed c ?n ?ls"] reservation_lapsed_def
        expire_reservation_def list_ex_iff)
  have 3: "list_all2 (\<lambda>l l'. l' = (if lease_lapsed c ?n l then expire_lease ?n l else l)) (leases ?db) ?ls"
    by (simp add: update_where_def list_all2_map2 list_all2_same)
  have 4: "list_all2 (\<lambda>k k'. k' = k \<or> res_status k = Res_reserved \<and> res_expiresAt k \<le> ?n
      \<and> k' = expire_reservation ?n k) (reservations ?db) (reservations (store_db st'))"
    unfolding e(2) update_where_def list_all2_map2 list_all2_same by (simp add: reservation_lapsed_def)
  show ?thesis using 1 2 3 4 e by simp
qed

theorem arbiter_sweep_exact_witness:
  "\<exists>r st'. sweepExpired None (Fin 2000) demo_held = (Inr r, st') \<and> sweep_expiredLeases r = 1"
proof -
  let ?r = "sweepExpired None (Fin 2000) demo_held"
  have "\<not> isl (fst ?r)" unfolding demo_held_eval by code_simp
  then obtain r st' where r: "?r = (Inr r, st')" by (cases ?r; cases "fst ?r") auto
  have "lease_lapsed None 2000 demo_lease"
    by (simp add: lease_lapsed_def sweep_scope_def demo_lease_def fresh_lease_def)
  then show ?thesis using arbiter_sweep_exact [OF r] r by (simp add: demo_held_eval intval_def)
qed

end
