(* ===== verification/Binary64.thy ===== *)
theory Binary64
  imports Complex_Main
begin

text \<open>
  Rounding to the doubles of JavaScript: the nearest number with 53 significant bits, the even one of two neighbours in
  the middle. The range of the exponent is not bounded, so overflow and subnormal numbers are left out. Where a property
  of the development needs that sums and products of doubles are exact, it says so and rests on the lemmas below.
\<close>

definition round_even :: "real \<Rightarrow> int" where
  "round_even y = (let n = \<lfloor>y\<rfloor>; d = y - of_int n in
     if d < 1 / 2 then n else if d > 1 / 2 then n + 1 else if even n then n else n + 1)"

text \<open>The exponent of the last of the 53 bits.\<close>

definition last_place :: "real \<Rightarrow> int" where
  "last_place x = \<lfloor>log 2 \<bar>x\<bar>\<rfloor> - 52"

definition binary64 :: "real \<Rightarrow> real" where
  "binary64 x = (if x = 0 then 0 else of_int (round_even (x * 2 powr (- of_int (last_place x)))) * 2 powr of_int (last_place x))"

text \<open>Multiples of a power of two with at most 53 bits.\<close>

definition on_grid :: "nat \<Rightarrow> real \<Rightarrow> bool" where
  "on_grid k x \<longleftrightarrow> (\<exists>i :: int. x = of_int i / 2 ^ k \<and> \<bar>i\<bar> \<le> 2 ^ 53)"

lemma round_even_near: "\<bar>of_int (round_even y) - y\<bar> \<le> 1 / 2"
  unfolding round_even_def Let_def by (simp add: abs_le_iff)

lemma round_even_int [simp]: "round_even (of_int n) = n"
  by (simp add: round_even_def)

lemma last_place_bounds:
  assumes "x \<noteq> 0"
  shows "2 powr of_int (last_place x + 52) \<le> \<bar>x\<bar>"
proof -
  have "2 powr of_int \<lfloor>log 2 \<bar>x\<bar>\<rfloor> \<le> 2 powr log 2 \<bar>x\<bar>" by (intro powr_mono) auto
  then show ?thesis using assms by (simp add: last_place_def)
qed

text \<open>Half a unit in the last place.\<close>

lemma binary64_error: "\<bar>binary64 x - x\<bar> \<le> \<bar>x\<bar> / 2 ^ 53"
proof (cases "x = 0")
  case False
  let ?e = "of_int (last_place x) :: real"
  let ?y = "x * 2 powr - ?e"
  have "binary64 x - x = (of_int (round_even ?y) - ?y) * 2 powr ?e"
    using False by (simp add: binary64_def algebra_simps powr_minus)
  then have "\<bar>binary64 x - x\<bar> = \<bar>of_int (round_even ?y) - ?y\<bar> * 2 powr ?e" by (simp add: abs_mult)
  also have "\<dots> \<le> 1 / 2 * 2 powr ?e" using round_even_near by (intro mult_right_mono) auto
  also have "\<dots> = 2 powr (?e + 52) / 2 ^ 53" by (simp add: powr_add)
  also have "\<dots> \<le> \<bar>x\<bar> / 2 ^ 53" using last_place_bounds [OF False] by (intro divide_right_mono) simp_all
  finally show ?thesis .
qed (simp add: binary64_def)

text \<open>A number of at most 53 bits is not rounded: in units of its last place it is an integer.\<close>

lemma grid_scaled:
  fixes x :: real
  assumes x: "x = of_int i / 2 ^ k" and i: "\<bar>i\<bar> \<le> 2 ^ 53" and "x \<noteq> 0"
  shows "\<exists>n :: int. x * 2 powr (- of_int (last_place x)) = of_int n" (is "\<exists>n. x * 2 powr (- of_int ?e) = _")
proof (cases "0 \<le> - int k - ?e")
  case True
  define m where "m = nat (- int k - ?e)"
  have m: "- ?e = int m + int k" using True by (simp add: m_def)
  have "x * 2 powr (- of_int ?e) = of_int i / 2 ^ k * 2 powr (of_int (int m + int k))" unfolding x m [symmetric] by simp
  also have "\<dots> = of_int i / 2 ^ k * 2 ^ (m + k)" by (simp add: powr_realpow [symmetric])
  also have "\<dots> = of_int (i * 2 ^ m)" by (simp add: power_add)
  finally show ?thesis by blast
next
  case False
  then have "- int k + 1 \<le> ?e" by simp
  have "2 powr of_int (?e + 52) * 2 ^ k \<le> \<bar>x\<bar> * 2 ^ k" using last_place_bounds [OF assms(3)] by (intro mult_right_mono) auto
  also have "\<dots> = of_int \<bar>i\<bar>" by (simp add: x abs_divide)
  also have "\<dots> \<le> of_int (2 ^ 53)" using i by (simp only: of_int_le_iff)
  finally have "2 powr (of_int ?e + of_nat k) \<le> (2 powr 1 :: real)" by (simp add: powr_add powr_realpow mult.commute)
  then have "of_int ?e + of_nat k \<le> (1 :: real)" by (simp only: powr_le_cancel_iff)
  then have "?e \<le> 1 - int k" by linarith
  with \<open>- int k + 1 \<le> ?e\<close> have e: "?e = 1 - int k" by simp
  have "2 powr (of_int (?e + 52)) * 2 ^ k \<le> real_of_int \<bar>i\<bar>"
    using \<open>2 powr of_int (?e + 52) * 2 ^ k \<le> \<bar>x\<bar> * 2 ^ k\<close> \<open>\<bar>x\<bar> * 2 ^ k = of_int \<bar>i\<bar>\<close> by simp
  moreover have "2 powr (of_int (?e + 52)) * 2 ^ k = (2 ^ 53 :: real)"
    by (simp add: e powr_realpow [symmetric] powr_add [symmetric])
  ultimately have "(2 :: real) ^ 53 \<le> of_int \<bar>i\<bar>" by simp
  then have "real_of_int (2 ^ 53) \<le> of_int \<bar>i\<bar>" by simp
  then have "2 ^ 53 \<le> \<bar>i\<bar>" by (simp only: of_int_le_iff)
  with i have "\<bar>i\<bar> = 2 ^ 53" by simp
  then have "i = 2 ^ 53 \<or> i = - (2 ^ 53)" by linarith
  moreover have half: "x * 2 powr (- of_int ?e) = of_int i / 2"
  proof -
    have "2 powr (- of_int ?e) = (2 ^ k / 2 :: real)" by (simp add: e powr_diff powr_realpow)
    then have "x * 2 powr (- of_int ?e) = x * (2 ^ k / 2)" by (simp only:)
    also have "\<dots> = of_int i / 2" by (simp add: x)
    finally show ?thesis .
  qed
  ultimately have "x * 2 powr (- of_int ?e) = of_int (2 ^ 52) \<or> x * 2 powr (- of_int ?e) = of_int (- (2 ^ 52))"
    unfolding half by auto
  then show ?thesis by blast
qed

lemma binary64_exact:
  assumes "on_grid k x"
  shows "binary64 x = x"
proof (cases "x = 0")
  case False
  obtain i where i: "x = of_int i / 2 ^ k" "\<bar>i\<bar> \<le> 2 ^ 53" using assms by (auto simp: on_grid_def)
  let ?e = "last_place x"
  from grid_scaled [OF i False] obtain n where n: "x * 2 powr (- of_int ?e) = of_int n" by blast
  then have "of_int n * 2 powr of_int ?e = x * (2 powr (- of_int ?e) * 2 powr of_int ?e)" by simp
  also have "\<dots> = x" by (simp flip: powr_add)
  finally show ?thesis using False by (simp add: binary64_def n)
qed (simp add: binary64_def)

text \<open>Sums, differences and multiples on one grid stay there while they fit.\<close>

lemma on_gridI: "x = of_int i / 2 ^ k \<Longrightarrow> \<bar>x\<bar> \<le> 2 ^ 53 / 2 ^ k \<Longrightarrow> on_grid k x"
proof -
  assume x: "x = of_int i / 2 ^ k" and le: "\<bar>x\<bar> \<le> 2 ^ 53 / 2 ^ k"
  then have "real_of_int \<bar>i\<bar> \<le> real_of_int (2 ^ 53)" by (simp add: abs_divide divide_le_cancel)
  then show ?thesis using x unfolding on_grid_def of_int_le_iff by blast
qed

lemma on_grid_intros:
  assumes "on_grid k x" "on_grid k y"
  shows "\<bar>x + y\<bar> \<le> 2 ^ 53 / 2 ^ k \<Longrightarrow> on_grid k (x + y)" "\<bar>x - y\<bar> \<le> 2 ^ 53 / 2 ^ k \<Longrightarrow> on_grid k (x - y)"
    "\<bar>of_int n * x\<bar> \<le> 2 ^ 53 / 2 ^ k \<Longrightarrow> on_grid k (of_int n * x)"
proof -
  obtain i j where ij: "x = of_int i / 2 ^ k" "y = of_int j / 2 ^ k" using assms by (auto simp: on_grid_def)
  then have "x + y = of_int (i + j) / 2 ^ k" "x - y = of_int (i - j) / 2 ^ k" "of_int n * x = of_int (n * i) / 2 ^ k"
    by (simp_all add: add_divide_distrib diff_divide_distrib)
  then show "\<bar>x + y\<bar> \<le> 2 ^ 53 / 2 ^ k \<Longrightarrow> on_grid k (x + y)" "\<bar>x - y\<bar> \<le> 2 ^ 53 / 2 ^ k \<Longrightarrow> on_grid k (x - y)"
    "\<bar>of_int n * x\<bar> \<le> 2 ^ 53 / 2 ^ k \<Longrightarrow> on_grid k (of_int n * x)"
    using on_gridI by blast+
qed

lemma on_grid_le: "on_grid k x \<Longrightarrow> \<bar>x\<bar> \<le> 2 ^ 53 / 2 ^ k"
proof -
  assume "on_grid k x"
  then obtain i where "x = of_int i / 2 ^ k" "\<bar>i\<bar> \<le> 2 ^ 53" by (auto simp: on_grid_def)
  then have "real_of_int \<bar>i\<bar> \<le> real_of_int (2 ^ 53)" "\<bar>x\<bar> = of_int \<bar>i\<bar> / 2 ^ k" by (simp_all only: of_int_le_iff abs_divide) simp
  then show ?thesis by (simp add: divide_right_mono)
qed

text \<open>The floor of a rounded quotient of safe integers is the quotient of the integers.\<close>

lemma binary64_int: "\<bar>i\<bar> \<le> 2 ^ 53 \<Longrightarrow> binary64 (of_int i) = of_int i"
  by (rule binary64_exact [of 0]) (auto simp: on_grid_def)

lemma floor_binary64_quotient:
  fixes a b :: int
  assumes "0 \<le> a" "a < 2 ^ 53" "0 < b"
  shows "\<lfloor>binary64 (of_int a / of_int b)\<rfloor> = a div b"
proof -
  define q r where "q = a div b" and "r = a mod b"
  have a: "a = q * b + r" and r: "0 \<le> r" "r < b" using assms(3) by (simp_all add: q_def r_def)
  have x: "of_int a / of_int b = of_int q + of_int r / (of_int b :: real)"
    using assms(3) by (simp add: a add_divide_distrib)
  let ?x = "of_int a / of_int b :: real"
  have "\<bar>binary64 ?x - ?x\<bar> \<le> ?x / 2 ^ 53" using binary64_error [of ?x] assms by simp
  also have "\<dots> < 1 / of_int b"
  proof -
    have "real_of_int a < real_of_int (2 ^ 53)" using assms(2) by (simp only: of_int_less_iff)
    then show ?thesis using assms(3) by (simp add: divide_simps)
  qed
  finally have near: "\<bar>binary64 ?x - ?x\<bar> < 1 / of_int b" .
  have "of_int q \<le> binary64 ?x \<and> binary64 ?x < of_int q + 1"
  proof (cases "r = 0")
    case True
    have "0 \<le> q" using assms by (simp add: q_def pos_imp_zdiv_nonneg_iff)
    moreover have "q \<le> a" using calculation assms(3) r(1) mult_left_mono [of 1 b q] a by simp
    ultimately have "0 \<le> q" "q \<le> a" by simp_all
    then have "binary64 ?x = of_int q" using binary64_int [of q] assms(2) True x by simp
    then show ?thesis by simp
  next
    case False
    have "1 / of_int b \<le> of_int r / (of_int b :: real)" "of_int r / (of_int b :: real) \<le> 1 - 1 / of_int b"
      using False r assms(3) by (simp_all add: divide_simps)
    then show ?thesis using near x by linarith
  qed
  then show ?thesis by (simp add: q_def [symmetric] floor_eq_iff)
qed

end
