(* ===== verification/Social_Pot.thy ===== *)
theory Social_Pot
  imports Prelude Binary64
begin

text \<open>
  The per-companion social pot: the fatigue budget that funds autonomous room participation.
  Models \<^verbatim>\<open>src/src/core/agent/fatigue/social-pot.ts\<close> (configuration guard and
  regeneration), \<^verbatim>\<open>src/src/persistence/postgres/social-pot-store.ts\<close> (the durable
  read, draw and refund transactions) and
  \<^verbatim>\<open>src/src/core/agent/fatigue/social-pot-enforcement.ts\<close> (the draw policy on top of
  them). The store state is the table \<^verbatim>\<open>companion_social_pot\<close> as a map from companion
  ids to rows, with the table's CHECK constraint; the advisory lock makes every transaction
  atomic, so an operation is one state transition.
\<close>

section \<open>Configuration and regeneration\<close>

record social_pot_config =
  capUnits :: jsnum
  regenerationTickMs :: jsnum
  regenerationUnitsPerTick :: jsnum

record fatigue_social_pot_config = social_pot_config +
  perChannelDrawFraction :: jsnum

record regeneration_result =
  regen_balance :: real
  regen_lastRegenAtMs :: real

definition assertSocialPotConfig :: "social_pot_config \<Rightarrow> social_pot_config result" where
  "assertSocialPotConfig config =
     rbind (assertPositiveFinite (capUnits config) ''socialPot.capUnits'') (\<lambda>cap.
     rbind (assertPositiveFinite (regenerationTickMs config) ''socialPot.regenerationTickMs'') (\<lambda>tick.
     throwIf (\<not> isSafeInteger tick) ''socialPot.regenerationTickMs must be a safe integer'' (
     rbind (assertPositiveFinite (regenerationUnitsPerTick config)
              ''socialPot.regenerationUnitsPerTick'') (\<lambda>units.
     throwIf (numval units > numval cap)
       ''socialPot.regenerationUnitsPerTick must be <= socialPot.capUnits'' (
     Inr \<lparr>capUnits = cap, regenerationTickMs = tick, regenerationUnitsPerTick = units\<rparr>)))))"

definition regenerateSocialPot ::
  "jsnum \<Rightarrow> jsnum \<Rightarrow> jsnum \<Rightarrow> social_pot_config \<Rightarrow> regeneration_result result" where
  "regenerateSocialPot balance lastRegenAtMs nowMs config =
     rbind (assertPositiveFinite (capUnits config) ''socialPot.capUnits'') (\<lambda>cap.
     rbind (assertPositiveFinite (regenerationTickMs config) ''socialPot.regenerationTickMs'') (\<lambda>tick.
     rbind (assertPositiveFinite (regenerationUnitsPerTick config)
              ''socialPot.regenerationUnitsPerTick'') (\<lambda>units.
     rbind (assertNonNegativeFinite balance ''socialPot.balance'') (\<lambda>bal.
     rbind (assertNonNegativeFinite lastRegenAtMs ''socialPot.lastRegenAtMs'') (\<lambda>lst.
     rbind (assertNonNegativeFinite nowMs ''socialPot.nowMs'') (\<lambda>now.
     let ticks = (if numval now > numval lst
                  then \<lfloor>(numval now - numval lst) / numval tick\<rfloor> else 0);
         credited = of_int ticks * numval units
     in Inr \<lparr>regen_balance = min (numval cap) (numval bal + credited),
             regen_lastRegenAtMs = numval lst + of_int ticks * numval tick\<rparr>))))))"

text \<open>The same function with every operation on doubles rounded as JavaScript does.\<close>

definition regenerateSocialPot_binary64 ::
  "jsnum \<Rightarrow> jsnum \<Rightarrow> jsnum \<Rightarrow> social_pot_config \<Rightarrow> regeneration_result result" where
  "regenerateSocialPot_binary64 balance lastRegenAtMs nowMs config =
     rbind (assertPositiveFinite (capUnits config) ''socialPot.capUnits'') (\<lambda>cap.
     rbind (assertPositiveFinite (regenerationTickMs config) ''socialPot.regenerationTickMs'') (\<lambda>tick.
     rbind (assertPositiveFinite (regenerationUnitsPerTick config)
              ''socialPot.regenerationUnitsPerTick'') (\<lambda>units.
     rbind (assertNonNegativeFinite balance ''socialPot.balance'') (\<lambda>bal.
     rbind (assertNonNegativeFinite lastRegenAtMs ''socialPot.lastRegenAtMs'') (\<lambda>lst.
     rbind (assertNonNegativeFinite nowMs ''socialPot.nowMs'') (\<lambda>now.
     let ticks = (if numval now > numval lst
                  then \<lfloor>binary64 (binary64 (numval now - numval lst) / numval tick)\<rfloor> else 0);
         credited = binary64 (of_int ticks * numval units)
     in Inr \<lparr>regen_balance = min (numval cap) (binary64 (numval bal + credited)),
             regen_lastRegenAtMs = binary64 (numval lst + binary64 (of_int ticks * numval tick))\<rparr>))))))"

section \<open>The durable store\<close>

text \<open>
  A row of \<^verbatim>\<open>companion_social_pot\<close> and its CHECK constraint; \<open>pot_state\<close> is the row as the
  code reads it back.
\<close>

record pot_row =
  row_balance :: real
  row_lastRegenAtMs :: int
  row_revision :: int

record pot_state =
  st_balance :: real
  st_lastRegenAtMs :: real
  st_revision :: int

type_synonym pot_rows = "string \<rightharpoonup> pot_row"

record pot_store =
  pot_closed :: bool
  pot_table :: pot_rows

record social_pot_snapshot =
  snap_companionId :: string
  snap_balance :: real
  snap_cap :: real
  snap_lastRegenAtMs :: real
  snap_revision :: int

datatype draw_outcome = Drawn | Insufficient | Capped

record draw_result =
  draw_outcome :: draw_outcome
  draw_drawn :: real
  draw_before :: social_pot_snapshot
  draw_after :: social_pot_snapshot

definition pot_row_check :: "pot_row \<Rightarrow> bool" where
  "pot_row_check r \<longleftrightarrow> 0 \<le> row_balance r \<and> 0 \<le> row_lastRegenAtMs r \<and> 1 \<le> row_revision r"

definition write_pot_row :: "string \<Rightarrow> pot_row \<Rightarrow> pot_rows \<Rightarrow> pot_rows result" where
  "write_pot_row cid r rows =
     (if pot_row_check r then Inr (rows(cid \<mapsto> r))
      else Inl (DatabaseError ''companion_social_pot check''))"

definition read_pot_row :: "pot_row \<Rightarrow> pot_state result" where
  "read_pot_row r =
     rbind (requireSafeInteger (row_lastRegenAtMs r) ''socialPot.lastRegenAtMs'') (\<lambda>lst.
     rbind (requireSafeInteger (row_revision r) ''socialPot.revision'') (\<lambda>rev.
     Inr \<lparr>st_balance = row_balance r, st_lastRegenAtMs = of_int lst, st_revision = rev\<rparr>))"

text \<open>
  The insert after an empty read cannot conflict, since the whole transaction holds the
  companion's advisory lock; the re-read branch of the code is dead there.
\<close>

definition loadOrInitialize ::
  "string \<Rightarrow> int \<Rightarrow> social_pot_config \<Rightarrow> pot_rows \<Rightarrow> (pot_state \<times> pot_rows) result" where
  "loadOrInitialize cid nowMs config rows =
     (case rows cid of
        Some r \<Rightarrow> rbind (read_pot_row r) (\<lambda>st. Inr (st, rows))
      | None \<Rightarrow>
          (let r = \<lparr>row_balance = numval (capUnits config), row_lastRegenAtMs = nowMs,
                    row_revision = 1\<rparr>
           in rbind (write_pot_row cid r rows) (\<lambda>rows'.
              rbind (read_pot_row r) (\<lambda>st. Inr (st, rows')))))"

text \<open>
  The conditional update writes the timestamp into a BIGINT column, which refuses a
  fractional value.
\<close>

definition persistIfChanged ::
  "string \<Rightarrow> pot_state \<Rightarrow> real \<Rightarrow> real \<Rightarrow> pot_rows \<Rightarrow> (pot_state \<times> pot_rows) result" where
  "persistIfChanged cid current nextBalance nextLastRegenAtMs rows =
     (if nextBalance = st_balance current \<and> nextLastRegenAtMs = st_lastRegenAtMs current
      then Inr (current, rows)
      else if \<not> is_whole nextLastRegenAtMs then Inl (DatabaseError ''bigint'')
      else (case rows cid of
              Some old \<Rightarrow>
                if row_revision old = st_revision current
                then (let r = \<lparr>row_balance = nextBalance,
                               row_lastRegenAtMs = \<lfloor>nextLastRegenAtMs\<rfloor>,
                               row_revision = st_revision current + 1\<rparr>
                      in rbind (write_pot_row cid r rows) (\<lambda>rows'.
                         rbind (read_pot_row r) (\<lambda>st. Inr (st, rows'))))
                else Inl (Error (''social pot concurrent revision conflict for '' @ cid))
            | None \<Rightarrow> Inl (Error (''social pot concurrent revision conflict for '' @ cid))))"

definition pot_snapshot :: "string \<Rightarrow> pot_state \<Rightarrow> real \<Rightarrow> social_pot_snapshot" where
  "pot_snapshot cid st cap =
     \<lparr>snap_companionId = cid, snap_balance = st_balance st, snap_cap = cap,
      snap_lastRegenAtMs = st_lastRegenAtMs st, snap_revision = st_revision st\<rparr>"

definition requireDrawFraction :: "jsnum \<Rightarrow> string \<Rightarrow> jsnum result" where
  "requireDrawFraction value field =
     (if \<not> isFinite value \<or> numval value \<le> 0 \<or> numval value > 1
      then Inl (Error (field @ '' must be a finite number in (0, 1]''))
      else Inr value)"

text \<open>
  An operation first runs its argument guards, then refuses a closed store, then runs one
  transaction on the table.
\<close>

definition pot_transaction ::
  "(pot_rows \<Rightarrow> ('a \<times> pot_rows) result) \<Rightarrow> pot_store \<Rightarrow> 'a result \<times> pot_store" where
  "pot_transaction handler st =
     (if pot_closed st then (Inl (Error ''social pot store is closed''), st)
      else (case withPostgresClient handler (pot_table st) of
              (r, rows) \<Rightarrow> (r, st\<lparr>pot_table := rows\<rparr>)))"

definition regenerate_current ::
  "string \<Rightarrow> int \<Rightarrow> social_pot_config \<Rightarrow> pot_rows \<Rightarrow>
     (pot_state \<times> regeneration_result \<times> pot_rows) result" where
  "regenerate_current cid nowMs config rows =
     rbind (loadOrInitialize cid nowMs config rows) (\<lambda>(current, rows1).
     rbind (regenerateSocialPot (Fin (st_balance current)) (Fin (st_lastRegenAtMs current))
              (jsint nowMs) config) (\<lambda>regenerated.
     Inr (current, regenerated, rows1)))"

definition readPot_tx ::
  "string \<Rightarrow> int \<Rightarrow> social_pot_config \<Rightarrow> pot_rows \<Rightarrow> (social_pot_snapshot \<times> pot_rows) result" where
  "readPot_tx cid nowMs config rows =
     rbind (regenerate_current cid nowMs config rows) (\<lambda>(current, regenerated, rows1).
     rbind (persistIfChanged cid current (regen_balance regenerated)
              (regen_lastRegenAtMs regenerated) rows1) (\<lambda>(persisted, rows2).
     Inr (pot_snapshot cid persisted (numval (capUnits config)), rows2)))"

definition readPot ::
  "string \<Rightarrow> jsnum \<Rightarrow> social_pot_config \<Rightarrow> pot_store \<Rightarrow> social_pot_snapshot result \<times> pot_store" where
  "readPot companionId nowMs config =
     guarded (requireUuid companionId ''socialPot.companionId'') (\<lambda>cid.
     guarded (requireTimestamp nowMs ''socialPot.nowMs'') (\<lambda>now.
     guarded (assertSocialPotConfig config) (\<lambda>cfg.
     pot_transaction (readPot_tx cid now cfg))))"

definition draw_tx ::
  "string \<Rightarrow> int \<Rightarrow> real \<Rightarrow> social_pot_config \<Rightarrow> jsnum option \<Rightarrow> pot_rows \<Rightarrow>
     (draw_result \<times> pot_rows) result" where
  "draw_tx cid nowMs amount config maxDrawFraction rows =
     rbind (regenerate_current cid nowMs config rows) (\<lambda>(current, regenerated, rows1).
     let bal = regen_balance regenerated;
         capped = (case maxDrawFraction of None \<Rightarrow> False | Some f \<Rightarrow> amount > numval f * bal);
         sufficient = (\<not> capped \<and> bal \<ge> amount);
         nextBalance = (if sufficient then bal - amount else bal)
     in rbind (persistIfChanged cid current nextBalance (regen_lastRegenAtMs regenerated) rows1)
          (\<lambda>(persisted, rows2).
          let before = pot_snapshot cid
                \<lparr>st_balance = bal, st_lastRegenAtMs = regen_lastRegenAtMs regenerated,
                 st_revision = st_revision current\<rparr> (numval (capUnits config));
              after = pot_snapshot cid persisted (numval (capUnits config))
          in Inr (\<lparr>draw_outcome = (if sufficient then Drawn else if capped then Capped
                                    else Insufficient),
                   draw_drawn = (if sufficient then amount else 0),
                   draw_before = before, draw_after = after\<rparr>, rows2)))"

definition draw ::
  "string \<Rightarrow> jsnum \<Rightarrow> jsnum \<Rightarrow> social_pot_config \<Rightarrow> jsnum option \<Rightarrow> pot_store \<Rightarrow>
     draw_result result \<times> pot_store" where
  "draw companionId nowMs amount config maxDrawFraction =
     guarded (requireUuid companionId ''socialPot.companionId'') (\<lambda>cid.
     guarded (requireTimestamp nowMs ''socialPot.nowMs'') (\<lambda>now.
     guarded (assertPositiveFinite amount ''socialPot.amount'') (\<lambda>amt.
     guarded (assertSocialPotConfig config) (\<lambda>cfg.
     guarded (case maxDrawFraction of
                None \<Rightarrow> Inr None
              | Some f \<Rightarrow> rbind (requireDrawFraction f ''socialPot.maxDrawFraction'') (Inr \<circ> Some))
       (\<lambda>frac. pot_transaction (draw_tx cid now (numval amt) cfg frac))))))"

definition refund_tx ::
  "string \<Rightarrow> int \<Rightarrow> real \<Rightarrow> social_pot_config \<Rightarrow> pot_rows \<Rightarrow>
     (social_pot_snapshot \<times> pot_rows) result" where
  "refund_tx cid nowMs amount config rows =
     rbind (regenerate_current cid nowMs config rows) (\<lambda>(current, regenerated, rows1).
     let nextBalance = min (regen_balance regenerated + amount) (numval (capUnits config))
     in rbind (persistIfChanged cid current nextBalance (regen_lastRegenAtMs regenerated) rows1)
          (\<lambda>(persisted, rows2).
          Inr (pot_snapshot cid persisted (numval (capUnits config)), rows2)))"

definition refund ::
  "string \<Rightarrow> jsnum \<Rightarrow> jsnum \<Rightarrow> social_pot_config \<Rightarrow> pot_store \<Rightarrow>
     social_pot_snapshot result \<times> pot_store" where
  "refund companionId nowMs amount config =
     guarded (requireUuid companionId ''socialPot.companionId'') (\<lambda>cid.
     guarded (requireTimestamp nowMs ''socialPot.nowMs'') (\<lambda>now.
     guarded (assertPositiveFinite amount ''socialPot.amount'') (\<lambda>amt.
     guarded (assertSocialPotConfig config) (\<lambda>cfg.
     pot_transaction (refund_tx cid now (numval amt) cfg)))))"

definition closePot :: "pot_store \<Rightarrow> pot_store" where
  "closePot st = st\<lparr>pot_closed := True\<rparr>"

section \<open>Draw policy\<close>

text \<open>
  The port is a parameter: the policy sees only a draw and a refund operation over some
  state. \<open>Other_lane\<close> is a lane name that reaches the function through a loosened type.
\<close>

datatype trigger_author_kind = Machine_intelligence | Human | System | Unknown_author

datatype draw_lane = Group_social | Icp_continuation | Other_lane string

datatype uncharged_reason = Human_triggered | Non_autonomous_trigger

datatype enforcement_outcome = Enf_drawn | Enf_capped | Enf_insufficient | Enf_uncharged

record enforcement_decision =
  enf_outcome :: enforcement_outcome
  enf_lane :: draw_lane
  enf_requested :: real
  enf_drawn :: real
  enf_unchargedReason :: "uncharged_reason option"
  enf_before :: "social_pot_snapshot option"
  enf_after :: "social_pot_snapshot option"

type_synonym 's draw_op =
  "string \<Rightarrow> jsnum \<Rightarrow> jsnum \<Rightarrow> social_pot_config \<Rightarrow> jsnum option \<Rightarrow> 's \<Rightarrow> draw_result result \<times> 's"

type_synonym 's refund_op =
  "string \<Rightarrow> jsnum \<Rightarrow> jsnum \<Rightarrow> social_pot_config \<Rightarrow> 's \<Rightarrow> social_pot_snapshot result \<times> 's"

definition requirePositiveFiniteAmount :: "jsnum \<Rightarrow> jsnum result" where
  "requirePositiveFiniteAmount value =
     assertPositiveFinite value ''socialPotEnforcement.amount''"

fun assertKnownLane :: "draw_lane \<Rightarrow> draw_lane result" where
  "assertKnownLane (Other_lane l) =
     Inl (Error (''socialPotEnforcement.lane is not a known lane: '' @ l))"
| "assertKnownLane lane = Inr lane"

definition toStoreConfig :: "fatigue_social_pot_config \<Rightarrow> social_pot_config" where
  "toStoreConfig config =
     \<lparr>capUnits = capUnits config, regenerationTickMs = regenerationTickMs config,
      regenerationUnitsPerTick = regenerationUnitsPerTick config\<rparr>"

fun enforcementOutcomeOf :: "draw_outcome \<Rightarrow> enforcement_outcome" where
  "enforcementOutcomeOf Drawn = Enf_drawn"
| "enforcementOutcomeOf Capped = Enf_capped"
| "enforcementOutcomeOf Insufficient = Enf_insufficient"

definition enforceSocialPotDraw ::
  "'s draw_op \<Rightarrow> fatigue_social_pot_config \<Rightarrow> string \<Rightarrow> draw_lane \<Rightarrow> trigger_author_kind \<Rightarrow>
     jsnum \<Rightarrow> jsnum \<Rightarrow> 's \<Rightarrow> enforcement_decision result \<times> 's" where
  "enforceSocialPotDraw port_draw config companionId lane0 kind amount nowMs =
     guarded (assertKnownLane lane0) (\<lambda>lane.
     guarded (requirePositiveFiniteAmount amount) (\<lambda>requested st.
     if kind \<noteq> Machine_intelligence
     then (Inr \<lparr>enf_outcome = Enf_uncharged, enf_lane = lane, enf_requested = numval requested,
                enf_drawn = 0,
                enf_unchargedReason = Some (if kind = Human then Human_triggered
                                            else Non_autonomous_trigger),
                enf_before = None, enf_after = None\<rparr>, st)
     else (case port_draw companionId nowMs requested (toStoreConfig config)
                  (if lane = Group_social then Some (perChannelDrawFraction config) else None) st of
             (Inl e, st') \<Rightarrow> (Inl e, st')
           | (Inr res, st') \<Rightarrow>
               (Inr \<lparr>enf_outcome = enforcementOutcomeOf (draw_outcome res), enf_lane = lane,
                     enf_requested = numval requested, enf_drawn = draw_drawn res,
                     enf_unchargedReason = None, enf_before = Some (draw_before res),
                     enf_after = Some (draw_after res)\<rparr>, st'))))"

definition refundSocialPotDraw ::
  "'s refund_op \<Rightarrow> fatigue_social_pot_config \<Rightarrow> string \<Rightarrow> jsnum \<Rightarrow> jsnum \<Rightarrow> 's \<Rightarrow>
     social_pot_snapshot result \<times> 's" where
  "refundSocialPotDraw port_refund config companionId amount nowMs =
     guarded (requirePositiveFiniteAmount amount) (\<lambda>amt.
       port_refund companionId nowMs amt (toStoreConfig config))"

section \<open>Regeneration lemmas\<close>

definition pot_ticks :: "real \<Rightarrow> real \<Rightarrow> real \<Rightarrow> int" where
  "pot_ticks l n t = (if n > l then \<lfloor>(n - l) / t\<rfloor> else 0)"

definition pot_config_positive :: "social_pot_config \<Rightarrow> bool" where
  "pot_config_positive c \<longleftrightarrow>
     isFinite (capUnits c) \<and> 0 < numval (capUnits c) \<and>
     isFinite (regenerationTickMs c) \<and> 0 < numval (regenerationTickMs c) \<and>
     isFinite (regenerationUnitsPerTick c) \<and> 0 < numval (regenerationUnitsPerTick c)"

definition pot_config_ok :: "social_pot_config \<Rightarrow> bool" where
  "pot_config_ok c \<longleftrightarrow>
     pot_config_positive c \<and> isSafeInteger (regenerationTickMs c) \<and>
     numval (regenerationUnitsPerTick c) \<le> numval (capUnits c)"

lemma assertSocialPotConfig_Inr [guard_simps]:
  "assertSocialPotConfig c = Inr c' \<longleftrightarrow> pot_config_ok c \<and> c' = c"
  by (auto simp: assertSocialPotConfig_def pot_config_ok_def pot_config_positive_def
      rbind_eq_Inr guard_simps)

lemma regenerateSocialPot_Inr:
  "regenerateSocialPot b l n c = Inr r \<longleftrightarrow>
     pot_config_positive c \<and> isFinite b \<and> 0 \<le> numval b \<and> isFinite l \<and> 0 \<le> numval l \<and>
     isFinite n \<and> 0 \<le> numval n \<and>
     r = (let k = pot_ticks (numval l) (numval n) (numval (regenerationTickMs c))
          in \<lparr>regen_balance = min (numval (capUnits c))
                 (numval b + of_int k * numval (regenerationUnitsPerTick c)),
              regen_lastRegenAtMs = numval l + of_int k * numval (regenerationTickMs c)\<rparr>)"
  by (auto simp: regenerateSocialPot_def pot_config_positive_def pot_ticks_def rbind_eq_Inr
      guard_simps Let_def)

lemma pot_ticks_nonneg: "0 < t \<Longrightarrow> 0 \<le> pot_ticks l n t"
  by (simp add: pot_ticks_def)

lemma pot_ticks_le: "0 < t \<Longrightarrow> l + of_int (pot_ticks l n t) * t \<le> max l n"
proof (cases "n > l")
  case True
  assume t: "0 < t"
  have "of_int \<lfloor>(n - l) / t\<rfloor> * t \<le> n - l" by (rule floor_divide_lower [OF t])
  then show ?thesis using True by (simp add: pot_ticks_def)
next
  case False
  then show ?thesis by (simp add: pot_ticks_def)
qed

lemma pot_ticks_whole:
  fixes L N T :: int
  assumes "0 < T"
  shows "L + pot_ticks (of_int L) (of_int N) (of_int T) * T \<le> max L N"
proof -
  have "real_of_int (L + pot_ticks (of_int L) (of_int N) (of_int T) * T) \<le> real_of_int (max L N)"
    using pot_ticks_le [of "of_int T" "of_int L" "of_int N"] assms by (simp add: max_def split: if_splits)
  then show ?thesis by (simp only: of_int_le_iff)
qed

lemma pot_ticks_compose:
  assumes t: "0 < t" and le: "n1 \<le> n2"
  shows "pot_ticks (l + of_int (pot_ticks l n1 t) * t) n2 t = pot_ticks l n2 t - pot_ticks l n1 t"
proof (cases "n1 > l")
  case False
  then show ?thesis by (simp add: pot_ticks_def)
next
  case True
  let ?k = "\<lfloor>(n1 - l) / t\<rfloor>"
  have k: "pot_ticks l n1 t = ?k" using True by (simp add: pot_ticks_def)
  have bound: "l + of_int ?k * t \<le> n2"
    using pot_ticks_le [OF t, of l n1] True le k by simp
  have fl: "\<lfloor>(n2 - (l + of_int ?k * t)) / t\<rfloor> = \<lfloor>(n2 - l) / t\<rfloor> - ?k"
  proof -
    have "(n2 - (l + of_int ?k * t)) / t = (n2 - l) / t - of_int ?k"
      using t by (simp add: diff_divide_distrib add_divide_distrib)
    then show ?thesis by simp
  qed
  show ?thesis
  proof (cases "n2 > l + of_int ?k * t")
    case True2: True
    then show ?thesis using True le k fl by (simp add: pot_ticks_def)
  next
    case False
    with bound have eq: "n2 = l + of_int ?k * t" by simp
    then have "\<lfloor>(n2 - l) / t\<rfloor> = ?k" using t by simp
    then show ?thesis using True le k eq by (simp add: pot_ticks_def)
  qed
qed

lemma min_cap_compose:
  fixes cap b x y :: real
  assumes "0 \<le> y"
  shows "min cap (min cap (b + x) + y) = min cap (b + (x + y))"
  using assms by (auto simp: min_def)

text \<open>
  Crediting at two instants in sequence is the same as crediting once at the later instant:
  the sub-tick remainder is carried, nothing is credited twice.
\<close>

lemma regenerate_compose:
  assumes r1: "regenerateSocialPot b l t1 c = Inr r1"
    and t2: "isFinite t2" "numval t1 \<le> numval t2"
  shows "regenerateSocialPot (Fin (regen_balance r1)) (Fin (regen_lastRegenAtMs r1)) t2 c
         = regenerateSocialPot b l t2 c"
proof -
  let ?T = "numval (regenerationTickMs c)" and ?u = "numval (regenerationUnitsPerTick c)"
    and ?cap = "numval (capUnits c)"
  let ?k1 = "pot_ticks (numval l) (numval t1) ?T" and ?k2 = "pot_ticks (numval l) (numval t2) ?T"
  from r1 have pos: "pot_config_positive c" "isFinite b" "0 \<le> numval b" "isFinite l" "0 \<le> numval l"
      "isFinite t1" "0 \<le> numval t1"
    and r1e: "regen_balance r1 = min ?cap (numval b + of_int ?k1 * ?u)"
      "regen_lastRegenAtMs r1 = numval l + of_int ?k1 * ?T"
    by (auto simp: regenerateSocialPot_Inr Let_def)
  then have T: "0 < ?T" "0 < ?u" "0 < ?cap" by (auto simp: pot_config_positive_def)
  have k1: "0 \<le> ?k1" using T by (rule_tac pot_ticks_nonneg)
  have comp: "pot_ticks (numval l + of_int ?k1 * ?T) (numval t2) ?T = ?k2 - ?k1"
    using pot_ticks_compose [OF T(1) t2(2)] .
  then have k12: "0 \<le> ?k2 - ?k1" using pot_ticks_nonneg [OF T(1)] by metis
  have bal: "min ?cap (min ?cap (numval b + of_int ?k1 * ?u) + (of_int ?k2 - of_int ?k1) * ?u)
      = min ?cap (numval b + of_int ?k2 * ?u)"
  proof -
    have nn: "0 \<le> (real_of_int ?k2 - real_of_int ?k1) * ?u" using k12 T(2) by simp
    have "numval b + (of_int ?k1 * ?u + (of_int ?k2 - of_int ?k1) * ?u) = numval b + of_int ?k2 * ?u"
      by (simp add: algebra_simps)
    then show ?thesis using min_cap_compose [OF nn] by metis
  qed
  have lst: "of_int ?k1 * ?T + (of_int ?k2 - of_int ?k1) * ?T = of_int ?k2 * ?T"
    by (simp add: algebra_simps)
  have nn: "0 \<le> regen_balance r1" "0 \<le> regen_lastRegenAtMs r1" "0 \<le> numval t2"
    using pos k1 T t2 by (auto simp: r1e intro: order_trans)
  have "regenerateSocialPot b l t2 c =
      Inr \<lparr>regen_balance = min ?cap (numval b + of_int ?k2 * ?u),
           regen_lastRegenAtMs = numval l + of_int ?k2 * ?T\<rparr>"
    using pos t2 nn by (simp add: regenerateSocialPot_Inr Let_def)
  moreover have "regenerateSocialPot (Fin (regen_balance r1)) (Fin (regen_lastRegenAtMs r1)) t2 c =
      Inr \<lparr>regen_balance = min ?cap (numval b + of_int ?k2 * ?u),
           regen_lastRegenAtMs = numval l + of_int ?k2 * ?T\<rparr>"
    using pos t2 nn by (simp add: regenerateSocialPot_Inr Let_def r1e comp bal lst)
  ultimately show ?thesis by simp
qed

text \<open>
  On whole milliseconds, with amounts that are multiples of a power of two and a balance that fits in 53 of them, no
  operation of the regeneration is rounded.
\<close>

lemma regenerate_exact:
  assumes "l = jsint L" "n = jsint N" "regenerationTickMs c = jsint T"
    and "0 \<le> L" "L < 2 ^ 53" "0 \<le> N" "N < 2 ^ 53" "T < 2 ^ 53"
    and "on_grid k (numval b)" "on_grid k (numval (regenerationUnitsPerTick c))"
    and "numval b + of_int (pot_ticks (of_int L) (of_int N) (of_int T)) * numval (regenerationUnitsPerTick c) \<le> 2 ^ 53 / 2 ^ k"
  shows "regenerateSocialPot_binary64 b l n c = regenerateSocialPot b l n c"
proof (cases "pot_config_positive c \<and> isFinite b \<and> 0 \<le> numval b")
  case True
  let ?u = "numval (regenerationUnitsPerTick c)" and ?ticks = "pot_ticks (of_int L) (of_int N) (of_int T)"
  have T: "0 < T" "0 < ?u" and b: "0 \<le> numval b" using True assms(3) by (auto simp: pot_config_positive_def jsint_def)
  have diff: "binary64 (of_int N - of_int L) = of_int (N - L)" if "L < N"
    using binary64_int [of "N - L"] that assms(4-7) by simp
  have ticks: "L < N \<Longrightarrow> \<lfloor>binary64 (binary64 (of_int N - of_int L) / of_int T)\<rfloor> = ?ticks" "\<not> L < N \<Longrightarrow> ?ticks = 0"
    using diff floor_binary64_quotient [of "N - L" T] T(1) assms(4-7)
    by (auto simp: pot_ticks_def floor_divide_of_int_eq simp flip: of_int_diff)
  have t0: "0 \<le> ?ticks" using T(1) by (intro pot_ticks_nonneg) simp
  have units: "0 \<le> of_int ?ticks * ?u" using t0 T(2) by simp
  have "on_grid k (of_int ?ticks * ?u)"
    by (rule on_grid_intros(3) [OF assms(10,10)]) (use units b assms(11) in linarith)
  moreover from this have "on_grid k (numval b + of_int ?ticks * ?u)"
    by (rule on_grid_intros(1) [OF assms(9)]) (use units b assms(11) in linarith)
  ultimately have bal: "binary64 (numval b + binary64 (of_int ?ticks * ?u)) = numval b + of_int ?ticks * ?u"
    by (simp add: binary64_exact)
  note le = pot_ticks_whole [OF T(1), of L N]
  have "0 \<le> ?ticks * T" using t0 T(1) by simp
  then have "binary64 (of_int L + binary64 (of_int ?ticks * of_int T)) = of_int L + of_int ?ticks * of_int T"
    using binary64_int [of "?ticks * T"] binary64_int [of "L + ?ticks * T"] le assms(4-7) by simp
  moreover have "assertPositiveFinite (capUnits c) f = Inr (capUnits c)" "assertPositiveFinite (jsint T) f = Inr (jsint T)"
    "assertPositiveFinite (regenerationUnitsPerTick c) f = Inr (regenerationUnitsPerTick c)"
    "assertNonNegativeFinite b f = Inr b" "assertNonNegativeFinite (jsint L) f = Inr (jsint L)"
    "assertNonNegativeFinite (jsint N) f = Inr (jsint N)" for f
    using True T(1) assms(3,4,6)
    by (simp_all add: assertPositiveFinite_def assertNonNegativeFinite_def pot_config_positive_def jsint_def)
  moreover have "numval (jsint i) = of_int i" for i by (simp add: jsint_def)
  ultimately show ?thesis
    unfolding regenerateSocialPot_binary64_def regenerateSocialPot_def assms(1-3)
    using ticks bal by (cases "L < N") (simp_all add: Let_def pot_ticks_def [symmetric])
next
  case False
  then show ?thesis using assms(1-6)
    by (auto simp: regenerateSocialPot_binary64_def regenerateSocialPot_def pot_config_positive_def assertPositiveFinite_def
        assertNonNegativeFinite_def)
qed

section \<open>Store lemmas\<close>

definition row_reads :: "pot_row \<Rightarrow> pot_state \<Rightarrow> bool" where
  "row_reads r st \<longleftrightarrow> row_balance r = st_balance st \<and> of_int (row_lastRegenAtMs r) = st_lastRegenAtMs st
     \<and> row_revision r = st_revision st"

definition pot_inv :: "pot_store \<Rightarrow> bool" where
  "pot_inv st \<longleftrightarrow> (\<forall>cid r. pot_table st cid = Some r \<longrightarrow> pot_row_check r)"

definition only_at :: "'k \<Rightarrow> ('k \<rightharpoonup> 'v) \<Rightarrow> ('k \<rightharpoonup> 'v) \<Rightarrow> bool" where
  "only_at k m m' \<longleftrightarrow> (\<forall>c. c \<noteq> k \<longrightarrow> m' c = m c)"

lemma only_at_refl [simp]: "only_at k m m"
  by (simp add: only_at_def)

lemma only_at_upd [simp]: "only_at k m (m(k \<mapsto> v))"
  by (simp add: only_at_def)

lemma only_at_trans: "only_at k m m' \<Longrightarrow> only_at k m' m'' \<Longrightarrow> only_at k m m''"
  by (simp add: only_at_def)

definition pot_balance :: "pot_store \<Rightarrow> string \<Rightarrow> real option" where
  "pot_balance st cid = map_option row_balance (pot_table st cid)"

lemma read_pot_row_Inr:
  "read_pot_row r = Inr st \<longleftrightarrow>
     \<bar>row_lastRegenAtMs r\<bar> \<le> MAX_SAFE_INTEGER \<and> \<bar>row_revision r\<bar> \<le> MAX_SAFE_INTEGER \<and>
     st = \<lparr>st_balance = row_balance r, st_lastRegenAtMs = of_int (row_lastRegenAtMs r),
           st_revision = row_revision r\<rparr>"
  by (auto simp: read_pot_row_def rbind_eq_Inr guard_simps)

lemma write_pot_row_Inr:
  "write_pot_row cid r rows = Inr rows' \<longleftrightarrow> pot_row_check r \<and> rows' = rows(cid \<mapsto> r)"
  by (auto simp: write_pot_row_def)

text \<open>What a successful load leaves in the table, and what the conditional write makes of it.\<close>

lemma loadOrInitialize_Inr:
  assumes "loadOrInitialize cid now cfg rows = Inr (cur, rows1)"
  shows "\<exists>r. rows1 cid = Some r \<and> row_reads r cur \<and> only_at cid rows rows1 \<and>
    (rows cid = None \<longrightarrow> pot_row_check r \<and> st_balance cur = numval (capUnits cfg)
        \<and> st_lastRegenAtMs cur = of_int now) \<and>
    (rows cid \<noteq> None \<longrightarrow> rows1 = rows)"
  using assms
  by (cases "rows cid")
    (auto simp: loadOrInitialize_def rbind_eq_Inr write_pot_row_Inr read_pot_row_Inr row_reads_def
      Let_def)

lemma persistIfChanged_Inr:
  assumes "persistIfChanged cid cur nb nl rows = Inr (p, rows')"
    and "rows cid = Some r" and "row_reads r cur"
  shows "\<exists>r'. rows' cid = Some r' \<and> row_reads r' p \<and> st_balance p = nb \<and> st_lastRegenAtMs p = nl \<and>
    only_at cid rows rows' \<and> (r' = r \<or> pot_row_check r')"
  using assms
  by (auto simp: persistIfChanged_def rbind_eq_Inr write_pot_row_Inr read_pot_row_Inr row_reads_def
      Let_def is_whole_def split: if_splits option.splits)

lemma regenerate_current_Inr:
  assumes "regenerate_current cid now cfg rows = Inr (cur, rg, rows1)"
  shows "(\<exists>r. rows1 cid = Some r \<and> row_reads r cur \<and> only_at cid rows rows1 \<and>
      (rows cid = None \<longrightarrow> pot_row_check r) \<and> (rows cid \<noteq> None \<longrightarrow> rows1 = rows)) \<and>
    regenerateSocialPot (Fin (st_balance cur)) (Fin (st_lastRegenAtMs cur)) (jsint now) cfg = Inr rg"
  using assms loadOrInitialize_Inr [of cid now cfg rows cur rows1]
  by (fastforce simp: regenerate_current_def rbind_eq_Inr)

lemma regen_balance_bounds:
  assumes "regenerateSocialPot b l n c = Inr rg"
  shows "0 \<le> regen_balance rg" "regen_balance rg \<le> numval (capUnits c)"
    "min (numval (capUnits c)) (numval b) \<le> regen_balance rg"
proof -
  have "0 \<le> pot_ticks (numval l) (numval n) (numval (regenerationTickMs c))"
    using assms by (intro pot_ticks_nonneg) (auto simp: regenerateSocialPot_Inr pot_config_positive_def)
  then have "0 \<le> real_of_int (pot_ticks (numval l) (numval n) (numval (regenerationTickMs c)))
      * numval (regenerationUnitsPerTick c)"
    using assms by (auto simp: regenerateSocialPot_Inr pot_config_positive_def)
  then show "0 \<le> regen_balance rg" "regen_balance rg \<le> numval (capUnits c)"
    "min (numval (capUnits c)) (numval b) \<le> regen_balance rg"
    using assms by (auto simp: regenerateSocialPot_Inr pot_config_positive_def Let_def min_def)
qed

text \<open>
  One shape covers the three transactions: regenerate, choose the next balance, persist it.
\<close>

definition pot_update_tx ::
  "(real \<Rightarrow> real) \<Rightarrow> string \<Rightarrow> int \<Rightarrow> social_pot_config \<Rightarrow> pot_rows \<Rightarrow>
     (real \<times> pot_state \<times> pot_rows) result" where
  "pot_update_tx f cid now cfg rows =
     rbind (regenerate_current cid now cfg rows) (\<lambda>(cur, rg, rows1).
     rbind (persistIfChanged cid cur (f (regen_balance rg)) (regen_lastRegenAtMs rg) rows1)
       (\<lambda>(p, rows2). Inr (regen_balance rg, p, rows2)))"

lemma pot_update_tx_Inr:
  assumes "pot_update_tx f cid now cfg rows = Inr (b, p, rows')"
  shows "(\<exists>r'. rows' cid = Some r' \<and> row_reads r' p \<and> (pot_row_check r' \<or> rows cid = Some r')) \<and>
    st_balance p = f b \<and> 0 \<le> b \<and> b \<le> numval (capUnits cfg) \<and>
    only_at cid rows rows'"
proof -
  from assms obtain cur rg rows1 where
    g: "regenerate_current cid now cfg rows = Inr (cur, rg, rows1)" and
    p: "persistIfChanged cid cur (f (regen_balance rg)) (regen_lastRegenAtMs rg) rows1 = Inr (p, rows')"
    and b: "b = regen_balance rg"
    by (auto simp: pot_update_tx_def rbind_eq_Inr)
  from regenerate_current_Inr [OF g] obtain r where
    r: "rows1 cid = Some r" "row_reads r cur" "only_at cid rows rows1"
      "rows cid = None \<longrightarrow> pot_row_check r" "rows cid \<noteq> None \<longrightarrow> rows1 = rows"
    and rg: "regenerateSocialPot (Fin (st_balance cur)) (Fin (st_lastRegenAtMs cur)) (jsint now) cfg
      = Inr rg"
    by metis
  from persistIfChanged_Inr [OF p r(1,2)] obtain r' where
    r': "rows' cid = Some r'" "row_reads r' p" "st_balance p = f b"
      "only_at cid rows1 rows'" "r' = r \<or> pot_row_check r'"
    unfolding b by blast
  have "pot_row_check r' \<or> rows cid = Some r'" using r'(5) r(1,4,5) by (cases "rows cid") auto
  then show ?thesis using r'(1-3) only_at_trans [OF r(3) r'(4)] regen_balance_bounds [OF rg] unfolding b by simp
qed

lemma readPot_tx_alt:
  "readPot_tx cid now cfg rows =
     rbind (pot_update_tx (\<lambda>b. b) cid now cfg rows)
       (\<lambda>(b, p, rows2). Inr (pot_snapshot cid p (numval (capUnits cfg)), rows2))"
  by (auto simp: readPot_tx_def pot_update_tx_def rbind_def split: sum.splits prod.splits)

lemma refund_tx_alt:
  "refund_tx cid now a cfg rows =
     rbind (pot_update_tx (\<lambda>b. min (b + a) (numval (capUnits cfg))) cid now cfg rows)
       (\<lambda>(b, p, rows2). Inr (pot_snapshot cid p (numval (capUnits cfg)), rows2))"
  by (auto simp: refund_tx_def pot_update_tx_def rbind_def Let_def split: sum.splits prod.splits)

definition draw_capped :: "jsnum option \<Rightarrow> real \<Rightarrow> real \<Rightarrow> bool" where
  "draw_capped mf a b \<longleftrightarrow> (case mf of None \<Rightarrow> False | Some f \<Rightarrow> a > numval f * b)"

definition draw_next :: "jsnum option \<Rightarrow> real \<Rightarrow> real \<Rightarrow> real" where
  "draw_next mf a b = (if \<not> draw_capped mf a b \<and> a \<le> b then b - a else b)"

lemma draw_tx_Inr:
  assumes "draw_tx cid now a cfg mf rows = Inr (d, rows')"
  obtains b p where "pot_update_tx (draw_next mf a) cid now cfg rows = Inr (b, p, rows')"
    "snap_balance (draw_before d) = b" "snap_balance (draw_after d) = st_balance p"
    "draw_outcome d = (if \<not> draw_capped mf a b \<and> a \<le> b then Drawn
       else if draw_capped mf a b then Capped else Insufficient)"
    "draw_drawn d = (if \<not> draw_capped mf a b \<and> a \<le> b then a else 0)"
proof -
  from assms obtain cur rg rows1 p where
    "regenerate_current cid now cfg rows = Inr (cur, rg, rows1)"
    "persistIfChanged cid cur (draw_next mf a (regen_balance rg)) (regen_lastRegenAtMs rg) rows1
       = Inr (p, rows')"
    and d: "d = \<lparr>draw_outcome = (if \<not> draw_capped mf a (regen_balance rg) \<and> a \<le> regen_balance rg
                then Drawn else if draw_capped mf a (regen_balance rg) then Capped else Insufficient),
             draw_drawn = (if \<not> draw_capped mf a (regen_balance rg) \<and> a \<le> regen_balance rg then a else 0),
             draw_before = pot_snapshot cid
                \<lparr>st_balance = regen_balance rg, st_lastRegenAtMs = regen_lastRegenAtMs rg,
                 st_revision = st_revision cur\<rparr> (numval (capUnits cfg)),
             draw_after = pot_snapshot cid p (numval (capUnits cfg))\<rparr>"
    by (auto simp: draw_tx_def rbind_eq_Inr Let_def draw_next_def draw_capped_def)
  then show ?thesis
    by (intro that [of "regen_balance rg" p]) (simp_all add: pot_update_tx_def d pot_snapshot_def)
qed

section \<open>Operation lemmas\<close>

lemma pot_transaction_Inr:
  "pot_transaction h st = (Inr a, st') \<longleftrightarrow>
     \<not> pot_closed st \<and> (\<exists>rows. h (pot_table st) = Inr (a, rows) \<and> st' = st\<lparr>pot_table := rows\<rparr>)"
  by (auto simp: pot_transaction_def withPostgresClient_def split: sum.splits prod.splits)

lemma pot_transaction_Inl:
  "pot_transaction h st = (Inl e, st') \<Longrightarrow> st' = st"
  by (auto simp: pot_transaction_def withPostgresClient_def split: sum.splits prod.splits if_splits)

definition draw_fraction_ok :: "jsnum option \<Rightarrow> bool" where
  "draw_fraction_ok mf \<longleftrightarrow>
     (case mf of None \<Rightarrow> True | Some f \<Rightarrow> isFinite f \<and> 0 < numval f \<and> numval f \<le> 1)"

lemma draw_fraction_Inr [guard_simps]:
  "(case mf of None \<Rightarrow> Inr None | Some f \<Rightarrow> rbind (requireDrawFraction f fld) (Inr \<circ> Some)) = Inr x
     \<longleftrightarrow> draw_fraction_ok mf \<and> x = mf"
  by (cases mf) (auto simp: draw_fraction_ok_def requireDrawFraction_def rbind_def split: if_splits)

definition pot_args_ok :: "string \<Rightarrow> jsnum \<Rightarrow> social_pot_config \<Rightarrow> bool" where
  "pot_args_ok cid now cfg \<longleftrightarrow>
     isRfc4122Uuid cid \<and> is_timestamp now \<and> pot_config_ok cfg"

definition amount_ok :: "jsnum \<Rightarrow> bool" where
  "amount_ok a \<longleftrightarrow> isFinite a \<and> 0 < numval a"

lemma readPot_Inr:
  "readPot cid now cfg st = (Inr s, st') \<longleftrightarrow>
     pot_args_ok cid now cfg \<and> \<not> pot_closed st \<and>
     (\<exists>rows. readPot_tx cid (intval now) cfg (pot_table st) = Inr (s, rows)
             \<and> st' = st\<lparr>pot_table := rows\<rparr>)"
  by (auto simp: readPot_def pot_args_ok_def guarded_eq_Inr guard_simps pot_transaction_Inr)

lemma draw_Inr:
  "draw cid now a cfg mf st = (Inr d, st') \<longleftrightarrow>
     pot_args_ok cid now cfg \<and> amount_ok a \<and> draw_fraction_ok mf \<and> \<not> pot_closed st \<and>
     (\<exists>rows. draw_tx cid (intval now) (numval a) cfg mf (pot_table st) = Inr (d, rows)
             \<and> st' = st\<lparr>pot_table := rows\<rparr>)"
  by (auto simp: draw_def pot_args_ok_def amount_ok_def guarded_eq_Inr guard_simps pot_transaction_Inr)

lemma refund_Inr:
  "refund cid now a cfg st = (Inr s, st') \<longleftrightarrow>
     pot_args_ok cid now cfg \<and> amount_ok a \<and> \<not> pot_closed st \<and>
     (\<exists>rows. refund_tx cid (intval now) (numval a) cfg (pot_table st) = Inr (s, rows)
             \<and> st' = st\<lparr>pot_table := rows\<rparr>)"
  by (auto simp: refund_def pot_args_ok_def amount_ok_def guarded_eq_Inr guard_simps pot_transaction_Inr)

lemma pot_ops_Inl:
  "readPot cid now cfg st = (Inl e, st') \<Longrightarrow> st' = st"
  "draw cid now a cfg mf st = (Inl e, st') \<Longrightarrow> st' = st"
  "refund cid now a cfg st = (Inl e, st') \<Longrightarrow> st' = st"
  by (auto simp: readPot_def draw_def refund_def guarded_eq_Inl dest: pot_transaction_Inl)

lemma pot_update_tx_keeps:
  assumes "pot_update_tx f cid now cfg (pot_table st) = Inr (b, p, rows)" and "pot_inv st"
  shows "pot_inv (st\<lparr>pot_table := rows\<rparr>)"
proof -
  from pot_update_tx_Inr [OF assms(1)] obtain r' where
    r': "rows cid = Some r'" "pot_row_check r' \<or> pot_table st cid = Some r'"
      and o: "only_at cid (pot_table st) rows"
    by metis
  have "pot_row_check r" if "rows c = Some r" for c r
    using that r' o assms(2) by (cases "c = cid") (auto simp: pot_inv_def only_at_def)
  then show ?thesis by (simp add: pot_inv_def)
qed

lemma pot_balance_upd:
  assumes "rows cid = Some r" "row_reads r p"
  shows "pot_balance (st\<lparr>pot_table := rows\<rparr>) cid = Some (st_balance p)"
  using assms by (simp add: pot_balance_def row_reads_def)

lemma pot_balance_other:
  "only_at cid (pot_table st) rows \<Longrightarrow> c \<noteq> cid \<Longrightarrow>
     pot_balance (st\<lparr>pot_table := rows\<rparr>) c = pot_balance st c"
  by (simp add: pot_balance_def only_at_def)

section \<open>The port contract\<close>

text \<open>
  What the clients of \<^verbatim>\<open>SocialPotPort\<close> rely on. \<open>bal\<close> observes the balance a companion's pot
  holds; the laws are the ones the interface comments of \<^verbatim>\<open>social-pot.ts\<close> state.
\<close>

locale social_pot_port =
  fixes draw_p :: "'s draw_op" and refund_p :: "'s refund_op"
    and bal :: "'s \<Rightarrow> string \<Rightarrow> real option"
  assumes draw_throws: "draw_p c n a cfg mf s = (Inl e, s') \<Longrightarrow> s' = s"
    and draw_frame: "draw_p c n a cfg mf s = (Inr d, s') \<Longrightarrow> c' \<noteq> c \<Longrightarrow> bal s' c' = bal s c'"
    and draw_after: "draw_p c n a cfg mf s = (Inr d, s') \<Longrightarrow>
          bal s' c = Some (snap_balance (draw_before d) - draw_drawn d)"
    and draw_amount: "draw_p c n a cfg mf s = (Inr d, s') \<Longrightarrow>
          draw_drawn d = (if draw_outcome d = Drawn then numval a else 0)"
    and draw_bounds: "draw_p c n a cfg mf s = (Inr d, s') \<Longrightarrow>
          0 \<le> draw_drawn d \<and> draw_drawn d \<le> snap_balance (draw_before d)
          \<and> snap_balance (draw_before d) \<le> numval (capUnits cfg)"
    and draw_fraction: "draw_p c n a cfg (Some f) s = (Inr d, s') \<Longrightarrow>
          draw_drawn d \<le> numval f * snap_balance (draw_before d)"
    and draw_regenerates: "draw_p c n a cfg mf s = (Inr d, s') \<Longrightarrow> bal s c = Some b \<Longrightarrow>
          min (numval (capUnits cfg)) b \<le> snap_balance (draw_before d)"
    and refund_throws: "refund_p c n a cfg s = (Inl e, s') \<Longrightarrow> s' = s"
    and refund_frame: "refund_p c n a cfg s = (Inr sn, s') \<Longrightarrow> c' \<noteq> c \<Longrightarrow> bal s' c' = bal s c'"
    and refund_after: "refund_p c n a cfg s = (Inr sn, s') \<Longrightarrow>
          bal s' c = Some (snap_balance sn) \<and> snap_balance sn \<le> numval (capUnits cfg)"
begin

lemma enforce_uncharged:
  assumes "enforceSocialPotDraw draw_p cfg c lane k a n s = (r, s')" "k \<noteq> Machine_intelligence"
  shows "s' = s"
  using assms by (cases "assertKnownLane lane"; cases "requirePositiveFiniteAmount a")
    (auto simp: enforceSocialPotDraw_def)

lemma enforce_throws:
  assumes "enforceSocialPotDraw draw_p cfg c lane k a n s = (Inl e, s')"
  shows "s' = s"
  using assms
  by (cases "assertKnownLane lane"; cases "requirePositiveFiniteAmount a")
    (auto simp: enforceSocialPotDraw_def dest: draw_throws split: if_splits sum.splits prod.splits)

lemma enforce_charged:
  assumes "enforceSocialPotDraw draw_p cfg c lane Machine_intelligence a n s = (Inr dec, s')"
  shows "\<exists>d. draw_p c n a (toStoreConfig cfg)
           (if lane = Group_social then Some (perChannelDrawFraction cfg) else None) s = (Inr d, s')
         \<and> enf_outcome dec = enforcementOutcomeOf (draw_outcome d) \<and> enf_drawn dec = draw_drawn d
         \<and> enf_before dec = Some (draw_before d)"
proof -
  have l: "assertKnownLane lane = Inr x \<Longrightarrow> x = lane" for x by (cases lane) auto
  have "requirePositiveFiniteAmount a = Inr y \<Longrightarrow> y = a" for y
    by (simp add: requirePositiveFiniteAmount_def guard_simps)
  with l assms show ?thesis
    by (cases "assertKnownLane lane"; cases "requirePositiveFiniteAmount a")
      (auto simp: enforceSocialPotDraw_def split: sum.splits prod.splits)
qed

lemma enforce_share:
  assumes "enforceSocialPotDraw draw_p cfg c Group_social Machine_intelligence a n s = (Inr dec, s')"
    and "bal s c = Some b" "b \<le> numval (capUnits cfg)" "numval (perChannelDrawFraction cfg) \<le> 1"
  shows "\<exists>b'. bal s' c = Some b' \<and> (1 - numval (perChannelDrawFraction cfg)) * b \<le> b'
               \<and> b' \<le> numval (capUnits cfg)"
proof -
  let ?f = "perChannelDrawFraction cfg"
  from enforce_charged [OF assms(1)] obtain d where
    d: "draw_p c n a (toStoreConfig cfg) (Some ?f) s = (Inr d, s')" by auto
  let ?B = "snap_balance (draw_before d)"
  have cap: "capUnits (toStoreConfig cfg) = capUnits cfg" by (simp add: toStoreConfig_def)
  have "b \<le> ?B" using draw_regenerates [OF d assms(2)] assms(3) by (simp add: cap)
  then have "(1 - numval ?f) * b \<le> (1 - numval ?f) * ?B"
    using assms(4) by (intro mult_left_mono) auto
  also have "\<dots> \<le> ?B - draw_drawn d"
    using draw_fraction [OF d] by (simp add: algebra_simps)
  finally show ?thesis
    using draw_after [OF d] draw_bounds [OF d] by (simp add: cap)
qed

end

section \<open>The durable store keeps the contract\<close>

lemma pot_update_tx_regen:
  assumes "pot_update_tx f cid now cfg rows = Inr (b, p, rows')" and "rows cid = Some r"
  shows "min (numval (capUnits cfg)) (row_balance r) \<le> b"
  using assms regen_balance_bounds(3) [of "Fin (row_balance r)"]
  by (auto simp: pot_update_tx_def regenerate_current_def loadOrInitialize_def rbind_eq_Inr
      read_pot_row_Inr)

lemma draw_next_cases:
  "draw_next mf a b = b - (if \<not> draw_capped mf a b \<and> a \<le> b then a else 0)"
  by (simp add: draw_next_def)

lemma draw_laws:
  assumes "draw c n a cfg mf st = (Inr d, st')"
  shows "pot_balance st' c = Some (snap_balance (draw_before d) - draw_drawn d)"
    "c' \<noteq> c \<Longrightarrow> pot_balance st' c' = pot_balance st c'"
    "draw_drawn d = (if draw_outcome d = Drawn then numval a else 0)"
    "0 \<le> draw_drawn d \<and> draw_drawn d \<le> snap_balance (draw_before d)
          \<and> snap_balance (draw_before d) \<le> numval (capUnits cfg)"
    "mf = Some f \<Longrightarrow> draw_drawn d \<le> numval f * snap_balance (draw_before d)"
    "pot_balance st c = Some b \<Longrightarrow> min (numval (capUnits cfg)) b \<le> snap_balance (draw_before d)"
    "pot_inv st \<Longrightarrow> pot_inv st'"
    "draw_outcome d = Capped \<longleftrightarrow> draw_capped mf (numval a) (snap_balance (draw_before d))"
    "draw_outcome d = Insufficient \<Longrightarrow> snap_balance (draw_before d) < numval a"
proof -
  from assms obtain rows where
    g: "amount_ok a" "draw_fraction_ok mf" and st': "st' = st\<lparr>pot_table := rows\<rparr>"
    and tx: "draw_tx c (intval n) (numval a) cfg mf (pot_table st) = Inr (d, rows)"
    by (auto simp: draw_Inr)
  from tx obtain B p where
    up: "pot_update_tx (draw_next mf (numval a)) c (intval n) cfg (pot_table st) = Inr (B, p, rows)"
    and B: "snap_balance (draw_before d) = B" "snap_balance (draw_after d) = st_balance p"
    and oc: "draw_outcome d = (if \<not> draw_capped mf (numval a) B \<and> numval a \<le> B then Drawn
       else if draw_capped mf (numval a) B then Capped else Insufficient)"
    and dr: "draw_drawn d = (if \<not> draw_capped mf (numval a) B \<and> numval a \<le> B then numval a else 0)"
    by (rule draw_tx_Inr)
  from pot_update_tx_Inr [OF up] obtain r' where
    r': "rows c = Some r'" "row_reads r' p" and fr: "only_at c (pot_table st) rows"
    and b: "st_balance p = draw_next mf (numval a) B" "0 \<le> B" "B \<le> numval (capUnits cfg)"
    by metis
  show "pot_balance st' c = Some (snap_balance (draw_before d) - draw_drawn d)"
    using r' b(1) by (simp add: st' pot_balance_upd B dr draw_next_cases)
  show "c' \<noteq> c \<Longrightarrow> pot_balance st' c' = pot_balance st c'"
    using fr by (simp add: st' pot_balance_other)
  show "draw_drawn d = (if draw_outcome d = Drawn then numval a else 0)"
    by (simp add: oc dr)
  show "0 \<le> draw_drawn d \<and> draw_drawn d \<le> snap_balance (draw_before d)
          \<and> snap_balance (draw_before d) \<le> numval (capUnits cfg)"
    using g(1) b by (simp add: dr B amount_ok_def)
  show "mf = Some f \<Longrightarrow> draw_drawn d \<le> numval f * snap_balance (draw_before d)"
    using g(2) b(2) by (auto simp: dr B draw_capped_def draw_fraction_ok_def)
  show "pot_balance st c = Some b \<Longrightarrow> min (numval (capUnits cfg)) b \<le> snap_balance (draw_before d)"
    using pot_update_tx_regen [OF up] by (auto simp: pot_balance_def B)
  show "pot_inv st \<Longrightarrow> pot_inv st'"
    using pot_update_tx_keeps [OF up] by (simp add: st')
  show "draw_outcome d = Capped \<longleftrightarrow> draw_capped mf (numval a) (snap_balance (draw_before d))"
    "draw_outcome d = Insufficient \<Longrightarrow> snap_balance (draw_before d) < numval a"
    by (auto simp: oc B split: if_splits)
qed

lemma refund_laws:
  assumes "refund c n a cfg st = (Inr sn, st')"
  shows "pot_balance st' c = Some (snap_balance sn) \<and> snap_balance sn \<le> numval (capUnits cfg)"
    "c' \<noteq> c \<Longrightarrow> pot_balance st' c' = pot_balance st c'"
    "pot_inv st \<Longrightarrow> pot_inv st'"
proof -
  from assms obtain rows where st': "st' = st\<lparr>pot_table := rows\<rparr>"
    and tx: "refund_tx c (intval n) (numval a) cfg (pot_table st) = Inr (sn, rows)"
    by (auto simp: refund_Inr)
  from tx obtain B p where
    up: "pot_update_tx (\<lambda>b. min (b + numval a) (numval (capUnits cfg))) c (intval n) cfg (pot_table st)
      = Inr (B, p, rows)" and sn: "sn = pot_snapshot c p (numval (capUnits cfg))"
    by (auto simp: refund_tx_alt rbind_eq_Inr)
  from pot_update_tx_Inr [OF up] obtain r' where
    r': "rows c = Some r'" "row_reads r' p" and fr: "only_at c (pot_table st) rows"
    and b: "st_balance p = min (B + numval a) (numval (capUnits cfg))"
    by metis
  show "pot_balance st' c = Some (snap_balance sn) \<and> snap_balance sn \<le> numval (capUnits cfg)"
    using r' b by (simp add: st' pot_balance_upd sn pot_snapshot_def)
  show "c' \<noteq> c \<Longrightarrow> pot_balance st' c' = pot_balance st c'"
    using fr by (simp add: st' pot_balance_other)
  show "pot_inv st \<Longrightarrow> pot_inv st'"
    using pot_update_tx_keeps [OF up] by (simp add: st')
qed

interpretation pg_pot: social_pot_port draw refund pot_balance
proof
qed (auto dest: pot_ops_Inl draw_laws refund_laws)

section \<open>Totality and round trip\<close>

definition pot_counters_safe :: "pot_row \<Rightarrow> bool" where
  "pot_counters_safe r \<longleftrightarrow>
     pot_row_check r \<and> row_lastRegenAtMs r \<le> MAX_SAFE_INTEGER \<and> row_revision r < MAX_SAFE_INTEGER"

definition pot_companion_safe :: "pot_store \<Rightarrow> string \<Rightarrow> bool" where
  "pot_companion_safe st cid \<longleftrightarrow>
     (case pot_table st cid of None \<Rightarrow> True | Some r \<Rightarrow> pot_counters_safe r)"

lemma regen_last_whole:
  assumes "regenerateSocialPot (Fin b) (Fin (of_int l)) (jsint now) cfg = Inr rg"
    and "pot_config_ok cfg" "l \<le> MAX_SAFE_INTEGER" "now \<le> MAX_SAFE_INTEGER"
  shows "is_whole (regen_lastRegenAtMs rg)" "l \<le> \<lfloor>regen_lastRegenAtMs rg\<rfloor>"
    "\<lfloor>regen_lastRegenAtMs rg\<rfloor> \<le> MAX_SAFE_INTEGER"
proof -
  let ?T = "numval (regenerationTickMs cfg)" and ?i = "intval (regenerationTickMs cfg)"
  have Ti: "?T = of_int ?i" and Tp: "0 < ?T"
    using assms(2) isSafeInteger_intval [of "regenerationTickMs cfg"]
    by (auto simp: pot_config_ok_def pot_config_positive_def) (metis numval_jsint)
  let ?k = "pot_ticks (of_int l) (of_int now) ?T"
  have e: "regen_lastRegenAtMs rg = of_int (l + ?k * ?i)"
    using assms(1) Ti by (auto simp: regenerateSocialPot_Inr Let_def)
  show "is_whole (regen_lastRegenAtMs rg)" by (simp add: e del: of_int_add of_int_mult)
  have "0 \<le> ?k * ?i" using pot_ticks_nonneg [OF Tp] Tp Ti by (intro mult_nonneg_nonneg) auto
  then show "l \<le> \<lfloor>regen_lastRegenAtMs rg\<rfloor>" by (simp add: e del: of_int_add of_int_mult)
  have "real_of_int (l + ?k * ?i) \<le> of_int (max l now)"
    using pot_ticks_le [OF Tp, of "of_int l" "of_int now"] Ti by simp
  then have "l + ?k * ?i \<le> max l now" by (simp only: of_int_le_iff)
  then show "\<lfloor>regen_lastRegenAtMs rg\<rfloor> \<le> MAX_SAFE_INTEGER"
    using assms(3,4) by (simp add: e del: of_int_add of_int_mult)
qed

lemma persist_total:
  assumes "rows1 cid = Some r" "row_reads r cur" "pot_counters_safe r" "0 \<le> nb"
    and "is_whole nl" "0 \<le> \<lfloor>nl\<rfloor>" "\<lfloor>nl\<rfloor> \<le> MAX_SAFE_INTEGER"
  shows "\<exists>x. persistIfChanged cid cur nb nl rows1 = Inr x"
  using assms
  by (auto simp: persistIfChanged_def row_reads_def pot_counters_safe_def pot_row_check_def Let_def
      write_pot_row_def read_pot_row_def requireSafeInteger_def)

lemma load_total:
  assumes "pot_companion_safe st cid" "pot_config_ok cfg" "0 \<le> now" "now \<le> MAX_SAFE_INTEGER"
  shows "\<exists>cur rows1 r. loadOrInitialize cid now cfg (pot_table st) = Inr (cur, rows1)
     \<and> rows1 cid = Some r \<and> row_reads r cur \<and> pot_counters_safe r"
  using assms
  by (cases "pot_table st cid")
    (auto simp: loadOrInitialize_def pot_companion_safe_def pot_counters_safe_def pot_row_check_def
      pot_config_ok_def pot_config_positive_def read_pot_row_def write_pot_row_def
      requireSafeInteger_def row_reads_def Let_def MAX_SAFE_INTEGER_def)

lemma pot_update_tx_total:
  assumes safe: "pot_companion_safe st cid" and cfg: "pot_config_ok cfg"
    and now: "0 \<le> now" "now \<le> MAX_SAFE_INTEGER"
    and f: "\<And>b. 0 \<le> b \<Longrightarrow> b \<le> numval (capUnits cfg) \<Longrightarrow> 0 \<le> f b"
  shows "\<exists>x. pot_update_tx f cid now cfg (pot_table st) = Inr x"
proof -
  from load_total [OF safe cfg now] obtain cur rows1 r where
    l: "loadOrInitialize cid now cfg (pot_table st) = Inr (cur, rows1)"
      "rows1 cid = Some r" "row_reads r cur" "pot_counters_safe r"
    by metis
  have cur: "st_lastRegenAtMs cur = of_int (row_lastRegenAtMs r)" "0 \<le> st_balance cur"
      "0 \<le> row_lastRegenAtMs r"
    using l(3,4) by (auto simp: row_reads_def pot_counters_safe_def pot_row_check_def)
  have "pot_config_positive cfg" using cfg by (simp add: pot_config_ok_def)
  then obtain rg where rg: "regenerateSocialPot (Fin (st_balance cur)) (Fin (st_lastRegenAtMs cur))
      (jsint now) cfg = Inr rg"
    using cur now by (auto simp: regenerateSocialPot_Inr)
  have lr: "is_whole (regen_lastRegenAtMs rg)" "0 \<le> \<lfloor>regen_lastRegenAtMs rg\<rfloor>"
      "\<lfloor>regen_lastRegenAtMs rg\<rfloor> \<le> MAX_SAFE_INTEGER"
    using regen_last_whole [of "st_balance cur" "row_lastRegenAtMs r" now cfg rg] rg cfg now(2) l(4) cur
    by (auto simp: pot_counters_safe_def simp del: zero_le_floor)
  have "0 \<le> f (regen_balance rg)" using regen_balance_bounds [OF rg] by (intro f) auto
  from persist_total [of rows1 cid, OF l(2-4) this lr] obtain p rows2 where
    "persistIfChanged cid cur (f (regen_balance rg)) (regen_lastRegenAtMs rg) rows1 = Inr (p, rows2)"
    by (metis surj_pair)
  then show ?thesis using l(1) rg by (simp add: pot_update_tx_def regenerate_current_def)
qed

lemma draw_next_nonneg: "0 < a \<Longrightarrow> 0 \<le> b \<Longrightarrow> 0 \<le> draw_next mf a b"
  by (simp add: draw_next_def)

lemma draw_tx_total:
  assumes "pot_update_tx (draw_next mf a) cid now cfg rows = Inr x"
  shows "\<exists>y. draw_tx cid now a cfg mf rows = Inr y"
proof -
  from assms obtain cur rg rows1 p rows2 where
    "regenerate_current cid now cfg rows = Inr (cur, rg, rows1)"
    "persistIfChanged cid cur (draw_next mf a (regen_balance rg)) (regen_lastRegenAtMs rg) rows1
       = Inr (p, rows2)"
    by (auto simp: pot_update_tx_def rbind_eq_Inr)
  then show ?thesis by (simp add: draw_tx_def Let_def draw_next_def draw_capped_def)
qed

text \<open>
  A second transaction at the instant of the first one regenerates nothing more.
\<close>

lemma regenerate_again:
  assumes "regenerateSocialPot b l n c = Inr rg" "0 \<le> b'" "b' \<le> numval (capUnits c)"
  shows "regenerateSocialPot (Fin b') (Fin (regen_lastRegenAtMs rg)) n c
     = Inr \<lparr>regen_balance = b', regen_lastRegenAtMs = regen_lastRegenAtMs rg\<rparr>"
proof -
  let ?T = "numval (regenerationTickMs c)" and ?k = "pot_ticks (numval l) (numval n) (numval (regenerationTickMs c))"
  from assms(1) have pos: "pot_config_positive c" "0 \<le> numval l" "isFinite n" "0 \<le> numval n"
    and e: "regen_lastRegenAtMs rg = numval l + of_int ?k * ?T"
    by (auto simp: regenerateSocialPot_Inr Let_def)
  then have T: "0 < ?T" by (simp add: pot_config_positive_def)
  have "pot_ticks (regen_lastRegenAtMs rg) (numval n) ?T = 0"
    using pot_ticks_compose [OF T order_refl] e by simp
  moreover have "0 \<le> regen_lastRegenAtMs rg"
    using pos(2) pot_ticks_nonneg [OF T] T by (simp add: e)
  ultimately show ?thesis using pos assms(2,3) by (simp add: regenerateSocialPot_Inr Let_def)
qed

lemma pot_update_twice:
  assumes f: "pot_update_tx f cid now cfg rows = Inr (b, p, rows')"
    and fb: "0 \<le> f b" "f b \<le> numval (capUnits cfg)"
    and g: "pot_update_tx g cid now cfg rows' = Inr (b', p', rows'')"
  shows "b' = f b"
proof -
  from f obtain cur rg rows1 where
    rc: "regenerate_current cid now cfg rows = Inr (cur, rg, rows1)" and
    pe: "persistIfChanged cid cur (f b) (regen_lastRegenAtMs rg) rows1 = Inr (p, rows')"
    and b: "b = regen_balance rg"
    by (auto simp: pot_update_tx_def rbind_eq_Inr)
  from regenerate_current_Inr [OF rc] obtain r where
    r: "rows1 cid = Some r" "row_reads r cur" and
    rg: "regenerateSocialPot (Fin (st_balance cur)) (Fin (st_lastRegenAtMs cur)) (jsint now) cfg = Inr rg"
    by metis
  from persistIfChanged_Inr [OF pe r] obtain r' where
    r': "rows' cid = Some r'" "row_balance r' = f b" "of_int (row_lastRegenAtMs r') = regen_lastRegenAtMs rg"
    by (metis row_reads_def)
  from regenerate_again [OF rg fb] r'(3)
  have "regenerateSocialPot (Fin (row_balance r')) (Fin (of_int (row_lastRegenAtMs r'))) (jsint now) cfg
     = Inr \<lparr>regen_balance = f b, regen_lastRegenAtMs = regen_lastRegenAtMs rg\<rparr>"
    by (simp add: r'(2))
  then show ?thesis
    using g r'(1)
    by (auto simp: pot_update_tx_def regenerate_current_def loadOrInitialize_def rbind_eq_Inr
        read_pot_row_Inr)
qed

section \<open>Properties\<close>

text \<open>A concrete pot for the witnesses: 24 units, one unit regenerated every hour.\<close>

definition demo_companion :: string where
  "demo_companion = ''00000000-0000-4000-8000-000000000001''"

definition demo_pot_config :: fatigue_social_pot_config where
  "demo_pot_config = \<lparr>capUnits = Fin 24, regenerationTickMs = Fin 3600000,
     regenerationUnitsPerTick = Fin 1, perChannelDrawFraction = Fin (1/3)\<rparr>"

definition demo_pot :: pot_store where
  "demo_pot = \<lparr>pot_closed = False,
     pot_table = [demo_companion \<mapsto> \<lparr>row_balance = 9, row_lastRegenAtMs = 0, row_revision = 1\<rparr>]\<rparr>"

lemma demo_companion_uuid [simp]: "isRfc4122Uuid demo_companion"
  by code_simp

lemma demo_pot_simps [simp]:
  "pot_config_ok (toStoreConfig demo_pot_config)"
  "numval (capUnits (toStoreConfig demo_pot_config)) = 24"
  "capUnits demo_pot_config = Fin 24"
  "perChannelDrawFraction demo_pot_config = Fin (1/3)"
  "\<not> pot_closed demo_pot"
  "pot_companion_safe demo_pot demo_companion"
  "pot_balance demo_pot demo_companion = Some 9"
  by (simp_all add: pot_config_ok_def pot_config_positive_def toStoreConfig_def demo_pot_config_def
      demo_pot_def pot_companion_safe_def pot_counters_safe_def pot_row_check_def MAX_SAFE_INTEGER_def
      pot_balance_def)

text \<open>
  C21. Regeneration in JavaScript's doubles loses no tick and credits none twice: on whole milliseconds, with a balance,
  a cap and a credit per tick that are multiples of one power of two and fit in 53 bits of it (as whole units do), crediting
  at an intermediate instant and again later gives the same balance and tick boundary as crediting once at the later
  instant, which is what exact arithmetic gives. For other amounts the sums are rounded and the two may differ in the last place.
\<close>

theorem pot_regeneration_composes:
  assumes "regenerateSocialPot_binary64 b (jsint L) (jsint N1) c = Inr r1"
    and "0 \<le> L" "L < 2 ^ 53" "N1 \<le> N2" "N2 < 2 ^ 53" "regenerationTickMs c = jsint T" "T < 2 ^ 53"
    and "on_grid k (numval b)" "on_grid k (numval (regenerationUnitsPerTick c))" "on_grid k (numval (capUnits c))"
    and "numval b + of_int (pot_ticks (of_int L) (of_int N2) (of_int T)) * numval (regenerationUnitsPerTick c) \<le> 2 ^ 53 / 2 ^ k"
  shows "regenerateSocialPot_binary64 (Fin (regen_balance r1)) (Fin (regen_lastRegenAtMs r1)) (jsint N2) c
      = regenerateSocialPot_binary64 b (jsint L) (jsint N2) c
    \<and> regenerateSocialPot_binary64 b (jsint L) (jsint N2) c = regenerateSocialPot b (jsint L) (jsint N2) c"
proof -
  let ?u = "numval (regenerationUnitsPerTick c)" and ?cap = "numval (capUnits c)"
  let ?k1 = "pot_ticks (of_int L) (of_int N1) (of_int T)" and ?k2 = "pot_ticks (of_int L) (of_int N2) (of_int T)"
  have N1: "0 \<le> N1" and pos: "pot_config_positive c" "0 \<le> numval b"
    using assms(1) by (auto simp: regenerateSocialPot_binary64_def rbind_eq_Inr guard_simps pot_config_positive_def jsint_def)
  then have T: "0 < T" "0 < ?u" "0 < ?cap" using assms(6) by (auto simp: pot_config_positive_def jsint_def)
  have comp: "pot_ticks (of_int L + of_int ?k1 * of_int T) (of_int N2) (of_int T) = ?k2 - ?k1"
    using pot_ticks_compose [of "real_of_int T" "of_int N1" "of_int N2" "of_int L"] T(1) assms(4) by simp
  have k: "0 \<le> ?k1" "?k1 \<le> ?k2"
    using pot_ticks_nonneg [of "of_int T"] comp T(1) by (simp, metis diff_ge_0_iff_ge of_int_0_less_iff)
  have credit: "0 \<le> of_int ?k1 * ?u" "of_int ?k1 * ?u \<le> of_int ?k2 * ?u" using k T(2) by simp_all
  have first: "regenerateSocialPot b (jsint L) (jsint N1) c = Inr r1"
    using assms(1) regenerate_exact [OF refl refl assms(6) assms(2,3) N1 _ assms(7-9)] credit assms(4,5,11) by simp
  have whole: "regenerateSocialPot_binary64 b (jsint L) (jsint N2) c = regenerateSocialPot b (jsint L) (jsint N2) c"
    by (rule regenerate_exact [OF refl refl assms(6) assms(2,3) _ assms(5,7-9) assms(11)]) (use N1 assms(4) in simp)
  have r1: "regen_balance r1 = min ?cap (numval b + of_int ?k1 * ?u)" "regen_lastRegenAtMs r1 = of_int (L + ?k1 * T)"
    using first assms(6) by (auto simp: regenerateSocialPot_Inr Let_def jsint_def)
  have "on_grid k (of_int ?k1 * ?u)" by (rule on_grid_intros(3) [OF assms(9,9)]) (use credit pos(2) assms(11) in linarith)
  then have "on_grid k (numval b + of_int ?k1 * ?u)"
    by (rule on_grid_intros(1) [OF assms(8)]) (use credit pos(2) assms(11) in linarith)
  then have bal: "on_grid k (numval (Fin (regen_balance r1)))" using assms(10) by (simp add: r1(1) min_def)
  have last: "0 \<le> L + ?k1 * T" "L + ?k1 * T < 2 ^ 53"
    using pot_ticks_whole [OF T(1), of L N1] assms(2-5) k(1) T(1) by (simp, linarith)
  have "regenerateSocialPot_binary64 (Fin (regen_balance r1)) (Fin (regen_lastRegenAtMs r1)) (jsint N2) c
      = regenerateSocialPot (Fin (regen_balance r1)) (Fin (regen_lastRegenAtMs r1)) (jsint N2) c"
  proof (rule regenerate_exact [OF _ refl assms(6) last _ assms(5,7) bal assms(9)])
    show "Fin (regen_lastRegenAtMs r1) = jsint (L + ?k1 * T)" by (simp add: r1(2) jsint_def)
    show "0 \<le> N2" using N1 assms(4) by simp
    have "regen_balance r1 \<le> numval b + of_int ?k1 * ?u" by (simp add: r1(1))
    then show "numval (Fin (regen_balance r1)) + of_int (pot_ticks (of_int (L + ?k1 * T)) (of_int N2) (of_int T)) * ?u \<le> 2 ^ 53 / 2 ^ k"
      using assms(11) unfolding comp [folded of_int_mult of_int_add] of_int_diff left_diff_distrib by simp
  qed
  moreover have "regenerateSocialPot (Fin (regen_balance r1)) (Fin (regen_lastRegenAtMs r1)) (jsint N2) c
      = regenerateSocialPot b (jsint L) (jsint N2) c"
    by (rule regenerate_compose [OF first]) (use assms(4) in \<open>simp_all add: jsint_def\<close>)
  ultimately show ?thesis using whole by simp
qed

lemma whole_on_grid: "\<bar>i\<bar> \<le> 2 ^ 53 \<Longrightarrow> on_grid 0 (of_int i)"
  by (auto simp: on_grid_def)

theorem pot_regeneration_composes_witness:
  "regenerateSocialPot_binary64 (Fin 10) (Fin 3600000) (jsint 9000000) (toStoreConfig demo_pot_config)
   = regenerateSocialPot (Fin 9) (jsint 0) (jsint 9000000) (toStoreConfig demo_pot_config)"
proof -
  let ?c = "toStoreConfig demo_pot_config"
  have grid: "on_grid 0 (numval (Fin 9))" "on_grid 0 (numval (regenerationUnitsPerTick ?c))" "on_grid 0 (numval (capUnits ?c))"
    using whole_on_grid [of 9] whole_on_grid [of 1] whole_on_grid [of 24] by (simp_all add: toStoreConfig_def demo_pot_config_def)
  have tick: "regenerationTickMs ?c = jsint 3600000" by (simp add: toStoreConfig_def demo_pot_config_def jsint_def)
  have ticks: "pot_ticks 0 5000000 3600000 = 1" "pot_ticks 0 9000000 3600000 = 2" by (simp_all add: pot_ticks_def)
  have "regenerateSocialPot_binary64 (Fin 9) (jsint 0) (jsint 5000000) ?c = regenerateSocialPot (Fin 9) (jsint 0) (jsint 5000000) ?c"
    by (rule regenerate_exact [OF refl refl tick _ _ _ _ _ grid(1,2)])
      (simp_all add: ticks, simp add: toStoreConfig_def demo_pot_config_def)
  then have first: "regenerateSocialPot_binary64 (Fin 9) (jsint 0) (jsint 5000000) ?c = Inr \<lparr>regen_balance = 10, regen_lastRegenAtMs = 3600000\<rparr>"
    by (simp add: regenerateSocialPot_Inr Let_def jsint_def ticks toStoreConfig_def demo_pot_config_def pot_config_positive_def)
  show ?thesis
    using pot_regeneration_composes [OF first _ _ _ _ tick _ grid, of 9000000]
    by (simp add: ticks) (simp add: toStoreConfig_def demo_pot_config_def)
qed

text \<open>
  C9. A draw conserves units: the balance afterwards is the regenerated balance less the units
  drawn, which are the full amount or nothing; the balance stays between zero and the cap; a
  draw with a channel fraction takes at most that share of the balance at draw time; it is
  refused as capped exactly when it exceeds the share, as insufficient only when the balance is
  too small; no other companion's pot changes; and the table constraint keeps holding.
\<close>

theorem pot_draw_conserves:
  assumes "draw c n a cfg mf st = (Inr d, st')"
  shows "pot_balance st' c = Some (snap_balance (draw_before d) - draw_drawn d)
    \<and> draw_drawn d = (if draw_outcome d = Drawn then numval a else 0)
    \<and> draw_drawn d \<le> snap_balance (draw_before d)
    \<and> snap_balance (draw_before d) \<le> numval (capUnits cfg)
    \<and> (\<forall>f. mf = Some f \<longrightarrow> draw_drawn d \<le> numval f * snap_balance (draw_before d))
    \<and> (draw_outcome d = Capped \<longleftrightarrow>
         (\<exists>f. mf = Some f \<and> numval a > numval f * snap_balance (draw_before d)))
    \<and> (draw_outcome d = Insufficient \<longrightarrow> snap_balance (draw_before d) < numval a)
    \<and> (\<forall>c'. c' \<noteq> c \<longrightarrow> pot_balance st' c' = pot_balance st c')
    \<and> (pot_inv st \<longrightarrow> pot_inv st')"
  using draw_laws [OF assms] by (auto simp: draw_capped_def split: option.splits)

definition demo_after_draw :: pot_store where
  "demo_after_draw = \<lparr>pot_closed = False,
     pot_table = [demo_companion \<mapsto> \<lparr>row_balance = 8, row_lastRegenAtMs = 3600000, row_revision = 2\<rparr>]\<rparr>"

definition demo_draw_result :: draw_result where
  "demo_draw_result = \<lparr>draw_outcome = Drawn, draw_drawn = 2,
     draw_before = \<lparr>snap_companionId = demo_companion, snap_balance = 10, snap_cap = 24,
                    snap_lastRegenAtMs = 3600000, snap_revision = 1\<rparr>,
     draw_after = \<lparr>snap_companionId = demo_companion, snap_balance = 8, snap_cap = 24,
                    snap_lastRegenAtMs = 3600000, snap_revision = 2\<rparr>\<rparr>"

lemma demo_draw:
  "draw demo_companion (Fin 5000000) (Fin 2) (toStoreConfig demo_pot_config) (Some (Fin (1/3))) demo_pot
   = (Inr demo_draw_result, demo_after_draw)"
proof -
  have "draw_tx demo_companion 5000000 2 (toStoreConfig demo_pot_config) (Some (Fin (1/3)))
      (pot_table demo_pot) = Inr (demo_draw_result, pot_table demo_after_draw)"
    by (simp add: draw_tx_def regenerate_current_def loadOrInitialize_def demo_pot_def read_pot_row_def
        requireSafeInteger_def MAX_SAFE_INTEGER_def regenerateSocialPot_def jsint_def
        toStoreConfig_def demo_pot_config_def assertPositiveFinite_def assertNonNegativeFinite_def
        persistIfChanged_def write_pot_row_def pot_row_check_def pot_snapshot_def is_whole_def
        demo_after_draw_def demo_draw_result_def)
  moreover have "demo_pot\<lparr>pot_table := pot_table demo_after_draw\<rparr> = demo_after_draw"
    by (simp add: demo_pot_def demo_after_draw_def)
  ultimately show ?thesis
    by (subst draw_Inr) (simp add: pot_args_ok_def amount_ok_def draw_fraction_ok_def intval_def
        MAX_SAFE_INTEGER_def)
qed

theorem pot_draw_conserves_witness:
  "pot_balance demo_after_draw demo_companion = Some 8 \<and> draw_drawn demo_draw_result = 2"
  using pot_draw_conserves [OF demo_draw] by (simp add: demo_draw_result_def)

text \<open>
  On a valid request the draw and the refund return: a well-formed companion id, timestamp,
  configuration, amount and fraction against an open store whose row (if any) satisfies the
  table constraint with counters in the safe-integer range never meet an error branch, neither
  the revision conflict nor a constraint violation.
\<close>

theorem pot_draw_total:
  assumes "pot_args_ok c n cfg" "amount_ok a" "draw_fraction_ok mf"
    and "\<not> pot_closed st" "pot_companion_safe st c"
  shows "(\<exists>d st'. draw c n a cfg mf st = (Inr d, st')) \<and> (\<exists>sn st'. refund c n a cfg st = (Inr sn, st'))"
proof -
  have cfg: "pot_config_ok cfg" and n: "0 \<le> intval n" "intval n \<le> MAX_SAFE_INTEGER"
    using assms(1) by (auto simp: pot_args_ok_def dest: is_timestampD)
  have a: "0 < numval a" using assms(2) by (simp add: amount_ok_def)
  have cap: "0 < numval (capUnits cfg)" using cfg by (simp add: pot_config_ok_def pot_config_positive_def)
  have "\<exists>x. draw_tx c (intval n) (numval a) cfg mf (pot_table st) = Inr x"
    using pot_update_tx_total [OF assms(5) cfg n, of "draw_next mf (numval a)"]
      draw_next_nonneg [OF a] draw_tx_total by blast
  moreover have "\<exists>x. pot_update_tx (\<lambda>b. min (b + numval a) (numval (capUnits cfg))) c (intval n) cfg
      (pot_table st) = Inr x"
    using a cap by (intro pot_update_tx_total [OF assms(5) cfg n]) simp
  then have "\<exists>x. refund_tx c (intval n) (numval a) cfg (pot_table st) = Inr x"
    by (auto simp: refund_tx_alt)
  ultimately show ?thesis using assms by (auto simp: draw_Inr refund_Inr)
qed

theorem pot_draw_total_witness:
  "\<exists>d st'. draw demo_companion (Fin 7) (Fin 2) (toStoreConfig demo_pot_config) None demo_pot = (Inr d, st')"
  using pot_draw_total [of demo_companion "Fin 7" "toStoreConfig demo_pot_config" "Fin 2" None demo_pot]
  by (simp add: pot_args_ok_def amount_ok_def draw_fraction_ok_def MAX_SAFE_INTEGER_def)

text \<open>
  C22. A refund undoes a draw: after a successful draw, refunding the same amount at the same instant restores exactly the
  balance the draw started from, when that balance and the amount are multiples of one power of two that fit in 53 bits of
  it (as whole units are), so that the doubles of the program are not rounded: neither the difference nor the sum is.
\<close>

theorem pot_draw_refund_roundtrip:
  assumes d: "draw c n a cfg mf st = (Inr d, st')" "draw_outcome d = Drawn"
    and r: "refund c n a cfg st' = (Inr sn, st'')"
    and grid: "on_grid k (snap_balance (draw_before d))" "on_grid k (numval a)"
  shows "pot_balance st'' c = Some (snap_balance (draw_before d))
    \<and> binary64 (snap_balance (draw_before d) - numval a) = snap_balance (draw_before d) - numval a
    \<and> binary64 (binary64 (snap_balance (draw_before d) - numval a) + numval a) = snap_balance (draw_before d)"
proof -
  from d(1) obtain rows B p where
    st': "st' = st\<lparr>pot_table := rows\<rparr>" and
    up: "pot_update_tx (draw_next mf (numval a)) c (intval n) cfg (pot_table st) = Inr (B, p, rows)"
    and B: "snap_balance (draw_before d) = B"
    unfolding draw_Inr by (metis draw_tx_Inr)
  from r obtain rows' B' p' where
    up': "pot_update_tx (\<lambda>b. min (b + numval a) (numval (capUnits cfg))) c (intval n) cfg rows
      = Inr (B', p', rows')" and sn: "snap_balance sn = st_balance p'"
    by (auto simp: st' refund_Inr refund_tx_alt rbind_eq_Inr pot_snapshot_def)
  note ds = draw_laws [OF d(1)]
  have nx: "draw_next mf (numval a) B = B - numval a"
  proof -
    have "pot_balance st' c = Some (st_balance p)"
      using pot_update_tx_Inr [OF up] by (auto simp: st' pot_balance_upd)
    then show ?thesis using ds(1,3) d(2) pot_update_tx_Inr [OF up] B by simp
  qed
  have "numval a \<le> B" "B \<le> numval (capUnits cfg)" "0 < numval a"
    using ds(3,4) d(2) B d(1) by (auto simp: draw_Inr amount_ok_def)
  then have "B' = B - numval a" using pot_update_twice [OF up _ _ up'] nx by simp
  then have "st_balance p' = B"
    using pot_update_tx_Inr [OF up'] \<open>B \<le> numval (capUnits cfg)\<close> by simp
  then have restored: "pot_balance st'' c = Some B" using refund_laws(1) [OF r] sn by simp
  have "on_grid k (B - numval a)"
    using on_grid_intros(2) [OF grid] on_grid_le [OF grid(1)] \<open>numval a \<le> B\<close> \<open>0 < numval a\<close> by (simp add: B)
  then show ?thesis using restored B grid(1) by (simp add: binary64_exact)
qed

theorem pot_draw_refund_roundtrip_witness:
  "\<exists>sn st''. refund demo_companion (Fin 5000000) (Fin 2) (toStoreConfig demo_pot_config) demo_after_draw
      = (Inr sn, st'') \<and> pot_balance st'' demo_companion = Some 10"
proof -
  have "pot_companion_safe demo_after_draw demo_companion" "\<not> pot_closed demo_after_draw"
    by (simp_all add: demo_after_draw_def pot_companion_safe_def pot_counters_safe_def pot_row_check_def
        MAX_SAFE_INTEGER_def)
  then have "\<exists>rows. pot_update_tx (\<lambda>b. min (b + 2) 24) demo_companion 5000000
      (toStoreConfig demo_pot_config) (pot_table demo_after_draw) = Inr rows"
    by (intro pot_update_tx_total) (auto simp: MAX_SAFE_INTEGER_def)
  then have "\<exists>x. refund_tx demo_companion 5000000 2 (toStoreConfig demo_pot_config)
      (pot_table demo_after_draw) = Inr x"
    by (auto simp: refund_tx_alt)
  then obtain sn st'' where r: "refund demo_companion (Fin 5000000) (Fin 2)
      (toStoreConfig demo_pot_config) demo_after_draw = (Inr sn, st'')"
    using \<open>\<not> pot_closed demo_after_draw\<close>
    by (auto simp: refund_Inr pot_args_ok_def amount_ok_def MAX_SAFE_INTEGER_def intval_def)
  have "pot_balance st'' demo_companion = Some 10"
    using pot_draw_refund_roundtrip [OF demo_draw _ r, of 0] whole_on_grid [of 10] whole_on_grid [of 2]
    by (simp add: demo_draw_result_def)
  with r show ?thesis by blast
qed

text \<open>
  A busy room: successive group-social requests \<open>(amount, instant)\<close> of one companion.
\<close>

fun group_draws ::
  "fatigue_social_pot_config \<Rightarrow> string \<Rightarrow> (jsnum \<times> jsnum) list \<Rightarrow> pot_store \<Rightarrow> pot_store" where
  "group_draws cfg c [] st = st"
| "group_draws cfg c ((a, n) # rs) st =
     group_draws cfg c rs
       (snd (enforceSocialPotDraw draw cfg c Group_social Machine_intelligence a n st))"

text \<open>
  In exact arithmetic one busy room cannot starve the others: whatever \<open>n\<close> group-social draws a room requests,
  the pot still holds at least \<open>(1 - f) ^ n\<close> of what it held, \<open>f\<close> being the per-channel share. On doubles the share
  and the balance are rounded, so the bound holds up to the last place.
\<close>

theorem pot_group_draws_bounded:
  assumes "pot_balance st c = Some b" "0 \<le> b" "b \<le> numval (capUnits cfg)"
    and "0 \<le> numval (perChannelDrawFraction cfg)" "numval (perChannelDrawFraction cfg) \<le> 1"
  shows "\<exists>b'. pot_balance (group_draws cfg c rs st) c = Some b'
           \<and> (1 - numval (perChannelDrawFraction cfg)) ^ length rs * b \<le> b'"
  using assms
proof (induction rs arbitrary: st b)
  case Nil
  then show ?case by simp
next
  case (Cons r rs)
  let ?q = "1 - numval (perChannelDrawFraction cfg)"
  obtain a n where r: "r = (a, n)" by (cases r)
  obtain res st1 where e: "enforceSocialPotDraw draw cfg c Group_social Machine_intelligence a n st
      = (res, st1)" by (cases "enforceSocialPotDraw draw cfg c Group_social Machine_intelligence a n st")
  have "\<exists>b1. pot_balance st1 c = Some b1 \<and> ?q * b \<le> b1 \<and> b1 \<le> numval (capUnits cfg)"
  proof (cases res)
    case (Inl err)
    then have "st1 = st" using pg_pot.enforce_throws e by blast
    moreover have "?q * b \<le> 1 * b" using Cons.prems by (intro mult_right_mono) auto
    ultimately show ?thesis using Cons.prems by auto
  next
    case (Inr dec)
    then show ?thesis using pg_pot.enforce_share [of cfg c a n st dec st1 b] e Cons.prems by simp
  qed
  then obtain b1 where b1: "pot_balance st1 c = Some b1" "?q * b \<le> b1" "b1 \<le> numval (capUnits cfg)"
    by blast
  have "0 \<le> ?q * b" using Cons.prems by simp
  then have "0 \<le> b1" using b1(2) by (rule order_trans)
  then obtain b' where "pot_balance (group_draws cfg c rs st1) c = Some b'" "?q ^ length rs * b1 \<le> b'"
    using Cons.IH [of st1 b1] b1 Cons.prems by auto
  moreover have "?q ^ length rs * (?q * b) \<le> ?q ^ length rs * b1"
    using b1(2) Cons.prems by (intro mult_left_mono) auto
  ultimately show ?case using e r by (auto simp: algebra_simps)
qed

theorem pot_group_draws_bounded_witness:
  "\<exists>b'. pot_balance (group_draws demo_pot_config demo_companion
      [(Fin 3, Fin 10), (Fin 3, Fin 20), (Fin 1, Fin 30)] demo_pot) demo_companion = Some b' \<and> 8 / 3 \<le> b'"
  using pot_group_draws_bounded [of demo_pot demo_companion 9 demo_pot_config
      "[(Fin 3, Fin 10), (Fin 3, Fin 20), (Fin 1, Fin 30)]"]
  by (simp add: power3_eq_cube)

text \<open>
  Only a machine-triggered turn is charged: for a human, system or unknown trigger the
  policy returns (or throws on a bad lane or amount) without touching the store, and the
  decision it returns is the uncharged one with nothing drawn.
\<close>

theorem pot_uncharged_untouched:
  assumes "kind \<noteq> Machine_intelligence"
  shows "snd (enforceSocialPotDraw draw cfg c lane kind a n st) = st
    \<and> (case fst (enforceSocialPotDraw draw cfg c lane kind a n st) of
         Inr dec \<Rightarrow> enf_outcome dec = Enf_uncharged \<and> enf_drawn dec = 0 \<and> lane \<in> {Group_social, Icp_continuation}
           \<and> enf_unchargedReason dec =
               Some (if kind = Human then Human_triggered else Non_autonomous_trigger)
       | Inl e \<Rightarrow> (\<exists>l. lane = Other_lane l) \<or> \<not> amount_ok a)"
  using assms
  by (cases lane; cases "requirePositiveFiniteAmount a")
    (auto simp: enforceSocialPotDraw_def requirePositiveFiniteAmount_def assertPositiveFinite_def
      amount_ok_def split: if_splits)

theorem pot_uncharged_untouched_witness:
  "snd (enforceSocialPotDraw draw demo_pot_config demo_companion Group_social Human (Fin 2) (Fin 10) demo_pot)
   = demo_pot"
  using pot_uncharged_untouched [of Human] by simp

end
