(* ===== verification/Fatigue_Types.thy ===== *)
theory Fatigue_Types
  imports Social_Pot
begin

text \<open>
  The vocabulary of the fatigue subsystem: the owner's policy
  (\<^verbatim>\<open>src/src/shared/contracts/charge-policy.ts\<close>), the actors of a turn and the durable budget
  event (\<^verbatim>\<open>src/src/shared/contracts/runtime-base.ts\<close>). The policy reaches the runtime through a
  loader that refuses numbers that are not finite, so its numbers are reals. Lineage and the
  free-form details of an event, which no decision reads, are left out; of a correlation the turn
  id, the channel and the causal root are kept.
\<close>

section \<open>Owner policy\<close>

datatype relationship_class =
  Non_machine_intelligence | Stranger_mi | Weak_mi | Known_mi | Friendly_mi | Collaborator_mi
| Trusted_collaborator_mi

datatype channel_setting =
  Setting_unknown | Setting_busy_human_group | Setting_public_group | Setting_one_human_companion_hosted
| Setting_quiet_companion_room | Setting_dm

datatype fatigue_intent =
  Intent_casual | Intent_social | Intent_check_in | Intent_work | Intent_research | Intent_problem_solving

datatype fatigue_base_state =
  Base_normal | Base_nearing_limit | Base_soft_exhausted | Base_wrap_up_allowed | Base_hard_exhausted

datatype fatigue_state = State_base fatigue_base_state | State_overcharge_eligible

datatype continuation_evidence =
  Evidence_recent_human_participation | Evidence_active_work_or_research | Evidence_explicit_peer_invitation

datatype regulation_state =
  Regulation_normal | Regulation_conversation_maturing | Regulation_nearing_soft_allowance
| Regulation_charge_lane_active | Regulation_wrap_up_allowed | Regulation_hard_exhausted
| Regulation_overcharge_closeout | Regulation_final_closeout | Regulation_suppressed

record response_budget =
  rb_softTarget :: real
  rb_hardCap :: real

record channel_limit =
  cl_maxSoftTarget :: real
  cl_maxHardCap :: real

record intent_multiplier =
  im_softTargetMultiplier :: real
  im_hardCapMultiplier :: real

record activity_thresholds =
  at_busyRecentMessageCount :: real
  at_busyHumanParticipantCount :: real
  at_quietRecentMessageCount :: real

record state_thresholds =
  th_nearingLimitRemainingResponses :: real
  th_wrapUpRemainingResponses :: real

record overcharge_config =
  oc_enabled :: bool
  oc_reserveResponses :: real
  oc_recentHumanParticipationWindowMs :: real
  oc_minRecentHumanMessages :: real
  oc_minRecentHumanParticipants :: real

record evidence_policy =
  ep_recentHumanParticipation :: bool
  ep_activeWorkOrResearch :: bool
  ep_explicitPeerInvitation :: bool

record social_regulation_config =
  sr_relationshipPressureHalfLifeMs :: real
  sr_relationshipPressureWindowMs :: real
  sr_conversationMaturingRatio :: real
  sr_marginalChargeUnits :: real
  sr_continuationEvidence :: evidence_policy

record fatigue_policy_config =
  fp_relationshipBudgets :: "relationship_class \<Rightarrow> response_budget"
  fp_channelSettingLimits :: "channel_setting \<Rightarrow> channel_limit"
  fp_intentMultipliers :: "fatigue_intent \<Rightarrow> intent_multiplier"
  fp_activityThresholds :: activity_thresholds
  fp_stateThresholds :: state_thresholds
  fp_overcharge :: overcharge_config
  fp_socialRegulation :: social_regulation_config

section \<open>Actors and events\<close>

datatype trust_level = Trust_primary | Trust_trusted | Trust_regular | Trust_public

datatype relationship_type =
  Rel_partner | Rel_family | Rel_friend | Rel_acquaintance | Rel_stranger | Rel_ai_companion

datatype budget_decision = Decision_charged | Decision_free | Decision_overcharge

datatype overcharge_reason =
  Overcharge_recent_human_participation | Overcharge_work_intent_wrapup | Overcharge_explicit_peer_invitation

datatype budget_reason =
  Reason_machine_intelligence_response
| Reason_overcharge overcharge_reason
| Reason_peer_not_machine_intelligence
| Reason_author_not_machine_intelligence

datatype soft_state = Soft_clear | Soft_limit_reached

datatype hard_state = Hard_available | Hard_exhausted

record actor_snapshot =
  actor_role :: trigger_author_kind
  actor_contactId :: "string option"
  actor_channelAuthorId :: "string option"
  actor_displayName :: "string option"
  actor_isMachineIntelligence :: bool

record peer_snapshot =
  peer_contactId :: string
  peer_displayName :: "string option"
  peer_channelAuthorId :: "string option"
  peer_isMachineIntelligence :: bool

record correlation =
  corr_turnId :: "string option"
  corr_channelId :: "string option"
  corr_rootInitiationId :: "string option"

record fatigue_event =
  fe_timestampMs :: real
  fe_dayKey :: string
  fe_localCompanionId :: string
  fe_peerContactId :: string
  fe_channelId :: string
  fe_triggeringAuthor :: actor_snapshot
  fe_peer :: peer_snapshot
  fe_amount :: real
  fe_decision :: budget_decision
  fe_reason :: budget_reason
  fe_spentAfter :: real
  fe_remainingAllowance :: real
  fe_allowance :: real
  fe_softLimit :: real
  fe_normalSpentAfter :: real
  fe_overchargeSpentAfter :: real
  fe_overchargeAllowance :: real
  fe_remainingOvercharge :: real
  fe_softState :: soft_state
  fe_hardState :: hard_state
  fe_correlation :: correlation

end
