(* ===== verification/Fatigue_Ledger.thy ===== *)
theory Fatigue_Ledger
  imports Fatigue_Types "HOL-Library.Multiset"
begin

text \<open>
  The append-only fatigue ledger (\<^verbatim>\<open>src/src/shared/telemetry/fatigue-ledger.ts\<close>): a JSON-lines file
  with one row per budget event and the list of its entries in memory. Printing and parsing a row
  of typed values is the identity, so the file is a list of entries; the byte budgets of the
  reader are left out.
\<close>

section \<open>Entries and queries\<close>

record ledger_entry =
  le_eventId :: string
  le_recordedAtMs :: real
  le_event :: fatigue_event

record ledger_query =
  lq_limit :: "jsnum option"
  lq_sinceMs :: "real option"
  lq_untilMs :: "real option"
  lq_localCompanionId :: "string option"
  lq_peerContactId :: "string option"
  lq_channelId :: "string option"
  lq_dayKey :: "string option"
  lq_decision :: "budget_decision option"

definition any_query :: ledger_query where
  "any_query = \<lparr>lq_limit = None, lq_sinceMs = None, lq_untilMs = None, lq_localCompanionId = None,
     lq_peerContactId = None, lq_channelId = None, lq_dayKey = None, lq_decision = None\<rparr>"

definition MAX_EVENT_LIMIT :: nat where "MAX_EVENT_LIMIT = 2000"

definition normalizeEventLimit :: "jsnum option \<Rightarrow> nat option" where
  "normalizeEventLimit value =
     (case value of
        None \<Rightarrow> None
      | Some v \<Rightarrow> if \<not> isFinite v \<or> numval v < 1 then None else Some (min MAX_EVENT_LIMIT (nat \<lfloor>numval v\<rfloor>)))"

text \<open>A string of a query that is missing or empty selects everything.\<close>

definition selects :: "string option \<Rightarrow> string \<Rightarrow> bool" where
  "selects q v \<longleftrightarrow> (case q of None \<Rightarrow> True | Some s \<Rightarrow> s = [] \<or> v = s)"

definition matchesQuery :: "ledger_query \<Rightarrow> ledger_entry \<Rightarrow> bool" where
  "matchesQuery query entry =
     (let event = le_event entry in
      (case lq_sinceMs query of None \<Rightarrow> True | Some t \<Rightarrow> \<not> fe_timestampMs event < t)
      \<and> (case lq_untilMs query of None \<Rightarrow> True | Some t \<Rightarrow> \<not> fe_timestampMs event > t)
      \<and> selects (lq_localCompanionId query) (fe_localCompanionId event)
      \<and> selects (lq_peerContactId query) (fe_peerContactId event)
      \<and> selects (lq_channelId query) (fe_channelId event)
      \<and> selects (lq_dayKey query) (fe_dayKey event)
      \<and> (case lq_decision query of None \<Rightarrow> True | Some d \<Rightarrow> fe_decision event = d))"

section \<open>The ledger\<close>

record fatigue_ledger =
  ld_file :: "ledger_entry list"
  ld_entries :: "ledger_entry list"

definition createLedgerEntry :: "string \<Rightarrow> fatigue_event \<Rightarrow> real \<Rightarrow> ledger_entry" where
  "createLedgerEntry eventId event recordedAtMs =
     \<lparr>le_eventId = eventId, le_recordedAtMs = recordedAtMs, le_event = event\<rparr>"

definition recordFatigueEvent :: "string \<Rightarrow> real \<Rightarrow> fatigue_event \<Rightarrow> fatigue_ledger \<Rightarrow> fatigue_ledger" where
  "recordFatigueEvent eventId now event L =
     (let entry = createLedgerEntry eventId event now in
      L\<lparr>ld_file := ld_file L @ [entry], ld_entries := ld_entries L @ [entry]\<rparr>)"

definition listFatigueEvents :: "ledger_query \<Rightarrow> fatigue_ledger \<Rightarrow> fatigue_event list" where
  "listFatigueEvents query L =
     (let events = map le_event (sort_key (\<lambda>e. - fe_timestampMs (le_event e)) (filter (matchesQuery query) (ld_entries L))) in
      case normalizeEventLimit (lq_limit query) of None \<Rightarrow> events | Some n \<Rightarrow> take n events)"

text \<open>Which rows the reader accepts: the strings and numbers it requires, and the reasons it knows.\<close>

definition known_reason :: "budget_reason \<Rightarrow> bool" where
  "known_reason r \<longleftrightarrow> r = Reason_machine_intelligence_response
     \<or> r = Reason_overcharge Overcharge_recent_human_participation
     \<or> r = Reason_overcharge Overcharge_work_intent_wrapup
     \<or> r = Reason_peer_not_machine_intelligence
     \<or> r = Reason_author_not_machine_intelligence"

definition assertLedgerEntry :: "ledger_entry \<Rightarrow> ledger_entry result" where
  "assertLedgerEntry entry =
     (let event = le_event entry; invalid = (\<lambda>why. ''Invalid fatigue ledger entry: '' @ why) in
      throwIf (js_trim (le_eventId entry) = []) (invalid ''missing eventId'') (
      throwIf (le_recordedAtMs entry < 0) (invalid ''missing recordedAtMs'') (
      throwIf (fe_timestampMs event < 0) (invalid ''missing event timestamp'') (
      throwIf (js_trim (fe_dayKey event) = []) (invalid ''missing dayKey'') (
      throwIf (js_trim (fe_localCompanionId event) = []) (invalid ''missing localCompanionId'') (
      throwIf (js_trim (fe_peerContactId event) = []) (invalid ''missing peerContactId'') (
      throwIf (js_trim (fe_channelId event) = []) (invalid ''missing channelId'') (
      throwIf (js_trim (peer_contactId (fe_peer event)) = []) (invalid ''missing peer contact'') (
      throwIf (fe_amount event < 0) (invalid ''missing amount'') (
      throwIf (\<not> known_reason (fe_reason event)) (invalid ''invalid reason'') (
      throwIf (fe_spentAfter event < 0) (invalid ''missing spentAfter'') (
      throwIf (fe_remainingAllowance event < 0) (invalid ''missing remainingAllowance'') (
      throwIf (fe_allowance event < 0) (invalid ''missing allowance'') (
      throwIf (fe_softLimit event < 0) (invalid ''missing softLimit'') (
      Inr entry)))))))))))))))"

fun readLedgerEntries :: "ledger_entry list \<Rightarrow> ledger_entry list result" where
  "readLedgerEntries [] = Inr []"
| "readLedgerEntries (row # rows) =
     rbind (assertLedgerEntry row) (\<lambda>entry. rbind (readLedgerEntries rows) (\<lambda>entries. Inr (entry # entries)))"

definition openLedger :: "ledger_entry list \<Rightarrow> fatigue_ledger result" where
  "openLedger file = rbind (readLedgerEntries file) (\<lambda>entries. Inr \<lparr>ld_file = file, ld_entries = entries\<rparr>)"

section \<open>Laws\<close>

definition row_accepted :: "ledger_entry \<Rightarrow> bool" where
  "row_accepted entry \<longleftrightarrow> assertLedgerEntry entry = Inr entry"

lemma assertLedgerEntry_Inr: "assertLedgerEntry entry = Inr x \<longleftrightarrow> row_accepted entry \<and> x = entry"
  by (auto simp: row_accepted_def assertLedgerEntry_def Let_def)

lemma readLedgerEntries_Inr: "readLedgerEntries rows = Inr entries \<longleftrightarrow> list_all row_accepted rows \<and> entries = rows"
  by (induction rows arbitrary: entries) (auto simp: rbind_eq_Inr assertLedgerEntry_Inr)

lemma openLedger_Inr:
  "openLedger file = Inr L \<longleftrightarrow> list_all row_accepted file \<and> L = \<lparr>ld_file = file, ld_entries = file\<rparr>"
  by (auto simp: openLedger_def rbind_eq_Inr readLedgerEntries_Inr)

lemma mset_listFatigueEvents:
  "normalizeEventLimit (lq_limit query) = None \<Longrightarrow>
   mset (listFatigueEvents query L) = mset (map le_event (filter (matchesQuery query) (ld_entries L)))"
  by (simp add: listFatigueEvents_def Let_def mset_map)

lemma set_listFatigueEvents:
  "normalizeEventLimit (lq_limit query) = None \<Longrightarrow>
   set (listFatigueEvents query L) = le_event ` {e \<in> set (ld_entries L). matchesQuery query e}"
  by (simp add: listFatigueEvents_def Let_def)

end
