(* ===== verification/Room_Pressure.thy ===== *)
theory Room_Pressure
  imports Fatigue_Ledger Arbiter_Store
begin

text \<open>
  Room-episode pacing: the decayed machine pressure of a channel, the ladder it feeds, and the
  hard-suppression circuit breaker above it. Models
  \<^verbatim>\<open>src/src/core/agent/fatigue/room-episode-pressure.ts\<close> and
  \<^verbatim>\<open>src/src/core/agent/fatigue/room-episode-circuit-breaker.ts\<close>. The ledger's
  query is a parameter of the reader, as the code's history port is; the theorem on the reading takes the modelled
  ledger for it. \<open>2 ** x\<close> is the real power.
\<close>

section \<open>Pressure\<close>

datatype contribution_kind = Reply | Reaction

record contribution =
  contrib_timestampMs :: jsnum
  contrib_triggerRole :: trigger_author_kind
  contrib_kind :: contribution_kind

record pressure_config =
  halfLifeMs :: jsnum
  windowMs :: jsnum
  replyPressureUnits :: jsnum
  reactionPressureUnits :: jsnum
  elevatedThreshold :: jsnum
  wrapUpThreshold :: jsnum
  maxLeaseThresholdBias :: jsnum

datatype pressure_level = Calm | Elevated | Wrap_up_invited

record pressure_state =
  pstate_level :: pressure_level
  pstate_wrapUpInvited :: bool
  pstate_leaseThresholdBias :: real

record pressure_computation =
  comp_pressure :: real
  comp_contributingEventCount :: nat
  comp_windowStartMs :: real

record pressure_assessment = pressure_state +
  assess_channelId :: string
  assess_pressure :: real
  assess_contributingEventCount :: nat
  assess_windowStartMs :: real
  assess_evaluatedAtMs :: real

definition assertRoomEpisodePressureConfig :: "pressure_config \<Rightarrow> pressure_config result" where
  "assertRoomEpisodePressureConfig config =
     rbind (assertPositiveFinite (halfLifeMs config) ''roomEpisodePressure.halfLifeMs'') (\<lambda>halfLife.
     rbind (assertPositiveFinite (windowMs config) ''roomEpisodePressure.windowMs'') (\<lambda>window.
     throwIf (numval window < numval halfLife)
       ''roomEpisodePressure.windowMs must be >= roomEpisodePressure.halfLifeMs'' (
     rbind (assertPositiveFinite (replyPressureUnits config) ''roomEpisodePressure.replyPressureUnits'') (\<lambda>reply.
     rbind (assertNonNegativeFinite (reactionPressureUnits config)
              ''roomEpisodePressure.reactionPressureUnits'') (\<lambda>reaction.
     throwIf (numval reaction > numval reply)
       ''roomEpisodePressure.reactionPressureUnits must be <= roomEpisodePressure.replyPressureUnits'' (
     rbind (assertPositiveFinite (elevatedThreshold config) ''roomEpisodePressure.elevatedThreshold'') (\<lambda>elevated.
     rbind (assertPositiveFinite (wrapUpThreshold config) ''roomEpisodePressure.wrapUpThreshold'') (\<lambda>wrapUp.
     throwIf (numval wrapUp \<le> numval elevated)
       ''roomEpisodePressure.wrapUpThreshold must be > roomEpisodePressure.elevatedThreshold'' (
     rbind (assertPositiveFinite (maxLeaseThresholdBias config)
              ''roomEpisodePressure.maxLeaseThresholdBias'') (\<lambda>bias.
     Inr \<lparr>halfLifeMs = halfLife, windowMs = window, replyPressureUnits = reply,
          reactionPressureUnits = reaction, elevatedThreshold = elevated, wrapUpThreshold = wrapUp,
          maxLeaseThresholdBias = bias\<rparr>))))))))))"

fun contributionWeight :: "contribution_kind \<Rightarrow> pressure_config \<Rightarrow> real" where
  "contributionWeight Reaction config = numval (reactionPressureUnits config)"
| "contributionWeight Reply config = numval (replyPressureUnits config)"

text \<open>The accumulation loop: \<open>(pressure, count)\<close> over the contributions in order.\<close>

fun pressure_loop ::
  "pressure_config \<Rightarrow> real \<Rightarrow> real \<Rightarrow> contribution list \<Rightarrow> real \<Rightarrow> nat \<Rightarrow> (real \<times> nat) result" where
  "pressure_loop config nowMs windowStartMs [] pressure cnt = Inr (pressure, cnt)"
| "pressure_loop config nowMs windowStartMs (c # cs) pressure cnt =
     (if contrib_triggerRole c \<noteq> Machine_intelligence
      then pressure_loop config nowMs windowStartMs cs pressure cnt
      else if \<not> isFinite (contrib_timestampMs c) \<or> numval (contrib_timestampMs c) < 0
      then Inl (Error ''roomEpisodePressure contribution.timestampMs must be a finite number >= 0'')
      else
        (let timestampMs = numval (contrib_timestampMs c) in
         if timestampMs < windowStartMs \<or> timestampMs > nowMs
         then pressure_loop config nowMs windowStartMs cs pressure cnt
         else pressure_loop config nowMs windowStartMs cs
                (pressure + contributionWeight (contrib_kind c) config
                   * 2 powr (- (nowMs - timestampMs) / numval (halfLifeMs config)))
                (cnt + 1)))"

definition computeRoomEpisodePressure ::
  "contribution list \<Rightarrow> pressure_config \<Rightarrow> jsnum \<Rightarrow> pressure_computation result" where
  "computeRoomEpisodePressure contributions config0 nowMs0 =
     rbind (assertRoomEpisodePressureConfig config0) (\<lambda>config.
     rbind (assertNonNegativeFinite nowMs0 ''roomEpisodePressure.nowMs'') (\<lambda>now.
     let windowStart = max 0 (numval now - numval (windowMs config)) in
     rbind (pressure_loop config (numval now) windowStart contributions 0 0) (\<lambda>(pressure, cnt).
     Inr \<lparr>comp_pressure = pressure, comp_contributingEventCount = cnt,
          comp_windowStartMs = windowStart\<rparr>)))"

definition resolveRoomEpisodePressureState :: "jsnum \<Rightarrow> pressure_config \<Rightarrow> pressure_state result" where
  "resolveRoomEpisodePressureState pressure0 config0 =
     rbind (assertRoomEpisodePressureConfig config0) (\<lambda>config.
     rbind (assertNonNegativeFinite pressure0 ''roomEpisodePressure.pressure'') (\<lambda>p.
     let pressure = numval p; elevated = numval (elevatedThreshold config);
         wrapUp = numval (wrapUpThreshold config); maxBias = numval (maxLeaseThresholdBias config)
     in if pressure \<ge> wrapUp
        then Inr \<lparr>pstate_level = Wrap_up_invited, pstate_wrapUpInvited = True,
                  pstate_leaseThresholdBias = maxBias\<rparr>
        else if pressure \<ge> elevated
        then Inr \<lparr>pstate_level = Elevated, pstate_wrapUpInvited = False,
                  pstate_leaseThresholdBias = maxBias * ((pressure - elevated) / (wrapUp - elevated))\<rparr>
        else Inr \<lparr>pstate_level = Calm, pstate_wrapUpInvited = False, pstate_leaseThresholdBias = 0\<rparr>))"

definition assessRoomEpisodePressure ::
  "string \<Rightarrow> contribution list \<Rightarrow> pressure_config \<Rightarrow> jsnum \<Rightarrow> pressure_assessment result" where
  "assessRoomEpisodePressure channelId0 contributions config nowMs =
     (let channelId = js_trim channelId0 in
      throwIf (channelId = []) ''roomEpisodePressure.channelId is required'' (
      rbind (computeRoomEpisodePressure contributions config nowMs) (\<lambda>c.
      rbind (resolveRoomEpisodePressureState (Fin (comp_pressure c)) config) (\<lambda>s.
      Inr \<lparr>pstate_level = pstate_level s, pstate_wrapUpInvited = pstate_wrapUpInvited s,
           pstate_leaseThresholdBias = pstate_leaseThresholdBias s,
           assess_channelId = channelId, assess_pressure = comp_pressure c,
           assess_contributingEventCount = comp_contributingEventCount c,
           assess_windowStartMs = comp_windowStartMs c, assess_evaluatedAtMs = numval nowMs\<rparr>))))"

text \<open>The history port: what the ledger lists for a query.\<close>

type_synonym list_fatigue_events = "ledger_query \<Rightarrow> fatigue_event list"

definition readRoomEpisodePressureFromLedger ::
  "list_fatigue_events \<Rightarrow> string \<Rightarrow> string \<Rightarrow> jsnum \<Rightarrow> pressure_config \<Rightarrow> contribution list option \<Rightarrow>
     pressure_assessment result" where
  "readRoomEpisodePressureFromLedger history localCompanionId0 channelId0 nowMs0 config0 extra =
     rbind (assertRoomEpisodePressureConfig config0) (\<lambda>config.
     let localCompanionId = js_trim localCompanionId0; channelId = js_trim channelId0 in
     throwIf (localCompanionId = []) ''roomEpisodePressure.localCompanionId is required'' (
     throwIf (channelId = []) ''roomEpisodePressure.channelId is required'' (
     rbind (assertNonNegativeFinite nowMs0 ''roomEpisodePressure.nowMs'') (\<lambda>now.
     let events = history (any_query\<lparr>lq_localCompanionId := Some localCompanionId, lq_channelId := Some channelId,
                    lq_sinceMs := Some (max 0 (numval now - numval (windowMs config))), lq_untilMs := Some (numval now)\<rparr>);
         ledger = map (\<lambda>e. \<lparr>contrib_timestampMs = Fin (fe_timestampMs e),
                            contrib_triggerRole = actor_role (fe_triggeringAuthor e),
                            contrib_kind = Reply\<rparr>)
                    (filter (\<lambda>e. fe_decision e = Decision_charged \<or> fe_decision e = Decision_overcharge) events)
     in assessRoomEpisodePressure channelId
          (case extra of None \<Rightarrow> ledger | Some observed \<Rightarrow> ledger @ observed) config now))))"

section \<open>Circuit breaker\<close>

record breaker_config =
  tripThreshold :: jsnum
  resetThreshold :: jsnum

datatype breaker_transition = Closed_to_open | Half_open_to_open

record breaker_firing =
  firing_channelId :: string
  firing_transition :: breaker_transition
  firing_pressure :: real
  firing_tripThreshold :: real
  firing_resetThreshold :: real
  firing_wrapUpThreshold :: real
  firing_contributingEventCount :: nat
  firing_firedAtMs :: real

record breaker_assessment =
  brk_channelId :: string
  brk_priorState :: room_breaker_state
  brk_state :: room_breaker_state
  brk_suppressed :: bool
  brk_probeAllowed :: bool
  brk_firing :: "breaker_firing option"
  brk_evaluatedAtMs :: real

definition assertRoomEpisodeCircuitBreakerConfig ::
  "breaker_config \<Rightarrow> jsnum \<Rightarrow> breaker_config result" where
  "assertRoomEpisodeCircuitBreakerConfig config wrapUpThreshold0 =
     rbind (assertPositiveFinite (tripThreshold config) ''roomEpisodeCircuitBreaker.tripThreshold'') (\<lambda>trip.
     rbind (assertPositiveFinite (resetThreshold config) ''roomEpisodeCircuitBreaker.resetThreshold'') (\<lambda>reset.
     rbind (assertPositiveFinite wrapUpThreshold0 ''roomEpisodeCircuitBreaker.wrapUpThreshold'') (\<lambda>wrapUp.
     throwIf (numval trip \<le> numval wrapUp)
       ''roomEpisodeCircuitBreaker.tripThreshold must be > roomEpisodePressure.wrapUpThreshold'' (
     throwIf (numval reset \<ge> numval trip)
       ''roomEpisodeCircuitBreaker.resetThreshold must be < roomEpisodeCircuitBreaker.tripThreshold'' (
     Inr \<lparr>tripThreshold = trip, resetThreshold = reset\<rparr>)))))"

definition breaker_next :: "bool \<Rightarrow> bool \<Rightarrow> room_breaker_state \<Rightarrow> room_breaker_state" where
  "breaker_next tripped recovered prior =
     (case prior of
        Breaker_closed \<Rightarrow> if tripped then Breaker_open else Breaker_closed
      | Breaker_open \<Rightarrow> if recovered then Breaker_half_open else Breaker_open
      | Breaker_half_open \<Rightarrow>
          if tripped then Breaker_open else if recovered then Breaker_closed else Breaker_half_open)"

definition resolveRoomEpisodeCircuitBreakerState ::
  "jsnum \<Rightarrow> room_breaker_state \<Rightarrow> breaker_config \<Rightarrow> jsnum \<Rightarrow> room_breaker_state result" where
  "resolveRoomEpisodeCircuitBreakerState pressure priorState config0 wrapUpThreshold0 =
     rbind (assertRoomEpisodeCircuitBreakerConfig config0 wrapUpThreshold0) (\<lambda>config.
     throwIf (\<not> isFinite pressure \<or> numval pressure < 0)
       ''roomEpisodeCircuitBreaker pressure must be a finite number >= 0'' (
     Inr (breaker_next (numval pressure \<ge> numval (tripThreshold config))
            (numval pressure \<le> numval (resetThreshold config)) priorState)))"

definition assessRoomEpisodeCircuitBreaker ::
  "pressure_assessment \<Rightarrow> room_breaker_state \<Rightarrow> breaker_config \<Rightarrow> jsnum \<Rightarrow> jsnum \<Rightarrow>
     breaker_assessment result" where
  "assessRoomEpisodeCircuitBreaker pressure priorState config0 wrapUpThreshold0 nowMs =
     rbind (assertRoomEpisodeCircuitBreakerConfig config0 wrapUpThreshold0) (\<lambda>config.
     let channelId = js_trim (assess_channelId pressure) in
     throwIf (channelId = []) ''roomEpisodeCircuitBreaker.channelId is required'' (
     throwIf (\<not> isFinite nowMs \<or> numval nowMs < 0)
       ''roomEpisodeCircuitBreaker.nowMs must be a finite number >= 0'' (
     rbind (resolveRoomEpisodeCircuitBreakerState (Fin (assess_pressure pressure)) priorState config
              wrapUpThreshold0) (\<lambda>state.
     let trippedNow = (state = Breaker_open \<and> priorState \<noteq> Breaker_open) in
     Inr \<lparr>brk_channelId = channelId, brk_priorState = priorState, brk_state = state,
          brk_suppressed = (state = Breaker_open), brk_probeAllowed = (state = Breaker_half_open),
          brk_firing =
            (if trippedNow
             then Some \<lparr>firing_channelId = channelId,
                        firing_transition = (if priorState = Breaker_half_open then Half_open_to_open
                                             else Closed_to_open),
                        firing_pressure = assess_pressure pressure,
                        firing_tripThreshold = numval (tripThreshold config),
                        firing_resetThreshold = numval (resetThreshold config),
                        firing_wrapUpThreshold = numval wrapUpThreshold0,
                        firing_contributingEventCount = assess_contributingEventCount pressure,
                        firing_firedAtMs = numval nowMs\<rparr>
             else None),
          brk_evaluatedAtMs = numval nowMs\<rparr>))))"

section \<open>Closed form of the pressure\<close>

definition pressure_config_ok :: "pressure_config \<Rightarrow> bool" where
  "pressure_config_ok c \<longleftrightarrow>
     isFinite (halfLifeMs c) \<and> 0 < numval (halfLifeMs c) \<and> isFinite (windowMs c)
     \<and> numval (halfLifeMs c) \<le> numval (windowMs c)
     \<and> isFinite (replyPressureUnits c) \<and> 0 < numval (replyPressureUnits c)
     \<and> isFinite (reactionPressureUnits c) \<and> 0 \<le> numval (reactionPressureUnits c)
     \<and> numval (reactionPressureUnits c) \<le> numval (replyPressureUnits c)
     \<and> isFinite (elevatedThreshold c) \<and> 0 < numval (elevatedThreshold c)
     \<and> isFinite (wrapUpThreshold c) \<and> numval (elevatedThreshold c) < numval (wrapUpThreshold c)
     \<and> isFinite (maxLeaseThresholdBias c) \<and> 0 < numval (maxLeaseThresholdBias c)"

lemma assertRoomEpisodePressureConfig_Inr [guard_simps]:
  "assertRoomEpisodePressureConfig c = Inr c' \<longleftrightarrow> pressure_config_ok c \<and> c' = c"
  by (auto simp: assertRoomEpisodePressureConfig_def pressure_config_ok_def rbind_eq_Inr guard_simps)

definition counted :: "real \<Rightarrow> real \<Rightarrow> contribution \<Rightarrow> bool" where
  "counted nowMs windowStart c \<longleftrightarrow>
     contrib_triggerRole c = Machine_intelligence
     \<and> windowStart \<le> numval (contrib_timestampMs c) \<and> numval (contrib_timestampMs c) \<le> nowMs"

definition share :: "pressure_config \<Rightarrow> real \<Rightarrow> contribution \<Rightarrow> real" where
  "share config nowMs c =
     contributionWeight (contrib_kind c) config
       * 2 powr (- (nowMs - numval (contrib_timestampMs c)) / numval (halfLifeMs config))"

definition contributions_ok :: "contribution list \<Rightarrow> bool" where
  "contributions_ok cs \<longleftrightarrow>
     (\<forall>c \<in> set cs. contrib_triggerRole c = Machine_intelligence \<longrightarrow>
        isFinite (contrib_timestampMs c) \<and> 0 \<le> numval (contrib_timestampMs c))"

lemma contributions_ok_Cons [simp]:
  "contributions_ok (c # cs) \<longleftrightarrow>
     (contrib_triggerRole c = Machine_intelligence \<longrightarrow>
        isFinite (contrib_timestampMs c) \<and> 0 \<le> numval (contrib_timestampMs c)) \<and> contributions_ok cs"
  by (auto simp: contributions_ok_def)

lemma pressure_loop_closed:
  "contributions_ok cs \<Longrightarrow>
     pressure_loop config n w cs p k =
       Inr (p + sum_list (map (share config n) (filter (counted n w) cs)),
            k + length (filter (counted n w) cs))"
  by (induction cs arbitrary: p k) (auto simp: counted_def share_def Let_def)

lemma pressure_loop_valid: "pressure_loop config n w cs p k = Inr x \<Longrightarrow> contributions_ok cs"
proof (induction cs arbitrary: p k)
  case Nil
  then show ?case by (simp add: contributions_ok_def)
next
  case (Cons c cs)
  then show ?case by (auto simp: Let_def split: if_splits)
qed

lemma computeRoomEpisodePressure_Inr:
  "computeRoomEpisodePressure cs config nowMs = Inr r \<longleftrightarrow>
     pressure_config_ok config \<and> isFinite nowMs \<and> 0 \<le> numval nowMs \<and> contributions_ok cs \<and>
     (let w = max 0 (numval nowMs - numval (windowMs config)); cnt = filter (counted (numval nowMs) w) cs
      in r = \<lparr>comp_pressure = sum_list (map (share config (numval nowMs)) cnt),
              comp_contributingEventCount = length cnt, comp_windowStartMs = w\<rparr>)"
  (is "?l \<longleftrightarrow> ?r")
proof
  assume ?l
  then obtain x where "contributions_ok cs" and g: "pressure_config_ok config" "isFinite nowMs" "0 \<le> numval nowMs"
    by (auto simp: computeRoomEpisodePressure_def rbind_eq_Inr guard_simps Let_def dest: pressure_loop_valid)
  then show ?r
    using \<open>?l\<close> by (auto simp: computeRoomEpisodePressure_def rbind_eq_Inr guard_simps Let_def pressure_loop_closed)
next
  assume ?r
  then show ?l
    by (auto simp: computeRoomEpisodePressure_def rbind_eq_Inr guard_simps Let_def pressure_loop_closed)
qed

lemma share_bounds:
  assumes "pressure_config_ok config" "numval (contrib_timestampMs c) \<le> n"
  shows "0 \<le> share config n c" "share config n c \<le> numval (replyPressureUnits config)"
proof -
  have w: "0 \<le> contributionWeight (contrib_kind c) config"
    "contributionWeight (contrib_kind c) config \<le> numval (replyPressureUnits config)"
    using assms(1) by (cases "contrib_kind c"; simp add: pressure_config_ok_def)+
  then show "0 \<le> share config n c" by (simp add: share_def)
  have h: "0 < numval (halfLifeMs config)" using assms(1) by (simp add: pressure_config_ok_def)
  have "2 powr (- (n - numval (contrib_timestampMs c)) / numval (halfLifeMs config)) \<le> 2 powr (0 :: real)"
    using assms(2) h by (intro powr_mono) (auto simp: divide_nonpos_pos)
  then show "share config n c \<le> numval (replyPressureUnits config)"
    using w mult_mono [OF w(2), of "2 powr (- (n - numval (contrib_timestampMs c)) / numval (halfLifeMs config))" 1]
    unfolding share_def by (simp add: order_trans)
qed

lemma share_decay:
  assumes "pressure_config_ok config"
  shows "share config (n + t) c = share config n c * 2 powr (- t / numval (halfLifeMs config))"
proof -
  let ?h = "numval (halfLifeMs config)" and ?ts = "numval (contrib_timestampMs c)"
  have "- (n + t - ?ts) / ?h = - (n - ?ts) / ?h + - t / ?h" by (simp add: diff_divide_distrib add_divide_distrib)
  then have "2 powr (- (n + t - ?ts) / ?h) = 2 powr (- (n - ?ts) / ?h) * 2 powr (- t / ?h)"
    by (simp only: powr_add)
  then show ?thesis by (simp add: share_def)
qed

section \<open>Breaker runs\<close>

text \<open>The breaker over successive pressure readings.\<close>

definition breaker_config_ok :: "breaker_config \<Rightarrow> jsnum \<Rightarrow> bool" where
  "breaker_config_ok c wrapUp \<longleftrightarrow>
     isFinite (tripThreshold c) \<and> isFinite (resetThreshold c) \<and> 0 < numval (resetThreshold c)
     \<and> isFinite wrapUp \<and> 0 < numval wrapUp \<and> numval wrapUp < numval (tripThreshold c)
     \<and> numval (resetThreshold c) < numval (tripThreshold c)"

lemma assertRoomEpisodeCircuitBreakerConfig_Inr [guard_simps]:
  "assertRoomEpisodeCircuitBreakerConfig c w = Inr c' \<longleftrightarrow> breaker_config_ok c w \<and> c' = c"
  by (auto simp: assertRoomEpisodeCircuitBreakerConfig_def breaker_config_ok_def rbind_eq_Inr guard_simps)

lemma resolveBreaker_Inr [guard_simps]:
  "resolveRoomEpisodeCircuitBreakerState p prior c w = Inr s \<longleftrightarrow>
     breaker_config_ok c w \<and> isFinite p \<and> 0 \<le> numval p \<and>
     s = breaker_next (numval p \<ge> numval (tripThreshold c)) (numval p \<le> numval (resetThreshold c)) prior"
  by (auto simp: resolveRoomEpisodeCircuitBreakerState_def rbind_eq_Inr guard_simps)

fun breaker_run ::
  "breaker_config \<Rightarrow> jsnum \<Rightarrow> room_breaker_state \<Rightarrow> jsnum list \<Rightarrow> room_breaker_state result" where
  "breaker_run c w s [] = Inr s"
| "breaker_run c w s (p # ps) =
     rbind (resolveRoomEpisodeCircuitBreakerState p s c w) (\<lambda>s'. breaker_run c w s' ps)"

section \<open>Properties\<close>

definition demo_pressure_config :: pressure_config where
  "demo_pressure_config = \<lparr>halfLifeMs = Fin 100, windowMs = Fin 1000, replyPressureUnits = Fin 4,
     reactionPressureUnits = Fin 1, elevatedThreshold = Fin 5, wrapUpThreshold = Fin 10,
     maxLeaseThresholdBias = Fin 1\<rparr>"

definition demo_contributions :: "contribution list" where
  "demo_contributions =
     [\<lparr>contrib_timestampMs = Fin 50, contrib_triggerRole = Machine_intelligence, contrib_kind = Reply\<rparr>,
      \<lparr>contrib_timestampMs = Fin 50, contrib_triggerRole = Human, contrib_kind = Reply\<rparr>]"

definition demo_breaker_config :: breaker_config where
  "demo_breaker_config = \<lparr>tripThreshold = Fin 15, resetThreshold = Fin 6\<rparr>"

lemma demo_pressure_ok: "pressure_config_ok demo_pressure_config"
  by (simp add: pressure_config_ok_def demo_pressure_config_def)

text \<open>
  A ledger event that counts: a charged or overcharged turn of this companion in this room, inside the window, that a
  machine triggered.
\<close>

definition machine_turn :: "string \<Rightarrow> string \<Rightarrow> real \<Rightarrow> real \<Rightarrow> fatigue_event \<Rightarrow> bool" where
  "machine_turn companion room start now e \<longleftrightarrow>
     fe_localCompanionId e = companion \<and> fe_channelId e = room
     \<and> start \<le> fe_timestampMs e \<and> fe_timestampMs e \<le> now
     \<and> fe_decision e \<in> {Decision_charged, Decision_overcharge}
     \<and> actor_role (fe_triggeringAuthor e) = Machine_intelligence"

definition turn_contribution :: "fatigue_event \<Rightarrow> contribution" where
  "turn_contribution e = \<lparr>contrib_timestampMs = Fin (fe_timestampMs e),
     contrib_triggerRole = actor_role (fe_triggeringAuthor e), contrib_kind = Reply\<rparr>"

abbreviation newest_first :: "ledger_entry list \<Rightarrow> ledger_entry list" where
  "newest_first \<equiv> sort_key (\<lambda>e. - fe_timestampMs (le_event e))"

definition room_contributions :: "string \<Rightarrow> string \<Rightarrow> real \<Rightarrow> real \<Rightarrow> fatigue_ledger \<Rightarrow> contribution list" where
  "room_contributions companion room start now L = map turn_contribution
     (filter (\<lambda>e. fe_decision e = Decision_charged \<or> fe_decision e = Decision_overcharge)
       (listFatigueEvents (any_query\<lparr>lq_localCompanionId := Some companion, lq_channelId := Some room,
          lq_sinceMs := Some start, lq_untilMs := Some now\<rparr>) L))"

text \<open>What counts of the listed events are the machine turns of the ledger, newest first.\<close>

lemma room_contributions_counted:
  assumes "companion \<noteq> []" "room \<noteq> []"
  shows "filter (counted now start) (room_contributions companion room start now L)
     = map turn_contribution (map le_event (newest_first (filter (machine_turn companion room start now \<circ> le_event) (ld_entries L))))"
  using assms
  by (auto simp: room_contributions_def listFatigueEvents_def any_query_def normalizeEventLimit_def Let_def filter_map comp_def
      filter_sort [symmetric] counted_def turn_contribution_def machine_turn_def matchesQuery_def selects_def
      intro!: arg_cong [where f = "map _"] arg_cong [where f = "sort_key _"] filter_cong)

lemma room_contributions_ok: "0 \<le> start \<Longrightarrow> contributions_ok (room_contributions companion room start now L)"
  by (auto simp: room_contributions_def contributions_ok_def turn_contribution_def set_listFatigueEvents any_query_def
      normalizeEventLimit_def matchesQuery_def Let_def)

lemma reading_Inr:
  assumes "companion = js_trim who" "room = js_trim place" "start = max 0 (numval nowMs - numval (windowMs config))"
  shows "readRoomEpisodePressureFromLedger (\<lambda>q. listFatigueEvents q L) who place nowMs config extra = Inr a \<longleftrightarrow>
     pressure_config_ok config \<and> companion \<noteq> [] \<and> room \<noteq> [] \<and> isFinite nowMs \<and> 0 \<le> numval nowMs
     \<and> assessRoomEpisodePressure room
         (room_contributions companion room start (numval nowMs) L @ (case extra of None \<Rightarrow> [] | Some cs \<Rightarrow> cs)) config nowMs = Inr a"
  unfolding assms
  by (auto simp: readRoomEpisodePressureFromLedger_def rbind_eq_Inr guard_simps Let_def room_contributions_def
      turn_contribution_def [abs_def] split: option.split)

lemma assess_Inr:
  "assessRoomEpisodePressure room cs config nowMs = Inr a \<longleftrightarrow>
     js_trim room \<noteq> [] \<and> (\<exists>c s. computeRoomEpisodePressure cs config nowMs = Inr c
        \<and> resolveRoomEpisodePressureState (Fin (comp_pressure c)) config = Inr s
        \<and> a = \<lparr>pstate_level = pstate_level s, pstate_wrapUpInvited = pstate_wrapUpInvited s,
           pstate_leaseThresholdBias = pstate_leaseThresholdBias s, assess_channelId = js_trim room,
           assess_pressure = comp_pressure c, assess_contributingEventCount = comp_contributingEventCount c,
           assess_windowStartMs = comp_windowStartMs c, assess_evaluatedAtMs = numval nowMs\<rparr>)"
  by (auto simp: assessRoomEpisodePressure_def rbind_eq_Inr guard_simps Let_def)

lemma compute_congruent:
  assumes "computeRoomEpisodePressure cs config nowMs = Inr r" "contributions_ok ds"
    and "\<And>start. start = max 0 (numval nowMs - numval (windowMs config)) \<Longrightarrow>
      filter (counted (numval nowMs) start) ds = filter (counted (numval nowMs) start) cs"
  shows "computeRoomEpisodePressure ds config nowMs = Inr r"
  using assms by (auto simp: computeRoomEpisodePressure_Inr Let_def)

text \<open>
  C19. Only charged machine turns of the room inside the window raise the pressure read from the ledger. A reading counts
  exactly the ledger's charged and overcharged events of this companion and this channel between the start of the window
  and now whose trigger was a machine, and those of the additional contributions that a machine triggered in the window;
  nothing else has any effect: on another ledger with the same such events, and with other valid additional contributions
  of which the same count, the reading is the same.
\<close>

theorem pressure_machine_only:
  assumes "readRoomEpisodePressureFromLedger (\<lambda>q. listFatigueEvents q L) companion room nowMs config extra = Inr a"
  shows "let turn = machine_turn (js_trim companion) (js_trim room) (assess_windowStartMs a) (numval nowMs) \<circ> le_event;
             observed = (\<lambda>extra. filter (\<lambda>c. contrib_triggerRole c = Machine_intelligence
               \<and> assess_windowStartMs a \<le> numval (contrib_timestampMs c) \<and> numval (contrib_timestampMs c) \<le> numval nowMs)
               (case extra of None \<Rightarrow> [] | Some cs \<Rightarrow> cs)) in
      assess_windowStartMs a = max 0 (numval nowMs - numval (windowMs config))
    \<and> assess_contributingEventCount a = length (filter turn (ld_entries L)) + length (observed extra)
    \<and> 0 \<le> assess_pressure a
    \<and> (\<forall>L' extra'. filter turn (ld_entries L') = filter turn (ld_entries L) \<and> observed extra' = observed extra
         \<and> contributions_ok (case extra' of None \<Rightarrow> [] | Some cs \<Rightarrow> cs) \<longrightarrow>
         readRoomEpisodePressureFromLedger (\<lambda>q. listFatigueEvents q L') companion room nowMs config extra' = Inr a)"
proof -
  define start where "start = max 0 (numval nowMs - numval (windowMs config))"
  define rest where "rest extra = (case extra of None \<Rightarrow> [] | Some cs \<Rightarrow> cs)" for extra :: "contribution list option"
  define turns_of where "turns_of L = room_contributions (js_trim companion) (js_trim room) start (numval nowMs) L" for L
  note reading = reading_Inr [where who = companion and place = room, OF refl refl start_def, folded rest_def turns_of_def]
  have "0 \<le> start" by (simp add: start_def)
  have ok: "js_trim companion \<noteq> []" "js_trim room \<noteq> []" and a: "assessRoomEpisodePressure (js_trim room)
      (turns_of L @ rest extra) config nowMs = Inr a"
    using assms by (auto simp: reading)
  let ?c = "counted (numval nowMs) start" and ?turn = "machine_turn (js_trim companion) (js_trim room) start (numval nowMs) \<circ> le_event"
  have turns: "filter ?c (turns_of L) = map turn_contribution (map le_event (newest_first (filter ?turn (ld_entries L))))" for L
    unfolding turns_of_def by (rule room_contributions_counted [OF ok(1,2)])
  obtain c s where c: "computeRoomEpisodePressure (turns_of L @ rest extra) config nowMs = Inr c"
    and s: "resolveRoomEpisodePressureState (Fin (comp_pressure c)) config = Inr s"
      "assess_windowStartMs a = comp_windowStartMs c" "assess_pressure a = comp_pressure c"
      "assess_contributingEventCount a = comp_contributingEventCount c"
    using a by (auto simp: assess_Inr)
  have facts: "assess_windowStartMs a = start" "0 \<le> assess_pressure a"
    "assess_contributingEventCount a = length (filter ?turn (ld_entries L)) + length (filter ?c (rest extra))"
    using c s turns [of L]
    by (simp_all add: computeRoomEpisodePressure_Inr Let_def start_def resolveRoomEpisodePressureState_def rbind_eq_Inr guard_simps)
  have same: "readRoomEpisodePressureFromLedger (\<lambda>q. listFatigueEvents q L') companion room nowMs config extra' = Inr a"
    if "filter ?turn (ld_entries L') = filter ?turn (ld_entries L)" "filter ?c (rest extra') = filter ?c (rest extra)"
      "contributions_ok (rest extra')" for L' extra'
  proof -
    have "contributions_ok (turns_of L')" unfolding turns_of_def by (rule room_contributions_ok [OF \<open>0 \<le> start\<close>])
    then have "contributions_ok (turns_of L' @ rest extra')" using that(3) by (auto simp: contributions_ok_def)
    then have "computeRoomEpisodePressure (turns_of L' @ rest extra') config nowMs = Inr c"
      by (rule compute_congruent [OF c]) (simp add: start_def [symmetric] turns that)
    then have "assessRoomEpisodePressure (js_trim room) (turns_of L' @ rest extra') config nowMs = Inr a"
      using a c by (auto simp: assess_Inr)
    then show ?thesis using assms by (simp add: reading)
  qed
  show ?thesis using facts same unfolding Let_def facts(1) rest_def start_def counted_def by blast
qed

lemma demo_pressure:
  "computeRoomEpisodePressure demo_contributions demo_pressure_config (Fin 50)
   = Inr \<lparr>comp_pressure = 4, comp_contributingEventCount = 1, comp_windowStartMs = 0\<rparr>"
  using demo_pressure_ok
  by (simp add: computeRoomEpisodePressure_Inr Let_def demo_contributions_def contributions_ok_def counted_def
      share_def demo_pressure_config_def)

definition demo_turn :: "trigger_author_kind \<Rightarrow> string \<Rightarrow> budget_decision \<Rightarrow> ledger_entry" where
  "demo_turn role room decision = \<lparr>le_eventId = ''e'', le_recordedAtMs = 50,
     le_event = \<lparr>fe_timestampMs = 50, fe_dayKey = ''d'', fe_localCompanionId = ''ada'', fe_peerContactId = ''bo'', fe_channelId = room,
       fe_triggeringAuthor = \<lparr>actor_role = role, actor_contactId = None, actor_channelAuthorId = None,
         actor_displayName = None, actor_isMachineIntelligence = (role = Machine_intelligence)\<rparr>,
       fe_peer = \<lparr>peer_contactId = ''bo'', peer_displayName = None, peer_channelAuthorId = None, peer_isMachineIntelligence = True\<rparr>,
       fe_amount = 1, fe_decision = decision, fe_reason = Reason_machine_intelligence_response, fe_spentAfter = 1,
       fe_remainingAllowance = 1, fe_allowance = 2, fe_softLimit = 1, fe_normalSpentAfter = 1, fe_overchargeSpentAfter = 0,
       fe_overchargeAllowance = 0, fe_remainingOvercharge = 0, fe_softState = Soft_clear, fe_hardState = Hard_available,
       fe_correlation = \<lparr>corr_turnId = None, corr_channelId = None, corr_rootInitiationId = None\<rparr>\<rparr>\<rparr>"

definition demo_turns :: fatigue_ledger where
  "demo_turns = (let turns = [demo_turn Machine_intelligence ''room'' Decision_charged, demo_turn Human ''room'' Decision_charged,
     demo_turn Machine_intelligence ''hall'' Decision_charged, demo_turn Machine_intelligence ''room'' Decision_free] in
     \<lparr>ld_file = turns, ld_entries = turns\<rparr>)"

lemma demo_reading:
  "readRoomEpisodePressureFromLedger (\<lambda>q. listFatigueEvents q demo_turns) ''ada'' ''room'' (Fin 50) demo_pressure_config None
   = Inr \<lparr>pstate_level = Calm, pstate_wrapUpInvited = False, pstate_leaseThresholdBias = 0, assess_channelId = ''room'',
       assess_pressure = 4, assess_contributingEventCount = 1, assess_windowStartMs = 0, assess_evaluatedAtMs = 50\<rparr>"
proof -
  have tr: "js_trim ''room'' = ''room''" "js_trim ''ada'' = ''ada''" by code_simp+
  have cs: "room_contributions ''ada'' ''room'' 0 50 demo_turns = demo_contributions"
    by (simp add: room_contributions_def demo_turns_def listFatigueEvents_def any_query_def normalizeEventLimit_def Let_def
        matchesQuery_def selects_def demo_turn_def turn_contribution_def demo_contributions_def)
  show ?thesis unfolding reading_Inr [OF refl refl refl] tr
    using demo_pressure_ok demo_pressure
    by (simp add: assess_Inr tr cs demo_pressure_config_def resolveRoomEpisodePressureState_def rbind_eq_Inr guard_simps Let_def)
qed

theorem pressure_machine_only_witness:
  "readRoomEpisodePressureFromLedger (\<lambda>q. listFatigueEvents q (demo_turns\<lparr>ld_entries := [hd (ld_entries demo_turns)]\<rparr>))
     ''ada'' ''room'' (Fin 50) demo_pressure_config None
   = readRoomEpisodePressureFromLedger (\<lambda>q. listFatigueEvents q demo_turns) ''ada'' ''room'' (Fin 50) demo_pressure_config None"
proof -
  have tr: "js_trim ''room'' = ''room''" "js_trim ''ada'' = ''ada''" by code_simp+
  show ?thesis using pressure_machine_only [OF demo_reading] unfolding Let_def demo_reading tr
    by (simp add: demo_turns_def demo_turn_def machine_turn_def contributions_ok_def Let_def)
qed

text \<open>
  In exact arithmetic pressure decays by half-life: when nothing new happens and the contributions are still in
  the window, the pressure after a quiet time \<open>t\<close> is the earlier pressure times \<open>2 powr (- t / h)\<close>.
\<close>

theorem pressure_decays:
  assumes "computeRoomEpisodePressure cs config (Fin n) = Inr r" "0 \<le> t"
    and "\<forall>c \<in> set cs. n + t - numval (windowMs config) \<le> numval (contrib_timestampMs c)
           \<and> numval (contrib_timestampMs c) \<le> n"
  shows "\<exists>r'. computeRoomEpisodePressure cs config (Fin (n + t)) = Inr r'
    \<and> comp_pressure r' = comp_pressure r * 2 powr (- t / numval (halfLifeMs config))
    \<and> comp_contributingEventCount r' = comp_contributingEventCount r"
proof -
  let ?W = "numval (windowMs config)"
  have ok: "pressure_config_ok config" "0 \<le> n" "contributions_ok cs"
    using assms(1) by (auto simp: computeRoomEpisodePressure_Inr)
  have f: "filter (counted (n + t) (max 0 (n + t - ?W))) cs = filter (counted n (max 0 (n - ?W))) cs"
    using assms(2,3) ok(3) by (intro filter_cong) (auto simp: counted_def contributions_ok_def)
  have "sum_list (map (share config (n + t)) xs) = sum_list (map (share config n) xs) * 2 powr (- t / numval (halfLifeMs config))"
    for xs by (induction xs) (simp_all add: share_decay [OF ok(1)] algebra_simps)
  then show ?thesis
    using assms(1,2) ok f by (auto simp: computeRoomEpisodePressure_Inr Let_def)
qed

theorem pressure_decays_witness:
  "\<exists>r'. computeRoomEpisodePressure demo_contributions demo_pressure_config (Fin (50 + 100)) = Inr r'
     \<and> comp_pressure r' = 4 * 2 powr (- 1)"
  using pressure_decays [OF demo_pressure, of 100]
  by (auto simp: demo_contributions_def demo_pressure_config_def)

text \<open>
  Soft before hard: whenever the circuit breaker fires, the pressure ladder at the same
  pressure already invites wrap-up at the full lease bias, and the firing record names the
  channel and a pressure at or above the trip threshold. A lease is suppressed exactly while
  the breaker is open.
\<close>

theorem breaker_fires_after_wrapup:
  assumes "pressure_config_ok config"
    and "assessRoomEpisodeCircuitBreaker pa prior bc (wrapUpThreshold config) nowMs = Inr b"
    and "brk_firing b = Some f"
  shows "resolveRoomEpisodePressureState (Fin (assess_pressure pa)) config
       = Inr \<lparr>pstate_level = Wrap_up_invited, pstate_wrapUpInvited = True,
              pstate_leaseThresholdBias = numval (maxLeaseThresholdBias config)\<rparr>
    \<and> firing_channelId f = js_trim (assess_channelId pa)
    \<and> firing_tripThreshold f \<le> firing_pressure f \<and> firing_pressure f = assess_pressure pa
    \<and> (brk_suppressed b \<longleftrightarrow> brk_state b = Breaker_open) \<and> brk_suppressed b \<and> prior \<noteq> Breaker_open"
proof -
  have c: "breaker_config_ok bc (wrapUpThreshold config)"
    and st: "brk_state b = breaker_next (assess_pressure pa \<ge> numval (tripThreshold bc))
       (assess_pressure pa \<le> numval (resetThreshold bc)) prior"
    and o: "brk_state b = Breaker_open" "prior \<noteq> Breaker_open" "brk_suppressed b"
    and f: "firing_channelId f = js_trim (assess_channelId pa)" "firing_pressure f = assess_pressure pa"
      "firing_tripThreshold f = numval (tripThreshold bc)"
    using assms(2,3)
    by (auto simp: assessRoomEpisodeCircuitBreaker_def rbind_eq_Inr guard_simps Let_def split: if_splits)
  have trip: "numval (tripThreshold bc) \<le> assess_pressure pa"
    using st o by (auto simp: breaker_next_def split: room_breaker_state.splits if_splits)
  have w: "numval (wrapUpThreshold config) \<le> assess_pressure pa" "0 \<le> assess_pressure pa"
    using trip c by (auto simp: breaker_config_ok_def)
  have "resolveRoomEpisodePressureState (Fin (assess_pressure pa)) config
       = Inr \<lparr>pstate_level = Wrap_up_invited, pstate_wrapUpInvited = True,
              pstate_leaseThresholdBias = numval (maxLeaseThresholdBias config)\<rparr>"
    using assms(1) w
    by (simp add: resolveRoomEpisodePressureState_def rbind_eq_Inr guard_simps Let_def)
  then show ?thesis using o f trip by simp
qed

definition demo_flood :: pressure_assessment where
  "demo_flood = \<lparr>pstate_level = Wrap_up_invited, pstate_wrapUpInvited = True, pstate_leaseThresholdBias = 1,
     assess_channelId = ''room'', assess_pressure = 20, assess_contributingEventCount = 5,
     assess_windowStartMs = 0, assess_evaluatedAtMs = 50\<rparr>"

theorem breaker_fires_after_wrapup_witness:
  "\<exists>b f. assessRoomEpisodeCircuitBreaker demo_flood Breaker_closed demo_breaker_config (Fin 10) (Fin 50) = Inr b
     \<and> brk_firing b = Some f \<and> firing_tripThreshold f \<le> firing_pressure f"
proof -
  have tr: "js_trim ''room'' = ''room''" by code_simp
  have "breaker_config_ok demo_breaker_config (Fin 10)"
    by (simp add: breaker_config_ok_def demo_breaker_config_def)
  then obtain b where b: "assessRoomEpisodeCircuitBreaker demo_flood Breaker_closed demo_breaker_config
      (wrapUpThreshold demo_pressure_config) (Fin 50) = Inr b" "brk_firing b \<noteq> None"
    by (auto simp: assessRoomEpisodeCircuitBreaker_def rbind_eq_Inr guard_simps Let_def demo_flood_def tr
        demo_pressure_config_def breaker_next_def demo_breaker_config_def)
  then obtain f where "brk_firing b = Some f" by auto
  then show ?thesis
    using breaker_fires_after_wrapup [OF demo_pressure_ok b(1)] b(1) by (auto simp: demo_pressure_config_def)
qed

text \<open>
  Hysteresis: readings strictly between the reset and the trip threshold never change the
  breaker, and a breaker that was open and is not open after some readings saw a reading at or
  below the reset threshold.
\<close>

theorem breaker_hysteresis:
  assumes "breaker_run c w s ps = Inr s'"
  shows "((\<forall>p \<in> set ps. numval (resetThreshold c) < numval p \<and> numval p < numval (tripThreshold c)) \<longrightarrow> s' = s)
    \<and> (s = Breaker_open \<longrightarrow> s' \<noteq> Breaker_open \<longrightarrow> (\<exists>p \<in> set ps. numval p \<le> numval (resetThreshold c)))
    \<and> (s \<noteq> Breaker_open \<longrightarrow> s' = Breaker_open \<longrightarrow> (\<exists>p \<in> set ps. numval (tripThreshold c) \<le> numval p))"
  using assms
proof (induction ps arbitrary: s)
  case (Cons p ps)
  from Cons.prems obtain s1 where s1: "resolveRoomEpisodeCircuitBreakerState p s c w = Inr s1"
    "breaker_run c w s1 ps = Inr s'" by (auto simp: rbind_eq_Inr)
  have n: "s1 = breaker_next (numval p \<ge> numval (tripThreshold c)) (numval p \<le> numval (resetThreshold c)) s"
    using s1(1) by (simp add: guard_simps)
  show ?case
    using Cons.IH [OF s1(2)] n
    by (cases s) (auto simp: breaker_next_def split: if_splits)
qed simp

theorem breaker_hysteresis_witness:
  "breaker_run demo_breaker_config (Fin 10) Breaker_open [Fin 8, Fin 14, Fin 7] = Inr Breaker_open"
proof -
  obtain s' where s': "breaker_run demo_breaker_config (Fin 10) Breaker_open [Fin 8, Fin 14, Fin 7] = Inr s'"
    by (auto simp: rbind_eq_Inr guard_simps breaker_config_ok_def demo_breaker_config_def)
  then show ?thesis using breaker_hysteresis [OF s'] by (simp add: demo_breaker_config_def)
qed

end
