(* ===== verification/Social_Precedence.thy ===== *)
theory Social_Precedence
  imports Prelude "HOL-Library.Word"
begin

unbundle bit_operations_syntax

text \<open>
  ICP-over-social precedence and the unlinked-peer speak-least fallback: the decision functions
  of \<^verbatim>\<open>src/src/core/icp/social-precedence.ts\<close>. The FNV-1a hash is kept at its 32-bit
  width; a character stands for one UTF-16 code unit.
\<close>

section \<open>Precedence\<close>

datatype precedence_block = Icp_turn_fenced | Icp_fatigue_exhausted | Icp_availability

record precedence_input =
  prec_availabilityState :: "availability_state option"
  prec_icpTurnFenced :: bool
  prec_icpFatigueExhausted :: bool

datatype precedence_decision =
  Admitted
| Blocked precedence_block "availability_state option"

definition OPEN_AVAILABILITY_STATES :: "availability_state list" where
  "OPEN_AVAILABILITY_STATES = [Available, Open_to_chat]"

definition resolveIcpSocialPrecedence :: "precedence_input \<Rightarrow> precedence_decision" where
  "resolveIcpSocialPrecedence input =
     (if prec_icpTurnFenced input then Blocked Icp_turn_fenced None
      else if prec_icpFatigueExhausted input then Blocked Icp_fatigue_exhausted None
      else (case prec_availabilityState input of
              None \<Rightarrow> Admitted
            | Some a \<Rightarrow> if a \<notin> set OPEN_AVAILABILITY_STATES then Blocked Icp_availability (Some a)
                        else Admitted))"

section \<open>Speak-least fallback\<close>

definition FNV_OFFSET_BASIS_32 :: "32 word" where
  "FNV_OFFSET_BASIS_32 = 0x811c9dc5"

definition FNV_PRIME_32 :: "32 word" where
  "FNV_PRIME_32 = 0x01000193"

fun fnv_loop :: "32 word \<Rightarrow> string \<Rightarrow> 32 word" where
  "fnv_loop hash [] = hash"
| "fnv_loop hash (c # cs) = fnv_loop ((hash XOR word_of_nat (of_char c)) * FNV_PRIME_32) cs"

definition fnv1a32 :: "string \<Rightarrow> nat" where
  "fnv1a32 input = unat (fnv_loop FNV_OFFSET_BASIS_32 input)"

record speak_least_config =
  baseDelayMs :: jsnum
  perRecentSendDelayMs :: jsnum
  jitterWindowMs :: jsnum
  deferAtRecentSends :: jsnum

datatype speak_least_decision =
  Defer
| Speak_after (speak_delayMs: real) (speak_jitterMs: real)

text \<open>The remainder of two non-negative doubles.\<close>

definition js_mod :: "real \<Rightarrow> real \<Rightarrow> real" where
  "js_mod x w = x - w * of_int \<lfloor>x / w\<rfloor>"

definition assertNonEmptyId :: "string \<Rightarrow> string \<Rightarrow> string result" where
  "assertNonEmptyId value field =
     (if value = [] \<or> js_trim value \<noteq> value
      then Inl (Error (field @ '' must be a non-empty trimmed string'')) else Inr value)"

definition assertNonNegativeInteger :: "jsnum \<Rightarrow> string \<Rightarrow> int result" where
  "assertNonNegativeInteger value field =
     (if \<not> isSafeInteger value \<or> numval value < 0
      then Inl (Error (field @ '' must be a non-negative safe integer'')) else Inr (intval value))"

definition validateSpeakLeastConfig :: "speak_least_config \<Rightarrow> (real \<times> real \<times> real \<times> int) result" where
  "validateSpeakLeastConfig config =
     rbind (assertNonNegativeFinite (baseDelayMs config) ''baseDelayMs'') (\<lambda>base.
     rbind (assertNonNegativeFinite (perRecentSendDelayMs config) ''perRecentSendDelayMs'') (\<lambda>per.
     rbind (assertNonNegativeFinite (jitterWindowMs config) ''jitterWindowMs'') (\<lambda>jitter.
     throwIf (numval jitter < 1) ''jitterWindowMs must be >= 1'' (
     rbind (assertNonNegativeInteger (deferAtRecentSends config) ''deferAtRecentSends'') (\<lambda>defer_at.
     throwIf (defer_at < 1) ''deferAtRecentSends must be >= 1'' (
     Inr (numval base, numval per, numval jitter, defer_at)))))))"

definition resolveUnlinkedPeerSpeakLeast ::
  "speak_least_config \<Rightarrow> string \<Rightarrow> string \<Rightarrow> jsnum \<Rightarrow> speak_least_decision result" where
  "resolveUnlinkedPeerSpeakLeast config installationId0 roomEventId0 recentSelfSendCount0 =
     rbind (validateSpeakLeastConfig config) (\<lambda>(base, per, window, defer_at).
     rbind (assertNonEmptyId installationId0 ''installationId'') (\<lambda>installationId.
     rbind (assertNonEmptyId roomEventId0 ''roomEventId'') (\<lambda>roomEventId.
     rbind (assertNonNegativeInteger recentSelfSendCount0 ''recentSelfSendCount'') (\<lambda>recent.
     if recent \<ge> defer_at then Inr Defer
     else (let jitter = js_mod (of_nat (fnv1a32 (installationId @ [CHR 0x00] @ roomEventId))) window
           in Inr (Speak_after (base + of_int recent * per + jitter) jitter))))))"

section \<open>Lemmas\<close>

lemma js_mod_bounds: "0 \<le> x \<Longrightarrow> 0 < w \<Longrightarrow> 0 \<le> js_mod x w \<and> js_mod x w < w"
  using floor_divide_lower [of w x] floor_divide_upper [of w x]
  by (simp add: js_mod_def algebra_simps)

lemma assertNonNegativeInteger_Inr [guard_simps]:
  "assertNonNegativeInteger v f = Inr t \<longleftrightarrow> is_timestamp v \<and> t = intval v"
  by (auto simp: assertNonNegativeInteger_def is_timestamp_def)

lemma assertNonEmptyId_Inr [guard_simps]:
  "assertNonEmptyId v f = Inr x \<longleftrightarrow> v \<noteq> [] \<and> js_trim v = v \<and> x = v"
  by (auto simp: assertNonEmptyId_def)

lemma validateSpeakLeastConfig_Inr [guard_simps]:
  "validateSpeakLeastConfig c = Inr (b, p, w, d) \<longleftrightarrow>
     baseDelayMs c = Fin b \<and> 0 \<le> b \<and> perRecentSendDelayMs c = Fin p \<and> 0 \<le> p \<and>
     jitterWindowMs c = Fin w \<and> 1 \<le> w \<and> is_timestamp (deferAtRecentSends c) \<and>
     d = intval (deferAtRecentSends c) \<and> 1 \<le> d"
  by (auto simp: validateSpeakLeastConfig_def rbind_eq_Inr guard_simps isFinite_iff) 

section \<open>Properties\<close>

text \<open>
  ICP dominates: a social turn is admitted exactly when no ICP turn is fenced, the ICP lane
  is not exhausted and the availability lease is absent or open; when several conditions hold
  the reported one follows the order fenced, exhausted, availability, and the availability
  state is carried only, and always, with the availability block.
\<close>

theorem precedence_icp_dominates:
  "(resolveIcpSocialPrecedence i = Admitted \<longleftrightarrow>
      \<not> prec_icpTurnFenced i \<and> \<not> prec_icpFatigueExhausted i
      \<and> prec_availabilityState i \<in> {None, Some Available, Some Open_to_chat})
   \<and> (\<forall>b a. resolveIcpSocialPrecedence i = Blocked b a \<longrightarrow>
        (b = Icp_turn_fenced \<longleftrightarrow> prec_icpTurnFenced i)
        \<and> (b = Icp_fatigue_exhausted \<longleftrightarrow> \<not> prec_icpTurnFenced i \<and> prec_icpFatigueExhausted i)
        \<and> (b = Icp_availability \<longleftrightarrow> a \<in> {Some Busy, Some Resting, Some Do_not_disturb})
        \<and> (b = Icp_availability \<longrightarrow> a = prec_availabilityState i))"
  by (cases "prec_availabilityState i"; cases "the (prec_availabilityState i)")
    (auto simp: resolveIcpSocialPrecedence_def OPEN_AVAILABILITY_STATES_def)

theorem precedence_icp_dominates_witness:
  "resolveIcpSocialPrecedence \<lparr>prec_availabilityState = Some Do_not_disturb, prec_icpTurnFenced = True,
     prec_icpFatigueExhausted = True\<rparr> \<noteq> Admitted"
  using precedence_icp_dominates [of "\<lparr>prec_availabilityState = Some Do_not_disturb, prec_icpTurnFenced = True,
     prec_icpFatigueExhausted = True\<rparr>"] by simp

text \<open>
  Speak least: an installation defers exactly when its recent sends reach the saturation
  count; otherwise its delay lies in the jitter window above the base delay plus the per-send
  bias, and when the bias is at least the jitter window an installation with fewer recent sends
  always speaks strictly earlier, whatever the two ids and events hash to.
\<close>

theorem speak_least_ordered:
  assumes "resolveUnlinkedPeerSpeakLeast c i e n = Inr r" "resolveUnlinkedPeerSpeakLeast c i' e' n' = Inr r'"
  shows "(r = Defer \<longleftrightarrow> intval (deferAtRecentSends c) \<le> intval n)
    \<and> (r \<noteq> Defer \<longrightarrow> (let lo = numval (baseDelayMs c) + of_int (intval n) * numval (perRecentSendDelayMs c)
         in lo \<le> speak_delayMs r \<and> speak_delayMs r < lo + numval (jitterWindowMs c)))
    \<and> (r \<noteq> Defer \<and> r' \<noteq> Defer \<and> intval n < intval n'
         \<and> numval (jitterWindowMs c) \<le> numval (perRecentSendDelayMs c) \<longrightarrow> speak_delayMs r < speak_delayMs r')"
proof -
  obtain b p w d where v: "validateSpeakLeastConfig c = Inr (b, p, w, d)"
    using assms(1) by (auto simp: resolveUnlinkedPeerSpeakLeast_def rbind_eq_Inr)
  then have c: "numval (baseDelayMs c) = b" "numval (perRecentSendDelayMs c) = p" "0 \<le> p"
      "numval (jitterWindowMs c) = w" "1 \<le> w" "d = intval (deferAtRecentSends c)"
    by (auto simp: guard_simps)
  have form: "(d \<le> intval m \<and> q = Defer)
      \<or> (\<not> d \<le> intval m \<and> (\<exists>j. 0 \<le> j \<and> j < w \<and> q = Speak_after (b + of_int (intval m) * p + j) j))"
    if "resolveUnlinkedPeerSpeakLeast c x y m = Inr q" for x y m q
    using that v js_mod_bounds [of "real (fnv1a32 (x @ [CHR 0x00] @ y))" w] c(5)
    by (auto simp: resolveUnlinkedPeerSpeakLeast_def rbind_eq_Inr guard_simps Let_def split: if_splits)
  have gap: "of_int (intval n) * p + p \<le> of_int (intval n') * p" if "intval n < intval n'"
  proof -
    have "(of_int (intval n) + 1) * p \<le> of_int (intval n') * p"
      using that c(3) by (intro mult_right_mono) auto
    then show ?thesis by (simp add: algebra_simps)
  qed
  have first: "(r = Defer \<longleftrightarrow> d \<le> intval n)
      \<and> (r \<noteq> Defer \<longrightarrow> b + of_int (intval n) * p \<le> speak_delayMs r
           \<and> speak_delayMs r < b + of_int (intval n) * p + w)"
    using form [OF assms(1)] by auto
  have "r' \<noteq> Defer \<longrightarrow> b + of_int (intval n') * p \<le> speak_delayMs r'"
    using form [OF assms(2)] by auto
  then show ?thesis using first gap unfolding c(1,2,4) c(6) [symmetric] Let_def by fastforce
qed

definition demo_speak_least :: speak_least_config where
  "demo_speak_least = \<lparr>baseDelayMs = Fin 100, perRecentSendDelayMs = Fin 500, jitterWindowMs = Fin 500,
     deferAtRecentSends = Fin 4\<rparr>"

theorem speak_least_ordered_witness:
  "\<exists>r r'. resolveUnlinkedPeerSpeakLeast demo_speak_least ''a'' ''e'' (Fin 0) = Inr r
     \<and> resolveUnlinkedPeerSpeakLeast demo_speak_least ''b'' ''e'' (Fin 3) = Inr r'
     \<and> speak_delayMs r < speak_delayMs r'"
proof -
  have v: "validateSpeakLeastConfig demo_speak_least = Inr (100, 500, 500, 4)"
    by (simp add: guard_simps demo_speak_least_def intval_def MAX_SAFE_INTEGER_def)
  have t: "js_trim ''a'' = ''a''" "js_trim ''b'' = ''b''" "js_trim ''e'' = ''e''" by code_simp+
  obtain r r' where r: "resolveUnlinkedPeerSpeakLeast demo_speak_least ''a'' ''e'' (Fin 0) = Inr r" "r \<noteq> Defer"
    "resolveUnlinkedPeerSpeakLeast demo_speak_least ''b'' ''e'' (Fin 3) = Inr r'" "r' \<noteq> Defer"
    by (simp add: resolveUnlinkedPeerSpeakLeast_def v rbind_eq_Inr guard_simps t intval_def Let_def
        MAX_SAFE_INTEGER_def)
  then show ?thesis
    using speak_least_ordered [OF r(1,3)] by (auto simp: intval_def demo_speak_least_def)
qed

end
