(* ===== verification/Reservation_Phase.thy ===== *)
theory Reservation_Phase
  imports Arbiter_Store Room_Pressure Social_Precedence
begin

text \<open>
  The reservation phase of the speaking arbiter: the deterministic gates a candidate passes
  before any model call. Models \<^verbatim>\<open>src/src/core/agent/arbiter/reservation-phase.ts\<close>. The
  injected collaborators (store, pot, ICP resolver, pressure source, id factory) are a record of
  calls over a world type; the locale at the end states what the phase relies on.
\<close>

section \<open>Data\<close>

record signal_context =
  ctx_channelId :: string
  ctx_triggerEventId :: string
  ctx_companionId :: string
  ctx_nowMs :: jsnum

datatype gate_block_reason =
  Gate_icp precedence_block
| Gate_room_flooded
| Gate_fatigue_pot_insufficient
| Gate_error

datatype gate_error_stage = Stage_icp_precedence | Stage_room_pressure | Stage_social_pot | Stage_reserve

datatype reservation_decision =
  Phase_reserved (phase_reservation: reservation_row) (phase_episode: room_episode_snapshot)
    (phase_replayed: bool)
| Phase_gated (phase_blockedBy: gate_block_reason) (phase_availability: "availability_state option")
    (phase_errorStage: "gate_error_stage option")

record reservation_phase_config =
  rpc_reservationTtlMs :: jsnum
  rpc_minReserveDrawUnits :: jsnum
  rpc_socialPot :: fatigue_social_pot_config
  rpc_breaker :: breaker_config
  rpc_wrapUpThreshold :: jsnum

record 'w reservation_ports =
  rp_readPot :: "string \<Rightarrow> jsnum \<Rightarrow> social_pot_config \<Rightarrow> ('w, social_pot_snapshot) io"
  rp_reserve :: "string \<Rightarrow> string \<Rightarrow> string \<Rightarrow> string \<Rightarrow> jsnum \<Rightarrow> jsnum \<Rightarrow> ('w, reserve_result) io"
  rp_releaseReservation ::
    "string \<Rightarrow> string \<Rightarrow> arbiter_reason option \<Rightarrow> jsnum \<Rightarrow> ('w, reservation_row) io"
  rp_icpPrecedence :: "signal_context \<Rightarrow> ('w, precedence_input) io"
  rp_roomPressure :: "(signal_context \<Rightarrow> ('w, jsnum) io) option"
  rp_generateReservationId :: "('w, string) io"

datatype settle_outcome = Settle_released | Settle_retained

section \<open>Operations\<close>

text \<open>The constructor validates the companion id and the numeric configuration.\<close>

definition newSpeakingReservationPhase ::
  "string \<Rightarrow> reservation_phase_config \<Rightarrow> (string \<times> reservation_phase_config) result" where
  "newSpeakingReservationPhase companionId config =
     rbind (assertNonEmpty companionId ''reservationPhase.companionId'') (\<lambda>cid.
     rbind (assertPositiveFinite (rpc_reservationTtlMs config) ''reservationPhase.reservationTtlMs'') (\<lambda>ttl.
     rbind (assertNonNegativeFinite (rpc_minReserveDrawUnits config)
              ''reservationPhase.minReserveDrawUnits'') (\<lambda>minDraw.
     Inr (cid, config\<lparr>rpc_reservationTtlMs := ttl, rpc_minReserveDrawUnits := minDraw\<rparr>))))"

definition reserve_args :: "string \<Rightarrow> string \<Rightarrow> jsnum \<Rightarrow> (string \<times> string \<times> jsnum) result" where
  "reserve_args channelId triggerEventId nowMs =
     rbind (assertNonEmpty channelId ''reservationPhase.channelId'') (\<lambda>ch.
     rbind (assertNonEmpty triggerEventId ''reservationPhase.triggerEventId'') (\<lambda>ev.
     rbind (assertNonNegativeFinite nowMs ''reservationPhase.nowMs'') (\<lambda>now. Inr (ch, ev, now))))"

text \<open>The room-pressure gate: does the decayed pressure reach the breaker's trip threshold?\<close>

definition pressure_gate ::
  "reservation_phase_config \<Rightarrow> (signal_context \<Rightarrow> ('w, jsnum) io) \<Rightarrow> signal_context \<Rightarrow> ('w, bool) io" where
  "pressure_gate config resolve ctx =
     iobind (resolve ctx) (\<lambda>p.
     iobind (iopure (assertNonNegativeFinite p ''reservationPhase.roomPressure'')) (\<lambda>pressure.
     iobind (iopure (assertRoomEpisodeCircuitBreakerConfig (rpc_breaker config) (rpc_wrapUpThreshold config)))
       (\<lambda>breaker. ioret (numval pressure \<ge> numval (tripThreshold breaker)))))"

definition reserveCandidate ::
  "'w reservation_ports \<Rightarrow> string \<Rightarrow> reservation_phase_config \<Rightarrow> string \<Rightarrow> string \<Rightarrow> jsnum \<Rightarrow>
     ('w, reservation_decision) io" where
  "reserveCandidate ports companionId config channelId0 triggerEventId0 nowMs0 =
     iotry (iopure (reserve_args channelId0 triggerEventId0 nowMs0))
       (\<lambda>_. ioret (Phase_gated Gate_error None (Some Stage_reserve))) (\<lambda>(channelId, triggerEventId, nowMs).
     let ctx = \<lparr>ctx_channelId = channelId, ctx_triggerEventId = triggerEventId,
                ctx_companionId = companionId, ctx_nowMs = nowMs\<rparr> in
     iotry (rp_icpPrecedence ports ctx)
       (\<lambda>_. ioret (Phase_gated Gate_error None (Some Stage_icp_precedence))) (\<lambda>icpInput.
     case resolveIcpSocialPrecedence icpInput of
       Blocked b availability \<Rightarrow> ioret (Phase_gated (Gate_icp b) availability None)
     | Admitted \<Rightarrow>
     iotry (case rp_roomPressure ports of None \<Rightarrow> ioret False | Some resolve \<Rightarrow> pressure_gate config resolve ctx)
       (\<lambda>_. ioret (Phase_gated Gate_error None (Some Stage_room_pressure))) (\<lambda>flooded.
     if flooded then ioret (Phase_gated Gate_room_flooded None None)
     else
     iotry (rp_readPot ports companionId nowMs (toStoreConfig (rpc_socialPot config)))
       (\<lambda>_. ioret (Phase_gated Gate_error None (Some Stage_social_pot))) (\<lambda>pot.
     if snap_balance pot < numval (rpc_minReserveDrawUnits config)
     then ioret (Phase_gated Gate_fatigue_pot_insufficient None None)
     else
     iotry (iobind (rp_generateReservationId ports) (\<lambda>rid.
              rp_reserve ports rid channelId triggerEventId companionId nowMs
                (Fin (numval nowMs + numval (rpc_reservationTtlMs config)))))
       (\<lambda>_. ioret (Phase_gated Gate_error None (Some Stage_reserve))) (\<lambda>result.
     ioret (Phase_reserved (reserve_reservation result) (reserve_episode result)
              (reserve_outcome result = Reserve_replayed)))))))"

definition releaseIgnored :: "'w reservation_ports \<Rightarrow> reservation_row \<Rightarrow> jsnum \<Rightarrow> ('w, unit) io" where
  "releaseIgnored ports reservation nowMs =
     iobind (iopure (assertNonNegativeFinite nowMs ''reservationPhase.nowMs'')) (\<lambda>now.
     iobind (rp_releaseReservation ports (res_id reservation) (res_channel reservation) (Some Ignore) now)
       (\<lambda>_. ioret ()))"

definition settleAfterAppraisal ::
  "'w reservation_ports \<Rightarrow> reservation_row \<Rightarrow> participation_action \<Rightarrow> jsnum \<Rightarrow> ('w, settle_outcome) io" where
  "settleAfterAppraisal ports reservation action nowMs =
     (if action = Action_ignore
      then iobind (releaseIgnored ports reservation nowMs) (\<lambda>_. ioret Settle_released)
      else ioret Settle_retained)"

section \<open>What the phase relies on\<close>

text \<open>
  An invariant the signal reads, the pot read and the id factory keep, and that survives a
  reservation that throws, survives a gated candidate.
\<close>

locale reservation_world =
  fixes ports :: "'w reservation_ports" and inv :: "'w \<Rightarrow> bool"
  assumes keep_readPot: "iokeeps inv (rp_readPot ports c n cfg)"
    and keep_icp: "iokeeps inv (rp_icpPrecedence ports ctx)"
    and keep_pressure: "rp_roomPressure ports = Some f \<Longrightarrow> iokeeps inv (f ctx)"
    and keep_generate: "iokeeps inv (rp_generateReservationId ports)"
    and reserve_throws: "rp_reserve ports rid ch ev c n x w = (Inl e, w') \<Longrightarrow> inv w \<Longrightarrow> inv w'"
begin

lemma optional_gate_keeps:
  "iokeeps inv (case rp_roomPressure ports of None \<Rightarrow> ioret False | Some f \<Rightarrow> pressure_gate config f ctx)"
  unfolding pressure_gate_def by (intro io_rules keep_pressure) simp_all

lemma place_throws:
  "iotriple inv (iobind (rp_generateReservationId ports) (\<lambda>rid. rp_reserve ports rid ch ev c n x))
     (\<lambda>r. case r of Inl e \<Rightarrow> inv | Inr a \<Rightarrow> (\<lambda>_. True))"
  by (intro iokeeps_bind keep_generate iotripleI) (auto dest: reserve_throws split: sum.splits)

lemma gated_keeps:
  "iotriple inv (reserveCandidate ports cid config ch ev n)
     (\<lambda>r w'. \<forall>b a s. r = Inr (Phase_gated b a s) \<longrightarrow> inv w')" (is "iotriple inv _ ?Q")
proof -
  have gated: "iotriple inv (ioret (Phase_gated b a s)) ?Q" for b a s by (intro io_rules) simp
  have placed: "iotriple (\<lambda>_. True) (ioret (Phase_reserved r e b)) ?Q" for r e b by (intro io_rules) simp
  note step = iotriple_try [OF place_throws] iokeeps_try iotriple_cases(1) keep_readPot keep_icp
    optional_gate_keeps gated placed
  show ?thesis
  proof (cases "reserve_args ch ev n")
    case (Inl e)
    then show ?thesis unfolding reserveCandidate_def using gated by simp
  next
    case (Inr args)
    show ?thesis unfolding reserveCandidate_def Inr io_pure_exec case_prod_unfold Let_def
    proof (rule iokeeps_try [OF keep_icp gated])
      fix i
      show "iotriple inv (case resolveIcpSocialPrecedence i of
          Admitted \<Rightarrow> iotry (case rp_roomPressure ports of None \<Rightarrow> ioret False
              | Some resolve \<Rightarrow> pressure_gate config resolve
                  \<lparr>ctx_channelId = fst args, ctx_triggerEventId = fst (snd args),
                   ctx_companionId = cid, ctx_nowMs = snd (snd args)\<rparr>)
            (\<lambda>_. ioret (Phase_gated Gate_error None (Some Stage_room_pressure))) (\<lambda>flooded.
          if flooded then ioret (Phase_gated Gate_room_flooded None None)
          else iotry (rp_readPot ports cid (snd (snd args)) (toStoreConfig (rpc_socialPot config)))
            (\<lambda>_. ioret (Phase_gated Gate_error None (Some Stage_social_pot))) (\<lambda>pot.
          if snap_balance pot < numval (rpc_minReserveDrawUnits config)
          then ioret (Phase_gated Gate_fatigue_pot_insufficient None None)
          else iotry (iobind (rp_generateReservationId ports) (\<lambda>rid.
                 rp_reserve ports rid (fst args) (fst (snd args)) cid (snd (snd args))
                   (Fin (numval (snd (snd args)) + numval (rpc_reservationTtlMs config)))))
            (\<lambda>_. ioret (Phase_gated Gate_error None (Some Stage_reserve))) (\<lambda>result.
          ioret (Phase_reserved (reserve_reservation result) (reserve_episode result)
                  (reserve_outcome result = Reserve_replayed)))))
        | Blocked b availability \<Rightarrow> ioret (Phase_gated (Gate_icp b) availability None)) ?Q"
        by (cases "resolveIcpSocialPrecedence i") (simp_all only: precedence_decision.case, (intro step)+)
    qed
  qed
qed

lemma gated_inert:
  "reserveCandidate ports cid config ch ev n w = (Inr (Phase_gated b a s), w') \<Longrightarrow> inv w \<Longrightarrow> inv w'"
  using iotripleD [OF gated_keeps] by blast

end

text \<open>The gates a reserved candidate passed, and that the phase never throws.\<close>

lemma reserveCandidate_returns: "\<exists>d w'. reserveCandidate ports cid config ch ev n w = (Inr d, w')"
  unfolding reserveCandidate_def iotry_def Let_def
  by (auto simp: ioret_def split: prod.splits sum.splits precedence_decision.splits)

lemma precedence_not_blocked:
  "(\<forall>b a. resolveIcpSocialPrecedence i \<noteq> Blocked b a) \<longleftrightarrow> resolveIcpSocialPrecedence i = Admitted"
  by (cases "resolveIcpSocialPrecedence i") auto

definition signal_of :: "string \<Rightarrow> string \<Rightarrow> string \<Rightarrow> jsnum \<Rightarrow> signal_context" where
  "signal_of cid ch ev n =
     \<lparr>ctx_channelId = ch, ctx_triggerEventId = ev, ctx_companionId = cid, ctx_nowMs = n\<rparr>"

definition optional_gate ::
  "'w reservation_ports \<Rightarrow> reservation_phase_config \<Rightarrow> signal_context \<Rightarrow> ('w, bool) io" where
  "optional_gate ports config ctx =
     (case rp_roomPressure ports of None \<Rightarrow> ioret False | Some f \<Rightarrow> pressure_gate config f ctx)"

lemma reserved_gates:
  assumes "reserveCandidate ports cid config ch ev n w = (Inr (Phase_reserved r e rep), w')"
  shows "\<exists>i w1 w2 pot w3 rid w4 res.
    rp_icpPrecedence ports (signal_of cid ch ev n) w = (Inr i, w1) \<and> resolveIcpSocialPrecedence i = Admitted
    \<and> optional_gate ports config (signal_of cid ch ev n) w1 = (Inr False, w2)
    \<and> rp_readPot ports cid n (toStoreConfig (rpc_socialPot config)) w2 = (Inr pot, w3)
    \<and> numval (rpc_minReserveDrawUnits config) \<le> snap_balance pot
    \<and> rp_generateReservationId ports w3 = (Inr rid, w4)
    \<and> rp_reserve ports rid ch ev cid n (Fin (numval n + numval (rpc_reservationTtlMs config))) w4 = (Inr res, w')
    \<and> r = reserve_reservation res"
proof -
  have args: "reserve_args ch ev n = Inr x \<Longrightarrow> x = (ch, ev, n)" for x
    by (auto simp: reserve_args_def rbind_eq_Inr guard_simps)
  let ?ctx = "signal_of cid ch ev n"
  from assms obtain i w1 where
    1: "rp_icpPrecedence ports ?ctx w = (Inr i, w1)" "resolveIcpSocialPrecedence i = Admitted"
    and k: "iotry (optional_gate ports config ?ctx)
       (\<lambda>_. ioret (Phase_gated Gate_error None (Some Stage_room_pressure))) (\<lambda>flooded.
     if flooded then ioret (Phase_gated Gate_room_flooded None None)
     else
     iotry (rp_readPot ports cid n (toStoreConfig (rpc_socialPot config)))
       (\<lambda>_. ioret (Phase_gated Gate_error None (Some Stage_social_pot))) (\<lambda>pot.
     if snap_balance pot < numval (rpc_minReserveDrawUnits config)
     then ioret (Phase_gated Gate_fatigue_pot_insufficient None None)
     else
     iotry (iobind (rp_generateReservationId ports) (\<lambda>rid.
              rp_reserve ports rid ch ev cid n (Fin (numval n + numval (rpc_reservationTtlMs config)))))
       (\<lambda>_. ioret (Phase_gated Gate_error None (Some Stage_reserve))) (\<lambda>result.
     ioret (Phase_reserved (reserve_reservation result) (reserve_episode result)
              (reserve_outcome result = Reserve_replayed))))) w1 = (Inr (Phase_reserved r e rep), w')"
    unfolding reserveCandidate_def
    by (auto simp: io_Inr Let_def signal_of_def [symmetric] optional_gate_def [symmetric]
        precedence_not_blocked dest!: args split: precedence_decision.splits)
  from k obtain w2 pot w3 where
    2: "optional_gate ports config ?ctx w1 = (Inr False, w2)"
      "rp_readPot ports cid n (toStoreConfig (rpc_socialPot config)) w2 = (Inr pot, w3)"
      "\<not> snap_balance pot < numval (rpc_minReserveDrawUnits config)"
    and k2: "iotry (iobind (rp_generateReservationId ports) (\<lambda>rid.
              rp_reserve ports rid ch ev cid n (Fin (numval n + numval (rpc_reservationTtlMs config)))))
       (\<lambda>_. ioret (Phase_gated Gate_error None (Some Stage_reserve))) (\<lambda>result.
     ioret (Phase_reserved (reserve_reservation result) (reserve_episode result)
              (reserve_outcome result = Reserve_replayed))) w3 = (Inr (Phase_reserved r e rep), w')"
    by (auto simp: io_Inr split: if_splits)
  from k2 obtain rid w4 res where
    "rp_generateReservationId ports w3 = (Inr rid, w4)"
    "rp_reserve ports rid ch ev cid n (Fin (numval n + numval (rpc_reservationTtlMs config))) w4 = (Inr res, w')"
    "r = reserve_reservation res"
    by (auto simp: io_Inr)
  then show ?thesis using 1 2 by force
qed

end
