(* ===== verification/Egress_Phase.thy ===== *)
theory Egress_Phase
  imports Arbiter_Store Room_Pressure
begin

text \<open>
  The egress-lease phase of the speaking arbiter: pressure and breaker gate, confidence bar,
  speak-least fairness, the real pot draw, the exclusive lease, the send and its completion.
  Models \<^verbatim>\<open>src/src/core/agent/arbiter/egress-lease-phase.ts\<close>. The injected collaborators
  are a record of calls over a world type. Of a trigger only the fields the phase reads are
  kept; the two reads issued together by \<^verbatim>\<open>Promise.all\<close> run one after the other.
\<close>

section \<open>Data\<close>

datatype reply_trigger =
  Inbound_room_message (trig_channelId: string) (trig_sourceEventId: string) (trig_occurredAtMs: jsnum)
| Endogenous_room_candidate (trig_channelId: string) (trig_sourceEventId: string)
    (trig_occurredAtMs: jsnum) (trig_companionId: string)

datatype delivery_outcome = Delivery_delivered | Delivery_failed

record delivery_result =
  delivery_outcome :: delivery_outcome
  delivery_detail :: "string option"

datatype egress_error_stage =
  At_trigger | At_room_pressure | At_breaker | At_fairness | At_social_pot | At_acquire | At_deliver | At_complete

datatype egress_outcome =
  Egress_delivered | Egress_delivery_failed | Egress_shadowed | Egress_reservation_not_reservable
| Egress_breaker_suppressed | Egress_below_confidence_bar | Egress_yielded_speak_least
| Egress_draw_refused | Egress_lease_declined | Egress_gate_error | Egress_react_released

datatype refund_outcome = Refunded | Refund_failed

record egress_decision =
  ed_outcome :: egress_outcome
  ed_channelId :: string
  ed_triggerEventId :: string
  ed_companionId :: string
  ed_lease :: "lease_row option"
  ed_breakerState :: "room_breaker_state option"
  ed_breakerFiring :: "breaker_firing option"
  ed_speakLeastWinner :: "string option"
  ed_drawOutcome :: "enforcement_outcome option"
  ed_declineReason :: "decline_reason option"
  ed_refundOutcome :: "refund_outcome option"
  ed_errorStage :: "egress_error_stage option"
  ed_deliveryDetail :: "string option"

datatype egress_mode = Mode_shadow | Mode_on

record egress_config =
  ec_mode :: egress_mode
  ec_leaseTtlMs :: jsnum
  ec_egressDrawUnits :: jsnum
  ec_minReplyConfidence :: jsnum
  ec_socialPot :: fatigue_social_pot_config
  ec_breaker :: breaker_config
  ec_wrapUpThreshold :: jsnum
  ec_replyPressureUnits :: jsnum

record egress_context =
  eg_channelId :: string
  eg_triggerEventId :: string
  eg_companionId :: string
  eg_nowMs :: jsnum

record 'w egress_ports =
  xp_readRoomEpisode :: "string \<Rightarrow> ('w, room_episode_snapshot option) io"
  xp_readBreaker :: "string \<Rightarrow> ('w, room_breaker_state) io"
  xp_persistBreaker :: "string \<Rightarrow> room_breaker_state \<Rightarrow> jsnum \<Rightarrow> ('w, unit) io"
  xp_listActiveReservers :: "string \<Rightarrow> string \<Rightarrow> jsnum \<Rightarrow> ('w, string list) io"
  xp_acquire :: "string \<Rightarrow> string \<Rightarrow> string \<Rightarrow> jsnum \<Rightarrow> jsnum \<Rightarrow> jsnum option \<Rightarrow> ('w, acquire_result) io"
  xp_complete ::
    "string \<Rightarrow> string \<Rightarrow> int \<Rightarrow> lease_completion \<Rightarrow> jsnum \<Rightarrow> jsnum option \<Rightarrow> ('w, lease_row) io"
  xp_releaseReservation ::
    "string \<Rightarrow> string \<Rightarrow> arbiter_reason option \<Rightarrow> jsnum \<Rightarrow> ('w, reservation_row) io"
  xp_draw :: "'w draw_op"
  xp_refund :: "'w refund_op"
  xp_roomPressure :: "egress_context \<Rightarrow> ('w, pressure_assessment) io"
  xp_deliver :: "reservation_row \<Rightarrow> lease_row \<Rightarrow> jsnum \<Rightarrow> reply_trigger \<Rightarrow> jsnum \<Rightarrow> ('w, delivery_result) io"
  xp_generateLeaseId :: "('w, string) io"

section \<open>Helpers\<close>

text \<open>\<^verbatim>\<open>a < b\<close> on doubles; a comparison with \<open>NaN\<close> is false.\<close>

fun js_less :: "jsnum \<Rightarrow> real \<Rightarrow> bool" where
  "js_less (Fin a) b = (a < b)"
| "js_less NegInf b = True"
| "js_less _ b = False"

fun errorName :: "js_error \<Rightarrow> string" where
  "errorName (Error _) = ''Error''"
| "errorName (DatabaseError _) = ''error''"

text \<open>
  The message test \<^verbatim>\<open>/already terminal|not found/\<close>; a refused statement has neither text.
\<close>

fun isBenignReservationTerminalError :: "js_error \<Rightarrow> bool" where
  "isBenignReservationTerminalError (Error msg) =
     (js_includes msg ''already terminal'' \<or> js_includes msg ''not found'')"
| "isBenignReservationTerminalError (DatabaseError _) = False"

definition statOf :: "episode_participant list \<Rightarrow> string \<Rightarrow> episode_participant" where
  "statOf participants companionId =
     (case find (\<lambda>p. participant_companionId p = companionId) participants of
        Some p \<Rightarrow> p
      | None \<Rightarrow> \<lparr>participant_companionId = companionId, participant_speakCount = 0,
                 participant_lastSpokeAtMs = None\<rparr>)"

text \<open>
  The sort key of the comparator: never spoken first, then least recent, then the lowest speak
  count, then the companion id.
\<close>

definition speak_least_key ::
  "episode_participant list \<Rightarrow> string \<Rightarrow> (bool \<times> int) \<times> int \<times> string" where
  "speak_least_key participants companionId =
     (let st = statOf participants companionId in
      (case participant_lastSpokeAtMs st of None \<Rightarrow> (False, 0) | Some t \<Rightarrow> (True, t),
       participant_speakCount st, companionId))"

definition selectSpeakLeastWinner :: "episode_participant list \<Rightarrow> string list \<Rightarrow> string option" where
  "selectSpeakLeastWinner participants contenders =
     (case sort_key (speak_least_key participants)
             (filter (\<lambda>c. c \<noteq> []) (rev (remdups (rev contenders)))) of
        [] \<Rightarrow> None
      | c # _ \<Rightarrow> Some c)"

definition newSpeakingEgressLeasePhase ::
  "string \<Rightarrow> egress_config \<Rightarrow> (string \<times> egress_config) result" where
  "newSpeakingEgressLeasePhase companionId config =
     rbind (assertNonEmpty companionId ''egressLeasePhase.companionId'') (\<lambda>cid.
     rbind (assertPositiveFinite (ec_leaseTtlMs config) ''egressLeasePhase.leaseTtlMs'') (\<lambda>ttl.
     rbind (assertPositiveFinite (ec_egressDrawUnits config) ''egressLeasePhase.egressDrawUnits'') (\<lambda>units.
     rbind (assertNonNegativeFinite (ec_minReplyConfidence config)
              ''egressLeasePhase.minReplyConfidence'') (\<lambda>conf.
     rbind (assertNonNegativeFinite (ec_replyPressureUnits config)
              ''egressLeasePhase.replyPressureUnits'') (\<lambda>pressure.
     Inr (cid, config))))))"

definition base_decision ::
  "egress_outcome \<Rightarrow> reservation_row \<Rightarrow> string \<Rightarrow> egress_decision" where
  "base_decision outcome reservation companionId =
     \<lparr>ed_outcome = outcome, ed_channelId = res_channel reservation,
      ed_triggerEventId = res_event reservation, ed_companionId = companionId, ed_lease = None,
      ed_breakerState = None, ed_breakerFiring = None, ed_speakLeastWinner = None,
      ed_drawOutcome = None, ed_declineReason = None, ed_refundOutcome = None,
      ed_errorStage = None, ed_deliveryDetail = None\<rparr>"

definition gate_error_at ::
  "reservation_row \<Rightarrow> string \<Rightarrow> egress_error_stage \<Rightarrow> egress_decision" where
  "gate_error_at reservation companionId stage =
     (base_decision Egress_gate_error reservation companionId)\<lparr>ed_errorStage := Some stage\<rparr>"

definition releaseSilently :: "'w egress_ports \<Rightarrow> reservation_row \<Rightarrow> jsnum \<Rightarrow> ('w, unit) io" where
  "releaseSilently ports reservation nowMs =
     iotry (xp_releaseReservation ports (res_id reservation) (res_channel reservation) (Some Silence) nowMs)
       (\<lambda>e. if isBenignReservationTerminalError e then ioret () else iothrow e)
       (\<lambda>_. ioret ())"

definition completeLease ::
  "'w egress_ports \<Rightarrow> egress_config \<Rightarrow> lease_row \<Rightarrow> lease_completion \<Rightarrow> jsnum \<Rightarrow> ('w, unit) io" where
  "completeLease ports config lease completion nowMs =
     iobind (xp_complete ports (lease_id lease) (lease_channel lease) (lease_token lease) completion nowMs
               (Some (ec_replyPressureUnits config))) (\<lambda>_. ioret ())"

definition refundDraw ::
  "'w egress_ports \<Rightarrow> string \<Rightarrow> egress_config \<Rightarrow> real \<Rightarrow> jsnum \<Rightarrow> ('w, refund_outcome option) io" where
  "refundDraw ports companionId config drawnUnits nowMs =
     (if drawnUnits \<le> 0 then ioret None
      else iotry (refundSocialPotDraw (xp_refund ports) (ec_socialPot config) companionId (Fin drawnUnits) nowMs)
             (\<lambda>_. ioret (Some Refund_failed)) (\<lambda>_. ioret (Some Refunded)))"

section \<open>Granting a reply\<close>

definition check_trigger ::
  "reservation_row \<Rightarrow> string \<Rightarrow> reply_trigger \<Rightarrow> unit result" where
  "check_trigger reservation companionId trigger =
     rbind (assertNonEmpty (trig_channelId trigger) ''egressLeasePhase.trigger.channelId'') (\<lambda>_.
     rbind (assertNonEmpty (trig_sourceEventId trigger) ''egressLeasePhase.trigger.sourceEventId'') (\<lambda>_.
     rbind (assertNonNegativeFinite (trig_occurredAtMs trigger) ''egressLeasePhase.trigger.occurredAtMs'') (\<lambda>_.
     throwIf (trig_channelId trigger \<noteq> res_channel reservation
              \<or> trig_sourceEventId trigger \<noteq> res_event reservation)
       ''egress reply trigger does not match its reservation'' (
     throwIf (case trigger of Endogenous_room_candidate _ _ _ cid \<Rightarrow> cid \<noteq> companionId
              | Inbound_room_message _ _ _ \<Rightarrow> False)
       ''endogenous room candidate belongs to another companion'' (Inr ())))))"

text \<open>
  The breaker gate reads the durable position, resolves the transition and persists it; it
  returns the prior state with the assessment.
\<close>

definition breaker_gate ::
  "'w egress_ports \<Rightarrow> egress_config \<Rightarrow> string \<Rightarrow> pressure_assessment \<Rightarrow> jsnum \<Rightarrow>
     ('w, room_breaker_state \<times> breaker_assessment) io" where
  "breaker_gate ports config channelId pressure now =
     iobind (xp_readBreaker ports channelId) (\<lambda>priorState.
     iobind (iopure (assessRoomEpisodeCircuitBreaker pressure priorState (ec_breaker config)
                       (ec_wrapUpThreshold config) now)) (\<lambda>assessment.
     iobind (xp_persistBreaker ports channelId (brk_state assessment) now) (\<lambda>_.
     ioret (priorState, assessment))))"

definition fairness_gate ::
  "'w egress_ports \<Rightarrow> string \<Rightarrow> string \<Rightarrow> string \<Rightarrow> jsnum \<Rightarrow> ('w, string option) io" where
  "fairness_gate ports companionId channelId triggerEventId now =
     iobind (xp_listActiveReservers ports channelId triggerEventId now) (\<lambda>reservers.
     iobind (xp_readRoomEpisode ports channelId) (\<lambda>episode.
     let contenders = (if companionId \<in> set reservers then reservers else reservers @ [companionId])
     in ioret (selectSpeakLeastWinner
                 (case episode of None \<Rightarrow> [] | Some e \<Rightarrow> episode_participants e) contenders)))"

definition breakerAdmits :: "room_breaker_state \<Rightarrow> room_breaker_state \<Rightarrow> bool" where
  "breakerAdmits priorState breakerState \<longleftrightarrow>
     breakerState = Breaker_closed \<or> (priorState = Breaker_open \<and> breakerState = Breaker_half_open)"

text \<open>Step 7: consume the lease, deliver, and complete with the delivery outcome.\<close>

definition deliver_and_complete ::
  "'w egress_ports \<Rightarrow> string \<Rightarrow> egress_config \<Rightarrow> reservation_row \<Rightarrow> jsnum \<Rightarrow> reply_trigger \<Rightarrow> jsnum \<Rightarrow>
     room_breaker_state \<Rightarrow> lease_row \<Rightarrow> ('w, egress_decision) io" where
  "deliver_and_complete ports companionId config reservation confidence trigger now breakerState lease =
     (let base = (\<lambda>outcome. (base_decision outcome reservation companionId)
                    \<lparr>ed_lease := Some lease, ed_breakerState := Some breakerState\<rparr>) in
      iotry (xp_deliver ports reservation lease confidence trigger now)
        (\<lambda>e. iobind (completeLease ports config lease Complete_failed now) (\<lambda>_.
              ioret ((base Egress_delivery_failed)\<lparr>ed_deliveryDetail := Some (errorName e)\<rparr>)))
        (\<lambda>delivery.
          let completion = (if delivery_outcome delivery = Delivery_delivered then Complete_delivered
                            else Complete_failed) in
          iotry (completeLease ports config lease completion now)
            (\<lambda>_. ioret ((base Egress_gate_error)\<lparr>ed_errorStage := Some At_complete\<rparr>))
            (\<lambda>_. ioret ((base (if completion = Complete_delivered then Egress_delivered
                              else Egress_delivery_failed))\<lparr>ed_deliveryDetail :=
                      (if delivery_detail delivery = Some [] then None else delivery_detail delivery)\<rparr>))))"

text \<open>
  Step 6: the try block around the acquisition. It ends with a lease, or returns the declined
  decision after the refund and the release; an error anywhere inside it, the release included,
  goes to the handler, which refunds.
\<close>

definition acquire_block ::
  "'w egress_ports \<Rightarrow> string \<Rightarrow> egress_config \<Rightarrow> reservation_row \<Rightarrow> jsnum \<Rightarrow> room_breaker_state \<Rightarrow> real \<Rightarrow>
     ('w, egress_decision + lease_row) io" where
  "acquire_block ports companionId config reservation now breakerState drawnUnits =
     iobind (xp_generateLeaseId ports) (\<lambda>leaseId.
     iobind (xp_acquire ports leaseId (res_id reservation) (res_channel reservation) now
               (Fin (numval now + numval (ec_leaseTtlMs config))) (Some (Fin drawnUnits))) (\<lambda>acquired.
     case acquired of
       Acq_acquired lease \<Rightarrow> ioret (Inr lease)
     | Acq_declined heldBy reason \<Rightarrow>
         iobind (refundDraw ports companionId config drawnUnits now) (\<lambda>refundOutcome.
         iobind (releaseSilently ports reservation now) (\<lambda>_.
         ioret (Inl ((base_decision Egress_lease_declined reservation companionId)
           \<lparr>ed_breakerState := Some breakerState, ed_declineReason := Some reason,
            ed_refundOutcome := refundOutcome\<rparr>))))))"

definition bind_and_send ::
  "'w egress_ports \<Rightarrow> string \<Rightarrow> egress_config \<Rightarrow> reservation_row \<Rightarrow> jsnum \<Rightarrow> reply_trigger \<Rightarrow> jsnum \<Rightarrow>
     room_breaker_state \<Rightarrow> ('w, egress_decision) io" where
  "bind_and_send ports companionId config reservation confidence trigger now breakerState =
     iotry (enforceSocialPotDraw (xp_draw ports) (ec_socialPot config) companionId Group_social
              Machine_intelligence (ec_egressDrawUnits config) now)
       (\<lambda>_. ioret (gate_error_at reservation companionId At_social_pot)) (\<lambda>decision.
     if enf_outcome decision \<noteq> Enf_drawn
     then iobind (releaseSilently ports reservation now) (\<lambda>_.
            ioret ((base_decision Egress_draw_refused reservation companionId)
              \<lparr>ed_breakerState := Some breakerState, ed_drawOutcome := Some (enf_outcome decision)\<rparr>))
     else
     iotry (acquire_block ports companionId config reservation now breakerState (enf_drawn decision))
       (\<lambda>_. iobind (refundDraw ports companionId config (enf_drawn decision) now) (\<lambda>refundOutcome.
             ioret ((gate_error_at reservation companionId At_acquire)\<lparr>ed_refundOutcome := refundOutcome\<rparr>)))
       (\<lambda>acquired. case acquired of
          Inl declined \<Rightarrow> ioret declined
        | Inr lease \<Rightarrow>
            deliver_and_complete ports companionId config reservation confidence trigger now
              breakerState lease))"

definition grantReply ::
  "'w egress_ports \<Rightarrow> string \<Rightarrow> egress_config \<Rightarrow> reservation_row \<Rightarrow> jsnum \<Rightarrow> reply_trigger \<Rightarrow> jsnum \<Rightarrow>
     ('w, egress_decision) io" where
  "grantReply ports companionId config reservation confidence trigger nowMs =
     (let ch = res_channel reservation; ev = res_event reservation in
     iotry (iopure (rbind (assertNonNegativeFinite nowMs ''egressLeasePhase.nowMs'') (\<lambda>now.
                    rbind (assertNonEmpty ch ''egressLeasePhase.channelId'') (\<lambda>_.
                    rbind (assertNonEmpty ev ''egressLeasePhase.triggerEventId'') (\<lambda>_. Inr now)))))
       (\<lambda>_. ioret (gate_error_at reservation companionId At_room_pressure)) (\<lambda>now.
     iotry (iopure (check_trigger reservation companionId trigger))
       (\<lambda>_. ioret (gate_error_at reservation companionId At_trigger)) (\<lambda>_.
     if res_status reservation \<noteq> Res_reserved
     then ioret (base_decision Egress_reservation_not_reservable reservation companionId)
     else
     let ctx = \<lparr>eg_channelId = ch, eg_triggerEventId = ev, eg_companionId = companionId, eg_nowMs = now\<rparr> in
     iotry (iobind (xp_roomPressure ports ctx) (\<lambda>p.
            iobind (iopure (assertNonNegativeFinite (Fin (assess_pressure p)) ''egressLeasePhase.pressure''))
              (\<lambda>_. ioret p)))
       (\<lambda>_. ioret (gate_error_at reservation companionId At_room_pressure)) (\<lambda>pressure.
     iotry (breaker_gate ports config ch pressure now)
       (\<lambda>_. ioret (gate_error_at reservation companionId At_breaker)) (\<lambda>(priorState, assessment).
     let breakerState = brk_state assessment in
     if \<not> breakerAdmits priorState breakerState
     then iobind (releaseSilently ports reservation now) (\<lambda>_.
            ioret ((base_decision Egress_breaker_suppressed reservation companionId)
              \<lparr>ed_breakerState := Some breakerState, ed_breakerFiring := brk_firing assessment\<rparr>))
     else if js_less confidence
               (numval (ec_minReplyConfidence config) + pstate_leaseThresholdBias pressure)
     then iobind (releaseSilently ports reservation now) (\<lambda>_.
            ioret ((base_decision Egress_below_confidence_bar reservation companionId)
              \<lparr>ed_breakerState := Some breakerState\<rparr>))
     else
     iotry (fairness_gate ports companionId ch ev now)
       (\<lambda>_. ioret (gate_error_at reservation companionId At_fairness)) (\<lambda>winner.
     if winner \<noteq> None \<and> winner \<noteq> Some companionId
     then iobind (releaseSilently ports reservation now) (\<lambda>_.
            ioret ((base_decision Egress_yielded_speak_least reservation companionId)
              \<lparr>ed_breakerState := Some breakerState, ed_speakLeastWinner := winner\<rparr>))
     else if ec_mode config = Mode_shadow
     then iobind (releaseSilently ports reservation now) (\<lambda>_.
            ioret ((base_decision Egress_shadowed reservation companionId)
              \<lparr>ed_breakerState := Some breakerState\<rparr>))
     else bind_and_send ports companionId config reservation confidence trigger now breakerState))))))"

definition releaseReact ::
  "'w egress_ports \<Rightarrow> string \<Rightarrow> reservation_row \<Rightarrow> jsnum \<Rightarrow> ('w, egress_decision) io" where
  "releaseReact ports companionId reservation nowMs =
     iotry (iopure (assertNonNegativeFinite nowMs ''egressLeasePhase.nowMs''))
       (\<lambda>_. ioret (gate_error_at reservation companionId At_complete)) (\<lambda>now.
     if res_status reservation \<noteq> Res_reserved
     then ioret (base_decision Egress_reservation_not_reservable reservation companionId)
     else iobind (releaseSilently ports reservation now) (\<lambda>_.
            ioret (base_decision Egress_react_released reservation companionId)))"

section \<open>What a grant did\<close>

text \<open>The lease a binding acquired: the call that returned it, between two worlds.\<close>

definition acquired_by ::
  "'w egress_ports \<Rightarrow> egress_config \<Rightarrow> reservation_row \<Rightarrow> jsnum \<Rightarrow> lease_row \<Rightarrow> 'w \<Rightarrow> 'w \<Rightarrow> bool" where
  "acquired_by ports config reservation now lease w w' \<longleftrightarrow>
     (\<exists>leaseId w1 u. xp_generateLeaseId ports w = (Inr leaseId, w1)
        \<and> xp_acquire ports leaseId (res_id reservation) (res_channel reservation) now
            (Fin (numval now + numval (ec_leaseTtlMs config))) (Some (Fin u)) w1
          = (Inr (Acq_acquired lease), w'))"

lemma acquire_block_Inr:
  assumes "acquire_block ports cid config res now b u w = (Inr x, w')"
  shows "(\<exists>lease. x = Inr lease \<and> acquired_by ports config res now lease w w')
    \<or> (\<exists>d. x = Inl d \<and> ed_outcome d = Egress_lease_declined \<and> ed_lease d = None)"
proof -
  from assms obtain lid w1 acq w2 where
    *: "xp_generateLeaseId ports w = (Inr lid, w1)"
      "xp_acquire ports lid (res_id res) (res_channel res) now
         (Fin (numval now + numval (ec_leaseTtlMs config))) (Some (Fin u)) w1 = (Inr acq, w2)"
    and k: "(case acq of Acq_acquired lease \<Rightarrow> ioret (Inr lease)
     | Acq_declined heldBy reason \<Rightarrow>
         iobind (refundDraw ports cid config u now) (\<lambda>refundOutcome.
         iobind (releaseSilently ports res now) (\<lambda>_.
         ioret (Inl ((base_decision Egress_lease_declined res cid)
           \<lparr>ed_breakerState := Some b, ed_declineReason := Some reason,
            ed_refundOutcome := refundOutcome\<rparr>))))) w2 = (Inr x, w')"
    unfolding acquire_block_def io_Inr by blast
  show ?thesis
    using k * by (cases acq) (auto simp: io_Inr acquired_by_def base_decision_def)
qed

lemma deliver_and_complete_delivered:
  assumes "deliver_and_complete ports cid config res conf trig now b lease w = (Inr d, w')"
    and "ed_outcome d = Egress_delivered"
  shows "ed_lease d = Some lease \<and> (\<exists>dl w1 l. xp_deliver ports res lease conf trig now w = (Inr dl, w1)
    \<and> delivery_outcome dl = Delivery_delivered
    \<and> xp_complete ports (lease_id lease) (lease_channel lease) (lease_token lease) Complete_delivered now
        (Some (ec_replyPressureUnits config)) w1 = (Inr l, w'))"
  using assms
  by (auto simp: deliver_and_complete_def completeLease_def base_decision_def io_Inr Let_def
      split: if_splits)

lemma deliver_and_complete_lease:
  "deliver_and_complete ports cid config res conf trig now b lease w = (Inr d, w') \<Longrightarrow>
   ed_lease d = Some lease"
  by (auto simp: deliver_and_complete_def base_decision_def io_Inr Let_def)

section \<open>The gates as one step\<close>

text \<open>A decision taken at a gate: no lease, no draw.\<close>

definition at_gate :: "egress_decision result \<Rightarrow> bool" where
  "at_gate r \<longleftrightarrow> (\<forall>d. r = Inr d \<longrightarrow> ed_lease d = None \<and> ed_drawOutcome d = None
     \<and> ed_outcome d \<notin> {Egress_delivered, Egress_delivery_failed, Egress_draw_refused, Egress_lease_declined})"

text \<open>A decision without a lease: nothing was sent.\<close>

definition unbound :: "egress_decision result \<Rightarrow> bool" where
  "unbound r \<longleftrightarrow> (\<forall>d. r = Inr d \<longrightarrow> ed_lease d = None
     \<and> ed_outcome d \<notin> {Egress_delivered, Egress_delivery_failed})"

lemma error_at_gate: "at_gate (Inr (gate_error_at res cid s))"
  by (simp add: at_gate_def gate_error_at_def base_decision_def)

text \<open>
  The calls the gates make before anything is bound. An invariant they all keep holds when a
  grant ends at a gate, and when it goes on to bind.
\<close>

locale gate_calls =
  fixes ports :: "'w egress_ports" and inv :: "'w \<Rightarrow> bool"
  assumes keep_readRoomEpisode: "iokeeps inv (xp_readRoomEpisode ports ch)"
    and keep_readBreaker: "iokeeps inv (xp_readBreaker ports ch)"
    and keep_persistBreaker: "iokeeps inv (xp_persistBreaker ports ch bs n)"
    and keep_listActiveReservers: "iokeeps inv (xp_listActiveReservers ports ch ev n)"
    and keep_release: "iokeeps inv (xp_releaseReservation ports rid ch rs n)"
    and keep_roomPressure: "iokeeps inv (xp_roomPressure ports ctx)"
begin

lemmas keeps = keep_readRoomEpisode keep_readBreaker keep_persistBreaker keep_listActiveReservers
  keep_release keep_roomPressure

lemma releaseSilently_keeps: "iokeeps inv (releaseSilently ports res n)"
  unfolding releaseSilently_def by (intro io_rules keeps) simp_all

lemma releaseReact_keeps: "iokeeps inv (releaseReact ports cid res n)"
  unfolding releaseReact_def by (intro io_rules releaseSilently_keeps) simp_all

lemma breaker_gate_keeps: "iokeeps inv (breaker_gate ports config ch p n)"
  unfolding breaker_gate_def by (intro io_rules keeps) simp_all

lemma fairness_gate_keeps: "iokeeps inv (fairness_gate ports cid ch ev n)"
  unfolding fairness_gate_def Let_def by (intro io_rules keeps) simp_all

lemma released_at_gate:
  assumes "at_gate (Inr d)"
  shows "iotriple inv (iobind (releaseSilently ports res n) (\<lambda>_. ioret d))
    (\<lambda>r w'. inv w' \<and> at_gate r \<or> Z r w')"
  using assms by (intro io_rules releaseSilently_keeps) (auto simp: at_gate_def)

lemma gates_then_bind:
  "iotriple inv (grantReply ports cid config res conf trig n)
     (\<lambda>r w'. inv w' \<and> at_gate r
        \<or> ec_mode config = Mode_on \<and> res_status res = Res_reserved
          \<and> (\<exists>w1 b. inv w1 \<and> bind_and_send ports cid config res conf trig n b w1 = (r, w')))"
    (is "iotriple inv _ ?Q")
proof -
  have bind: "iotriple inv (bind_and_send ports cid config res conf trig n b) ?Q"
    if "ec_mode config \<noteq> Mode_shadow" "res_status res = Res_reserved" for b
    using that by (intro iotripleI) (cases "ec_mode config"; auto)
  have err: "iotriple inv (ioret (gate_error_at res cid s)) ?Q" for s
    using error_at_gate by (intro io_rules) simp
  have rel: "iotriple inv (iobind (releaseSilently ports res n) (\<lambda>_. ioret d)) ?Q" if "at_gate (Inr d)" for d
    using that by (rule released_at_gate)
  let ?args = "rbind (assertNonNegativeFinite n ''egressLeasePhase.nowMs'') (\<lambda>now.
      rbind (assertNonEmpty (res_channel res) ''egressLeasePhase.channelId'') (\<lambda>_.
      rbind (assertNonEmpty (res_event res) ''egressLeasePhase.triggerEventId'') (\<lambda>_. Inr now)))"
  show ?thesis
  proof (cases ?args)
    case (Inl e)
    then show ?thesis unfolding grantReply_def Let_def using err by simp
  next
    case (Inr x)
    then have x: "?args = Inr n" by (auto simp: rbind_eq_Inr guard_simps)
    show ?thesis unfolding grantReply_def Let_def x io_pure_exec case_prod_unfold
      by (intro io_rules err rel bind breaker_gate_keeps fairness_gate_keeps keep_roomPressure)
        (simp_all add: at_gate_def base_decision_def)
  qed
qed

end

text \<open>The calls that bind a reply, up to the send.\<close>

locale bind_calls = gate_calls +
  assumes keep_draw: "iokeeps inv (xp_draw ports c n a cfg f)"
    and keep_refund: "iokeeps inv (xp_refund ports c n a cfg)"
    and keep_acquire: "iokeeps inv (iobind (xp_generateLeaseId ports) (\<lambda>lid. xp_acquire ports lid rid ch n x u))"
    and keep_complete: "iokeeps inv (xp_complete ports lid ch t cm n u)"
begin

lemma enforce_keeps: "iokeeps inv (enforceSocialPotDraw (xp_draw ports) cfg cid lane kind a n)"
proof (rule iotripleI)
  fix w r w'
  assume "inv w" "enforceSocialPotDraw (xp_draw ports) cfg cid lane kind a n w = (r, w')"
  then show "inv w'"
    by (cases "assertKnownLane lane"; cases "requirePositiveFiniteAmount a")
      (auto simp: enforceSocialPotDraw_def dest: iotripleD [OF keep_draw] split: if_splits prod.splits sum.splits)
qed

lemma refundDraw_keeps: "iokeeps inv (refundDraw ports cid config u n)"
proof -
  have "iokeeps inv (refundSocialPotDraw (xp_refund ports) cfg cid a n)" for cfg a
    using keep_refund by (cases "requirePositiveFiniteAmount a")
      (auto simp: refundSocialPotDraw_def iotriple_def)
  then show ?thesis unfolding refundDraw_def by (intro io_rules) simp_all
qed

lemma acquire_block_keeps: "iokeeps inv (acquire_block ports cid config res n b u)"
proof -
  have "iokeeps inv (case a of Acq_acquired lease \<Rightarrow> ioret (Inr lease)
     | Acq_declined heldBy reason \<Rightarrow>
         iobind (refundDraw ports cid config u n) (\<lambda>refundOutcome.
         iobind (releaseSilently ports res n) (\<lambda>_.
         ioret (Inl ((base_decision Egress_lease_declined res cid)
           \<lparr>ed_breakerState := Some b, ed_declineReason := Some reason,
            ed_refundOutcome := refundOutcome\<rparr>)))))" for a
    by (cases a) (simp_all, (intro io_rules refundDraw_keeps releaseSilently_keeps, simp_all)+)
  then show ?thesis unfolding acquire_block_def iobind_assoc [symmetric]
    by (intro iokeeps_bind [OF keep_acquire]) simp_all
qed

lemma completeLease_keeps: "iokeeps inv (completeLease ports config l c n)"
  unfolding completeLease_def by (intro io_rules keep_complete) simp_all

text \<open>
  A grant ends without a lease, or goes from the world that drew the lease id to the world where
  the lease is acquired and delivers from there.
\<close>

lemma bind_trace:
  "iotriple inv (bind_and_send ports cid config res conf trig n b)
     (\<lambda>r w'. inv w' \<and> unbound r
       \<or> (\<exists>lease w1 w2. inv w1 \<and> acquired_by ports config res n lease w1 w2 \<and> inv w2
            \<and> deliver_and_complete ports cid config res conf trig n b lease w2 = (r, w')))"
    (is "iotriple _ _ ?Q")
proof -
  have none: "iotriple inv (ioret d) ?Q" if "unbound (Inr d)" for d
    using that by (intro io_rules) auto
  let ?S = "\<lambda>x w2. inv w2 \<and> (\<exists>w1 u. inv w1 \<and> acquire_block ports cid config res n b u w1 = (Inr x, w2))"
  have block: "iotriple inv (acquire_block ports cid config res n b u)
      (\<lambda>r. case r of Inl e \<Rightarrow> inv | Inr x \<Rightarrow> ?S x)" for u
    by (intro iotripleI) (auto dest: iotripleD [OF acquire_block_keeps] split: sum.splits)
  have bound: "iotriple (?S x) (case x of Inl d \<Rightarrow> ioret d
      | Inr lease \<Rightarrow> deliver_and_complete ports cid config res conf trig n b lease) ?Q" for x
  proof (rule iotripleI)
    fix w2 r w'
    assume S: "?S x w2" and k: "(case x of Inl d \<Rightarrow> ioret d
      | Inr lease \<Rightarrow> deliver_and_complete ports cid config res conf trig n b lease) w2 = (r, w')"
    then obtain w1 u where blk: "inv w1" "acquire_block ports cid config res n b u w1 = (Inr x, w2)" by blast
    show "?Q r w'"
    proof (cases x)
      case (Inl d)
      then show ?thesis using acquire_block_Inr [OF blk(2)] S k by (auto simp: ioret_def unbound_def)
    next
      case (Inr lease)
      then have "acquired_by ports config res n lease w1 w2" using acquire_block_Inr [OF blk(2)] by simp
      moreover have "deliver_and_complete ports cid config res conf trig n b lease w2 = (r, w')" using k Inr by simp
      ultimately show ?thesis
        using S blk(1) by (intro disjI2 exI [of _ lease] exI [of _ w1] exI [of _ w2]) simp
    qed
  qed
  show ?thesis unfolding bind_and_send_def
    by (intro iokeeps_try [OF enforce_keeps] iotriple_cases(1) iotriple_try [OF block] bound none
        iokeeps_bind releaseSilently_keeps refundDraw_keeps)
      (simp_all add: unbound_def gate_error_at_def base_decision_def)
qed

lemma grant_trace:
  assumes "grantReply ports cid config res conf trig n w = (r, w')" "inv w"
  shows "inv w' \<and> unbound r
    \<or> ec_mode config = Mode_on \<and> res_status res = Res_reserved
      \<and> (\<exists>b lease w1 w2. inv w1 \<and> acquired_by ports config res n lease w1 w2 \<and> inv w2
           \<and> deliver_and_complete ports cid config res conf trig n b lease w2 = (r, w'))"
proof -
  consider "inv w'" "at_gate r"
    | w1 b where "ec_mode config = Mode_on" "res_status res = Res_reserved" "inv w1"
        "bind_and_send ports cid config res conf trig n b w1 = (r, w')"
    using iotripleD [OF gates_then_bind assms] by auto
  then show ?thesis
  proof cases
    case 1
    then show ?thesis by (simp add: at_gate_def unbound_def)
  next
    case (2 w1 b)
    from iotripleD [OF bind_trace 2(4) 2(3)] 2(1,2) show ?thesis by blast
  qed
qed

end

section \<open>Sends\<close>

text \<open>
  \<open>sent\<close> observes the sends of the world: only the sender appends to it, one entry per call.
\<close>

locale send_log =
  fixes ports :: "'w egress_ports" and inv :: "'w \<Rightarrow> bool"
    and sent :: "'w \<Rightarrow> 's list" and stamp :: "lease_row \<Rightarrow> 'w \<Rightarrow> 's"
  assumes quiet: "bind_calls ports (\<lambda>w. inv w \<and> sent w = s)"
    and deliver_keeps: "iokeeps inv (xp_deliver ports res l cf tr n)"
    and deliver_logs: "xp_deliver ports res l cf tr n w = (r, w') \<Longrightarrow> sent w' = sent w @ [stamp l w]"

sublocale send_log \<subseteq> bind_calls ports "\<lambda>w. inv w \<and> sent w = s" for s
  by (rule quiet)

context send_log
begin

lemma deliver_and_complete_sends:
  "inv w2 \<Longrightarrow> iotriple (\<lambda>w. w = w2) (deliver_and_complete ports cid config res conf trig n b lease)
     (\<lambda>r w'. inv w' \<and> sent w' = sent w2 @ [stamp lease w2])"
proof -
  assume i: "inv w2"
  let ?P = "\<lambda>w. inv w \<and> sent w = sent w2 @ [stamp lease w2]"
  have "iotriple (\<lambda>w. w = w2) (xp_deliver ports res lease conf trig n)
      (\<lambda>r. case r of Inl e \<Rightarrow> ?P | Inr a \<Rightarrow> ?P)"
    using i by (intro iotripleI) (auto dest: deliver_logs iotripleD [OF deliver_keeps] split: sum.splits)
  then show ?thesis
    unfolding deliver_and_complete_def Let_def
    by (rule iotriple_try; intro io_rules completeLease_keeps) simp_all
qed

lemma grant_sends:
  assumes "grantReply ports cid config res conf trig n w = (r, w')" "inv w"
  shows "inv w' \<and> (sent w' = sent w \<and> unbound r
    \<or> (\<exists>b lease w1 w2. inv w1 \<and> acquired_by ports config res n lease w1 w2 \<and> inv w2
         \<and> deliver_and_complete ports cid config res conf trig n b lease w2 = (r, w')
         \<and> sent w' = sent w @ [stamp lease w2]))"
proof -
  have "inv w \<and> sent w = sent w" using assms(2) by simp
  from grant_trace [OF assms(1) this]
  consider "inv w'" "sent w' = sent w" "unbound r"
    | b lease w1 w2 where "inv w1" "acquired_by ports config res n lease w1 w2" "inv w2" "sent w2 = sent w"
        "deliver_and_complete ports cid config res conf trig n b lease w2 = (r, w')"
    by blast
  then show ?thesis
  proof cases
    case 1
    then show ?thesis by simp
  next
    case (2 b lease w1 w2)
    from iotripleD [OF deliver_and_complete_sends [OF 2(3)] 2(5) refl] 2(4)
    have "inv w'" "sent w' = sent w @ [stamp lease w2]" by simp_all
    then show ?thesis using 2 by blast
  qed
qed

end

section \<open>Speak-least fairness\<close>

text \<open>
  What the comparator of \<^verbatim>\<open>selectSpeakLeastWinner\<close> promises: \<open>a\<close> has spoken less recently than \<open>b\<close>
  (never counts as least recent), or at the same instant and less often.
\<close>

definition speaks_before :: "episode_participant \<Rightarrow> episode_participant \<Rightarrow> bool" where
  "speaks_before a b \<longleftrightarrow>
     (case (participant_lastSpokeAtMs a, participant_lastSpokeAtMs b) of
        (None, Some _) \<Rightarrow> True
      | (Some _, None) \<Rightarrow> False
      | (None, None) \<Rightarrow> participant_speakCount a < participant_speakCount b
      | (Some s, Some t) \<Rightarrow> s < t \<or> s = t \<and> participant_speakCount a < participant_speakCount b)"

lemma speak_least_key_le:
  "speak_least_key ps a \<le> speak_least_key ps b \<Longrightarrow> \<not> speaks_before (statOf ps b) (statOf ps a)"
  by (auto simp: speak_least_key_def speaks_before_def Let_def less_eq_prod_def less_prod_def split: option.splits)

lemma speak_least_key_inj: "speak_least_key ps a = speak_least_key ps b \<Longrightarrow> a = b"
  by (simp add: speak_least_key_def Let_def)

lemma hd_sort_key:
  assumes "sort_key f xs = y # ys"
  shows "y \<in> set xs" "x \<in> set xs \<Longrightarrow> f y \<le> f x"
proof -
  have st: "set (sort_key f xs) = set xs" "sorted (map f (sort_key f xs))" by simp_all
  then show "y \<in> set xs" using assms by auto
  show "f y \<le> f x" if "x \<in> set xs" using st assms that by auto
qed

lemma winner_Some:
  "selectSpeakLeastWinner ps cs = Some c \<longleftrightarrow>
     c \<in> set cs \<and> c \<noteq> [] \<and> (\<forall>c' \<in> set cs. c' \<noteq> [] \<longrightarrow> speak_least_key ps c \<le> speak_least_key ps c')"
proof -
  let ?u = "filter (\<lambda>c. c \<noteq> []) (rev (remdups (rev cs)))"
  have u: "set ?u = {c \<in> set cs. c \<noteq> []}" by auto
  show ?thesis
  proof (cases "sort_key (speak_least_key ps) ?u")
    case Nil
    then have "set ?u = {}" by (metis set_sort empty_set)
    then show ?thesis using Nil u by (auto simp: selectSpeakLeastWinner_def)
  next
    case (Cons y ys)
    note h = hd_sort_key [OF Cons]
    have y: "y \<in> {c \<in> set cs. c \<noteq> []}" using h(1) u by blast
    have le: "speak_least_key ps y \<le> speak_least_key ps x" if "x \<in> set cs" "x \<noteq> []" for x
      using h(2) [of x] that u by blast
    have "selectSpeakLeastWinner ps cs = Some y" using Cons by (simp add: selectSpeakLeastWinner_def)
    then show ?thesis using y le by (auto dest: speak_least_key_inj antisym)
  qed
qed

lemma winner_None: "selectSpeakLeastWinner ps cs = None \<longleftrightarrow> (\<forall>c \<in> set cs. c = [])"
proof -
  let ?s = "sort_key (speak_least_key ps) (filter (\<lambda>c. c \<noteq> []) (rev (remdups (rev cs))))"
  have "selectSpeakLeastWinner ps cs = None \<longleftrightarrow> ?s = []"
    by (cases ?s) (simp_all add: selectSpeakLeastWinner_def)
  also have "\<dots> \<longleftrightarrow> set ?s = {}" by (simp only: set_empty)
  also have "set ?s = {c \<in> set cs. c \<noteq> []}" by auto
  finally show ?thesis by blast
qed

text \<open>
  Speak-least selection is fair and deterministic: the winner depends only on the set of
  contenders and not on the order the store lists them in; it is a non-empty contender; no
  contender has spoken less recently, or equally recently and less often; and there is no winner
  only when there is no non-empty contender.
\<close>

theorem speak_least_fair:
  assumes "set cs = set cs'"
  shows "selectSpeakLeastWinner ps cs = selectSpeakLeastWinner ps cs'
    \<and> (selectSpeakLeastWinner ps cs = None \<longleftrightarrow> (\<forall>c \<in> set cs. c = []))
    \<and> (\<forall>c. selectSpeakLeastWinner ps cs = Some c \<longrightarrow> c \<in> set cs \<and> c \<noteq> []
          \<and> (\<forall>c' \<in> set cs. c' \<noteq> [] \<longrightarrow> \<not> speaks_before (statOf ps c') (statOf ps c)))"
proof (intro conjI allI impI)
  show "selectSpeakLeastWinner ps cs = selectSpeakLeastWinner ps cs'"
  proof (cases "selectSpeakLeastWinner ps cs")
    case None
    then show ?thesis using winner_None assms by metis
  next
    case (Some y)
    then have "selectSpeakLeastWinner ps cs' = Some y" using winner_Some assms by metis
    then show ?thesis using Some by simp
  qed
  show "selectSpeakLeastWinner ps cs = None \<longleftrightarrow> (\<forall>c \<in> set cs. c = [])" by (rule winner_None)
  fix c
  assume "selectSpeakLeastWinner ps cs = Some c"
  then have w: "c \<in> set cs" "c \<noteq> []"
    "\<forall>c' \<in> set cs. c' \<noteq> [] \<longrightarrow> speak_least_key ps c \<le> speak_least_key ps c'"
    unfolding winner_Some by blast+
  then show "c \<in> set cs" "c \<noteq> []" by blast+
  show "\<forall>c' \<in> set cs. c' \<noteq> [] \<longrightarrow> \<not> speaks_before (statOf ps c') (statOf ps c)"
    using w(3) speak_least_key_le by blast
qed

definition demo_participants :: "episode_participant list" where
  "demo_participants =
     [\<lparr>participant_companionId = ''a'', participant_speakCount = 2, participant_lastSpokeAtMs = Some 90\<rparr>,
      \<lparr>participant_companionId = ''b'', participant_speakCount = 5, participant_lastSpokeAtMs = Some 40\<rparr>]"

theorem speak_least_fair_witness:
  "selectSpeakLeastWinner demo_participants [''a'', ''b''] = Some ''b''
   \<and> selectSpeakLeastWinner demo_participants [''b'', ''a'', ''a''] = Some ''b''
   \<and> \<not> speaks_before (statOf demo_participants ''a'') (statOf demo_participants ''b'')"
proof -
  have s: "set [''a'', ''b''] = set [''b'', ''a'', ''a'']" by auto
  have w: "selectSpeakLeastWinner demo_participants [''a'', ''b''] = Some ''b''" by code_simp
  show ?thesis using w speak_least_fair [OF s, of demo_participants] by auto
qed

end
