(* ===== verification/Room_World.thy ===== *)
theory Room_World
  imports Arbiter_Behaviour Reservation_Phase Egress_Phase
begin

text \<open>
  The two arbiter phases run against the durable stores: a world holds the arbiter store, the pot
  store, the sends so far and a schedule of store operations by other processes, one block of
  which runs before each arbiter call of the phases. The ICP resolver, the pressure resolver, the
  id factory and the sender are parameters. The locales of the phases are interpreted here.
\<close>

section \<open>Leases are only made by acquisitions, and keep their event\<close>

definition lease_ids :: "arbiter_db \<Rightarrow> string set" where
  "lease_ids db = lease_id ` set (leases db)"

definition lease_ref :: "lease_row \<Rightarrow> string \<times> string \<times> string" where
  "lease_ref l = (lease_id l, lease_channel l, lease_event l)"

definition ids_within :: "string set \<Rightarrow> arbiter_db \<Rightarrow> arbiter_db \<Rightarrow> bool" where
  "ids_within X db db' \<longleftrightarrow> lease_ids db' \<subseteq> lease_ids db \<union> X
     \<and> lease_ref ` set (leases db) \<subseteq> lease_ref ` set (leases db')"

lemma ids_within_order [tx_rules]: "reflp (ids_within X)" "transp (ids_within X)"
  unfolding reflp_def transp_def ids_within_def by blast+

lemma ids_within_same: "leases db' = leases db \<Longrightarrow> ids_within X db db'"
  by (simp add: ids_within_def lease_ids_def)

lemma exec_ids_within: "(\<And>db. ids_within X db (f db)) \<Longrightarrow> tx_within (ids_within X) (exec f)"
  by (intro tx_within_exec) simp

lemma ids_within_update:
  assumes "\<And>l. P l \<Longrightarrow> lease_ref (f l) = lease_ref l"
  shows "ids_within X db (db\<lparr>leases := update_where P f (leases db)\<rparr>)"
proof -
  have "lease_id (f l) = lease_id l" if "P l" for l using assms [OF that] by (simp add: lease_ref_def)
  then show ?thesis using assms by (simp add: ids_within_def lease_ids_def image_update_where)
qed

lemmas ids_within_simps = ids_within_same ids_within_update

lemma lease_rows_same_ref [simp]:
  "lease_ref (expire_lease n l) = lease_ref l" "lease_ref (complete_lease c n l) = lease_ref l"
  by (simp_all add: expire_lease_def complete_lease_def lease_ref_def)

lemma ensureOpenEpisode_ids: "tx_within (ids_within X) (ensureOpenEpisode ch n x)"
  unfolding ensureOpenEpisode_def loadOpenEpisodeRow_def by (intro tx_rules exec_ids_within) (simp_all add: ids_within_simps)

lemma snapshot_ids:
  "tx_within (ids_within X) (loadEpisodeSnapshot i)" "tx_within (ids_within X) (loadOpenEpisodeRow ch)"
  unfolding loadEpisodeSnapshot_def loadOpenEpisodeRow_def by (intro tx_rules)+

lemma txs_ids:
  "tx_within (ids_within X) (ensureRoomEpisode_tx ch n x)"
  "tx_within (ids_within X) (persistBreaker_tx ch b n)"
  "tx_within (ids_within X) (closeRoomEpisode_tx ch n)"
  "tx_within (ids_within X) (recordHumanActivity_tx ch n x)"
  "tx_within (ids_within X) (reserve_tx rid ch ev cid n x' e)"
  "tx_within (ids_within X) (releaseReservation_tx rid ch reason n)"
  "tx_within (ids_within X) (sweep_tx och n)"
  "tx_within (ids_within X) (complete_tx lid ch t c n d)"
  unfolding ensureRoomEpisode_tx_def persistBreaker_tx_def closeRoomEpisode_tx_def
    recordHumanActivity_tx_def reserve_tx_def releaseReservation_tx_def ensureParticipant_def
    sweep_tx_def complete_tx_def record_speech_tx_def Let_def
  by (intro tx_rules exec_ids_within ensureOpenEpisode_ids snapshot_ids; simp add: ids_within_simps)+

lemma acquire_ids: "tx_within (ids_within {lid}) (acquire_tx lid rid ch n x u)"
  unfolding acquire_tx_def grant_tx_def Let_def
  by (intro tx_rules exec_ids_within; simp add: ids_within_simps)
    (auto simp: ids_within_def lease_ids_def fresh_lease_def)

fun op_lease_ids :: "arbiter_op \<Rightarrow> string set" where
  "op_lease_ids (Op_acquire lid rid ch n x u) = {lid}"
| "op_lease_ids _ = {}"

lemma guarded_ids:
  assumes "\<And>x. m = Inr x \<Longrightarrow> ids_within X (store_db st) (store_db (snd (k x st)))"
  shows "ids_within X (store_db st) (store_db (snd (guarded m k st)))"
  using assms by (cases m) (auto simp: ids_within_same)

lemma transaction_ids:
  "tx_within (ids_within X) h \<Longrightarrow> ids_within X (store_db st) (store_db (snd (arbiter_transaction h st)))"
proof (cases "arbiter_transaction h st")
  case (Pair r st')
  assume "tx_within (ids_within X) h"
  then have "ids_within X (store_db st) (store_db st')" using Pair
    by (cases r) (auto simp: store_transaction_Inr store_transaction_Inl ids_within_same intro: tx_withinD)
  then show ?thesis using Pair by simp
qed

lemma apply_op_within: "ids_within (op_lease_ids op) (store_db st) (store_db (apply_op op st))"
proof (cases op)
  case Op_close
  then show ?thesis by (simp add: closeArbiter_def ids_within_same)
next
  case (Op_acquire lid rid ch n x u)
  then show ?thesis
    by (simp only: apply_op.simps acquireEgressLease_def op_lease_ids.simps, intro guarded_ids transaction_ids)
      (simp add: guard_simps acquire_ids)
qed (simp_all add: ensureRoomEpisode_def readRoomEpisode_def readRoomEpisodeBreakerState_def
    persistRoomEpisodeBreakerState_def listActiveReservers_def closeRoomEpisode_def
    recordHumanActivity_def reserve_def releaseReservation_def
    completeEgressLease_def sweepExpired_def,
    (intro guarded_ids transaction_ids txs_ids tx_rules snapshot_ids)+)

lemma apply_op_ids: "lease_ids (store_db (apply_op op st)) \<subseteq> lease_ids (store_db st) \<union> op_lease_ids op"
  using apply_op_within [of op st] by (simp add: ids_within_def)

lemma fold_op_ids:
  "lease_ids (store_db (fold apply_op ops st)) \<subseteq> lease_ids (store_db st) \<union> (\<Union>op \<in> set ops. op_lease_ids op)"
proof (induction ops arbitrary: st)
  case (Cons op ops)
  then show ?case using apply_op_ids [of op st] Cons.IH [of "apply_op op st"] by auto
qed simp

lemma fold_op_refs:
  "lease_ref ` set (leases (store_db st)) \<subseteq> lease_ref ` set (leases (store_db (fold apply_op ops st)))"
proof (induction ops arbitrary: st)
  case (Cons op ops)
  have "lease_ref ` set (leases (store_db st)) \<subseteq> lease_ref ` set (leases (store_db (apply_op op st)))"
    using apply_op_within [of op st] by (simp add: ids_within_def)
  then show ?case using Cons.IH [of "apply_op op st"] by simp
qed simp

section \<open>The world\<close>

record room_world =
  rw_arbiter :: arbiter_store
  rw_pot :: pot_store
  rw_sent :: "(lease_row \<times> arbiter_db) list"
  rw_env :: "arbiter_op list list"
  rw_next :: nat

text \<open>The collaborators the phases are constructed with, over the world.\<close>

record room_services =
  rs_id :: "nat \<Rightarrow> string"
  rs_icp :: "signal_context \<Rightarrow> room_world \<Rightarrow> precedence_input result"
  rs_roomPressure :: "(signal_context \<Rightarrow> room_world \<Rightarrow> jsnum result) option"
  rs_assessment :: "egress_context \<Rightarrow> room_world \<Rightarrow> pressure_assessment result"
  rs_deliver ::
    "reservation_row \<Rightarrow> lease_row \<Rightarrow> jsnum \<Rightarrow> reply_trigger \<Rightarrow> jsnum \<Rightarrow> room_world \<Rightarrow> delivery_result result"

text \<open>A store call: the next block of the schedule runs first, then the operation.\<close>

definition env_block :: "room_world \<Rightarrow> arbiter_op list" where
  "env_block w = (case rw_env w of [] \<Rightarrow> [] | b # _ \<Rightarrow> b)"

definition arbiter_call ::
  "(arbiter_store \<Rightarrow> 'a result \<times> arbiter_store) \<Rightarrow> (room_world, 'a) io" where
  "arbiter_call op w =
     (case op (fold apply_op (env_block w) (rw_arbiter w)) of
        (r, st) \<Rightarrow> (r, w\<lparr>rw_arbiter := st, rw_env := tl (rw_env w)\<rparr>))"

definition pot_call :: "(pot_store \<Rightarrow> 'a result \<times> pot_store) \<Rightarrow> (room_world, 'a) io" where
  "pot_call op w = (case op (rw_pot w) of (r, p) \<Rightarrow> (r, w\<lparr>rw_pot := p\<rparr>))"

definition fresh_id :: "room_services \<Rightarrow> (room_world, string) io" where
  "fresh_id svc w = (Inr (rs_id svc (rw_next w)), w\<lparr>rw_next := Suc (rw_next w)\<rparr>)"

definition query :: "(room_world \<Rightarrow> 'a result) \<Rightarrow> (room_world, 'a) io" where
  "query f w = (f w, w)"

definition pg_reservation_ports :: "room_services \<Rightarrow> room_world reservation_ports" where
  "pg_reservation_ports svc =
     \<lparr>rp_readPot = (\<lambda>cid n cfg. pot_call (readPot cid n cfg)),
      rp_reserve = (\<lambda>rid ch ev cid n x.
        iobind (fresh_id svc) (\<lambda>eid. arbiter_call (reserve rid ch ev cid n x eid))),
      rp_releaseReservation = (\<lambda>rid ch reason n. arbiter_call (releaseReservation rid ch reason n)),
      rp_icpPrecedence = (\<lambda>ctx. query (rs_icp svc ctx)),
      rp_roomPressure = map_option (\<lambda>f ctx. query (f ctx)) (rs_roomPressure svc),
      rp_generateReservationId = fresh_id svc\<rparr>"

definition pg_egress_ports :: "room_services \<Rightarrow> room_world egress_ports" where
  "pg_egress_ports svc =
     \<lparr>xp_readRoomEpisode = (\<lambda>ch. arbiter_call (readRoomEpisode ch)),
      xp_readBreaker = (\<lambda>ch. arbiter_call (readRoomEpisodeBreakerState ch)),
      xp_persistBreaker = (\<lambda>ch s n. arbiter_call (persistRoomEpisodeBreakerState ch s n)),
      xp_listActiveReservers = (\<lambda>ch ev n. arbiter_call (listActiveReservers ch ev n)),
      xp_acquire = (\<lambda>lid rid ch n x u. arbiter_call (acquireEgressLease lid rid ch n x u)),
      xp_complete = (\<lambda>lid ch t c n d. arbiter_call (completeEgressLease lid ch t c n d)),
      xp_releaseReservation = (\<lambda>rid ch reason n. arbiter_call (releaseReservation rid ch reason n)),
      xp_draw = (\<lambda>cid n a cfg f. pot_call (draw cid n a cfg f)),
      xp_refund = (\<lambda>cid n a cfg. pot_call (refund cid n a cfg)),
      xp_roomPressure = (\<lambda>ctx. query (rs_assessment svc ctx)),
      xp_deliver = (\<lambda>res l conf tr n w.
        (rs_deliver svc res l conf tr n w,
         w\<lparr>rw_sent := rw_sent w @ [(l, store_db (rw_arbiter w))]\<rparr>)),
      xp_generateLeaseId = fresh_id svc\<rparr>"

section \<open>The invariant\<close>

text \<open>
  The arbiter store is one the operations reach; the ids still to be drawn are new to its leases
  and the other processes acquire under ids of their own.
\<close>

definition room_ok :: "room_services \<Rightarrow> room_world \<Rightarrow> bool" where
  "room_ok svc w \<longleftrightarrow>
     inj (rs_id svc) \<and> arbiter_reachable (rw_arbiter w)
     \<and> (\<forall>k \<ge> rw_next w. rs_id svc k \<notin> lease_ids (store_db (rw_arbiter w)))
     \<and> (\<forall>b \<in> set (rw_env w). \<forall>op \<in> set b. \<forall>k. rs_id svc k \<notin> op_lease_ids op)"

lemma room_ok_env:
  assumes "room_ok svc w"
  shows "arbiter_reachable (fold apply_op (env_block w) (rw_arbiter w))"
    and "k \<ge> rw_next w \<Longrightarrow> rs_id svc k \<notin> lease_ids (store_db (fold apply_op (env_block w) (rw_arbiter w)))"
    and "b \<in> set (tl (rw_env w)) \<Longrightarrow> b \<in> set (rw_env w)"
proof -
  show "arbiter_reachable (fold apply_op (env_block w) (rw_arbiter w))"
    using assms by (simp add: room_ok_def reachable_fold)
  show "rs_id svc k \<notin> lease_ids (store_db (fold apply_op (env_block w) (rw_arbiter w)))" if "k \<ge> rw_next w"
    using assms that fold_op_ids [of "env_block w" "rw_arbiter w"]
    by (cases "rw_env w") (fastforce simp: room_ok_def env_block_def)+
  show "b \<in> set (tl (rw_env w)) \<Longrightarrow> b \<in> set (rw_env w)" by (cases "rw_env w") auto
qed

text \<open>\<open>room_from svc st w\<close>: the world is sound and its arbiter store descends from \<open>st\<close>.\<close>

definition room_from :: "room_services \<Rightarrow> arbiter_store \<Rightarrow> room_world \<Rightarrow> bool" where
  "room_from svc st w \<longleftrightarrow> room_ok svc w \<and> (\<exists>ops. rw_arbiter w = fold apply_op ops st)"

lemma room_from_same: "room_ok svc w \<Longrightarrow> room_from svc (rw_arbiter w) w"
  unfolding room_from_def by (metis fold_Nil id_apply)

lemma arbiter_call_ok:
  assumes "\<And>st. snd (f st) = apply_op op st" "\<And>k. k \<ge> m \<Longrightarrow> rs_id svc k \<notin> op_lease_ids op"
  shows "iokeeps (\<lambda>w. room_from svc st0 w \<and> rw_next w = m) (arbiter_call f)"
proof (rule iotripleI)
  fix w r w'
  assume ok: "room_from svc st0 w \<and> rw_next w = m" and c: "arbiter_call f w = (r, w')"
  let ?st = "fold apply_op (env_block w) (rw_arbiter w)"
  from ok obtain ops where ok': "room_ok svc w" and m: "rw_next w = m"
    and ops: "rw_arbiter w = fold apply_op ops st0" by (auto simp: room_from_def)
  have w': "w' = w\<lparr>rw_arbiter := apply_op op ?st, rw_env := tl (rw_env w)\<rparr>"
    using c assms(1) [of ?st] by (cases "f ?st") (auto simp: arbiter_call_def)
  have "rs_id svc k \<notin> lease_ids (store_db (apply_op op ?st))" if "k \<ge> m" for k
    using apply_op_ids [of op ?st] room_ok_env(2) [OF ok'] assms(2) [OF that] that m by blast
  then have "room_ok svc w'"
    using ok' m room_ok_env(1,3) [OF ok'] unfolding room_ok_def
    by (simp add: w' reach_step) blast
  moreover have "rw_arbiter w' = fold apply_op (ops @ env_block w @ [op]) st0" using ops by (simp add: w')
  moreover have "rw_next w' = m" using m by (simp add: w')
  ultimately show "room_from svc st0 w' \<and> rw_next w' = m" unfolding room_from_def by blast
qed

lemma arbiter_call_keeps:
  assumes "\<And>st. snd (f st) = apply_op op st" "op_lease_ids op = {}"
  shows "iokeeps (room_from svc st0) (arbiter_call f)"
proof (rule iotripleI)
  fix w r w'
  assume "room_from svc st0 w" "arbiter_call f w = (r, w')"
  then show "room_from svc st0 w'"
    using iotripleD [OF arbiter_call_ok [of f op "rw_next w" svc st0, OF assms(1)]] assms(2) by simp
qed

lemma room_from_frame [simp]:
  "room_from svc st (w\<lparr>rw_pot := p\<rparr>) = room_from svc st w"
  "room_from svc st (w\<lparr>rw_sent := s\<rparr>) = room_from svc st w"
  "room_from svc st w \<Longrightarrow> room_from svc st (w\<lparr>rw_next := Suc (rw_next w)\<rparr>)"
  by (auto simp: room_from_def room_ok_def)

lemma acquire_call_keeps:
  "iokeeps (room_from svc st) (iobind (fresh_id svc) (\<lambda>lid. arbiter_call (acquireEgressLease lid rid ch n x u)))"
proof (rule iotripleI)
  fix w r w'
  assume ok: "room_from svc st w"
    and c: "iobind (fresh_id svc) (\<lambda>lid. arbiter_call (acquireEgressLease lid rid ch n x u)) w = (r, w')"
  let ?w = "w\<lparr>rw_next := Suc (rw_next w)\<rparr>" and ?lid = "rs_id svc (rw_next w)"
  have inj: "inj (rs_id svc)" using ok by (simp add: room_from_def room_ok_def)
  have new: "rs_id svc k \<notin> op_lease_ids (Op_acquire ?lid rid ch n x u)" if "k \<ge> Suc (rw_next w)" for k
    using that injD [OF inj, of k "rw_next w"] by auto
  have "iokeeps (\<lambda>w'. room_from svc st w' \<and> rw_next w' = Suc (rw_next w))
      (arbiter_call (acquireEgressLease ?lid rid ch n x u))"
    by (rule arbiter_call_ok [where op = "Op_acquire ?lid rid ch n x u"]) (use new in simp_all)
  from iotripleD [OF this, of ?w r w'] show "room_from svc st w'"
    using ok c by (simp add: iobind_def fresh_id_def)
qed

lemma arbiter_call_sent: "iokeeps (\<lambda>w. rw_sent w = s) (arbiter_call f)"
  by (intro iotripleI) (auto simp: arbiter_call_def split: prod.splits)

lemma iokeeps_conj: "iokeeps P m \<Longrightarrow> iokeeps Q m \<Longrightarrow> iokeeps (\<lambda>w. P w \<and> Q w) m"
  by (simp add: iotriple_def)

lemma room_bind_calls: "bind_calls (pg_egress_ports svc) (\<lambda>w. room_from svc st w \<and> rw_sent w = s)"
proof
  show "iokeeps (\<lambda>w. room_from svc st w \<and> rw_sent w = s) (xp_readRoomEpisode (pg_egress_ports svc) ch)" for ch
    by (simp add: pg_egress_ports_def, intro iokeeps_conj arbiter_call_sent
        arbiter_call_keeps [where op = "Op_readRoomEpisode ch"]) simp_all
  show "iokeeps (\<lambda>w. room_from svc st w \<and> rw_sent w = s) (xp_readBreaker (pg_egress_ports svc) ch)" for ch
    by (simp add: pg_egress_ports_def, intro iokeeps_conj arbiter_call_sent
        arbiter_call_keeps [where op = "Op_readBreaker ch"]) simp_all
  show "iokeeps (\<lambda>w. room_from svc st w \<and> rw_sent w = s) (xp_persistBreaker (pg_egress_ports svc) ch bs n)" for ch bs n
    by (simp add: pg_egress_ports_def, intro iokeeps_conj arbiter_call_sent
        arbiter_call_keeps [where op = "Op_persistBreaker ch bs n"]) simp_all
  show "iokeeps (\<lambda>w. room_from svc st w \<and> rw_sent w = s)
      (xp_listActiveReservers (pg_egress_ports svc) ch ev n)" for ch ev n
    by (simp add: pg_egress_ports_def, intro iokeeps_conj arbiter_call_sent
        arbiter_call_keeps [where op = "Op_listActiveReservers ch ev n"]) simp_all
  show "iokeeps (\<lambda>w. room_from svc st w \<and> rw_sent w = s)
      (xp_releaseReservation (pg_egress_ports svc) rid ch rs n)" for rid ch rs n
    by (simp add: pg_egress_ports_def, intro iokeeps_conj arbiter_call_sent
        arbiter_call_keeps [where op = "Op_releaseReservation rid ch rs n"]) simp_all
  show "iokeeps (\<lambda>w. room_from svc st w \<and> rw_sent w = s)
      (xp_complete (pg_egress_ports svc) lid ch t cm n u)" for lid ch t cm n u
    by (simp add: pg_egress_ports_def, intro iokeeps_conj arbiter_call_sent
        arbiter_call_keeps [where op = "Op_complete lid ch t cm n u"]) simp_all
  show "iokeeps (\<lambda>w. room_from svc st w \<and> rw_sent w = s) (iobind (xp_generateLeaseId (pg_egress_ports svc))
      (\<lambda>lid. xp_acquire (pg_egress_ports svc) lid rid ch n x u))" for rid ch n x u
    by (simp add: pg_egress_ports_def, intro iokeeps_conj acquire_call_keeps iokeeps_bind arbiter_call_sent)
      (simp_all add: iotriple_def fresh_id_def)
qed (auto simp: pg_egress_ports_def iotriple_def query_def pot_call_def split: prod.splits)

interpretation room_sends:
  send_log "pg_egress_ports svc" "room_from svc st" rw_sent "\<lambda>l w. (l, store_db (rw_arbiter w))" for svc st
  by (intro send_log.intro room_bind_calls) (auto simp: pg_egress_ports_def iotriple_def)

section \<open>Acquired and completed leases\<close>

lemma granted_slot:
  assumes "grant_tx lid rid ch rrow u n x db = Inr (Acq_acquired l, db')" "res_channel rrow = ch"
  shows "lease_id l = lid" "lease_channel l = ch" "lease_reservation l = rid" "lease_event l = res_event rrow"
    "lease_charged l = u"
    "slot_of (event_leases ch (lease_event l) db') = Held_by lid (lease_token l)"
  using grant_tx_Inr [OF assms(1)] assms(2)
  by (auto simp: fresh_lease_def event_leases_def lease_of_event_def slot_of_def)

lemma unspent_slot:
  "arb_inv db \<Longrightarrow> spent_lease ch ev (leases db) = None \<Longrightarrow> slot_of (event_leases ch ev db) \<noteq> Spent_by i t"
  using slot_spent_lease by fastforce

lemma acquire_Inr:
  "acquireEgressLease lid rid ch n x u st = (Inr r, st') \<Longrightarrow>
   \<exists>v db'. acquire_tx lid rid ch (intval n) (intval x) v (store_db st) = Inr (r, db') \<and> st' = st\<lparr>store_db := db'\<rparr>
     \<and> (\<forall>y. u = Some y \<longrightarrow> v = numval y)"
  by (cases u) (auto simp: acquireEgressLease_def guarded_eq_Inr guard_simps store_transaction_Inr)

text \<open>A lease acquired under a new id is held, and its event was not spent.\<close>

lemma acquired_held:
  assumes st: "arbiter_reachable st" and new: "lid \<notin> lease_ids (store_db st)"
    and acq: "acquireEgressLease lid rid ch n x u st = (Inr (Acq_acquired l), st')"
  shows "lease_id l = lid \<and> lease_channel l = ch \<and> lease_reservation l = rid
    \<and> (\<forall>y. u = Some y \<longrightarrow> lease_charged l = numval y)
    \<and> slot_of (event_leases ch (lease_event l) (store_db st')) = Held_by lid (lease_token l)
    \<and> (\<forall>i t. slot_of (event_leases ch (lease_event l) (store_db st)) \<noteq> Spent_by i t)"
proof -
  have inv: "arb_inv (store_db st)" using st by (rule reachable_inv)
  obtain v db' where tx: "acquire_tx lid rid ch (intval n) (intval x) v (store_db st) = Inr (Acq_acquired l, db')"
    and st': "st' = st\<lparr>store_db := db'\<rparr>" and v: "\<forall>y. u = Some y \<longrightarrow> v = numval y"
    using acquire_Inr [OF acq] by blast
  from tx show ?thesis
  proof (cases rule: acquire_tx_cases)
    case (replay k)
    then show ?thesis using new find_Some_iff' [OF replay(1)] by (auto simp: lease_ids_def)
  next
    case (free rrow)
    show ?thesis using granted_slot [OF free(8) free(3)] unspent_slot [OF inv free(6)] v by (simp add: st')
  next
    case (reclaim rrow k db1)
    show ?thesis using granted_slot [OF reclaim(11) reclaim(3)] unspent_slot [OF inv reclaim(6)] v by (simp add: st')
  qed simp_all
qed

text \<open>A completion as delivered leaves the event spent by that lease.\<close>

lemma completed_spent:
  assumes st: "arbiter_reachable st"
    and comp: "completeEgressLease lid ch t Complete_delivered n d st = (Inr l, st')"
  shows "\<exists>ev. lease_event l = ev \<and> slot_of (event_leases ch ev (store_db st')) = Spent_by lid t
    \<and> (\<forall>k \<in> set (leases (store_db st)). lease_id k = lid \<longrightarrow> lease_event k = ev)"
proof -
  have inv: "arb_inv (store_db st)" using st by (rule reachable_inv)
  obtain delta db' where tx: "complete_tx lid ch t Complete_delivered (intval n) delta (store_db st) = Inr (l, db')"
    and st': "st' = st\<lparr>store_db := db'\<rparr>" using completeEgressLease_Inr [OF comp] by blast
  have inv': "arb_inv db'" using tx_withinD [OF complete_within tx] inv by (simp add: arb_rel_def)
  obtain l0 where l0: "find (\<lambda>k. lease_id k = lid) (leases (store_db st)) = Some l0"
      "lease_channel l0 = ch" "lease_token l0 = t"
    and alt: "if lease_status l0 = Lease_held
       then l = complete_lease Complete_delivered (intval n) l0
         \<and> db' = completed_db (store_db st) l0 Complete_delivered (intval n) delta \<and> arbiter_constraints db'
       else lease_reason l0 = Some (speakingCompletionReason Complete_delivered) \<and> l = l0 \<and> db' = store_db st"
    using complete_tx_Inr [OF tx] by blast
  have mem: "l0 \<in> set (leases (store_db st))" "lease_id l0 = lid" using find_Some_iff' [OF l0(1)] by simp_all
  have l: "l \<in> set (leases db') \<and> speech_terminal l \<and> lease_id l = lid \<and> lease_token l = t \<and> lease_channel l = ch
      \<and> lease_event l = lease_event l0"
  proof (cases "lease_status l0 = Lease_held")
    case True
    then show ?thesis using alt mem l0
      by (auto simp: completed_db_def complete_lease_def speech_terminal_def set_update_where Let_def)
  next
    case False
    then show ?thesis using alt mem l0 inv by (auto simp: arb_inv_def reason_ok_def)
  qed
  have "lease_event k = lease_event l0" if "k \<in> set (leases (store_db st))" "lease_id k = lid" for k
    using lease_id_inj that mem inv by (metis arb_inv_def)
  moreover have "slot_of (event_leases ch (lease_event l) db') = Spent_by lid t"
    using spent_slot [OF inv', of l] l by metis
  ultimately show ?thesis using l by (auto simp: st')
qed

section \<open>A grant in the room\<close>

abbreviation room_slot :: "string \<Rightarrow> string \<Rightarrow> room_world \<Rightarrow> slot" where
  "room_slot ch ev w \<equiv> slot_of (event_leases ch ev (store_db (rw_arbiter w)))"

lemma slot_from:
  assumes "room_ok svc w" "room_from svc (rw_arbiter w) w'" "room_slot ch ev w = Spent_by i t"
  shows "room_slot ch ev w' = Spent_by i t"
proof -
  have "arbiter_reachable (rw_arbiter w)" using assms(1) by (simp add: room_ok_def)
  moreover obtain ops where "rw_arbiter w' = fold apply_op ops (rw_arbiter w)"
    using assms(2) by (auto simp: room_from_def)
  ultimately show ?thesis using slot_steps_Spent reachable_slot_steps [of "rw_arbiter w" ch ev ops] assms(3) by simp
qed

lemma acquired_room:
  assumes "room_from svc st w1" "acquired_by (pg_egress_ports svc) config res n lease w1 w2"
  shows "lease_channel lease = res_channel res \<and> lease_reservation lease = res_id res
    \<and> room_slot (lease_channel lease) (lease_event lease) w2 = Held_by (lease_id lease) (lease_token lease)
    \<and> (\<forall>i t. slot_of (event_leases (lease_channel lease) (lease_event lease)
          (store_db (fold apply_op (env_block w1) (rw_arbiter w1)))) \<noteq> Spent_by i t)"
proof -
  have ok: "room_ok svc w1" using assms(1) by (simp add: room_from_def)
  let ?st = "fold apply_op (env_block w1) (rw_arbiter w1)" and ?lid = "rs_id svc (rw_next w1)"
  obtain u where a: "arbiter_call (acquireEgressLease ?lid (res_id res) (res_channel res) n
      (Fin (numval n + numval (ec_leaseTtlMs config))) (Some (Fin u))) (w1\<lparr>rw_next := Suc (rw_next w1)\<rparr>)
    = (Inr (Acq_acquired lease), w2)"
    using assms(2) by (auto simp: acquired_by_def pg_egress_ports_def fresh_id_def)
  then have acq: "acquireEgressLease ?lid (res_id res) (res_channel res) n
      (Fin (numval n + numval (ec_leaseTtlMs config))) (Some (Fin u)) ?st = (Inr (Acq_acquired lease), rw_arbiter w2)"
    by (auto simp: arbiter_call_def env_block_def split: prod.splits)
  from acquired_held [OF room_ok_env(1) [OF ok] room_ok_env(2) [OF ok order_refl] acq]
  show ?thesis by auto
qed

lemma held_slot_lease:
  assumes "slot_of (event_leases ch ev db) = Held_by i t"
  shows "\<exists>k \<in> set (leases db). lease_id k = i \<and> lease_channel k = ch \<and> lease_event k = ev"
proof -
  have "event_leases ch ev db \<noteq> []" "lease_id (last (event_leases ch ev db)) = i"
    using assms by (auto simp: slot_of_def split: if_splits)
  then show ?thesis using last_in_set [of "event_leases ch ev db"]
    by (auto simp: event_leases_def lease_of_event_def)
qed

lemma grant_spends:
  assumes ok: "room_ok svc w"
    and g: "grantReply (pg_egress_ports svc) cid config res conf trig n w = (Inr d, w')"
    and del: "ed_outcome d = Egress_delivered"
  shows "\<exists>l. ed_lease d = Some l \<and> lease_channel l = res_channel res \<and> lease_reservation l = res_id res
    \<and> room_slot (lease_channel l) (lease_event l) w' = Spent_by (lease_id l) (lease_token l)
    \<and> (\<forall>i t. room_slot (lease_channel l) (lease_event l) w \<noteq> Spent_by i t)"
proof -
  let ?st = "rw_arbiter w"
  from room_sends.grant_sends [OF g room_from_same [OF ok]] del
  obtain b l w1 w2 where w1: "room_from svc ?st w1" and w2: "room_from svc ?st w2"
    and acq: "acquired_by (pg_egress_ports svc) config res n l w1 w2"
    and dc: "deliver_and_complete (pg_egress_ports svc) cid config res conf trig n b l w2 = (Inr d, w')"
    by (auto simp: unbound_def)
  note held = acquired_room [OF w1 acq]
  from deliver_and_complete_delivered [OF dc del]
  obtain dl w3 l' where lease: "ed_lease d = Some l"
    and "xp_deliver (pg_egress_ports svc) res l conf trig n w2 = (Inr dl, w3)"
    and "xp_complete (pg_egress_ports svc) (lease_id l) (lease_channel l) (lease_token l) Complete_delivered n
        (Some (ec_replyPressureUnits config)) w3 = (Inr l', w')"
    by blast
  then have c: "completeEgressLease (lease_id l) (lease_channel l) (lease_token l) Complete_delivered n
      (Some (ec_replyPressureUnits config)) (fold apply_op (env_block w2) (rw_arbiter w2)) = (Inr l', rw_arbiter w')"
    by (auto simp: pg_egress_ports_def arbiter_call_def env_block_def split: prod.splits)
  have ok2: "room_ok svc w2" using w2 by (simp add: room_from_def)
  obtain ev where ev: "room_slot (lease_channel l) ev w' = Spent_by (lease_id l) (lease_token l)"
    "\<forall>k \<in> set (leases (store_db (fold apply_op (env_block w2) (rw_arbiter w2)))).
        lease_id k = lease_id l \<longrightarrow> lease_event k = ev"
    using completed_spent [OF room_ok_env(1) [OF ok2] c] by blast
  obtain k where "k \<in> set (leases (store_db (rw_arbiter w2)))" "lease_ref k = (lease_id l, lease_channel l, lease_event l)"
    using held_slot_lease held by (metis lease_ref_def)
  then have "(lease_id l, lease_channel l, lease_event l)
      \<in> lease_ref ` set (leases (store_db (fold apply_op (env_block w2) (rw_arbiter w2))))"
    using fold_op_refs by (metis imageI subsetD)
  then have "ev = lease_event l" using ev(2) by (auto simp: lease_ref_def)
  moreover have "room_slot (lease_channel l) (lease_event l) w \<noteq> Spent_by i t" for i t
  proof
    assume s: "room_slot (lease_channel l) (lease_event l) w = Spent_by i t"
    obtain ops where "rw_arbiter w1 = fold apply_op ops ?st" using w1 by (auto simp: room_from_def)
    then have "fold apply_op (env_block w1) (rw_arbiter w1) = fold apply_op (ops @ env_block w1) ?st" by simp
    moreover have "arbiter_reachable ?st" using ok by (simp add: room_ok_def)
    ultimately have "slot_of (event_leases (lease_channel l) (lease_event l)
        (store_db (fold apply_op (env_block w1) (rw_arbiter w1)))) = Spent_by i t"
      using reachable_slot_steps slot_steps_Spent s by metis
    then show False using held by blast
  qed
  ultimately show ?thesis using lease held ev(1) by auto
qed

section \<open>Many grants\<close>

record grant_call =
  gc_companion :: string
  gc_config :: egress_config
  gc_reservation :: reservation_row
  gc_confidence :: jsnum
  gc_trigger :: reply_trigger
  gc_now :: jsnum

definition run_grant :: "room_services \<Rightarrow> grant_call \<Rightarrow> (room_world, egress_decision) io" where
  "run_grant svc c = grantReply (pg_egress_ports svc) (gc_companion c) (gc_config c) (gc_reservation c)
     (gc_confidence c) (gc_trigger c) (gc_now c)"

fun run_grants ::
  "room_services \<Rightarrow> grant_call list \<Rightarrow> room_world \<Rightarrow> egress_decision result list \<times> room_world" where
  "run_grants svc [] w = ([], w)"
| "run_grants svc (c # cs) w =
     (case run_grant svc c w of (r, w1) \<Rightarrow> case run_grants svc cs w1 of (rs, w2) \<Rightarrow> (r # rs, w2))"

definition spoke_for :: "string \<Rightarrow> string \<Rightarrow> egress_decision result \<Rightarrow> bool" where
  "spoke_for ch ev r \<longleftrightarrow>
     (case r of Inl _ \<Rightarrow> False
      | Inr d \<Rightarrow> ed_outcome d = Egress_delivered
          \<and> (case ed_lease d of None \<Rightarrow> False | Some l \<Rightarrow> lease_channel l = ch \<and> lease_event l = ev))"

lemma spoke_for_spends:
  assumes "room_ok svc w" "run_grant svc c w = (r, w')" "spoke_for ch ev r"
  shows "(\<exists>i t. room_slot ch ev w' = Spent_by i t) \<and> (\<forall>i t. room_slot ch ev w \<noteq> Spent_by i t)"
proof -
  obtain d l where d: "r = Inr d" "ed_outcome d = Egress_delivered" "ed_lease d = Some l"
    "lease_channel l = ch" "lease_event l = ev"
    using assms(3) by (auto simp: spoke_for_def split: sum.splits option.splits)
  show ?thesis using grant_spends [OF assms(1) assms(2) [unfolded run_grant_def d(1)] d(2)] d(3-5) by auto
qed

lemma run_grant_ok: "room_ok svc w \<Longrightarrow> run_grant svc c w = (r, w') \<Longrightarrow> room_from svc (rw_arbiter w) w'"
  unfolding run_grant_def using room_sends.grant_sends room_from_same by metis

lemma run_grants_spent:
  assumes "room_ok svc w" "run_grants svc cs w = (rs, w')" "room_slot ch ev w = Spent_by i t"
  shows "filter (spoke_for ch ev) rs = []"
  using assms
proof (induction cs arbitrary: w rs)
  case (Cons c cs)
  obtain r w1 rs' where r: "run_grant svc c w = (r, w1)" "run_grants svc cs w1 = (rs', w')" "rs = r # rs'"
    using Cons.prems(2) by (auto split: prod.splits)
  have "\<not> spoke_for ch ev r" using spoke_for_spends [OF Cons.prems(1) r(1)] Cons.prems(3) by blast
  moreover have "room_ok svc w1" "room_slot ch ev w1 = Spent_by i t"
    using run_grant_ok [OF Cons.prems(1) r(1)] slot_from [OF Cons.prems(1) _ Cons.prems(3)]
    by (auto simp: room_from_def)
  ultimately show ?case using Cons.IH r by simp
qed simp

text \<open>
  C1. Two companions never both speak for one trigger: in any sequence of egress grants by any
  companions, run against the durable store with any operations of other processes interleaved
  before every store call, at most one grant returns \<open>delivered\<close> with a lease for a given room
  event. The lease ids drawn by the phases are distinct and not used by the other processes.
\<close>

theorem room_speaks_once:
  assumes "room_ok svc w" "run_grants svc calls w = (rs, w')"
  shows "length (filter (spoke_for ch ev) rs) \<le> 1"
  using assms
proof (induction calls arbitrary: w rs)
  case (Cons c cs)
  obtain r w1 rs' where r: "run_grant svc c w = (r, w1)" "run_grants svc cs w1 = (rs', w')" "rs = r # rs'"
    using Cons.prems(2) by (auto split: prod.splits)
  have ok1: "room_ok svc w1" using run_grant_ok [OF Cons.prems(1) r(1)] by (simp add: room_from_def)
  show ?case
  proof (cases "spoke_for ch ev r")
    case True
    then obtain i t where "room_slot ch ev w1 = Spent_by i t"
      using spoke_for_spends [OF Cons.prems(1) r(1)] by blast
    then show ?thesis using run_grants_spent [OF ok1 r(2)] r(3) by simp
  next
    case False
    then show ?thesis using Cons.IH [OF ok1 r(2)] r(3) by simp
  qed
qed simp

text \<open>
  No send without a held lease: a grant calls the sender at most once, and when it does the
  lease it hands over is, in the store at that moment, the one holder of its room event.
\<close>

theorem room_sends_under_lease:
  assumes "room_ok svc w"
    and "grantReply (pg_egress_ports svc) cid config res conf trig n w = (r, w')"
  shows "rw_sent w' = rw_sent w
    \<or> (\<exists>l db. rw_sent w' = rw_sent w @ [(l, db)] \<and> lease_channel l = res_channel res
         \<and> lease_reservation l = res_id res
         \<and> slot_of (event_leases (lease_channel l) (lease_event l) db) = Held_by (lease_id l) (lease_token l))"
proof -
  from room_sends.grant_sends [OF assms(2) room_from_same [OF assms(1)]]
  consider "rw_sent w' = rw_sent w"
    | l w1 w2 where "room_from svc (rw_arbiter w) w1" "acquired_by (pg_egress_ports svc) config res n l w1 w2"
        "rw_sent w' = rw_sent w @ [(l, store_db (rw_arbiter w2))]" by blast
  then show ?thesis
  proof cases
    case (2 l w1 w2)
    then show ?thesis using acquired_room [OF 2(1,2)] by blast
  qed simp
qed

section \<open>A run\<close>

text \<open>Two companions hold reservations for one event; both are granted in turn.\<close>

definition demo_rooms :: arbiter_store where
  "demo_rooms = fold apply_op (butlast demo_ops) empty_arbiter"

definition demo_pots :: pot_store where
  "demo_pots = \<lparr>pot_closed = False,
     pot_table = [demo_id 10 \<mapsto> \<lparr>row_balance = 9, row_lastRegenAtMs = 0, row_revision = 1\<rparr>,
                  demo_id 11 \<mapsto> \<lparr>row_balance = 9, row_lastRegenAtMs = 0, row_revision = 1\<rparr>]\<rparr>"

definition demo_calm :: pressure_assessment where
  "demo_calm = \<lparr>pstate_level = Calm, pstate_wrapUpInvited = False, pstate_leaseThresholdBias = 0,
     assess_channelId = ''room'', assess_pressure = 0, assess_contributingEventCount = 0,
     assess_windowStartMs = 0, assess_evaluatedAtMs = 50\<rparr>"

definition demo_services :: room_services where
  "demo_services = \<lparr>rs_id = (\<lambda>k. if k < 16 then demo_id k else replicate k (CHR ''x'')),
     rs_icp = (\<lambda>_ _. Inr \<lparr>prec_availabilityState = None, prec_icpTurnFenced = False, prec_icpFatigueExhausted = False\<rparr>),
     rs_roomPressure = None, rs_assessment = (\<lambda>_ _. Inr demo_calm),
     rs_deliver = (\<lambda>_ _ _ _ _ _. Inr \<lparr>delivery_outcome = Delivery_delivered, delivery_detail = None\<rparr>)\<rparr>"

definition demo_world :: room_world where
  "demo_world = \<lparr>rw_arbiter = demo_rooms, rw_pot = demo_pots, rw_sent = [], rw_env = [], rw_next = 5\<rparr>"

definition demo_egress_config :: egress_config where
  "demo_egress_config = \<lparr>ec_mode = Mode_on, ec_leaseTtlMs = Fin 100, ec_egressDrawUnits = Fin 2,
     ec_minReplyConfidence = Fin (1/2), ec_socialPot = demo_pot_config, ec_breaker = demo_breaker_config,
     ec_wrapUpThreshold = Fin 10, ec_replyPressureUnits = Fin 4\<rparr>"

definition demo_call :: "nat \<Rightarrow> reservation_row \<Rightarrow> real \<Rightarrow> grant_call" where
  "demo_call c res n = \<lparr>gc_companion = demo_id c, gc_config = demo_egress_config, gc_reservation = res,
     gc_confidence = Fin 1, gc_trigger = Inbound_room_message ''room'' ''event'' (Fin 10), gc_now = Fin n\<rparr>"

definition demo_calls :: "grant_call list" where
  "demo_calls = [demo_call 10 (demo_reservation 1 10 10) 20, demo_call 11 (demo_reservation 2 11 12) 40]"

lemma demo_rooms_eval: "demo_rooms = \<lparr>store_closed = False, store_db =
     \<lparr>episodes = [demo_episode],
      participation = [\<lparr>part_episode = demo_id 3, part_companion = demo_id 10, part_speakCount = 0,
                        part_lastSpokeAt = None\<rparr>,
                       \<lparr>part_episode = demo_id 3, part_companion = demo_id 11, part_speakCount = 0,
                        part_lastSpokeAt = None\<rparr>],
      reservations = [demo_reservation 1 10 10, demo_reservation 2 11 12],
      leases = []\<rparr>\<rparr>"
  by code_simp

lemma demo_services_inj: "inj (rs_id demo_services)"
proof (rule injI)
  fix i j
  assume eq: "rs_id demo_services i = rs_id demo_services j"
  have x: "CHR ''x'' \<notin> set (demo_id k)" if "k < 16" for k
  proof -
    have "''0123456789abcdef'' ! k \<in> set ''0123456789abcdef''" using that by (intro nth_mem) simp
    then show ?thesis by (auto simp: demo_id_def)
  qed
  show "i = j"
  proof (cases "i < 16")
    case i: True
    show ?thesis
    proof (cases "j < 16")
      case True
      then show ?thesis using eq i by (simp add: demo_services_def)
    next
      case False
      then have "CHR ''x'' \<in> set (rs_id demo_services j)" by (simp add: demo_services_def)
      then show ?thesis using eq i x [of i] by (simp add: demo_services_def)
    qed
  next
    case i: False
    then have xi: "CHR ''x'' \<in> set (rs_id demo_services i)" by (simp add: demo_services_def)
    show ?thesis
    proof (cases "j < 16")
      case True
      then show ?thesis using eq xi x [of j] by (simp add: demo_services_def)
    next
      case False
      then have "length (replicate i (CHR ''x'')) = length (replicate j (CHR ''x''))"
        using eq i by (simp add: demo_services_def)
      then show ?thesis by simp
    qed
  qed
qed

lemma demo_rooms_reachable: "arbiter_reachable demo_rooms"
  unfolding demo_rooms_def by (intro reachable_fold reach_init)

lemma demo_world_ok: "room_ok demo_services demo_world"
proof -
  have "leases (store_db demo_rooms) = []" by (simp add: demo_rooms_eval)
  then show ?thesis
    using demo_services_inj demo_rooms_reachable by (simp add: room_ok_def demo_world_def lease_ids_def)
qed

lemma demo_run:
  "map (map_sum id ed_outcome) (fst (run_grants demo_services demo_calls demo_world))
   = [Inr Egress_delivered, Inr Egress_lease_declined]"
  unfolding demo_world_def demo_rooms_eval by code_simp

lemma demo_run_first:
  "spoke_for ''room'' ''event'' (hd (fst (run_grants demo_services demo_calls demo_world)))"
  unfolding demo_world_def demo_rooms_eval by code_simp

theorem room_speaks_once_witness:
  "length (filter (spoke_for ''room'' ''event'') (fst (run_grants demo_services demo_calls demo_world))) = 1"
proof -
  let ?rs = "fst (run_grants demo_services demo_calls demo_world)"
  have "length (filter (spoke_for ''room'' ''event'') ?rs) \<le> 1"
    using room_speaks_once [OF demo_world_ok, of demo_calls ?rs] by (metis prod.collapse)
  moreover have "length ?rs = 2" using arg_cong [OF demo_run, of length] by simp
  then have "?rs \<noteq> []" by auto
  then have "filter (spoke_for ''room'' ''event'') ?rs \<noteq> []"
    using demo_run_first by (auto simp: filter_empty_conv intro: hd_in_set bexI [where x = "hd ?rs"])
  ultimately show ?thesis by (cases "filter (spoke_for ''room'' ''event'') ?rs") auto
qed

theorem room_sends_under_lease_witness:
  "map (lease_id \<circ> fst) (rw_sent (snd (run_grant demo_services (hd demo_calls) demo_world))) = [demo_id 5]
   \<and> (\<exists>l db. rw_sent (snd (run_grant demo_services (hd demo_calls) demo_world)) = [(l, db)]
        \<and> slot_of (event_leases (lease_channel l) (lease_event l) db) = Held_by (lease_id l) (lease_token l))"
proof -
  let ?w = "snd (run_grant demo_services (hd demo_calls) demo_world)"
  have ids: "map (lease_id \<circ> fst) (rw_sent ?w) = [demo_id 5]"
    unfolding demo_world_def demo_rooms_eval by code_simp
  obtain r where "run_grant demo_services (hd demo_calls) demo_world = (r, ?w)" by (metis prod.collapse)
  from room_sends_under_lease [OF demo_world_ok this [unfolded run_grant_def]]
  show ?thesis using ids by (auto simp: demo_world_def run_grant_def)
qed

end
