(* ===== verification/Room_Admission.thy ===== *)
theory Room_Admission
  imports Room_World
begin

text \<open>
  The reservation phase against the durable stores: what a gated and what a reserved candidate
  leave behind, with the operations of other processes interleaved.
\<close>

section \<open>A gated candidate\<close>

text \<open>\<open>others_only st env w\<close>: the arbiter store is what the other processes alone made of \<open>st\<close>.\<close>

definition others_only :: "arbiter_store \<Rightarrow> arbiter_op list list \<Rightarrow> room_world \<Rightarrow> bool" where
  "others_only st env w \<longleftrightarrow>
     (\<exists>blocks. env = blocks @ rw_env w \<and> rw_arbiter w = fold apply_op (concat blocks) st)"

lemma others_only_refl [simp]: "others_only (rw_arbiter w) (rw_env w) w"
  by (auto simp: others_only_def intro: exI [of _ "[]"])

lemma others_only_frame [simp]:
  "others_only st env (w\<lparr>rw_pot := p\<rparr>) = others_only st env w"
  "others_only st env (w\<lparr>rw_next := k\<rparr>) = others_only st env w"
  by (simp_all add: others_only_def)

lemma others_only_block:
  assumes "others_only st env w"
  shows "others_only st env
    (w\<lparr>rw_arbiter := fold apply_op (env_block w) (rw_arbiter w), rw_env := tl (rw_env w)\<rparr>)"
proof (cases "rw_env w")
  case Nil
  then show ?thesis using assms by (simp add: others_only_def env_block_def)
next
  case (Cons b bs)
  obtain blocks where "env = blocks @ rw_env w" "rw_arbiter w = fold apply_op (concat blocks) st"
    using assms by (auto simp: others_only_def)
  then have "env = (blocks @ [b]) @ bs" "fold apply_op b (rw_arbiter w) = fold apply_op (concat (blocks @ [b])) st"
    using Cons by simp_all
  then show ?thesis using Cons unfolding others_only_def by (auto simp: env_block_def simp del: append_assoc)
qed

lemma reserve_Inl: "reserve rid ch ev cid n x f st = (Inl e, st') \<Longrightarrow> st' = st"
  by (auto simp: reserve_def guarded_eq_Inl store_transaction_Inl)

interpretation room_reservation: reservation_world "pg_reservation_ports svc" "others_only st env" for svc st env
proof
  fix rid ch ev c n x w e w'
  assume r: "rp_reserve (pg_reservation_ports svc) rid ch ev c n x w = (Inl e, w')" and o: "others_only st env w"
  let ?w = "w\<lparr>rw_next := Suc (rw_next w)\<rparr>"
  have "reserve rid ch ev c n x (rs_id svc (rw_next w)) (fold apply_op (env_block ?w) (rw_arbiter ?w))
      = (Inl e, rw_arbiter w') \<and> w' = ?w\<lparr>rw_arbiter := rw_arbiter w', rw_env := tl (rw_env ?w)\<rparr>"
    using r by (auto simp: pg_reservation_ports_def iobind_def fresh_id_def arbiter_call_def split: prod.splits)
  then have "w' = ?w\<lparr>rw_arbiter := fold apply_op (env_block ?w) (rw_arbiter ?w), rw_env := tl (rw_env ?w)\<rparr>"
    using reserve_Inl by metis
  then show "others_only st env w'" using others_only_block [of st env ?w] o by simp
qed (auto simp: pg_reservation_ports_def iotriple_def pot_call_def query_def fresh_id_def split: prod.splits)

text \<open>
  C14. The reservation phase fails closed: it always returns a decision, and when that decision is
  \<open>gated\<close> (a gate refused, a signal or the store failed) it has written nothing to the arbiter's
  tables: they are what the other processes alone made of them.
\<close>

theorem reservation_fails_closed:
  "\<exists>d w'. reserveCandidate (pg_reservation_ports svc) cid config ch ev n w = (Inr d, w')
     \<and> (\<forall>b a s. d = Phase_gated b a s \<longrightarrow>
          (\<exists>blocks. rw_env w = blocks @ rw_env w'
             \<and> rw_arbiter w' = fold apply_op (concat blocks) (rw_arbiter w)))"
proof -
  obtain d w' where d: "reserveCandidate (pg_reservation_ports svc) cid config ch ev n w = (Inr d, w')"
    using reserveCandidate_returns [of "pg_reservation_ports svc" cid config ch ev n w] by (elim exE)
  moreover have "others_only (rw_arbiter w) (rw_env w) w'" if "d = Phase_gated b a s" for b a s
    using room_reservation.gated_inert [OF d [unfolded that] others_only_refl] .
  ultimately show ?thesis unfolding others_only_def by blast
qed

section \<open>A reserved candidate\<close>

lemma optional_gate_room:
  assumes "optional_gate (pg_reservation_ports svc) config ctx w = (Inr False, w')"
  shows "w' = w \<and> (\<forall>f. rs_roomPressure svc = Some f \<longrightarrow>
    (\<exists>p. f ctx w = Inr p \<and> numval p < numval (tripThreshold (rpc_breaker config))))"
  using assms
  by (cases "rs_roomPressure svc")
    (auto simp: optional_gate_def pg_reservation_ports_def pressure_gate_def query_def io_Inr guard_simps
      assertRoomEpisodeCircuitBreakerConfig_def rbind_eq_Inr split: if_splits)

lemma reserved_row:
  assumes "reserve rid ch ev cid n x f st = (Inr res, st')"
  shows "reservation_for ch ev cid (store_db st') = Some (reserve_reservation res)"
proof -
  obtain db' where tx: "reserve_tx rid ch ev cid (intval n) (intval x) f (store_db st) = Inr (res, db')"
    and st': "st' = st\<lparr>store_db := db'\<rparr>" using reserve_Inr [OF assms] by blast
  show ?thesis using reserve_tx_Inr [OF tx]
  proof
    assume *: "reservation_for ch ev cid (store_db st) = None \<and> reserve_outcome res = Reserve_reserved
      \<and> (\<exists>eid. reserve_reservation res = fresh_reservation rid ch ev cid eid (intval n) (intval x))
      \<and> reservations db' = reservations (store_db st) @ [reserve_reservation res]"
    then show ?thesis
      using reservation_for_append [of ch ev cid "store_db st" db' "reserve_reservation res"]
      by (auto simp: st' fresh_reservation_def)
  qed (auto simp: st' reservation_for_def)
qed

text \<open>
  A candidate is reserved only through every gate: ICP precedence admits it, the room
  pressure (where a source is wired) is below the trip threshold, the pot holds the minimum
  draw, the pot is charged nothing beyond its own regeneration, and the store's row for this
  channel, event and companion is the reservation returned.
\<close>

theorem reservation_needs_all_gates:
  assumes "reserveCandidate (pg_reservation_ports svc) cid config ch ev n w = (Inr (Phase_reserved r e rep), w')"
  shows "(\<exists>i. rs_icp svc (signal_of cid ch ev n) w = Inr i \<and> resolveIcpSocialPrecedence i = Admitted)
    \<and> (\<forall>f. rs_roomPressure svc = Some f \<longrightarrow>
         (\<exists>p. f (signal_of cid ch ev n) w = Inr p \<and> numval p < numval (tripThreshold (rpc_breaker config))))
    \<and> (\<exists>pot. readPot cid n (toStoreConfig (rpc_socialPot config)) (rw_pot w) = (Inr pot, rw_pot w')
         \<and> numval (rpc_minReserveDrawUnits config) \<le> snap_balance pot)
    \<and> reservation_for ch ev cid (store_db (rw_arbiter w')) = Some r
    \<and> rw_sent w' = rw_sent w"
proof -
  let ?p = "pg_reservation_ports svc" and ?ctx = "signal_of cid ch ev n"
  from reserved_gates [OF assms] obtain i w1 w2 pot w3 rid w4 res where
    i: "rp_icpPrecedence ?p ?ctx w = (Inr i, w1)" "resolveIcpSocialPrecedence i = Admitted"
    and g: "optional_gate ?p config ?ctx w1 = (Inr False, w2)"
    and pot: "rp_readPot ?p cid n (toStoreConfig (rpc_socialPot config)) w2 = (Inr pot, w3)"
      "numval (rpc_minReserveDrawUnits config) \<le> snap_balance pot"
    and gen: "rp_generateReservationId ?p w3 = (Inr rid, w4)"
    and res: "rp_reserve ?p rid ch ev cid n (Fin (numval n + numval (rpc_reservationTtlMs config))) w4 = (Inr res, w')"
      "r = reserve_reservation res"
    by blast
  have w1: "w1 = w" "rs_icp svc ?ctx w = Inr i" using i(1) by (auto simp: pg_reservation_ports_def query_def)
  note w2 = optional_gate_room [OF g, unfolded w1(1)]
  have w3: "readPot cid n (toStoreConfig (rpc_socialPot config)) (rw_pot w) = (Inr pot, rw_pot w3)"
    "rw_sent w3 = rw_sent w"
    using pot(1) w2 by (auto simp: pg_reservation_ports_def pot_call_def split: prod.splits)
  have w4: "rw_pot w4 = rw_pot w3" "rw_sent w4 = rw_sent w3"
    using gen by (auto simp: pg_reservation_ports_def fresh_id_def)
  have "\<exists>f st. reserve rid ch ev cid n (Fin (numval n + numval (rpc_reservationTtlMs config))) f st
      = (Inr res, rw_arbiter w') \<and> rw_pot w' = rw_pot w4 \<and> rw_sent w' = rw_sent w4"
    using res(1) by (auto simp: pg_reservation_ports_def iobind_def fresh_id_def arbiter_call_def
        split: prod.splits intro!: exI)
  then have "reservation_for ch ev cid (store_db (rw_arbiter w')) = Some r"
    "rw_pot w' = rw_pot w4" "rw_sent w' = rw_sent w4"
    using reserved_row res(2) by blast+
  then show ?thesis using w1 w2 w3 w4 i(2) pot(2) by simp
qed

section \<open>Runs\<close>

definition demo_phase_config :: reservation_phase_config where
  "demo_phase_config = \<lparr>rpc_reservationTtlMs = Fin 500, rpc_minReserveDrawUnits = Fin 2,
     rpc_socialPot = demo_pot_config, rpc_breaker = demo_breaker_config, rpc_wrapUpThreshold = Fin 10\<rparr>"

definition demo_fenced :: room_services where
  "demo_fenced = demo_services\<lparr>rs_icp := (\<lambda>_ _. Inr \<lparr>prec_availabilityState = None,
     prec_icpTurnFenced = True, prec_icpFatigueExhausted = False\<rparr>)\<rparr>"

theorem reservation_fails_closed_witness:
  "\<exists>w'. reserveCandidate (pg_reservation_ports demo_fenced) (demo_id 12) demo_phase_config ''room'' ''event''
      (Fin 20) demo_world = (Inr (Phase_gated (Gate_icp Icp_turn_fenced) None None), w')
    \<and> rw_arbiter w' = rw_arbiter demo_world"
proof -
  have f: "fst (reserveCandidate (pg_reservation_ports demo_fenced) (demo_id 12) demo_phase_config ''room'' ''event''
      (Fin 20) demo_world) = Inr (Phase_gated (Gate_icp Icp_turn_fenced) None None)"
    unfolding demo_world_def demo_rooms_eval by code_simp
  have env: "rw_env demo_world = []" by (simp add: demo_world_def)
  from reservation_fails_closed [of demo_fenced "demo_id 12" demo_phase_config "''room''" "''event''" "Fin 20" demo_world]
  show ?thesis using f env by auto
qed

definition demo_reserved :: "reservation_decision result \<times> room_world" where
  "demo_reserved = reserveCandidate (pg_reservation_ports demo_services) (demo_id 11) demo_phase_config
     ''room'' ''later'' (Fin 20) demo_world"

theorem reservation_needs_all_gates_witness:
  "\<exists>r e rep. fst demo_reserved = Inr (Phase_reserved r e rep)
     \<and> reservation_for ''room'' ''later'' (demo_id 11) (store_db (rw_arbiter (snd demo_reserved))) = Some r"
proof -
  have "(case fst demo_reserved of Inr (Phase_reserved r e rep) \<Rightarrow> True | _ \<Rightarrow> False)"
    unfolding demo_reserved_def demo_world_def demo_rooms_eval by code_simp
  then obtain r e rep where r: "fst demo_reserved = Inr (Phase_reserved r e rep)"
    by (auto split: sum.splits reservation_decision.splits)
  then have "reserveCandidate (pg_reservation_ports demo_services) (demo_id 11) demo_phase_config
     ''room'' ''later'' (Fin 20) demo_world = (Inr (Phase_reserved r e rep), snd demo_reserved)"
    unfolding demo_reserved_def by (metis prod.collapse)
  from reservation_needs_all_gates [OF this] show ?thesis using r by blast
qed

end
