(* ===== verification/Participation_Lease.thy ===== *)
theory Participation_Lease
  imports Prelude "HOL-Library.List_Lexorder" "HOL-Library.Char_ord" "HOL-Library.Product_Lexorder"
begin

text \<open>
  The bounded room-participation lease: the continuation gate
  (\<^verbatim>\<open>src/src/core/participation/room-participation-lease.ts\<close>), its table with one conditional
  statement per operation (\<^verbatim>\<open>src/src/persistence/postgres/room-participation-lease-store.ts\<close>) and
  the coordinator that joins them
  (\<^verbatim>\<open>src/src/core/participation/room-participation-lease-coordinator.ts\<close>). The order PostgreSQL
  compares message ids by is the collation of the database, a parameter here.
\<close>

section \<open>Data\<close>

datatype room_disposition =
  Direct_summons | Passive_summons | Disposed_reaction | Disposed_reply | Endogenous_room_entry

datatype close_reason =
  Close_expiry | Close_silence | Close_message_cap | Close_machine_streak | Close_withdrawn
| Close_fatigue | Close_room_pressure | Close_policy_off

datatype participation_status = Lease_active | Lease_closed

record participation_row =
  pl_companion :: string
  pl_channel :: string
  pl_status :: participation_status
  pl_openedDisposition :: room_disposition
  pl_openedAt :: int
  pl_lastActivityAt :: int
  pl_expiresAt :: int
  pl_watermarkMessage :: string
  pl_watermarkTimestamp :: int
  pl_consideredCount :: int
  pl_ignoreStreak :: int
  pl_machineStreak :: int
  pl_closedAt :: "int option"
  pl_closeReason :: "close_reason option"
  pl_revision :: int

record room_observation =
  obs_messageId :: string
  obs_timestampMs :: jsnum
  obs_authorIsMachine :: bool
  obs_contentLength :: nat

datatype lease_suppression =
  Suppress_policy_off | Suppress_expired | Suppress_silent | Suppress_message_cap
| Suppress_machine_streak | Suppress_watermark | Suppress_cooldown | Suppress_low_signal
| Suppress_claim_lost

datatype continuation_decision =
  Continue_admit
| Continue_absent
| Continue_suppressed lease_suppression
| Continue_close close_reason lease_suppression

record open_on_settings =
  openOn_directSummons :: bool
  openOn_passiveSummons :: bool
  openOn_reaction :: bool
  openOn_reply :: bool
  openOn_endogenousRoomEntry :: bool

record lease_settings =
  ls_enabled :: bool
  ls_leaseTtlMs :: jsnum
  ls_silenceTimeoutMs :: jsnum
  ls_continuationCooldownMs :: jsnum
  ls_maxContinuationCandidates :: jsnum
  ls_maxConsecutiveMachineContinuations :: jsnum
  ls_maxConsecutiveIgnores :: jsnum
  ls_minContentChars :: jsnum
  ls_openOn :: open_on_settings

definition createDefaultRoomParticipationLeaseSettings :: lease_settings where
  "createDefaultRoomParticipationLeaseSettings =
     \<lparr>ls_enabled = False, ls_leaseTtlMs = Fin (15 * 60 * 1000), ls_silenceTimeoutMs = Fin (5 * 60 * 1000),
      ls_continuationCooldownMs = Fin (20 * 1000), ls_maxContinuationCandidates = Fin 6,
      ls_maxConsecutiveMachineContinuations = Fin 2, ls_maxConsecutiveIgnores = Fin 3,
      ls_minContentChars = Fin 8,
      ls_openOn = \<lparr>openOn_directSummons = False, openOn_passiveSummons = False, openOn_reaction = True,
                   openOn_reply = True, openOn_endogenousRoomEntry = True\<rparr>\<rparr>"

section \<open>The continuation gate\<close>

definition isAfterWatermark :: "room_observation \<Rightarrow> participation_row \<Rightarrow> bool" where
  "isAfterWatermark observation watermark =
     (if \<not> js_eq (obs_timestampMs observation) (jsint (pl_watermarkTimestamp watermark))
      then js_lt (jsint (pl_watermarkTimestamp watermark)) (obs_timestampMs observation)
      else obs_messageId observation > pl_watermarkMessage watermark)"

definition evaluateRoomParticipationContinuation ::
  "participation_row option \<Rightarrow> room_observation \<Rightarrow> lease_settings \<Rightarrow> jsnum \<Rightarrow> continuation_decision" where
  "evaluateRoomParticipationContinuation lease0 observation settings nowMs =
     (case lease0 of
        None \<Rightarrow> Continue_absent
      | Some lease \<Rightarrow>
          if pl_status lease \<noteq> Lease_active then Continue_absent
          else if \<not> ls_enabled settings then Continue_close Close_policy_off Suppress_policy_off
          else if js_le (jsint (pl_expiresAt lease)) nowMs then Continue_close Close_expiry Suppress_expired
          else if js_le (ls_silenceTimeoutMs settings) (js_minus nowMs (jsint (pl_lastActivityAt lease)))
            then Continue_close Close_silence Suppress_silent
          else if js_le (ls_maxContinuationCandidates settings) (jsint (pl_consideredCount lease))
            then Continue_close Close_message_cap Suppress_message_cap
          else if obs_authorIsMachine observation
              \<and> js_le (ls_maxConsecutiveMachineContinuations settings) (jsint (pl_machineStreak lease))
            then Continue_close Close_machine_streak Suppress_machine_streak
          else if \<not> isAfterWatermark observation lease then Continue_suppressed Suppress_watermark
          else if js_lt (js_minus nowMs (jsint (pl_lastActivityAt lease))) (ls_continuationCooldownMs settings)
            then Continue_suppressed Suppress_cooldown
          else if js_lt (jsint (int (obs_contentLength observation))) (ls_minContentChars settings)
            then Continue_suppressed Suppress_low_signal
          else Continue_admit)"

section \<open>The table\<close>

definition INT4_LIMIT :: int where "INT4_LIMIT = 2147483647"

definition INT8_LIMIT :: int where "INT8_LIMIT = 9223372036854775807"

definition participation_check :: "participation_row \<Rightarrow> bool" where
  "participation_check r \<longleftrightarrow>
     0 \<le> pl_openedAt r \<and> 0 \<le> pl_lastActivityAt r \<and> pl_openedAt r < pl_expiresAt r
     \<and> 0 \<le> pl_watermarkTimestamp r
     \<and> 0 \<le> pl_consideredCount r \<and> pl_consideredCount r \<le> INT4_LIMIT
     \<and> 0 \<le> pl_ignoreStreak r \<and> pl_ignoreStreak r \<le> INT4_LIMIT
     \<and> 0 \<le> pl_machineStreak r \<and> pl_machineStreak r \<le> INT4_LIMIT
     \<and> 1 \<le> pl_revision r \<and> pl_revision r \<le> INT8_LIMIT
     \<and> (pl_status r = Lease_closed) = (pl_closedAt r \<noteq> None)
     \<and> (pl_status r = Lease_closed) = (pl_closeReason r \<noteq> None)"

type_synonym participation_rows = "string \<times> string \<Rightarrow> participation_row option"

type_synonym participation_store = "participation_rows pg_store"

text \<open>
  One conditional statement on the row of a companion and room, outside any transaction: it is
  refused by a failing constraint, and otherwise committed before the row is read back.
\<close>

definition lease_statement ::
  "string \<times> string \<Rightarrow> (participation_row option \<Rightarrow> participation_row option) \<Rightarrow> participation_store \<Rightarrow>
     participation_row option result \<times> participation_store" where
  "lease_statement k f st =
     (if store_closed st then (Inl (Error ''room participation lease store is closed''), st)
      else (case f (store_db st k) of
              None \<Rightarrow> (Inr None, st)
            | Some r \<Rightarrow> if participation_check r then (Inr (Some r), st\<lparr>store_db := (store_db st)(k \<mapsto> r)\<rparr>)
                        else (Inl (DatabaseError ''constraint violation''), st)))"

definition toLeaseView :: "participation_row \<Rightarrow> participation_row result" where
  "toLeaseView row =
     rbind (requireSafeInteger (pl_openedAt row) ''roomParticipationLease.openedAtMs'') (\<lambda>_.
     rbind (requireSafeInteger (pl_lastActivityAt row) ''roomParticipationLease.lastActivityAtMs'') (\<lambda>_.
     rbind (requireSafeInteger (pl_expiresAt row) ''roomParticipationLease.expiresAtMs'') (\<lambda>_.
     rbind (requireSafeInteger (pl_watermarkTimestamp row) ''roomParticipationLease.watermarkTimestampMs'') (\<lambda>_.
     rbind (requireSafeInteger (pl_consideredCount row) ''roomParticipationLease.consideredCount'') (\<lambda>_.
     rbind (requireSafeInteger (pl_ignoreStreak row) ''roomParticipationLease.ignoreStreak'') (\<lambda>_.
     rbind (requireSafeInteger (pl_machineStreak row) ''roomParticipationLease.machineStreak'') (\<lambda>_.
     rbind (case pl_closedAt row of None \<Rightarrow> Inr 0
            | Some t \<Rightarrow> requireSafeInteger t ''roomParticipationLease.closedAtMs'') (\<lambda>_.
     rbind (requireSafeInteger (pl_revision row) ''roomParticipationLease.revision'') (\<lambda>_. Inr row)))))))))"

definition lease_returning ::
  "participation_row option result \<times> participation_store \<Rightarrow> participation_row option result \<times> participation_store" where
  "lease_returning out =
     (case out of
        (Inr (Some r), st) \<Rightarrow> (rbind (toLeaseView r) (\<lambda>v. Inr (Some v)), st)
      | (x, st) \<Rightarrow> (x, st))"

section \<open>Store operations\<close>

type_synonym collation = "string \<Rightarrow> string \<Rightarrow> bool"

text \<open>\<^verbatim>\<open>(ts, id) > (ts', id')\<close>, a row comparison.\<close>

definition mark_after :: "collation \<Rightarrow> int \<times> string \<Rightarrow> int \<times> string \<Rightarrow> bool" where
  "mark_after tless a b \<longleftrightarrow> fst a > fst b \<or> fst a = fst b \<and> tless (snd b) (snd a)"

definition row_mark :: "participation_row \<Rightarrow> int \<times> string" where
  "row_mark r = (pl_watermarkTimestamp r, pl_watermarkMessage r)"

definition advance_mark :: "collation \<Rightarrow> int \<Rightarrow> string \<Rightarrow> participation_row \<Rightarrow> participation_row" where
  "advance_mark tless ts mid r =
     r\<lparr>pl_watermarkMessage := (if mark_after tless (ts, mid) (row_mark r) then mid else pl_watermarkMessage r),
       pl_watermarkTimestamp := max (pl_watermarkTimestamp r) ts\<rparr>"

definition readLease ::
  "string \<Rightarrow> string \<Rightarrow> participation_store \<Rightarrow> participation_row option result \<times> participation_store" where
  "readLease companionId channelId =
     guarded (requireUuid companionId ''roomParticipationLease.companionId'') (\<lambda>cid.
     guarded (requireIdentifier channelId ''roomParticipationLease.channelId'') (\<lambda>ch st.
     if store_closed st then (Inl (Error ''room participation lease store is closed''), st)
     else lease_returning (Inr (store_db st (cid, ch)), st)))"

definition fresh_participation ::
  "string \<Rightarrow> string \<Rightarrow> room_disposition \<Rightarrow> int \<Rightarrow> int \<Rightarrow> string \<Rightarrow> int \<Rightarrow> participation_row" where
  "fresh_participation cid ch disposition now expires mid ts =
     \<lparr>pl_companion = cid, pl_channel = ch, pl_status = Lease_active, pl_openedDisposition = disposition,
      pl_openedAt = now, pl_lastActivityAt = now, pl_expiresAt = expires, pl_watermarkMessage = mid,
      pl_watermarkTimestamp = ts, pl_consideredCount = 0, pl_ignoreStreak = 0, pl_machineStreak = 0,
      pl_closedAt = None, pl_closeReason = None, pl_revision = 1\<rparr>"

definition reopen_row ::
  "collation \<Rightarrow> room_disposition \<Rightarrow> int \<Rightarrow> int \<Rightarrow> string \<Rightarrow> int \<Rightarrow> bool \<Rightarrow> participation_row \<Rightarrow> participation_row" where
  "reopen_row tless disposition now expires mid ts machine r =
     (advance_mark tless ts mid r)
       \<lparr>pl_status := Lease_active, pl_openedDisposition := disposition, pl_openedAt := now,
        pl_lastActivityAt := now, pl_expiresAt := expires, pl_consideredCount := 0, pl_ignoreStreak := 0,
        pl_machineStreak := (if machine then pl_machineStreak r else 0),
        pl_closedAt := None, pl_closeReason := None, pl_revision := pl_revision r + 1\<rparr>"

definition open_stmt ::
  "collation \<Rightarrow> string \<Rightarrow> string \<Rightarrow> room_disposition \<Rightarrow> int \<Rightarrow> int \<Rightarrow> string \<Rightarrow> int \<Rightarrow> bool \<Rightarrow>
     participation_row option \<Rightarrow> participation_row option" where
  "open_stmt tless cid ch disposition now expires mid ts machine row =
     (case row of
        None \<Rightarrow> Some (fresh_participation cid ch disposition now expires mid ts)
      | Some r \<Rightarrow>
          if machine \<and> pl_status r = Lease_closed \<and> pl_closeReason r = Some Close_machine_streak then None
          else Some (reopen_row tless disposition now expires mid ts machine r))"

definition openLease ::
  "collation \<Rightarrow> string \<Rightarrow> string \<Rightarrow> room_disposition \<Rightarrow> string \<Rightarrow> jsnum \<Rightarrow> bool \<Rightarrow> jsnum \<Rightarrow> jsnum \<Rightarrow>
     participation_store \<Rightarrow> participation_row option result \<times> participation_store" where
  "openLease tless companionId channelId disposition watermarkMessageId watermarkTimestampMs authorIsMachine
     nowMs expiresAtMs =
     guarded (requireUuid companionId ''roomParticipationLease.companionId'') (\<lambda>cid.
     guarded (requireIdentifier channelId ''roomParticipationLease.channelId'') (\<lambda>ch.
     guarded (requireIdentifier watermarkMessageId ''roomParticipationLease.watermarkMessageId'') (\<lambda>mid.
     guarded (requireTimestamp nowMs ''roomParticipationLease.nowMs'') (\<lambda>now.
     guarded (requireTimestamp watermarkTimestampMs ''roomParticipationLease.watermarkTimestampMs'') (\<lambda>ts.
     guarded (requireFutureDeadline expiresAtMs now ''roomParticipationLease.expiresAtMs'') (\<lambda>expires st.
     lease_returning (lease_statement (cid, ch)
       (open_stmt tless cid ch disposition now expires mid ts authorIsMachine) st)))))))"

definition refresh_stmt ::
  "collation \<Rightarrow> int \<Rightarrow> int \<Rightarrow> string \<Rightarrow> int \<Rightarrow> bool \<Rightarrow> participation_row option \<Rightarrow> participation_row option" where
  "refresh_stmt tless now expires mid ts machine row =
     (case row of
        None \<Rightarrow> None
      | Some r \<Rightarrow>
          if pl_status r = Lease_active \<and> pl_expiresAt r > now
          then Some ((advance_mark tless ts mid r)
                 \<lparr>pl_lastActivityAt := now, pl_expiresAt := max (pl_expiresAt r) expires,
                  pl_ignoreStreak := (if machine then pl_ignoreStreak r else 0),
                  pl_revision := pl_revision r + 1\<rparr>)
          else None)"

definition refreshLease ::
  "collation \<Rightarrow> string \<Rightarrow> string \<Rightarrow> jsnum \<Rightarrow> jsnum \<Rightarrow> string \<Rightarrow> jsnum \<Rightarrow> bool \<Rightarrow> participation_store \<Rightarrow>
     participation_row option result \<times> participation_store" where
  "refreshLease tless companionId channelId nowMs expiresAtMs watermarkMessageId watermarkTimestampMs
     authorIsMachine =
     guarded (requireUuid companionId ''roomParticipationLease.companionId'') (\<lambda>cid.
     guarded (requireIdentifier channelId ''roomParticipationLease.channelId'') (\<lambda>ch.
     guarded (requireIdentifier watermarkMessageId ''roomParticipationLease.watermarkMessageId'') (\<lambda>mid.
     guarded (requireTimestamp nowMs ''roomParticipationLease.nowMs'') (\<lambda>now.
     guarded (requireTimestamp watermarkTimestampMs ''roomParticipationLease.watermarkTimestampMs'') (\<lambda>ts.
     guarded (requireTimestamp expiresAtMs ''roomParticipationLease.expiresAtMs'') (\<lambda>expires st.
     lease_returning (lease_statement (cid, ch) (refresh_stmt tless now expires mid ts authorIsMachine) st)))))))"

definition claim_stmt ::
  "collation \<Rightarrow> int \<Rightarrow> string \<Rightarrow> int \<Rightarrow> bool \<Rightarrow> int \<Rightarrow> int \<Rightarrow> participation_row option \<Rightarrow> participation_row option" where
  "claim_stmt tless now mid ts machine maxCandidates maxMachine row =
     (case row of
        None \<Rightarrow> None
      | Some r \<Rightarrow>
          if pl_status r = Lease_active \<and> pl_expiresAt r > now \<and> mark_after tless (ts, mid) (row_mark r)
             \<and> pl_consideredCount r < maxCandidates \<and> (\<not> machine \<or> pl_machineStreak r < maxMachine)
          then Some (r\<lparr>pl_watermarkMessage := mid, pl_watermarkTimestamp := ts, pl_lastActivityAt := now,
                       pl_consideredCount := pl_consideredCount r + 1,
                       pl_machineStreak := (if machine then pl_machineStreak r + 1 else 0),
                       pl_revision := pl_revision r + 1\<rparr>)
          else None)"

definition requireNonNegativeInteger :: "jsnum \<Rightarrow> string \<Rightarrow> int result" where
  "requireNonNegativeInteger value field =
     (if \<not> isSafeInteger value \<or> numval value < 0
      then Inl (Error (field @ '' must be a non-negative safe integer'')) else Inr (intval value))"

text \<open>The casts \<^verbatim>\<open>::integer\<close> of the two caps are out of range beyond four bytes.\<close>

definition int4 :: "int \<Rightarrow> int result" where
  "int4 i = (if i \<le> INT4_LIMIT then Inr i else Inl (DatabaseError ''integer out of range''))"

definition claimContinuation ::
  "collation \<Rightarrow> string \<Rightarrow> string \<Rightarrow> string \<Rightarrow> jsnum \<Rightarrow> bool \<Rightarrow> jsnum \<Rightarrow> jsnum \<Rightarrow> jsnum \<Rightarrow>
     participation_store \<Rightarrow> participation_row option result \<times> participation_store" where
  "claimContinuation tless companionId channelId messageId timestampMs authorIsMachine nowMs
     maxContinuationCandidates maxConsecutiveMachineContinuations =
     guarded (requireUuid companionId ''roomParticipationLease.companionId'') (\<lambda>cid.
     guarded (requireIdentifier channelId ''roomParticipationLease.channelId'') (\<lambda>ch.
     guarded (requireIdentifier messageId ''roomParticipationLease.messageId'') (\<lambda>mid.
     guarded (requireTimestamp nowMs ''roomParticipationLease.nowMs'') (\<lambda>now.
     guarded (requireTimestamp timestampMs ''roomParticipationLease.timestampMs'') (\<lambda>ts.
     guarded (requireNonNegativeInteger maxContinuationCandidates
                ''roomParticipationLease.maxContinuationCandidates'') (\<lambda>maxC.
     guarded (requireNonNegativeInteger maxConsecutiveMachineContinuations
                ''roomParticipationLease.maxConsecutiveMachineContinuations'') (\<lambda>maxM st.
     if store_closed st then (Inl (Error ''room participation lease store is closed''), st)
     else guarded (int4 maxC) (\<lambda>maxC. guarded (int4 maxM) (\<lambda>maxM st.
       lease_returning (lease_statement (cid, ch)
         (claim_stmt tless now mid ts authorIsMachine maxC maxM) st))) st)))))))"

definition appraisal_stmt ::
  "bool \<Rightarrow> int \<Rightarrow> participation_row option \<Rightarrow> participation_row option" where
  "appraisal_stmt ignored now row =
     (case row of
        None \<Rightarrow> None
      | Some r \<Rightarrow>
          if pl_status r = Lease_active
          then Some (r\<lparr>pl_ignoreStreak := (if ignored then pl_ignoreStreak r + 1 else 0),
                       pl_lastActivityAt := max (pl_lastActivityAt r) now,
                       pl_revision := pl_revision r + 1\<rparr>)
          else None)"

definition recordAppraisalRow ::
  "string \<Rightarrow> string \<Rightarrow> participation_action \<Rightarrow> jsnum \<Rightarrow> participation_store \<Rightarrow>
     participation_row option result \<times> participation_store" where
  "recordAppraisalRow companionId channelId action nowMs =
     guarded (requireUuid companionId ''roomParticipationLease.companionId'') (\<lambda>cid.
     guarded (requireIdentifier channelId ''roomParticipationLease.channelId'') (\<lambda>ch.
     guarded (requireTimestamp nowMs ''roomParticipationLease.nowMs'') (\<lambda>now st.
     lease_returning (lease_statement (cid, ch) (appraisal_stmt (action = Action_ignore) now) st))))"

definition close_stmt ::
  "close_reason \<Rightarrow> int \<Rightarrow> participation_row option \<Rightarrow> participation_row option" where
  "close_stmt reason now row =
     (case row of
        None \<Rightarrow> None
      | Some r \<Rightarrow>
          if pl_status r = Lease_active
          then Some (r\<lparr>pl_status := Lease_closed, pl_closedAt := Some now, pl_closeReason := Some reason,
                       pl_revision := pl_revision r + 1\<rparr>)
          else None)"

definition closeLease ::
  "string \<Rightarrow> string \<Rightarrow> close_reason \<Rightarrow> jsnum \<Rightarrow> participation_store \<Rightarrow>
     participation_row option result \<times> participation_store" where
  "closeLease companionId channelId reason nowMs =
     guarded (requireUuid companionId ''roomParticipationLease.companionId'') (\<lambda>cid.
     guarded (requireIdentifier channelId ''roomParticipationLease.channelId'') (\<lambda>ch.
     guarded (requireTimestamp nowMs ''roomParticipationLease.nowMs'') (\<lambda>now st.
     lease_returning (lease_statement (cid, ch) (close_stmt reason now) st))))"

definition shutdownLeases :: "participation_store \<Rightarrow> participation_store" where
  "shutdownLeases st = st\<lparr>store_closed := True\<rparr>"

end
