(* ===== verification/Participation_Store_Laws.thy ===== *)
theory Participation_Store_Laws
  imports Participation_Lease
begin

text \<open>
  What the table of participation leases promises under any sequence of operations: the
  watermark only moves forward, a message is claimed at most once, the caps hold and the
  bot-loop fence is only lifted by a human.
\<close>

section \<open>Operation sequences\<close>

datatype lease_op =
  Lop_open string string room_disposition string jsnum bool jsnum jsnum
| Lop_refresh string string jsnum jsnum string jsnum bool
| Lop_claim string string string jsnum bool jsnum jsnum jsnum
| Lop_appraisal string string participation_action jsnum
| Lop_close string string close_reason jsnum
| Lop_shutdown

fun lease_step ::
  "collation \<Rightarrow> lease_op \<Rightarrow> participation_store \<Rightarrow> participation_row option result \<times> participation_store" where
  "lease_step tless (Lop_open cid ch d mid ts m n x) st = openLease tless cid ch d mid ts m n x st"
| "lease_step tless (Lop_refresh cid ch n x mid ts m) st = refreshLease tless cid ch n x mid ts m st"
| "lease_step tless (Lop_claim cid ch mid ts m n c s) st = claimContinuation tless cid ch mid ts m n c s st"
| "lease_step tless (Lop_appraisal cid ch a n) st = recordAppraisalRow cid ch a n st"
| "lease_step tless (Lop_close cid ch r n) st = closeLease cid ch r n st"
| "lease_step tless Lop_shutdown st = (Inr None, shutdownLeases st)"

definition lease_run :: "collation \<Rightarrow> lease_op list \<Rightarrow> participation_store \<Rightarrow> participation_store" where
  "lease_run tless ops st = fold (\<lambda>op s. snd (lease_step tless op s)) ops st"

text \<open>The statement an operation sends, with the row it is about.\<close>

fun op_stmt ::
  "collation \<Rightarrow> lease_op \<Rightarrow> ((string \<times> string) \<times> (participation_row option \<Rightarrow> participation_row option)) option" where
  "op_stmt tless (Lop_open cid ch d mid ts m n x) =
     Some ((cid, ch), open_stmt tless cid ch d (intval n) (intval x) mid (intval ts) m)"
| "op_stmt tless (Lop_refresh cid ch n x mid ts m) =
     Some ((cid, ch), refresh_stmt tless (intval n) (intval x) mid (intval ts) m)"
| "op_stmt tless (Lop_claim cid ch mid ts m n c s) =
     Some ((cid, ch), claim_stmt tless (intval n) mid (intval ts) m (intval c) (intval s))"
| "op_stmt tless (Lop_appraisal cid ch a n) =
     Some ((cid, ch), appraisal_stmt (a = Action_ignore) (intval n))"
| "op_stmt tless (Lop_close cid ch r n) = Some ((cid, ch), close_stmt r (intval n))"
| "op_stmt tless Lop_shutdown = None"

lemma toLeaseView_Inr: "toLeaseView r = Inr v \<Longrightarrow> v = r"
  by (auto simp: toLeaseView_def rbind_eq_Inr)

lemma lease_statement_cases:
  assumes "lease_returning (lease_statement k f st) = (res, st')"
  shows "(st' = st \<and> (\<forall>v. res \<noteq> Inr (Some v)))
    \<or> (\<exists>r. f (store_db st k) = Some r \<and> participation_check r
         \<and> st' = st\<lparr>store_db := (store_db st)(k \<mapsto> r)\<rparr> \<and> (\<forall>v. res = Inr (Some v) \<longrightarrow> v = r))"
proof (cases "f (store_db st k)")
  case None
  then show ?thesis using assms by (auto simp: lease_statement_def lease_returning_def split: if_splits)
next
  case (Some r)
  then show ?thesis using assms
    by (auto simp: lease_statement_def lease_returning_def rbind_eq_Inr split: if_splits dest!: toLeaseView_Inr)
qed

lemma requireNonNegativeInteger_Inr [guard_simps]:
  "requireNonNegativeInteger v f = Inr i \<longleftrightarrow> is_timestamp v \<and> i = intval v"
  by (auto simp: requireNonNegativeInteger_def is_timestamp_def)

lemma int4_Inr [guard_simps]: "int4 i = Inr j \<longleftrightarrow> i \<le> INT4_LIMIT \<and> j = i"
  by (auto simp: int4_def)

lemma guarded_stmt:
  assumes "guarded m k st = (res, st')"
  shows "(st' = st \<and> isl res) \<or> (\<exists>x. m = Inr x \<and> k x st = (res, st'))"
  using assms by (cases m) auto

text \<open>Every operation leaves the table alone or writes the row its statement computes.\<close>

lemma lease_step_cases:
  assumes "lease_step tless op st = (res, st')"
  shows "(store_db st' = store_db st \<and> (\<forall>v. res \<noteq> Inr (Some v)))
    \<or> (\<exists>k f r. op_stmt tless op = Some (k, f) \<and> f (store_db st k) = Some r \<and> participation_check r
         \<and> store_db st' = (store_db st)(k \<mapsto> r) \<and> (\<forall>v. res = Inr (Some v) \<longrightarrow> v = r))"
proof -
  have stmt: ?thesis if "op_stmt tless op = Some (k, f)" "lease_returning (lease_statement k f st) = (res, st')" for k f
    using lease_statement_cases [OF that(2)] that(1) by auto
  have none: ?thesis if "st' = st \<and> isl res" using that by (cases res) auto
  show ?thesis
  proof (cases op)
    case Lop_shutdown
    then show ?thesis using assms by (auto simp: shutdownLeases_def)
  next
    case (Lop_claim cid ch mid ts m n c s)
    then show ?thesis using assms none stmt
      by (auto simp: claimContinuation_def guard_simps split: if_splits dest!: guarded_stmt)
  qed (use assms none stmt in \<open>auto simp: openLease_def refreshLease_def recordAppraisalRow_def closeLease_def
      guard_simps dest!: guarded_stmt\<close>)
qed

section \<open>The watermark\<close>

lemma row_mark_frame [simp]:
  "row_mark (r\<lparr>pl_status := a\<rparr>) = row_mark r" "row_mark (r\<lparr>pl_openedDisposition := b\<rparr>) = row_mark r"
  "row_mark (r\<lparr>pl_openedAt := i\<rparr>) = row_mark r" "row_mark (r\<lparr>pl_lastActivityAt := i\<rparr>) = row_mark r"
  "row_mark (r\<lparr>pl_expiresAt := i\<rparr>) = row_mark r" "row_mark (r\<lparr>pl_consideredCount := i\<rparr>) = row_mark r"
  "row_mark (r\<lparr>pl_ignoreStreak := i\<rparr>) = row_mark r" "row_mark (r\<lparr>pl_machineStreak := i\<rparr>) = row_mark r"
  "row_mark (r\<lparr>pl_closedAt := c\<rparr>) = row_mark r" "row_mark (r\<lparr>pl_closeReason := d\<rparr>) = row_mark r"
  "row_mark (r\<lparr>pl_revision := i\<rparr>) = row_mark r"
  "row_mark (r\<lparr>pl_watermarkMessage := mid, pl_watermarkTimestamp := ts\<rparr>) = (ts, mid)"
  by (simp_all add: row_mark_def)

text \<open>
  What the store relies on of the database: text comparison is a strict total order.
\<close>

locale text_collation =
  fixes tless :: collation
  assumes tless_irrefl: "\<not> tless a a"
    and tless_trans: "tless a b \<Longrightarrow> tless b c \<Longrightarrow> tless a c"
    and tless_total: "a \<noteq> b \<Longrightarrow> tless a b \<or> tless b a"
begin

definition mark_upto :: "int \<times> string \<Rightarrow> int \<times> string \<Rightarrow> bool" where
  "mark_upto a b \<longleftrightarrow> a = b \<or> mark_after tless b a"

lemma mark_upto_intros: "mark_upto a a" "mark_after tless b a \<Longrightarrow> mark_upto a b"
  by (simp_all add: mark_upto_def)

lemma mark_after_irrefl: "\<not> mark_after tless a a"
  by (simp add: mark_after_def tless_irrefl)

lemma mark_after_upto: "mark_upto b c \<Longrightarrow> mark_after tless b a \<Longrightarrow> mark_after tless c a"
  unfolding mark_upto_def mark_after_def using tless_trans by auto

lemma mark_after_upto': "mark_upto a b \<Longrightarrow> mark_after tless c b \<Longrightarrow> mark_after tless c a"
  unfolding mark_upto_def mark_after_def using tless_trans by auto

text \<open>The two assignments of an opening or a refresh take the greater of two marks.\<close>

lemma advance_mark_upto: "mark_upto (row_mark r) (row_mark (advance_mark tless ts mid r))"
  using tless_total [of "pl_watermarkMessage r" mid]
  by (auto simp: mark_upto_def mark_after_def row_mark_def advance_mark_def max_def)

lemma stmt_mark:
  assumes "op_stmt tless op = Some (k, f)" "f (Some r) = Some r'"
  shows "mark_upto (row_mark r) (row_mark r')"
  using assms
  by (cases op) (auto simp: open_stmt_def refresh_stmt_def claim_stmt_def appraisal_stmt_def close_stmt_def
      reopen_row_def advance_mark_upto mark_upto_intros split: if_splits)

lemma step_mark:
  assumes "lease_step tless op st = (res, st')" "store_db st k = Some r"
  shows "\<exists>r'. store_db st' k = Some r' \<and> mark_upto (row_mark r) (row_mark r')"
  using lease_step_cases [OF assms(1)]
proof
  assume "store_db st' = store_db st \<and> (\<forall>v. res \<noteq> Inr (Some v))"
  then show ?thesis using assms(2) by (simp add: mark_upto_def)
next
  assume "\<exists>k' f r'. op_stmt tless op = Some (k', f) \<and> f (store_db st k') = Some r' \<and> participation_check r'
         \<and> store_db st' = (store_db st)(k' \<mapsto> r') \<and> (\<forall>v. res = Inr (Some v) \<longrightarrow> v = r')"
  then obtain k' f r' where *: "op_stmt tless op = Some (k', f)" "f (store_db st k') = Some r'"
    "store_db st' = (store_db st)(k' \<mapsto> r')" by blast
  then show ?thesis using assms(2) stmt_mark [OF *(1), of r r'] by (cases "k' = k") (auto simp: mark_upto_def)
qed

end

section \<open>Claims\<close>

text \<open>The claims a run wins: an operation sequence reports one per claim that returned a lease.\<close>

fun won_claim ::
  "lease_op \<Rightarrow> participation_row option result \<Rightarrow> ((string \<times> string) \<times> int \<times> string) list" where
  "won_claim (Lop_claim cid ch mid ts m n c s) (Inr (Some v)) = [((cid, ch), (intval ts, mid))]"
| "won_claim _ _ = []"

fun claims_won ::
  "collation \<Rightarrow> lease_op list \<Rightarrow> participation_store \<Rightarrow> ((string \<times> string) \<times> int \<times> string) list" where
  "claims_won tless [] st = []"
| "claims_won tless (op # ops) st =
     (case lease_step tless op st of (res, st') \<Rightarrow> won_claim op res @ claims_won tless ops st')"

lemma won_claim_cases:
  assumes "lease_step tless op st = (res, st')" "won_claim op res \<noteq> []"
  shows "\<exists>k m r r'. won_claim op res = [(k, m)] \<and> store_db st k = Some r \<and> mark_after tless m (row_mark r)
    \<and> store_db st' k = Some r' \<and> row_mark r' = m"
proof -
  obtain cid ch mid ts m n c s v where op: "op = Lop_claim cid ch mid ts m n c s" "res = Inr (Some v)"
    using assms(2) by (cases "(op, res)" rule: won_claim.cases) auto
  with lease_step_cases [OF assms(1)] obtain r' where
    "claim_stmt tless (intval n) mid (intval ts) m (intval c) (intval s) (store_db st (cid, ch)) = Some r'"
    "store_db st' = (store_db st)((cid, ch) \<mapsto> r')" by auto
  then show ?thesis using op
    by (auto simp: claim_stmt_def split: option.splits if_splits)
qed

context text_collation
begin

lemma claims_after:
  assumes "store_db st k = Some r" "(k, m) \<in> set (claims_won tless ops st)"
  shows "mark_after tless m (row_mark r)"
  using assms
proof (induction ops arbitrary: st r)
  case (Cons op ops)
  obtain res st' where s: "lease_step tless op st = (res, st')" by fastforce
  from step_mark [OF s Cons.prems(1)] obtain r' where
    r': "store_db st' k = Some r'" "mark_upto (row_mark r) (row_mark r')" by blast
  show ?case
  proof (cases "(k, m) \<in> set (won_claim op res)")
    case True
    then have "won_claim op res \<noteq> []" by auto
    from won_claim_cases [OF s this] True show ?thesis using Cons.prems(1) by auto
  next
    case False
    then have "(k, m) \<in> set (claims_won tless ops st')" using Cons.prems(2) s by simp
    from Cons.IH [OF r'(1) this] r'(2) show ?thesis by (rule mark_after_upto' [rotated])
  qed
qed simp

lemma claims_distinct: "distinct (claims_won tless ops st)"
proof (induction ops arbitrary: st)
  case (Cons op ops)
  obtain res st' where s: "lease_step tless op st = (res, st')" by fastforce
  show ?case
  proof (cases "won_claim op res = []")
    case True
    then show ?thesis using Cons.IH s by simp
  next
    case False
    from won_claim_cases [OF s False] obtain k m r' where
      w: "won_claim op res = [(k, m)]" "store_db st' k = Some r'" "row_mark r' = m" by blast
    have "(k, m) \<notin> set (claims_won tless ops st')"
      using claims_after [OF w(2)] mark_after_irrefl w(3) by blast
    then show ?thesis using Cons.IH s w(1) by simp
  qed
qed simp

end

interpretation code_unit_order: text_collation "(<) :: string \<Rightarrow> string \<Rightarrow> bool"
  by unfold_locales auto

text \<open>
  A room message is considered at most once: whatever openings, refreshes, claims,
  appraisals and closings are sent to the table, in whatever order and by however many
  processes, no message of a room is claimed twice for one companion. The collation of the
  database is any strict total order.
\<close>

theorem lease_considers_once:
  assumes "text_collation tless"
  shows "distinct (claims_won tless ops st)"
  using text_collation.claims_distinct [OF assms] .

definition demo_member :: string where "demo_member = ''00000000-0000-4000-8000-000000000001''"

definition demo_lease_ops :: "lease_op list" where
  "demo_lease_ops =
     [Lop_open demo_member ''room'' Disposed_reply ''m1'' (Fin 10) False (Fin 10) (Fin 1000),
      Lop_claim demo_member ''room'' ''m2'' (Fin 20) True (Fin 40) (Fin 6) (Fin 2),
      Lop_claim demo_member ''room'' ''m2'' (Fin 20) True (Fin 41) (Fin 6) (Fin 2),
      Lop_claim demo_member ''room'' ''m3'' (Fin 20) True (Fin 70) (Fin 6) (Fin 2)]"

definition demo_lease_table :: participation_store where
  "demo_lease_table = \<lparr>store_closed = False, store_db = Map.empty\<rparr>"

lemma demo_claims:
  "claims_won (<) demo_lease_ops demo_lease_table =
     [((demo_member, ''room''), 20, ''m2''), ((demo_member, ''room''), 20, ''m3'')]"
  by code_simp

theorem lease_considers_once_witness:
  "text_collation ((<) :: collation) \<and> length (claims_won (<) demo_lease_ops demo_lease_table) = 2
   \<and> distinct (claims_won (<) demo_lease_ops demo_lease_table)"
  using lease_considers_once [OF code_unit_order.text_collation_axioms, of demo_lease_ops demo_lease_table]
  by (simp add: code_unit_order.text_collation_axioms demo_claims)

section \<open>Caps and the bot-loop fence\<close>




lemma run_Cons: "lease_run tless (op # ops) st = lease_run tless ops (snd (lease_step tless op st))"
  by (simp add: lease_run_def)



fun human_opening :: "string \<times> string \<Rightarrow> lease_op \<Rightarrow> bool" where
  "human_opening k (Lop_open cid ch d mid ts m n x) \<longleftrightarrow> \<not> m \<and> (cid, ch) = k"
| "human_opening k _ \<longleftrightarrow> False"

lemma fenced_stmt:
  assumes "op_stmt tless op = Some (k, f)" "\<not> human_opening k op"
    and "pl_status r = Lease_closed" "pl_closeReason r = Some Close_machine_streak"
  shows "f (Some r) = None"
  using assms by (cases op)
    (auto simp: open_stmt_def refresh_stmt_def claim_stmt_def appraisal_stmt_def close_stmt_def)

text \<open>
  C26. Only a human turn lifts the bot-loop fence: a lease closed for a machine streak is left
  exactly as it is by every sequence of operations that holds no human-authored opening of that
  companion and room; no machine opening, refresh, claim or appraisal revives it.
\<close>

theorem lease_fence_holds:
  assumes "store_db st k = Some r" "pl_status r = Lease_closed" "pl_closeReason r = Some Close_machine_streak"
    and "list_all (\<lambda>op. \<not> human_opening k op) ops"
  shows "store_db (lease_run tless ops st) k = Some r"
  using assms(1,4)
proof (induction ops arbitrary: st)
  case Nil
  then show ?case by (simp add: lease_run_def)
next
  case (Cons op ops)
  obtain res st' where s: "lease_step tless op st = (res, st')" by fastforce
  have "store_db st' k = Some r"
    using lease_step_cases [OF s]
  proof
    assume "\<exists>k f r. op_stmt tless op = Some (k, f) \<and> f (store_db st k) = Some r \<and> participation_check r
         \<and> store_db st' = (store_db st)(k \<mapsto> r) \<and> (\<forall>v. res = Inr (Some v) \<longrightarrow> v = r)"
    then obtain j f q where *: "op_stmt tless op = Some (j, f)" "f (store_db st j) = Some q"
      "store_db st' = (store_db st)(j \<mapsto> q)" by blast
    have "\<not> human_opening k op" using Cons.prems(2) by simp
    then have "j \<noteq> k" using fenced_stmt [OF *(1) _ assms(2,3)] *(2) Cons.prems(1) by auto
    then show ?thesis using *(3) Cons.prems(1) by simp
  qed (use Cons.prems(1) in simp)
  then show ?case using Cons.IH [of st'] Cons.prems s by (simp add: run_Cons)
qed

definition demo_fenced_row :: participation_row where
  "demo_fenced_row = (fresh_participation demo_member ''room'' Disposed_reply 10 1000 ''m1'' 10)
     \<lparr>pl_status := Lease_closed, pl_closedAt := Some 50, pl_closeReason := Some Close_machine_streak, pl_machineStreak := 2\<rparr>"

definition demo_fenced_table :: participation_store where
  "demo_fenced_table = \<lparr>store_closed = False, store_db = [(demo_member, ''room'') \<mapsto> demo_fenced_row]\<rparr>"

theorem lease_fence_holds_witness:
  "store_db (lease_run (<)
      [Lop_open demo_member ''room'' Direct_summons ''m4'' (Fin 80) True (Fin 80) (Fin 2000),
       Lop_claim demo_member ''room'' ''m5'' (Fin 90) True (Fin 95) (Fin 6) (Fin 2)] demo_fenced_table)
     (demo_member, ''room'') = Some demo_fenced_row"
  by (rule lease_fence_holds) (simp_all add: demo_fenced_table_def demo_fenced_row_def)

end
