(* ===== verification/Participation_Coordinator.thy ===== *)
theory Participation_Coordinator
  imports Participation_Store_Laws
begin

text \<open>
  The coordinator of room-participation leases
  (\<^verbatim>\<open>src/src/core/participation/room-participation-lease-coordinator.ts\<close>): admission of a
  name-free message, openings after a social act, the ignore streak and the reservation gate.
  Its store, clock and scope classifier are a record of calls over a world type.
\<close>

section \<open>Data\<close>

datatype channel_type =
  Ch_discord | Ch_terminal | Ch_api | Ch_telegram | Ch_multica | Ch_buzz | Ch_psfn_amica | Ch_companion
| Ch_companion_ui | Ch_external

definition isGroupCapableChannelType :: "channel_type \<Rightarrow> bool" where
  "isGroupCapableChannelType t \<longleftrightarrow> t \<in> {Ch_discord, Ch_telegram, Ch_external}"

datatype memory_scope = Scope_direct | Scope_group

record disposition_input =
  di_channelId :: string
  di_channelType :: channel_type
  di_disposition :: room_disposition
  di_sourceMessageId :: string
  di_sourceTimestampMs :: jsnum
  di_authorIsMachine :: bool
  di_isDirectMessage :: "bool option"
  di_nowMs :: "jsnum option"

datatype disposition_skip =
  Skip_policy_off | Skip_direct_message | Skip_not_group | Skip_unsupported_channel
| Skip_invalid_source | Skip_disposition_not_admitted | Skip_machine_fenced

datatype disposition_outcome =
  Disposition_opened room_disposition int
| Disposition_refreshed int
| Disposition_skipped disposition_skip

datatype continuation_outcome =
  Outcome_admitted | Outcome_absent | Outcome_suppressed lease_suppression

datatype appraisal_outcome =
  Appraisal_closed close_reason | Appraisal_recorded | Appraisal_absent

datatype gate_close_outcome = Gate_closed close_reason | Gate_retained

record 'w participation_ports =
  pp_now :: "('w, jsnum) io"
  pp_read :: "string \<Rightarrow> string \<Rightarrow> ('w, participation_row option) io"
  pp_open :: "string \<Rightarrow> string \<Rightarrow> room_disposition \<Rightarrow> string \<Rightarrow> jsnum \<Rightarrow> bool \<Rightarrow> jsnum \<Rightarrow> jsnum \<Rightarrow>
    ('w, participation_row option) io"
  pp_refresh :: "string \<Rightarrow> string \<Rightarrow> jsnum \<Rightarrow> jsnum \<Rightarrow> string \<Rightarrow> jsnum \<Rightarrow> bool \<Rightarrow> ('w, participation_row option) io"
  pp_claim :: "string \<Rightarrow> string \<Rightarrow> string \<Rightarrow> jsnum \<Rightarrow> bool \<Rightarrow> jsnum \<Rightarrow> jsnum \<Rightarrow> jsnum \<Rightarrow>
    ('w, participation_row option) io"
  pp_recordAppraisal :: "string \<Rightarrow> string \<Rightarrow> participation_action \<Rightarrow> jsnum \<Rightarrow> ('w, participation_row option) io"
  pp_close :: "string \<Rightarrow> string \<Rightarrow> close_reason \<Rightarrow> jsnum \<Rightarrow> ('w, participation_row option) io"
  pp_classify :: "string \<Rightarrow> channel_type \<Rightarrow> ('w, memory_scope) io"

fun openOnKey :: "room_disposition \<Rightarrow> open_on_settings \<Rightarrow> bool" where
  "openOnKey Direct_summons s = openOn_directSummons s"
| "openOnKey Passive_summons s = openOn_passiveSummons s"
| "openOnKey Disposed_reaction s = openOn_reaction s"
| "openOnKey Disposed_reply s = openOn_reply s"
| "openOnKey Endogenous_room_entry s = openOn_endogenousRoomEntry s"

definition reservationGateCloseReason :: "string \<Rightarrow> close_reason option" where
  "reservationGateCloseReason blockedBy =
     (if blockedBy = ''fatigue_pot_insufficient'' then Some Close_fatigue
      else if blockedBy = ''room_flooded'' then Some Close_room_pressure
      else None)"

section \<open>Operations\<close>

definition admitContinuation ::
  "'w participation_ports \<Rightarrow> string \<Rightarrow> lease_settings \<Rightarrow> string \<Rightarrow> room_observation \<Rightarrow>
     ('w, continuation_outcome) io" where
  "admitContinuation ports companionId settings channelId observation =
     iobind (pp_now ports) (\<lambda>nowMs.
     iobind (pp_read ports companionId channelId) (\<lambda>lease.
     case evaluateRoomParticipationContinuation lease observation settings nowMs of
       Continue_absent \<Rightarrow> ioret Outcome_absent
     | Continue_close reason suppression \<Rightarrow>
         iobind (pp_close ports companionId channelId reason nowMs) (\<lambda>_. ioret (Outcome_suppressed suppression))
     | Continue_suppressed suppression \<Rightarrow> ioret (Outcome_suppressed suppression)
     | Continue_admit \<Rightarrow>
         iobind (pp_claim ports companionId channelId (obs_messageId observation) (obs_timestampMs observation)
                   (obs_authorIsMachine observation) nowMs (ls_maxContinuationCandidates settings)
                   (ls_maxConsecutiveMachineContinuations settings)) (\<lambda>claimed.
         ioret (if claimed = None then Outcome_suppressed Suppress_claim_lost else Outcome_admitted))))"

definition recordDisposition ::
  "'w participation_ports \<Rightarrow> string \<Rightarrow> lease_settings \<Rightarrow> disposition_input \<Rightarrow> ('w, disposition_outcome) io" where
  "recordDisposition ports companionId settings input =
     (if \<not> ls_enabled settings then ioret (Disposition_skipped Skip_policy_off)
      else if di_isDirectMessage input = Some True then ioret (Disposition_skipped Skip_direct_message)
      else if \<not> isGroupCapableChannelType (di_channelType input)
        then ioret (Disposition_skipped Skip_unsupported_channel)
      else let sourceMessageId = js_trim (di_sourceMessageId input) in
      if sourceMessageId = [] \<or> \<not> isFinite (di_sourceTimestampMs input)
        then ioret (Disposition_skipped Skip_invalid_source)
      else
      iobind (pp_classify ports (di_channelId input) (di_channelType input)) (\<lambda>scope.
      if scope \<noteq> Scope_group then ioret (Disposition_skipped Skip_not_group)
      else
      iobind (case di_nowMs input of Some n \<Rightarrow> ioret n | None \<Rightarrow> pp_now ports) (\<lambda>nowMs.
      let expiresAtMs = js_plus nowMs (ls_leaseTtlMs settings) in
      iobind (pp_refresh ports companionId (di_channelId input) nowMs expiresAtMs sourceMessageId
                (di_sourceTimestampMs input) (di_authorIsMachine input)) (\<lambda>refreshed.
      case refreshed of
        Some r \<Rightarrow> ioret (Disposition_refreshed (pl_expiresAt r))
      | None \<Rightarrow>
          if \<not> openOnKey (di_disposition input) (ls_openOn settings)
          then ioret (Disposition_skipped Skip_disposition_not_admitted)
          else
          iobind (pp_open ports companionId (di_channelId input) (di_disposition input) sourceMessageId
                    (di_sourceTimestampMs input) (di_authorIsMachine input) nowMs expiresAtMs) (\<lambda>opened.
          case opened of
            None \<Rightarrow> ioret (Disposition_skipped Skip_machine_fenced)
          | Some r \<Rightarrow> ioret (Disposition_opened (pl_openedDisposition r) (pl_expiresAt r)))))))"

definition recordAppraisal ::
  "'w participation_ports \<Rightarrow> string \<Rightarrow> lease_settings \<Rightarrow> string \<Rightarrow> participation_action \<Rightarrow> jsnum option \<Rightarrow>
     ('w, appraisal_outcome) io" where
  "recordAppraisal ports companionId settings channelId action nowMs0 =
     (if \<not> ls_enabled settings then ioret Appraisal_absent
      else
      iobind (case nowMs0 of Some n \<Rightarrow> ioret n | None \<Rightarrow> pp_now ports) (\<lambda>nowMs.
      iobind (pp_recordAppraisal ports companionId channelId action nowMs) (\<lambda>updated.
      case updated of
        None \<Rightarrow> ioret Appraisal_absent
      | Some r \<Rightarrow>
          if js_lt (jsint (pl_ignoreStreak r)) (ls_maxConsecutiveIgnores settings)
          then ioret Appraisal_recorded
          else iobind (pp_close ports companionId channelId Close_withdrawn nowMs) (\<lambda>_.
                 ioret (Appraisal_closed Close_withdrawn)))))"

definition closeForReservationGate ::
  "'w participation_ports \<Rightarrow> string \<Rightarrow> string \<Rightarrow> string \<Rightarrow> jsnum option \<Rightarrow> ('w, gate_close_outcome) io" where
  "closeForReservationGate ports companionId channelId blockedBy nowMs0 =
     (case reservationGateCloseReason blockedBy of
        None \<Rightarrow> ioret Gate_retained
      | Some reason \<Rightarrow>
          iobind (case nowMs0 of Some n \<Rightarrow> ioret n | None \<Rightarrow> pp_now ports) (\<lambda>nowMs.
          iobind (pp_close ports companionId channelId reason nowMs) (\<lambda>closed.
          ioret (if closed = None then Gate_retained else Gate_closed reason))))"

section \<open>What the coordinator relies on\<close>

text \<open>
  An invariant every call keeps is kept by every operation; the claim is the only call whose
  success an admission reports.
\<close>

locale participation_world =
  fixes ports :: "'w participation_ports" and inv :: "'w \<Rightarrow> bool"
  assumes keep_now: "iokeeps inv (pp_now ports)"
    and keep_read: "iokeeps inv (pp_read ports c ch)"
    and keep_open: "iokeeps inv (pp_open ports c ch d mid ts m n x)"
    and keep_refresh: "iokeeps inv (pp_refresh ports c ch n x mid ts m)"
    and keep_claim: "iokeeps inv (pp_claim ports c ch mid ts m n cc cm)"
    and keep_appraisal: "iokeeps inv (pp_recordAppraisal ports c ch a n)"
    and keep_close: "iokeeps inv (pp_close ports c ch r n)"
    and keep_classify: "iokeeps inv (pp_classify ports ch t)"
begin

lemma admit_cases:
  "iotriple inv (admitContinuation ports cid settings ch obs)
     (\<lambda>r w'. inv w' \<and> (r = Inr Outcome_admitted \<longrightarrow>
        (\<exists>w1 n lease v. inv w1 \<and> evaluateRoomParticipationContinuation lease obs settings n = Continue_admit
           \<and> pp_claim ports cid ch (obs_messageId obs) (obs_timestampMs obs) (obs_authorIsMachine obs) n
               (ls_maxContinuationCandidates settings) (ls_maxConsecutiveMachineContinuations settings) w1
             = (Inr (Some v), w'))))" (is "iotriple inv _ ?Q")
proof -
  have other: "iotriple inv (ioret x) ?Q" if "x \<noteq> Outcome_admitted" for x
    using that by (intro io_rules) simp
  have claim: "iotriple inv (iobind (pp_claim ports cid ch (obs_messageId obs) (obs_timestampMs obs)
      (obs_authorIsMachine obs) n (ls_maxContinuationCandidates settings)
      (ls_maxConsecutiveMachineContinuations settings)) (\<lambda>claimed.
         ioret (if claimed = None then Outcome_suppressed Suppress_claim_lost else Outcome_admitted))) ?Q"
    if "evaluateRoomParticipationContinuation lease obs settings n = Continue_admit" for lease n
  proof (rule iotripleI)
    fix w r w'
    let ?m = "pp_claim ports cid ch (obs_messageId obs) (obs_timestampMs obs)
      (obs_authorIsMachine obs) n (ls_maxContinuationCandidates settings)
      (ls_maxConsecutiveMachineContinuations settings)"
    assume w: "inv w" and c: "iobind ?m (\<lambda>claimed.
         ioret (if claimed = None then Outcome_suppressed Suppress_claim_lost else Outcome_admitted)) w = (r, w')"
    obtain q w1 where q: "?m w = (q, w1)" by fastforce
    have "inv w1" using iotripleD [OF keep_claim q w] .
    then show "?Q r w'" using c q w that
      by (cases q) (auto simp: io_exec ioret_def split: if_splits)
  qed
  have step: "iotriple inv (case evaluateRoomParticipationContinuation lease obs settings n of
       Continue_admit \<Rightarrow>
         iobind (pp_claim ports cid ch (obs_messageId obs) (obs_timestampMs obs)
                   (obs_authorIsMachine obs) n (ls_maxContinuationCandidates settings)
                   (ls_maxConsecutiveMachineContinuations settings)) (\<lambda>claimed.
         ioret (if claimed = None then Outcome_suppressed Suppress_claim_lost else Outcome_admitted))
     | Continue_absent \<Rightarrow> ioret Outcome_absent
     | Continue_suppressed suppression \<Rightarrow> ioret (Outcome_suppressed suppression)
     | Continue_close reason suppression \<Rightarrow>
         iobind (pp_close ports cid ch reason n) (\<lambda>_. ioret (Outcome_suppressed suppression))) ?Q" for lease n
  proof (cases "evaluateRoomParticipationContinuation lease obs settings n")
    case Continue_admit
    then show ?thesis using claim by simp
  next
    case (Continue_close r s)
    have "iotriple inv (iobind (pp_close ports cid ch r n) (\<lambda>_. ioret (Outcome_suppressed s))) ?Q"
      by (intro iokeeps_bind keep_close other) simp_all
    then show ?thesis using Continue_close by simp
  qed (simp_all only: continuation_decision.case, (rule other, simp)+)
  show ?thesis unfolding admitContinuation_def by (intro iokeeps_bind keep_now keep_read step) simp_all
qed

lemma recordDisposition_keeps: "iokeeps inv (recordDisposition ports cid settings input)"
  unfolding recordDisposition_def Let_def
  by (intro io_rules keep_classify keep_now keep_refresh keep_open) simp_all

lemma recordAppraisal_keeps: "iokeeps inv (recordAppraisal ports cid settings ch a n)"
  unfolding recordAppraisal_def by (intro io_rules keep_now keep_appraisal keep_close) simp_all

lemma closeForReservationGate_keeps: "iokeeps inv (closeForReservationGate ports cid ch b n)"
  unfolding closeForReservationGate_def by (intro io_rules keep_now keep_close) simp_all

end

section \<open>The coordinator on the table\<close>

text \<open>
  The world: the lease store, the operations other processes send before each call, and the
  collation, clock and classifier as parameters.
\<close>

record lease_world =
  lw_store :: participation_store
  lw_env :: "lease_op list list"

record lease_services =
  lsv_collation :: collation
  lsv_now :: "lease_world \<Rightarrow> jsnum"
  lsv_classify :: "string \<Rightarrow> channel_type \<Rightarrow> lease_world \<Rightarrow> memory_scope result"

definition lease_call ::
  "lease_services \<Rightarrow> (participation_store \<Rightarrow> 'a result \<times> participation_store) \<Rightarrow> (lease_world, 'a) io" where
  "lease_call svc op w =
     (let st = lease_run (lsv_collation svc) (case lw_env w of [] \<Rightarrow> [] | b # _ \<Rightarrow> b) (lw_store w) in
      case op st of (r, st') \<Rightarrow> (r, \<lparr>lw_store = st', lw_env = tl (lw_env w)\<rparr>))"

definition pg_participation_ports :: "lease_services \<Rightarrow> lease_world participation_ports" where
  "pg_participation_ports svc =
     \<lparr>pp_now = (\<lambda>w. (Inr (lsv_now svc w), w)),
      pp_read = (\<lambda>c ch. lease_call svc (readLease c ch)),
      pp_open = (\<lambda>c ch d mid ts m n x. lease_call svc (openLease (lsv_collation svc) c ch d mid ts m n x)),
      pp_refresh = (\<lambda>c ch n x mid ts m. lease_call svc (refreshLease (lsv_collation svc) c ch n x mid ts m)),
      pp_claim = (\<lambda>c ch mid ts m n cc cm.
        lease_call svc (claimContinuation (lsv_collation svc) c ch mid ts m n cc cm)),
      pp_recordAppraisal = (\<lambda>c ch a n. lease_call svc (recordAppraisalRow c ch a n)),
      pp_close = (\<lambda>c ch r n. lease_call svc (closeLease c ch r n)),
      pp_classify = (\<lambda>ch t w. (lsv_classify svc ch t w, w))\<rparr>"

abbreviation lease_row_at :: "lease_world \<Rightarrow> string \<times> string \<Rightarrow> participation_row option" where
  "lease_row_at w k \<equiv> store_db (lw_store w) k"

lemma readLease_same: "snd (readLease c ch st) = st"
  by (cases "store_db st (c, ch)")
    (auto simp: readLease_def guarded_def lease_returning_def requireUuid_def requireIdentifier_def)

context text_collation
begin

text \<open>A row's watermark is at least \<open>m\<close>: kept by every operation on the table.\<close>

definition marked :: "string \<times> string \<Rightarrow> int \<times> string \<Rightarrow> participation_store \<Rightarrow> bool" where
  "marked k m st \<longleftrightarrow> (\<exists>r. store_db st k = Some r \<and> mark_upto m (row_mark r))"

lemma mark_upto_trans: "mark_upto a b \<Longrightarrow> mark_upto b c \<Longrightarrow> mark_upto a c"
  using mark_after_upto [of b c a] by (auto simp: mark_upto_def)

lemma marked_step: "marked k m st \<Longrightarrow> lease_step tless op st = (res, st') \<Longrightarrow> marked k m st'"
  unfolding marked_def using step_mark mark_upto_trans by blast

lemma marked_run: "marked k m st \<Longrightarrow> marked k m (lease_run tless ops st)"
proof (induction ops arbitrary: st)
  case (Cons op ops)
  then show ?case using marked_step [of k m st op] by (cases "lease_step tless op st") (simp add: run_Cons)
qed (simp add: lease_run_def)

end

lemma lease_call_keeps:
  assumes c: "text_collation (lsv_collation svc)"
    and f: "\<And>st. snd (f st) = st \<or> f st = lease_step (lsv_collation svc) op st"
  shows "iokeeps (\<lambda>w. text_collation.marked (lsv_collation svc) k m (lw_store w)) (lease_call svc f)"
proof (rule iotripleI)
  fix w :: lease_world and r w'
  let ?tless = "lsv_collation svc"
  let ?st = "lease_run ?tless (case lw_env w of [] \<Rightarrow> [] | b # _ \<Rightarrow> b) (lw_store w)"
  assume w: "text_collation.marked ?tless k m (lw_store w)" and call: "lease_call svc f w = (r, w')"
  have m: "text_collation.marked ?tless k m ?st" using text_collation.marked_run [OF c w] .
  obtain st' where st': "f ?st = (r, st')" "lw_store w' = st'"
    using call by (auto simp: lease_call_def Let_def split: prod.splits)
  then have "st' = ?st \<or> lease_step ?tless op ?st = (r, st')" using f [of ?st] by auto
  then show "text_collation.marked ?tless k m (lw_store w')"
    using m text_collation.marked_step [OF c m] st'(2) by auto
qed

lemma participation_world_marked:
  assumes "text_collation (lsv_collation svc)"
  shows "participation_world (pg_participation_ports svc)
    (\<lambda>w. text_collation.marked (lsv_collation svc) k m (lw_store w))"
proof
  show "iokeeps (\<lambda>w. text_collation.marked (lsv_collation svc) k m (lw_store w))
      (pp_read (pg_participation_ports svc) c ch)" for c ch
    by (simp add: pg_participation_ports_def, rule lease_call_keeps [OF assms]) (simp add: readLease_same)
  show "iokeeps (\<lambda>w. text_collation.marked (lsv_collation svc) k m (lw_store w))
      (pp_open (pg_participation_ports svc) c ch d mid ts mm n x)" for c ch d mid ts mm n x
    by (simp add: pg_participation_ports_def,
        rule lease_call_keeps [OF assms, where op = "Lop_open c ch d mid ts mm n x"]) simp
  show "iokeeps (\<lambda>w. text_collation.marked (lsv_collation svc) k m (lw_store w))
      (pp_refresh (pg_participation_ports svc) c ch n x mid ts mm)" for c ch n x mid ts mm
    by (simp add: pg_participation_ports_def,
        rule lease_call_keeps [OF assms, where op = "Lop_refresh c ch n x mid ts mm"]) simp
  show "iokeeps (\<lambda>w. text_collation.marked (lsv_collation svc) k m (lw_store w))
      (pp_claim (pg_participation_ports svc) c ch mid ts mm n cc cm)" for c ch mid ts mm n cc cm
    by (simp add: pg_participation_ports_def,
        rule lease_call_keeps [OF assms, where op = "Lop_claim c ch mid ts mm n cc cm"]) simp
  show "iokeeps (\<lambda>w. text_collation.marked (lsv_collation svc) k m (lw_store w))
      (pp_recordAppraisal (pg_participation_ports svc) c ch a n)" for c ch a n
    by (simp add: pg_participation_ports_def,
        rule lease_call_keeps [OF assms, where op = "Lop_appraisal c ch a n"]) simp
  show "iokeeps (\<lambda>w. text_collation.marked (lsv_collation svc) k m (lw_store w))
      (pp_close (pg_participation_ports svc) c ch r n)" for c ch r n
    by (simp add: pg_participation_ports_def,
        rule lease_call_keeps [OF assms, where op = "Lop_close c ch r n"]) simp
qed (auto simp: pg_participation_ports_def iotriple_def)

definition code_unit_services :: "lease_services \<Rightarrow> lease_services" where
  "code_unit_services svc = svc\<lparr>lsv_collation := (<)\<rparr>"

interpretation code_unit_leases: participation_world
    "pg_participation_ports (code_unit_services svc)" "\<lambda>w. code_unit_order.marked k m (lw_store w)" for svc k m
  using participation_world_marked [of "code_unit_services svc" k m] code_unit_order.text_collation_axioms
  by (simp add: code_unit_services_def)

section \<open>Admissions\<close>

record admission_call =
  ac_companion :: string
  ac_settings :: lease_settings
  ac_channel :: string
  ac_observation :: room_observation

definition run_admission :: "lease_services \<Rightarrow> admission_call \<Rightarrow> (lease_world, continuation_outcome) io" where
  "run_admission svc c =
     admitContinuation (pg_participation_ports svc) (ac_companion c) (ac_settings c) (ac_channel c) (ac_observation c)"

definition admission_mark :: "admission_call \<Rightarrow> (string \<times> string) \<times> int \<times> string" where
  "admission_mark c = ((ac_companion c, ac_channel c),
     (intval (obs_timestampMs (ac_observation c)), obs_messageId (ac_observation c)))"

text \<open>The messages a sequence of observations admitted.\<close>

fun admissions :: "lease_services \<Rightarrow> admission_call list \<Rightarrow> lease_world \<Rightarrow> ((string \<times> string) \<times> int \<times> string) list" where
  "admissions svc [] w = []"
| "admissions svc (c # cs) w =
     (case run_admission svc c w of
        (r, w') \<Rightarrow> (if r = Inr Outcome_admitted then [admission_mark c] else []) @ admissions svc cs w')"

lemma lease_call_claim:
  assumes "lease_call svc (claimContinuation (lsv_collation svc) c ch mid ts m n cc cm) w = (Inr (Some v), w')"
  shows "\<exists>st r r'. st = lease_run (lsv_collation svc) (case lw_env w of [] \<Rightarrow> [] | b # _ \<Rightarrow> b) (lw_store w)
    \<and> store_db st (c, ch) = Some r \<and> mark_after (lsv_collation svc) (intval ts, mid) (row_mark r)
    \<and> lease_row_at w' (c, ch) = Some r' \<and> row_mark r' = (intval ts, mid)"
proof -
  let ?st = "lease_run (lsv_collation svc) (case lw_env w of [] \<Rightarrow> [] | b # _ \<Rightarrow> b) (lw_store w)"
  have "lease_step (lsv_collation svc) (Lop_claim c ch mid ts m n cc cm) ?st = (Inr (Some v), lw_store w')"
    using assms by (auto simp: lease_call_def Let_def split: prod.splits)
  from won_claim_cases [OF this] show ?thesis by auto
qed

context text_collation
begin

lemma admission_marks:
  assumes svc: "lsv_collation svc = tless"
    and r: "run_admission svc c w = (Inr Outcome_admitted, w')" and k: "admission_mark c = (k, mk)"
  shows "marked k mk (lw_store w')" and "marked k m (lw_store w) \<Longrightarrow> mark_after tless mk m"
proof -
  let ?P = "pg_participation_ports svc"
  have col: "text_collation (lsv_collation svc)" using svc text_collation_axioms by simp
  have claim: "\<exists>w1. (marked k m (lw_store w) \<longrightarrow> marked k m (lw_store w1)) \<and>
      (\<exists>n v. pp_claim ?P (ac_companion c) (ac_channel c) (obs_messageId (ac_observation c))
         (obs_timestampMs (ac_observation c)) (obs_authorIsMachine (ac_observation c)) n
         (ls_maxContinuationCandidates (ac_settings c))
         (ls_maxConsecutiveMachineContinuations (ac_settings c)) w1 = (Inr (Some v), w'))"
  proof -
    define inv :: "lease_world \<Rightarrow> bool" where "inv = (\<lambda>u. marked k m (lw_store w) \<longrightarrow> marked k m (lw_store u))"
    have "participation_world ?P inv"
    proof (cases "marked k m (lw_store w)")
      case True
      then show ?thesis using participation_world_marked [OF col, of k m] by (simp add: inv_def svc)
    next
      case False
      then show ?thesis by (simp add: inv_def participation_world_def iotriple_def)
    qed
    from iotripleD [OF participation_world.admit_cases [OF this] r [unfolded run_admission_def]]
    show ?thesis by (auto simp: inv_def)
  qed
  then obtain w1 n v where w1: "marked k m (lw_store w) \<longrightarrow> marked k m (lw_store w1)"
    and pc: "lease_call svc (claimContinuation (lsv_collation svc) (ac_companion c) (ac_channel c)
         (obs_messageId (ac_observation c)) (obs_timestampMs (ac_observation c))
         (obs_authorIsMachine (ac_observation c)) n (ls_maxContinuationCandidates (ac_settings c))
         (ls_maxConsecutiveMachineContinuations (ac_settings c))) w1 = (Inr (Some v), w')"
    by (auto simp: pg_participation_ports_def)
  from lease_call_claim [OF pc] k obtain st q q' where
    st: "st = lease_run tless (case lw_env w1 of [] \<Rightarrow> [] | b # _ \<Rightarrow> b) (lw_store w1)"
    and q: "store_db st k = Some q" "mark_after tless mk (row_mark q)"
    and q': "lease_row_at w' k = Some q'" "row_mark q' = mk"
    by (auto simp: svc admission_mark_def)
  show "marked k mk (lw_store w')" using q' by (auto simp: marked_def mark_upto_intros)
  assume "marked k m (lw_store w)"
  then have "marked k m st" using w1 marked_run st by simp
  then show "mark_after tless mk m" using q mark_after_upto' by (auto simp: marked_def)
qed

lemma admission_keeps_marked:
  assumes "lsv_collation svc = tless" "run_admission svc c w = (r, w')" "marked k m (lw_store w)"
  shows "marked k m (lw_store w')"
proof -
  have "text_collation (lsv_collation svc)" using assms(1) text_collation_axioms by simp
  from iotripleD [OF participation_world.admit_cases [OF participation_world_marked [OF this, of k m]]
      assms(2) [unfolded run_admission_def]] assms(1,3)
  show ?thesis by simp
qed

lemma admissions_after:
  assumes "lsv_collation svc = tless" "marked k m (lw_store w)" "(k, mk) \<in> set (admissions svc cs w)"
  shows "mark_after tless mk m"
  using assms(2,3)
proof (induction cs arbitrary: w)
  case (Cons c cs)
  obtain r w' where r: "run_admission svc c w = (r, w')" by fastforce
  show ?case
  proof (cases "r = Inr Outcome_admitted \<and> admission_mark c = (k, mk)")
    case True
    then show ?thesis using admission_marks(2) [OF assms(1)] r Cons.prems(1) by blast
  next
    case False
    then have "(k, mk) \<in> set (admissions svc cs w')" using Cons.prems(2) r by (auto split: if_splits)
    then show ?thesis using Cons.IH admission_keeps_marked [OF assms(1) r Cons.prems(1)] by blast
  qed
qed simp

lemma admissions_distinct:
  assumes "lsv_collation svc = tless"
  shows "distinct (admissions svc cs w)"
proof (induction cs arbitrary: w)
  case (Cons c cs)
  obtain r w' where r: "run_admission svc c w = (r, w')" by fastforce
  obtain k mk where k: "admission_mark c = (k, mk)" by (cases "admission_mark c")
  have "(k, mk) \<notin> set (admissions svc cs w')" if "r = Inr Outcome_admitted"
    using admissions_after [OF assms admission_marks(1) [OF assms r [unfolded that] k]] mark_after_irrefl by blast
  then show ?case using Cons.IH r k by auto
qed simp

end

text \<open>
  C10. A restart, a redelivery or a racing observer never turns one room message into two
  continuation candidates: over any sequence of observations by any companions, with any lease
  operations of other processes interleaved before every store call, no message of a room is
  admitted twice for one companion.
\<close>

theorem continuation_admitted_once:
  assumes "text_collation (lsv_collation svc)"
  shows "distinct (admissions svc calls w)"
  using text_collation.admissions_distinct [OF assms refl] .

definition demo_lease_services :: lease_services where
  "demo_lease_services = \<lparr>lsv_collation = (<), lsv_now = (\<lambda>_. Fin 40), lsv_classify = (\<lambda>_ _ _. Inr Scope_group)\<rparr>"

definition demo_observation :: admission_call where
  "demo_observation = \<lparr>ac_companion = demo_member,
     ac_settings = createDefaultRoomParticipationLeaseSettings
       \<lparr>ls_enabled := True, ls_continuationCooldownMs := Fin 20, ls_minContentChars := Fin 2\<rparr>,
     ac_channel = ''room'',
     ac_observation = \<lparr>obs_messageId = ''m2'', obs_timestampMs = Fin 20, obs_authorIsMachine = False, obs_contentLength = 9\<rparr>\<rparr>"

definition demo_lease_world :: lease_world where
  "demo_lease_world = \<lparr>lw_store = demo_lease_table, lw_env = [take 1 demo_lease_ops]\<rparr>"

theorem continuation_admitted_once_witness:
  "length (admissions demo_lease_services [demo_observation, demo_observation] demo_lease_world) = 1
   \<and> distinct (admissions demo_lease_services [demo_observation, demo_observation] demo_lease_world)"
proof
  show "length (admissions demo_lease_services [demo_observation, demo_observation] demo_lease_world) = 1"
    by code_simp
  show "distinct (admissions demo_lease_services [demo_observation, demo_observation] demo_lease_world)"
    by (rule continuation_admitted_once) (simp add: demo_lease_services_def code_unit_order.text_collation_axioms)
qed

end
