(* ===== verification/Participation_Behaviour.thy ===== *)
theory Participation_Behaviour
  imports Participation_Coordinator
begin

text \<open>
  What the coordinator of participation leases does in a room nobody disturbs: the durable
  claim admits what the pure gate admits unless the database orders the message ids otherwise, and enough ignored candidates in a row
  withdraw the companion.
\<close>

section \<open>Undisturbed calls\<close>

definition undisturbed :: "lease_services \<Rightarrow> lease_world \<Rightarrow> bool" where
  "undisturbed svc w \<longleftrightarrow> lw_env w = [] \<and> \<not> store_closed (lw_store w)"

text \<open>A row whose numbers a JavaScript integer holds exactly, with room for \<open>k\<close> more revisions.\<close>

definition row_readable :: "int \<Rightarrow> participation_row \<Rightarrow> bool" where
  "row_readable k r \<longleftrightarrow> participation_check r
     \<and> pl_openedAt r \<le> MAX_SAFE_INTEGER \<and> pl_lastActivityAt r \<le> MAX_SAFE_INTEGER
     \<and> pl_expiresAt r \<le> MAX_SAFE_INTEGER \<and> pl_watermarkTimestamp r \<le> MAX_SAFE_INTEGER
     \<and> (\<forall>t. pl_closedAt r = Some t \<longrightarrow> \<bar>t\<bar> \<le> MAX_SAFE_INTEGER)
     \<and> pl_revision r + k \<le> MAX_SAFE_INTEGER"

lemma readable_view: "row_readable k r \<Longrightarrow> 0 \<le> k \<Longrightarrow> toLeaseView r = Inr r"
  by (cases "pl_closedAt r")
    (auto simp: row_readable_def participation_check_def toLeaseView_def requireSafeInteger_def
      MAX_SAFE_INTEGER_def INT4_LIMIT_def abs_le_iff)

lemma lease_call_quiet:
  "undisturbed svc w \<Longrightarrow> lease_call svc op w = (case op (lw_store w) of (r, st') \<Rightarrow> (r, w\<lparr>lw_store := st'\<rparr>))"
  by (cases w) (auto simp: undisturbed_def lease_call_def lease_run_def Let_def split: prod.splits)

lemma statement_writes:
  assumes "\<not> store_closed st" "f (store_db st k) = Some r" "row_readable j r" "0 \<le> j"
  shows "lease_returning (lease_statement k f st) = (Inr (Some r), st\<lparr>store_db := (store_db st)(k \<mapsto> r)\<rparr>)"
  using assms readable_view [OF assms(3,4)]
  by (auto simp: lease_statement_def lease_returning_def row_readable_def)

lemmas guard_ok =
  requireUuid_def requireIdentifier_def requireTimestamp_def requireNonNegativeInteger_def int4_def

lemma timestamp_guards:
  assumes "0 \<le> t" "t \<le> MAX_SAFE_INTEGER"
  shows "requireTimestamp (jsint t) f = Inr t" "requireNonNegativeInteger (jsint t) f = Inr t"
  using assms by (auto simp: requireTimestamp_Inr requireNonNegativeInteger_Inr)

lemma js_jsint [simp]:
  "js_lt (jsint a) (jsint b) \<longleftrightarrow> a < b" "js_eq (jsint a) (jsint b) \<longleftrightarrow> a = b"
  "js_le (jsint a) (jsint b) \<longleftrightarrow> a \<le> b"
  by (simp_all add: jsint_def)

section \<open>The gate and the claim agree\<close>

definition decision_outcome :: "continuation_decision \<Rightarrow> continuation_outcome" where
  "decision_outcome d =
     (case d of Continue_admit \<Rightarrow> Outcome_admitted | Continue_absent \<Rightarrow> Outcome_absent
      | Continue_suppressed s \<Rightarrow> Outcome_suppressed s | Continue_close _ s \<Rightarrow> Outcome_suppressed s)"

lemma gate_admits_claim:
  assumes "evaluateRoomParticipationContinuation (Some r) obs settings (jsint n) = Continue_admit"
    and "obs_timestampMs obs = jsint t"
    and "ls_maxContinuationCandidates settings = jsint C" "ls_maxConsecutiveMachineContinuations settings = jsint M"
  shows "claim_stmt tless n (obs_messageId obs) t (obs_authorIsMachine obs) C M (Some r) =
    (if t = pl_watermarkTimestamp r \<and> \<not> tless (pl_watermarkMessage r) (obs_messageId obs) then None else Some (r\<lparr>pl_watermarkMessage := obs_messageId obs, pl_watermarkTimestamp := t, pl_lastActivityAt := n,
            pl_consideredCount := pl_consideredCount r + 1,
            pl_machineStreak := (if obs_authorIsMachine obs then pl_machineStreak r + 1 else 0),
            pl_revision := pl_revision r + 1\<rparr>))"
    and "pl_status r = Lease_active" "pl_consideredCount r < C" "obs_authorIsMachine obs \<longrightarrow> pl_machineStreak r < M"
  using assms
  by (auto simp: evaluateRoomParticipationContinuation_def claim_stmt_def isAfterWatermark_def mark_after_def
      row_mark_def split: if_splits)

lemma claim_readable:
  assumes "row_readable 1 r" "pl_status r = Lease_active" "pl_consideredCount r < C"
    and "m \<longrightarrow> pl_machineStreak r < M" "C \<le> INT4_LIMIT" "M \<le> INT4_LIMIT"
    and "0 \<le> t" "t \<le> MAX_SAFE_INTEGER" "0 \<le> n" "n \<le> MAX_SAFE_INTEGER"
  shows "row_readable 0 (r\<lparr>pl_watermarkMessage := mid, pl_watermarkTimestamp := t, pl_lastActivityAt := n,
      pl_consideredCount := pl_consideredCount r + 1,
      pl_machineStreak := (if m then pl_machineStreak r + 1 else 0), pl_revision := pl_revision r + 1\<rparr>)"
  using assms by (auto simp: row_readable_def participation_check_def INT8_LIMIT_def INT4_LIMIT_def MAX_SAFE_INTEGER_def)

lemma close_readable:
  "row_readable 1 r \<Longrightarrow> 0 \<le> n \<Longrightarrow> n \<le> MAX_SAFE_INTEGER \<Longrightarrow>
   row_readable 0 (r\<lparr>pl_status := Lease_closed, pl_closedAt := Some n, pl_closeReason := Some reason,
                     pl_revision := pl_revision r + 1\<rparr>)"
  by (auto simp: row_readable_def participation_check_def INT8_LIMIT_def INT4_LIMIT_def MAX_SAFE_INTEGER_def)


text \<open>What the observe path hands over: a companion id, a room and a message with their clock, and caps a column holds.\<close>

definition observation_ok :: "admission_call \<Rightarrow> bool" where
  "observation_ok c \<longleftrightarrow> isRfc4122Uuid (ac_companion c) \<and> isBoundedString (ac_channel c) 512 1
     \<and> isBoundedString (obs_messageId (ac_observation c)) 512 1 \<and> is_timestamp (obs_timestampMs (ac_observation c))
     \<and> is_timestamp (ls_maxContinuationCandidates (ac_settings c))
     \<and> intval (ls_maxContinuationCandidates (ac_settings c)) \<le> INT4_LIMIT
     \<and> is_timestamp (ls_maxConsecutiveMachineContinuations (ac_settings c))
     \<and> intval (ls_maxConsecutiveMachineContinuations (ac_settings c)) \<le> INT4_LIMIT"

lemma readLease_quiet:
  assumes "isRfc4122Uuid cid" "isBoundedString ch 512 1" "\<not> store_closed st"
    and "\<And>r. store_db st (cid, ch) = Some r \<Longrightarrow> row_readable 1 r"
  shows "readLease cid ch st = (Inr (store_db st (cid, ch)), st)"
  using assms readable_view [of 1]
  by (cases "store_db st (cid, ch)") (auto simp: readLease_def guard_ok lease_returning_def)

lemma claim_quiet:
  assumes "observation_ok c" "is_timestamp nowMs" "\<not> store_closed st"
    and "store_db st (ac_companion c, ac_channel c) = Some r" "row_readable 1 r"
    and "evaluateRoomParticipationContinuation (Some r) (ac_observation c) (ac_settings c) nowMs = Continue_admit"
  shows "\<exists>v st'. claimContinuation tless (ac_companion c) (ac_channel c) (obs_messageId (ac_observation c))
     (obs_timestampMs (ac_observation c)) (obs_authorIsMachine (ac_observation c)) nowMs
     (ls_maxContinuationCandidates (ac_settings c)) (ls_maxConsecutiveMachineContinuations (ac_settings c)) st
     = (Inr v, st') \<and> (v = None \<longleftrightarrow> obs_timestampMs (ac_observation c) = jsint (pl_watermarkTimestamp r)
         \<and> \<not> tless (pl_watermarkMessage r) (obs_messageId (ac_observation c)))"
proof -
  let ?o = "ac_observation c" and ?s = "ac_settings c"
  obtain n t C M where js: "nowMs = jsint n" "obs_timestampMs ?o = jsint t"
    "ls_maxContinuationCandidates ?s = jsint C" "ls_maxConsecutiveMachineContinuations ?s = jsint M"
    using assms(1,2) is_timestampD(1) unfolding observation_ok_def by meson
  have b: "0 \<le> n" "n \<le> MAX_SAFE_INTEGER" "0 \<le> t" "t \<le> MAX_SAFE_INTEGER"
    "0 \<le> C" "C \<le> MAX_SAFE_INTEGER" "0 \<le> M" "M \<le> MAX_SAFE_INTEGER" "C \<le> INT4_LIMIT" "M \<le> INT4_LIMIT"
    using assms(1,2) js by (simp_all add: observation_ok_def)
  let ?lost = "t = pl_watermarkTimestamp r \<and> \<not> tless (pl_watermarkMessage r) (obs_messageId ?o)"
  let ?f = "claim_stmt tless n (obs_messageId ?o) t (obs_authorIsMachine ?o) C M" and ?k = "(ac_companion c, ac_channel c)"
  note g = gate_admits_claim [OF assms(6) [unfolded js(1)] js(2-4)]
  have "\<exists>v st'. lease_returning (lease_statement ?k ?f st) = (Inr v, st') \<and> (v = None \<longleftrightarrow> ?lost)"
  proof (cases ?lost)
    case True
    then have "?f (store_db st ?k) = None" using g(1) assms(4) by simp
    then show ?thesis using True assms(3) by (simp add: lease_statement_def lease_returning_def)
  next
    case False
    note f = trans [OF g(1) [where tless = tless] if_not_P [OF False], folded assms(4)]
    show ?thesis
      using statement_writes [of st ?f ?k, OF assms(3) f
          claim_readable [OF assms(5) g(2-4) b(9,10,3,4,1,2), of "obs_messageId ?o"] order_refl] False by simp
  qed
  moreover have "jsint t = jsint u \<longleftrightarrow> t = u" for u by (simp add: jsint_def)
  ultimately show ?thesis
    using assms(1,3)
    by (simp add: claimContinuation_def js timestamp_guards b requireUuid_def requireIdentifier_def int4_def
        observation_ok_def)
qed

lemma close_quiet:
  assumes "isRfc4122Uuid cid" "isBoundedString ch 512 1" "is_timestamp nowMs" "\<not> store_closed st"
    and "store_db st (cid, ch) = Some r" "row_readable 1 r" "pl_status r = Lease_active"
  shows "closeLease cid ch reason nowMs st =
    (let r' = r\<lparr>pl_status := Lease_closed, pl_closedAt := Some (intval nowMs), pl_closeReason := Some reason,
                pl_revision := pl_revision r + 1\<rparr>
     in (Inr (Some r'), st\<lparr>store_db := (store_db st)((cid, ch) \<mapsto> r')\<rparr>))"
proof -
  note t = is_timestampD [OF assms(3)]
  have "close_stmt reason (intval nowMs) (store_db st (cid, ch)) =
    Some (r\<lparr>pl_status := Lease_closed, pl_closedAt := Some (intval nowMs), pl_closeReason := Some reason,
            pl_revision := pl_revision r + 1\<rparr>)"
    using assms(5,7) by (simp add: close_stmt_def)
  from statement_writes [of st "close_stmt reason (intval nowMs)" "(cid, ch)", OF assms(4) this close_readable [OF assms(6) t(2,3), of reason] order_refl]
  have "lease_returning (lease_statement (cid, ch) (close_stmt reason (intval nowMs)) st) =
    (let r' = r\<lparr>pl_status := Lease_closed, pl_closedAt := Some (intval nowMs), pl_closeReason := Some reason,
                pl_revision := pl_revision r + 1\<rparr>
     in (Inr (Some r'), st\<lparr>store_db := (store_db st)((cid, ch) \<mapsto> r')\<rparr>))" by (simp add: Let_def)
  moreover have "requireTimestamp nowMs f = Inr (intval nowMs)" for f
    using assms(3) by (simp add: requireTimestamp_Inr)
  ultimately show ?thesis using assms(1,2) by (simp add: closeLease_def requireUuid_def requireIdentifier_def)
qed

lemma gate_close_active:
  "evaluateRoomParticipationContinuation (Some r) obs settings n = Continue_close a b \<Longrightarrow> pl_status r = Lease_active"
  by (auto simp: evaluateRoomParticipationContinuation_def split: if_splits)

lemma gate_None: "evaluateRoomParticipationContinuation None obs settings n = Continue_absent"
  by (simp add: evaluateRoomParticipationContinuation_def)

text \<open>
  C27. With no other process in between, an observation has the outcome that the pure gate names on the stored row, except
  where the orders of the two differ: the gate compares message ids by code units and the claim by the collation of the
  database, so an observation that the gate admits is lost to the claim exactly when it carries the time of the
  watermark and its id does not come after the watermark's in that collation. Every message that the gate admits at a
  later time is admitted, and nothing that the gate refuses is.
\<close>

theorem continuation_gate_exact:
  assumes "undisturbed svc w" "observation_ok c" "is_timestamp (lsv_now svc w)"
    and "\<And>r. lease_row_at w (ac_companion c, ac_channel c) = Some r \<Longrightarrow> row_readable 1 r"
  shows "let row = lease_row_at w (ac_companion c, ac_channel c); obs = ac_observation c;
             gate = evaluateRoomParticipationContinuation row obs (ac_settings c) (lsv_now svc w) in
      fst (run_admission svc c w) = Inr (if gate = Continue_admit
          \<and> (\<exists>r. row = Some r \<and> obs_timestampMs obs = jsint (pl_watermarkTimestamp r)
               \<and> \<not> lsv_collation svc (pl_watermarkMessage r) (obs_messageId obs))
        then Outcome_suppressed Suppress_claim_lost else decision_outcome gate)"
proof -
  let ?k = "(ac_companion c, ac_channel c)"
  let ?d = "evaluateRoomParticipationContinuation (lease_row_at w ?k) (ac_observation c) (ac_settings c) (lsv_now svc w)"
  note quiet = lease_call_quiet [OF assms(1)]
  have u: "\<not> store_closed (lw_store w)" using assms(1) by (simp add: undisturbed_def)
  have ids: "isRfc4122Uuid (ac_companion c)" "isBoundedString (ac_channel c) 512 1"
    using assms(2) by (simp_all add: observation_ok_def)
  note unfolds = run_admission_def admitContinuation_def pg_participation_ports_def iobind_def ioret_def
    decision_outcome_def
  note read = readLease_quiet [OF ids u assms(4)]
  show ?thesis
  proof (cases ?d)
    case Continue_admit
    then obtain r where r: "lease_row_at w ?k = Some r" using gate_None by (cases "lease_row_at w ?k") auto
    let ?lost = "obs_timestampMs (ac_observation c) = jsint (pl_watermarkTimestamp r)
      \<and> \<not> lsv_collation svc (pl_watermarkMessage r) (obs_messageId (ac_observation c))"
    from claim_quiet [where tless = "lsv_collation svc", OF assms(2,3) u r assms(4) [OF r]] Continue_admit r obtain v st' where
      v: "claimContinuation (lsv_collation svc) (ac_companion c) (ac_channel c) (obs_messageId (ac_observation c))
        (obs_timestampMs (ac_observation c)) (obs_authorIsMachine (ac_observation c)) (lsv_now svc w)
        (ls_maxContinuationCandidates (ac_settings c)) (ls_maxConsecutiveMachineContinuations (ac_settings c))
        (lw_store w) = (Inr v, st')" "v = None \<longleftrightarrow> ?lost" by auto
    have "fst (run_admission svc c w) = Inr (if v = None then Outcome_suppressed Suppress_claim_lost else Outcome_admitted)"
      using Continue_admit v(1) by (simp add: unfolds read quiet)
    then show ?thesis using Continue_admit r v(2) by (simp add: decision_outcome_def)
  next
    case (Continue_close a b)
    then obtain r where r: "lease_row_at w ?k = Some r" using gate_None by (cases "lease_row_at w ?k") auto
    have act: "pl_status r = Lease_active" using Continue_close r gate_close_active by simp
    show ?thesis using Continue_close close_quiet [OF ids assms(3) u r assms(4) [OF r] act]
      by (simp add: unfolds read quiet Let_def)
  qed (simp_all add: unfolds read quiet)
qed

section \<open>Withdrawal\<close>

lemma appraisal_quiet:
  assumes "isRfc4122Uuid cid" "isBoundedString ch 512 1" "is_timestamp nowMs" "\<not> store_closed st"
    and "store_db st (cid, ch) = Some r" "row_readable k r" "1 \<le> k" "pl_status r = Lease_active"
    and "pl_ignoreStreak r < INT4_LIMIT"
  shows "\<exists>r'. recordAppraisalRow cid ch a nowMs st = (Inr (Some r'), st\<lparr>store_db := (store_db st)((cid, ch) \<mapsto> r')\<rparr>)
    \<and> row_readable (k - 1) r' \<and> pl_status r' = Lease_active
    \<and> pl_ignoreStreak r' = (if a = Action_ignore then pl_ignoreStreak r + 1 else 0)"
proof -
  note t = is_timestampD [OF assms(3)]
  let ?r' = "r\<lparr>pl_ignoreStreak := (if a = Action_ignore then pl_ignoreStreak r + 1 else 0),
               pl_lastActivityAt := max (pl_lastActivityAt r) (intval nowMs), pl_revision := pl_revision r + 1\<rparr>"
  have s: "appraisal_stmt (a = Action_ignore) (intval nowMs) (store_db st (cid, ch)) = Some ?r'"
    using assms(5,8) by (simp add: appraisal_stmt_def)
  have ok: "row_readable (k - 1) ?r'" using assms(6-) t(2,3)
    by (auto simp: row_readable_def participation_check_def INT8_LIMIT_def INT4_LIMIT_def MAX_SAFE_INTEGER_def)
  have w: "lease_returning (lease_statement (cid, ch) (appraisal_stmt (a = Action_ignore) (intval nowMs)) st) =
      (Inr (Some ?r'), st\<lparr>store_db := (store_db st)((cid, ch) \<mapsto> ?r')\<rparr>)"
    by (rule statement_writes [of st "appraisal_stmt (a = Action_ignore) (intval nowMs)", OF assms(4) s ok])
      (use assms(7) in simp)
  have "requireTimestamp nowMs f = Inr (intval nowMs)" for f using assms(3) by (simp add: requireTimestamp_Inr)
  then have "recordAppraisalRow cid ch a nowMs st = (Inr (Some ?r'), st\<lparr>store_db := (store_db st)((cid, ch) \<mapsto> ?r')\<rparr>)"
    using assms(1,2) w by (simp add: recordAppraisalRow_def requireUuid_def requireIdentifier_def)
  then show ?thesis using ok assms(8) by (intro exI [of _ ?r']) simp
qed

text \<open>Appraisals of a room one after the other, at the given times.\<close>

fun run_ignores ::
  "lease_services \<Rightarrow> string \<Rightarrow> lease_settings \<Rightarrow> string \<Rightarrow> jsnum list \<Rightarrow> lease_world \<Rightarrow>
     appraisal_outcome result list \<times> lease_world" where
  "run_ignores svc cid settings ch [] w = ([], w)"
| "run_ignores svc cid settings ch (t # ts) w =
     (case recordAppraisal (pg_participation_ports svc) cid settings ch Action_ignore (Some t) w of
        (res, w') \<Rightarrow> (case run_ignores svc cid settings ch ts w' of (rest, w'') \<Rightarrow> (res # rest, w'')))"

lemma ignore_quiet:
  assumes "undisturbed svc w" "isRfc4122Uuid cid" "isBoundedString ch 512 1" "is_timestamp t"
    and "lease_row_at w (cid, ch) = Some r" "row_readable k r" "2 \<le> k" "pl_status r = Lease_active"
    and "ls_enabled settings" "ls_maxConsecutiveIgnores settings = jsint N" "N \<le> INT4_LIMIT" "pl_ignoreStreak r < N"
  obtains (recorded) w' r' where "pl_ignoreStreak r + 1 < N" "undisturbed svc w'"
      "recordAppraisal (pg_participation_ports svc) cid settings ch Action_ignore (Some t) w = (Inr Appraisal_recorded, w')"
      "lease_row_at w' (cid, ch) = Some r'" "row_readable (k - 1) r'" "pl_status r' = Lease_active"
      "pl_ignoreStreak r' = pl_ignoreStreak r + 1"
  | (closed) w' r' where "pl_ignoreStreak r + 1 = N"
      "recordAppraisal (pg_participation_ports svc) cid settings ch Action_ignore (Some t) w
         = (Inr (Appraisal_closed Close_withdrawn), w')"
      "lease_row_at w' (cid, ch) = Some r'" "pl_status r' = Lease_closed" "pl_closeReason r' = Some Close_withdrawn"
proof -
  note quiet = lease_call_quiet
  have u: "\<not> store_closed (lw_store w)" using assms(1) by (simp add: undisturbed_def)
  from appraisal_quiet [OF assms(2-4) u assms(5,6) _ assms(8), of Action_ignore] assms(7,11,12) obtain r' where
    r': "recordAppraisalRow cid ch Action_ignore t (lw_store w) =
        (Inr (Some r'), (lw_store w)\<lparr>store_db := (store_db (lw_store w))((cid, ch) \<mapsto> r')\<rparr>)"
      "row_readable (k - 1) r'" "pl_status r' = Lease_active" "pl_ignoreStreak r' = pl_ignoreStreak r + 1"
    by auto
  let ?w = "w\<lparr>lw_store := (lw_store w)\<lparr>store_db := (store_db (lw_store w))((cid, ch) \<mapsto> r')\<rparr>\<rparr>"
  have u': "undisturbed svc ?w" using assms(1) by (simp add: undisturbed_def)
  have one: "row_readable 1 r'" using r'(2) assms(7) by (simp add: row_readable_def)
  have step: "recordAppraisal (pg_participation_ports svc) cid settings ch Action_ignore (Some t) w =
    (if pl_ignoreStreak r + 1 < N then (Inr Appraisal_recorded, ?w)
     else (case lease_call svc (closeLease cid ch Close_withdrawn t) ?w of
        (Inl e, w') \<Rightarrow> (Inl e, w') | (Inr _, w') \<Rightarrow> (Inr (Appraisal_closed Close_withdrawn), w')))"
    using assms(9,10) by (simp add: recordAppraisal_def pg_participation_ports_def iobind_def ioret_def
        quiet [OF assms(1)] r'(1,4)
        split: prod.split sum.split)
  show thesis
  proof (cases "pl_ignoreStreak r + 1 < N")
    case True
    then show ?thesis using recorded [OF True u' _ _ r'(2-4)] step by simp
  next
    case False
    let ?st = "(lw_store w)\<lparr>store_db := (store_db (lw_store w))((cid, ch) \<mapsto> r')\<rparr>"
    have "\<not> store_closed ?st" "store_db ?st (cid, ch) = Some r'" using u by simp_all
    note c = close_quiet [OF assms(2-4) this one r'(3), of Close_withdrawn]
    show ?thesis using False assms(12) step closed by (simp add: quiet [OF u'] c Let_def)
  qed
qed

text \<open>
  Silence withdraws: on a live lease of an enabled companion whose ignore streak is \<open>i\<close>, with
  no other process in between, the first \<open>N - i - 1\<close> ignored candidates are recorded and the one
  that reaches the owner's limit \<open>N\<close> closes the lease as withdrawn.
\<close>

theorem ignores_withdraw:
  assumes "undisturbed svc w" "isRfc4122Uuid cid" "isBoundedString ch 512 1" "list_all is_timestamp ts"
    and "lease_row_at w (cid, ch) = Some r" "row_readable (int (length ts) + 1) r" "pl_status r = Lease_active"
    and "ls_enabled settings" "ls_maxConsecutiveIgnores settings = jsint N" "N \<le> INT4_LIMIT"
    and "pl_ignoreStreak r + int (length ts) = N" "ts \<noteq> []"
  shows "\<exists>w' r'. run_ignores svc cid settings ch ts w =
      (replicate (length ts - 1) (Inr Appraisal_recorded) @ [Inr (Appraisal_closed Close_withdrawn)], w')
    \<and> lease_row_at w' (cid, ch) = Some r' \<and> pl_status r' = Lease_closed \<and> pl_closeReason r' = Some Close_withdrawn"
  using assms(1,4-7,11,12)
proof (induction ts arbitrary: w r)
  case (Cons t ts)
  have t: "is_timestamp t" "2 \<le> int (length (t # ts)) + 1" "pl_ignoreStreak r < N" using Cons.prems by simp_all
  show ?case
  proof (rule ignore_quiet [OF Cons.prems(1) assms(2,3) t(1) Cons.prems(3,4) t(2) Cons.prems(5) assms(8-10) t(3)])
    fix w' r'
    assume *: "pl_ignoreStreak r + 1 < N" "undisturbed svc w'"
      "recordAppraisal (pg_participation_ports svc) cid settings ch Action_ignore (Some t) w = (Inr Appraisal_recorded, w')"
      "lease_row_at w' (cid, ch) = Some r'" "row_readable (int (length (t # ts)) + 1 - 1) r'"
      "pl_status r' = Lease_active" "pl_ignoreStreak r' = pl_ignoreStreak r + 1"
    have ne: "ts \<noteq> []" using *(1) Cons.prems(6) by auto
    have "row_readable (int (length ts) + 1) r'" "pl_ignoreStreak r' + int (length ts) = N" "list_all is_timestamp ts"
      using *(5,7) Cons.prems(2,6) by (simp_all add: add.commute)
    from Cons.IH [OF *(2) this(3) *(4) this(1) *(6) this(2) ne] obtain w'' r'' where
      "run_ignores svc cid settings ch ts w' =
        (replicate (length ts - 1) (Inr Appraisal_recorded) @ [Inr (Appraisal_closed Close_withdrawn)], w'')"
      "lease_row_at w'' (cid, ch) = Some r''" "pl_status r'' = Lease_closed" "pl_closeReason r'' = Some Close_withdrawn"
      by blast
    then show ?case using *(3) ne by (cases ts) auto
  next
    fix w' r'
    assume *: "pl_ignoreStreak r + 1 = N"
      "recordAppraisal (pg_participation_ports svc) cid settings ch Action_ignore (Some t) w
         = (Inr (Appraisal_closed Close_withdrawn), w')"
      "lease_row_at w' (cid, ch) = Some r'" "pl_status r' = Lease_closed" "pl_closeReason r' = Some Close_withdrawn"
    from *(1) have "ts = []" using Cons.prems(6) by auto
    then show ?case using * by simp
  qed
qed simp

definition demo_live_world :: lease_world where
  "demo_live_world = \<lparr>lw_store = \<lparr>store_closed = False, store_db = [(demo_member, ''room'') \<mapsto>
     fresh_participation demo_member ''room'' Disposed_reply 10 1000 ''m1'' 10]\<rparr>, lw_env = []\<rparr>"

lemma demo_live_ok:
  "undisturbed demo_lease_services demo_live_world" "observation_ok demo_observation"
  "is_timestamp (lsv_now demo_lease_services demo_live_world)"
  "lease_row_at demo_live_world (demo_member, ''room'')
     = Some (fresh_participation demo_member ''room'' Disposed_reply 10 1000 ''m1'' 10)"
  "row_readable 4 (fresh_participation demo_member ''room'' Disposed_reply 10 1000 ''m1'' 10)"
  by (simp_all add: undisturbed_def demo_live_world_def demo_lease_services_def row_readable_def
      participation_check_def fresh_participation_def INT4_LIMIT_def INT8_LIMIT_def MAX_SAFE_INTEGER_def) code_simp

text \<open>
  One message that both admit, and one at the time of the watermark whose id \<^verbatim>\<open>a\<close> comes after the watermark's \<^verbatim>\<open>B\<close> by code
  units and, as in most language collations, before it in the collation of the database.
\<close>

definition demo_dictionary :: lease_services where
  "demo_dictionary = demo_lease_services\<lparr>lsv_collation := (\<lambda>x y. x = ''a'' \<and> y = ''B'')\<rparr>"

definition demo_simultaneous :: admission_call where
  "demo_simultaneous = demo_observation\<lparr>ac_observation :=
     \<lparr>obs_messageId = ''a'', obs_timestampMs = Fin 10, obs_authorIsMachine = False, obs_contentLength = 9\<rparr>\<rparr>"

definition demo_marked_world :: lease_world where
  "demo_marked_world = \<lparr>lw_store = \<lparr>store_closed = False, store_db = [(demo_member, ''room'') \<mapsto>
     fresh_participation demo_member ''room'' Disposed_reply 10 1000 ''B'' 10]\<rparr>, lw_env = []\<rparr>"

lemma demo_marked_ok:
  "undisturbed demo_dictionary demo_marked_world" "observation_ok demo_simultaneous"
  "is_timestamp (lsv_now demo_dictionary demo_marked_world)"
  "lease_row_at demo_marked_world (ac_companion demo_simultaneous, ac_channel demo_simultaneous)
     = Some (fresh_participation demo_member ''room'' Disposed_reply 10 1000 ''B'' 10)"
  "row_readable 1 (fresh_participation demo_member ''room'' Disposed_reply 10 1000 ''B'' 10)"
  by (simp_all add: undisturbed_def demo_marked_world_def demo_dictionary_def demo_lease_services_def row_readable_def
      demo_simultaneous_def demo_observation_def
      participation_check_def fresh_participation_def INT4_LIMIT_def INT8_LIMIT_def MAX_SAFE_INTEGER_def) code_simp

theorem continuation_gate_exact_witness:
  "fst (run_admission demo_lease_services demo_observation demo_live_world) = Inr Outcome_admitted
   \<and> fst (run_admission demo_dictionary demo_simultaneous demo_marked_world) = Inr (Outcome_suppressed Suppress_claim_lost)"
proof
  have k: "ac_companion demo_observation = demo_member" "ac_channel demo_observation = ''room''"
    by (simp_all add: demo_observation_def)
  have r: "row_readable 1 r" if "lease_row_at demo_live_world (ac_companion demo_observation, ac_channel demo_observation)
      = Some r" for r
    using that demo_live_ok(4,5) by (simp add: k row_readable_def)
  have d: "evaluateRoomParticipationContinuation
      (lease_row_at demo_live_world (ac_companion demo_observation, ac_channel demo_observation))
      (ac_observation demo_observation) (ac_settings demo_observation)
      (lsv_now demo_lease_services demo_live_world) = Continue_admit"
    by code_simp
  have t: "obs_timestampMs (ac_observation demo_observation) \<noteq> jsint 10" by (simp add: demo_observation_def jsint_def)
  from continuation_gate_exact [OF demo_live_ok(1-3) r]
  show "fst (run_admission demo_lease_services demo_observation demo_live_world) = Inr Outcome_admitted"
    unfolding Let_def d using t by (simp add: k demo_live_ok(4) fresh_participation_def decision_outcome_def)
next
  have d: "evaluateRoomParticipationContinuation
      (lease_row_at demo_marked_world (ac_companion demo_simultaneous, ac_channel demo_simultaneous))
      (ac_observation demo_simultaneous) (ac_settings demo_simultaneous)
      (lsv_now demo_dictionary demo_marked_world) = Continue_admit"
    by code_simp
  have r: "row_readable 1 r" if "lease_row_at demo_marked_world (ac_companion demo_simultaneous, ac_channel demo_simultaneous)
      = Some r" for r
    using that demo_marked_ok(4,5) by simp
  from continuation_gate_exact [OF demo_marked_ok(1-3) r]
  show "fst (run_admission demo_dictionary demo_simultaneous demo_marked_world) = Inr (Outcome_suppressed Suppress_claim_lost)"
    unfolding Let_def d
    by (simp add: demo_marked_ok(4) fresh_participation_def) (simp add: demo_simultaneous_def demo_dictionary_def jsint_def)
qed

theorem ignores_withdraw_witness:
  "fst (run_ignores demo_lease_services demo_member (ac_settings demo_observation) ''room''
      [Fin 50, Fin 60, Fin 70] demo_live_world)
     = [Inr Appraisal_recorded, Inr Appraisal_recorded, Inr (Appraisal_closed Close_withdrawn)]"
proof -
  have m: "isRfc4122Uuid demo_member" "isBoundedString ''room'' 512 1" by code_simp+
  have s: "ls_enabled (ac_settings demo_observation)" "ls_maxConsecutiveIgnores (ac_settings demo_observation) = jsint 3"
    by (simp_all add: demo_observation_def createDefaultRoomParticipationLeaseSettings_def jsint_def)
  have "\<exists>w' r'. run_ignores demo_lease_services demo_member (ac_settings demo_observation) ''room''
      [Fin 50, Fin 60, Fin 70] demo_live_world =
      (replicate (length [Fin 50, Fin 60, Fin 70] - 1) (Inr Appraisal_recorded)
         @ [Inr (Appraisal_closed Close_withdrawn)], w')
    \<and> lease_row_at w' (demo_member, ''room'') = Some r' \<and> pl_status r' = Lease_closed
    \<and> pl_closeReason r' = Some Close_withdrawn"
    by (rule ignores_withdraw [OF demo_live_ok(1) m _ demo_live_ok(4) _ _ s])
      (use demo_live_ok(5) in \<open>simp_all add: fresh_participation_def INT4_LIMIT_def MAX_SAFE_INTEGER_def\<close>)
  then show ?thesis by (auto simp: numeral_2_eq_2)
qed

end
