(* ===== verification/Circuit_Breaker.thy ===== *)
theory Circuit_Breaker
  imports Prelude
begin

text \<open>
  The sliding-window circuit breaker (\<^verbatim>\<open>src/src/shared/resilience/circuit-breaker.ts\<close>) that guards
  shell, web and model calls. Calls overlap: \<open>execute\<close> is split at its one \<^verbatim>\<open>await\<close> into
  \<open>begin_execute\<close> and \<open>finish_execute\<close>, and a call in flight keeps a reference to its circuit entry,
  also after \<^verbatim>\<open>reset\<close> removed the entry from the map; so entries live in a heap and the map holds
  addresses. Each call of the clock reads the next value of a sequence.

  The operation, \<^verbatim>\<open>isFailureResult\<close> and \<^verbatim>\<open>shouldRecordFailure\<close> belong to the caller: what they answer
  is the outcome a call ends with. \<^verbatim>\<open>onTransition\<close> is taken to return, and what it is given is kept in
  a log.
\<close>

section \<open>Data\<close>

datatype circuit_state = Circuit_closed | Circuit_open | Circuit_half_open

datatype circuit_reason = Failure_threshold | Cooldown_elapsed | Half_open_success | Half_open_failure

record circuit_options =
  co_failureThreshold :: jsnum
  co_windowMs :: jsnum
  co_cooldownMs :: jsnum
  co_halfOpenMaxAttempts :: "jsnum option"

record resolved_circuit_options =
  ro_failureThreshold :: int
  ro_windowMs :: int
  ro_cooldownMs :: int
  ro_halfOpenMaxAttempts :: int

record circuit_snapshot =
  cs_key :: string
  cs_method :: "string option"
  cs_state :: circuit_state
  cs_failureCount :: nat
  cs_failureThreshold :: int
  cs_windowMs :: int
  cs_cooldownMs :: int
  cs_openedAtMs :: "int option"
  cs_openUntilMs :: "int option"

record circuit_transition =
  ct_snapshot :: circuit_snapshot
  ct_from :: circuit_state
  ct_to :: circuit_state
  ct_reason :: circuit_reason
  ct_atMs :: int
  ct_lastError :: "string option"

record execute_options =
  eo_key :: string
  eo_method :: "string option"
  eo_onTransition :: bool

record circuit_entry =
  ce_state :: circuit_state
  ce_failures :: "int list"
  ce_halfOpenAttempts :: nat
  ce_halfOpenSuccesses :: nat
  ce_openedAtMs :: "int option"
  ce_openUntilMs :: "int option"

text \<open>What a refused call throws: the snapshot of the circuit and the time of the refusal.\<close>

datatype circuit_open_error = CircuitOpenError circuit_snapshot int

definition toPositiveInteger :: "jsnum \<Rightarrow> int option" where
  "toPositiveInteger value = (if isInteger value \<and> numval value > 0 then Some (intval value) else None)"

definition positiveIntegerOr :: "jsnum option \<Rightarrow> int \<Rightarrow> int" where
  "positiveIntegerOr value fallback =
     (case Option.bind value toPositiveInteger of Some n \<Rightarrow> n | None \<Rightarrow> fallback)"

definition resolveOptions :: "circuit_options \<Rightarrow> resolved_circuit_options" where
  "resolveOptions options =
     \<lparr>ro_failureThreshold = positiveIntegerOr (Some (co_failureThreshold options)) 1,
      ro_windowMs = positiveIntegerOr (Some (co_windowMs options)) 1,
      ro_cooldownMs = positiveIntegerOr (Some (co_cooldownMs options)) 1,
      ro_halfOpenMaxAttempts = positiveIntegerOr (co_halfOpenMaxAttempts options) 1\<rparr>"

definition createEntry :: circuit_entry where
  "createEntry = \<lparr>ce_state = Circuit_closed, ce_failures = [], ce_halfOpenAttempts = 0,
     ce_halfOpenSuccesses = 0, ce_openedAtMs = None, ce_openUntilMs = None\<rparr>"

section \<open>The breaker\<close>

record breaker =
  br_options :: resolved_circuit_options
  br_entries :: "string \<Rightarrow> nat option"
  br_heap :: "circuit_entry list"
  br_ticks :: nat
  br_log :: "circuit_transition list"

type_synonym clock = "nat \<Rightarrow> int"

definition new_breaker :: "circuit_options \<Rightarrow> breaker" where
  "new_breaker options =
     \<lparr>br_options = resolveOptions options, br_entries = Map.empty, br_heap = [], br_ticks = 0, br_log = []\<rparr>"

definition clock_now :: "clock \<Rightarrow> breaker \<Rightarrow> int \<times> breaker" where
  "clock_now clk b = (clk (br_ticks b), b\<lparr>br_ticks := br_ticks b + 1\<rparr>)"

definition entry_at :: "nat \<Rightarrow> breaker \<Rightarrow> circuit_entry" where
  "entry_at a b = br_heap b ! a"

definition set_entry :: "nat \<Rightarrow> (circuit_entry \<Rightarrow> circuit_entry) \<Rightarrow> breaker \<Rightarrow> breaker" where
  "set_entry a f b = b\<lparr>br_heap := (br_heap b)[a := f (br_heap b ! a)]\<rparr>"

definition resetBreaker :: "string option \<Rightarrow> breaker \<Rightarrow> breaker" where
  "resetBreaker key b =
     (case key of
        Some k \<Rightarrow> if k \<noteq> [] then b\<lparr>br_entries := (br_entries b)(k := None)\<rparr> else b\<lparr>br_entries := Map.empty\<rparr>
      | None \<Rightarrow> b\<lparr>br_entries := Map.empty\<rparr>)"

definition pruneFailures :: "resolved_circuit_options \<Rightarrow> int \<Rightarrow> circuit_entry \<Rightarrow> circuit_entry" where
  "pruneFailures options nowMs entry =
     (let windowStartMs = nowMs - ro_windowMs options in
      entry\<lparr>ce_failures := filter (\<lambda>timestamp. windowStartMs \<le> timestamp) (ce_failures entry)\<rparr>)"

definition toCircuitSnapshot ::
  "resolved_circuit_options \<Rightarrow> string \<Rightarrow> circuit_entry \<Rightarrow> string option \<Rightarrow> circuit_snapshot" where
  "toCircuitSnapshot options key entry method =
     \<lparr>cs_key = key, cs_method = (if method = Some [] then None else method), cs_state = ce_state entry,
      cs_failureCount = length (ce_failures entry), cs_failureThreshold = ro_failureThreshold options,
      cs_windowMs = ro_windowMs options, cs_cooldownMs = ro_cooldownMs options,
      cs_openedAtMs = ce_openedAtMs entry, cs_openUntilMs = ce_openUntilMs entry\<rparr>"

definition snapshotCircuit :: "clock \<Rightarrow> string \<Rightarrow> string option \<Rightarrow> breaker \<Rightarrow> circuit_snapshot \<times> breaker" where
  "snapshotCircuit clk key method b =
     (case clock_now clk b of
        (nowMs, b1) \<Rightarrow>
          (case br_entries b key of
             None \<Rightarrow> (toCircuitSnapshot (br_options b) key (pruneFailures (br_options b) nowMs createEntry) method, b1)
           | Some a \<Rightarrow>
               let b2 = set_entry a (pruneFailures (br_options b) nowMs) b1 in
               (toCircuitSnapshot (br_options b) key (entry_at a b2) method, b2)))"

definition transition ::
  "clock \<Rightarrow> execute_options \<Rightarrow> circuit_state \<Rightarrow> circuit_reason \<Rightarrow> string option \<Rightarrow> nat \<Rightarrow> breaker \<Rightarrow> breaker" where
  "transition clk options to reason lastError a b =
     (let from = ce_state (entry_at a b) in
      if from = to \<and> reason \<noteq> Failure_threshold \<and> reason \<noteq> Half_open_failure then b
      else
      let b1 = set_entry a (\<lambda>e. e\<lparr>ce_state := to,
                 ce_halfOpenAttempts := (if to \<noteq> Circuit_half_open then 0 else ce_halfOpenAttempts e),
                 ce_halfOpenSuccesses := 0\<rparr>) b in
      if eo_onTransition options
      then (case clock_now clk b1 of
              (atMs, b2) \<Rightarrow>
                b2\<lparr>br_log := br_log b2 @
                    [\<lparr>ct_snapshot = toCircuitSnapshot (br_options b) (eo_key options) (entry_at a b1) (eo_method options),
                      ct_from = from, ct_to = to, ct_reason = reason, ct_atMs = atMs,
                      ct_lastError = (if lastError = Some [] then None else lastError)\<rparr>]\<rparr>)
      else b1)"

definition openCircuit ::
  "clock \<Rightarrow> execute_options \<Rightarrow> circuit_reason \<Rightarrow> string \<Rightarrow> nat \<Rightarrow> breaker \<Rightarrow> breaker" where
  "openCircuit clk options reason message a b =
     (case clock_now clk b of
        (nowMs, b1) \<Rightarrow>
          transition clk options Circuit_open reason (Some message) a
            (set_entry a (\<lambda>e. e\<lparr>ce_openedAtMs := Some nowMs,
                               ce_openUntilMs := Some (nowMs + ro_cooldownMs (br_options b))\<rparr>) b1))"

definition recordFailure :: "clock \<Rightarrow> execute_options \<Rightarrow> string \<Rightarrow> nat \<Rightarrow> breaker \<Rightarrow> breaker" where
  "recordFailure clk options message a b =
     (case clock_now clk b of
        (nowMs, b1) \<Rightarrow>
          let b2 = set_entry a (\<lambda>e. let e' = pruneFailures (br_options b) nowMs e in
                                    e'\<lparr>ce_failures := ce_failures e' @ [nowMs]\<rparr>) b1 in
          if ce_state (entry_at a b2) = Circuit_half_open then openCircuit clk options Half_open_failure message a b2
          else if ce_state (entry_at a b2) = Circuit_closed
              \<and> ro_failureThreshold (br_options b) \<le> int (length (ce_failures (entry_at a b2)))
            then openCircuit clk options Failure_threshold message a b2
          else b2)"

definition recordSuccess :: "clock \<Rightarrow> execute_options \<Rightarrow> nat \<Rightarrow> breaker \<Rightarrow> breaker" where
  "recordSuccess clk options a b =
     (if ce_state (entry_at a b) \<noteq> Circuit_half_open then b
      else
      let b1 = set_entry a (\<lambda>e. e\<lparr>ce_halfOpenSuccesses := ce_halfOpenSuccesses e + 1\<rparr>) b in
      if int (ce_halfOpenSuccesses (entry_at a b1)) < ro_halfOpenMaxAttempts (br_options b) then b1
      else transition clk options Circuit_closed Half_open_success None a
             (set_entry a (\<lambda>e. e\<lparr>ce_failures := [], ce_openedAtMs := None, ce_openUntilMs := None\<rparr>) b1))"

definition assertCanExecute ::
  "clock \<Rightarrow> execute_options \<Rightarrow> nat \<Rightarrow> breaker \<Rightarrow> circuit_open_error option \<times> breaker" where
  "assertCanExecute clk options a b =
     (case clock_now clk b of
        (nowMs, b1) \<Rightarrow>
          let b2 = set_entry a (pruneFailures (br_options b) nowMs) b1;
              b3 = (if ce_state (entry_at a b2) = Circuit_open
                       \<and> (case ce_openUntilMs (entry_at a b2) of None \<Rightarrow> 0 | Some u \<Rightarrow> u) \<le> nowMs
                    then transition clk options Circuit_half_open Cooldown_elapsed None a b2 else b2);
              e = entry_at a b3;
              refused = CircuitOpenError (toCircuitSnapshot (br_options b) (eo_key options) e (eo_method options)) nowMs
          in
          if ce_state e = Circuit_half_open \<and> ro_halfOpenMaxAttempts (br_options b) \<le> int (ce_halfOpenAttempts e)
          then (Some refused, b3)
          else if ce_state e = Circuit_open then (Some refused, b3)
          else (None, b3))"

section \<open>Calls\<close>

record flight =
  fl_options :: execute_options
  fl_entry :: nat
  fl_wasHalfOpen :: bool

datatype call_outcome =
  Op_result
| Op_failure_result string
| Op_thrown string bool

definition begin_execute :: "clock \<Rightarrow> execute_options \<Rightarrow> breaker \<Rightarrow> (circuit_open_error + flight) \<times> breaker" where
  "begin_execute clk options b =
     (let (a, b1) = (case br_entries b (eo_key options) of
                       Some a \<Rightarrow> (a, b)
                     | None \<Rightarrow> (length (br_heap b), b\<lparr>br_heap := br_heap b @ [createEntry],
                                  br_entries := (br_entries b)(eo_key options \<mapsto> length (br_heap b))\<rparr>))
      in case assertCanExecute clk options a b1 of
           (Some err, b2) \<Rightarrow> (Inl err, b2)
         | (None, b2) \<Rightarrow>
             let wasHalfOpen = (ce_state (entry_at a b2) = Circuit_half_open) in
             (Inr \<lparr>fl_options = options, fl_entry = a, fl_wasHalfOpen = wasHalfOpen\<rparr>,
              if wasHalfOpen
              then set_entry a (\<lambda>e. e\<lparr>ce_halfOpenAttempts := ce_halfOpenAttempts e + 1\<rparr>) b2 else b2))"

definition finish_execute :: "clock \<Rightarrow> flight \<Rightarrow> call_outcome \<Rightarrow> breaker \<Rightarrow> breaker" where
  "finish_execute clk fl outcome b =
     (let a = fl_entry fl; options = fl_options fl;
          b1 = (case outcome of
                  Op_result \<Rightarrow> recordSuccess clk options a b
                | Op_failure_result message \<Rightarrow> recordFailure clk options message a b
                | Op_thrown message recorded \<Rightarrow>
                    if recorded then recordFailure clk options message a b else b)
      in if fl_wasHalfOpen fl
         then set_entry a (\<lambda>e. e\<lparr>ce_halfOpenAttempts := ce_halfOpenAttempts e - 1\<rparr>) b1 else b1)"

section \<open>Interleaved calls\<close>

record breaker_system =
  sys_breaker :: breaker
  sys_flights :: "nat \<Rightarrow> flight option"

datatype breaker_event =
  Ev_begin nat execute_options
| Ev_finish nat call_outcome
| Ev_reset "string option"
| Ev_snapshot string "string option"

inductive breaker_step :: "clock \<Rightarrow> breaker_system \<Rightarrow> breaker_event \<Rightarrow> breaker_system \<Rightarrow> bool" for clk where
  step_admit: "begin_execute clk x (sys_breaker s) = (Inr fl, b) \<Longrightarrow> sys_flights s i = None \<Longrightarrow>
     breaker_step clk s (Ev_begin i x) \<lparr>sys_breaker = b, sys_flights = (sys_flights s)(i \<mapsto> fl)\<rparr>"
| step_refuse: "begin_execute clk x (sys_breaker s) = (Inl e, b) \<Longrightarrow>
     breaker_step clk s (Ev_begin i x) (s\<lparr>sys_breaker := b\<rparr>)"
| step_finish: "sys_flights s i = Some fl \<Longrightarrow>
     breaker_step clk s (Ev_finish i out)
       \<lparr>sys_breaker = finish_execute clk fl out (sys_breaker s), sys_flights = (sys_flights s)(i := None)\<rparr>"
| step_reset: "breaker_step clk s (Ev_reset k) (s\<lparr>sys_breaker := resetBreaker k (sys_breaker s)\<rparr>)"
| step_snapshot: "breaker_step clk s (Ev_snapshot k m) (s\<lparr>sys_breaker := snd (snapshotCircuit clk k m (sys_breaker s))\<rparr>)"

inductive breaker_reaches :: "clock \<Rightarrow> circuit_options \<Rightarrow> breaker_system \<Rightarrow> bool" for clk options where
  reaches_init: "breaker_reaches clk options \<lparr>sys_breaker = new_breaker options, sys_flights = Map.empty\<rparr>"
| reaches_step: "breaker_reaches clk options s \<Longrightarrow> breaker_step clk s ev s' \<Longrightarrow> breaker_reaches clk options s'"

inductive_cases breaker_stepE [elim]: "breaker_step clk s ev s'"

end
