(* ===== verification/Circuit_Laws.thy ===== *)
theory Circuit_Laws
  imports Circuit_Breaker
begin

text \<open>
  Laws of the circuit breaker. Every operation acts on one circuit entry; what it does there is
  described by a function of the entry alone, from which the invariant, the automaton, the trip
  and the recovery of a circuit follow for all interleavings of calls.
\<close>

section \<open>Operations act on one entry\<close>

lemma set_entry_simps [simp]:
  "br_options (set_entry a f b) = br_options b" "br_entries (set_entry a f b) = br_entries b"
  "br_ticks (set_entry a f b) = br_ticks b" "br_log (set_entry a f b) = br_log b"
  "length (br_heap (set_entry a f b)) = length (br_heap b)"
  by (simp_all add: set_entry_def)

lemma entry_set_entry [simp]:
  "a < length (br_heap b) \<Longrightarrow> entry_at a (set_entry a f b) = f (entry_at a b)"
  "j \<noteq> a \<Longrightarrow> entry_at j (set_entry a f b) = entry_at j b"
  by (simp_all add: entry_at_def set_entry_def)

lemma entry_at_frame [simp]:
  "entry_at a (b\<lparr>br_ticks := t\<rparr>) = entry_at a b" "entry_at a (b\<lparr>br_log := l\<rparr>) = entry_at a b"
  by (simp_all add: entry_at_def)

definition acts_on :: "nat \<Rightarrow> (circuit_entry \<Rightarrow> circuit_entry) \<Rightarrow> breaker \<Rightarrow> breaker \<Rightarrow> bool" where
  "acts_on a f b b' \<longleftrightarrow> br_options b' = br_options b \<and> br_entries b' = br_entries b
     \<and> length (br_heap b') = length (br_heap b) \<and> br_ticks b \<le> br_ticks b'
     \<and> (\<forall>j. j \<noteq> a \<longrightarrow> entry_at j b' = entry_at j b) \<and> entry_at a b' = f (entry_at a b)"

text \<open>The functions of an entry that the operations compute, with the clock readings they take.\<close>

definition opened_entry :: "resolved_circuit_options \<Rightarrow> int \<Rightarrow> circuit_entry \<Rightarrow> circuit_entry" where
  "opened_entry opt n e = e\<lparr>ce_state := Circuit_open, ce_halfOpenAttempts := 0, ce_halfOpenSuccesses := 0,
     ce_openedAtMs := Some n, ce_openUntilMs := Some (n + ro_cooldownMs opt)\<rparr>"

definition fail_entry :: "resolved_circuit_options \<Rightarrow> int \<Rightarrow> int \<Rightarrow> circuit_entry \<Rightarrow> circuit_entry" where
  "fail_entry opt n n' e =
     (let e' = e\<lparr>ce_failures := filter (\<lambda>t. n - ro_windowMs opt \<le> t) (ce_failures e) @ [n]\<rparr> in
      if ce_state e = Circuit_half_open
         \<or> ce_state e = Circuit_closed \<and> ro_failureThreshold opt \<le> int (length (ce_failures e'))
      then opened_entry opt n' e' else e')"

definition success_entry :: "resolved_circuit_options \<Rightarrow> circuit_entry \<Rightarrow> circuit_entry" where
  "success_entry opt e =
     (if ce_state e \<noteq> Circuit_half_open then e
      else if int (ce_halfOpenSuccesses e) + 1 < ro_halfOpenMaxAttempts opt
        then e\<lparr>ce_halfOpenSuccesses := ce_halfOpenSuccesses e + 1\<rparr>
      else e\<lparr>ce_state := Circuit_closed, ce_failures := [], ce_halfOpenAttempts := 0, ce_halfOpenSuccesses := 0,
             ce_openedAtMs := None, ce_openUntilMs := None\<rparr>)"

definition gate_entry :: "resolved_circuit_options \<Rightarrow> int \<Rightarrow> circuit_entry \<Rightarrow> circuit_entry" where
  "gate_entry opt n e =
     (let e' = pruneFailures opt n e in
      if ce_state e = Circuit_open \<and> (case ce_openUntilMs e of None \<Rightarrow> 0 | Some u \<Rightarrow> u) \<le> n
      then e'\<lparr>ce_state := Circuit_half_open, ce_halfOpenSuccesses := 0\<rparr> else e')"

definition gate_refuses :: "resolved_circuit_options \<Rightarrow> circuit_entry \<Rightarrow> bool" where
  "gate_refuses opt e \<longleftrightarrow> ce_state e = Circuit_open
     \<or> ce_state e = Circuit_half_open \<and> ro_halfOpenMaxAttempts opt \<le> int (ce_halfOpenAttempts e)"

lemma pruneFailures_frame [simp]:
  "ce_state (pruneFailures opt n e) = ce_state e" "ce_openUntilMs (pruneFailures opt n e) = ce_openUntilMs e"
  "ce_halfOpenAttempts (pruneFailures opt n e) = ce_halfOpenAttempts e"
  "ce_halfOpenSuccesses (pruneFailures opt n e) = ce_halfOpenSuccesses e"
  "ce_openedAtMs (pruneFailures opt n e) = ce_openedAtMs e"
  "ce_failures (pruneFailures opt n e) = filter (\<lambda>t. n - ro_windowMs opt \<le> t) (ce_failures e)"
  by (simp_all add: pruneFailures_def Let_def)

lemma transition_acts:
  assumes "a < length (br_heap b)" "ce_state (entry_at a b) \<noteq> to"
  shows "acts_on a (\<lambda>e. e\<lparr>ce_state := to,
      ce_halfOpenAttempts := (if to \<noteq> Circuit_half_open then 0 else ce_halfOpenAttempts e),
      ce_halfOpenSuccesses := 0\<rparr>) b (transition clk x to reason err a b)"
  using assms by (auto simp: acts_on_def transition_def Let_def clock_now_def)

lemma acts_on_trans:
  "acts_on a f b b1 \<Longrightarrow> acts_on a g b1 b2 \<Longrightarrow> acts_on a (\<lambda>e. g (f e)) b b2"
  by (auto simp: acts_on_def)

lemma set_entry_acts: "a < length (br_heap b) \<Longrightarrow> acts_on a f b (set_entry a f b)"
  by (auto simp: acts_on_def)

lemma clock_acts: "acts_on a (\<lambda>e. e) b (b\<lparr>br_ticks := br_ticks b + 1\<rparr>)"
  by (simp add: acts_on_def)

lemma acts_on_cong: "acts_on a f b b' \<Longrightarrow> f (entry_at a b) = g (entry_at a b) \<Longrightarrow> acts_on a g b b'"
  by (simp add: acts_on_def)

lemma openCircuit_acts:
  assumes "a < length (br_heap b)" "ce_state (entry_at a b) \<noteq> Circuit_open"
  shows "acts_on a (opened_entry (br_options b) (clk (br_ticks b))) b (openCircuit clk x reason msg a b)"
proof -
  let ?b1 = "b\<lparr>br_ticks := br_ticks b + 1\<rparr>"
  let ?f = "\<lambda>e. e\<lparr>ce_openedAtMs := Some (clk (br_ticks b)),
    ce_openUntilMs := Some (clk (br_ticks b) + ro_cooldownMs (br_options b))\<rparr>"
  have "acts_on a ?f ?b1 (set_entry a ?f ?b1)" using assms by (simp add: set_entry_acts)
  moreover have "acts_on a (\<lambda>e. e\<lparr>ce_state := Circuit_open,
      ce_halfOpenAttempts := (if Circuit_open \<noteq> Circuit_half_open then 0 else ce_halfOpenAttempts e),
      ce_halfOpenSuccesses := 0\<rparr>) (set_entry a ?f ?b1)
      (transition clk x Circuit_open reason (Some msg) a (set_entry a ?f ?b1))"
    using assms by (intro transition_acts) simp_all
  ultimately have "acts_on a (\<lambda>e. (?f e)\<lparr>ce_state := Circuit_open,
      ce_halfOpenAttempts := (if Circuit_open \<noteq> Circuit_half_open then 0 else ce_halfOpenAttempts (?f e)),
      ce_halfOpenSuccesses := 0\<rparr>) b (openCircuit clk x reason msg a b)"
    using acts_on_trans [OF clock_acts acts_on_trans] by (simp add: openCircuit_def clock_now_def)
  then show ?thesis by (rule acts_on_cong) (simp add: opened_entry_def)
qed

lemma recordFailure_acts:
  assumes "a < length (br_heap b)"
  shows "acts_on a (fail_entry (br_options b) (clk (br_ticks b)) (clk (br_ticks b + 1))) b
    (recordFailure clk x msg a b)"
proof -
  let ?o = "br_options b" and ?n = "clk (br_ticks b)"
  let ?f = "\<lambda>e. let e' = pruneFailures ?o ?n e in e'\<lparr>ce_failures := ce_failures e' @ [?n]\<rparr>"
  let ?b2 = "set_entry a ?f (b\<lparr>br_ticks := br_ticks b + 1\<rparr>)"
  have b2: "acts_on a ?f b ?b2"
    using acts_on_trans [OF clock_acts set_entry_acts, of a b ?f] assms by simp
  then have e: "entry_at a ?b2 = ?f (entry_at a b)" by (simp add: acts_on_def)
  have opt: "acts_on a (opened_entry ?o (clk (br_ticks b + 1))) ?b2 (openCircuit clk x reason msg a ?b2)"
    if "ce_state (entry_at a b) \<noteq> Circuit_open" for reason
    using openCircuit_acts [of a ?b2 clk x reason msg] that assms e by (simp add: Let_def)
  show ?thesis
  proof (cases "ce_state (entry_at a b) = Circuit_half_open
      \<or> ce_state (entry_at a b) = Circuit_closed \<and> ro_failureThreshold ?o \<le> int (length (ce_failures (?f (entry_at a b))))")
    case True
    then have "\<exists>reason. recordFailure clk x msg a b = openCircuit clk x reason msg a ?b2"
      using e by (auto simp: recordFailure_def clock_now_def Let_def)
    then obtain reason where r: "recordFailure clk x msg a b = openCircuit clk x reason msg a ?b2" by blast
    have "acts_on a (\<lambda>e. opened_entry ?o (clk (br_ticks b + 1)) (?f e)) b (openCircuit clk x reason msg a ?b2)"
      using True by (intro acts_on_trans [OF b2 opt]) auto
    then show ?thesis unfolding r by (rule acts_on_cong) (use True in \<open>simp add: fail_entry_def Let_def pruneFailures_def\<close>)
  next
    case False
    then have r: "recordFailure clk x msg a b = ?b2"
      using e by (auto simp: recordFailure_def clock_now_def Let_def)
    show ?thesis unfolding r
      by (rule acts_on_cong [OF b2]) (use False in \<open>auto simp: fail_entry_def Let_def pruneFailures_def\<close>)
  qed
qed

lemma recordSuccess_acts:
  assumes "a < length (br_heap b)"
  shows "acts_on a (success_entry (br_options b)) b (recordSuccess clk x a b)"
proof (cases "ce_state (entry_at a b) = Circuit_half_open")
  case False
  then show ?thesis by (simp add: recordSuccess_def acts_on_def success_entry_def)
next
  case half: True
  let ?f = "\<lambda>e. e\<lparr>ce_halfOpenSuccesses := ce_halfOpenSuccesses e + 1\<rparr>"
  let ?g = "\<lambda>e. e\<lparr>ce_failures := [], ce_openedAtMs := None, ce_openUntilMs := None\<rparr>"
  let ?h = "\<lambda>e. e\<lparr>ce_state := Circuit_closed,
      ce_halfOpenAttempts := (if Circuit_closed \<noteq> Circuit_half_open then 0 else ce_halfOpenAttempts e),
      ce_halfOpenSuccesses := 0\<rparr>"
  let ?b1 = "set_entry a ?f b"
  let ?b2 = "set_entry a ?g ?b1"
  have b1: "acts_on a ?f b ?b1" using assms by (rule set_entry_acts)
  have b2: "acts_on a ?g ?b1 ?b2" using assms by (simp add: set_entry_acts)
  have b3: "acts_on a ?h ?b2 (transition clk x Circuit_closed Half_open_success None a ?b2)"
    using half assms by (intro transition_acts) simp_all
  show ?thesis
  proof (cases "int (ce_halfOpenSuccesses (entry_at a b)) + 1 < ro_halfOpenMaxAttempts (br_options b)")
    case True
    then have "recordSuccess clk x a b = ?b1" using half assms by (simp add: recordSuccess_def Let_def)
    then show ?thesis using acts_on_cong [OF b1] True half by (simp add: success_entry_def)
  next
    case False
    then have "recordSuccess clk x a b = transition clk x Circuit_closed Half_open_success None a ?b2"
      using half assms by (simp add: recordSuccess_def Let_def)
    then show ?thesis using acts_on_cong [OF acts_on_trans [OF acts_on_trans [OF b1 b2] b3]] False half
      by (simp add: success_entry_def)
  qed
qed

lemma assertCanExecute_acts:
  assumes "a < length (br_heap b)" "assertCanExecute clk x a b = (r, b')"
  shows "acts_on a (gate_entry (br_options b) (clk (br_ticks b))) b b'"
    and "r = None \<longleftrightarrow> \<not> gate_refuses (br_options b) (entry_at a b')"
proof -
  let ?o = "br_options b" and ?n = "clk (br_ticks b)"
  let ?b2 = "set_entry a (pruneFailures ?o ?n) (b\<lparr>br_ticks := br_ticks b + 1\<rparr>)"
  have b2: "acts_on a (pruneFailures ?o ?n) b ?b2"
    using acts_on_trans [OF clock_acts set_entry_acts, of a b "pruneFailures ?o ?n"] assms(1) by simp
  then have e: "entry_at a ?b2 = pruneFailures ?o ?n (entry_at a b)" by (simp add: acts_on_def)
  let ?elapsed = "ce_state (entry_at a b) = Circuit_open
    \<and> (case ce_openUntilMs (entry_at a b) of None \<Rightarrow> 0 | Some u \<Rightarrow> u) \<le> ?n"
  have b': "b' = (if ?elapsed then transition clk x Circuit_half_open Cooldown_elapsed None a ?b2 else ?b2)"
    and r: "r = None \<longleftrightarrow> \<not> gate_refuses ?o (entry_at a b')"
    using assms(2) e by (auto simp: assertCanExecute_def clock_now_def Let_def gate_refuses_def split: if_splits)
  show "r = None \<longleftrightarrow> \<not> gate_refuses (br_options b) (entry_at a b')" using r .
  show "acts_on a (gate_entry ?o ?n) b b'"
  proof (cases ?elapsed)
    case True
    have "acts_on a (\<lambda>e. e\<lparr>ce_state := Circuit_half_open,
        ce_halfOpenAttempts := (if Circuit_half_open \<noteq> Circuit_half_open then 0 else ce_halfOpenAttempts e),
        ce_halfOpenSuccesses := 0\<rparr>) ?b2 b'"
      unfolding b' if_P [OF True] by (rule transition_acts) (use True assms(1) e in simp_all)
    from acts_on_trans [OF b2 this] show ?thesis
      by (rule acts_on_cong) (use True in \<open>simp add: gate_entry_def Let_def\<close>)
  next
    case False
    then show ?thesis unfolding b' if_not_P [OF False]
      by (intro acts_on_cong [OF b2]) (use False in \<open>auto simp: gate_entry_def Let_def\<close>)
  qed
qed

section \<open>The invariant\<close>

definition entry_ok :: "resolved_circuit_options \<Rightarrow> circuit_entry \<Rightarrow> bool" where
  "entry_ok opt e \<longleftrightarrow>
     (case ce_state e of
        Circuit_closed \<Rightarrow> int (length (ce_failures e)) < ro_failureThreshold opt \<and> ce_halfOpenAttempts e = 0
          \<and> ce_halfOpenSuccesses e = 0 \<and> ce_openedAtMs e = None \<and> ce_openUntilMs e = None
      | Circuit_open \<Rightarrow> ce_halfOpenAttempts e = 0 \<and> ce_halfOpenSuccesses e = 0
          \<and> (\<exists>n. ce_openedAtMs e = Some n \<and> ce_openUntilMs e = Some (n + ro_cooldownMs opt))
      | Circuit_half_open \<Rightarrow> int (ce_halfOpenAttempts e) \<le> ro_halfOpenMaxAttempts opt
          \<and> int (ce_halfOpenSuccesses e) < ro_halfOpenMaxAttempts opt
          \<and> (\<exists>n. ce_openedAtMs e = Some n \<and> ce_openUntilMs e = Some (n + ro_cooldownMs opt)))"

definition options_ok :: "resolved_circuit_options \<Rightarrow> bool" where
  "options_ok opt \<longleftrightarrow> 1 \<le> ro_failureThreshold opt \<and> 1 \<le> ro_windowMs opt \<and> 1 \<le> ro_cooldownMs opt
     \<and> 1 \<le> ro_halfOpenMaxAttempts opt"

lemma positiveIntegerOr_pos: "1 \<le> f \<Longrightarrow> 1 \<le> positiveIntegerOr v f"
  by (cases v; cases "the v") (auto simp: positiveIntegerOr_def toPositiveInteger_def intval_def is_whole_def split: if_splits)

lemma resolveOptions_ok: "options_ok (resolveOptions options)"
  by (simp add: options_ok_def resolveOptions_def positiveIntegerOr_pos)

lemma createEntry_ok: "options_ok opt \<Longrightarrow> entry_ok opt createEntry"
  by (simp add: entry_ok_def createEntry_def options_ok_def)

lemma opened_ok: "entry_ok opt (opened_entry opt n e)"
  by (simp add: entry_ok_def opened_entry_def)

lemma fail_ok: "entry_ok opt e \<Longrightarrow> entry_ok opt (fail_entry opt n n' e)"
  using opened_ok by (cases "ce_state e") (auto simp: fail_entry_def Let_def entry_ok_def)

lemma success_ok: "options_ok opt \<Longrightarrow> entry_ok opt e \<Longrightarrow> entry_ok opt (success_entry opt e)"
  by (cases "ce_state e") (auto simp: success_entry_def entry_ok_def options_ok_def)

lemma filter_below: "int (length xs) < n \<Longrightarrow> int (length (filter P xs)) < n"
  using length_filter_le [of P xs] by linarith

lemma prune_ok: "entry_ok opt e \<Longrightarrow> entry_ok opt (pruneFailures opt n e)"
  by (cases "ce_state e") (auto simp: entry_ok_def filter_below)

lemma gate_ok: "options_ok opt \<Longrightarrow> entry_ok opt e \<Longrightarrow> entry_ok opt (gate_entry opt n e)"
  using prune_ok [of opt e n] by (cases "ce_state e") (auto simp: gate_entry_def Let_def entry_ok_def options_ok_def)

lemma attempt_ok:
  "entry_ok opt e \<Longrightarrow> \<not> gate_refuses opt e \<Longrightarrow> ce_state e = Circuit_half_open \<Longrightarrow>
   entry_ok opt (e\<lparr>ce_halfOpenAttempts := ce_halfOpenAttempts e + 1\<rparr>)"
  by (auto simp: entry_ok_def gate_refuses_def)

lemma settle_ok: "entry_ok opt e \<Longrightarrow> entry_ok opt (e\<lparr>ce_halfOpenAttempts := ce_halfOpenAttempts e - 1\<rparr>)"
  by (cases "ce_state e") (auto simp: entry_ok_def)

section \<open>Beginning and ending a call\<close>

text \<open>The entry a call works on, allocated when its key has none.\<close>

definition call_entry :: "string \<Rightarrow> breaker \<Rightarrow> nat \<times> breaker" where
  "call_entry key b =
     (case br_entries b key of
        Some a \<Rightarrow> (a, b)
      | None \<Rightarrow> (length (br_heap b), b\<lparr>br_heap := br_heap b @ [createEntry],
                                        br_entries := (br_entries b)(key \<mapsto> length (br_heap b))\<rparr>))"

definition begin_entry :: "resolved_circuit_options \<Rightarrow> int \<Rightarrow> circuit_entry \<Rightarrow> circuit_entry" where
  "begin_entry opt n e =
     (let e' = gate_entry opt n e in
      if \<not> gate_refuses opt e' \<and> ce_state e' = Circuit_half_open
      then e'\<lparr>ce_halfOpenAttempts := ce_halfOpenAttempts e' + 1\<rparr> else e')"

definition outcome_entry :: "resolved_circuit_options \<Rightarrow> int \<Rightarrow> int \<Rightarrow> call_outcome \<Rightarrow> circuit_entry \<Rightarrow> circuit_entry" where
  "outcome_entry opt n n' out e =
     (case out of
        Op_result \<Rightarrow> success_entry opt e
      | Op_failure_result m \<Rightarrow> fail_entry opt n n' e
      | Op_thrown m rec \<Rightarrow> if rec then fail_entry opt n n' e else e)"

definition finish_entry ::
  "resolved_circuit_options \<Rightarrow> int \<Rightarrow> int \<Rightarrow> bool \<Rightarrow> call_outcome \<Rightarrow> circuit_entry \<Rightarrow> circuit_entry" where
  "finish_entry opt n n' probe out e =
     (let e' = outcome_entry opt n n' out e in
      if probe then e'\<lparr>ce_halfOpenAttempts := ce_halfOpenAttempts e' - 1\<rparr> else e')"

lemma begin_entry_ok: "options_ok opt \<Longrightarrow> entry_ok opt e \<Longrightarrow> entry_ok opt (begin_entry opt n e)"
  using attempt_ok [OF gate_ok] gate_ok by (simp add: begin_entry_def Let_def)

lemma finish_entry_ok: "options_ok opt \<Longrightarrow> entry_ok opt e \<Longrightarrow> entry_ok opt (finish_entry opt n n' p out e)"
proof -
  assume "options_ok opt" "entry_ok opt e"
  then have "entry_ok opt (outcome_entry opt n n' out e)"
    by (cases out) (auto simp: outcome_entry_def success_ok fail_ok)
  then show ?thesis using settle_ok by (simp add: finish_entry_def Let_def)
qed

lemma begin_execute_cases:
  assumes "begin_execute clk x b = (r, b')" "call_entry (eo_key x) b = (a, b1)" "a < length (br_heap b1)"
  shows "acts_on a (begin_entry (br_options b1) (clk (br_ticks b1))) b1 b'"
    and "isl r \<longleftrightarrow> gate_refuses (br_options b1) (gate_entry (br_options b1) (clk (br_ticks b1)) (entry_at a b1))"
    and "r = Inr fl \<Longrightarrow> fl = \<lparr>fl_options = x, fl_entry = a,
      fl_wasHalfOpen = (ce_state (gate_entry (br_options b1) (clk (br_ticks b1)) (entry_at a b1)) = Circuit_half_open)\<rparr>"
proof -
  let ?g = "gate_entry (br_options b1) (clk (br_ticks b1))"
  let ?up = "\<lambda>e. e\<lparr>ce_halfOpenAttempts := ce_halfOpenAttempts e + 1\<rparr>"
  obtain err b2 where c: "assertCanExecute clk x a b1 = (err, b2)" by fastforce
  note g = assertCanExecute_acts [OF assms(3) c]
  from g(1) have e2: "entry_at a b2 = ?g (entry_at a b1)" "length (br_heap b2) = length (br_heap b1)"
    by (simp_all add: acts_on_def)
  have run: "(r, b') = (case err of Some e \<Rightarrow> (Inl e, b2)
      | None \<Rightarrow> (Inr \<lparr>fl_options = x, fl_entry = a, fl_wasHalfOpen = (ce_state (entry_at a b2) = Circuit_half_open)\<rparr>,
          if ce_state (entry_at a b2) = Circuit_half_open then set_entry a ?up b2 else b2))"
    using assms(1,2) c by (cases err) (auto simp: begin_execute_def call_entry_def Let_def split: option.splits)
  show "acts_on a (begin_entry (br_options b1) (clk (br_ticks b1))) b1 b'"
  proof (cases "err = None \<and> ce_state (?g (entry_at a b1)) = Circuit_half_open")
    case True
    then have "b' = set_entry a ?up b2" using run e2 by simp
    moreover have "acts_on a ?up b2 (set_entry a ?up b2)" using assms(3) e2 by (simp add: set_entry_acts)
    ultimately have "acts_on a (\<lambda>e. ?up (?g e)) b1 b'" using acts_on_trans [OF g(1)] by simp
    then show ?thesis by (rule acts_on_cong) (use True g(2) e2 in \<open>simp add: begin_entry_def Let_def\<close>)
  next
    case False
    then have "b' = b2" using run e2 by (cases err) auto
    moreover have "acts_on a (begin_entry (br_options b1) (clk (br_ticks b1))) b1 b2"
      by (rule acts_on_cong [OF g(1)]) (use False g(2) e2 in \<open>auto simp: begin_entry_def Let_def\<close>)
    ultimately show ?thesis by simp
  qed
  show "isl r \<longleftrightarrow> gate_refuses (br_options b1) (?g (entry_at a b1))"
    using run g(2) e2 by (cases err) auto
  show "fl = \<lparr>fl_options = x, fl_entry = a, fl_wasHalfOpen = (ce_state (?g (entry_at a b1)) = Circuit_half_open)\<rparr>"
    if "r = Inr fl" using run that e2 by (cases err) auto
qed

lemma finish_execute_acts:
  assumes "fl_entry fl < length (br_heap b)"
  shows "acts_on (fl_entry fl) (finish_entry (br_options b) (clk (br_ticks b)) (clk (br_ticks b + 1)) (fl_wasHalfOpen fl) out)
    b (finish_execute clk fl out b)"
proof -
  let ?a = "fl_entry fl" and ?f = "outcome_entry (br_options b) (clk (br_ticks b)) (clk (br_ticks b + 1)) out"
  let ?down = "\<lambda>e. e\<lparr>ce_halfOpenAttempts := ce_halfOpenAttempts e - 1\<rparr>"
  define b1 where "b1 = (case out of Op_result \<Rightarrow> recordSuccess clk (fl_options fl) ?a b
    | Op_failure_result m \<Rightarrow> recordFailure clk (fl_options fl) m ?a b
    | Op_thrown m rec \<Rightarrow> if rec then recordFailure clk (fl_options fl) m ?a b else b)"
  have b1: "acts_on ?a ?f b b1"
    using recordSuccess_acts [OF assms] recordFailure_acts [OF assms]
    by (cases out) (auto simp: b1_def outcome_entry_def acts_on_def)
  have "acts_on ?a ?down b1 (set_entry ?a ?down b1)"
    using assms b1 by (intro set_entry_acts) (simp add: acts_on_def)
  from acts_on_trans [OF b1 this] b1 show ?thesis
    by (cases "fl_wasHalfOpen fl") (simp_all add: finish_execute_def b1_def finish_entry_def Let_def acts_on_def)
qed

section \<open>Interleavings\<close>

definition breaker_ok :: "breaker \<Rightarrow> bool" where
  "breaker_ok b \<longleftrightarrow> options_ok (br_options b) \<and> (\<forall>a < length (br_heap b). entry_ok (br_options b) (entry_at a b))
     \<and> (\<forall>k a. br_entries b k = Some a \<longrightarrow> a < length (br_heap b))"

lemma acts_on_ok:
  assumes "acts_on a f b b'" "breaker_ok b" "\<And>e. entry_ok (br_options b) e \<Longrightarrow> entry_ok (br_options b) (f e)"
  shows "breaker_ok b'"
  unfolding breaker_ok_def
proof (intro conjI allI impI)
  show "options_ok (br_options b')" "\<And>k j. br_entries b' k = Some j \<Longrightarrow> j < length (br_heap b')"
    using assms(1,2) by (auto simp: acts_on_def breaker_ok_def)
  fix j assume "j < length (br_heap b')"
  then have "entry_ok (br_options b) (entry_at j b)" using assms(1,2) by (simp add: acts_on_def breaker_ok_def)
  then show "entry_ok (br_options b') (entry_at j b')"
    using assms(1,3) by (cases "j = a") (auto simp: acts_on_def)
qed

lemma call_entry_ok:
  assumes "breaker_ok b" "call_entry k b = (a, b1)"
  shows "breaker_ok b1" "a < length (br_heap b1)" "length (br_heap b) \<le> length (br_heap b1)"
    "br_options b1 = br_options b" "\<And>j. j < length (br_heap b) \<Longrightarrow> entry_at j b1 = entry_at j b"
    "br_ticks b1 = br_ticks b" "br_entries b1 k = Some a"
  using assms createEntry_ok [of "br_options b"]
  by (auto simp: call_entry_def breaker_ok_def entry_at_def nth_append less_Suc_eq split: option.splits if_splits)

definition system_ok :: "breaker_system \<Rightarrow> bool" where
  "system_ok s \<longleftrightarrow> breaker_ok (sys_breaker s)
     \<and> (\<forall>i fl. sys_flights s i = Some fl \<longrightarrow> fl_entry fl < length (br_heap (sys_breaker s)))"

text \<open>How the state of one entry may move in one step.\<close>

inductive circuit_moves :: "breaker_event \<Rightarrow> circuit_state \<Rightarrow> circuit_state \<Rightarrow> bool" where
  move_stay: "circuit_moves ev st st"
| move_probe: "circuit_moves (Ev_begin i x) Circuit_open Circuit_half_open"
| move_trip: "out \<noteq> Op_result \<Longrightarrow> circuit_moves (Ev_finish i out) Circuit_closed Circuit_open"
| move_reopen: "out \<noteq> Op_result \<Longrightarrow> circuit_moves (Ev_finish i out) Circuit_half_open Circuit_open"
| move_close: "circuit_moves (Ev_finish i Op_result) Circuit_half_open Circuit_closed"

inductive_simps circuit_moves_simps: "circuit_moves ev st st'"

lemma begin_entry_moves: "circuit_moves (Ev_begin i x) (ce_state e) (ce_state (begin_entry opt n e))"
  by (auto simp: begin_entry_def gate_entry_def Let_def circuit_moves_simps)

lemma finish_entry_moves: "circuit_moves (Ev_finish i out) (ce_state e) (ce_state (finish_entry opt n n' p out e))"
  by (cases out) (auto simp: finish_entry_def outcome_entry_def success_entry_def fail_entry_def opened_entry_def
      Let_def circuit_moves_simps)

lemma snapshot_acts:
  "snd (snapshotCircuit clk k m b) = b\<lparr>br_ticks := br_ticks b + 1\<rparr>
   \<or> (\<exists>a. br_entries b k = Some a
        \<and> snd (snapshotCircuit clk k m b) = set_entry a (pruneFailures (br_options b) (clk (br_ticks b)))
            (b\<lparr>br_ticks := br_ticks b + 1\<rparr>))"
  by (cases "br_entries b k") (auto simp: snapshotCircuit_def clock_now_def Let_def)

text \<open>One step: the invariant is kept and every entry moves along the automaton.\<close>

lemma step_laws:
  assumes "breaker_step clk s ev s'" "system_ok s"
  shows "system_ok s' \<and> br_options (sys_breaker s') = br_options (sys_breaker s)
    \<and> length (br_heap (sys_breaker s)) \<le> length (br_heap (sys_breaker s'))
    \<and> (\<forall>a < length (br_heap (sys_breaker s)).
         circuit_moves ev (ce_state (entry_at a (sys_breaker s))) (ce_state (entry_at a (sys_breaker s'))))"
proof -
  let ?b = "sys_breaker s"
  have ok: "breaker_ok ?b" and opt: "options_ok (br_options ?b)"
    using assms(2) by (simp_all add: system_ok_def breaker_ok_def)
  have flights: "fl_entry fl < length (br_heap ?b)" if "sys_flights s i = Some fl" for i fl
    using assms(2) that by (auto simp: system_ok_def)
  have started: ?thesis
    if x: "begin_execute clk x ?b = (r, b')" and ev: "ev = Ev_begin i x"
      and s': "sys_breaker s' = b'" "sys_flights s' = sys_flights s \<or> (\<exists>fl. r = Inr fl \<and> sys_flights s' = (sys_flights s)(i \<mapsto> fl))"
    for x r b' i
  proof -
    obtain a b1 where c: "call_entry (eo_key x) ?b = (a, b1)" by fastforce
    note k = call_entry_ok [OF ok c]
    note g = begin_execute_cases [OF x c k(2)]
    have b': "breaker_ok b'" using acts_on_ok [OF g(1) k(1)] begin_entry_ok opt k(4) by simp
    have len: "length (br_heap b') = length (br_heap b1)" "br_options b' = br_options ?b"
      using g(1) k(4) by (simp_all add: acts_on_def)
    have fl: "fl_entry fl < length (br_heap b')" if "sys_flights s' j = Some fl" for j fl
      using s'(2) that flights [of j fl] g(3) k(2,3) len by (auto split: if_splits)
    have "circuit_moves ev (ce_state (entry_at j ?b)) (ce_state (entry_at j b'))" if j: "j < length (br_heap ?b)" for j
      using g(1) k(5) [OF j] begin_entry_moves [of i x "entry_at j ?b"] ev
      by (cases "j = a") (auto simp: acts_on_def move_stay)
    then show ?thesis using b' len fl k(3) s'(1) by (simp add: system_ok_def)
  qed
  from assms(1) show ?thesis
  proof cases
    case (step_admit x fl b i)
    show ?thesis by (rule started [of x "Inr fl" b i]) (use step_admit in simp_all)
  next
    case (step_refuse x e b i)
    show ?thesis by (rule started [of x "Inl e" b i]) (use step_refuse in simp_all)
  next
    case (step_finish i fl out)
    note f = finish_execute_acts [OF flights [OF step_finish(3)], of clk out]
    have "breaker_ok (finish_execute clk fl out ?b)"
      using acts_on_ok [OF f ok] finish_entry_ok [OF opt] by blast
    moreover have "circuit_moves ev (ce_state (entry_at j ?b)) (ce_state (entry_at j (finish_execute clk fl out ?b)))" for j
      using f finish_entry_moves [of i out "entry_at j ?b"] step_finish(1)
      by (cases "j = fl_entry fl") (auto simp: acts_on_def move_stay)
    moreover have "length (br_heap (finish_execute clk fl out ?b)) = length (br_heap ?b)"
      "br_options (finish_execute clk fl out ?b) = br_options ?b" using f by (simp_all add: acts_on_def)
    ultimately show ?thesis using step_finish(2) flights by (auto simp: system_ok_def)
  next
    case (step_reset k)
    then show ?thesis using ok flights
      by (cases k) (auto simp: resetBreaker_def system_ok_def breaker_ok_def entry_at_def move_stay)
  next
    case (step_snapshot k m)
    have "acts_on a (pruneFailures (br_options ?b) (clk (br_ticks ?b))) ?b
        (set_entry a (pruneFailures (br_options ?b) (clk (br_ticks ?b))) (?b\<lparr>br_ticks := br_ticks ?b + 1\<rparr>))"
      if "br_entries ?b k = Some a" for a
      using acts_on_trans [OF clock_acts set_entry_acts, of a ?b] that ok by (simp add: breaker_ok_def)
    then obtain a f where f: "acts_on a f ?b (snd (snapshotCircuit clk k m ?b))"
      "f = (\<lambda>e. e) \<or> f = pruneFailures (br_options ?b) (clk (br_ticks ?b))"
      using snapshot_acts [of clk k m ?b] clock_acts [of 0 ?b] by metis
    have "breaker_ok (snd (snapshotCircuit clk k m ?b))"
      using acts_on_ok [OF f(1) ok] f(2) prune_ok by auto
    moreover have "ce_state (entry_at j (snd (snapshotCircuit clk k m ?b))) = ce_state (entry_at j ?b)" for j
      using f by (cases "j = a") (auto simp: acts_on_def)
    ultimately show ?thesis using f(1) step_snapshot flights by (auto simp: system_ok_def acts_on_def move_stay)
  qed
qed

lemma reaches_ok: "breaker_reaches clk options s \<Longrightarrow> system_ok s \<and> br_options (sys_breaker s) = resolveOptions options"
proof (induction rule: breaker_reaches.induct)
  case reaches_init
  then show ?case by (simp add: system_ok_def breaker_ok_def new_breaker_def resolveOptions_ok)
next
  case (reaches_step s ev s')
  then show ?case using step_laws by metis
qed

section \<open>Properties\<close>

text \<open>
  In every state that overlapping calls, resets and snapshots reach, each circuit entry is
  consistent: a closed circuit holds fewer failures than the threshold and no open times, an open
  one ends its cooldown exactly \<open>cooldownMs\<close> after it opened, and a half-open one counts at most
  \<open>halfOpenMaxAttempts\<close> attempts and fewer successes than that.
\<close>

theorem circuit_entries_ok:
  assumes "breaker_reaches clk options s" "a < length (br_heap (sys_breaker s))"
  shows "entry_ok (resolveOptions options) (entry_at a (sys_breaker s))"
  using reaches_ok [OF assms(1)] assms(2) by (auto simp: system_ok_def breaker_ok_def)

text \<open>
  C29. The breaker implements the three-state automaton: in every step from a reachable state each
  entry stays where it is or moves from open to half-open when a call begins, from closed or
  half-open to open when a call fails, or from half-open to closed when a call succeeds.
\<close>

theorem circuit_refines_automaton:
  assumes "breaker_reaches clk options s" "breaker_step clk s ev s'" "a < length (br_heap (sys_breaker s))"
  shows "circuit_moves ev (ce_state (entry_at a (sys_breaker s))) (ce_state (entry_at a (sys_breaker s')))"
  using step_laws [OF assms(2)] reaches_ok [OF assms(1)] assms(3) by blast

section \<open>Runs\<close>

text \<open>The step relation as a function: an event that is not enabled changes nothing.\<close>

definition breaker_next :: "clock \<Rightarrow> breaker_event \<Rightarrow> breaker_system \<Rightarrow> breaker_system" where
  "breaker_next clk ev s =
     (case ev of
        Ev_begin i x \<Rightarrow>
          (if sys_flights s i \<noteq> None then s
           else (case begin_execute clk x (sys_breaker s) of
                   (Inl e, b) \<Rightarrow> s\<lparr>sys_breaker := b\<rparr>
                 | (Inr fl, b) \<Rightarrow> \<lparr>sys_breaker = b, sys_flights = (sys_flights s)(i \<mapsto> fl)\<rparr>))
      | Ev_finish i out \<Rightarrow>
          (case sys_flights s i of
             None \<Rightarrow> s
           | Some fl \<Rightarrow> \<lparr>sys_breaker = finish_execute clk fl out (sys_breaker s), sys_flights = (sys_flights s)(i := None)\<rparr>)
      | Ev_reset k \<Rightarrow> s\<lparr>sys_breaker := resetBreaker k (sys_breaker s)\<rparr>
      | Ev_snapshot k m \<Rightarrow> s\<lparr>sys_breaker := snd (snapshotCircuit clk k m (sys_breaker s))\<rparr>)"

lemma breaker_next_step: "breaker_next clk ev s = s \<or> breaker_step clk s ev (breaker_next clk ev s)"
proof (cases ev)
  case (Ev_begin i x)
  obtain r b where "begin_execute clk x (sys_breaker s) = (r, b)" by fastforce
  then show ?thesis using Ev_begin step_admit [of clk x s _ b i] step_refuse [of clk x s _ b i]
    by (cases r) (auto simp: breaker_next_def)
next
  case (Ev_finish i out)
  then show ?thesis using step_finish [of s i _ clk out] by (auto simp: breaker_next_def split: option.split)
qed (simp_all add: breaker_next_def step_reset step_snapshot)

lemma fold_next_reaches: "breaker_reaches clk options s \<Longrightarrow> breaker_reaches clk options (fold (breaker_next clk) evs s)"
proof (induction evs arbitrary: s)
  case (Cons ev evs)
  have "breaker_reaches clk options (breaker_next clk ev s)"
    using breaker_next_step [of clk ev s] reaches_step Cons.prems by metis
  then show ?case using Cons.IH by simp
qed simp

section \<open>Open circuits\<close>

text \<open>The entry is open and its cooldown ends at \<open>u\<close>. No event before that time changes this.\<close>

definition cooling :: "nat \<Rightarrow> int \<Rightarrow> breaker \<Rightarrow> bool" where
  "cooling a u b \<longleftrightarrow> a < length (br_heap b) \<and> ce_state (entry_at a b) = Circuit_open \<and> ce_openUntilMs (entry_at a b) = Some u"

lemma begin_ticks: "begin_execute clk x b = (r, b') \<Longrightarrow> breaker_ok b \<Longrightarrow> br_ticks b \<le> br_ticks b'"
proof -
  assume x: "begin_execute clk x b = (r, b')" and ok: "breaker_ok b"
  obtain a b1 where c: "call_entry (eo_key x) b = (a, b1)" by fastforce
  note k = call_entry_ok [OF ok c]
  show ?thesis using begin_execute_cases(1) [OF x c k(2)] k(6) by (simp add: acts_on_def)
qed

lemma step_ticks:
  assumes "breaker_step clk s ev s'" "system_ok s"
  shows "br_ticks (sys_breaker s) \<le> br_ticks (sys_breaker s')"
  using assms(1)
proof cases
  case (step_finish i fl out)
  have "fl_entry fl < length (br_heap (sys_breaker s))" using assms(2) step_finish(3) by (auto simp: system_ok_def)
  from finish_execute_acts [OF this, of clk out] show ?thesis using step_finish(2) by (simp add: acts_on_def)
next
  case (step_reset k)
  then show ?thesis by (cases k) (auto simp: resetBreaker_def)
next
  case (step_snapshot k m)
  then show ?thesis using snapshot_acts [of clk k m "sys_breaker s"] by auto
qed (use begin_ticks assms(2) in \<open>auto simp: system_ok_def\<close>)

lemma cooling_begin:
  assumes "begin_execute clk x b = (r, b')" "breaker_ok b" "cooling a u b" "clk (br_ticks b) < u"
  shows "cooling a u b' \<and> (br_entries b (eo_key x) = Some a \<longrightarrow> isl r)"
proof -
  obtain a1 b1 where c: "call_entry (eo_key x) b = (a1, b1)" by fastforce
  note k = call_entry_ok [OF assms(2) c]
  note g = begin_execute_cases [OF assms(1) c k(2)]
  have e: "entry_at a b1 = entry_at a b" "a < length (br_heap b1)" using assms(3) k(3,5) by (auto simp: cooling_def)
  have gate: "gate_entry (br_options b1) (clk (br_ticks b1)) (entry_at a b)
      = pruneFailures (br_options b1) (clk (br_ticks b1)) (entry_at a b)"
    using assms(3,4) k(6) by (simp add: cooling_def gate_entry_def Let_def)
  have "cooling a u b'"
    using assms(3) g(1) e gate by (cases "a = a1") (auto simp: cooling_def acts_on_def begin_entry_def Let_def)
  moreover have "isl r" if "br_entries b (eo_key x) = Some a"
  proof -
    have "a1 = a" "b1 = b" using that c by (simp_all add: call_entry_def)
    then show ?thesis using g(2) gate assms(3) by (simp add: cooling_def gate_refuses_def)
  qed
  ultimately show ?thesis by blast
qed

lemma cooling_step:
  assumes "breaker_step clk s ev s'" "system_ok s" "cooling a u (sys_breaker s)" "clk (br_ticks (sys_breaker s)) < u"
  shows "cooling a u (sys_breaker s')"
  using assms(1)
proof cases
  case (step_finish i fl out)
  have "fl_entry fl < length (br_heap (sys_breaker s))" using assms(2) step_finish(3) by (auto simp: system_ok_def)
  from finish_execute_acts [OF this, of clk out] show ?thesis
    using assms(3) step_finish(2)
    by (cases "a = fl_entry fl"; cases out)
      (auto simp: cooling_def acts_on_def finish_entry_def outcome_entry_def fail_entry_def success_entry_def Let_def)
next
  case (step_reset k)
  then show ?thesis using assms(3) by (cases k) (auto simp: resetBreaker_def cooling_def entry_at_def)
next
  case (step_snapshot k m)
  have "cooling a u (b\<lparr>br_ticks := n\<rparr>)" "cooling a u (set_entry j (pruneFailures opt t) (b\<lparr>br_ticks := n\<rparr>))"
    if "cooling a u b" for b n j opt t
    using that by (cases "j = a"; simp add: cooling_def entry_at_def set_entry_def)+
  then show ?thesis using step_snapshot snapshot_acts [of clk k m "sys_breaker s"] assms(3) by auto
qed (use cooling_begin assms(2-) in \<open>auto simp: system_ok_def\<close>)

lemma next_laws:
  assumes "system_ok s"
  shows "system_ok (breaker_next clk ev s)" "br_ticks (sys_breaker s) \<le> br_ticks (sys_breaker (breaker_next clk ev s))"
    "cooling a u (sys_breaker s) \<Longrightarrow> clk (br_ticks (sys_breaker s)) < u \<Longrightarrow> cooling a u (sys_breaker (breaker_next clk ev s))"
  using breaker_next_step [of clk ev s] step_laws step_ticks cooling_step assms by (metis order_refl)+

lemma run_ticks: "system_ok s \<Longrightarrow> br_ticks (sys_breaker s) \<le> br_ticks (sys_breaker (fold (breaker_next clk) evs s))"
  by (induction evs arbitrary: s) (auto intro: order_trans next_laws)

lemma cooling_run:
  assumes "system_ok s" "cooling a u (sys_breaker s)"
    and "\<And>k. br_ticks (sys_breaker s) \<le> k \<Longrightarrow> k \<le> br_ticks (sys_breaker (fold (breaker_next clk) evs s)) \<Longrightarrow> clk k < u"
  shows "system_ok (fold (breaker_next clk) evs s) \<and> cooling a u (sys_breaker (fold (breaker_next clk) evs s))"
  using assms
proof (induction evs arbitrary: s)
  case (Cons ev evs)
  let ?s = "breaker_next clk ev s"
  note laws = next_laws [OF Cons.prems(1), where clk = clk and ev = ev]
  have "br_ticks (sys_breaker s) \<le> br_ticks (sys_breaker (fold (breaker_next clk) evs ?s))"
    using laws(2) run_ticks [OF laws(1)] by (rule order_trans)
  then have "clk (br_ticks (sys_breaker s)) < u" using Cons.prems(3) by simp
  from Cons.IH [OF laws(1) laws(3) [OF Cons.prems(2) this]] Cons.prems(3) laws(2) show ?case by simp
qed simp

lemma trip_laws:
  assumes "breaker_reaches clk options s" "sys_flights s i = Some fl"
    and "b = sys_breaker s" "a = fl_entry fl" "opt = resolveOptions options"
    and "ce_state (entry_at a b) = Circuit_closed" "out = Op_failure_result msg \<or> out = Op_thrown msg True"
    and "b' = finish_execute clk fl out b"
  shows "ce_state (entry_at a b') = Circuit_open \<longleftrightarrow> ro_failureThreshold opt \<le>
        int (length (filter (\<lambda>t. clk (br_ticks b) - ro_windowMs opt \<le> t) (ce_failures (entry_at a b)))) + 1"
    and "ce_state (entry_at a b') = Circuit_open \<Longrightarrow> cooling a (clk (br_ticks b + 1) + ro_cooldownMs opt) b'"
proof -
  have ok: "br_options b = opt" "a < length (br_heap b)"
    using reaches_ok [OF assms(1)] assms(2-5) by (auto simp: system_ok_def)
  have act: "acts_on a (finish_entry opt (clk (br_ticks b)) (clk (br_ticks b + 1)) (fl_wasHalfOpen fl) out) b b'"
    using finish_execute_acts [of fl b clk out] ok assms(4,8) by simp
  then have e': "entry_at a b' =
      finish_entry opt (clk (br_ticks b)) (clk (br_ticks b + 1)) (fl_wasHalfOpen fl) out (entry_at a b)"
    "length (br_heap b') = length (br_heap b)"
    by (simp_all add: acts_on_def)
  note entry = e' finish_entry_def outcome_entry_def fail_entry_def opened_entry_def Let_def
  show "ce_state (entry_at a b') = Circuit_open \<longleftrightarrow> ro_failureThreshold opt \<le>
      int (length (filter (\<lambda>t. clk (br_ticks b) - ro_windowMs opt \<le> t) (ce_failures (entry_at a b)))) + 1"
    using assms(6,7) by (auto simp: entry split: if_splits)
  show "cooling a (clk (br_ticks b + 1) + ro_cooldownMs opt) b'" if "ce_state (entry_at a b') = Circuit_open"
    using that assms(6,7) ok(2) by (auto simp: cooling_def entry split: if_splits)
qed

text \<open>
  C17. A circuit trips exactly at its threshold: when a call in flight on a closed circuit ends in a recorded failure, the
  circuit opens if and only if the failures of the last \<open>windowMs\<close> together with this one reach the threshold. From then
  on, whatever calls begin and end, whatever is reset or read, every call on this circuit that begins before \<open>cooldownMs\<close>
  have passed since is refused without being run, and the circuit stays open.
\<close>

theorem circuit_trips:
  assumes "breaker_reaches clk options s" "sys_flights s i = Some fl"
    and "b = sys_breaker s" "a = fl_entry fl" "opt = resolveOptions options"
    and "ce_state (entry_at a b) = Circuit_closed" "out = Op_failure_result msg \<or> out = Op_thrown msg True"
    and "b' = finish_execute clk fl out b"
  shows "(ce_state (entry_at a b') = Circuit_open \<longleftrightarrow>
      ro_failureThreshold opt \<le>
        int (length (filter (\<lambda>t. clk (br_ticks b) - ro_windowMs opt \<le> t) (ce_failures (entry_at a b)))) + 1)
    \<and> (\<forall>evs s' x. ce_state (entry_at a b') = Circuit_open
          \<and> s' = fold (breaker_next clk) evs \<lparr>sys_breaker = b', sys_flights = (sys_flights s)(i := None)\<rparr>
          \<and> br_entries (sys_breaker s') (eo_key x) = Some a
          \<and> (\<forall>k. br_ticks b' \<le> k \<and> k \<le> br_ticks (sys_breaker s') \<longrightarrow> clk k < clk (br_ticks b + 1) + ro_cooldownMs opt) \<longrightarrow>
        (\<exists>err b''. begin_execute clk x (sys_breaker s') = (Inl err, b'') \<and> ce_state (entry_at a b'') = Circuit_open))"
proof (intro conjI allI impI)
  note laws = trip_laws [OF assms]
  show "ce_state (entry_at a b') = Circuit_open \<longleftrightarrow> ro_failureThreshold opt \<le>
      int (length (filter (\<lambda>t. clk (br_ticks b) - ro_windowMs opt \<le> t) (ce_failures (entry_at a b)))) + 1"
    by (rule laws(1))
  let ?u = "clk (br_ticks b + 1) + ro_cooldownMs opt" and ?s = "\<lparr>sys_breaker = b', sys_flights = (sys_flights s)(i := None)\<rparr>"
  fix evs s' and x :: execute_options
  assume *: "ce_state (entry_at a b') = Circuit_open \<and> s' = fold (breaker_next clk) evs ?s
    \<and> br_entries (sys_breaker s') (eo_key x) = Some a
    \<and> (\<forall>k. br_ticks b' \<le> k \<and> k \<le> br_ticks (sys_breaker s') \<longrightarrow> clk k < ?u)"
  have "breaker_step clk s (Ev_finish i out) ?s" using step_finish [OF assms(2), of clk out] assms(3,8) by simp
  then have "system_ok ?s" using step_laws reaches_ok [OF assms(1)] by blast
  from cooling_run [OF this, of a ?u clk evs] laws(2) *
  have run: "system_ok s'" "cooling a ?u (sys_breaker s')" by auto
  obtain r b'' where r: "begin_execute clk x (sys_breaker s') = (r, b'')" by fastforce
  have "br_ticks b' \<le> br_ticks (sys_breaker s')" using run_ticks [OF \<open>system_ok ?s\<close>, of clk evs] * by simp
  then have "breaker_ok (sys_breaker s')" "clk (br_ticks (sys_breaker s')) < ?u" using run * by (auto simp: system_ok_def)
  from cooling_begin [OF r this(1) run(2) this(2)] show "\<exists>err b''. begin_execute clk x (sys_breaker s') = (Inl err, b'') \<and> ce_state (entry_at a b'') = Circuit_open"
    using r * by (cases r) (auto simp: cooling_def)
qed

text \<open>Calls of one circuit one after the other, all of which succeed.\<close>

fun run_successes :: "clock \<Rightarrow> execute_options \<Rightarrow> nat \<Rightarrow> breaker \<Rightarrow> bool \<times> breaker" where
  "run_successes clk x 0 b = (True, b)"
| "run_successes clk x (Suc k) b =
     (case begin_execute clk x b of
        (Inl _, b') \<Rightarrow> (False, b')
      | (Inr fl, b') \<Rightarrow> run_successes clk x k (finish_execute clk fl Op_result b'))"

definition probing :: "resolved_circuit_options \<Rightarrow> nat \<Rightarrow> circuit_entry \<Rightarrow> bool" where
  "probing opt k e \<longleftrightarrow> ce_state e = Circuit_half_open \<and> ce_halfOpenAttempts e = 0 \<and> ce_halfOpenSuccesses e = k"

lemma success_step:
  assumes "a < length (br_heap b)" "br_entries b (eo_key x) = Some a" "1 \<le> ro_halfOpenMaxAttempts (br_options b)"
    and "probing (br_options b) k (gate_entry (br_options b) (clk (br_ticks b)) (entry_at a b))"
  obtains fl b1 b' where "begin_execute clk x b = (Inr fl, b1)" "b' = finish_execute clk fl Op_result b1"
    "a < length (br_heap b')" "br_entries b' = br_entries b" "br_options b' = br_options b"
    "int k + 1 < ro_halfOpenMaxAttempts (br_options b) \<Longrightarrow> probing (br_options b) (Suc k) (entry_at a b')"
    "ro_halfOpenMaxAttempts (br_options b) \<le> int k + 1 \<Longrightarrow>
       ce_state (entry_at a b') = Circuit_closed \<and> ce_failures (entry_at a b') = []"
proof -
  let ?o = "br_options b" and ?n = "clk (br_ticks b)"
  let ?g = "gate_entry ?o ?n (entry_at a b)"
  obtain r b1 where r: "begin_execute clk x b = (r, b1)" by fastforce
  have c: "call_entry (eo_key x) b = (a, b)" using assms(2) by (simp add: call_entry_def)
  note g = begin_execute_cases [OF r c assms(1)]
  have free: "\<not> gate_refuses ?o ?g" using assms(3,4) by (simp add: probing_def gate_refuses_def)
  then obtain fl where fl: "r = Inr fl" using g(2) by (cases r) auto
  have f: "fl_entry fl = a" "fl_wasHalfOpen fl" using g(3) [OF fl] assms(4) by (simp_all add: probing_def)
  let ?b' = "finish_execute clk fl Op_result b1"
  have e1: "entry_at a b1 = ?g\<lparr>ce_halfOpenAttempts := 1\<rparr>" "br_options b1 = ?o" "br_entries b1 = br_entries b"
    "length (br_heap b1) = length (br_heap b)"
    using g(1) free assms(4) by (simp_all add: acts_on_def begin_entry_def Let_def probing_def)
  have act: "acts_on a (finish_entry ?o (clk (br_ticks b1)) (clk (br_ticks b1 + 1)) True Op_result) b1 ?b'"
    using finish_execute_acts [of fl b1 clk Op_result] f assms(1) e1 by simp
  show thesis
    by (rule that [OF r [unfolded fl] refl])
      (use act e1 assms(1,4) in \<open>auto simp: acts_on_def finish_entry_def outcome_entry_def success_entry_def
        probing_def Let_def\<close>)
qed

lemma probing_gate: "probing opt k e \<Longrightarrow> probing opt k (gate_entry opt n e)"
  by (simp add: probing_def gate_entry_def Let_def)

lemma successes_close:
  assumes "a < length (br_heap b)" "br_entries b (eo_key x) = Some a" "1 \<le> ro_halfOpenMaxAttempts (br_options b)"
    and "probing (br_options b) k (gate_entry (br_options b) (clk (br_ticks b)) (entry_at a b))"
    and "int k + int m = ro_halfOpenMaxAttempts (br_options b)" "0 < m"
  shows "\<exists>b'. run_successes clk x m b = (True, b') \<and> ce_state (entry_at a b') = Circuit_closed
    \<and> ce_failures (entry_at a b') = []"
  using assms
proof (induction m arbitrary: k b)
  case (Suc m)
  show ?case
  proof (rule success_step [where clk = clk, OF Suc.prems(1-4)])
    fix fl b1 b'
    assume *: "begin_execute clk x b = (Inr fl, b1)" "b' = finish_execute clk fl Op_result b1"
      "a < length (br_heap b')" "br_entries b' = br_entries b" "br_options b' = br_options b"
      "int k + 1 < ro_halfOpenMaxAttempts (br_options b) \<Longrightarrow> probing (br_options b) (Suc k) (entry_at a b')"
      "ro_halfOpenMaxAttempts (br_options b) \<le> int k + 1 \<Longrightarrow>
         ce_state (entry_at a b') = Circuit_closed \<and> ce_failures (entry_at a b') = []"
    show ?case
    proof (cases "m = 0")
      case True
      then show ?thesis using * Suc.prems(5) by auto
    next
      case False
      then have "probing (br_options b') (Suc k) (gate_entry (br_options b') (clk (br_ticks b')) (entry_at a b'))"
        using *(5,6) Suc.prems(5) by (simp add: probing_gate)
      from Suc.IH [OF *(3) _ _ this] False * Suc.prems show ?thesis by auto
    qed
  qed
qed simp

text \<open>
  C28. An open circuit recovers: once its cooldown has elapsed, \<open>halfOpenMaxAttempts\<close> calls made one
  after the other are all admitted, and if they succeed the circuit is closed with no failure left.
\<close>

theorem circuit_recovers:
  assumes "breaker_reaches clk options s" "b = sys_breaker s" "br_entries b (eo_key x) = Some a"
    and "ce_state (entry_at a b) = Circuit_open" "ce_openUntilMs (entry_at a b) = Some u" "u \<le> clk (br_ticks b)"
  shows "\<exists>b'. run_successes clk x (nat (ro_halfOpenMaxAttempts (resolveOptions options))) b = (True, b')
    \<and> ce_state (entry_at a b') = Circuit_closed \<and> ce_failures (entry_at a b') = []"
proof -
  have ok: "breaker_ok b" "br_options b = resolveOptions options" using reaches_ok [OF assms(1)] assms(2)
    by (simp_all add: system_ok_def)
  have a: "a < length (br_heap b)" "1 \<le> ro_halfOpenMaxAttempts (br_options b)"
    using ok(1) assms(3) by (auto simp: breaker_ok_def options_ok_def)
  have "entry_ok (br_options b) (entry_at a b)" using ok(1) a by (simp add: breaker_ok_def)
  then have "probing (br_options b) 0 (gate_entry (br_options b) (clk (br_ticks b)) (entry_at a b))"
    using assms(4-6) by (simp add: probing_def gate_entry_def Let_def entry_ok_def)
  from successes_close [where clk = clk, OF a(1) assms(3) a(2) this,
      of "nat (ro_halfOpenMaxAttempts (br_options b))"] a(2) ok(2)
  show ?thesis by simp
qed

definition breaker_run :: "clock \<Rightarrow> circuit_options \<Rightarrow> breaker_event list \<Rightarrow> breaker_system" where
  "breaker_run clk options evs =
     fold (breaker_next clk) evs \<lparr>sys_breaker = new_breaker options, sys_flights = Map.empty\<rparr>"

lemma breaker_run_reaches: "breaker_reaches clk options (breaker_run clk options evs)"
  unfolding breaker_run_def by (intro fold_next_reaches reaches_init)

definition demo_clock :: clock where "demo_clock k = 10 * int k"

definition demo_circuit :: circuit_options where
  "demo_circuit = \<lparr>co_failureThreshold = Fin 2, co_windowMs = Fin 1000, co_cooldownMs = Fin 25, co_halfOpenMaxAttempts = None\<rparr>"

definition demo_execute :: execute_options where
  "demo_execute = \<lparr>eo_key = ''k'', eo_method = None, eo_onTransition = True\<rparr>"

definition demo_events :: "breaker_event list" where
  "demo_events = [Ev_begin 0 demo_execute, Ev_begin 1 demo_execute, Ev_finish 0 (Op_failure_result ''e'')]"

definition demo_trip :: breaker_event where "demo_trip = Ev_finish 1 (Op_thrown ''e'' True)"

definition demo_busy :: breaker_system where "demo_busy = breaker_run demo_clock demo_circuit demo_events"

definition demo_open :: breaker_system where
  "demo_open = breaker_run demo_clock demo_circuit (demo_events @ [demo_trip, Ev_snapshot ''k'' None, Ev_snapshot ''k'' None])"

lemma demo_reached: "breaker_reaches demo_clock demo_circuit demo_busy" "breaker_reaches demo_clock demo_circuit demo_open"
  unfolding demo_busy_def demo_open_def by (rule breaker_run_reaches)+

lemma demo_busy_eval:
  "length (br_heap (sys_breaker demo_busy)) = 1"
  "map_option fl_entry (sys_flights demo_busy 1) = Some 0"
  "ce_state (entry_at 0 (sys_breaker demo_busy)) = Circuit_closed"
  "length (ce_failures (entry_at 0 (sys_breaker demo_busy))) = 1"
  by code_simp+

lemma demo_open_eval:
  "br_entries (sys_breaker demo_open) ''k'' = Some 0"
  "ce_state (entry_at 0 (sys_breaker demo_open)) = Circuit_open"
  "ce_openUntilMs (entry_at 0 (sys_breaker demo_open)) = Some 65"
  "demo_clock (br_ticks (sys_breaker demo_open)) = 80"
  by code_simp+

theorem circuit_entries_ok_witness:
  "ce_state (entry_at 0 (sys_breaker demo_busy)) = Circuit_closed
   \<and> entry_ok (resolveOptions demo_circuit) (entry_at 0 (sys_breaker demo_busy))"
  using circuit_entries_ok [OF demo_reached(1), of 0] demo_busy_eval by simp

theorem circuit_refines_automaton_witness:
  "\<exists>s'. breaker_step demo_clock demo_busy demo_trip s'
     \<and> circuit_moves demo_trip Circuit_closed (ce_state (entry_at 0 (sys_breaker s')))"
proof -
  obtain fl where "sys_flights demo_busy 1 = Some fl" using demo_busy_eval(2) by auto
  from step_finish [OF this, of demo_clock "Op_thrown ''e'' True"] obtain s' where
    s': "breaker_step demo_clock demo_busy demo_trip s'" unfolding demo_trip_def by blast
  from circuit_refines_automaton [OF demo_reached(1) s', of 0] demo_busy_eval show ?thesis using s' by auto
qed

theorem circuit_trips_witness:
  "\<exists>fl. sys_flights demo_busy 1 = Some fl
     \<and> ce_state (entry_at (fl_entry fl) (finish_execute demo_clock fl (Op_thrown ''e'' True) (sys_breaker demo_busy)))
         = Circuit_open"
proof -
  obtain fl where fl: "sys_flights demo_busy 1 = Some fl" "fl_entry fl = 0" using demo_busy_eval(2) by auto
  have "ro_failureThreshold (resolveOptions demo_circuit) \<le>
      int (length (filter (\<lambda>t. demo_clock (br_ticks (sys_breaker demo_busy)) - ro_windowMs (resolveOptions demo_circuit) \<le> t)
        (ce_failures (entry_at 0 (sys_breaker demo_busy))))) + 1"
    by code_simp
  then show ?thesis
    using circuit_trips [OF demo_reached(1) fl(1) refl refl refl, of "Op_thrown ''e'' True" "''e''"]
      demo_busy_eval(3) fl by simp
qed

theorem circuit_recovers_witness:
  "\<exists>b'. run_successes demo_clock demo_execute 1 (sys_breaker demo_open) = (True, b')
     \<and> ce_state (entry_at 0 b') = Circuit_closed \<and> ce_failures (entry_at 0 b') = []"
proof -
  have k: "br_entries (sys_breaker demo_open) (eo_key demo_execute) = Some 0"
    using demo_open_eval(1) by (simp add: demo_execute_def)
  have "nat (ro_halfOpenMaxAttempts (resolveOptions demo_circuit)) = 1"
    by (simp add: resolveOptions_def demo_circuit_def positiveIntegerOr_def)
  then show ?thesis
    using circuit_recovers [OF demo_reached(2) refl k demo_open_eval(2,3)] demo_open_eval(4) by simp
qed

text \<open>
  The limit on concurrent half-open probes is not kept. A probe left over from an earlier
  half-open period gives back an attempt it took in that period, so a circuit that allows one
  probe ends up running two probes begun in its current half-open period.
\<close>

definition stale_options :: circuit_options where
  "stale_options = \<lparr>co_failureThreshold = Fin 1, co_windowMs = Fin 1000, co_cooldownMs = Fin 5, co_halfOpenMaxAttempts = Some (Fin 1)\<rparr>"

definition stale_events :: "breaker_event list" where
  "stale_events =
     [Ev_begin 0 demo_execute, Ev_begin 1 demo_execute, Ev_finish 1 (Op_thrown ''e'' True),
      Ev_begin 2 demo_execute, Ev_finish 0 (Op_thrown ''e'' True),
      Ev_begin 3 demo_execute, Ev_finish 2 (Op_thrown ''aborted'' False), Ev_begin 4 demo_execute]"

lemma probe_limit_broken:
  "\<exists>s. breaker_reaches demo_clock stale_options s \<and> ro_halfOpenMaxAttempts (resolveOptions stale_options) = 1
     \<and> ce_state (entry_at 0 (sys_breaker s)) = Circuit_half_open
     \<and> map_option fl_wasHalfOpen (sys_flights s 3) = Some True
     \<and> map_option fl_wasHalfOpen (sys_flights s 4) = Some True"
proof (intro exI conjI)
  let ?s = "breaker_run demo_clock stale_options stale_events"
  show "breaker_reaches demo_clock stale_options ?s" by (rule breaker_run_reaches)
  show "ro_halfOpenMaxAttempts (resolveOptions stale_options) = 1" by code_simp
  show "ce_state (entry_at 0 (sys_breaker ?s)) = Circuit_half_open" by code_simp
  show "map_option fl_wasHalfOpen (sys_flights ?s 3) = Some True" by code_simp
  show "map_option fl_wasHalfOpen (sys_flights ?s 4) = Some True" by code_simp
qed

end
