(* ===== verification/Fatigue_Policy.thy ===== *)
theory Fatigue_Policy
  imports Fatigue_Types
begin

text \<open>
  The fatigue policy (\<^verbatim>\<open>src/src/core/agent/fatigue/policy.ts\<close>): how many replies a companion may give
  a machine peer in a channel, whether a turn spends one, how exhausted the allowance is and
  whether a bounded overcharge is justified.
\<close>

section \<open>Inputs and results\<close>

datatype policy_channel_type = Policy_dm | Policy_group | Policy_companion_room | Policy_public_group | Policy_unknown

datatype spend_reason =
  Spend_peer_machine_intelligence_turn | Spend_human_authored_turn | Spend_peer_not_machine_intelligence
| Spend_non_machine_intelligence_author

datatype blocked_reason =
  Blocked_overcharge_disabled | Blocked_peer_not_machine_intelligence | Blocked_turn_does_not_spend_fatigue
| Blocked_normal_allowance_not_exhausted | Blocked_no_qualifying_overcharge_trigger
| Blocked_overcharge_reserve_exhausted

record policy_peer =
  pp_contactId :: string
  pp_isMachineIntelligence :: bool
  pp_relationshipType :: relationship_type
  pp_trustLevel :: trust_level

record policy_channel =
  pc_channelId :: "string option"
  pc_type :: policy_channel_type
  pc_setting :: "channel_setting option"
  pc_companionFocused :: bool
  pc_companionHosted :: bool
  pc_humanParticipantCount :: jsnum
  pc_machineIntelligenceParticipantCount :: jsnum
  pc_recentMessageCount :: jsnum
  pc_recentHumanMessageCount :: jsnum

record human_participation =
  hp_messageCount :: jsnum
  hp_participantCount :: jsnum
  hp_latestMessageAgeMs :: "jsnum option"

record policy_input =
  pi_config :: fatigue_policy_config
  pi_peer :: policy_peer
  pi_channel :: policy_channel
  pi_recentHumanParticipation :: human_participation
  pi_intent :: fatigue_intent
  pi_spent :: jsnum
  pi_triggerAuthorKind :: trigger_author_kind
  pi_explicitPeerInvitation :: bool

record spend_result =
  sp_spendsFatigue :: bool
  sp_amount :: int
  sp_reason :: spend_reason

record overcharge_inputs =
  oi_enabled :: bool
  oi_peerIsMachineIntelligence :: bool
  oi_turnSpendsFatigue :: bool
  oi_recentHumanMessageCount :: jsnum
  oi_recentHumanParticipantCount :: jsnum
  oi_latestHumanMessageAgeMs :: "jsnum option"
  oi_recentHumanParticipationWindowMs :: real
  oi_reserveResponses :: real
  oi_hasRecentHumanParticipation :: bool
  oi_intent :: fatigue_intent
  oi_hasWorkIntentWrapup :: bool
  oi_explicitPeerInvitation :: bool
  oi_baseState :: fatigue_base_state

record overcharge_result =
  or_eligible :: bool
  or_reasons :: "overcharge_reason list"
  or_blockedReasons :: "blocked_reason list"
  or_inputs :: overcharge_inputs

record policy_telemetry =
  pt_peerIsMachineIntelligence :: bool
  pt_relationshipType :: relationship_type
  pt_trustLevel :: trust_level
  pt_channelId :: "string option"
  pt_channelType :: policy_channel_type
  pt_humanParticipantCount :: jsnum
  pt_machineIntelligenceParticipantCount :: jsnum
  pt_recentMessageCount :: jsnum
  pt_recentHumanMessageCount :: jsnum

record policy_evaluation =
  pe_peerContactId :: string
  pe_relationshipClass :: relationship_class
  pe_channelSetting :: channel_setting
  pe_intent :: fatigue_intent
  pe_softTarget :: real
  pe_hardCap :: real
  pe_spent :: real
  pe_state :: fatigue_state
  pe_baseState :: fatigue_base_state
  pe_spend :: spend_result
  pe_overcharge :: overcharge_result
  pe_telemetry :: policy_telemetry

section \<open>The policy\<close>

definition isFatigueWorkIntent :: "fatigue_intent \<Rightarrow> bool" where
  "isFatigueWorkIntent intent \<longleftrightarrow> intent = Intent_work \<or> intent = Intent_research \<or> intent = Intent_problem_solving"

definition resolveFatigueOverchargeDeterministicBlockedReasons ::
  "bool \<Rightarrow> bool \<Rightarrow> fatigue_base_state \<Rightarrow> blocked_reason list" where
  "resolveFatigueOverchargeDeterministicBlockedReasons peerIsMachineIntelligence turnSpendsFatigue baseState =
     (if \<not> peerIsMachineIntelligence then [Blocked_peer_not_machine_intelligence] else [])
     @ (if \<not> turnSpendsFatigue then [Blocked_turn_does_not_spend_fatigue] else [])
     @ (if baseState \<noteq> Base_hard_exhausted then [Blocked_normal_allowance_not_exhausted] else [])"

definition assertPolicyCount :: "jsnum \<Rightarrow> string \<Rightarrow> real result" where
  "assertPolicyCount value fieldName =
     (if \<not> isFinite value \<or> \<not> isInteger value \<or> numval value < 0
      then Inl (Error (''Invalid fatigue policy input: '' @ fieldName @ '' must be a finite integer >= 0''))
      else Inr (numval value))"

definition trustedRelationship :: "relationship_type \<Rightarrow> bool" where
  "trustedRelationship t \<longleftrightarrow> t = Rel_ai_companion \<or> t = Rel_friend \<or> t = Rel_family \<or> t = Rel_partner"

definition resolveFatigueRelationshipClass :: "policy_peer \<Rightarrow> relationship_class" where
  "resolveFatigueRelationshipClass peer =
     (if \<not> pp_isMachineIntelligence peer then Non_machine_intelligence
      else if pp_relationshipType peer = Rel_stranger \<or> pp_trustLevel peer = Trust_public then Stranger_mi
      else if pp_trustLevel peer = Trust_primary then Trusted_collaborator_mi
      else if pp_trustLevel peer = Trust_trusted
        then (if trustedRelationship (pp_relationshipType peer) then Trusted_collaborator_mi else Collaborator_mi)
      else if pp_relationshipType peer = Rel_ai_companion then Collaborator_mi
      else if pp_relationshipType peer = Rel_friend then Friendly_mi
      else if pp_relationshipType peer = Rel_family \<or> pp_relationshipType peer = Rel_partner then Known_mi
      else Weak_mi)"

definition resolveFatigueChannelSetting :: "policy_channel \<Rightarrow> fatigue_policy_config \<Rightarrow> channel_setting" where
  "resolveFatigueChannelSetting channel config =
     (case pc_setting channel of
        Some setting \<Rightarrow> setting
      | None \<Rightarrow>
          if pc_type channel = Policy_dm then Setting_dm
          else
          let humanParticipantCount = js_max (Fin 0) (pc_humanParticipantCount channel);
              recentMessageCount = js_max (Fin 0) (pc_recentMessageCount channel);
              recentHumanMessageCount = js_max (Fin 0) (pc_recentHumanMessageCount channel);
              thresholds = fp_activityThresholds config;
              busyByHumans = js_le (Fin (at_busyHumanParticipantCount thresholds)) humanParticipantCount;
              busyByMessages = js_le (Fin (at_busyRecentMessageCount thresholds)) recentMessageCount
                \<and> js_lt (Fin 0) recentHumanMessageCount
          in
          if busyByHumans \<or> busyByMessages then Setting_busy_human_group
          else if pc_companionFocused channel \<and> pc_companionHosted channel \<and> js_eq humanParticipantCount (Fin 1)
            then Setting_one_human_companion_hosted
          else if pc_companionFocused channel
              \<and> (pc_type channel = Policy_companion_room
                 \<or> js_le recentMessageCount (Fin (at_quietRecentMessageCount thresholds)))
            then Setting_quiet_companion_room
          else if pc_type channel = Policy_group \<or> pc_type channel = Policy_public_group then Setting_public_group
          else Setting_unknown)"

definition computeLimits ::
  "fatigue_policy_config \<Rightarrow> relationship_class \<Rightarrow> channel_setting \<Rightarrow> fatigue_intent \<Rightarrow> response_budget" where
  "computeLimits config relationshipClass channelSetting intent0 =
     (let relationship = fp_relationshipBudgets config relationshipClass;
          channel = fp_channelSettingLimits config channelSetting;
          intent = fp_intentMultipliers config intent0;
          rawSoftTarget = of_int \<lceil>rb_softTarget relationship * im_softTargetMultiplier intent\<rceil>;
          rawHardCap = of_int \<lceil>rb_hardCap relationship * im_hardCapMultiplier intent\<rceil>;
          softTarget = min rawSoftTarget (cl_maxSoftTarget channel);
          hardCap = min (max rawHardCap softTarget) (cl_maxHardCap channel)
      in \<lparr>rb_softTarget = softTarget, rb_hardCap = hardCap\<rparr>)"

definition computeSpend :: "policy_input \<Rightarrow> spend_result" where
  "computeSpend input =
     (if \<not> pp_isMachineIntelligence (pi_peer input)
      then \<lparr>sp_spendsFatigue = False, sp_amount = 0, sp_reason = Spend_peer_not_machine_intelligence\<rparr>
      else if pi_triggerAuthorKind input = Human
        then \<lparr>sp_spendsFatigue = False, sp_amount = 0, sp_reason = Spend_human_authored_turn\<rparr>
      else if pi_triggerAuthorKind input \<noteq> Machine_intelligence
        then \<lparr>sp_spendsFatigue = False, sp_amount = 0, sp_reason = Spend_non_machine_intelligence_author\<rparr>
      else \<lparr>sp_spendsFatigue = True, sp_amount = 1, sp_reason = Spend_peer_machine_intelligence_turn\<rparr>)"

definition computeBaseState :: "real \<Rightarrow> real \<Rightarrow> real \<Rightarrow> fatigue_policy_config \<Rightarrow> bool \<Rightarrow> fatigue_base_state" where
  "computeBaseState spent softTarget hardCap config fatigueApplies =
     (if \<not> fatigueApplies then Base_normal
      else if spent \<ge> hardCap then Base_hard_exhausted
      else if hardCap - spent \<le> th_wrapUpRemainingResponses (fp_stateThresholds config) then Base_wrap_up_allowed
      else if spent \<ge> softTarget then Base_soft_exhausted
      else if softTarget - spent \<le> th_nearingLimitRemainingResponses (fp_stateThresholds config) then Base_nearing_limit
      else Base_normal)"

definition computeOvercharge ::
  "fatigue_policy_config \<Rightarrow> bool \<Rightarrow> spend_result \<Rightarrow> human_participation \<Rightarrow> fatigue_base_state \<Rightarrow> fatigue_intent \<Rightarrow> bool \<Rightarrow>
     overcharge_result" where
  "computeOvercharge config peerIsMachineIntelligence spend recentHumanParticipation baseState intent explicitPeerInvitation =
     (let oc = fp_overcharge config;
          hasKnownRecentHumanMessage = (case hp_latestMessageAgeMs recentHumanParticipation of
              None \<Rightarrow> False
            | Some age \<Rightarrow> isFinite age \<and> js_le (Fin 0) age \<and> js_le age (Fin (oc_recentHumanParticipationWindowMs oc)));
          hasRecentHumanParticipation = (hasKnownRecentHumanMessage
            \<and> js_le (Fin (oc_minRecentHumanMessages oc)) (hp_messageCount recentHumanParticipation)
            \<and> js_le (Fin (oc_minRecentHumanParticipants oc)) (hp_participantCount recentHumanParticipation));
          hasWorkIntentWrapup = isFatigueWorkIntent intent;
          inputs = \<lparr>oi_enabled = oc_enabled oc, oi_peerIsMachineIntelligence = peerIsMachineIntelligence,
            oi_turnSpendsFatigue = sp_spendsFatigue spend,
            oi_recentHumanMessageCount = hp_messageCount recentHumanParticipation,
            oi_recentHumanParticipantCount = hp_participantCount recentHumanParticipation,
            oi_latestHumanMessageAgeMs = hp_latestMessageAgeMs recentHumanParticipation,
            oi_recentHumanParticipationWindowMs = oc_recentHumanParticipationWindowMs oc,
            oi_reserveResponses = oc_reserveResponses oc,
            oi_hasRecentHumanParticipation = hasRecentHumanParticipation, oi_intent = intent,
            oi_hasWorkIntentWrapup = hasWorkIntentWrapup, oi_explicitPeerInvitation = explicitPeerInvitation,
            oi_baseState = baseState\<rparr>;
          blockedReasons =
            (if \<not> oc_enabled oc then [Blocked_overcharge_disabled] else [])
            @ resolveFatigueOverchargeDeterministicBlockedReasons peerIsMachineIntelligence (sp_spendsFatigue spend) baseState
            @ (if \<not> hasRecentHumanParticipation \<and> \<not> hasWorkIntentWrapup \<and> \<not> explicitPeerInvitation
               then [Blocked_no_qualifying_overcharge_trigger] else [])
      in
      if blockedReasons \<noteq> []
      then \<lparr>or_eligible = False, or_reasons = [], or_blockedReasons = blockedReasons, or_inputs = inputs\<rparr>
      else \<lparr>or_eligible = True,
             or_reasons = (if hasRecentHumanParticipation then [Overcharge_recent_human_participation] else [])
               @ (if hasWorkIntentWrapup then [Overcharge_work_intent_wrapup] else [])
               @ (if explicitPeerInvitation then [Overcharge_explicit_peer_invitation] else []),
             or_blockedReasons = [], or_inputs = inputs\<rparr>)"

definition evaluateFatiguePolicy :: "policy_input \<Rightarrow> policy_evaluation result" where
  "evaluateFatiguePolicy input =
     rbind (assertPolicyCount (pi_spent input) ''spent'') (\<lambda>spent.
     let channel = pi_channel input; human = pi_recentHumanParticipation input; config = pi_config input;
         peer = pi_peer input in
     rbind (assertPolicyCount (pc_humanParticipantCount channel) ''channel.humanParticipantCount'') (\<lambda>_.
     rbind (assertPolicyCount (pc_machineIntelligenceParticipantCount channel)
              ''channel.machineIntelligenceParticipantCount'') (\<lambda>_.
     rbind (assertPolicyCount (pc_recentMessageCount channel) ''channel.recentMessageCount'') (\<lambda>_.
     rbind (assertPolicyCount (pc_recentHumanMessageCount channel) ''channel.recentHumanMessageCount'') (\<lambda>_.
     rbind (assertPolicyCount (hp_messageCount human) ''recentHumanParticipation.messageCount'') (\<lambda>_.
     rbind (assertPolicyCount (hp_participantCount human) ''recentHumanParticipation.participantCount'') (\<lambda>_.
     let relationshipClass = resolveFatigueRelationshipClass peer;
         channelSetting = resolveFatigueChannelSetting channel config;
         limits = computeLimits config relationshipClass channelSetting (pi_intent input);
         spend = computeSpend input;
         baseState = computeBaseState spent (rb_softTarget limits) (rb_hardCap limits) config
                       (pp_isMachineIntelligence peer);
         overcharge = computeOvercharge config (pp_isMachineIntelligence peer) spend human baseState (pi_intent input)
                        (pi_explicitPeerInvitation input)
     in Inr
       \<lparr>pe_peerContactId = pp_contactId peer, pe_relationshipClass = relationshipClass,
        pe_channelSetting = channelSetting, pe_intent = pi_intent input, pe_softTarget = rb_softTarget limits,
        pe_hardCap = rb_hardCap limits, pe_spent = spent,
        pe_state = (if or_eligible overcharge then State_overcharge_eligible else State_base baseState),
        pe_baseState = baseState, pe_spend = spend, pe_overcharge = overcharge,
        pe_telemetry = \<lparr>pt_peerIsMachineIntelligence = pp_isMachineIntelligence peer,
          pt_relationshipType = pp_relationshipType peer, pt_trustLevel = pp_trustLevel peer,
          pt_channelId = (if pc_channelId channel = Some [] then None else pc_channelId channel),
          pt_channelType = pc_type channel, pt_humanParticipantCount = pc_humanParticipantCount channel,
          pt_machineIntelligenceParticipantCount = pc_machineIntelligenceParticipantCount channel,
          pt_recentMessageCount = pc_recentMessageCount channel,
          pt_recentHumanMessageCount = pc_recentHumanMessageCount channel\<rparr>\<rparr>)))))))"

section \<open>What the policy promises\<close>

text \<open>
  What the owner-file loader (\<^verbatim>\<open>src/src/system/config/charge-policy-config.ts\<close>) enforces of a policy.
\<close>

definition count_ok :: "real \<Rightarrow> bool" where
  "count_ok x \<longleftrightarrow> is_whole x \<and> 0 \<le> x"

definition policy_config_ok :: "fatigue_policy_config \<Rightarrow> bool" where
  "policy_config_ok config \<longleftrightarrow>
     (\<forall>c. count_ok (rb_softTarget (fp_relationshipBudgets config c)) \<and> count_ok (rb_hardCap (fp_relationshipBudgets config c))
        \<and> rb_softTarget (fp_relationshipBudgets config c) \<le> rb_hardCap (fp_relationshipBudgets config c))
     \<and> (\<forall>c. count_ok (cl_maxSoftTarget (fp_channelSettingLimits config c))
        \<and> count_ok (cl_maxHardCap (fp_channelSettingLimits config c))
        \<and> cl_maxSoftTarget (fp_channelSettingLimits config c) \<le> cl_maxHardCap (fp_channelSettingLimits config c))
     \<and> (\<forall>i. 0 \<le> im_softTargetMultiplier (fp_intentMultipliers config i)
        \<and> im_softTargetMultiplier (fp_intentMultipliers config i) \<le> im_hardCapMultiplier (fp_intentMultipliers config i))
     \<and> count_ok (th_nearingLimitRemainingResponses (fp_stateThresholds config))
     \<and> count_ok (th_wrapUpRemainingResponses (fp_stateThresholds config))
     \<and> count_ok (oc_reserveResponses (fp_overcharge config)) \<and> 1 \<le> oc_reserveResponses (fp_overcharge config)
     \<and> count_ok (sr_marginalChargeUnits (fp_socialRegulation config)) \<and> 1 \<le> sr_marginalChargeUnits (fp_socialRegulation config)"

lemma count_okE:
  assumes "count_ok x"
  obtains n :: nat where "x = of_nat n"
proof -
  have x: "of_int \<lfloor>x\<rfloor> = x" "0 \<le> x" using assms by (simp_all only: count_ok_def is_whole_def)
  then have "0 \<le> \<lfloor>x\<rfloor>" by simp
  then have "real (nat \<lfloor>x\<rfloor>) = of_int \<lfloor>x\<rfloor>" by simp
  then have "x = of_nat (nat \<lfloor>x\<rfloor>)" using x(1) by metis
  then show thesis by (rule that)
qed

lemma count_ok_simps [simp]:
  "count_ok (of_nat n)" "count_ok 0" "count_ok 1" "count_ok (numeral k)"
  by (simp_all add: count_ok_def is_whole_def)

lemma count_ok_ceiling: "0 \<le> x \<Longrightarrow> count_ok (of_int \<lceil>x\<rceil>)"
  by (simp add: count_ok_def)

lemma count_ok_nonneg: "count_ok x \<Longrightarrow> 0 \<le> x"
  by (simp add: count_ok_def)

lemma count_ok_minmax: "count_ok x \<Longrightarrow> count_ok y \<Longrightarrow> count_ok (min x y)" "count_ok x \<Longrightarrow> count_ok y \<Longrightarrow> count_ok (max x y)"
  by (auto simp: min_def max_def)

lemma computeLimits_ok:
  assumes "policy_config_ok config" "l = computeLimits config rc ch intent"
  shows "count_ok (rb_softTarget l)" "count_ok (rb_hardCap l)" "rb_softTarget l \<le> rb_hardCap l"
    "rb_softTarget l \<le> cl_maxSoftTarget (fp_channelSettingLimits config ch)"
    "rb_hardCap l \<le> cl_maxHardCap (fp_channelSettingLimits config ch)"
proof -
  let ?r = "fp_relationshipBudgets config rc" and ?c = "fp_channelSettingLimits config ch"
  let ?i = "fp_intentMultipliers config intent"
  have c: "count_ok (rb_softTarget ?r)" "count_ok (rb_hardCap ?r)" "count_ok (cl_maxSoftTarget ?c)"
    "count_ok (cl_maxHardCap ?c)" "cl_maxSoftTarget ?c \<le> cl_maxHardCap ?c"
    "0 \<le> im_softTargetMultiplier ?i" "im_softTargetMultiplier ?i \<le> im_hardCapMultiplier ?i"
    using assms(1) by (simp_all add: policy_config_ok_def)
  have raw: "count_ok (of_int \<lceil>rb_softTarget ?r * im_softTargetMultiplier ?i\<rceil>)"
    "count_ok (of_int \<lceil>rb_hardCap ?r * im_hardCapMultiplier ?i\<rceil>)"
    using c(1,2,6) order_trans [OF c(6,7)]
    by (auto intro!: count_ok_ceiling mult_nonneg_nonneg dest: count_ok_nonneg)
  show "count_ok (rb_softTarget l)" "count_ok (rb_hardCap l)" "rb_softTarget l \<le> rb_hardCap l"
    "rb_softTarget l \<le> cl_maxSoftTarget ?c" "rb_hardCap l \<le> cl_maxHardCap ?c"
    using c raw by (simp_all add: assms(2) computeLimits_def Let_def count_ok_minmax)
qed

fun severity :: "fatigue_base_state \<Rightarrow> nat" where
  "severity Base_normal = 0"
| "severity Base_nearing_limit = 1"
| "severity Base_soft_exhausted = 2"
| "severity Base_wrap_up_allowed = 3"
| "severity Base_hard_exhausted = 4"

lemma computeBaseState_mono:
  "spent \<le> spent' \<Longrightarrow> severity (computeBaseState spent soft hard config b) \<le> severity (computeBaseState spent' soft hard config b)"
  by (auto simp: computeBaseState_def)

lemma computeBaseState_hard:
  "computeBaseState spent soft hard config b = Base_hard_exhausted \<longleftrightarrow> b \<and> hard \<le> spent"
  by (simp add: computeBaseState_def)

lemma assertPolicyCount_Inr [guard_simps]:
  "assertPolicyCount v f = Inr r \<longleftrightarrow> isFinite v \<and> count_ok (numval v) \<and> r = numval v"
  by (cases v) (auto simp: assertPolicyCount_def count_ok_def)

lemma evaluateFatiguePolicy_Inr:
  assumes "evaluateFatiguePolicy input = Inr e"
  shows "pe_spent e = numval (pi_spent input)" "count_ok (pe_spent e)"
    "pe_relationshipClass e = resolveFatigueRelationshipClass (pi_peer input)"
    "\<lparr>rb_softTarget = pe_softTarget e, rb_hardCap = pe_hardCap e\<rparr> = computeLimits (pi_config input)
        (pe_relationshipClass e) (pe_channelSetting e) (pi_intent input)"
    "pe_channelSetting e = resolveFatigueChannelSetting (pi_channel input) (pi_config input)"
    "pe_intent e = pi_intent input"
    "pe_spend e = computeSpend input"
    "pe_baseState e = computeBaseState (pe_spent e) (pe_softTarget e) (pe_hardCap e) (pi_config input)
        (pp_isMachineIntelligence (pi_peer input))"
    "pe_overcharge e = computeOvercharge (pi_config input) (pp_isMachineIntelligence (pi_peer input)) (computeSpend input)
        (pi_recentHumanParticipation input) (pe_baseState e) (pi_intent input) (pi_explicitPeerInvitation input)"
    "pe_state e = (if or_eligible (pe_overcharge e) then State_overcharge_eligible else State_base (pe_baseState e))"
    "pe_peerContactId e = pp_contactId (pi_peer input)"
  using assms
  by (clarsimp simp: evaluateFatiguePolicy_def Let_def rbind_eq_Inr assertPolicyCount_Inr)+

lemma computeOvercharge_eligible:
  "or_eligible (computeOvercharge config mi (computeSpend input) human base intent invited) \<longleftrightarrow>
     oc_enabled (fp_overcharge config) \<and> mi \<and> sp_spendsFatigue (computeSpend input) \<and> base = Base_hard_exhausted
     \<and> (or_reasons (computeOvercharge config mi (computeSpend input) human base intent invited) \<noteq> [])"
  by (auto simp: computeOvercharge_def Let_def resolveFatigueOverchargeDeterministicBlockedReasons_def split: option.splits)

text \<open>
  Under every policy the loader accepts, evaluating the same turn with more replies spent leaves
  the soft target and the hard cap of the relationship, channel and intent as they are, both whole
  numbers with the soft target within the hard cap and both within the limits of the channel, and
  the state never becomes less exhausted; the allowance is hard-exhausted exactly when the peer is a
  machine and the cap is reached.
\<close>

theorem fatigue_policy_monotone:
  assumes "policy_config_ok (pi_config input)" "numval a \<le> numval b"
    and "evaluateFatiguePolicy (input\<lparr>pi_spent := a\<rparr>) = Inr e"
    and "evaluateFatiguePolicy (input\<lparr>pi_spent := b\<rparr>) = Inr e'"
  shows "pe_softTarget e' = pe_softTarget e \<and> pe_hardCap e' = pe_hardCap e
    \<and> count_ok (pe_softTarget e) \<and> count_ok (pe_hardCap e) \<and> pe_softTarget e \<le> pe_hardCap e
    \<and> pe_softTarget e \<le> cl_maxSoftTarget (fp_channelSettingLimits (pi_config input) (pe_channelSetting e))
    \<and> pe_hardCap e \<le> cl_maxHardCap (fp_channelSettingLimits (pi_config input) (pe_channelSetting e))
    \<and> severity (pe_baseState e) \<le> severity (pe_baseState e')
    \<and> (pe_baseState e = Base_hard_exhausted \<longleftrightarrow>
         pp_isMachineIntelligence (pi_peer input) \<and> pe_hardCap e \<le> numval a)"
proof -
  note e = evaluateFatiguePolicy_Inr [OF assms(3), simplified]
  note e' = evaluateFatiguePolicy_Inr [OF assms(4), simplified]
  have lim: "\<lparr>rb_softTarget = pe_softTarget e', rb_hardCap = pe_hardCap e'\<rparr> =
      \<lparr>rb_softTarget = pe_softTarget e, rb_hardCap = pe_hardCap e\<rparr>"
    by (simp only: e(3-5) e'(3-5))
  note ok = computeLimits_ok [OF assms(1) e(4), simplified]
  show ?thesis using lim ok computeBaseState_mono [OF assms(2)] by (simp add: e(1,8) e'(1,8) computeBaseState_hard)
qed

definition demo_policy :: fatigue_policy_config where
  "demo_policy = \<lparr>fp_relationshipBudgets = (\<lambda>_. \<lparr>rb_softTarget = 3, rb_hardCap = 5\<rparr>),
     fp_channelSettingLimits = (\<lambda>_. \<lparr>cl_maxSoftTarget = 4, cl_maxHardCap = 6\<rparr>),
     fp_intentMultipliers = (\<lambda>_. \<lparr>im_softTargetMultiplier = 1, im_hardCapMultiplier = 1\<rparr>),
     fp_activityThresholds = \<lparr>at_busyRecentMessageCount = 20, at_busyHumanParticipantCount = 3, at_quietRecentMessageCount = 4\<rparr>,
     fp_stateThresholds = \<lparr>th_nearingLimitRemainingResponses = 1, th_wrapUpRemainingResponses = 1\<rparr>,
     fp_overcharge = \<lparr>oc_enabled = True, oc_reserveResponses = 1, oc_recentHumanParticipationWindowMs = 1000,
       oc_minRecentHumanMessages = 1, oc_minRecentHumanParticipants = 1\<rparr>,
     fp_socialRegulation = \<lparr>sr_relationshipPressureHalfLifeMs = 1000, sr_relationshipPressureWindowMs = 5000,
       sr_conversationMaturingRatio = 1/2, sr_marginalChargeUnits = 1,
       sr_continuationEvidence = \<lparr>ep_recentHumanParticipation = True, ep_activeWorkOrResearch = True,
         ep_explicitPeerInvitation = True\<rparr>\<rparr>\<rparr>"

lemma demo_policy_ok: "policy_config_ok demo_policy"
  by (simp add: policy_config_ok_def demo_policy_def)

definition demo_policy_input :: policy_input where
  "demo_policy_input = \<lparr>pi_config = demo_policy,
     pi_peer = \<lparr>pp_contactId = ''peer'', pp_isMachineIntelligence = True, pp_relationshipType = Rel_friend, pp_trustLevel = Trust_regular\<rparr>,
     pi_channel = \<lparr>pc_channelId = Some ''room'', pc_type = Policy_group, pc_setting = None, pc_companionFocused = False,
       pc_companionHosted = False, pc_humanParticipantCount = Fin 1, pc_machineIntelligenceParticipantCount = Fin 1,
       pc_recentMessageCount = Fin 1, pc_recentHumanMessageCount = Fin 0\<rparr>,
     pi_recentHumanParticipation = \<lparr>hp_messageCount = Fin 0, hp_participantCount = Fin 1, hp_latestMessageAgeMs = None\<rparr>,
     pi_intent = Intent_casual, pi_spent = Fin 0, pi_triggerAuthorKind = Machine_intelligence, pi_explicitPeerInvitation = False\<rparr>"

theorem fatigue_policy_monotone_witness:
  "\<exists>e e'. evaluateFatiguePolicy (demo_policy_input\<lparr>pi_spent := Fin 2\<rparr>) = Inr e
     \<and> evaluateFatiguePolicy (demo_policy_input\<lparr>pi_spent := Fin 5\<rparr>) = Inr e'
     \<and> pe_hardCap e = 5 \<and> severity (pe_baseState e) \<le> severity (pe_baseState e')"
proof -
  have "\<not> isl (evaluateFatiguePolicy (demo_policy_input\<lparr>pi_spent := Fin 2\<rparr>))"
    "\<not> isl (evaluateFatiguePolicy (demo_policy_input\<lparr>pi_spent := Fin 5\<rparr>))"
    "pe_hardCap (projr (evaluateFatiguePolicy (demo_policy_input\<lparr>pi_spent := Fin 2\<rparr>))) = 5" by code_simp+
  then obtain e e' where e: "evaluateFatiguePolicy (demo_policy_input\<lparr>pi_spent := Fin 2\<rparr>) = Inr e"
    "evaluateFatiguePolicy (demo_policy_input\<lparr>pi_spent := Fin 5\<rparr>) = Inr e'" "pe_hardCap e = 5"
    by (metis sum.collapse(2) sum.sel(2))
  have c: "policy_config_ok (pi_config demo_policy_input)" "numval (Fin 2) \<le> numval (Fin 5)"
    using demo_policy_ok by (simp_all add: demo_policy_input_def)
  show ?thesis using fatigue_policy_monotone [OF c e(1,2)] e by blast
qed

end
