(* ===== verification/Fatigue_Budget.thy ===== *)
theory Fatigue_Budget
  imports Fatigue_Ledger
begin

text \<open>
  The deterministic fatigue budget (\<^verbatim>\<open>src/src/core/agent/fatigue/fatigue-budget.ts\<close>): what a
  companion has spent on a peer, read from the durable history, and the one event a turn records.
  The history is a record of calls over a state type; the ledger provides it.
\<close>

section \<open>Day keys\<close>

text \<open>
  The first ten characters of the ISO form of an instant: the civil date of a day number counted
  from 1970-01-01, with years beyond four digits printed with a sign and six digits.
\<close>

definition digits :: "nat \<Rightarrow> nat \<Rightarrow> string" where
  "digits k n = map (\<lambda>i. ''0123456789'' ! (n div 10 ^ i mod 10)) (rev [0..<k])"

definition civil_from_days :: "int \<Rightarrow> int \<times> int \<times> int" where
  "civil_from_days day =
     (let z = day + 719468; era = z div 146097; doe = z mod 146097;
          yoe = (doe - doe div 1460 + doe div 36524 - doe div 146096) div 365;
          doy = doe - (365 * yoe + yoe div 4 - yoe div 100);
          mp = (5 * doy + 2) div 153;
          d = doy - (153 * mp + 2) div 5 + 1;
          m = (if mp < 10 then mp + 3 else mp - 9)
      in (yoe + era * 400 + (if m \<le> 2 then 1 else 0), m, d))"

definition iso_date :: "int \<Rightarrow> string" where
  "iso_date day =
     (case civil_from_days day of (y, m, d) \<Rightarrow>
        (if 0 \<le> y \<and> y \<le> 9999 then digits 4 (nat y)
         else (if y < 0 then CHR ''-'' else CHR ''+'') # digits 6 (nat \<bar>y\<bar>))
        @ ''-'' @ digits 2 (nat m) @ ''-'' @ digits 2 (nat d))"

definition makeFatigueDayKey :: "jsnum \<Rightarrow> string result" where
  "makeFatigueDayKey timestampMs =
     (if \<not> isFinite timestampMs then Inl (Error ''Fatigue day key requires a finite timestamp'')
      else if \<bar>numval timestampMs\<bar> > 8640000000000000 then Inl (Error ''Invalid time value'')
      else let t = (if 0 \<le> numval timestampMs then \<lfloor>numval timestampMs\<rfloor> else \<lceil>numval timestampMs\<rceil>) in
           Inr (take 10 (iso_date (t div 86400000))))"

section \<open>Data\<close>

record budget_scope =
  bs_localCompanionId :: string
  bs_peerContactId :: string
  bs_channelId :: string
  bs_dayKey :: string

record budget_limits =
  bl_softLimit :: jsnum
  bl_hardLimit :: jsnum
  bl_overchargeLimit :: "jsnum option"

record normal_limits =
  nl_softLimit :: real
  nl_hardLimit :: real
  nl_overchargeLimit :: real

record regulation_input =
  ri_rootInitiationId :: string
  ri_timestampMs :: jsnum
  ri_relationshipPressureHalfLifeMs :: jsnum
  ri_relationshipPressureWindowMs :: jsnum

record budget_regulation =
  br_rootInitiationId :: string
  br_relationshipPressure :: real
  br_rootNormalSpent :: real
  br_rootOverchargeSpent :: real
  br_contributingEventCount :: nat
  br_oldestContributingEventAtMs :: "real option"
  br_latestContributingEventAtMs :: "real option"

record budget_state =
  bst_scope :: budget_scope
  bst_spent :: real
  bst_normalSpent :: real
  bst_overchargeSpent :: real
  bst_remainingAllowance :: real
  bst_allowance :: real
  bst_softLimit :: real
  bst_overchargeAllowance :: real
  bst_remainingOvercharge :: real
  bst_softState :: soft_state
  bst_hardState :: hard_state
  bst_regulation :: "budget_regulation option"
  bst_lastEvent :: "fatigue_event option"

record read_state_input =
  rs_localCompanionId :: string
  rs_peerContactId :: string
  rs_channelId :: string
  rs_dayKey :: "string option"
  rs_limits :: budget_limits
  rs_regulation :: "regulation_input option"

record evaluation_input =
  ei_localCompanionId :: string
  ei_channelId :: string
  ei_peer :: peer_snapshot
  ei_triggeringAuthor :: actor_snapshot
  ei_limits :: budget_limits
  ei_timestampMs :: "jsnum option"
  ei_correlation :: "correlation option"
  ei_regulation :: "regulation_input option"

record budget_evaluation =
  ev_scope :: budget_scope
  ev_timestampMs :: jsnum
  ev_dayKey :: string
  ev_decision :: budget_decision
  ev_reason :: budget_reason
  ev_amount :: real
  ev_stateBefore :: budget_state
  ev_stateAfter :: budget_state
  ev_triggeringAuthor :: actor_snapshot
  ev_peer :: peer_snapshot
  ev_correlation :: "correlation option"
  ev_regulation :: "regulation_input option"

record pending_spend =
  ps_timestampMs :: jsnum
  ps_decision :: budget_decision
  ps_reason :: budget_reason
  ps_amount :: jsnum
  ps_scope :: budget_scope
  ps_peer :: peer_snapshot
  ps_triggeringAuthor :: actor_snapshot
  ps_softLimit :: jsnum
  ps_hardLimit :: jsnum
  ps_overchargeLimit :: jsnum
  ps_correlation :: correlation

record 'h fatigue_history =
  fh_list :: "ledger_query \<Rightarrow> 'h \<Rightarrow> fatigue_event list"
  fh_record :: "fatigue_event \<Rightarrow> ('h, unit) io"

section \<open>Normalization\<close>

definition normalizeRequiredString :: "string \<Rightarrow> string \<Rightarrow> string result" where
  "normalizeRequiredString value label =
     (let trimmed = js_trim value in
      throwIf (trimmed = []) (''Fatigue budget '' @ label @ '' is required'') (Inr trimmed))"

definition normalizeLimit :: "jsnum \<Rightarrow> string \<Rightarrow> real result" where
  "normalizeLimit value label =
     (if \<not> isFinite value \<or> numval value < 0
      then Inl (Error (''Fatigue budget '' @ label @ '' must be a non-negative number''))
      else Inr (of_int \<lfloor>numval value\<rfloor>))"

definition normalizeLimits :: "budget_limits \<Rightarrow> normal_limits result" where
  "normalizeLimits limits =
     rbind (normalizeLimit (bl_softLimit limits) ''softLimit'') (\<lambda>softLimit.
     rbind (normalizeLimit (bl_hardLimit limits) ''hardLimit'') (\<lambda>hardLimit.
     rbind (normalizeLimit (case bl_overchargeLimit limits of None \<Rightarrow> Fin 0 | Some v \<Rightarrow> v) ''overchargeLimit'') (\<lambda>overchargeLimit.
     throwIf (softLimit > hardLimit) ''Fatigue budget softLimit must be less than or equal to hardLimit'' (
     Inr \<lparr>nl_softLimit = softLimit, nl_hardLimit = hardLimit, nl_overchargeLimit = overchargeLimit\<rparr>))))"

definition as_limits :: "normal_limits \<Rightarrow> budget_limits" where
  "as_limits l = \<lparr>bl_softLimit = Fin (nl_softLimit l), bl_hardLimit = Fin (nl_hardLimit l),
     bl_overchargeLimit = Some (Fin (nl_overchargeLimit l))\<rparr>"

text \<open>An optional string kept when it is not blank, trimmed.\<close>

definition kept :: "string option \<Rightarrow> string option" where
  "kept s = (case s of None \<Rightarrow> None | Some v \<Rightarrow> if js_trim v = [] then None else Some (js_trim v))"

definition cloneActor :: "actor_snapshot \<Rightarrow> actor_snapshot" where
  "cloneActor actor =
     \<lparr>actor_role = actor_role actor, actor_contactId = kept (actor_contactId actor),
      actor_channelAuthorId = kept (actor_channelAuthorId actor), actor_displayName = kept (actor_displayName actor),
      actor_isMachineIntelligence = actor_isMachineIntelligence actor\<rparr>"

definition clonePeer :: "peer_snapshot \<Rightarrow> peer_snapshot result" where
  "clonePeer peer =
     rbind (normalizeRequiredString (peer_contactId peer) ''peerContactId'') (\<lambda>contactId.
     Inr \<lparr>peer_contactId = contactId, peer_displayName = kept (peer_displayName peer),
          peer_channelAuthorId = kept (peer_channelAuthorId peer),
          peer_isMachineIntelligence = peer_isMachineIntelligence peer\<rparr>)"

definition normalizeRegulation :: "regulation_input \<Rightarrow> regulation_input result" where
  "normalizeRegulation value =
     rbind (normalizeRequiredString (ri_rootInitiationId value) ''rootInitiationId'') (\<lambda>root.
     throwIf (\<not> isSafeInteger (ri_timestampMs value) \<or> numval (ri_timestampMs value) < 0)
       ''Fatigue budget regulation timestampMs must be a non-negative safe integer'' (
     throwIf (\<not> isSafeInteger (ri_relationshipPressureHalfLifeMs value) \<or> numval (ri_relationshipPressureHalfLifeMs value) < 1)
       ''Fatigue budget regulation relationshipPressureHalfLifeMs must be a positive safe integer'' (
     throwIf (\<not> isSafeInteger (ri_relationshipPressureWindowMs value)
         \<or> numval (ri_relationshipPressureWindowMs value) < numval (ri_relationshipPressureHalfLifeMs value))
       ''Fatigue budget regulation relationshipPressureWindowMs must be at least one half-life'' (
     Inr (value\<lparr>ri_rootInitiationId := root\<rparr>)))))"

section \<open>States\<close>

definition createState ::
  "budget_scope \<Rightarrow> real \<Rightarrow> real \<Rightarrow> normal_limits \<Rightarrow> budget_regulation option \<Rightarrow> fatigue_event option \<Rightarrow> budget_state" where
  "createState scope normalSpent overchargeSpent limits regulation lastEvent =
     (let allowance = nl_hardLimit limits; overchargeAllowance = nl_overchargeLimit limits in
      \<lparr>bst_scope = scope, bst_spent = normalSpent + overchargeSpent, bst_normalSpent = normalSpent,
       bst_overchargeSpent = overchargeSpent, bst_remainingAllowance = max 0 (allowance - normalSpent),
       bst_allowance = allowance, bst_softLimit = nl_softLimit limits, bst_overchargeAllowance = overchargeAllowance,
       bst_remainingOvercharge = max 0 (overchargeAllowance - overchargeSpent),
       bst_softState = (if normalSpent \<ge> nl_softLimit limits then Soft_limit_reached else Soft_clear),
       bst_hardState = (if normalSpent \<ge> allowance then Hard_exhausted else Hard_available),
       bst_regulation = regulation, bst_lastEvent = lastEvent\<rparr>)"

definition total_amount :: "budget_decision \<Rightarrow> fatigue_event list \<Rightarrow> real" where
  "total_amount d events = sum_list (map fe_amount (filter (\<lambda>e. fe_decision e = d) events))"

definition resolveRegulatedState ::
  "fatigue_event list \<Rightarrow> regulation_input \<Rightarrow> real \<times> real \<times> budget_regulation \<times> fatigue_event option" where
  "resolveRegulatedState events regulation =
     (let rootEvents = filter (\<lambda>e. corr_rootInitiationId (fe_correlation e) = Some (ri_rootInitiationId regulation)) events;
          chargedEvents = filter (\<lambda>e. fe_decision e = Decision_charged) events;
          relationshipPressure = sum_list (map (\<lambda>e.
            fe_amount e * 2 powr (- max 0 (numval (ri_timestampMs regulation) - fe_timestampMs e)
                                    / numval (ri_relationshipPressureHalfLifeMs regulation))) chargedEvents);
          rootNormalSpent = total_amount Decision_charged rootEvents;
          rootOverchargeSpent = total_amount Decision_overcharge rootEvents;
          sorted = sort_key fe_timestampMs events;
          oldest = (if sorted = [] then None else Some (hd sorted));
          latest = (if sorted = [] then None else Some (last sorted))
      in (max rootNormalSpent (of_int \<lceil>relationshipPressure\<rceil>), rootOverchargeSpent,
          \<lparr>br_rootInitiationId = ri_rootInitiationId regulation, br_relationshipPressure = relationshipPressure,
           br_rootNormalSpent = rootNormalSpent, br_rootOverchargeSpent = rootOverchargeSpent,
           br_contributingEventCount = length events,
           br_oldestContributingEventAtMs = map_option fe_timestampMs oldest,
           br_latestContributingEventAtMs = map_option fe_timestampMs latest\<rparr>, latest))"

definition readState :: "'h fatigue_history \<Rightarrow> jsnum \<Rightarrow> read_state_input \<Rightarrow> 'h \<Rightarrow> budget_state result" where
  "readState port now input h =
     rbind (normalizeLimits (rs_limits input)) (\<lambda>limits.
     rbind (normalizeRequiredString (rs_localCompanionId input) ''localCompanionId'') (\<lambda>localCompanionId.
     rbind (normalizeRequiredString (rs_peerContactId input) ''peerContactId'') (\<lambda>peerContactId.
     rbind (normalizeRequiredString (rs_channelId input) ''channelId'') (\<lambda>channelId.
     rbind (case kept (rs_dayKey input) of Some key \<Rightarrow> Inr key | None \<Rightarrow> makeFatigueDayKey now) (\<lambda>dayKey.
     let scope = \<lparr>bs_localCompanionId = localCompanionId, bs_peerContactId = peerContactId,
                  bs_channelId = channelId, bs_dayKey = dayKey\<rparr> in
     case rs_regulation input of
       Some regulation0 \<Rightarrow>
         rbind (normalizeRegulation regulation0) (\<lambda>regulation.
         let events = fh_list port (any_query\<lparr>lq_localCompanionId := Some localCompanionId,
               lq_peerContactId := Some peerContactId,
               lq_sinceMs := Some (max 0 (numval (ri_timestampMs regulation)
                                          - numval (ri_relationshipPressureWindowMs regulation))),
               lq_untilMs := Some (numval (ri_timestampMs regulation))\<rparr>) h
         in case resolveRegulatedState events regulation of (normalSpent, overchargeSpent, reg, lastEvent) \<Rightarrow>
              Inr (createState scope normalSpent overchargeSpent limits (Some reg) lastEvent))
     | None \<Rightarrow>
         let events = fh_list port (any_query\<lparr>lq_localCompanionId := Some localCompanionId,
               lq_peerContactId := Some peerContactId, lq_channelId := Some channelId, lq_dayKey := Some dayKey\<rparr>) h;
             sorted = sort_key (\<lambda>e. - fe_timestampMs e) events
         in Inr (createState scope (total_amount Decision_charged events) (total_amount Decision_overcharge events)
                  limits None (if sorted = [] then None else Some (hd sorted))))))))"

section \<open>Evaluation\<close>

definition resolveFatigueSpendUnit ::
  "peer_snapshot \<Rightarrow> actor_snapshot \<Rightarrow> budget_decision \<times> budget_reason \<times> real" where
  "resolveFatigueSpendUnit peer triggeringAuthor =
     (if \<not> peer_isMachineIntelligence peer then (Decision_free, Reason_peer_not_machine_intelligence, 0)
      else if \<not> actor_isMachineIntelligence triggeringAuthor
        then (Decision_free, Reason_author_not_machine_intelligence, 0)
      else (Decision_charged, Reason_machine_intelligence_response, 1))"

definition limits_of :: "budget_state \<Rightarrow> normal_limits" where
  "limits_of st = \<lparr>nl_softLimit = bst_softLimit st, nl_hardLimit = bst_allowance st,
     nl_overchargeLimit = bst_overchargeAllowance st\<rparr>"

definition evaluateBudget ::
  "'h fatigue_history \<Rightarrow> jsnum \<Rightarrow> evaluation_input \<Rightarrow> 'h \<Rightarrow> budget_evaluation result" where
  "evaluateBudget port now input h =
     (let timestampMs = (case ei_timestampMs input of Some t \<Rightarrow> t | None \<Rightarrow> now) in
     rbind (clonePeer (ei_peer input)) (\<lambda>peer.
     let triggeringAuthor = cloneActor (ei_triggeringAuthor input) in
     rbind (makeFatigueDayKey timestampMs) (\<lambda>dayKey.
     rbind (normalizeLimits (ei_limits input)) (\<lambda>limits.
     rbind (readState port now \<lparr>rs_localCompanionId = ei_localCompanionId input, rs_peerContactId = peer_contactId peer,
              rs_channelId = ei_channelId input, rs_dayKey = Some dayKey, rs_limits = as_limits limits,
              rs_regulation = ei_regulation input\<rparr> h) (\<lambda>stateBefore.
     case resolveFatigueSpendUnit peer triggeringAuthor of (decision, reason, amount) \<Rightarrow>
     let stateAfter = createState (bst_scope stateBefore) (bst_normalSpent stateBefore + amount)
           (bst_overchargeSpent stateBefore) limits (bst_regulation stateBefore) (bst_lastEvent stateBefore)
     in rbind (case ei_regulation input of None \<Rightarrow> Inr None
               | Some r \<Rightarrow> rbind (normalizeRegulation r) (\<lambda>r'. Inr (Some r'))) (\<lambda>regulation.
     Inr \<lparr>ev_scope = bst_scope stateBefore, ev_timestampMs = timestampMs, ev_dayKey = dayKey, ev_decision = decision,
          ev_reason = reason, ev_amount = amount, ev_stateBefore = stateBefore, ev_stateAfter = stateAfter,
          ev_triggeringAuthor = triggeringAuthor, ev_peer = peer, ev_correlation = ei_correlation input,
          ev_regulation = regulation\<rparr>))))))"

definition spend_if :: "budget_decision \<Rightarrow> budget_decision \<Rightarrow> real \<Rightarrow> real" where
  "spend_if d decision amount = (if decision = d then amount else 0)"

definition createOverchargeFatigueEvaluation :: "budget_evaluation \<Rightarrow> overcharge_reason \<Rightarrow> budget_evaluation" where
  "createOverchargeFatigueEvaluation evaluation reason =
     (let amount = (if ev_amount evaluation > 0 then ev_amount evaluation else 0); before = ev_stateBefore evaluation in
      evaluation\<lparr>ev_decision := Decision_overcharge, ev_reason := Reason_overcharge reason,
        ev_stateAfter := createState (bst_scope before) (bst_normalSpent before) (bst_overchargeSpent before + amount)
          (limits_of before) (bst_regulation before) (bst_lastEvent before)\<rparr>)"

definition rebaseFatigueEvaluation ::
  "budget_evaluation \<Rightarrow> budget_decision \<Rightarrow> budget_reason \<Rightarrow> real \<Rightarrow> real \<Rightarrow> real \<Rightarrow> real \<Rightarrow> real \<Rightarrow> nat \<Rightarrow> budget_evaluation" where
  "rebaseFatigueEvaluation evaluation decision reason normalSpentBefore overchargeSpentBefore relationshipPressure
     rootNormalSpent rootOverchargeSpent contributingEventCount =
     (let limits = limits_of (ev_stateBefore evaluation);
          regulation = map_option (\<lambda>r. r\<lparr>br_relationshipPressure := relationshipPressure,
            br_rootNormalSpent := rootNormalSpent, br_rootOverchargeSpent := rootOverchargeSpent,
            br_contributingEventCount := contributingEventCount\<rparr>) (bst_regulation (ev_stateBefore evaluation));
          lastEvent = bst_lastEvent (ev_stateBefore evaluation)
      in evaluation\<lparr>ev_decision := decision, ev_reason := reason,
           ev_stateBefore := createState (ev_scope evaluation) normalSpentBefore overchargeSpentBefore limits regulation lastEvent,
           ev_stateAfter := createState (ev_scope evaluation)
             (normalSpentBefore + spend_if Decision_charged decision (ev_amount evaluation))
             (overchargeSpentBefore + spend_if Decision_overcharge decision (ev_amount evaluation))
             limits regulation lastEvent\<rparr>)"

section \<open>Recording\<close>

definition sanitizeCorrelation :: "correlation option \<Rightarrow> correlation option \<Rightarrow> correlation" where
  "sanitizeCorrelation own given =
     (let over = (\<lambda>f. case given of Some c \<Rightarrow> (case f c of Some v \<Rightarrow> Some v | None \<Rightarrow> Option.bind own f) | None \<Rightarrow> Option.bind own f)
      in \<lparr>corr_turnId = over corr_turnId, corr_channelId = None, corr_rootInitiationId = over corr_rootInitiationId\<rparr>)"

definition recordFinalDecision ::
  "'h fatigue_history \<Rightarrow> jsnum \<Rightarrow> budget_evaluation \<Rightarrow> correlation option \<Rightarrow> ('h, fatigue_event) io" where
  "recordFinalDecision port now evaluation given h =
     (let correlation = sanitizeCorrelation (ev_correlation evaluation) given; scope = ev_scope evaluation;
          q = any_query\<lparr>lq_localCompanionId := Some (bs_localCompanionId scope),
                lq_peerContactId := Some (bs_peerContactId scope)\<rparr>;
          q' = (case ev_regulation evaluation of Some _ \<Rightarrow> q
                | None \<Rightarrow> q\<lparr>lq_channelId := Some (bs_channelId scope), lq_dayKey := Some (bs_dayKey scope)\<rparr>);
          existing = (case corr_turnId correlation of
              None \<Rightarrow> None
            | Some turnId \<Rightarrow> if turnId = [] then None
                else find (\<lambda>e. corr_turnId (fe_correlation e) = Some turnId) (fh_list port q' h))
      in case existing of
           Some event \<Rightarrow>
             if fe_decision event \<noteq> ev_decision evaluation \<or> fe_reason event \<noteq> ev_reason evaluation
                \<or> fe_amount event \<noteq> ev_amount evaluation
             then (Inl (Error (''Fatigue spend replay mismatch for turn '' @ the (corr_turnId correlation))), h)
             else (Inr event, h)
         | None \<Rightarrow>
             iobind (iopure (readState port now \<lparr>rs_localCompanionId = bs_localCompanionId scope,
                 rs_peerContactId = bs_peerContactId scope, rs_channelId = bs_channelId scope,
                 rs_dayKey = Some (bs_dayKey scope), rs_limits = as_limits (limits_of (ev_stateAfter evaluation)),
                 rs_regulation = ev_regulation evaluation\<rparr> h)) (\<lambda>current.
             let after = createState (bst_scope current)
                   (bst_normalSpent current + spend_if Decision_charged (ev_decision evaluation) (ev_amount evaluation))
                   (bst_overchargeSpent current + spend_if Decision_overcharge (ev_decision evaluation) (ev_amount evaluation))
                   (limits_of (ev_stateAfter evaluation)) (bst_regulation current) (bst_lastEvent current);
                 event = \<lparr>fe_timestampMs = numval (ev_timestampMs evaluation), fe_dayKey = ev_dayKey evaluation,
                   fe_localCompanionId = bs_localCompanionId scope, fe_peerContactId = bs_peerContactId scope,
                   fe_channelId = bs_channelId scope, fe_triggeringAuthor = ev_triggeringAuthor evaluation,
                   fe_peer = ev_peer evaluation, fe_amount = ev_amount evaluation, fe_decision = ev_decision evaluation,
                   fe_reason = ev_reason evaluation, fe_spentAfter = bst_spent after,
                   fe_remainingAllowance = bst_remainingAllowance after, fe_allowance = bst_allowance after,
                   fe_softLimit = bst_softLimit after, fe_normalSpentAfter = bst_normalSpent after,
                   fe_overchargeSpentAfter = bst_overchargeSpent after,
                   fe_overchargeAllowance = bst_overchargeAllowance after,
                   fe_remainingOvercharge = bst_remainingOvercharge after, fe_softState = bst_softState after,
                   fe_hardState = bst_hardState after, fe_correlation = correlation\<rparr>
             in iobind (fh_record port event) (\<lambda>_. ioret event)) h)"

definition day_key_pattern :: "(char \<Rightarrow> bool) list" where
  "day_key_pattern = (let d = (\<lambda>c. c \<in> set ''0123456789''); dash = (\<lambda>c. c = CHR ''-'') in
     [d, d, d, d, dash, d, d, dash, d, d])"

definition matches_day_key :: "string \<Rightarrow> bool" where
  "matches_day_key s \<longleftrightarrow> list_all2 (\<lambda>p c. p c) day_key_pattern s"

definition pending_reason_ok :: "budget_decision \<Rightarrow> budget_reason \<Rightarrow> bool" where
  "pending_reason_ok decision reason \<longleftrightarrow>
     decision = Decision_charged \<and> reason = Reason_machine_intelligence_response
     \<or> decision = Decision_overcharge \<and> (\<exists>r \<in> {Overcharge_recent_human_participation, Overcharge_work_intent_wrapup,
           Overcharge_explicit_peer_invitation}. reason = Reason_overcharge r)
     \<or> decision = Decision_free \<and> (reason = Reason_peer_not_machine_intelligence
          \<or> reason = Reason_author_not_machine_intelligence)"

definition blank :: "string option \<Rightarrow> bool" where
  "blank s \<longleftrightarrow> (case s of None \<Rightarrow> False | Some v \<Rightarrow> js_trim v = [])"

definition assertPendingSpend :: "pending_spend \<Rightarrow> unit result" where
  "assertPendingSpend pending =
     (let scope = ps_scope pending; peer = ps_peer pending; author = ps_triggeringAuthor pending;
          bad = (\<lambda>label. ''Pending fatigue spend '' @ label @ '' must be a non-empty string'') in
      throwIf (\<not> isFinite (ps_timestampMs pending) \<or> numval (ps_timestampMs pending) < 0
          \<or> \<not> isFinite (ps_amount pending) \<or> numval (ps_amount pending) < 0) ''Pending fatigue spend is malformed'' (
      throwIf (js_trim (bs_localCompanionId scope) = []) (bad ''scope.localCompanionId'') (
      throwIf (js_trim (bs_peerContactId scope) = []) (bad ''scope.peerContactId'') (
      throwIf (js_trim (bs_channelId scope) = []) (bad ''scope.channelId'') (
      throwIf (js_trim (bs_dayKey scope) = []) (bad ''scope.dayKey'') (
      throwIf (\<not> matches_day_key (bs_dayKey scope)) ''Pending fatigue spend scope.dayKey does not match timestampMs'' (
      rbind (makeFatigueDayKey (ps_timestampMs pending)) (\<lambda>key.
      throwIf (bs_dayKey scope \<noteq> key) ''Pending fatigue spend scope.dayKey does not match timestampMs'' (
      throwIf (peer_contactId peer \<noteq> bs_peerContactId scope) ''Pending fatigue spend peer does not match its scope'' (
      throwIf (blank (peer_channelAuthorId peer)) (bad ''peer.channelAuthorId'') (
      throwIf (blank (peer_displayName peer)) (bad ''peer.displayName'') (
      throwIf (blank (actor_contactId author)) (bad ''triggeringAuthor.contactId'') (
      throwIf (blank (actor_channelAuthorId author)) (bad ''triggeringAuthor.channelAuthorId'') (
      throwIf (blank (actor_displayName author)) (bad ''triggeringAuthor.displayName'') (
      rbind (normalizeLimits \<lparr>bl_softLimit = ps_softLimit pending, bl_hardLimit = ps_hardLimit pending,
               bl_overchargeLimit = Some (ps_overchargeLimit pending)\<rparr>) (\<lambda>_.
      throwIf (case corr_turnId (ps_correlation pending) of None \<Rightarrow> True | Some t \<Rightarrow> js_trim t = [])
        ''Pending fatigue spend requires a stable correlation.turnId'' (
      throwIf (case corr_channelId (ps_correlation pending) of None \<Rightarrow> False | Some c \<Rightarrow> c \<noteq> bs_channelId scope)
        ''Pending fatigue spend correlation channel does not match its scope'' (
      throwIf (ps_decision pending = Decision_free \<and> numval (ps_amount pending) \<noteq> 0
          \<or> ps_decision pending \<noteq> Decision_free \<and> numval (ps_amount pending) \<le> 0)
        ''Pending fatigue spend amount does not match its decision'' (
      throwIf (\<not> pending_reason_ok (ps_decision pending) (ps_reason pending))
        ''Pending fatigue spend reason does not match its decision'' (Inr ()))))))))))))))))))))"

definition recordPendingSpend ::
  "'h fatigue_history \<Rightarrow> jsnum \<Rightarrow> pending_spend \<Rightarrow> correlation option \<Rightarrow> ('h, fatigue_event) io" where
  "recordPendingSpend port now pending given h =
     (let scope = ps_scope pending; amount = numval (ps_amount pending);
          limits = \<lparr>nl_softLimit = numval (ps_softLimit pending), nl_hardLimit = numval (ps_hardLimit pending),
                    nl_overchargeLimit = numval (ps_overchargeLimit pending)\<rparr> in
      iobind (iopure (assertPendingSpend pending)) (\<lambda>_.
      iobind (iopure (readState port now \<lparr>rs_localCompanionId = bs_localCompanionId scope,
          rs_peerContactId = bs_peerContactId scope, rs_channelId = bs_channelId scope,
          rs_dayKey = Some (bs_dayKey scope), rs_limits = as_limits limits, rs_regulation = None\<rparr> h)) (\<lambda>before.
      let after = createState (bst_scope before)
            (bst_normalSpent before + spend_if Decision_charged (ps_decision pending) amount)
            (bst_overchargeSpent before + spend_if Decision_overcharge (ps_decision pending) amount)
            limits None (bst_lastEvent before)
      in recordFinalDecision port now
           \<lparr>ev_scope = scope, ev_timestampMs = ps_timestampMs pending, ev_dayKey = bs_dayKey scope,
            ev_decision = ps_decision pending, ev_reason = ps_reason pending, ev_amount = amount,
            ev_stateBefore = before, ev_stateAfter = after, ev_triggeringAuthor = ps_triggeringAuthor pending,
            ev_peer = ps_peer pending, ev_correlation = Some (ps_correlation pending), ev_regulation = None\<rparr> given)) h)"

section \<open>The ledger as history\<close>

definition ledger_history :: "string \<Rightarrow> real \<Rightarrow> fatigue_ledger fatigue_history" where
  "ledger_history eventId now =
     \<lparr>fh_list = listFatigueEvents, fh_record = (\<lambda>event L. (Inr (), recordFatigueEvent eventId now event L))\<rparr>"

end
