(* ===== verification/Fatigue_Spend.thy ===== *)
theory Fatigue_Spend
  imports Fatigue_Budget
begin

text \<open>
  What recording a turn does to the history: the spend of a turn is recorded once, it is counted
  in its own scope and in no other, and the row it leaves is one the ledger reads back.
\<close>

section \<open>Histories\<close>

definition event_matches :: "ledger_query \<Rightarrow> fatigue_event \<Rightarrow> bool" where
  "event_matches q e \<longleftrightarrow> matchesQuery q \<lparr>le_eventId = [], le_recordedAtMs = 0, le_event = e\<rparr>"

lemma matchesQuery_event: "matchesQuery q entry = event_matches q (le_event entry)"
  by (simp add: event_matches_def matchesQuery_def)

lemma selects_Some [simp]: "s \<noteq> [] \<Longrightarrow> selects (Some s) v \<longleftrightarrow> v = s" "selects (Some v) v" "selects None v"
  by (simp_all add: selects_def)

lemma total_amount_mset:
  "total_amount d xs = sum_mset (image_mset fe_amount (filter_mset (\<lambda>e. fe_decision e = d) (mset xs)))"
  by (simp add: total_amount_def sum_mset_sum_list flip: mset_map mset_filter)

text \<open>What the budget relies on of its history: a recorded event is found by the queries it matches.\<close>

locale fatigue_history_laws =
  fixes port :: "'h fatigue_history"
  assumes recorded: "fh_record port e h = (Inr u, h') \<Longrightarrow> lq_limit q = None \<Longrightarrow>
      mset (fh_list port q h') = mset (fh_list port q h) + (if event_matches q e then {#e#} else {#})"
    and list_only: "x \<in> set (fh_list port q h) \<Longrightarrow> event_matches q x"
begin

lemma total_recorded:
  assumes "fh_record port e h = (Inr u, h')" "lq_limit q = None"
  shows "total_amount d (fh_list port q h') =
    total_amount d (fh_list port q h) + (if event_matches q e then spend_if d (fe_decision e) (fe_amount e) else 0)"
  using recorded [OF assms] by (simp add: total_amount_mset spend_if_def)

end

lemma ledger_history_simps [simp]:
  "fh_list (ledger_history i n) = listFatigueEvents"
  "fh_record (ledger_history i n) e L = (Inr (), recordFatigueEvent i n e L)"
  by (simp_all add: ledger_history_def)

lemma limit_None [simp]: "normalizeEventLimit None = None"
  by (simp add: normalizeEventLimit_def)

interpretation ledger: fatigue_history_laws "ledger_history eventId now" for eventId now
proof
  fix e :: fatigue_event and h h' u and q :: ledger_query
  assume r: "fh_record (ledger_history eventId now) e h = (Inr u, h')" and q: "lq_limit q = None"
  then have h': "h' = recordFatigueEvent eventId now e h" by (simp add: ledger_history_def)
  show "mset (fh_list (ledger_history eventId now) q h') =
      mset (fh_list (ledger_history eventId now) q h) + (if event_matches q e then {#e#} else {#})"
    by (simp add: ledger_history_def h' mset_listFatigueEvents q recordFatigueEvent_def Let_def createLedgerEntry_def
        matchesQuery_event)
next
  show "event_matches q x" if "x \<in> set (fh_list (ledger_history eventId now) q h)" for x q h
    using that by (auto simp: ledger_history_def listFatigueEvents_def Let_def matchesQuery_event
        split: option.splits dest!: in_set_takeD)
qed

section \<open>One event per turn\<close>

definition turn_of :: "budget_evaluation \<Rightarrow> correlation option \<Rightarrow> string option" where
  "turn_of ev given = corr_turnId (sanitizeCorrelation (ev_correlation ev) given)"

definition turn_query :: "budget_evaluation \<Rightarrow> ledger_query" where
  "turn_query ev =
     (let q = any_query\<lparr>lq_localCompanionId := Some (bs_localCompanionId (ev_scope ev)),
                lq_peerContactId := Some (bs_peerContactId (ev_scope ev))\<rparr> in
      case ev_regulation ev of Some _ \<Rightarrow> q
      | None \<Rightarrow> q\<lparr>lq_channelId := Some (bs_channelId (ev_scope ev)), lq_dayKey := Some (bs_dayKey (ev_scope ev))\<rparr>)"

definition replayed :: "'h fatigue_history \<Rightarrow> budget_evaluation \<Rightarrow> correlation option \<Rightarrow> 'h \<Rightarrow> fatigue_event option" where
  "replayed port ev given h =
     (case turn_of ev given of None \<Rightarrow> None
      | Some t \<Rightarrow> if t = [] then None else find (\<lambda>e. corr_turnId (fe_correlation e) = Some t) (fh_list port (turn_query ev) h))"

definition agrees :: "budget_evaluation \<Rightarrow> fatigue_event \<Rightarrow> bool" where
  "agrees ev e \<longleftrightarrow> fe_decision e = ev_decision ev \<and> fe_reason e = ev_reason ev \<and> fe_amount e = ev_amount ev"

definition scope_read :: "budget_evaluation \<Rightarrow> read_state_input" where
  "scope_read ev = \<lparr>rs_localCompanionId = bs_localCompanionId (ev_scope ev),
     rs_peerContactId = bs_peerContactId (ev_scope ev), rs_channelId = bs_channelId (ev_scope ev),
     rs_dayKey = Some (bs_dayKey (ev_scope ev)), rs_limits = as_limits (limits_of (ev_stateAfter ev)),
     rs_regulation = ev_regulation ev\<rparr>"

definition new_event :: "budget_evaluation \<Rightarrow> correlation option \<Rightarrow> budget_state \<Rightarrow> fatigue_event" where
  "new_event ev given current =
     (let after = createState (bst_scope current)
            (bst_normalSpent current + spend_if Decision_charged (ev_decision ev) (ev_amount ev))
            (bst_overchargeSpent current + spend_if Decision_overcharge (ev_decision ev) (ev_amount ev))
            (limits_of (ev_stateAfter ev)) (bst_regulation current) (bst_lastEvent current)
      in \<lparr>fe_timestampMs = numval (ev_timestampMs ev), fe_dayKey = ev_dayKey ev,
          fe_localCompanionId = bs_localCompanionId (ev_scope ev), fe_peerContactId = bs_peerContactId (ev_scope ev),
          fe_channelId = bs_channelId (ev_scope ev), fe_triggeringAuthor = ev_triggeringAuthor ev, fe_peer = ev_peer ev,
          fe_amount = ev_amount ev, fe_decision = ev_decision ev, fe_reason = ev_reason ev,
          fe_spentAfter = bst_spent after, fe_remainingAllowance = bst_remainingAllowance after,
          fe_allowance = bst_allowance after, fe_softLimit = bst_softLimit after,
          fe_normalSpentAfter = bst_normalSpent after, fe_overchargeSpentAfter = bst_overchargeSpent after,
          fe_overchargeAllowance = bst_overchargeAllowance after, fe_remainingOvercharge = bst_remainingOvercharge after,
          fe_softState = bst_softState after, fe_hardState = bst_hardState after,
          fe_correlation = sanitizeCorrelation (ev_correlation ev) given\<rparr>)"

lemma recordFinalDecision_unfold:
  "recordFinalDecision port now ev given h =
     (case replayed port ev given h of
        Some e \<Rightarrow> if agrees ev e then (Inr e, h)
                 else (Inl (Error (''Fatigue spend replay mismatch for turn '' @ the (turn_of ev given))), h)
      | None \<Rightarrow> (case readState port now (scope_read ev) h of
           Inl err \<Rightarrow> (Inl err, h)
         | Inr current \<Rightarrow> iobind (fh_record port (new_event ev given current)) (\<lambda>_. ioret (new_event ev given current)) h))"
  unfolding recordFinalDecision_def replayed_def turn_query_def turn_of_def scope_read_def new_event_def agrees_def Let_def
  by (simp add: iobind_def iopure_def split: option.split sum.split)

lemma new_event_fields [simp]:
  "fe_decision (new_event ev given c) = ev_decision ev" "fe_reason (new_event ev given c) = ev_reason ev"
  "fe_amount (new_event ev given c) = ev_amount ev" "corr_turnId (fe_correlation (new_event ev given c)) = turn_of ev given"
  "fe_localCompanionId (new_event ev given c) = bs_localCompanionId (ev_scope ev)"
  "fe_peerContactId (new_event ev given c) = bs_peerContactId (ev_scope ev)"
  "fe_channelId (new_event ev given c) = bs_channelId (ev_scope ev)" "fe_dayKey (new_event ev given c) = ev_dayKey ev"
  "fe_timestampMs (new_event ev given c) = numval (ev_timestampMs ev)" "fe_peer (new_event ev given c) = ev_peer ev"
  by (simp_all add: new_event_def Let_def turn_of_def)

lemma turn_query_matches: "ev_dayKey ev = bs_dayKey (ev_scope ev) \<Longrightarrow> event_matches (turn_query ev) (new_event ev given c)"
  by (simp add: event_matches_def matchesQuery_def turn_query_def any_query_def Let_def split: option.split)

lemma recordFinalDecision_cases:
  assumes "recordFinalDecision port now ev given h = (Inr e, h')"
  obtains (replay) "replayed port ev given h = Some e" "agrees ev e" "h' = h"
  | (fresh) current u where "replayed port ev given h = None" "readState port now (scope_read ev) h = Inr current"
      "e = new_event ev given current" "fh_record port e h = (Inr u, h')"
proof (cases "replayed port ev given h")
  case (Some x)
  then show ?thesis using assms replay by (auto simp: recordFinalDecision_unfold split: if_splits)
next
  case None
  then obtain current where c: "readState port now (scope_read ev) h = Inr current"
    using assms by (auto simp: recordFinalDecision_unfold split: sum.splits)
  then show ?thesis using assms None fresh
    by (auto simp: recordFinalDecision_unfold iobind_def ioret_def split: prod.splits sum.splits)
qed

lemma find_mset_add:
  assumes "mset ys = mset xs + {#e#}" "find P xs = None" "P e"
  shows "find P ys = Some e"
proof (cases "find P ys")
  case None
  then have "e \<notin> set ys" using assms(3) by (auto simp: find_None_iff')
  moreover have "e \<in># mset ys" using assms(1) by simp
  ultimately show ?thesis by simp
next
  case (Some x)
  then have x: "P x" "x \<in># mset ys" using find_Some_iff' [of P ys x] by simp_all
  have "x \<notin> set xs" using x(1) assms(2) by (auto simp: find_None_iff')
  then have "x = e" using x(2) by (simp add: assms(1))
  then show ?thesis using Some by simp
qed

context fatigue_history_laws
begin

lemma record_replays:
  assumes "recordFinalDecision port now ev given h = (Inr e, h')" "turn_of ev given = Some t" "t \<noteq> []"
    and "ev_dayKey ev = bs_dayKey (ev_scope ev)"
  shows "replayed port ev given h' = Some e \<and> agrees ev e"
  using assms(1)
proof (cases rule: recordFinalDecision_cases)
  case replay
  then show ?thesis by simp
next
  case (fresh current u)
  let ?P = "\<lambda>e. corr_turnId (fe_correlation e) = Some t"
  have "lq_limit (turn_query ev) = None" by (simp add: turn_query_def any_query_def Let_def split: option.split)
  from recorded [OF fresh(4) this] have "mset (fh_list port (turn_query ev) h') = mset (fh_list port (turn_query ev) h) + {#e#}"
    using turn_query_matches [OF assms(4)] fresh(3) by simp
  moreover have "find ?P (fh_list port (turn_query ev) h) = None" using fresh(1) assms(2,3) by (simp add: replayed_def)
  ultimately have "find ?P (fh_list port (turn_query ev) h') = Some e"
    by (rule find_mset_add) (use assms(2) fresh(3) in simp)
  then show ?thesis using assms(2,3) fresh(3) by (simp add: replayed_def agrees_def)
qed

end

section \<open>Accounting\<close>

lemma normalizeRequiredString_Inr [guard_simps]:
  "normalizeRequiredString v f = Inr x \<longleftrightarrow> x = js_trim v \<and> x \<noteq> []"
  by (auto simp: normalizeRequiredString_def Let_def)

lemma normalizeLimit_Inr [guard_simps]:
  "normalizeLimit v f = Inr x \<longleftrightarrow> isFinite v \<and> 0 \<le> numval v \<and> x = of_int \<lfloor>numval v\<rfloor>"
  by (auto simp: normalizeLimit_def)

lemma iso_date_ne: "take 10 (iso_date d) \<noteq> []"
  by (auto simp: iso_date_def digits_def split: prod.split)

lemma day_key_ne: "makeFatigueDayKey v = Inr k \<Longrightarrow> k \<noteq> []"
  using iso_date_ne by (auto simp: makeFatigueDayKey_def Let_def split: if_splits)

lemma kept_ne: "kept s = Some k \<Longrightarrow> k \<noteq> []"
  by (auto simp: kept_def split: option.splits if_splits)

definition scope_query :: "budget_scope \<Rightarrow> ledger_query" where
  "scope_query s = any_query\<lparr>lq_localCompanionId := Some (bs_localCompanionId s),
     lq_peerContactId := Some (bs_peerContactId s), lq_channelId := Some (bs_channelId s), lq_dayKey := Some (bs_dayKey s)\<rparr>"

definition scope_ok :: "budget_scope \<Rightarrow> bool" where
  "scope_ok s \<longleftrightarrow> bs_localCompanionId s \<noteq> [] \<and> bs_peerContactId s \<noteq> [] \<and> bs_channelId s \<noteq> [] \<and> bs_dayKey s \<noteq> []"

text \<open>Outside regulation a state is read from the events of its scope.\<close>

lemma readState_daily:
  assumes "readState port now input h = Inr st" "rs_regulation input = None"
  shows "scope_ok (bst_scope st)"
    "bst_normalSpent st = total_amount Decision_charged (fh_list port (scope_query (bst_scope st)) h)"
    "bst_overchargeSpent st = total_amount Decision_overcharge (fh_list port (scope_query (bst_scope st)) h)"
    "bst_spent st = bst_normalSpent st + bst_overchargeSpent st"
  using assms
  by (auto simp: readState_def Let_def rbind_eq_Inr normalizeRequiredString_Inr createState_def scope_query_def scope_ok_def
      dest: day_key_ne kept_ne split: option.splits)

lemma readState_scope:
  assumes "readState port now input h = Inr st" "readState port now' input h' = Inr st'"
    and "rs_regulation input = None" "kept (rs_dayKey input) \<noteq> None"
  shows "bst_scope st' = bst_scope st"
  using assms
  by (auto simp: readState_def Let_def rbind_eq_Inr normalizeRequiredString_Inr createState_def)

definition scope_of :: "fatigue_event \<Rightarrow> budget_scope" where
  "scope_of e = \<lparr>bs_localCompanionId = fe_localCompanionId e, bs_peerContactId = fe_peerContactId e,
     bs_channelId = fe_channelId e, bs_dayKey = fe_dayKey e\<rparr>"

lemma scope_query_matches: "scope_ok s \<Longrightarrow> event_matches (scope_query s) e \<longleftrightarrow> scope_of e = s"
  by (cases s) (auto simp: event_matches_def matchesQuery_def scope_query_def any_query_def scope_ok_def scope_of_def)

context fatigue_history_laws
begin

lemma record_accounts:
  assumes "recordFinalDecision port now ev given h = (Inr e, h')" "replayed port ev given h = None"
    and "readState port now1 input h = Inr st" "readState port now2 input h' = Inr st'"
    and "rs_regulation input = None" "kept (rs_dayKey input) \<noteq> None"
  shows "bst_normalSpent st' = bst_normalSpent st
      + (if bst_scope st = scope_of e then spend_if Decision_charged (ev_decision ev) (ev_amount ev) else 0)"
    and "bst_overchargeSpent st' = bst_overchargeSpent st
      + (if bst_scope st = scope_of e then spend_if Decision_overcharge (ev_decision ev) (ev_amount ev) else 0)"
proof -
  obtain c u where c: "e = new_event ev given c" "fh_record port e h = (Inr u, h')"
    using assms(1,2) by (cases rule: recordFinalDecision_cases) auto
  note st = readState_daily [OF assms(3,5)]
  note st' = readState_daily [OF assms(4,5)]
  have s: "bst_scope st' = bst_scope st" using readState_scope [OF assms(3-6)] .
  have q: "lq_limit (scope_query (bst_scope st)) = None" by (simp add: scope_query_def any_query_def)
  note t = total_recorded [OF c(2) q]
  show "bst_normalSpent st' = bst_normalSpent st
      + (if bst_scope st = scope_of e then spend_if Decision_charged (ev_decision ev) (ev_amount ev) else 0)"
    using t st(2) st'(2) s scope_query_matches [OF st(1)] c(1) by auto
  show "bst_overchargeSpent st' = bst_overchargeSpent st
      + (if bst_scope st = scope_of e then spend_if Decision_overcharge (ev_decision ev) (ev_amount ev) else 0)"
    using t st(3) st'(3) s scope_query_matches [OF st(1)] c(1) by auto
qed

end

text \<open>
  C12. A turn is charged once: after a turn with a stable id was recorded in the ledger, recording it
  again returns the same event and leaves the ledger, in memory and on file, as it is, however often
  and whenever a recovery replays it.
\<close>

theorem fatigue_spend_once:
  assumes "recordFinalDecision (ledger_history i n) now ev given L = (Inr e, L')"
    and "turn_of ev given = Some t" "t \<noteq> []" "ev_dayKey ev = bs_dayKey (ev_scope ev)"
  shows "recordFinalDecision (ledger_history i' n') now' ev given L' = (Inr e, L')"
proof -
  have "replayed (ledger_history i' n') ev given L' = replayed (ledger_history i n) ev given L'"
    by (simp add: replayed_def ledger_history_def split: option.split)
  then show ?thesis using ledger.record_replays [OF assms] by (simp add: recordFinalDecision_unfold)
qed

text \<open>
  A recorded spend is counted in its own scope and nowhere else: reading any companion, peer,
  channel and day before and after gives the same counts, except that the scope of the event has its
  amount added to the normal count when it was charged and to the overcharge count when it was an
  overcharge.
\<close>

theorem fatigue_spend_accounted:
  assumes "recordFinalDecision (ledger_history i n) now ev given L = (Inr e, L')" "L' \<noteq> L"
    and "readState (ledger_history i n) now1 input L = Inr st" "readState (ledger_history i n) now2 input L' = Inr st'"
    and "rs_regulation input = None" "kept (rs_dayKey input) \<noteq> None"
  shows "bst_scope st' = bst_scope st
    \<and> bst_normalSpent st' = bst_normalSpent st
        + (if bst_scope st = scope_of e then spend_if Decision_charged (ev_decision ev) (ev_amount ev) else 0)
    \<and> bst_overchargeSpent st' = bst_overchargeSpent st
        + (if bst_scope st = scope_of e then spend_if Decision_overcharge (ev_decision ev) (ev_amount ev) else 0)"
proof -
  have "replayed (ledger_history i n) ev given L = None"
    using assms(1,2) by (cases rule: recordFinalDecision_cases) auto
  from ledger.record_accounts [OF assms(1) this assms(3-6)] readState_scope [OF assms(3-6)] show ?thesis by blast
qed

section \<open>Reading the ledger back\<close>

lemma row_accepted_iff:
  "row_accepted r \<longleftrightarrow> js_trim (le_eventId r) \<noteq> [] \<and> 0 \<le> le_recordedAtMs r \<and> 0 \<le> fe_timestampMs (le_event r)
     \<and> js_trim (fe_dayKey (le_event r)) \<noteq> [] \<and> js_trim (fe_localCompanionId (le_event r)) \<noteq> []
     \<and> js_trim (fe_peerContactId (le_event r)) \<noteq> [] \<and> js_trim (fe_channelId (le_event r)) \<noteq> []
     \<and> js_trim (peer_contactId (fe_peer (le_event r))) \<noteq> [] \<and> 0 \<le> fe_amount (le_event r)
     \<and> known_reason (fe_reason (le_event r)) \<and> 0 \<le> fe_spentAfter (le_event r)
     \<and> 0 \<le> fe_remainingAllowance (le_event r) \<and> 0 \<le> fe_allowance (le_event r) \<and> 0 \<le> fe_softLimit (le_event r)"
  by (auto simp: row_accepted_def assertLedgerEntry_def Let_def throwIf_def not_less)

definition evaluation_wf :: "budget_evaluation \<Rightarrow> bool" where
  "evaluation_wf ev \<longleftrightarrow> 0 \<le> numval (ev_timestampMs ev) \<and> js_trim (ev_dayKey ev) \<noteq> []
     \<and> js_trim (peer_contactId (ev_peer ev)) \<noteq> [] \<and> 0 \<le> ev_amount ev"

lemma total_amount_nonneg: "(\<And>e. e \<in> set xs \<Longrightarrow> 0 \<le> fe_amount e) \<Longrightarrow> 0 \<le> total_amount d xs"
  by (auto simp: total_amount_def intro!: sum_list_nonneg)

lemma regulated_nonneg:
  assumes "\<And>e. e \<in> set events \<Longrightarrow> 0 \<le> fe_amount e"
  shows "0 \<le> fst (resolveRegulatedState events r)" "0 \<le> fst (snd (resolveRegulatedState events r))"
  using assms by (auto simp: resolveRegulatedState_def Let_def le_max_iff_disj intro!: total_amount_nonneg disjI1)

lemma readState_regulated:
  assumes "readState port now input h = Inr st" "rs_regulation input = Some r"
  shows "\<exists>q r'. normalizeRegulation r = Inr r'
    \<and> bst_normalSpent st = fst (resolveRegulatedState (fh_list port q h) r')
    \<and> bst_overchargeSpent st = fst (snd (resolveRegulatedState (fh_list port q h) r'))
    \<and> bst_regulation st = Some (fst (snd (snd (resolveRegulatedState (fh_list port q h) r'))))"
  using assms by (simp add: readState_def Let_def rbind_eq_Inr createState_def split_def) (elim exE conjE, intro exI conjI, auto)

lemma readState_nonneg:
  assumes "readState port now input h = Inr st" "\<And>q e. e \<in> set (fh_list port q h) \<Longrightarrow> 0 \<le> fe_amount e"
  shows "0 \<le> bst_normalSpent st" "0 \<le> bst_overchargeSpent st"
    "js_trim (rs_localCompanionId input) \<noteq> []" "js_trim (rs_peerContactId input) \<noteq> []" "js_trim (rs_channelId input) \<noteq> []"
    "0 \<le> numval (bl_softLimit (rs_limits input))" "0 \<le> numval (bl_hardLimit (rs_limits input))"
proof -
  have "0 \<le> bst_normalSpent st \<and> 0 \<le> bst_overchargeSpent st"
  proof (cases "rs_regulation input")
    case None
    from readState_daily(2,3) [OF assms(1) None] show ?thesis using total_amount_nonneg assms(2) by metis
  next
    case (Some r)
    from readState_regulated [OF assms(1) Some] show ?thesis using regulated_nonneg assms(2) by metis
  qed
  then show "0 \<le> bst_normalSpent st" "0 \<le> bst_overchargeSpent st" by simp_all
  show "js_trim (rs_localCompanionId input) \<noteq> []" "js_trim (rs_peerContactId input) \<noteq> []" "js_trim (rs_channelId input) \<noteq> []"
    "0 \<le> numval (bl_softLimit (rs_limits input))" "0 \<le> numval (bl_hardLimit (rs_limits input))"
    using assms(1) by (auto simp: readState_def rbind_eq_Inr normalizeRequiredString_Inr normalizeLimits_def normalizeLimit_Inr)
qed

lemma new_event_accepted:
  assumes "readState port now (scope_read ev) h = Inr c" "\<And>q e. e \<in> set (fh_list port q h) \<Longrightarrow> 0 \<le> fe_amount e"
    and "evaluation_wf ev" "js_trim i \<noteq> []" "0 \<le> n"
  shows "row_accepted (createLedgerEntry i (new_event ev given c) n) \<longleftrightarrow> known_reason (ev_reason ev)"
  using readState_nonneg [OF assms(1,2)] assms(3-5)
  by (auto simp: row_accepted_iff createLedgerEntry_def evaluation_wf_def scope_read_def as_limits_def limits_of_def
      new_event_def Let_def createState_def spend_if_def)

text \<open>
  C31. What the ledger writes it can read back, with one exception: opening the file after a turn was
  recorded restores exactly the entries in memory, unless the turn was an overcharge justified by an
  explicit peer invitation, whose row the reader refuses, so that the whole ledger no longer opens.
\<close>

theorem fatigue_ledger_reopens:
  assumes "openLedger file = Inr L" "recordFinalDecision (ledger_history i n) now ev given L = (Inr e, L')" "L' \<noteq> L"
    and "evaluation_wf ev" "js_trim i \<noteq> []" "0 \<le> n"
  shows "(ev_reason ev \<noteq> Reason_overcharge Overcharge_explicit_peer_invitation \<longrightarrow> openLedger (ld_file L') = Inr L')
    \<and> (ev_reason ev = Reason_overcharge Overcharge_explicit_peer_invitation \<longrightarrow> isl (openLedger (ld_file L')))"
proof -
  have L: "list_all row_accepted file" "L = \<lparr>ld_file = file, ld_entries = file\<rparr>"
    using assms(1) by (simp_all add: openLedger_Inr)
  have amounts: "0 \<le> fe_amount x" if "x \<in> set (fh_list (ledger_history i n) q L)" for q x
    using that L by (auto simp: ledger_history_def listFatigueEvents_def Let_def list_all_iff row_accepted_iff
        split: option.splits dest!: in_set_takeD)
  obtain c where c: "readState (ledger_history i n) now (scope_read ev) L = Inr c" "e = new_event ev given c"
    "L' = recordFatigueEvent i n e L"
    using assms(2,3) by (cases rule: recordFinalDecision_cases) (auto simp: ledger_history_def)
  let ?row = "createLedgerEntry i e n"
  have ok: "row_accepted ?row \<longleftrightarrow> known_reason (ev_reason ev)"
    using new_event_accepted [OF c(1) amounts assms(4-6)] c(2) by simp
  have rows: "ld_file L' = file @ [?row]" "ld_entries L' = file @ [?row]" "L' = \<lparr>ld_file = file @ [?row], ld_entries = file @ [?row]\<rparr>"
    using c(3) L(2) by (simp_all add: recordFatigueEvent_def Let_def)
  have reason: "known_reason (ev_reason ev) \<longleftrightarrow> ev_reason ev \<noteq> Reason_overcharge Overcharge_explicit_peer_invitation"
    by (cases "ev_reason ev") (auto simp: known_reason_def intro: overcharge_reason.exhaust)
  have "openLedger (ld_file L') = Inr L' \<longleftrightarrow> row_accepted ?row" "isl (openLedger (ld_file L')) \<longleftrightarrow> \<not> row_accepted ?row"
    using L(1) rows openLedger_Inr [of "file @ [?row]"] by (auto simp: isl_def) (metis sum.exhaust)
  then show ?thesis using ok reason by simp
qed

section \<open>Examples\<close>

definition demo_peer :: peer_snapshot where
  "demo_peer = \<lparr>peer_contactId = ''peer'', peer_displayName = None, peer_channelAuthorId = Some ''author'',
     peer_isMachineIntelligence = True\<rparr>"

definition demo_author :: actor_snapshot where
  "demo_author = \<lparr>actor_role = Machine_intelligence, actor_contactId = None, actor_channelAuthorId = Some ''author'',
     actor_displayName = None, actor_isMachineIntelligence = True\<rparr>"

definition demo_scope :: budget_scope where
  "demo_scope = \<lparr>bs_localCompanionId = ''me'', bs_peerContactId = ''peer'', bs_channelId = ''room'', bs_dayKey = ''1970-01-02''\<rparr>"

definition demo_limits :: normal_limits where
  "demo_limits = \<lparr>nl_softLimit = 3, nl_hardLimit = 5, nl_overchargeLimit = 1\<rparr>"

definition demo_evaluation :: budget_evaluation where
  "demo_evaluation = \<lparr>ev_scope = demo_scope, ev_timestampMs = Fin 86400000, ev_dayKey = ''1970-01-02'',
     ev_decision = Decision_charged, ev_reason = Reason_machine_intelligence_response, ev_amount = 1,
     ev_stateBefore = createState demo_scope 0 0 demo_limits None None,
     ev_stateAfter = createState demo_scope 1 0 demo_limits None None,
     ev_triggeringAuthor = demo_author, ev_peer = demo_peer,
     ev_correlation = Some \<lparr>corr_turnId = Some ''turn'', corr_channelId = None, corr_rootInitiationId = None\<rparr>,
     ev_regulation = None\<rparr>"

definition demo_ledger :: fatigue_ledger where "demo_ledger = \<lparr>ld_file = [], ld_entries = []\<rparr>"

definition demo_event :: fatigue_event where
  "demo_event = new_event demo_evaluation None (createState demo_scope 0 0 demo_limits None None)"

definition demo_recorded :: fatigue_ledger where "demo_recorded = recordFatigueEvent ''id'' 7 demo_event demo_ledger"

lemma demo_trim: "js_trim ''me'' = ''me''" "js_trim ''peer'' = ''peer''" "js_trim ''room'' = ''room''"
  "js_trim ''1970-01-02'' = ''1970-01-02''" "js_trim ''id'' = ''id''"
  by code_simp+

lemma demo_scope_read: "scope_read demo_evaluation = \<lparr>rs_localCompanionId = ''me'', rs_peerContactId = ''peer'',
    rs_channelId = ''room'', rs_dayKey = Some ''1970-01-02'', rs_limits = as_limits demo_limits, rs_regulation = None\<rparr>"
  by (simp add: scope_read_def demo_evaluation_def demo_scope_def demo_limits_def createState_def limits_of_def)

lemma demo_limits_ok: "normalizeLimits (as_limits demo_limits) = Inr demo_limits"
  by (simp add: normalizeLimits_def as_limits_def demo_limits_def normalizeLimit_def)

lemma demo_readState:
  "readState (ledger_history i n) now (scope_read demo_evaluation) L =
     (let events = listFatigueEvents (scope_query demo_scope) L; sorted = sort_key (\<lambda>e. - fe_timestampMs e) events in
      Inr (createState demo_scope (total_amount Decision_charged events) (total_amount Decision_overcharge events)
        demo_limits None (if sorted = [] then None else Some (hd sorted))))"
  by (simp add: demo_scope_read readState_def demo_limits_ok normalizeRequiredString_def demo_trim kept_def
      ledger_history_def scope_query_def demo_scope_def Let_def)

lemma demo_turn: "turn_of demo_evaluation None = Some ''turn''" "ev_dayKey demo_evaluation = bs_dayKey (ev_scope demo_evaluation)"
  "ev_reason demo_evaluation = Reason_machine_intelligence_response" "evaluation_wf demo_evaluation"
  by (simp_all add: turn_of_def demo_evaluation_def sanitizeCorrelation_def Let_def demo_scope_def evaluation_wf_def demo_trim
      demo_peer_def)

lemma demo_record:
  "recordFinalDecision (ledger_history ''id'' 7) (Fin 0) demo_evaluation None demo_ledger = (Inr demo_event, demo_recorded)"
  "demo_recorded \<noteq> demo_ledger"
proof -
  have none: "replayed (ledger_history ''id'' 7) demo_evaluation None demo_ledger = None"
    by (simp add: replayed_def demo_turn ledger_history_def demo_ledger_def listFatigueEvents_def Let_def split: option.split)
  have "readState (ledger_history ''id'' 7) (Fin 0) (scope_read demo_evaluation) demo_ledger
      = Inr (createState demo_scope 0 0 demo_limits None None)"
    by (simp add: demo_readState demo_ledger_def listFatigueEvents_def Let_def total_amount_def split: option.split)
  then show "recordFinalDecision (ledger_history ''id'' 7) (Fin 0) demo_evaluation None demo_ledger = (Inr demo_event, demo_recorded)"
    by (simp add: recordFinalDecision_unfold none demo_event_def demo_recorded_def iobind_def ioret_def)
  show "demo_recorded \<noteq> demo_ledger" by (simp add: demo_recorded_def demo_ledger_def recordFatigueEvent_def Let_def)
qed

theorem fatigue_spend_once_witness:
  "recordFinalDecision (ledger_history ''id2'' 9) (Fin 5) demo_evaluation None demo_recorded = (Inr demo_event, demo_recorded)"
  by (rule fatigue_spend_once [OF demo_record(1) demo_turn(1) _ demo_turn(2)]) simp

theorem fatigue_spend_accounted_witness:
  "\<exists>st st'. readState (ledger_history ''id'' 7) (Fin 0) (scope_read demo_evaluation) demo_ledger = Inr st
     \<and> readState (ledger_history ''id'' 7) (Fin 0) (scope_read demo_evaluation) demo_recorded = Inr st'
     \<and> bst_normalSpent st' = bst_normalSpent st + 1 \<and> bst_overchargeSpent st' = bst_overchargeSpent st"
proof -
  obtain st st' where st: "readState (ledger_history ''id'' 7) (Fin 0) (scope_read demo_evaluation) demo_ledger = Inr st"
    "readState (ledger_history ''id'' 7) (Fin 0) (scope_read demo_evaluation) demo_recorded = Inr st'"
    "bst_scope st = demo_scope"
    by (simp add: demo_readState createState_def Let_def)
  have r: "rs_regulation (scope_read demo_evaluation) = None" "kept (rs_dayKey (scope_read demo_evaluation)) \<noteq> None"
    by (simp_all add: demo_scope_read kept_def demo_trim)
  have "scope_of demo_event = demo_scope" by (simp add: scope_of_def demo_event_def demo_evaluation_def demo_scope_def)
  with fatigue_spend_accounted [OF demo_record st(1,2) r] st show ?thesis
    by (auto simp: demo_evaluation_def spend_if_def)
qed

theorem fatigue_ledger_reopens_witness: "openLedger (ld_file demo_recorded) = Inr demo_recorded"
proof -
  have "openLedger [] = Inr demo_ledger" by (simp add: openLedger_Inr demo_ledger_def)
  from fatigue_ledger_reopens [OF this demo_record demo_turn(4)] show ?thesis by (simp add: demo_turn demo_trim)
qed

end
