(* ===== verification/Fatigue_Enforcement.thy ===== *)
theory Fatigue_Enforcement
  imports Fatigue_Policy Fatigue_Spend
begin

text \<open>
  The enforcement metadata of a turn, the social-regulation projection
  (\<^verbatim>\<open>src/src/core/agent/fatigue/social-regulation.ts\<close>) and the production invariant every decision must
  satisfy before the turn goes on (\<^verbatim>\<open>src/src/core/agent/fatigue/enforcement-invariants.ts\<close>).
\<close>

section \<open>Metadata\<close>

datatype turn_enforcement =
  Allowed_free | Allowed_charged | Wrap_up_charged | Overcharge_charged | Suppressed_hard_exhausted

datatype model_disposition = Model_allowed | Model_suppressed

datatype charge_lane = Lane_interactive | Lane_companion_social

record regulation_metadata =
  sm_state :: regulation_state
  sm_chargeLane :: charge_lane
  sm_relationshipPressure :: real
  sm_rootNormalSpent :: real
  sm_rootOverchargeSpent :: real
  sm_contributingEventCount :: nat
  sm_marginalChargeUnits :: real
  sm_closeoutReserveRemainingBefore :: real
  sm_closeoutReserveRemainingAfterProjected :: real
  sm_continuationEvidence :: "continuation_evidence list"
  sm_rootInitiationId :: "string option"

record budget_metadata =
  bm_spentBefore :: real
  bm_remainingBefore :: real
  bm_allowance :: real
  bm_softLimit :: real
  bm_hardLimit :: real
  bm_amount :: real
  bm_spentAfterProjected :: real
  bm_remainingAfterProjected :: real
  bm_normalSpentBefore :: real
  bm_normalSpentAfterProjected :: real
  bm_overchargeSpentBefore :: real
  bm_overchargeSpentAfterProjected :: real
  bm_overchargeAllowance :: real
  bm_overchargeRemainingBefore :: real
  bm_overchargeRemainingAfterProjected :: real

record recorded_event =
  re_timestampMs :: real
  re_amount :: real
  re_decision :: budget_decision
  re_reason :: budget_reason
  re_spentAfter :: real
  re_remainingAllowance :: real
  re_normalSpentAfter :: real
  re_overchargeSpentAfter :: real
  re_overchargeAllowance :: real
  re_remainingOvercharge :: real
  re_softState :: soft_state
  re_hardState :: hard_state

record enforcement_metadata =
  em_decision :: turn_enforcement
  em_modelDisposition :: model_disposition
  em_alertInjected :: bool
  em_shouldRecordSpend :: bool
  em_spendDecision :: budget_decision
  em_spendReason :: budget_reason
  em_policyState :: fatigue_state
  em_policyBaseState :: fatigue_base_state
  em_intent :: fatigue_intent
  em_relationshipClass :: relationship_class
  em_channelSetting :: channel_setting
  em_overchargeEligible :: bool
  em_overchargePermitted :: bool
  em_overchargeBlockedReasons :: "blocked_reason list"
  em_overchargeReasons :: "overcharge_reason list"
  em_scope :: budget_scope
  em_peer :: peer_snapshot
  em_triggeringAuthor :: actor_snapshot
  em_budget :: budget_metadata
  em_socialRegulation :: regulation_metadata
  em_recordedEvent :: "recorded_event option"

section \<open>Social regulation\<close>

definition js_lower :: "string \<Rightarrow> string" where
  "js_lower = map (\<lambda>c. let n = of_char c :: nat in
     if 65 \<le> n \<and> n \<le> 90 \<or> 192 \<le> n \<and> n \<le> 222 \<and> n \<noteq> 215 then char_of (n + 32) else c)"

definition resolveContinuationEvidence ::
  "evidence_policy \<Rightarrow> bool \<Rightarrow> bool \<Rightarrow> bool \<Rightarrow> continuation_evidence list" where
  "resolveContinuationEvidence policy recentHumanParticipation trustedStructuredWorkIntent explicitPeerInvitation =
     (if ep_recentHumanParticipation policy \<and> recentHumanParticipation then [Evidence_recent_human_participation] else [])
     @ (if ep_activeWorkOrResearch policy \<and> trustedStructuredWorkIntent then [Evidence_active_work_or_research] else [])
     @ (if ep_explicitPeerInvitation policy \<and> explicitPeerInvitation then [Evidence_explicit_peer_invitation] else [])"

definition resolveRegulationState ::
  "turn_enforcement \<Rightarrow> fatigue_base_state \<Rightarrow> real \<Rightarrow> real \<Rightarrow> real \<Rightarrow> real \<Rightarrow> real \<Rightarrow> regulation_state" where
  "resolveRegulationState decision policyBaseState spentBefore softLimit maturingRatio overchargeRemainingBefore amount =
     (if decision = Suppressed_hard_exhausted then Regulation_suppressed
      else if decision = Overcharge_charged
        then (if overchargeRemainingBefore = amount then Regulation_final_closeout else Regulation_overcharge_closeout)
      else if policyBaseState = Base_hard_exhausted then Regulation_hard_exhausted
      else if policyBaseState = Base_wrap_up_allowed then Regulation_wrap_up_allowed
      else if policyBaseState = Base_soft_exhausted then Regulation_charge_lane_active
      else if policyBaseState = Base_nearing_limit then Regulation_nearing_soft_allowance
      else let maturingAt = max 1 (of_int \<lceil>softLimit * maturingRatio\<rceil>) in
           if spentBefore \<ge> maturingAt then Regulation_conversation_maturing else Regulation_normal)"

definition after_allowance :: "regulation_state \<Rightarrow> bool" where
  "after_allowance s \<longleftrightarrow> s = Regulation_charge_lane_active \<or> s = Regulation_wrap_up_allowed
     \<or> s = Regulation_hard_exhausted \<or> s = Regulation_overcharge_closeout \<or> s = Regulation_final_closeout"

definition projectFatigueSocialRegulation ::
  "fatigue_policy_config \<Rightarrow> turn_enforcement \<Rightarrow> fatigue_base_state \<Rightarrow> fatigue_intent \<Rightarrow> string option \<Rightarrow> bool \<Rightarrow> bool \<Rightarrow>
     continuation_evidence list option \<Rightarrow> budget_state \<Rightarrow> real \<Rightarrow> regulation_metadata" where
  "projectFatigueSocialRegulation config decision policyBaseState intent taskKind hasRecentHumanParticipation
     explicitPeerInvitation evidenceOverride stateBefore amount =
     (let structuredTaskKind = (case taskKind of None \<Rightarrow> [] | Some k \<Rightarrow> js_lower (js_trim k));
          trustedStructuredWorkIntent = (isFatigueWorkIntent intent
            \<and> (structuredTaskKind = ''work'' \<or> structuredTaskKind = ''research'' \<or> structuredTaskKind = ''problem_solving''));
          continuationEvidence = (case evidenceOverride of Some e \<Rightarrow> e
            | None \<Rightarrow> resolveContinuationEvidence (sr_continuationEvidence (fp_socialRegulation config))
                hasRecentHumanParticipation trustedStructuredWorkIntent explicitPeerInvitation);
          regulation = bst_regulation stateBefore;
          state = resolveRegulationState decision policyBaseState
            (case regulation of Some r \<Rightarrow> br_relationshipPressure r | None \<Rightarrow> bst_normalSpent stateBefore)
            (bst_softLimit stateBefore) (sr_conversationMaturingRatio (fp_socialRegulation config))
            (bst_remainingOvercharge stateBefore) amount;
          chargedLane = (regulation \<noteq> None \<and> after_allowance state)
      in \<lparr>sm_state = state, sm_chargeLane = (if chargedLane then Lane_companion_social else Lane_interactive),
          sm_relationshipPressure = (case regulation of Some r \<Rightarrow> br_relationshipPressure r | None \<Rightarrow> bst_normalSpent stateBefore),
          sm_rootNormalSpent = (case regulation of Some r \<Rightarrow> br_rootNormalSpent r | None \<Rightarrow> bst_normalSpent stateBefore),
          sm_rootOverchargeSpent = (case regulation of Some r \<Rightarrow> br_rootOverchargeSpent r | None \<Rightarrow> bst_overchargeSpent stateBefore),
          sm_contributingEventCount = (case regulation of Some r \<Rightarrow> br_contributingEventCount r | None \<Rightarrow> 0),
          sm_marginalChargeUnits = (if chargedLane then sr_marginalChargeUnits (fp_socialRegulation config) else 0),
          sm_closeoutReserveRemainingBefore = bst_remainingOvercharge stateBefore,
          sm_closeoutReserveRemainingAfterProjected =
            max 0 (bst_remainingOvercharge stateBefore - (if decision = Overcharge_charged then amount else 0)),
          sm_continuationEvidence = continuationEvidence,
          sm_rootInitiationId = map_option br_rootInitiationId regulation\<rparr>)"

section \<open>The production invariant\<close>

datatype correlation_decision = Correlation_allow | Correlation_allow_overcharge | Correlation_suppress

datatype pending_rule = Pending_required | Pending_forbidden

record enforcement_contract =
  ec_correlationDecision :: correlation_decision
  ec_pendingSpend :: pending_rule

record decision_contract =
  dc_modelDisposition :: model_disposition
  dc_spendDecision :: budget_decision
  dc_correlationDecision :: correlation_decision
  dc_pendingSpend :: pending_rule
  dc_overchargePermitted :: bool
  dc_policyBaseStates :: "fatigue_base_state list"

fun DECISION_CONTRACTS :: "turn_enforcement \<Rightarrow> decision_contract" where
  "DECISION_CONTRACTS Allowed_free = \<lparr>dc_modelDisposition = Model_allowed, dc_spendDecision = Decision_free,
     dc_correlationDecision = Correlation_allow, dc_pendingSpend = Pending_forbidden, dc_overchargePermitted = False,
     dc_policyBaseStates = [Base_normal, Base_nearing_limit, Base_soft_exhausted, Base_wrap_up_allowed, Base_hard_exhausted]\<rparr>"
| "DECISION_CONTRACTS Allowed_charged = \<lparr>dc_modelDisposition = Model_allowed, dc_spendDecision = Decision_charged,
     dc_correlationDecision = Correlation_allow, dc_pendingSpend = Pending_required, dc_overchargePermitted = False, dc_policyBaseStates = [Base_normal, Base_nearing_limit]\<rparr>"
| "DECISION_CONTRACTS Wrap_up_charged = \<lparr>dc_modelDisposition = Model_allowed, dc_spendDecision = Decision_charged,
     dc_correlationDecision = Correlation_allow, dc_pendingSpend = Pending_required, dc_overchargePermitted = False, dc_policyBaseStates = [Base_soft_exhausted, Base_wrap_up_allowed]\<rparr>"
| "DECISION_CONTRACTS Overcharge_charged = \<lparr>dc_modelDisposition = Model_allowed, dc_spendDecision = Decision_overcharge,
     dc_correlationDecision = Correlation_allow_overcharge, dc_pendingSpend = Pending_required, dc_overchargePermitted = True, dc_policyBaseStates = [Base_hard_exhausted]\<rparr>"
| "DECISION_CONTRACTS Suppressed_hard_exhausted = \<lparr>dc_modelDisposition = Model_suppressed, dc_spendDecision = Decision_charged,
     dc_correlationDecision = Correlation_suppress, dc_pendingSpend = Pending_forbidden, dc_overchargePermitted = False, dc_policyBaseStates = [Base_hard_exhausted]\<rparr>"

definition failIf :: "bool \<Rightarrow> string \<Rightarrow> 'a result \<Rightarrow> 'a result" where
  "failIf b field = throwIf b (''Fatigue production invariant is inconsistent: '' @ field)"

fun hasCanonicalOrder_from :: "int \<Rightarrow> ('a \<Rightarrow> nat) \<Rightarrow> 'a list \<Rightarrow> bool" where
  "hasCanonicalOrder_from previousIndex canonicalOrder [] = True"
| "hasCanonicalOrder_from previousIndex canonicalOrder (value # values) =
     (let index = int (canonicalOrder value) in
      if index \<le> previousIndex then False else hasCanonicalOrder_from index canonicalOrder values)"

definition hasCanonicalOrder :: "'a list \<Rightarrow> ('a \<Rightarrow> nat) \<Rightarrow> bool" where
  "hasCanonicalOrder values canonicalOrder = hasCanonicalOrder_from (- 1) canonicalOrder values"

fun OVERCHARGE_REASON_ORDER :: "overcharge_reason \<Rightarrow> nat" where
  "OVERCHARGE_REASON_ORDER Overcharge_recent_human_participation = 0"
| "OVERCHARGE_REASON_ORDER Overcharge_work_intent_wrapup = 1"
| "OVERCHARGE_REASON_ORDER Overcharge_explicit_peer_invitation = 2"

fun OVERCHARGE_BLOCKED_REASON_ORDER :: "blocked_reason \<Rightarrow> nat" where
  "OVERCHARGE_BLOCKED_REASON_ORDER Blocked_overcharge_disabled = 0"
| "OVERCHARGE_BLOCKED_REASON_ORDER Blocked_peer_not_machine_intelligence = 1"
| "OVERCHARGE_BLOCKED_REASON_ORDER Blocked_turn_does_not_spend_fatigue = 2"
| "OVERCHARGE_BLOCKED_REASON_ORDER Blocked_normal_allowance_not_exhausted = 3"
| "OVERCHARGE_BLOCKED_REASON_ORDER Blocked_no_qualifying_overcharge_trigger = 4"
| "OVERCHARGE_BLOCKED_REASON_ORDER Blocked_overcharge_reserve_exhausted = 5"

definition assertSnapshotInvariants :: "enforcement_metadata \<Rightarrow> unit result" where
  "assertSnapshotInvariants metadata =
     (let scope = em_scope metadata; peer = em_peer metadata; author = em_triggeringAuthor metadata in
      failIf (js_trim (bs_localCompanionId scope) = [] \<or> js_trim (bs_peerContactId scope) = []
          \<or> js_trim (bs_channelId scope) = [] \<or> \<not> matches_day_key (bs_dayKey scope)
          \<or> bs_peerContactId scope \<noteq> peer_contactId peer) ''scope and peer identity'' (
      failIf (actor_contactId author \<noteq> None \<and> actor_contactId author \<noteq> Some (peer_contactId peer))
        ''triggering author contact identity'' (
      failIf (peer_displayName peer \<noteq> actor_displayName author) ''peer and triggering author display identity'' (Inr ()))))"

definition resolveEffectiveSoftSpend :: "real \<Rightarrow> real \<Rightarrow> real" where
  "resolveEffectiveSoftSpend normalSpentBefore relationshipPressure = max normalSpentBefore relationshipPressure"

definition assertPolicyStateBudgetInvariants :: "enforcement_metadata \<Rightarrow> unit result" where
  "assertPolicyStateBudgetInvariants metadata =
     (let base = em_policyBaseState metadata; budget = em_budget metadata;
          effectiveSoftPressure = resolveEffectiveSoftSpend (bm_normalSpentBefore budget)
            (sm_relationshipPressure (em_socialRegulation metadata));
          hardExhausted = (bm_normalSpentBefore budget \<ge> bm_hardLimit budget)
      in
      if \<not> peer_isMachineIntelligence (em_peer metadata)
      then failIf (base \<noteq> Base_normal) ''non-MI policy base state'' (Inr ())
      else
      failIf ((base = Base_hard_exhausted) \<noteq> hardExhausted) ''hard-exhausted policy base state'' (
      failIf ((base = Base_normal \<or> base = Base_nearing_limit) \<and> effectiveSoftPressure \<ge> bm_softLimit budget)
        ''pre-soft-limit policy base state'' (
      failIf (base = Base_soft_exhausted \<and> (effectiveSoftPressure < bm_softLimit budget \<or> hardExhausted))
        ''soft-exhausted policy base state'' (Inr ()))))"

definition budget_values :: "budget_metadata \<Rightarrow> real list" where
  "budget_values b = [bm_spentBefore b, bm_remainingBefore b, bm_allowance b, bm_softLimit b, bm_hardLimit b, bm_amount b,
     bm_spentAfterProjected b, bm_remainingAfterProjected b, bm_normalSpentBefore b, bm_normalSpentAfterProjected b,
     bm_overchargeSpentBefore b, bm_overchargeSpentAfterProjected b, bm_overchargeAllowance b,
     bm_overchargeRemainingBefore b, bm_overchargeRemainingAfterProjected b]"

definition assertBudgetInvariants :: "enforcement_metadata \<Rightarrow> unit result" where
  "assertBudgetInvariants metadata =
     (let budget = em_budget metadata;
          expectedNormalAfter = bm_normalSpentBefore budget
            + (if em_spendDecision metadata = Decision_charged then bm_amount budget else 0);
          expectedOverchargeAfter = bm_overchargeSpentBefore budget
            + (if em_spendDecision metadata = Decision_overcharge then bm_amount budget else 0)
      in
      failIf (\<not> list_all count_ok (budget_values budget)) ''budget response counts must be non-negative integers'' (
      failIf (bm_softLimit budget > bm_hardLimit budget \<or> bm_allowance budget \<noteq> bm_hardLimit budget) ''budget limits'' (
      failIf (bm_spentBefore budget \<noteq> bm_normalSpentBefore budget + bm_overchargeSpentBefore budget
          \<or> bm_remainingBefore budget \<noteq> max 0 (bm_allowance budget - bm_normalSpentBefore budget)
          \<or> bm_overchargeRemainingBefore budget \<noteq> max 0 (bm_overchargeAllowance budget - bm_overchargeSpentBefore budget))
        ''budget state before'' (
      failIf (bm_normalSpentAfterProjected budget \<noteq> expectedNormalAfter
          \<or> bm_overchargeSpentAfterProjected budget \<noteq> expectedOverchargeAfter
          \<or> bm_spentAfterProjected budget \<noteq> expectedNormalAfter + expectedOverchargeAfter
          \<or> bm_remainingAfterProjected budget \<noteq> max 0 (bm_allowance budget - expectedNormalAfter)
          \<or> bm_overchargeRemainingAfterProjected budget \<noteq> max 0 (bm_overchargeAllowance budget - expectedOverchargeAfter))
        ''budget state after'' (Inr ())))))"

definition assertSocialRegulationInvariants :: "enforcement_metadata \<Rightarrow> unit result" where
  "assertSocialRegulationInvariants metadata =
     (let r = em_socialRegulation metadata; b = em_budget metadata;
          afterAllowance = after_allowance (sm_state r);
          icpRegulated = (sm_rootInitiationId r \<noteq> None);
          expectedAlert = (em_modelDisposition metadata = Model_allowed \<and> em_decision metadata \<noteq> Allowed_free
            \<and> sm_state r \<noteq> Regulation_normal)
      in
      failIf (sm_relationshipPressure r < 0 \<or> \<not> count_ok (sm_rootNormalSpent r) \<or> \<not> count_ok (sm_rootOverchargeSpent r)
          \<or> \<not> count_ok (sm_marginalChargeUnits r) \<or> \<not> count_ok (sm_closeoutReserveRemainingBefore r)
          \<or> \<not> count_ok (sm_closeoutReserveRemainingAfterProjected r) \<or> \<not> distinct (sm_continuationEvidence r))
        ''social regulation metadata'' (
      failIf ((sm_chargeLane r = Lane_companion_social) \<noteq> (afterAllowance \<and> icpRegulated)
          \<or> (sm_marginalChargeUnits r > 0) \<noteq> (afterAllowance \<and> icpRegulated)
          \<or> (sm_state r = Regulation_suppressed) \<noteq> (em_modelDisposition metadata = Model_suppressed)
          \<or> sm_closeoutReserveRemainingBefore r \<noteq> bm_overchargeRemainingBefore b
          \<or> sm_closeoutReserveRemainingAfterProjected r \<noteq> bm_overchargeRemainingAfterProjected b)
        ''social regulation decision coupling'' (
      failIf (em_alertInjected metadata \<noteq> expectedAlert) ''social regulation prompt guidance'' (Inr ()))))"

definition expected_reason :: "enforcement_metadata \<Rightarrow> budget_reason \<Rightarrow> budget_reason" where
  "expected_reason metadata base =
     (if em_decision metadata = Overcharge_charged
      then Reason_overcharge
        (if Overcharge_recent_human_participation \<in> set (em_overchargeReasons metadata) then Overcharge_recent_human_participation
         else if Overcharge_work_intent_wrapup \<in> set (em_overchargeReasons metadata) then Overcharge_work_intent_wrapup
         else Overcharge_explicit_peer_invitation)
      else base)"

definition assertOverchargeInvariants :: "enforcement_metadata \<Rightarrow> budget_decision \<Rightarrow> unit result" where
  "assertOverchargeInvariants metadata baseDecision =
     (let reasons = em_overchargeReasons metadata; blocked = em_overchargeBlockedReasons metadata;
          workIntent = isFatigueWorkIntent (em_intent metadata);
          explicitPeerInvitation = (Evidence_explicit_peer_invitation
            \<in> set (sm_continuationEvidence (em_socialRegulation metadata)));
          deterministic = resolveFatigueOverchargeDeterministicBlockedReasons
            (peer_isMachineIntelligence (em_peer metadata)) (baseDecision = Decision_charged) (em_policyBaseState metadata)
      in
      failIf (\<not> distinct reasons \<or> \<not> hasCanonicalOrder reasons OVERCHARGE_REASON_ORDER) ''overcharge reasons'' (
      failIf (\<not> distinct blocked \<or> \<not> hasCanonicalOrder blocked OVERCHARGE_BLOCKED_REASON_ORDER) ''overcharge blocked reasons'' (
      rbind (if em_overchargeEligible metadata
         then failIf (em_policyState metadata \<noteq> State_overcharge_eligible
                \<or> em_policyBaseState metadata \<noteq> Base_hard_exhausted \<or> reasons = []
                \<or> (Overcharge_work_intent_wrapup \<in> set reasons) \<noteq> workIntent
                \<or> (Overcharge_explicit_peer_invitation \<in> set reasons) \<noteq> explicitPeerInvitation) ''overcharge eligibility'' (
              failIf (blocked \<noteq> (if em_overchargePermitted metadata then [] else [Blocked_overcharge_reserve_exhausted]))
                ''overcharge reserve availability'' (Inr ()))
         else failIf (em_policyState metadata \<noteq> State_base (em_policyBaseState metadata) \<or> reasons \<noteq> [] \<or> blocked = []
                \<or> Blocked_overcharge_reserve_exhausted \<in> set blocked
                \<or> workIntent \<and> Blocked_no_qualifying_overcharge_trigger \<in> set blocked
                \<or> explicitPeerInvitation \<and> Blocked_no_qualifying_overcharge_trigger \<in> set blocked)
              ''ineligible overcharge policy'' (Inr ())) (\<lambda>_.
      let differs = (\<lambda>reason. (reason \<in> set blocked) \<noteq> (reason \<in> set deterministic)) in
      failIf (differs Blocked_peer_not_machine_intelligence) ''peer_not_machine_intelligence overcharge block'' (
      failIf (differs Blocked_turn_does_not_spend_fatigue) ''turn_does_not_spend_fatigue overcharge block'' (
      failIf (differs Blocked_normal_allowance_not_exhausted) ''normal_allowance_not_exhausted overcharge block'' (
      failIf (em_decision metadata = Overcharge_charged \<and> \<not> em_overchargeEligible metadata) ''permitted overcharge eligibility'' (
      failIf (em_decision metadata \<noteq> Overcharge_charged \<and> em_decision metadata \<noteq> Suppressed_hard_exhausted
          \<and> em_overchargeEligible metadata) ''unexpected overcharge eligibility'' (Inr ())))))))))"

definition assertDecisionInvariants :: "enforcement_metadata \<Rightarrow> unit result" where
  "assertDecisionInvariants metadata =
     (let contract = DECISION_CONTRACTS (em_decision metadata); peer = em_peer metadata; author = em_triggeringAuthor metadata in
      failIf ((actor_role author = Machine_intelligence) \<noteq> actor_isMachineIntelligence author)
        ''triggering author classification'' (
      failIf (peer_channelAuthorId peer \<in> {None, Some []} \<or> actor_channelAuthorId author \<in> {None, Some []}
          \<or> peer_channelAuthorId peer \<noteq> actor_channelAuthorId author) ''peer and triggering author channel identity'' (
      failIf ((em_relationshipClass metadata = Non_machine_intelligence) = peer_isMachineIntelligence peer)
        ''peer relationship classification'' (
      case resolveFatigueSpendUnit peer author of (baseDecision, baseReason, _) \<Rightarrow>
      failIf (em_modelDisposition metadata \<noteq> dc_modelDisposition contract
          \<or> em_shouldRecordSpend metadata \<noteq> (dc_pendingSpend contract = Pending_required)
          \<or> em_spendDecision metadata \<noteq> dc_spendDecision contract
          \<or> em_spendReason metadata \<noteq> expected_reason metadata baseReason
          \<or> bm_amount (em_budget metadata) \<noteq> (if dc_spendDecision contract = Decision_free then 0 else 1)
          \<or> em_overchargePermitted metadata \<noteq> dc_overchargePermitted contract
          \<or> em_policyBaseState metadata \<notin> set (dc_policyBaseStates contract)) ''decision coupling'' (
      failIf (em_decision metadata = Allowed_free \<and> baseDecision \<noteq> Decision_free) ''free decision classification'' (
      failIf (em_decision metadata \<noteq> Allowed_free \<and> baseDecision \<noteq> Decision_charged)
        ''machine-intelligence response classification'' (
      assertOverchargeInvariants metadata baseDecision)))))))"

definition assertFatigueEnforcementMetadataInvariants :: "enforcement_metadata \<Rightarrow> enforcement_contract result" where
  "assertFatigueEnforcementMetadataInvariants metadata =
     rbind (assertSocialRegulationInvariants metadata) (\<lambda>_.
     rbind (assertSnapshotInvariants metadata) (\<lambda>_.
     rbind (assertDecisionInvariants metadata) (\<lambda>_.
     rbind (assertBudgetInvariants metadata) (\<lambda>_.
     rbind (assertPolicyStateBudgetInvariants metadata) (\<lambda>_.
     let contract = DECISION_CONTRACTS (em_decision metadata) in
     Inr \<lparr>ec_correlationDecision = dc_correlationDecision contract, ec_pendingSpend = dc_pendingSpend contract\<rparr>)))))"

end
