(* ===== verification/Fatigue_Turn.thy ===== *)
theory Fatigue_Turn
  imports Fatigue_Enforcement
begin

text \<open>
  The fatigue decision of a turn (\<^verbatim>\<open>src/src/core/agent/fatigue/runtime-enforcement.ts\<close>): from the
  message and its author to the metadata that lets the model run, winds the exchange down or
  suppresses it, and the reconciliation of that decision with the shared reservation. Of a message
  and its channel the fields the decision reads are kept.
\<close>

section \<open>Inputs\<close>

datatype speaker_role = Speaker_user | Speaker_system

datatype channel_privacy = Privacy_private | Privacy_invite_only | Privacy_public

record author_context =
  ac_trustLevel :: trust_level
  ac_speakerRole :: speaker_role
  ac_resolvedUserName :: string
  ac_speakingWithIsMachineIntelligence :: "bool option"
  ac_canonicalContactKey :: "string option"
  ac_subjectIdentityKey :: "string option"
  ac_relationshipType :: "relationship_type option"

record substrate_message =
  sg_channelId :: string
  sg_authorId :: string
  sg_authorName :: string
  sg_content :: string
  sg_isDirectMessage :: "bool option"
  sg_icpRootInitiationId :: "string option"

record channel_meta =
  chm_isDirectMessage :: "bool option"
  chm_privacyLevel :: "channel_privacy option"

record turn_input =
  ti_fatiguePolicy :: fatigue_policy_config
  ti_localCompanionId :: string
  ti_message :: substrate_message
  ti_authorContext :: author_context
  ti_channelId :: string
  ti_channelType :: "string option"
  ti_channelMeta :: channel_meta
  ti_taskKind :: "string option"
  ti_explicitPeerInvitation :: "bool option"
  ti_recentHumanParticipation :: "human_participation option"
  ti_timestampMs :: jsnum
  ti_correlation :: correlation

record turn_decision =
  td_metadata :: enforcement_metadata
  td_evaluation :: budget_evaluation
  td_suppressModel :: bool
  td_shouldRecordSpend :: bool

section \<open>Classification\<close>

definition resolveTriggerAuthorKind :: "author_context \<Rightarrow> trigger_author_kind" where
  "resolveTriggerAuthorKind author =
     (if ac_speakingWithIsMachineIntelligence author = Some True then Machine_intelligence
      else if ac_speakerRole author = Speaker_system then System
      else Human)"

definition resolvePolicyChannelType :: "substrate_message \<Rightarrow> string option \<Rightarrow> channel_meta \<Rightarrow> policy_channel_type" where
  "resolvePolicyChannelType message channelType channelMeta =
     (if sg_isDirectMessage message = Some True \<or> chm_isDirectMessage channelMeta = Some True then Policy_dm
      else if js_includes (sg_channelId message) ''companion'' then Policy_companion_room
      else if chm_privacyLevel channelMeta = Some Privacy_public then Policy_public_group
      else if channelType = Some ''discord'' \<or> channelType = Some ''telegram'' then Policy_group
      else Policy_unknown)"

definition resolveFatigueIntent :: "string option \<Rightarrow> string \<Rightarrow> bool \<Rightarrow> fatigue_intent" where
  "resolveFatigueIntent taskKind0 content0 structuredOnly =
     (let taskKind = (case taskKind0 of None \<Rightarrow> [] | Some k \<Rightarrow> js_lower k); content = js_lower content0 in
      if js_includes taskKind ''research'' \<or> \<not> structuredOnly \<and> js_includes content ''research'' then Intent_research
      else if js_includes taskKind ''tool'' \<or> js_includes taskKind ''work'' \<or> js_includes taskKind ''maintenance''
        then Intent_work
      else if \<not> structuredOnly \<and> (js_includes content ''debug'' \<or> js_includes content ''fix''
          \<or> js_includes content ''problem'' \<or> js_includes content ''why'' \<or> js_includes content ''how'')
        then Intent_problem_solving
      else if \<not> structuredOnly \<and> (js_includes content ''check in'' \<or> js_includes content ''checking in'')
        then Intent_check_in
      else Intent_casual)"

text \<open>The value of \<^verbatim>\<open>a || b\<close> for strings.\<close>

definition js_or :: "string \<Rightarrow> string \<Rightarrow> string" where
  "js_or a b = (if a = [] then b else a)"

definition buildPeerSnapshot :: "substrate_message \<Rightarrow> author_context \<Rightarrow> peer_snapshot" where
  "buildPeerSnapshot message authorContext =
     \<lparr>peer_contactId = (case ac_canonicalContactKey authorContext of Some k \<Rightarrow> k
        | None \<Rightarrow> (case ac_subjectIdentityKey authorContext of Some k \<Rightarrow> k | None \<Rightarrow> sg_authorId message)),
      peer_displayName = Some (js_or (ac_resolvedUserName authorContext) (sg_authorName message)),
      peer_channelAuthorId = Some (sg_authorId message),
      peer_isMachineIntelligence = (ac_speakingWithIsMachineIntelligence authorContext = Some True)\<rparr>"

definition buildTriggeringAuthorSnapshot ::
  "substrate_message \<Rightarrow> author_context \<Rightarrow> trigger_author_kind \<Rightarrow> actor_snapshot" where
  "buildTriggeringAuthorSnapshot message authorContext kind =
     \<lparr>actor_role = kind,
      actor_contactId = (case ac_canonicalContactKey authorContext of None \<Rightarrow> None
        | Some k \<Rightarrow> if k = [] then None else Some k),
      actor_channelAuthorId = Some (sg_authorId message),
      actor_displayName = Some (js_or (ac_resolvedUserName authorContext) (sg_authorName message)),
      actor_isMachineIntelligence = (ac_speakingWithIsMachineIntelligence authorContext = Some True)\<rparr>"

definition resolveEnforcementDecision ::
  "bool \<Rightarrow> fatigue_base_state \<Rightarrow> hard_state \<Rightarrow> bool \<Rightarrow> turn_enforcement" where
  "resolveEnforcementDecision spendsFatigue baseState hardState overchargePermitted =
     (if \<not> spendsFatigue then Allowed_free
      else if overchargePermitted then Overcharge_charged
      else if baseState = Base_hard_exhausted \<or> hardState = Hard_exhausted then Suppressed_hard_exhausted
      else if baseState = Base_soft_exhausted \<or> baseState = Base_wrap_up_allowed then Wrap_up_charged
      else Allowed_charged)"

definition resolveRecentHumanParticipation ::
  "trigger_author_kind \<Rightarrow> human_participation option \<Rightarrow> human_participation" where
  "resolveRecentHumanParticipation triggerAuthorKind recentHumanParticipation =
     (case recentHumanParticipation of Some p \<Rightarrow> p
      | None \<Rightarrow> if triggerAuthorKind = Human
          then \<lparr>hp_messageCount = Fin 1, hp_participantCount = Fin 1, hp_latestMessageAgeMs = Some (Fin 0)\<rparr>
          else \<lparr>hp_messageCount = Fin 0, hp_participantCount = Fin 0, hp_latestMessageAgeMs = None\<rparr>)"

text \<open>The reason an overcharge is recorded with: the first that holds, in the order of the policy.\<close>

definition first_reason :: "overcharge_reason list \<Rightarrow> overcharge_reason" where
  "first_reason reasons =
     (if Overcharge_recent_human_participation \<in> set reasons then Overcharge_recent_human_participation
      else if Overcharge_work_intent_wrapup \<in> set reasons then Overcharge_work_intent_wrapup
      else Overcharge_explicit_peer_invitation)"

definition selectOverchargeReason :: "policy_evaluation \<Rightarrow> overcharge_reason" where
  "selectOverchargeReason policy = first_reason (or_reasons (pe_overcharge policy))"

section \<open>The decision\<close>

definition projected_budget :: "budget_evaluation \<Rightarrow> real \<Rightarrow> budget_metadata" where
  "projected_budget evaluation hardLimit =
     (let before = ev_stateBefore evaluation; after = ev_stateAfter evaluation in
      \<lparr>bm_spentBefore = bst_spent before, bm_remainingBefore = bst_remainingAllowance before,
       bm_allowance = bst_allowance before, bm_softLimit = bst_softLimit before, bm_hardLimit = hardLimit,
       bm_amount = ev_amount evaluation, bm_spentAfterProjected = bst_spent after,
       bm_remainingAfterProjected = bst_remainingAllowance after,
       bm_normalSpentBefore = bst_normalSpent before, bm_normalSpentAfterProjected = bst_normalSpent after,
       bm_overchargeSpentBefore = bst_overchargeSpent before,
       bm_overchargeSpentAfterProjected = bst_overchargeSpent after,
       bm_overchargeAllowance = bst_overchargeAllowance before,
       bm_overchargeRemainingBefore = bst_remainingOvercharge before,
       bm_overchargeRemainingAfterProjected = bst_remainingOvercharge after\<rparr>)"

definition build_metadata ::
  "turn_enforcement \<Rightarrow> policy_evaluation \<Rightarrow> budget_evaluation \<Rightarrow> bool \<Rightarrow> blocked_reason list \<Rightarrow> regulation_metadata \<Rightarrow>
     enforcement_metadata" where
  "build_metadata decision policy evaluation overchargePermitted overchargeBlockedReasons socialRegulation =
     (let suppressModel = (decision = Suppressed_hard_exhausted) in
      \<lparr>em_decision = decision,
       em_modelDisposition = (if suppressModel then Model_suppressed else Model_allowed),
       em_alertInjected = (decision \<noteq> Suppressed_hard_exhausted \<and> decision \<noteq> Allowed_free
         \<and> sm_state socialRegulation \<noteq> Regulation_normal),
       em_shouldRecordSpend = (\<not> suppressModel \<and> sp_spendsFatigue (pe_spend policy) \<and> ev_amount evaluation > 0),
       em_spendDecision = ev_decision evaluation, em_spendReason = ev_reason evaluation,
       em_policyState = pe_state policy, em_policyBaseState = pe_baseState policy, em_intent = pe_intent policy,
       em_relationshipClass = pe_relationshipClass policy, em_channelSetting = pe_channelSetting policy,
       em_overchargeEligible = or_eligible (pe_overcharge policy), em_overchargePermitted = overchargePermitted,
       em_overchargeBlockedReasons = overchargeBlockedReasons,
       em_overchargeReasons = or_reasons (pe_overcharge policy), em_scope = ev_scope evaluation,
       em_peer = ev_peer evaluation, em_triggeringAuthor = ev_triggeringAuthor evaluation,
       em_budget = projected_budget evaluation (pe_hardCap policy),
       em_socialRegulation = socialRegulation, em_recordedEvent = None\<rparr>)"

definition createMetadata ::
  "turn_enforcement \<Rightarrow> policy_evaluation \<Rightarrow> budget_evaluation \<Rightarrow> bool \<Rightarrow> blocked_reason list \<Rightarrow> regulation_metadata \<Rightarrow>
     enforcement_metadata result" where
  "createMetadata decision policy evaluation overchargePermitted overchargeBlockedReasons socialRegulation =
     (let metadata = build_metadata decision policy evaluation overchargePermitted overchargeBlockedReasons socialRegulation in
      rbind (assertFatigueEnforcementMetadataInvariants metadata) (\<lambda>_. Inr metadata))"

definition policy_input_of :: "turn_input \<Rightarrow> policy_input" where
  "policy_input_of input =
     (let message = ti_message input; author = ti_authorContext input;
          triggerAuthorKind = resolveTriggerAuthorKind author;
          peer = buildPeerSnapshot message author;
          channelType = resolvePolicyChannelType message (ti_channelType input) (ti_channelMeta input);
          recentHumanParticipation = resolveRecentHumanParticipation triggerAuthorKind (ti_recentHumanParticipation input)
      in \<lparr>pi_config = ti_fatiguePolicy input,
          pi_peer = \<lparr>pp_contactId = peer_contactId peer, pp_isMachineIntelligence = peer_isMachineIntelligence peer,
            pp_relationshipType = (case ac_relationshipType author of Some t \<Rightarrow> t | None \<Rightarrow> Rel_stranger),
            pp_trustLevel = ac_trustLevel author\<rparr>,
          pi_channel = \<lparr>pc_channelId = Some (ti_channelId input), pc_type = channelType, pc_setting = None,
            pc_companionFocused = (channelType = Policy_companion_room),
            pc_companionHosted = (channelType = Policy_companion_room),
            pc_humanParticipantCount = hp_participantCount recentHumanParticipation,
            pc_machineIntelligenceParticipantCount = (if peer_isMachineIntelligence peer then Fin 1 else Fin 0),
            pc_recentMessageCount = Fin 1, pc_recentHumanMessageCount = hp_messageCount recentHumanParticipation\<rparr>,
          pi_recentHumanParticipation = recentHumanParticipation,
          pi_intent = resolveFatigueIntent (ti_taskKind input) (sg_content message) (sg_icpRootInitiationId message \<noteq> None),
          pi_spent = Fin 0, pi_triggerAuthorKind = triggerAuthorKind,
          pi_explicitPeerInvitation = (ti_explicitPeerInvitation input = Some True)\<rparr>)"

definition regulation_of :: "turn_input \<Rightarrow> regulation_input option" where
  "regulation_of input =
     map_option (\<lambda>root. \<lparr>ri_rootInitiationId = root, ri_timestampMs = ti_timestampMs input,
       ri_relationshipPressureHalfLifeMs =
         Fin (sr_relationshipPressureHalfLifeMs (fp_socialRegulation (ti_fatiguePolicy input))),
       ri_relationshipPressureWindowMs =
         Fin (sr_relationshipPressureWindowMs (fp_socialRegulation (ti_fatiguePolicy input)))\<rparr>)
       (sg_icpRootInitiationId (ti_message input))"

definition policy_limits :: "policy_evaluation \<Rightarrow> budget_limits" where
  "policy_limits policy = \<lparr>bl_softLimit = Fin (pe_softTarget policy), bl_hardLimit = Fin (pe_hardCap policy),
     bl_overchargeLimit = Some (Fin (oi_reserveResponses (or_inputs (pe_overcharge policy))))\<rparr>"

text \<open>From the policy and the evaluated budget to the decision.\<close>

definition decide :: "turn_input \<Rightarrow> policy_evaluation \<Rightarrow> budget_evaluation \<Rightarrow> turn_decision result" where
  "decide input policy baseEvaluation =
     (let eligible = or_eligible (pe_overcharge policy);
          reserveAvailable = (bst_remainingOvercharge (ev_stateBefore baseEvaluation) \<ge> ev_amount baseEvaluation
            \<and> ev_amount baseEvaluation > 0);
          overchargeBlockedReasons = or_blockedReasons (pe_overcharge policy)
            @ (if eligible \<and> \<not> reserveAvailable then [Blocked_overcharge_reserve_exhausted] else []);
          overchargePermitted = (eligible \<and> reserveAvailable);
          evaluation = (if overchargePermitted
            then createOverchargeFatigueEvaluation baseEvaluation (selectOverchargeReason policy) else baseEvaluation);
          decision = resolveEnforcementDecision (sp_spendsFatigue (pe_spend policy)) (pe_baseState policy)
            (bst_hardState (ev_stateBefore evaluation)) overchargePermitted;
          socialRegulation = projectFatigueSocialRegulation (ti_fatiguePolicy input) decision (pe_baseState policy)
            (pe_intent policy) (if ti_taskKind input = Some [] then None else ti_taskKind input)
            (oi_hasRecentHumanParticipation (or_inputs (pe_overcharge policy)))
            (ti_explicitPeerInvitation input = Some True) None (ev_stateBefore evaluation) (ev_amount evaluation)
      in rbind (createMetadata decision policy evaluation overchargePermitted overchargeBlockedReasons socialRegulation) (\<lambda>metadata.
         Inr \<lparr>td_metadata = metadata, td_evaluation = evaluation,
              td_suppressModel = (decision = Suppressed_hard_exhausted),
              td_shouldRecordSpend = em_shouldRecordSpend metadata\<rparr>))"

definition evaluateFatigueForTurn :: "'h fatigue_history \<Rightarrow> jsnum \<Rightarrow> turn_input \<Rightarrow> 'h \<Rightarrow> turn_decision result" where
  "evaluateFatigueForTurn port now input h =
     (let message = ti_message input; author = ti_authorContext input;
          peer = buildPeerSnapshot message author;
          triggeringAuthor = buildTriggeringAuthorSnapshot message author (resolveTriggerAuthorKind author);
          policyInputBase = policy_input_of input in
      rbind (evaluateFatiguePolicy policyInputBase) (\<lambda>preliminaryPolicy.
      rbind (makeFatigueDayKey (ti_timestampMs input)) (\<lambda>dayKey.
      rbind (readState port now \<lparr>rs_localCompanionId = ti_localCompanionId input, rs_peerContactId = peer_contactId peer,
               rs_channelId = ti_channelId input, rs_dayKey = Some dayKey, rs_limits = policy_limits preliminaryPolicy,
               rs_regulation = regulation_of input\<rparr> h) (\<lambda>stateBefore.
      rbind (evaluateFatiguePolicy (policyInputBase\<lparr>pi_spent := Fin (bst_normalSpent stateBefore)\<rparr>)) (\<lambda>policy.
      rbind (evaluateBudget port now \<lparr>ei_localCompanionId = ti_localCompanionId input, ei_channelId = ti_channelId input,
               ei_peer = peer, ei_triggeringAuthor = triggeringAuthor, ei_limits = policy_limits policy,
               ei_timestampMs = Some (ti_timestampMs input), ei_correlation = Some (ti_correlation input),
               ei_regulation = regulation_of input\<rparr> h) (\<lambda>baseEvaluation.
      decide input policy baseEvaluation))))))"

definition attachRecordedFatigueEvent :: "enforcement_metadata \<Rightarrow> fatigue_event \<Rightarrow> enforcement_metadata" where
  "attachRecordedFatigueEvent metadata event = metadata\<lparr>em_recordedEvent := Some
     \<lparr>re_timestampMs = fe_timestampMs event, re_amount = fe_amount event, re_decision = fe_decision event,
      re_reason = fe_reason event, re_spentAfter = fe_spentAfter event, re_remainingAllowance = fe_remainingAllowance event,
      re_normalSpentAfter = fe_normalSpentAfter event, re_overchargeSpentAfter = fe_overchargeSpentAfter event,
      re_overchargeAllowance = fe_overchargeAllowance event, re_remainingOvercharge = fe_remainingOvercharge event,
      re_softState = fe_softState event, re_hardState = fe_hardState event\<rparr>\<rparr>"

section \<open>Reconciliation with the shared reservation\<close>

datatype reservation_outcome = Reservation_reserved | Reservation_replayed | Reservation_exhausted

record reservation_result =
  rr_outcome :: reservation_outcome
  rr_normalSpentBefore :: real
  rr_overchargeSpentBefore :: real
  rr_relationshipPressure :: real
  rr_rootNormalSpent :: real
  rr_rootOverchargeSpent :: real
  rr_contributingReservationCount :: nat

definition resolveReconciledPolicyBaseState ::
  "fatigue_policy_config \<Rightarrow> real \<Rightarrow> real \<Rightarrow> real \<Rightarrow> real \<Rightarrow> fatigue_base_state" where
  "resolveReconciledPolicyBaseState config normalSpentBefore relationshipPressure softLimit hardLimit =
     (if normalSpentBefore \<ge> hardLimit then Base_hard_exhausted
      else if hardLimit - normalSpentBefore \<le> th_wrapUpRemainingResponses (fp_stateThresholds config) then Base_wrap_up_allowed
      else let softSpend = resolveEffectiveSoftSpend normalSpentBefore relationshipPressure in
        if softSpend \<ge> softLimit then Base_soft_exhausted
        else if softLimit - softSpend \<le> th_nearingLimitRemainingResponses (fp_stateThresholds config) then Base_nearing_limit
        else Base_normal)"

definition resolveReconciledOverchargeReasons :: "enforcement_metadata \<Rightarrow> overcharge_reason list" where
  "resolveReconciledOverchargeReasons metadata =
     (let evidence = set (sm_continuationEvidence (em_socialRegulation metadata)) in
      (if Evidence_recent_human_participation \<in> evidence then [Overcharge_recent_human_participation] else [])
      @ (if Evidence_active_work_or_research \<in> evidence then [Overcharge_work_intent_wrapup] else [])
      @ (if Evidence_explicit_peer_invitation \<in> evidence then [Overcharge_explicit_peer_invitation] else []))"

definition reconcileFatigueWithReservationSnapshot ::
  "turn_decision \<Rightarrow> reservation_result \<Rightarrow> fatigue_policy_config \<Rightarrow> bool \<Rightarrow> turn_decision result" where
  "reconcileFatigueWithReservationSnapshot fatigueDecision reservation fatiguePolicy overcharge =
     throwIf (rr_outcome reservation = Reservation_exhausted) ''A reserved fatigue snapshot is required for reconciliation'' (
     let before = td_metadata fatigueDecision;
         reasons = resolveReconciledOverchargeReasons before;
         reason = (if overcharge then Reason_overcharge (first_reason reasons) else Reason_machine_intelligence_response);
         spendDecision = (if overcharge then Decision_overcharge else Decision_charged);
         evaluation = rebaseFatigueEvaluation (td_evaluation fatigueDecision) spendDecision reason
           (rr_normalSpentBefore reservation) (rr_overchargeSpentBefore reservation) (rr_relationshipPressure reservation)
           (rr_rootNormalSpent reservation) (rr_rootOverchargeSpent reservation) (rr_contributingReservationCount reservation);
         state = ev_stateBefore evaluation;
         policyBaseState = resolveReconciledPolicyBaseState fatiguePolicy (bst_normalSpent state)
           (rr_relationshipPressure reservation) (bst_softLimit state) (bst_allowance state)
     in throwIf (\<not> overcharge \<and> policyBaseState = Base_hard_exhausted)
          ''Shared fatigue reservation returned a charged slot after hard exhaustion'' (
     let overchargeEligible = (policyBaseState = Base_hard_exhausted \<and> oc_enabled (fp_overcharge fatiguePolicy) \<and> reasons \<noteq> [])
     in throwIf (overcharge \<and> \<not> overchargeEligible) ''Shared fatigue reservation returned an ineligible overcharge slot'' (
     let overchargeBlockedReasons = (if overchargeEligible then []
           else (if \<not> oc_enabled (fp_overcharge fatiguePolicy) then [Blocked_overcharge_disabled] else [])
             @ (if policyBaseState \<noteq> Base_hard_exhausted then [Blocked_normal_allowance_not_exhausted] else [])
             @ (if reasons = [] then [Blocked_no_qualifying_overcharge_trigger] else []));
         decision = (if overcharge then Overcharge_charged
           else if policyBaseState = Base_soft_exhausted \<or> policyBaseState = Base_wrap_up_allowed then Wrap_up_charged
           else Allowed_charged);
         evidence = sm_continuationEvidence (em_socialRegulation before);
         socialRegulation = projectFatigueSocialRegulation fatiguePolicy decision policyBaseState (em_intent before) None
           (Evidence_recent_human_participation \<in> set evidence) False (Some evidence) state (ev_amount evaluation);
         metadata = before\<lparr>em_decision := decision, em_modelDisposition := Model_allowed,
           em_alertInjected := (sm_state socialRegulation \<noteq> Regulation_normal), em_shouldRecordSpend := True,
           em_spendDecision := spendDecision, em_spendReason := reason,
           em_policyState := (if overchargeEligible then State_overcharge_eligible else State_base policyBaseState),
           em_policyBaseState := policyBaseState, em_overchargeEligible := overchargeEligible,
           em_overchargePermitted := overcharge, em_overchargeBlockedReasons := overchargeBlockedReasons,
           em_overchargeReasons := (if overchargeEligible then reasons else []),
           em_budget := projected_budget evaluation (bst_allowance state), em_socialRegulation := socialRegulation\<rparr>
     in rbind (assertFatigueEnforcementMetadataInvariants metadata) (\<lambda>_.
        Inr \<lparr>td_metadata = metadata, td_evaluation = evaluation, td_suppressModel = False, td_shouldRecordSpend = True\<rparr>))))"

definition suppressFatigueAfterReservationExhaustion ::
  "enforcement_metadata \<Rightarrow> reservation_result \<Rightarrow> fatigue_policy_config \<Rightarrow> enforcement_metadata result" where
  "suppressFatigueAfterReservationExhaustion metadata reservation fatiguePolicy =
     throwIf (rr_outcome reservation \<noteq> Reservation_exhausted)
       ''Fatigue reservation reconciliation requires an exhausted snapshot'' (
     let budget = em_budget metadata; regulation = em_socialRegulation metadata;
         normalSpentBefore = max (bm_hardLimit budget) (rr_normalSpentBefore reservation);
         overchargeSpentBefore = rr_overchargeSpentBefore reservation;
         overchargeReasons = resolveReconciledOverchargeReasons metadata;
         overchargeEligible = (oc_enabled (fp_overcharge fatiguePolicy) \<and> overchargeReasons \<noteq> []);
         overchargeRemaining = max 0 (bm_overchargeAllowance budget - overchargeSpentBefore);
         suppressed = metadata\<lparr>em_decision := Suppressed_hard_exhausted, em_modelDisposition := Model_suppressed,
           em_alertInjected := False, em_shouldRecordSpend := False, em_spendDecision := Decision_charged,
           em_spendReason := Reason_machine_intelligence_response,
           em_policyState := (if overchargeEligible then State_overcharge_eligible else State_base Base_hard_exhausted),
           em_policyBaseState := Base_hard_exhausted, em_overchargeEligible := overchargeEligible,
           em_overchargePermitted := False,
           em_overchargeBlockedReasons := (if overchargeEligible then [Blocked_overcharge_reserve_exhausted]
             else (if \<not> oc_enabled (fp_overcharge fatiguePolicy) then [Blocked_overcharge_disabled] else [])
               @ (if overchargeReasons = [] then [Blocked_no_qualifying_overcharge_trigger] else [])),
           em_overchargeReasons := (if overchargeEligible then overchargeReasons else []),
           em_budget := budget\<lparr>bm_spentBefore := normalSpentBefore + overchargeSpentBefore, bm_remainingBefore := 0,
             bm_amount := 1, bm_spentAfterProjected := normalSpentBefore + overchargeSpentBefore + 1,
             bm_remainingAfterProjected := 0, bm_normalSpentBefore := normalSpentBefore,
             bm_normalSpentAfterProjected := normalSpentBefore + 1, bm_overchargeSpentBefore := overchargeSpentBefore,
             bm_overchargeSpentAfterProjected := overchargeSpentBefore,
             bm_overchargeRemainingBefore := overchargeRemaining,
             bm_overchargeRemainingAfterProjected := overchargeRemaining\<rparr>,
           em_socialRegulation := regulation\<lparr>sm_state := Regulation_suppressed, sm_chargeLane := Lane_interactive,
             sm_relationshipPressure := rr_relationshipPressure reservation,
             sm_rootNormalSpent := rr_rootNormalSpent reservation,
             sm_rootOverchargeSpent := rr_rootOverchargeSpent reservation,
             sm_contributingEventCount := rr_contributingReservationCount reservation, sm_marginalChargeUnits := 0,
             sm_closeoutReserveRemainingBefore := overchargeRemaining,
             sm_closeoutReserveRemainingAfterProjected := overchargeRemaining\<rparr>\<rparr>
     in rbind (assertFatigueEnforcementMetadataInvariants suppressed) (\<lambda>_. Inr suppressed))"

end
