(* ===== verification/Fatigue_Reads.thy ===== *)
theory Fatigue_Reads
  imports Fatigue_Policy Fatigue_Spend
begin

text \<open>
  Reading the fatigue budget with well-formed names and limits always gives a state, with whole
  counts and a pressure within them, and the day key of an instant has the form the rest of the
  subsystem expects.
\<close>

section \<open>The evaluated budget\<close>

lemma normalizeLimits_whole:
  assumes "count_ok s" "count_ok d" "count_ok r" "s \<le> d"
  shows "normalizeLimits \<lparr>bl_softLimit = Fin s, bl_hardLimit = Fin d, bl_overchargeLimit = Some (Fin r)\<rparr>
    = Inr \<lparr>nl_softLimit = s, nl_hardLimit = d, nl_overchargeLimit = r\<rparr>"
proof -
  obtain a b c :: nat where abc: "s = of_nat a" "d = of_nat b" "r = of_nat c" using assms(1-3) by (metis count_okE)
  show ?thesis using assms(4) by (simp add: abc normalizeLimits_def normalizeLimit_def)
qed

lemma count_ok_add: "count_ok x \<Longrightarrow> count_ok y \<Longrightarrow> count_ok (x + y)"
  by (metis count_okE count_ok_simps(1) of_nat_add)

lemma count_ok_monus: "count_ok x \<Longrightarrow> count_ok y \<Longrightarrow> count_ok (max 0 (x - y))"
proof -
  assume "count_ok x" "count_ok y"
  then obtain a b :: nat where ab: "x = of_nat a" "y = of_nat b" by (metis count_okE)
  have "max 0 (real a - real b) = real (a - b)" by (cases "a \<le> b") (simp_all add: of_nat_diff)
  then show ?thesis by (simp add: ab)
qed

lemma count_ok_less: "count_ok x \<Longrightarrow> count_ok y \<Longrightarrow> x < y \<Longrightarrow> x + 1 \<le> y"
proof -
  assume "count_ok x" "count_ok y" "x < y"
  then obtain a b :: nat where ab: "x = of_nat a" "y = of_nat b" by (metis count_okE)
  show ?thesis using \<open>x < y\<close> by (simp add: ab)
qed

lemma count_ok_sum_list: "(\<And>x. x \<in> set xs \<Longrightarrow> count_ok x) \<Longrightarrow> count_ok (sum_list xs)"
  by (induction xs) (simp_all add: count_ok_add)

lemma count_ok_total: "(\<And>e. e \<in> set xs \<Longrightarrow> count_ok (fe_amount e)) \<Longrightarrow> count_ok (total_amount d xs)"
  by (auto simp: total_amount_def intro!: count_ok_sum_list)

text \<open>What regulation adds to a state: pressure is not above the counted spend, and the counts are whole.\<close>

definition regulation_ok :: "real \<Rightarrow> budget_regulation option \<Rightarrow> bool" where
  "regulation_ok n reg \<longleftrightarrow> (case reg of None \<Rightarrow> True
     | Some r \<Rightarrow> 0 \<le> br_relationshipPressure r \<and> br_relationshipPressure r \<le> n
         \<and> count_ok (br_rootNormalSpent r) \<and> count_ok (br_rootOverchargeSpent r))"

lemma resolveRegulatedState_ok:
  assumes "\<And>e. e \<in> set events \<Longrightarrow> count_ok (fe_amount e)" "resolveRegulatedState events r = (n, v, reg, l)"
  shows "count_ok n" "count_ok v" "regulation_ok n (Some reg)"
proof -
  define pressure where "pressure = sum_list (map (\<lambda>e. fe_amount e * 2 powr (- max 0 (numval (ri_timestampMs r)
      - fe_timestampMs e) / numval (ri_relationshipPressureHalfLifeMs r))) (filter (\<lambda>e. fe_decision e = Decision_charged) events))"
  have a: "0 \<le> fe_amount e" if "e \<in> set events" for e using count_ok_nonneg assms(1) that by blast
  have p: "0 \<le> pressure" unfolding pressure_def by (auto intro!: sum_list_nonneg mult_nonneg_nonneg a)
  let ?root = "filter (\<lambda>e. corr_rootInitiationId (fe_correlation e) = Some (ri_rootInitiationId r)) events"
  have t: "count_ok (total_amount d ?root)" for d using assms(1) by (auto intro!: count_ok_total)
  have eq: "n = max (total_amount Decision_charged ?root) (of_int \<lceil>pressure\<rceil>)" "v = total_amount Decision_overcharge ?root"
    "br_relationshipPressure reg = pressure" "br_rootNormalSpent reg = total_amount Decision_charged ?root"
    "br_rootOverchargeSpent reg = total_amount Decision_overcharge ?root"
    using assms(2) by (auto simp: resolveRegulatedState_def Let_def pressure_def)
  show "count_ok n" "count_ok v" by (simp_all add: eq t count_ok_minmax count_ok_ceiling p)
  show "regulation_ok n (Some reg)" by (simp add: regulation_ok_def eq t p le_max_iff_disj)
qed

text \<open>Reading a state with well-formed names and limits.\<close>

definition regulation_input_ok :: "regulation_input option \<Rightarrow> bool" where
  "regulation_input_ok reg \<longleftrightarrow> (case reg of None \<Rightarrow> True | Some r \<Rightarrow> \<not> isl (normalizeRegulation r))"

definition amounts_ok :: "'h fatigue_history \<Rightarrow> 'h \<Rightarrow> bool" where
  "amounts_ok port h \<longleftrightarrow> (\<forall>q. \<forall>e \<in> set (fh_list port q h). count_ok (fe_amount e))"

lemma readState_ok:
  assumes "amounts_ok port h"
    and "normalizeLimits (rs_limits input) = Inr L"
    and "js_trim (rs_localCompanionId input) \<noteq> []" "js_trim (rs_peerContactId input) \<noteq> []" "js_trim (rs_channelId input) \<noteq> []"
    and "kept (rs_dayKey input) = Some key" "regulation_input_ok (rs_regulation input)"
  shows "\<exists>n v reg l. readState port now input h = Inr (createState \<lparr>bs_localCompanionId = js_trim (rs_localCompanionId input),
      bs_peerContactId = js_trim (rs_peerContactId input), bs_channelId = js_trim (rs_channelId input), bs_dayKey = key\<rparr>
      n v L reg l) \<and> count_ok n \<and> count_ok v \<and> regulation_ok n reg \<and> (reg = None \<longleftrightarrow> rs_regulation input = None)"
proof (cases "rs_regulation input")
  case None
  define events where "events = fh_list port (any_query\<lparr>lq_localCompanionId := Some (js_trim (rs_localCompanionId input)),
      lq_peerContactId := Some (js_trim (rs_peerContactId input)), lq_channelId := Some (js_trim (rs_channelId input)),
      lq_dayKey := Some key\<rparr>) h"
  let ?l = "if sort_key (\<lambda>e. - fe_timestampMs e) events = [] then None else Some (hd (sort_key (\<lambda>e. - fe_timestampMs e) events))"
  have "readState port now input h = Inr (createState \<lparr>bs_localCompanionId = js_trim (rs_localCompanionId input),
      bs_peerContactId = js_trim (rs_peerContactId input), bs_channelId = js_trim (rs_channelId input), bs_dayKey = key\<rparr>
      (total_amount Decision_charged events) (total_amount Decision_overcharge events) L None ?l)"
    using assms(2-6) None by (simp add: readState_def normalizeRequiredString_def Let_def events_def)
  moreover have "count_ok (total_amount d events)" for d
    using assms(1) unfolding events_def amounts_ok_def by (intro count_ok_total) blast
  moreover have "regulation_ok n None" for n by (simp add: regulation_ok_def)
  ultimately show ?thesis using None by blast
next
  case (Some r)
  then obtain r' where r': "normalizeRegulation r = Inr r'" using assms(7)
    by (auto simp: regulation_input_ok_def isl_def) (metis sum.exhaust)
  define events where "events = fh_list port (any_query\<lparr>lq_localCompanionId := Some (js_trim (rs_localCompanionId input)),
      lq_peerContactId := Some (js_trim (rs_peerContactId input)),
      lq_sinceMs := Some (max 0 (numval (ri_timestampMs r') - numval (ri_relationshipPressureWindowMs r'))),
      lq_untilMs := Some (numval (ri_timestampMs r'))\<rparr>) h"
  obtain n v reg l where x: "resolveRegulatedState events r' = (n, v, reg, l)" by (metis prod_cases4)
  have "readState port now input h = Inr (createState \<lparr>bs_localCompanionId = js_trim (rs_localCompanionId input),
      bs_peerContactId = js_trim (rs_peerContactId input), bs_channelId = js_trim (rs_channelId input), bs_dayKey = key\<rparr>
      n v L (Some reg) l)"
    using assms(2-6) Some r' x by (simp add: readState_def normalizeRequiredString_def Let_def events_def)
  moreover have "count_ok n" "count_ok v" "regulation_ok n (Some reg)"
    using resolveRegulatedState_ok [OF _ x] assms(1) by (simp_all add: events_def amounts_ok_def)
  ultimately show ?thesis using Some by (intro exI [of _ n] exI [of _ v] exI [of _ "Some reg"] exI [of _ l]) simp
qed

section \<open>Day keys\<close>

lemma digits_ok: "length (digits k n) = k" "c \<in> set (digits k n) \<Longrightarrow> c \<in> set ''0123456789''"
proof -
  show "length (digits k n) = k" by (simp add: digits_def)
  show "c \<in> set (digits k n) \<Longrightarrow> c \<in> set ''0123456789''"
    unfolding digits_def by (auto simp only: set_map set_rev image_iff intro!: nth_mem) simp
qed

lemma civil_year:
  assumes "0 \<le> day" "day \<le> 2932896" "civil_from_days day = (y, m, d)"
  shows "0 \<le> y \<and> y \<le> 9999"
proof -
  define z where "z = day + 719468"
  define era where "era = z div 146097"
  define doe where "doe = z mod 146097"
  define yoe where "yoe = (doe - doe div 1460 + doe div 36524 - doe div 146096) div 365"
  define mp where "mp = (5 * (doe - (365 * yoe + yoe div 4 - yoe div 100)) + 2) div 153"
  have z: "0 \<le> z" "z \<le> 3652364" using assms(1,2) by (simp_all add: z_def)
  have era: "0 \<le> era" "era \<le> 24" using z by (simp_all add: era_def)
  have doe: "0 \<le> doe" "doe \<le> 146096" by (simp_all add: doe_def)
  define a b c where "a = doe div 1460" and "b = doe div 36524" and "c = doe div 146096"
  have d: "1460 * a \<le> doe" "doe < 1460 * a + 1460" "36524 * b \<le> doe" "doe < 36524 * b + 36524"
    "146096 * c \<le> doe" "doe < 146096 * c + 146096" "0 \<le> a" "0 \<le> b" "0 \<le> c" "c \<le> 1" "b \<le> 4" "c \<le> b"
    using doe unfolding a_def b_def c_def by (simp_all add: zdiv_mono2)
  define q where "q = doe - a + b - c"
  have q: "0 \<le> q" using d by (simp add: q_def)
  have q': "q \<le> 145999"
  proof (cases "b \<le> 3")
    case True
    then show ?thesis using d unfolding q_def by linarith
  next
    case False
    then have "b = 4" "doe = 146096" using d doe by linarith+
    then show ?thesis by (simp add: q_def a_def c_def)
  qed
  have yq: "yoe = q div 365" by (simp add: yoe_def q_def a_def b_def c_def)
  have yoe: "0 \<le> yoe" "yoe \<le> 399" using q zdiv_mono1 [OF q', of 365] by (simp_all add: yq)
  have last: "145731 \<le> doe" if "yoe = 399"
  proof (rule ccontr)
    assume "\<not> 145731 \<le> doe"
    moreover have "145635 \<le> q" using that mult_div_mod_eq [of 365 q] pos_mod_sign [of 365 q] by (simp add: yq)
    ultimately have "doe < 145731" "145635 \<le> doe - a + b - c" by (simp_all add: q_def)
    moreover from this have "b \<le> 3" "99 \<le> a" using d by linarith+
    ultimately show False using d by linarith
  qed
  have zz: "z = 146097 * era + doe" by (simp add: era_def doe_def)
  have y: "y = yoe + era * 400 + (if (if mp < 10 then mp + 3 else mp - 9) \<le> 2 then 1 else 0)"
    using assms(3) [unfolded civil_from_days_def Let_def, folded z_def, folded era_def doe_def, folded yoe_def, folded mp_def]
    unfolding prod.inject by (elim conjE) (erule sym)
  show ?thesis
  proof (cases "era = 24 \<and> yoe = 399")
    case True
    then have "doe \<le> 146036" using zz z(2) by simp
    then have "mp < 10" using True by (simp add: mp_def)
    moreover have "0 \<le> mp" using last True by (simp add: mp_def)
    ultimately show ?thesis using True y by simp
  next
    case False
    then show ?thesis using era yoe y by auto
  qed
qed

lemma iso_date_matches:
  assumes "0 \<le> day" "day \<le> 2932896"
  shows "matches_day_key (take 10 (iso_date day))"
proof -
  obtain y m d where c: "civil_from_days day = (y, m, d)" by (metis prod_cases3)
  have iso: "iso_date day = digits 4 (nat y) @ ''-'' @ digits 2 (nat m) @ ''-'' @ digits 2 (nat d)"
    using civil_year [OF assms c] by (simp add: iso_date_def c)
  let ?d = "\<lambda>c. c \<in> set ''0123456789''"
  have all: "list_all2 (\<lambda>p c. p c) (replicate k ?d) (digits k n)" for k n
    unfolding list_all2_conv_all_nth
  proof (intro conjI allI impI)
    show "length (replicate k ?d) = length (digits k n)" by (simp add: digits_ok(1))
    show "(replicate k ?d ! i) (digits k n ! i)" if "i < length (replicate k ?d)" for i
      using that digits_ok(2) [of "digits k n ! i" k n] digits_ok(1) [of k n] by simp
  qed
  have pat: "day_key_pattern = replicate 4 ?d @ [\<lambda>c. c = CHR ''-''] @ replicate 2 ?d @ [\<lambda>c. c = CHR ''-''] @ replicate 2 ?d"
    by (simp add: day_key_pattern_def Let_def numeral_eq_Suc)
  have "length (iso_date day) = 10" by (simp add: iso digits_ok(1))
  then have "take 10 (iso_date day) = iso_date day" by simp
  then show ?thesis unfolding matches_day_key_def pat iso by (simp only:) (intro list_all2_appendI all; simp)
qed

lemma digit_not_white: "c \<in> set ''0123456789'' \<Longrightarrow> c \<notin> set white_space"
  by (simp add: white_space_def) (elim disjE; simp)

lemma matches_day_key_trim:
  assumes "matches_day_key k"
  shows "js_trim k = k" "k \<noteq> []"
proof -
  have len: "length k = 10" using assms by (auto simp: matches_day_key_def day_key_pattern_def Let_def dest: list_all2_lengthD)
  then show "k \<noteq> []" by auto
  have "(day_key_pattern ! i) (k ! i)" if "i < 10" for i
    using assms that len by (auto simp: matches_day_key_def list_all2_conv_all_nth)
  from this [of 0] this [of 9] have "k ! 0 \<in> set ''0123456789''" "k ! 9 \<in> set ''0123456789''"
    by (simp_all add: day_key_pattern_def Let_def)
  then have "k ! 0 \<notin> set white_space" "k ! 9 \<notin> set white_space" using digit_not_white by blast+
  then show "js_trim k = k" using len \<open>k \<noteq> []\<close> by (intro trim_ends) (simp_all add: hd_conv_nth last_conv_nth)
qed

end
