(* ===== verification/Fatigue_Consistency.thy ===== *)
theory Fatigue_Consistency
  imports Fatigue_Turn Fatigue_Reads
begin

text \<open>
  The decision of a turn and the production invariant agree: for every well-formed turn a decision
  is made, the invariant accepts it, and what it lets a companion spend stays within the owner's
  caps.
\<close>

section \<open>Each part of the invariant\<close>

lemma failIf_simps [simp]: "failIf False f k = k" "failIf b f k = Inr x \<longleftrightarrow> \<not> b \<and> k = Inr x"
  by (simp_all add: failIf_def)

lemma createState_fields [simp]:
  "bst_scope (createState s n v L r l) = s" "bst_spent (createState s n v L r l) = n + v"
  "bst_normalSpent (createState s n v L r l) = n" "bst_overchargeSpent (createState s n v L r l) = v"
  "bst_remainingAllowance (createState s n v L r l) = max 0 (nl_hardLimit L - n)"
  "bst_allowance (createState s n v L r l) = nl_hardLimit L" "bst_softLimit (createState s n v L r l) = nl_softLimit L"
  "bst_overchargeAllowance (createState s n v L r l) = nl_overchargeLimit L"
  "bst_remainingOvercharge (createState s n v L r l) = max 0 (nl_overchargeLimit L - v)"
  "bst_hardState (createState s n v L r l) = (if n \<ge> nl_hardLimit L then Hard_exhausted else Hard_available)"
  "bst_regulation (createState s n v L r l) = r" "bst_lastEvent (createState s n v L r l) = l"
  "limits_of (createState s n v L r l) = L"
  by (simp_all add: createState_def Let_def limits_of_def)

definition limits_ok :: "normal_limits \<Rightarrow> bool" where
  "limits_ok L \<longleftrightarrow> count_ok (nl_softLimit L) \<and> count_ok (nl_hardLimit L) \<and> count_ok (nl_overchargeLimit L)
     \<and> nl_softLimit L \<le> nl_hardLimit L"

lemma resolveRegulationState_simps [simp]:
  "resolveRegulationState d b a s m ro amt = Regulation_suppressed \<longleftrightarrow> d = Suppressed_hard_exhausted"
  by (auto simp: resolveRegulationState_def Let_def)

lemma assertSocialRegulation_ok:
  assumes "em_socialRegulation m = projectFatigueSocialRegulation config d base intent tk recent invited ev (createState s n v L reg l) amt"
    and "em_decision m = d" "em_modelDisposition m = (if d = Suppressed_hard_exhausted then Model_suppressed else Model_allowed)"
    and "em_alertInjected m = (d \<noteq> Suppressed_hard_exhausted \<and> d \<noteq> Allowed_free
      \<and> sm_state (em_socialRegulation m) \<noteq> Regulation_normal)"
    and "bm_overchargeRemainingBefore (em_budget m) = max 0 (nl_overchargeLimit L - v)"
    and "bm_overchargeRemainingAfterProjected (em_budget m) = max 0 (max 0 (nl_overchargeLimit L - v) - (if d = Overcharge_charged then amt else 0))"
    and "policy_config_ok config" "limits_ok L" "count_ok n" "count_ok v" "count_ok amt" "regulation_ok n reg"
    and "\<forall>e \<in> set_option ev. distinct e"
  shows "assertSocialRegulationInvariants m = Inr ()"
proof -
  have c: "count_ok (sr_marginalChargeUnits (fp_socialRegulation config))" "1 \<le> sr_marginalChargeUnits (fp_socialRegulation config)"
    using assms(7) by (simp_all add: policy_config_ok_def)
  have r: "count_ok (max 0 (nl_overchargeLimit L - v))" using assms(8,10) by (simp add: limits_ok_def count_ok_monus)
  then have r': "count_ok (max 0 (max 0 (nl_overchargeLimit L - v) - (if d = Overcharge_charged then amt else 0)))"
    using assms(11) by (auto intro: count_ok_monus)
  have dist: "distinct (resolveContinuationEvidence a b x y)" for a b x y by (auto simp: resolveContinuationEvidence_def)
  have ev: "distinct (case ev of Some e \<Rightarrow> e | None \<Rightarrow> resolveContinuationEvidence a b x y)" for a b x y
    using assms(13) dist by (cases ev) auto
  have n: "0 \<le> n" using assms(9) by (rule count_ok_nonneg)
  show ?thesis
    using c r r' n assms(9,10,12)
    by (cases reg) (simp_all add: assertSocialRegulationInvariants_def assms(1-6) projectFatigueSocialRegulation_def Let_def
        regulation_ok_def ev del: max.absorb1 max.absorb2)
qed

lemma assertBudget_ok:
  assumes "em_budget m = projected_budget ev (nl_hardLimit L)" "ev_stateBefore ev = createState s n v L r l"
    and "ev_stateAfter ev = createState s (n + spend_if Decision_charged (em_spendDecision m) (ev_amount ev))
           (v + spend_if Decision_overcharge (em_spendDecision m) (ev_amount ev)) L r l"
    and "limits_ok L" "count_ok n" "count_ok v" "count_ok (ev_amount ev)"
  shows "assertBudgetInvariants m = Inr ()"
  using assms(4-7)
  by (simp add: assertBudgetInvariants_def assms(1-3) projected_budget_def Let_def budget_values_def limits_ok_def
      spend_if_def count_ok_add count_ok_monus)

lemma assertPolicyState_ok:
  assumes "em_policyBaseState m = computeBaseState n (nl_softLimit L) (nl_hardLimit L) config (peer_isMachineIntelligence (em_peer m))"
    and "bm_normalSpentBefore (em_budget m) = n" "bm_softLimit (em_budget m) = nl_softLimit L" "bm_hardLimit (em_budget m) = nl_hardLimit L"
    and "sm_relationshipPressure (em_socialRegulation m) \<le> n" "policy_config_ok config"
  shows "assertPolicyStateBudgetInvariants m = Inr ()"
proof -
  have "max n (sm_relationshipPressure (em_socialRegulation m)) = n" using assms(5) by simp
  moreover have "0 \<le> th_wrapUpRemainingResponses (fp_stateThresholds config)"
    using assms(6) by (simp add: policy_config_ok_def count_ok_nonneg)
  ultimately show ?thesis
    by (simp add: assertPolicyStateBudgetInvariants_def assms(1-4) Let_def resolveEffectiveSoftSpend_def computeBaseState_def)
qed


section \<open>Overcharges\<close>

lemma computeOvercharge_spec [rule_format]:
  assumes "ov = computeOvercharge config mi spend human base intent invited"
  shows "or_eligible ov \<longleftrightarrow> or_blockedReasons ov = []"
    "\<not> or_eligible ov \<longrightarrow> or_reasons ov = []" "or_eligible ov \<longrightarrow> or_reasons ov \<noteq> []"
    "hasCanonicalOrder (or_reasons ov) OVERCHARGE_REASON_ORDER" "distinct (or_reasons ov)"
    "hasCanonicalOrder (or_blockedReasons ov) OVERCHARGE_BLOCKED_REASON_ORDER" "distinct (or_blockedReasons ov)"
    "Blocked_overcharge_reserve_exhausted \<notin> set (or_blockedReasons ov)"
    "or_eligible ov \<longrightarrow> (Overcharge_work_intent_wrapup \<in> set (or_reasons ov) \<longleftrightarrow> isFatigueWorkIntent intent)"
    "or_eligible ov \<longrightarrow> (Overcharge_explicit_peer_invitation \<in> set (or_reasons ov) \<longleftrightarrow> invited)"
    "or_eligible ov \<longrightarrow> mi \<and> sp_spendsFatigue spend \<and> base = Base_hard_exhausted"
    "Blocked_no_qualifying_overcharge_trigger \<in> set (or_blockedReasons ov) \<longrightarrow> \<not> isFatigueWorkIntent intent \<and> \<not> invited"
    "Blocked_peer_not_machine_intelligence \<in> set (or_blockedReasons ov) \<longleftrightarrow> \<not> mi"
    "Blocked_turn_does_not_spend_fatigue \<in> set (or_blockedReasons ov) \<longleftrightarrow> \<not> sp_spendsFatigue spend"
    "Blocked_normal_allowance_not_exhausted \<in> set (or_blockedReasons ov) \<longleftrightarrow> base \<noteq> Base_hard_exhausted"
    "oi_reserveResponses (or_inputs ov) = oc_reserveResponses (fp_overcharge config)"
  unfolding assms computeOvercharge_def resolveFatigueOverchargeDeterministicBlockedReasons_def hasCanonicalOrder_def
  by (simp_all add: Let_def split: if_split)


section \<open>The whole invariant\<close>

text \<open>What identifies the two ends of a turn.\<close>

definition ends_ok :: "budget_scope \<Rightarrow> peer_snapshot \<Rightarrow> actor_snapshot \<Rightarrow> bool" where
  "ends_ok scope peer author \<longleftrightarrow>
     js_trim (bs_localCompanionId scope) \<noteq> [] \<and> js_trim (bs_peerContactId scope) \<noteq> [] \<and> js_trim (bs_channelId scope) \<noteq> []
     \<and> matches_day_key (bs_dayKey scope) \<and> bs_peerContactId scope = peer_contactId peer
     \<and> (actor_contactId author = None \<or> actor_contactId author = Some (peer_contactId peer))
     \<and> peer_displayName peer = actor_displayName author
     \<and> actor_isMachineIntelligence author = peer_isMachineIntelligence peer
     \<and> (actor_role author = Machine_intelligence \<longleftrightarrow> peer_isMachineIntelligence peer)
     \<and> peer_channelAuthorId peer \<notin> {None, Some []} \<and> actor_channelAuthorId author = peer_channelAuthorId peer"

definition policy_ok :: "policy_evaluation \<Rightarrow> fatigue_policy_config \<Rightarrow> bool \<Rightarrow> bool \<Rightarrow> bool" where
  "policy_ok p config mi invited \<longleftrightarrow>
     (pe_relationshipClass p = Non_machine_intelligence \<longleftrightarrow> \<not> mi)
     \<and> sp_spendsFatigue (pe_spend p) = mi
     \<and> pe_baseState p = computeBaseState (pe_spent p) (pe_softTarget p) (pe_hardCap p) config mi
     \<and> pe_state p = (if or_eligible (pe_overcharge p) then State_overcharge_eligible else State_base (pe_baseState p))
     \<and> (\<exists>human. pe_overcharge p = computeOvercharge config mi (pe_spend p) human (pe_baseState p) (pe_intent p) invited)
     \<and> count_ok (pe_softTarget p) \<and> count_ok (pe_hardCap p) \<and> pe_softTarget p \<le> pe_hardCap p"

definition pe_limits :: "policy_evaluation \<Rightarrow> normal_limits" where
  "pe_limits p = \<lparr>nl_softLimit = pe_softTarget p, nl_hardLimit = pe_hardCap p,
     nl_overchargeLimit = oi_reserveResponses (or_inputs (pe_overcharge p))\<rparr>"

definition budget_ok :: "budget_evaluation \<Rightarrow> policy_evaluation \<Rightarrow> real \<Rightarrow> bool" where
  "budget_ok ev p v \<longleftrightarrow> count_ok (pe_spent p) \<and> count_ok v \<and> ends_ok (ev_scope ev) (ev_peer ev) (ev_triggeringAuthor ev)
     \<and> (ev_decision ev, ev_reason ev, ev_amount ev) = resolveFatigueSpendUnit (ev_peer ev) (ev_triggeringAuthor ev)
     \<and> (\<exists>reg l. regulation_ok (pe_spent p) reg
         \<and> ev_stateBefore ev = createState (ev_scope ev) (pe_spent p) v (pe_limits p) reg l
         \<and> ev_stateAfter ev = createState (ev_scope ev) (pe_spent p + ev_amount ev) v (pe_limits p) reg l)"

lemma resolveFatigueSpendUnit_mi:
  assumes "ends_ok scope peer author"
  shows "resolveFatigueSpendUnit peer author = (if peer_isMachineIntelligence peer
    then (Decision_charged, Reason_machine_intelligence_response, 1) else (Decision_free, Reason_peer_not_machine_intelligence, 0))"
  using assms by (simp add: resolveFatigueSpendUnit_def ends_ok_def)

lemma assertSnapshot_ok:
  assumes "ends_ok (em_scope m) (em_peer m) (em_triggeringAuthor m)"
  shows "assertSnapshotInvariants m = Inr ()"
  using assms by (auto simp: assertSnapshotInvariants_def ends_ok_def Let_def)

lemma project_evidence:
  "sm_continuationEvidence (projectFatigueSocialRegulation config d base intent tk recent invited None st amt) =
     resolveContinuationEvidence (sr_continuationEvidence (fp_socialRegulation config)) recent
       (isFatigueWorkIntent intent \<and> (case tk of None \<Rightarrow> [] | Some k \<Rightarrow> js_lower (js_trim k)) \<in> {''work'', ''research'', ''problem_solving''})
       invited"
  by (simp add: projectFatigueSocialRegulation_def Let_def)

lemma evidence_invited:
  "Evidence_explicit_peer_invitation \<in> set (resolveContinuationEvidence pol a b c) \<longleftrightarrow> ep_explicitPeerInvitation pol \<and> c"
  by (auto simp: resolveContinuationEvidence_def)

text \<open>The four ways a turn is decided.\<close>

definition permitted :: "policy_evaluation \<Rightarrow> real \<Rightarrow> bool" where
  "permitted p v \<longleftrightarrow> or_eligible (pe_overcharge p) \<and> 1 \<le> max 0 (oi_reserveResponses (or_inputs (pe_overcharge p)) - v)"

definition decided :: "policy_evaluation \<Rightarrow> bool \<Rightarrow> real \<Rightarrow> turn_enforcement" where
  "decided p mi v =
     (if \<not> mi then Allowed_free
      else if permitted p v then Overcharge_charged
      else if pe_hardCap p \<le> pe_spent p then Suppressed_hard_exhausted
      else if pe_baseState p = Base_soft_exhausted \<or> pe_baseState p = Base_wrap_up_allowed then Wrap_up_charged
      else Allowed_charged)"

definition decided_evaluation :: "policy_evaluation \<Rightarrow> real \<Rightarrow> budget_evaluation \<Rightarrow> budget_evaluation" where
  "decided_evaluation p v ev =
     (if permitted p v then createOverchargeFatigueEvaluation ev (selectOverchargeReason p) else ev)"

definition decided_blocked :: "policy_evaluation \<Rightarrow> real \<Rightarrow> blocked_reason list" where
  "decided_blocked p v = or_blockedReasons (pe_overcharge p)
     @ (if or_eligible (pe_overcharge p) \<and> \<not> permitted p v then [Blocked_overcharge_reserve_exhausted] else [])"

lemma hasCanonicalOrder_single [simp]: "hasCanonicalOrder [x] f" "hasCanonicalOrder [] f"
  by (simp_all add: hasCanonicalOrder_def)

lemma decided_evaluation_fields [simp]:
  "ev_peer (decided_evaluation p v ev) = ev_peer ev"
  "ev_triggeringAuthor (decided_evaluation p v ev) = ev_triggeringAuthor ev"
  "ev_amount (decided_evaluation p v ev) = ev_amount ev" "ev_scope (decided_evaluation p v ev) = ev_scope ev"
  "ev_stateBefore (decided_evaluation p v ev) = ev_stateBefore ev"
  "ev_decision (decided_evaluation p v ev) = (if permitted p v then Decision_overcharge else ev_decision ev)"
  "ev_reason (decided_evaluation p v ev) = (if permitted p v then Reason_overcharge (selectOverchargeReason p) else ev_reason ev)"
  by (simp_all add: decided_evaluation_def createOverchargeFatigueEvaluation_def Let_def)

lemma policy_okD:
  assumes "policy_ok p config mi invited"
  shows "pe_relationshipClass p = Non_machine_intelligence \<longleftrightarrow> \<not> mi" "sp_spendsFatigue (pe_spend p) = mi"
    "pe_baseState p = Base_hard_exhausted \<longleftrightarrow> mi \<and> pe_hardCap p \<le> pe_spent p"
    "pe_state p = (if or_eligible (pe_overcharge p) then State_overcharge_eligible else State_base (pe_baseState p))"
    "permitted p v \<Longrightarrow> or_eligible (pe_overcharge p)"
    "or_eligible (pe_overcharge p) \<Longrightarrow> mi \<and> pe_hardCap p \<le> pe_spent p"
proof -
  obtain human where ov: "pe_overcharge p = computeOvercharge config mi (pe_spend p) human (pe_baseState p) (pe_intent p) invited"
    using assms unfolding policy_ok_def by blast
  show *: "pe_relationshipClass p = Non_machine_intelligence \<longleftrightarrow> \<not> mi" "sp_spendsFatigue (pe_spend p) = mi"
    "pe_baseState p = Base_hard_exhausted \<longleftrightarrow> mi \<and> pe_hardCap p \<le> pe_spent p"
    "pe_state p = (if or_eligible (pe_overcharge p) then State_overcharge_eligible else State_base (pe_baseState p))"
    using assms by (simp_all add: policy_ok_def computeBaseState_hard)
  show "or_eligible (pe_overcharge p)" if "permitted p v" using that by (simp add: permitted_def)
  show "mi \<and> pe_hardCap p \<le> pe_spent p" if "or_eligible (pe_overcharge p)"
    using that computeOvercharge_spec(11) [OF ov] * by simp
qed

lemma budget_okD:
  assumes "budget_ok ev p v" "mi = peer_isMachineIntelligence (ev_peer ev)"
  shows "ends_ok (ev_scope ev) (ev_peer ev) (ev_triggeringAuthor ev)" "count_ok (pe_spent p)" "count_ok v"
    "ev_amount ev = (if mi then 1 else 0)" "ev_decision ev = (if mi then Decision_charged else Decision_free)"
    "ev_reason ev = (if mi then Reason_machine_intelligence_response else Reason_peer_not_machine_intelligence)"
proof -
  show e: "ends_ok (ev_scope ev) (ev_peer ev) (ev_triggeringAuthor ev)" "count_ok (pe_spent p)" "count_ok v"
    using assms(1) by (simp_all add: budget_ok_def)
  have "(ev_decision ev, ev_reason ev, ev_amount ev) = resolveFatigueSpendUnit (ev_peer ev) (ev_triggeringAuthor ev)"
    using assms(1) by (simp add: budget_ok_def)
  then show "ev_amount ev = (if mi then 1 else 0)" "ev_decision ev = (if mi then Decision_charged else Decision_free)"
    "ev_reason ev = (if mi then Reason_machine_intelligence_response else Reason_peer_not_machine_intelligence)"
    using resolveFatigueSpendUnit_mi [OF e(1)] assms(2) by (auto split: if_splits)
qed

lemma assertOvercharge_ok:
  assumes "policy_ok p config mi invited" "mi = peer_isMachineIntelligence (ev_peer ev)"
    and "Evidence_explicit_peer_invitation \<in> set (sm_continuationEvidence sr) \<longleftrightarrow> invited"
    and "m = build_metadata (decided p mi v) p (decided_evaluation p v ev) (permitted p v) (decided_blocked p v) sr"
  shows "assertOverchargeInvariants m (if mi then Decision_charged else Decision_free) = Inr ()"
proof -
  obtain human where ov: "pe_overcharge p = computeOvercharge config mi (pe_spend p) human (pe_baseState p) (pe_intent p) invited"
    using assms(1) unfolding policy_ok_def by blast
  note spec = computeOvercharge_spec [OF ov] and p = policy_okD [OF assms(1)]
  note defs = assertOverchargeInvariants_def assms(4) build_metadata_def Let_def decided_blocked_def decided_def
    resolveFatigueOverchargeDeterministicBlockedReasons_def
  show ?thesis
  proof (cases "or_eligible (pe_overcharge p)")
    case True
    then show ?thesis using spec p(2-4,6) assms(2,3) by (simp add: defs)
  next
    case False
    moreover have "\<not> permitted p v" using False by (simp add: permitted_def)
    moreover have "\<not> (isFatigueWorkIntent (pe_intent p) \<and> Blocked_no_qualifying_overcharge_trigger \<in> set (or_blockedReasons (pe_overcharge p)))"
      "\<not> (invited \<and> Blocked_no_qualifying_overcharge_trigger \<in> set (or_blockedReasons (pe_overcharge p)))"
      using spec(12) by blast+
    ultimately show ?thesis using spec(1,2,4-8,13-15) p(2-4) assms(2,3) by (simp add: rbind_eq_Inr defs)
  qed
qed

lemma assertDecision_ok:
  assumes "policy_ok p config mi invited" "budget_ok ev p v" "mi = peer_isMachineIntelligence (ev_peer ev)"
    and "Evidence_explicit_peer_invitation \<in> set (sm_continuationEvidence sr) \<longleftrightarrow> invited"
    and "m = build_metadata (decided p mi v) p (decided_evaluation p v ev) (permitted p v) (decided_blocked p v) sr"
  shows "assertDecisionInvariants m = Inr ()"
proof -
  note p = policy_okD [OF assms(1)] and b = budget_okD [OF assms(2,3)]
  define base where "base = pe_baseState p"
  have base: "base \<in> set (dc_policyBaseStates (DECISION_CONTRACTS (decided p mi v)))"
    using p(3,5,6) by (cases base) (auto simp: decided_def base_def [symmetric])
  have contract: "dc_modelDisposition (DECISION_CONTRACTS (em_decision m)) = em_modelDisposition m"
    "(dc_pendingSpend (DECISION_CONTRACTS (em_decision m)) = Pending_required) = em_shouldRecordSpend m"
    "dc_spendDecision (DECISION_CONTRACTS (em_decision m)) = em_spendDecision m"
    "dc_overchargePermitted (DECISION_CONTRACTS (em_decision m)) = em_overchargePermitted m"
    "bm_amount (em_budget m) = (if dc_spendDecision (DECISION_CONTRACTS (em_decision m)) = Decision_free then 0 else 1)"
    "em_decision m = Allowed_free \<longleftrightarrow> \<not> mi"
    using p(2,5,6) by (auto simp: assms(5) build_metadata_def Let_def b decided_def projected_budget_def)
  have reason: "em_spendReason m = expected_reason m (ev_reason ev)"
    using p(5,6) by (auto simp: expected_reason_def assms(5) build_metadata_def Let_def decided_def selectOverchargeReason_def first_reason_def)
  have m: "em_peer m = ev_peer ev" "em_triggeringAuthor m = ev_triggeringAuthor ev" "em_policyBaseState m = base"
    "em_decision m = decided p mi v" "em_relationshipClass m = pe_relationshipClass p"
    by (simp_all add: assms(5) build_metadata_def Let_def base_def)
  show ?thesis
    using assertOvercharge_ok [OF assms(1,3-5)] base contract reason b(1,4-6) p(1) m assms(3)
    by (cases mi) (simp_all add: assertDecisionInvariants_def Let_def resolveFatigueSpendUnit_mi [OF b(1)] ends_ok_def)
qed

definition decided_regulation :: "turn_input \<Rightarrow> policy_evaluation \<Rightarrow> turn_enforcement \<Rightarrow> budget_evaluation \<Rightarrow> regulation_metadata" where
  "decided_regulation input p d ev = projectFatigueSocialRegulation (ti_fatiguePolicy input) d (pe_baseState p) (pe_intent p)
     (if ti_taskKind input = Some [] then None else ti_taskKind input)
     (oi_hasRecentHumanParticipation (or_inputs (pe_overcharge p)))
     (ti_explicitPeerInvitation input = Some True) None (ev_stateBefore ev) (ev_amount ev)"

lemma decide_run:
  assumes "policy_ok p config mi invited" "budget_ok ev p v" "mi = peer_isMachineIntelligence (ev_peer ev)"
  defines "d \<equiv> decided p mi v" and "ev' \<equiv> decided_evaluation p v ev"
  shows "decide input p ev = rbind (createMetadata d p ev' (permitted p v) (decided_blocked p v) (decided_regulation input p d ev))
      (\<lambda>m. Inr \<lparr>td_metadata = m, td_evaluation = ev', td_suppressModel = (d = Suppressed_hard_exhausted),
        td_shouldRecordSpend = em_shouldRecordSpend m\<rparr>)"
proof -
  note p = policy_okD [OF assms(1)] and b = budget_okD [OF assms(2,3)]
  obtain reg l where st: "ev_stateBefore ev = createState (ev_scope ev) (pe_spent p) v (pe_limits p) reg l"
    using assms(2) by (auto simp: budget_ok_def)
  let ?avail = "bst_remainingOvercharge (ev_stateBefore ev) \<ge> ev_amount ev \<and> ev_amount ev > 0"
  have per: "(or_eligible (pe_overcharge p) \<and> ?avail) = permitted p v"
    using p(6) by (auto simp: permitted_def st pe_limits_def b(4))
  then have blk: "or_blockedReasons (pe_overcharge p) @ (if or_eligible (pe_overcharge p) \<and> \<not> ?avail
      then [Blocked_overcharge_reserve_exhausted] else []) = decided_blocked p v"
    by (auto simp: decided_blocked_def)
  have ev': "(if permitted p v then createOverchargeFatigueEvaluation ev (selectOverchargeReason p) else ev) = ev'"
    by (simp add: ev'_def decided_evaluation_def)
  have dec: "resolveEnforcementDecision (sp_spendsFatigue (pe_spend p)) (pe_baseState p) (bst_hardState (ev_stateBefore ev'))
      (permitted p v) = d"
    using p(2,3,5,6) by (auto simp: ev'_def d_def decided_def resolveEnforcementDecision_def st pe_limits_def)
  show ?thesis unfolding decide_def Let_def per blk ev' dec by (simp add: decided_regulation_def ev'_def)
qed

lemma decide_ok:
  assumes "policy_ok p (ti_fatiguePolicy input) mi invited" "budget_ok ev p v" "mi = peer_isMachineIntelligence (ev_peer ev)"
    and "policy_config_ok (ti_fatiguePolicy input)" "invited = (ti_explicitPeerInvitation input = Some True)"
    and "invited \<longrightarrow> ep_explicitPeerInvitation (sr_continuationEvidence (fp_socialRegulation (ti_fatiguePolicy input)))"
    and "m = build_metadata (decided p mi v) p (decided_evaluation p v ev) (permitted p v) (decided_blocked p v)
      (decided_regulation input p (decided p mi v) ev)"
  shows "assertFatigueEnforcementMetadataInvariants m \<in> range Inr"
proof -
  note p = policy_okD [OF assms(1)] and b = budget_okD [OF assms(2,3)]
  obtain reg l where st: "regulation_ok (pe_spent p) reg"
    "ev_stateBefore ev = createState (ev_scope ev) (pe_spent p) v (pe_limits p) reg l"
    "ev_stateAfter ev = createState (ev_scope ev) (pe_spent p + ev_amount ev) v (pe_limits p) reg l"
    using assms(2) by (auto simp: budget_ok_def)
  obtain human where ov: "pe_overcharge p = computeOvercharge (ti_fatiguePolicy input) mi (pe_spend p) human (pe_baseState p) (pe_intent p) invited"
    using assms(1) unfolding policy_ok_def by blast
  have L: "limits_ok (pe_limits p)"
    using assms(1,4) computeOvercharge_spec(16) [OF ov] by (simp add: limits_ok_def pe_limits_def policy_ok_def policy_config_ok_def)
  have amt: "count_ok (ev_amount ev)" "0 \<le> ev_amount ev" by (simp_all add: b(4))
  have m: "em_socialRegulation m = decided_regulation input p (decided p mi v) ev" "em_decision m = decided p mi v"
    "em_budget m = projected_budget (decided_evaluation p v ev) (pe_hardCap p)" "em_policyBaseState m = pe_baseState p"
    "em_peer m = ev_peer ev" "em_triggeringAuthor m = ev_triggeringAuthor ev" "em_scope m = ev_scope ev"
    "em_spendDecision m = (if permitted p v then Decision_overcharge else ev_decision ev)"
    "em_modelDisposition m = (if decided p mi v = Suppressed_hard_exhausted then Model_suppressed else Model_allowed)"
    "em_alertInjected m = (decided p mi v \<noteq> Suppressed_hard_exhausted \<and> decided p mi v \<noteq> Allowed_free
      \<and> sm_state (em_socialRegulation m) \<noteq> Regulation_normal)"
    by (simp_all add: assms(7) build_metadata_def Let_def)
  have over: "decided p mi v = Overcharge_charged \<longleftrightarrow> permitted p v" using p(5,6) by (auto simp: decided_def)
  have after: "ev_stateAfter (decided_evaluation p v ev) = createState (ev_scope ev)
      (pe_spent p + spend_if Decision_charged (em_spendDecision m) (ev_amount ev))
      (v + spend_if Decision_overcharge (em_spendDecision m) (ev_amount ev)) (pe_limits p) reg l"
    using b(4,5) by (auto simp: decided_evaluation_def createOverchargeFatigueEvaluation_def Let_def st m(8) spend_if_def)
  have soc: "assertSocialRegulationInvariants m = Inr ()"
    by (rule assertSocialRegulation_ok [OF m(1) [unfolded decided_regulation_def st(2)] m(2,9,10) _ _ assms(4) L b(2,3) amt(1) st(1)])
      (use amt(2) in \<open>auto simp: m(3) projected_budget_def Let_def st(2) after over spend_if_def m(8) b(5)\<close>)
  have bud: "assertBudgetInvariants m = Inr ()"
    by (rule assertBudget_ok [where ev = "decided_evaluation p v ev" and L = "pe_limits p", OF _ _ _ L b(2,3)])
      (simp_all add: m(3) pe_limits_def st(2) [unfolded pe_limits_def] after [unfolded pe_limits_def] amt)
  have pol: "assertPolicyStateBudgetInvariants m = Inr ()"
    by (rule assertPolicyState_ok [where n = "pe_spent p" and L = "pe_limits p", OF _ _ _ _ _ assms(4)])
      (use assms(1,3) st(1) in \<open>auto simp: m pe_limits_def projected_budget_def Let_def st(2) policy_ok_def regulation_ok_def
        decided_regulation_def projectFatigueSocialRegulation_def split: option.split\<close>)
  have "Evidence_explicit_peer_invitation \<in> set (sm_continuationEvidence (decided_regulation input p (decided p mi v) ev)) \<longleftrightarrow> invited"
    using assms(6) by (simp add: decided_regulation_def project_evidence evidence_invited flip: assms(5)) blast
  then have dec: "assertDecisionInvariants m = Inr ()" by (rule assertDecision_ok [OF assms(1-3) _ assms(7)])
  have snap: "assertSnapshotInvariants m = Inr ()" by (rule assertSnapshot_ok) (simp add: m b(1))
  show ?thesis by (simp add: assertFatigueEnforcementMetadataInvariants_def soc snap dec bud pol Let_def)
qed

section \<open>Turns\<close>

text \<open>
  A well-formed turn: the owner's policy is one the loader accepts, the companion, the channel, the
  peer and the author have names, the time is one of the years 1970 to 9999, the human participation
  is counted in whole numbers and a regulated turn names its root.
\<close>

definition participation_ok :: "human_participation \<Rightarrow> bool" where
  "participation_ok p \<longleftrightarrow> isFinite (hp_messageCount p) \<and> count_ok (numval (hp_messageCount p))
     \<and> isFinite (hp_participantCount p) \<and> count_ok (numval (hp_participantCount p))"

definition turn_wf :: "turn_input \<Rightarrow> bool" where
  "turn_wf input \<longleftrightarrow> policy_config_ok (ti_fatiguePolicy input)
     \<and> js_trim (ti_localCompanionId input) \<noteq> [] \<and> js_trim (ti_channelId input) \<noteq> []
     \<and> js_trim (peer_contactId (buildPeerSnapshot (ti_message input) (ti_authorContext input))) \<noteq> []
     \<and> js_trim (sg_authorId (ti_message input)) \<noteq> []
     \<and> isFinite (ti_timestampMs input) \<and> 0 \<le> numval (ti_timestampMs input) \<and> numval (ti_timestampMs input) < 253402300800000
     \<and> (case ti_recentHumanParticipation input of None \<Rightarrow> True | Some p \<Rightarrow> participation_ok p)
     \<and> regulation_input_ok (regulation_of input)"

definition from_machine :: "turn_input \<Rightarrow> bool" where
  "from_machine input \<longleftrightarrow> ac_speakingWithIsMachineIntelligence (ti_authorContext input) = Some True"

lemma evaluateFatiguePolicy_total:
  assumes "turn_wf input" "count_ok n"
  obtains p where "evaluateFatiguePolicy ((policy_input_of input)\<lparr>pi_spent := Fin n\<rparr>) = Inr p"
proof -
  have count: "assertPolicyCount v f = Inr (numval v)" if "isFinite v" "count_ok (numval v)" for v f
    using that by (simp add: assertPolicyCount_Inr)
  have "participation_ok (resolveRecentHumanParticipation k (ti_recentHumanParticipation input))" for k
    using assms(1) by (auto simp: turn_wf_def participation_ok_def resolveRecentHumanParticipation_def split: option.splits)
  then have "\<exists>p. evaluateFatiguePolicy ((policy_input_of input)\<lparr>pi_spent := Fin n\<rparr>) = Inr p"
    using assms(2) by (simp add: evaluateFatiguePolicy_def Let_def policy_input_of_def count participation_ok_def)
  then show thesis using that by blast
qed

definition turn_limits :: "turn_input \<Rightarrow> normal_limits" where
  "turn_limits input =
     (let i = policy_input_of input; config = ti_fatiguePolicy input;
          l = computeLimits config (resolveFatigueRelationshipClass (pi_peer i))
                (resolveFatigueChannelSetting (pi_channel i) config) (pi_intent i)
      in \<lparr>nl_softLimit = rb_softTarget l, nl_hardLimit = rb_hardCap l,
          nl_overchargeLimit = oc_reserveResponses (fp_overcharge config)\<rparr>)"

lemma policy_of_turn:
  assumes "turn_wf input" "evaluateFatiguePolicy ((policy_input_of input)\<lparr>pi_spent := Fin n\<rparr>) = Inr p"
  shows "policy_ok p (ti_fatiguePolicy input) (from_machine input) (ti_explicitPeerInvitation input = Some True)"
    "pe_spent p = n" "normalizeLimits (policy_limits p) = Inr (pe_limits p)"
    "pe_limits p = turn_limits input"
proof -
  let ?i = "(policy_input_of input)\<lparr>pi_spent := Fin n\<rparr>" and ?mi = "from_machine input"
  note e = evaluateFatiguePolicy_Inr [OF assms(2)]
  have i: "pi_config ?i = ti_fatiguePolicy input" "pp_isMachineIntelligence (pi_peer ?i) = ?mi"
    "pi_explicitPeerInvitation ?i = (ti_explicitPeerInvitation input = Some True)" "pi_spent ?i = Fin n"
    by (simp_all add: policy_input_of_def Let_def from_machine_def buildPeerSnapshot_def)
  have spend: "sp_spendsFatigue (computeSpend ?i) = ?mi"
    by (simp add: computeSpend_def policy_input_of_def Let_def from_machine_def buildPeerSnapshot_def resolveTriggerAuthorKind_def)
  have cls: "resolveFatigueRelationshipClass (pi_peer ?i) = Non_machine_intelligence \<longleftrightarrow> \<not> ?mi"
    using i(2) by (simp add: resolveFatigueRelationshipClass_def)
  have cfg: "policy_config_ok (pi_config ?i)" using assms(1) i(1) by (simp add: turn_wf_def)
  note lim = computeLimits_ok [OF cfg e(4), simplified response_budget.simps]
  show pol: "policy_ok p (ti_fatiguePolicy input) ?mi (ti_explicitPeerInvitation input = Some True)"
    unfolding policy_ok_def
    using spend cls lim(1-3) e(8) e(9) e(10) by (auto simp only: e(3,6,7) i)
  show "pe_spent p = n" using e(1) i(4) by simp
  have res: "oi_reserveResponses (or_inputs (pe_overcharge p)) = oc_reserveResponses (fp_overcharge (ti_fatiguePolicy input))"
    using computeOvercharge_spec(16) [OF e(9)] i(1) by simp
  then have "count_ok (oi_reserveResponses (or_inputs (pe_overcharge p)))" using cfg i(1) by (simp add: policy_config_ok_def)
  then show "normalizeLimits (policy_limits p) = Inr (pe_limits p)"
    unfolding policy_limits_def pe_limits_def using lim(1-3) by (intro normalizeLimits_whole) simp_all
  show "pe_limits p = turn_limits input"
    using arg_cong [OF e(4), of rb_softTarget] arg_cong [OF e(4), of rb_hardCap] e(3,5) i(1)
    by (simp add: pe_limits_def res Let_def turn_limits_def)
qed

lemma day_key_of_turn:
  assumes "turn_wf input"
  obtains key where "makeFatigueDayKey (ti_timestampMs input) = Inr key" "matches_day_key key" "kept (Some key) = Some key"
proof -
  obtain t where t: "ti_timestampMs input = Fin t" "0 \<le> t" "t < 253402300800000"
    using assms by (cases "ti_timestampMs input") (auto simp: turn_wf_def)
  define day where "day = \<lfloor>t\<rfloor> div 86400000"
  have "\<lfloor>t\<rfloor> < 253402300800000" "0 \<le> \<lfloor>t\<rfloor>" using t(2,3) by (simp_all add: floor_less_iff)
  moreover have "0 \<le> i div 86400000 \<and> i div 86400000 \<le> 2932896" if "0 \<le> i" "i < 253402300800000" for i :: int
    using that zdiv_mono1 [of i 253402300799999 86400000] by simp
  ultimately have "0 \<le> day" "day \<le> 2932896" by (simp_all only: day_def)
  then have k: "matches_day_key (take 10 (iso_date day))" by (rule iso_date_matches)
  have "makeFatigueDayKey (ti_timestampMs input) = Inr (take 10 (iso_date day))"
    using t by (simp add: makeFatigueDayKey_def day_def)
  then show thesis using that k matches_day_key_trim [OF k] by (simp add: kept_def)
qed

lemma readState_trim:
  "readState port now (i\<lparr>rs_peerContactId := js_trim (rs_peerContactId i)\<rparr>) h = readState port now i h"
  by (simp add: readState_def normalizeRequiredString_def Let_def)

definition turn_read :: "turn_input \<Rightarrow> string \<Rightarrow> budget_limits \<Rightarrow> read_state_input" where
  "turn_read input key limits = \<lparr>rs_localCompanionId = ti_localCompanionId input,
     rs_peerContactId = peer_contactId (buildPeerSnapshot (ti_message input) (ti_authorContext input)),
     rs_channelId = ti_channelId input, rs_dayKey = Some key, rs_limits = limits, rs_regulation = regulation_of input\<rparr>"

lemma limits_whole:
  assumes "normalizeLimits (policy_limits p) = Inr (pe_limits p)"
  shows "normalizeLimits (as_limits (pe_limits p)) = Inr (pe_limits p)"
  using assms by (simp add: as_limits_def pe_limits_def policy_limits_def)

definition turn_evaluation :: "turn_input \<Rightarrow> budget_limits \<Rightarrow> evaluation_input" where
  "turn_evaluation input limits = \<lparr>ei_localCompanionId = ti_localCompanionId input, ei_channelId = ti_channelId input,
     ei_peer = buildPeerSnapshot (ti_message input) (ti_authorContext input),
     ei_triggeringAuthor = buildTriggeringAuthorSnapshot (ti_message input) (ti_authorContext input)
       (resolveTriggerAuthorKind (ti_authorContext input)),
     ei_limits = limits, ei_timestampMs = Some (ti_timestampMs input), ei_correlation = Some (ti_correlation input),
     ei_regulation = regulation_of input\<rparr>"

lemma turn_ends:
  assumes "turn_wf input" "matches_day_key key"
    and "scope = \<lparr>bs_localCompanionId = js_trim (ti_localCompanionId input),
      bs_peerContactId = js_trim (peer_contactId (buildPeerSnapshot (ti_message input) (ti_authorContext input))),
      bs_channelId = js_trim (ti_channelId input), bs_dayKey = key\<rparr>"
  obtains peer where "clonePeer (ei_peer (turn_evaluation input L)) = Inr peer"
    "ends_ok scope peer (cloneActor (ei_triggeringAuthor (turn_evaluation input L)))"
    "peer_isMachineIntelligence peer = from_machine input"
    "peer_contactId peer = js_trim (peer_contactId (buildPeerSnapshot (ti_message input) (ti_authorContext input)))"
proof -
  let ?peer = "buildPeerSnapshot (ti_message input) (ti_authorContext input)"
  have n: "js_trim (ti_localCompanionId input) \<noteq> []" "js_trim (ti_channelId input) \<noteq> []" "js_trim (peer_contactId ?peer) \<noteq> []"
    "js_trim (sg_authorId (ti_message input)) \<noteq> []" using assms(1) by (simp_all add: turn_wf_def)
  define peer where "peer = \<lparr>peer_contactId = js_trim (peer_contactId ?peer), peer_displayName = kept (peer_displayName ?peer),
    peer_channelAuthorId = kept (peer_channelAuthorId ?peer), peer_isMachineIntelligence = peer_isMachineIntelligence ?peer\<rparr>"
  have "clonePeer (ei_peer (turn_evaluation input L)) = Inr peer"
    using n(3) by (simp add: clonePeer_def normalizeRequiredString_def turn_evaluation_def peer_def Let_def)
  moreover have "ends_ok scope peer (cloneActor (ei_triggeringAuthor (turn_evaluation input L)))"
    using n assms(2) by (auto simp: ends_ok_def peer_def assms(3) cloneActor_def turn_evaluation_def buildPeerSnapshot_def
        buildTriggeringAuthorSnapshot_def resolveTriggerAuthorKind_def kept_def split: option.splits)
  moreover have "peer_isMachineIntelligence peer = from_machine input"
    by (simp add: peer_def buildPeerSnapshot_def from_machine_def)
  ultimately show thesis using that by (simp add: peer_def)
qed

lemma turn_budget:
  assumes "turn_wf input" "makeFatigueDayKey (ti_timestampMs input) = Inr key" "matches_day_key key"
    and "normalizeLimits (policy_limits p) = Inr (pe_limits p)"
    and "readState port now (turn_read input key (policy_limits p)) h = Inr st"
    and "st = createState scope (pe_spent p) v (pe_limits p) reg l" "count_ok (pe_spent p)" "count_ok v" "regulation_ok (pe_spent p) reg"
    and "scope = \<lparr>bs_localCompanionId = js_trim (ti_localCompanionId input),
      bs_peerContactId = js_trim (peer_contactId (buildPeerSnapshot (ti_message input) (ti_authorContext input))),
      bs_channelId = js_trim (ti_channelId input), bs_dayKey = key\<rparr>"
  obtains ev where "evaluateBudget port now (turn_evaluation input (policy_limits p)) h = Inr ev" "budget_ok ev p v"
    "ev_stateBefore ev = st" "from_machine input = peer_isMachineIntelligence (ev_peer ev)"
proof -
  let ?ei = "turn_evaluation input (policy_limits p)"
  obtain peer where peer: "clonePeer (ei_peer ?ei) = Inr peer"
    "ends_ok scope peer (cloneActor (ei_triggeringAuthor ?ei))" "peer_isMachineIntelligence peer = from_machine input"
    "peer_contactId peer = js_trim (peer_contactId (buildPeerSnapshot (ti_message input) (ti_authorContext input)))"
    using turn_ends [OF assms(1,3,10)] by blast
  have read: "readState port now \<lparr>rs_localCompanionId = ti_localCompanionId input, rs_peerContactId = peer_contactId peer,
      rs_channelId = ti_channelId input, rs_dayKey = Some key, rs_limits = as_limits (pe_limits p),
      rs_regulation = regulation_of input\<rparr> h = Inr st"
    using assms(5) readState_trim [of port now "turn_read input key (policy_limits p)" h] peer(4)
    by (simp add: turn_read_def as_limits_def pe_limits_def policy_limits_def)
  obtain reg' where reg': "(case regulation_of input of None \<Rightarrow> Inr None
      | Some r \<Rightarrow> rbind (normalizeRegulation r) (\<lambda>r'. Inr (Some r'))) = (Inr reg' :: regulation_input option result)"
    using assms(1) by (cases "regulation_of input"; cases "normalizeRegulation (the (regulation_of input))")
      (auto simp: turn_wf_def regulation_input_ok_def)
  obtain d r a where u: "resolveFatigueSpendUnit peer (cloneActor (ei_triggeringAuthor ?ei)) = (d, r, a)" by (metis prod_cases3)
  define ev where "ev = \<lparr>ev_scope = bst_scope st, ev_timestampMs = ti_timestampMs input, ev_dayKey = key, ev_decision = d,
    ev_reason = r, ev_amount = a, ev_stateBefore = st,
    ev_stateAfter = createState (bst_scope st) (bst_normalSpent st + a) (bst_overchargeSpent st) (pe_limits p) (bst_regulation st) (bst_lastEvent st),
    ev_triggeringAuthor = cloneActor (ei_triggeringAuthor ?ei), ev_peer = peer, ev_correlation = Some (ti_correlation input),
    ev_regulation = reg'\<rparr>"
  have "evaluateBudget port now ?ei h = Inr ev"
    using peer(1) assms(2,4) read u reg' by (simp add: evaluateBudget_def turn_evaluation_def ev_def)
  moreover have "budget_ok ev p v" using assms(6-9) peer(2) u by (auto simp: budget_ok_def ev_def)
  ultimately show thesis using that peer(3) by (simp add: ev_def)
qed

lemma turn_runs:
  assumes "turn_wf input" "amounts_ok port h"
  obtains p ev v key where "evaluateFatigueForTurn port now input h = decide input p ev"
    "policy_ok p (ti_fatiguePolicy input) (from_machine input) (ti_explicitPeerInvitation input = Some True)"
    "budget_ok ev p v" "from_machine input = peer_isMachineIntelligence (ev_peer ev)"
    "makeFatigueDayKey (ti_timestampMs input) = Inr key"
    "readState port now (turn_read input key (policy_limits p)) h = Inr (ev_stateBefore ev)" "pe_limits p = turn_limits input"
    "evaluateFatiguePolicy ((policy_input_of input)\<lparr>pi_spent := Fin (pe_spent p)\<rparr>) = Inr p"
proof -
  obtain key where key: "makeFatigueDayKey (ti_timestampMs input) = Inr key" "matches_day_key key" "kept (Some key) = Some key"
    using day_key_of_turn [OF assms(1)] .
  have names: "js_trim (ti_localCompanionId input) \<noteq> []" "js_trim (ti_channelId input) \<noteq> []"
    "js_trim (peer_contactId (buildPeerSnapshot (ti_message input) (ti_authorContext input))) \<noteq> []"
    "regulation_input_ok (regulation_of input)" using assms(1) by (simp_all add: turn_wf_def)
  obtain p0 where p0': "evaluateFatiguePolicy ((policy_input_of input)\<lparr>pi_spent := Fin 0\<rparr>) = Inr p0"
    using evaluateFatiguePolicy_total [OF assms(1) count_ok_simps(2)] .
  have "(policy_input_of input)\<lparr>pi_spent := Fin 0\<rparr> = policy_input_of input" by (simp add: policy_input_of_def Let_def)
  with p0' have p0: "evaluateFatiguePolicy (policy_input_of input) = Inr p0" by simp
  note q0 = policy_of_turn [OF assms(1) p0']
  let ?in = "turn_read input key (policy_limits p0)"
  define scope where "scope = \<lparr>bs_localCompanionId = js_trim (ti_localCompanionId input),
    bs_peerContactId = js_trim (peer_contactId (buildPeerSnapshot (ti_message input) (ti_authorContext input))),
    bs_channelId = js_trim (ti_channelId input), bs_dayKey = key\<rparr>"
  obtain n v reg l where st: "readState port now ?in h = Inr (createState scope n v (pe_limits p0) reg l)"
    "count_ok n" "count_ok v" "regulation_ok n reg"
    using readState_ok [OF assms(2), of ?in "pe_limits p0" key now] q0(3) names key(3)
    by (auto simp: turn_read_def scope_def)
  obtain p where p: "evaluateFatiguePolicy ((policy_input_of input)\<lparr>pi_spent := Fin n\<rparr>) = Inr p"
    using evaluateFatiguePolicy_total [OF assms(1) st(2)] .
  note q = policy_of_turn [OF assms(1) p]
  have lim: "pe_limits p = pe_limits p0" using q(4) q0(4) by simp
  then have lim: "pe_limits p = pe_limits p0" "policy_limits p = policy_limits p0"
    by (simp_all add: pe_limits_def policy_limits_def)
  obtain ev where ev: "evaluateBudget port now (turn_evaluation input (policy_limits p)) h = Inr ev" "budget_ok ev p v"
    "ev_stateBefore ev = createState scope n v (pe_limits p) reg l" "from_machine input = peer_isMachineIntelligence (ev_peer ev)"
    using turn_budget [OF assms(1) key(1,2) q(3) _ _ _ st(3) _ scope_def, of port now h "createState scope n v (pe_limits p) reg l" reg l]
      st lim q(2) by auto
  have "evaluateFatigueForTurn port now input h = decide input p ev"
    using p0 key(1) st(1) p ev(1)
    by (simp add: evaluateFatigueForTurn_def Let_def turn_evaluation_def turn_read_def)
  moreover have "readState port now (turn_read input key (policy_limits p)) h = Inr (ev_stateBefore ev)"
    using st(1) ev(3) lim by simp
  ultimately show thesis using that q(1,4) ev(2,4) key(1) p q(2) by blast
qed

lemma decide_Inr:
  assumes "policy_ok p config mi invited" "budget_ok ev p v" "mi = peer_isMachineIntelligence (ev_peer ev)"
    and "decide input p ev = Inr d"
  shows "td_metadata d = build_metadata (decided p mi v) p (decided_evaluation p v ev) (permitted p v) (decided_blocked p v)
      (decided_regulation input p (decided p mi v) ev)"
    "td_evaluation d = decided_evaluation p v ev" "td_suppressModel d = (decided p mi v = Suppressed_hard_exhausted)"
    "td_shouldRecordSpend d = (mi \<and> decided p mi v \<noteq> Suppressed_hard_exhausted)" "em_decision (td_metadata d) = decided p mi v"
  using assms(4) policy_okD(2) [OF assms(1)] budget_okD(4) [OF assms(2,3)] unfolding decide_run [OF assms(1-3)]
  by (auto simp: createMetadata_def Let_def rbind_eq_Inr build_metadata_def)

lemma invariant_contract:
  assumes "assertFatigueEnforcementMetadataInvariants m = Inr c"
  shows "c = \<lparr>ec_correlationDecision = dc_correlationDecision (DECISION_CONTRACTS (em_decision m)),
    ec_pendingSpend = dc_pendingSpend (DECISION_CONTRACTS (em_decision m))\<rparr>"
  using assms by (simp add: assertFatigueEnforcementMetadataInvariants_def rbind_eq_Inr Let_def)

lemma turn_decided:
  assumes "turn_wf input" "amounts_ok port h"
    and "ti_explicitPeerInvitation input = Some True \<longrightarrow>
      ep_explicitPeerInvitation (sr_continuationEvidence (fp_socialRegulation (ti_fatiguePolicy input)))"
  shows "\<exists>d. evaluateFatigueForTurn port now input h = Inr d
    \<and> assertFatigueEnforcementMetadataInvariants (td_metadata d) = Inr \<lparr>
        ec_correlationDecision = dc_correlationDecision (DECISION_CONTRACTS (em_decision (td_metadata d))),
        ec_pendingSpend = (if td_shouldRecordSpend d then Pending_required else Pending_forbidden)\<rparr>"
proof -
  let ?invited = "ti_explicitPeerInvitation input = Some True" and ?mi = "from_machine input"
  obtain p ev v key where t: "evaluateFatigueForTurn port now input h = decide input p ev"
    "policy_ok p (ti_fatiguePolicy input) ?mi ?invited" "budget_ok ev p v" "?mi = peer_isMachineIntelligence (ev_peer ev)"
    using turn_runs [OF assms(1,2)] by blast
  define m where "m = build_metadata (decided p ?mi v) p (decided_evaluation p v ev) (permitted p v) (decided_blocked p v)
      (decided_regulation input p (decided p ?mi v) ev)"
  have "policy_config_ok (ti_fatiguePolicy input)" using assms(1) by (simp add: turn_wf_def)
  from decide_ok [OF t(2-4) this refl assms(3) m_def] obtain c where c: "assertFatigueEnforcementMetadataInvariants m = Inr c" by blast
  then obtain d where d: "decide input p ev = Inr d"
    by (simp add: decide_run [OF t(2-4)] createMetadata_def flip: m_def)
  note f = decide_Inr [OF t(2-4) d]
  have "(if td_shouldRecordSpend d then Pending_required else Pending_forbidden) = dc_pendingSpend (DECISION_CONTRACTS (em_decision m))"
    using f(4,5) f(1) [folded m_def] by (simp add: decided_def)
  then show ?thesis using t(1) d c invariant_contract [OF c] f(1) [folded m_def] by simp
qed

text \<open>
  C30. The decision of a turn and the invariant that guards it agree: for every well-formed turn over a
  history with whole amounts, as long as the owner's policy accepts invitations as evidence when the
  peer was invited, a decision is made and the production invariant accepts its metadata, so the turn
  is never stopped by the guard.
\<close>

theorem enforcement_consistent:
  assumes "turn_wf input" "amounts_ok port h"
    and "ti_explicitPeerInvitation input = Some True \<longrightarrow>
      ep_explicitPeerInvitation (sr_continuationEvidence (fp_socialRegulation (ti_fatiguePolicy input)))"
  shows "\<exists>d. evaluateFatigueForTurn port now input h = Inr d
    \<and> assertFatigueEnforcementMetadataInvariants (td_metadata d) = Inr \<lparr>
        ec_correlationDecision = dc_correlationDecision (DECISION_CONTRACTS (em_decision (td_metadata d))),
        ec_pendingSpend = (if td_shouldRecordSpend d then Pending_required else Pending_forbidden)\<rparr>"
  using assms by (rule turn_decided)

text \<open>
  C5. What a decided turn may spend: a turn a human or the system started is free, is never suppressed
  and records nothing; a turn is suppressed only when a machine started it and the allowance is used
  up, and then it records nothing; a turn that records spends exactly one reply, either within the
  normal allowance or, when that is used up, within the overcharge reserve that is left.
\<close>

theorem enforcement_bounded:
  assumes "turn_wf input" "amounts_ok port h" "evaluateFatigueForTurn port now input h = Inr d"
    and "before = ev_stateBefore (td_evaluation d)" "after = ev_stateAfter (td_evaluation d)"
  shows "(\<not> from_machine input \<longrightarrow> em_decision (td_metadata d) = Allowed_free \<and> \<not> td_suppressModel d
      \<and> \<not> td_shouldRecordSpend d \<and> after = before)
    \<and> (from_machine input \<longrightarrow> td_shouldRecordSpend d = (\<not> td_suppressModel d))
    \<and> (td_suppressModel d \<longrightarrow> bst_allowance before \<le> bst_normalSpent before)
    \<and> (td_shouldRecordSpend d \<longrightarrow> ev_amount (td_evaluation d) = 1
      \<and> (if ev_decision (td_evaluation d) = Decision_overcharge
         then bst_allowance before \<le> bst_normalSpent before \<and> bst_normalSpent after = bst_normalSpent before
           \<and> bst_overchargeSpent after = bst_overchargeSpent before + 1 \<and> bst_overchargeSpent after \<le> bst_overchargeAllowance before
         else ev_decision (td_evaluation d) = Decision_charged
           \<and> bst_normalSpent after = bst_normalSpent before + 1 \<and> bst_normalSpent after \<le> bst_allowance before
           \<and> bst_overchargeSpent after = bst_overchargeSpent before))"
proof -
  obtain p ev v key where t: "evaluateFatigueForTurn port now input h = decide input p ev"
    "policy_ok p (ti_fatiguePolicy input) (from_machine input) (ti_explicitPeerInvitation input = Some True)"
    "budget_ok ev p v" "from_machine input = peer_isMachineIntelligence (ev_peer ev)"
    using turn_runs [OF assms(1,2)] by blast
  note f = decide_Inr [OF t(2-4) assms(3) [unfolded t(1)]]
  note p = policy_okD [OF t(2)] and b = budget_okD [OF t(3,4)]
  obtain reg l where st: "ev_stateBefore ev = createState (ev_scope ev) (pe_spent p) v (pe_limits p) reg l"
    "ev_stateAfter ev = createState (ev_scope ev) (pe_spent p + ev_amount ev) v (pe_limits p) reg l"
    using t(3) by (auto simp: budget_ok_def)
  have more: "pe_spent p < pe_hardCap p \<Longrightarrow> pe_spent p + 1 \<le> pe_hardCap p"
    using count_ok_less b(2) t(2) by (simp add: policy_ok_def)
  have before: "before = createState (ev_scope ev) (pe_spent p) v (pe_limits p) reg l" by (simp add: assms(4) f(2) st(1))
  have after: "after = createState (ev_scope ev) (pe_spent p + (if permitted p v then 0 else ev_amount ev))
      (v + (if permitted p v then ev_amount ev else 0)) (pe_limits p) reg l"
    using b(4) by (simp add: assms(5) f(2) decided_evaluation_def createOverchargeFatigueEvaluation_def Let_def st)
  have spend: "ev_amount (td_evaluation d) = ev_amount ev"
    "ev_decision (td_evaluation d) = (if permitted p v then Decision_overcharge else ev_decision ev)" by (simp_all add: f(2))
  have lim: "nl_hardLimit (pe_limits p) = pe_hardCap p"
    "permitted p v \<Longrightarrow> v + 1 \<le> nl_overchargeLimit (pe_limits p)"
    by (auto simp: pe_limits_def permitted_def le_max_iff_disj)
  show ?thesis
  proof (cases "from_machine input")
    case True
    then show ?thesis using p(5,6) b(4,5) more lim
      by (auto simp: f before after spend decided_def createState_fields split: if_splits)
  next
    case False
    moreover have "\<not> permitted p v" using p(5,6) False by blast
    ultimately show ?thesis using b(4,5) by (simp add: f(2-5) before after decided_def)
  qed
qed


section \<open>Examples\<close>

definition demo_turn_input :: turn_input where
  "demo_turn_input = \<lparr>ti_fatiguePolicy = demo_policy, ti_localCompanionId = ''me'',
     ti_message = \<lparr>sg_channelId = ''room'', sg_authorId = ''author'', sg_authorName = ''Ada'', sg_content = ''hello'',
       sg_isDirectMessage = None, sg_icpRootInitiationId = None\<rparr>,
     ti_authorContext = \<lparr>ac_trustLevel = Trust_regular, ac_speakerRole = Speaker_user, ac_resolvedUserName = ''Ada'',
       ac_speakingWithIsMachineIntelligence = Some True, ac_canonicalContactKey = Some ''peer'', ac_subjectIdentityKey = None,
       ac_relationshipType = Some Rel_friend\<rparr>,
     ti_channelId = ''room'', ti_channelType = Some ''discord'',
     ti_channelMeta = \<lparr>chm_isDirectMessage = None, chm_privacyLevel = None\<rparr>, ti_taskKind = None,
     ti_explicitPeerInvitation = Some True, ti_recentHumanParticipation = None, ti_timestampMs = Fin 86400000,
     ti_correlation = \<lparr>corr_turnId = Some ''turn'', corr_channelId = None, corr_rootInitiationId = None\<rparr>\<rparr>"

lemma demo_turn_wf: "turn_wf demo_turn_input" "from_machine demo_turn_input"
proof -
  have "js_trim ''author'' = ''author''" by code_simp
  then show "turn_wf demo_turn_input"
    by (simp add: turn_wf_def demo_turn_input_def demo_policy_ok buildPeerSnapshot_def demo_trim regulation_of_def
        regulation_input_ok_def)
  show "from_machine demo_turn_input" by (simp add: from_machine_def demo_turn_input_def)
qed

lemma demo_amounts: "amounts_ok (ledger_history i n) demo_ledger"
  by (auto simp: amounts_ok_def demo_ledger_def listFatigueEvents_def Let_def split: option.splits dest!: in_set_takeD)

lemma demo_turn_evidence: "ti_explicitPeerInvitation demo_turn_input = Some True \<longrightarrow>
    ep_explicitPeerInvitation (sr_continuationEvidence (fp_socialRegulation (ti_fatiguePolicy demo_turn_input)))"
  by (simp add: demo_turn_input_def demo_policy_def)

theorem enforcement_consistent_witness:
  "\<exists>d. evaluateFatigueForTurn (ledger_history ''id'' 7) (Fin 0) demo_turn_input demo_ledger = Inr d"
  using enforcement_consistent [OF demo_turn_wf(1) demo_amounts demo_turn_evidence, of "''id''" 7 "Fin 0"] by blast

text \<open>A turn of the same shape without an invitation, whose peer has an allowance of nothing.\<close>

definition invited_policy :: fatigue_policy_config where
  "invited_policy = demo_policy\<lparr>fp_relationshipBudgets := (\<lambda>_. \<lparr>rb_softTarget = 0, rb_hardCap = 0\<rparr>),
     fp_socialRegulation := (fp_socialRegulation demo_policy)\<lparr>sr_continuationEvidence :=
       \<lparr>ep_recentHumanParticipation = True, ep_activeWorkOrResearch = True, ep_explicitPeerInvitation = False\<rparr>\<rparr>\<rparr>"

definition invited_input :: turn_input where
  "invited_input = demo_turn_input\<lparr>ti_fatiguePolicy := invited_policy\<rparr>"

text \<open>
  The guard on the evidence matters: with a policy the loader accepts that does not take invitations
  as evidence, an invited turn whose allowance is used up is stopped by the invariant.
\<close>

lemma invited_input_wf: "turn_wf invited_input" "from_machine invited_input" "ti_explicitPeerInvitation invited_input = Some True"
proof -
  have "policy_config_ok invited_policy" by (simp add: policy_config_ok_def invited_policy_def demo_policy_def)
  then show "turn_wf invited_input" using demo_turn_wf(1)
    by (simp add: turn_wf_def invited_input_def regulation_of_def demo_turn_input_def)
  show "from_machine invited_input" "ti_explicitPeerInvitation invited_input = Some True"
    by (simp_all add: from_machine_def invited_input_def demo_turn_input_def)
qed

lemma invariant_evidence:
  assumes "assertFatigueEnforcementMetadataInvariants m = Inr c" "em_overchargeEligible m"
  shows "Overcharge_explicit_peer_invitation \<in> set (em_overchargeReasons m) \<longleftrightarrow>
    Evidence_explicit_peer_invitation \<in> set (sm_continuationEvidence (em_socialRegulation m))"
  using assms by (simp add: assertFatigueEnforcementMetadataInvariants_def rbind_eq_Inr Let_def assertDecisionInvariants_def
      split_def assertOverchargeInvariants_def)

lemma invited_turn_throws: "isl (evaluateFatigueForTurn (ledger_history i n) now invited_input demo_ledger)"
proof (cases "evaluateFatigueForTurn (ledger_history i n) now invited_input demo_ledger")
  case (Inr d)
  obtain p ev v key where "evaluateFatigueForTurn (ledger_history i n) now invited_input demo_ledger = decide invited_input p ev"
    "policy_ok p (ti_fatiguePolicy invited_input) (from_machine invited_input) (ti_explicitPeerInvitation invited_input = Some True)"
    "budget_ok ev p v" "from_machine invited_input = peer_isMachineIntelligence (ev_peer ev)" "pe_limits p = turn_limits invited_input"
    using turn_runs [OF invited_input_wf(1) demo_amounts [of i n], of now] by blast
  then have t: "evaluateFatigueForTurn (ledger_history i n) now invited_input demo_ledger = decide invited_input p ev"
    "policy_ok p (ti_fatiguePolicy invited_input) True True" "budget_ok ev p v" "True = peer_isMachineIntelligence (ev_peer ev)"
    "pe_limits p = turn_limits invited_input"
    by (simp_all only: invited_input_wf simp_thms)
  obtain human where ov: "pe_overcharge p = computeOvercharge (ti_fatiguePolicy invited_input) True (pe_spend p) human (pe_baseState p) (pe_intent p) True"
    using t(2) unfolding policy_ok_def by blast
  have "pe_hardCap p = 0"
    using arg_cong [OF t(5), of nl_hardLimit]
    by (simp add: pe_limits_def turn_limits_def Let_def computeLimits_def invited_input_def invited_policy_def demo_policy_def)
  then have hard: "pe_baseState p = Base_hard_exhausted"
    using policy_okD(3) [OF t(2)] budget_okD(2) [OF t(3) refl] count_ok_nonneg by simp
  have el: "or_eligible (pe_overcharge p)" "Overcharge_explicit_peer_invitation \<in> set (or_reasons (pe_overcharge p))"
    using hard policy_okD(2) [OF t(2)]
    by (simp_all add: ov computeOvercharge_def resolveFatigueOverchargeDeterministicBlockedReasons_def Let_def invited_input_def
        invited_policy_def demo_policy_def)
  define m where "m = build_metadata (decided p True v) p (decided_evaluation p v ev) (permitted p v) (decided_blocked p v)
      (decided_regulation invited_input p (decided p True v) ev)"
  obtain c where c: "assertFatigueEnforcementMetadataInvariants m = Inr c"
    using Inr t(1) decide_run [OF t(2-4)] by (auto simp: createMetadata_def Let_def rbind_eq_Inr m_def)
  have "em_overchargeEligible m" "Overcharge_explicit_peer_invitation \<in> set (em_overchargeReasons m)"
    using el by (simp_all add: m_def build_metadata_def Let_def)
  with invariant_evidence [OF c] have "Evidence_explicit_peer_invitation \<in> set (sm_continuationEvidence (em_socialRegulation m))" by simp
  then show ?thesis
    by (simp add: m_def build_metadata_def Let_def decided_regulation_def project_evidence evidence_invited invited_input_def invited_policy_def)
qed simp


theorem enforcement_bounded_witness:
  "\<exists>d. evaluateFatigueForTurn (ledger_history ''id'' 7) (Fin 0) demo_turn_input demo_ledger = Inr d
     \<and> td_shouldRecordSpend d = (\<not> td_suppressModel d)"
proof -
  obtain d where d: "evaluateFatigueForTurn (ledger_history ''id'' 7) (Fin 0) demo_turn_input demo_ledger = Inr d"
    using turn_decided [OF demo_turn_wf(1) demo_amounts demo_turn_evidence, of "''id''" 7 "Fin 0"] by blast
  from enforcement_bounded [OF demo_turn_wf(1) demo_amounts d refl refl] demo_turn_wf(2) d show ?thesis by blast
qed


text \<open>
  Reconciling a turn with its reservation looks for the evidence of work that only a task kind of
  exactly work, research or problem solving leaves, while the intent of the turn is read more
  loosely: a turn of maintenance work is decided, and every reconciliation of it is stopped by the
  invariant.
\<close>

definition maintenance_input :: turn_input where
  "maintenance_input = demo_turn_input\<lparr>ti_taskKind := Some ''maintenance'', ti_explicitPeerInvitation := None\<rparr>"

lemma reconcile_work_throws:
  assumes "isFatigueWorkIntent (em_intent (td_metadata d))" "sm_continuationEvidence (em_socialRegulation (td_metadata d)) = []"
  shows "isl (reconcileFatigueWithReservationSnapshot d reservation config overcharge)"
proof (cases "reconcileFatigueWithReservationSnapshot d reservation config overcharge")
  case (Inr r)
  have none: "resolveReconciledOverchargeReasons (td_metadata d) = []" using assms(2) by (simp add: resolveReconciledOverchargeReasons_def)
  have "em_intent (td_metadata r) = em_intent (td_metadata d)" "\<not> em_overchargeEligible (td_metadata r)"
    "Blocked_no_qualifying_overcharge_trigger \<in> set (em_overchargeBlockedReasons (td_metadata r))"
    "\<exists>c. assertFatigueEnforcementMetadataInvariants (td_metadata r) = Inr c"
    using Inr none by (auto simp: reconcileFatigueWithReservationSnapshot_def Let_def rbind_eq_Inr)
  then show ?thesis using assms(1)
    by (auto simp: assertFatigueEnforcementMetadataInvariants_def rbind_eq_Inr Let_def assertDecisionInvariants_def
        split_def assertOverchargeInvariants_def)
qed simp

lemma maintenance_input_wf: "turn_wf maintenance_input"
  using demo_turn_wf(1) by (simp add: turn_wf_def maintenance_input_def regulation_of_def demo_turn_input_def)

lemma maintenance_kind: "resolveFatigueIntent (Some ''maintenance'') ''hello'' False = Intent_work"
  "js_lower (js_trim ''maintenance'') = ''maintenance''"
  by code_simp+

lemma maintenance_turn:
  assumes "evaluateFatigueForTurn (ledger_history i n) now maintenance_input demo_ledger = Inr d"
  shows "isFatigueWorkIntent (em_intent (td_metadata d))" "sm_continuationEvidence (em_socialRegulation (td_metadata d)) = []"
proof -
  obtain p ev v key where t: "evaluateFatigueForTurn (ledger_history i n) now maintenance_input demo_ledger = decide maintenance_input p ev"
    "policy_ok p (ti_fatiguePolicy maintenance_input) (from_machine maintenance_input) (ti_explicitPeerInvitation maintenance_input = Some True)"
    "budget_ok ev p v" "from_machine maintenance_input = peer_isMachineIntelligence (ev_peer ev)"
    "evaluateFatiguePolicy ((policy_input_of maintenance_input)\<lparr>pi_spent := Fin (pe_spent p)\<rparr>) = Inr p"
    using turn_runs [OF maintenance_input_wf demo_amounts [of i n], of now] by blast
  note e = evaluateFatiguePolicy_Inr [OF t(5)]
  note m = decide_Inr(1) [OF t(2-4) assms [unfolded t(1)]]
  show "isFatigueWorkIntent (em_intent (td_metadata d))"
    by (simp add: m build_metadata_def Let_def e(6) policy_input_of_def maintenance_input_def demo_turn_input_def
        maintenance_kind isFatigueWorkIntent_def)
  have "\<not> oi_hasRecentHumanParticipation (or_inputs (pe_overcharge p))"
    by (simp add: e(9) computeOvercharge_def Let_def policy_input_of_def maintenance_input_def demo_turn_input_def
        resolveRecentHumanParticipation_def resolveTriggerAuthorKind_def)
  then show "sm_continuationEvidence (em_socialRegulation (td_metadata d)) = []"
    by (simp add: m build_metadata_def Let_def decided_regulation_def project_evidence resolveContinuationEvidence_def
        maintenance_input_def demo_turn_input_def maintenance_kind)
qed

end
