(* ===== verification/Companion_Channels.thy ===== *)
theory Companion_Channels
  imports Prelude
begin

text \<open>
  Companion identities and the channel identifiers of the inter-companion lane
  (\<^verbatim>\<open>src/src/shared/routing/companion-id.ts\<close> and
  \<^verbatim>\<open>src/src/shared/contracts/companion-channels.ts\<close>). A channel identifier keys a fatigue budget,
  so it matters that one conversation has one spelling.
\<close>

section \<open>JavaScript string operations\<close>

text \<open>\<^verbatim>\<open>String.prototype.split\<close> with a non-empty separator.\<close>

function split_from :: "string \<Rightarrow> string \<Rightarrow> string \<Rightarrow> string list" where
  "split_from sep acc s =
     (case s of
        [] \<Rightarrow> [rev acc]
      | c # cs \<Rightarrow> if sep \<noteq> [] \<and> starts_with sep s then rev acc # split_from sep [] (drop (length sep) s)
                  else split_from sep (c # acc) cs)"
  by pat_completeness auto

termination split_from
  by (relation "measure (\<lambda>(sep, acc, s). length s)") auto

definition js_split :: "string \<Rightarrow> string \<Rightarrow> string list" where
  "js_split sep s = split_from sep [] s"

text \<open>\<^verbatim>\<open>Array.prototype.join\<close>.\<close>

fun js_join :: "string \<Rightarrow> string list \<Rightarrow> string" where
  "js_join sep [] = []"
| "js_join sep [s] = s"
| "js_join sep (s # t # ts) = s @ sep @ js_join sep (t # ts)"

text \<open>\<^verbatim>\<open>JSON.stringify\<close> of a string.\<close>

definition json_char :: "char \<Rightarrow> string" where
  "json_char c =
     (let n = of_char c :: nat; hex = (\<lambda>d. ''0123456789abcdef'' ! d) in
      if n = 34 then [CHR 0x5C, CHR 0x22] else if n = 92 then [CHR 0x5C, CHR 0x5C]
      else if n = 8 then [CHR 0x5C, CHR ''b''] else if n = 9 then [CHR 0x5C, CHR ''t'']
      else if n = 10 then [CHR 0x5C, CHR ''n''] else if n = 12 then [CHR 0x5C, CHR ''f'']
      else if n = 13 then [CHR 0x5C, CHR ''r'']
      else if n < 32 then [CHR 0x5C, CHR ''u'', CHR ''0'', CHR ''0'', hex (n div 16), hex (n mod 16)]
      else [c])"

definition json_string :: "string \<Rightarrow> string" where
  "json_string s = [CHR 0x22] @ concat (map json_char s) @ [CHR 0x22]"

section \<open>Companion identities\<close>

definition SHARD_ID_MAX_LENGTH :: nat where
  "SHARD_ID_MAX_LENGTH = 128"

definition is_alphanumeric :: "char \<Rightarrow> bool" where
  "is_alphanumeric c \<longleftrightarrow> (let n = of_char c :: nat in
     65 \<le> n \<and> n \<le> 90 \<or> 97 \<le> n \<and> n \<le> 122 \<or> 48 \<le> n \<and> n \<le> 57)"

definition isShardIdToken :: "string \<Rightarrow> bool" where
  "isShardIdToken value \<longleftrightarrow> length value \<le> SHARD_ID_MAX_LENGTH
     \<and> (value \<noteq> [] \<and> list_all (\<lambda>c. is_alphanumeric c \<or> c \<in> set ''._-'') value)
     \<and> list_ex is_alphanumeric value"

definition parseCompanionId :: "string \<Rightarrow> string option" where
  "parseCompanionId value = (let normalized = js_trim value in if isRfc4122Uuid normalized then Some normalized else None)"

definition createCompanionId :: "string \<Rightarrow> string \<Rightarrow> string result" where
  "createCompanionId value fieldName =
     (case parseCompanionId value of
        None \<Rightarrow> Inl (Error (fieldName @ '' must be a lowercase RFC-4122 UUID, got '' @ json_string value))
      | Some parsed \<Rightarrow> Inr parsed)"

definition createShardCompanionId :: "string \<Rightarrow> string \<Rightarrow> string result" where
  "createShardCompanionId value fieldName =
     (let normalized = js_trim value;
          separator = (if js_includes normalized ''/shards/'' then ''/shards/'' else ''::'');
          parts = js_split separator normalized
      in throwIf (length parts \<noteq> 2 \<or> parts ! 0 = [] \<or> parts ! 1 = [])
           (fieldName @ '' must use the existing \"<companionId>/shards/<shardId>\" or \"<companionId>::<shardId>\" wire format'') (
         rbind (createCompanionId (parts ! 0) (fieldName @ '' core companionId'')) (\<lambda>coreCompanionId.
         let shardId = js_trim (parts ! 1) in
         throwIf (\<not> isShardIdToken shardId)
           (fieldName @ '' shardId must be a 1-128 character token containing only letters, digits, \".\", \"_\", or \"-\"'') (
         Inr (coreCompanionId @ separator @ shardId)))))"

definition createRuntimeCompanionId :: "string \<Rightarrow> string \<Rightarrow> string result" where
  "createRuntimeCompanionId value fieldName =
     (if js_includes value ''/shards/'' \<or> js_includes value ''::'' then createShardCompanionId value fieldName
      else createCompanionId value fieldName)"

section \<open>Channel identifiers\<close>

definition COMPANION_ROOM_CHANNEL_PREFIX :: string where
  "COMPANION_ROOM_CHANNEL_PREFIX = ''companion-room:''"

definition COMPANION_DM_CHANNEL_PREFIX :: string where
  "COMPANION_DM_CHANNEL_PREFIX = ''companion-dm:''"

datatype companion_channel = Channel_room string | Channel_dm string string

definition isValidRoomPlaceId :: "string \<Rightarrow> bool" where
  "isValidRoomPlaceId value \<longleftrightarrow> length value > 0 \<and> \<not> js_includes value '':'' \<and> js_trim value = value"

definition composeCompanionRoomChannelId :: "string \<Rightarrow> string result" where
  "composeCompanionRoomChannelId placeId =
     (let normalized = js_trim placeId in
      throwIf (\<not> isValidRoomPlaceId normalized) (''Invalid companion room placeId: '' @ json_string placeId) (
      Inr (COMPANION_ROOM_CHANNEL_PREFIX @ normalized)))"

definition composeCompanionDmChannelId :: "string \<Rightarrow> string \<Rightarrow> string result" where
  "composeCompanionDmChannelId companionA companionB =
     rbind (createCompanionId companionA ''companion DM participant A'') (\<lambda>a.
     rbind (createCompanionId companionB ''companion DM participant B'') (\<lambda>b.
     throwIf (a = b) (''Companion DM requires two distinct participants, got '' @ json_string a @ '' twice'') (
     let sorted = sort [a, b] in
     Inr (COMPANION_DM_CHANNEL_PREFIX @ sorted ! 0 @ '':'' @ sorted ! 1))))"

definition parseCompanionChannelId :: "string \<Rightarrow> companion_channel option" where
  "parseCompanionChannelId channelId =
     (if starts_with COMPANION_ROOM_CHANNEL_PREFIX channelId
      then let placeId = drop (length COMPANION_ROOM_CHANNEL_PREFIX) channelId in
           if \<not> isValidRoomPlaceId placeId then None else Some (Channel_room placeId)
      else if starts_with COMPANION_DM_CHANNEL_PREFIX channelId
      then case js_split '':'' (drop (length COMPANION_DM_CHANNEL_PREFIX) channelId) of
             [a, b] \<Rightarrow>
               (case (parseCompanionId a, parseCompanionId b) of
                  (Some companionA, Some companionB) \<Rightarrow>
                    if companionA \<noteq> a \<or> companionB \<noteq> b then None
                    else if companionA = companionB \<or> companionA > companionB then None
                    else Some (Channel_dm companionA companionB)
                | _ \<Rightarrow> None)
           | _ \<Rightarrow> None
      else None)"

definition isCompanionChannelId :: "string \<Rightarrow> bool" where
  "isCompanionChannelId channelId \<longleftrightarrow>
     starts_with COMPANION_ROOM_CHANNEL_PREFIX channelId \<or> starts_with COMPANION_DM_CHANNEL_PREFIX channelId"

section \<open>Splitting\<close>

declare split_from.simps [simp del]

lemma split_from_end: "split_from sep acc [] = [rev acc]"
  by (simp add: split_from.simps)

lemma split_from_hit: "sep \<noteq> [] \<Longrightarrow> split_from sep acc (sep @ s) = rev acc # split_from sep [] s"
  by (cases sep) (simp_all add: split_from.simps [of _ _ "_ # _"] starts_with_append [of "_ # _", simplified])

lemma split_from_skip: "\<not> starts_with sep (c # s) \<Longrightarrow> split_from sep acc (c # s) = split_from sep (c # acc) s"
  by (simp add: split_from.simps [of _ _ "c # s"])

text \<open>A text none of whose characters begins the separator is one piece.\<close>

lemma split_from_piece:
  "sep \<noteq> [] \<Longrightarrow> hd sep \<notin> set u \<Longrightarrow> split_from sep acc (u @ s) = split_from sep (rev u @ acc) s"
proof (induction u arbitrary: acc)
  case (Cons c u)
  then have "\<not> starts_with sep (c # u @ s)" by (cases sep) auto
  then show ?case using Cons by (simp add: split_from_skip)
qed simp

lemma js_split_two:
  assumes "sep \<noteq> []" "hd sep \<notin> set u" "hd sep \<notin> set v"
  shows "js_split sep (u @ sep @ v) = [u, v]"
  using assms split_from_piece [of sep v "[]" "[]"]
  by (simp add: js_split_def split_from_piece split_from_hit split_from_end)

lemma split_from_not_Nil: "split_from sep acc s \<noteq> []"
  by (cases "(sep, acc, s)" rule: split_from.cases)
    (subst split_from.simps, induction s arbitrary: acc, auto simp: split_from.simps)

lemma js_join_Cons: "ps \<noteq> [] \<Longrightarrow> js_join sep (p # ps) = p @ sep @ js_join sep ps"
  by (cases ps) auto

lemma split_from_join: "js_join sep (split_from sep acc s) = rev acc @ s"
proof (induction sep acc s rule: split_from.induct)
  case (1 sep acc s)
  show ?case
  proof (cases s)
    case (Cons c cs)
    show ?thesis
    proof (cases "sep \<noteq> [] \<and> starts_with sep s")
      case True
      then obtain t where s: "s = sep @ t" by (auto simp: starts_with_iff)
      then show ?thesis
        using 1(1) [OF Cons True] True by (simp add: split_from_hit js_join_Cons split_from_not_Nil)
    next
      case False
      then have "split_from sep acc s = split_from sep (c # acc) cs" by (subst split_from.simps) (auto simp: Cons)
      then show ?thesis using 1(2) [OF Cons False] by (simp add: Cons)
    qed
  qed (simp add: split_from_end)
qed

lemma js_join_split [simp]: "js_join sep (js_split sep s) = s"
  by (simp add: js_split_def split_from_join)

section \<open>Identities\<close>

lemma isRfc4122Uuid_chars: "isRfc4122Uuid s \<Longrightarrow> c \<in> set s \<Longrightarrow> is_hex c \<or> c = CHR ''-''"
proof -
  assume u: "isRfc4122Uuid s" and c: "c \<in> set s"
  have p: "p \<in> set uuid_pattern \<Longrightarrow> p c \<Longrightarrow> is_hex c \<or> c = CHR ''-''" for p
    by (auto simp: uuid_pattern_def is_hex_def)
  from u c obtain p where "p \<in> set uuid_pattern" "p c"
    unfolding isRfc4122Uuid_def list_all2_conv_all_nth by (metis in_set_conv_nth nth_mem)
  then show ?thesis by (rule p)
qed

lemma hex_not_space: "is_hex c \<or> c = CHR ''-'' \<Longrightarrow> c \<notin> set white_space \<union> {CHR '':'', CHR ''/''}"
  by (auto simp: is_hex_def white_space_def)

lemma trim_clean: "s \<noteq> [] \<Longrightarrow> set s \<inter> set white_space = {} \<Longrightarrow> js_trim s = s"
  by (intro trim_ends) (auto simp: disjoint_iff)

lemma uuid_clean: "isRfc4122Uuid s \<Longrightarrow> set s \<inter> set white_space = {}"
  unfolding disjoint_iff using isRfc4122Uuid_chars hex_not_space by (metis UnI1)

lemma uuid_not_Nil: "isRfc4122Uuid s \<Longrightarrow> s \<noteq> []"
  by (auto dest: isRfc4122Uuid_length)

lemma uuid_no_sep:
  assumes "isRfc4122Uuid s"
  shows "CHR '':'' \<notin> set s" "CHR ''/'' \<notin> set s"
  using isRfc4122Uuid_chars [OF assms] hex_not_space by blast+

lemma uuid_trim [simp]: "isRfc4122Uuid s \<Longrightarrow> js_trim s = s"
  by (intro trim_clean uuid_clean uuid_not_Nil)

lemma parseCompanionId_Some: "parseCompanionId v = Some c \<longleftrightarrow> c = js_trim v \<and> isRfc4122Uuid c"
  by (auto simp: parseCompanionId_def Let_def)

lemma createCompanionId_Inr [guard_simps]: "createCompanionId v f = Inr c \<longleftrightarrow> c = js_trim v \<and> isRfc4122Uuid c"
  by (auto simp: createCompanionId_def parseCompanionId_def Let_def)

lemma token_chars:
  assumes "isShardIdToken t"
  shows "CHR '':'' \<notin> set t" "CHR ''/'' \<notin> set t" "set t \<inter> set white_space = {}" "t \<noteq> []"
  using assms by (auto simp: isShardIdToken_def list_all_iff is_alphanumeric_def white_space_def)

lemma token_trim: "isShardIdToken t \<Longrightarrow> js_trim t = t"
  by (intro trim_clean token_chars)

text \<open>The two wire formats of a shard identity.\<close>

definition shard_id :: "string \<Rightarrow> string \<Rightarrow> string \<Rightarrow> bool" where
  "shard_id core sep shard \<longleftrightarrow> isRfc4122Uuid core \<and> (sep = ''/shards/'' \<or> sep = ''::'') \<and> isShardIdToken shard"

lemma includes_hd: "pat \<noteq> [] \<Longrightarrow> js_includes s pat \<Longrightarrow> hd pat \<in> set s"
  by (cases pat) (auto simp: js_includes_iff)

lemma shard_id_separator:
  assumes "shard_id core sep shard"
  shows "js_includes (core @ sep @ shard) ''/shards/'' \<longleftrightarrow> sep = ''/shards/''"
proof
  assume i: "js_includes (core @ sep @ shard) ''/shards/''"
  then have "CHR ''/'' \<in> set (core @ sep @ shard)" by (auto dest: includes_hd [rotated])
  then show "sep = ''/shards/''"
    using assms uuid_no_sep token_chars by (auto simp: shard_id_def)
next
  assume "sep = ''/shards/''"
  then show "js_includes (core @ sep @ shard) ''/shards/''" using js_includes_append by metis
qed

lemma shard_id_trim: "shard_id core sep shard \<Longrightarrow> js_trim (core @ sep @ shard) = core @ sep @ shard"
  using uuid_clean [of core] token_chars(3) [of shard] uuid_not_Nil [of core]
  by (intro trim_clean) (auto simp: shard_id_def white_space_def)

lemma createShardCompanionId_sound:
  assumes "createShardCompanionId v f = Inr r"
  obtains core sep shard where "shard_id core sep shard" "r = core @ sep @ shard"
proof -
  let ?sep = "if js_includes (js_trim v) ''/shards/'' then ''/shards/'' else ''::''"
  let ?parts = "js_split ?sep (js_trim v)"
  have "shard_id (js_trim (?parts ! 0)) ?sep (js_trim (?parts ! 1))
      \<and> r = js_trim (?parts ! 0) @ ?sep @ js_trim (?parts ! 1)"
    using assms unfolding createShardCompanionId_def Let_def shard_id_def
    by (simp only: throwIf_eq_Inr rbind_eq_Inr createCompanionId_Inr) auto
  then show thesis using that by blast
qed

lemma createShardCompanionId_complete:
  assumes s: "shard_id core sep shard"
  shows "createShardCompanionId (core @ sep @ shard) f = Inr (core @ sep @ shard)"
proof -
  have split: "js_split sep (core @ sep @ shard) = [core, shard]"
    using s uuid_no_sep token_chars by (intro js_split_two) (auto simp: shard_id_def)
  have sep: "(if js_includes (core @ sep @ shard) ''/shards/'' then ''/shards/'' else ''::'') = sep"
    using s shard_id_separator [OF s] by (auto simp: shard_id_def)
  have "createCompanionId core f' = Inr core" for f' using s by (simp add: shard_id_def guard_simps)
  then show ?thesis
    unfolding createShardCompanionId_def Let_def shard_id_trim [OF s] sep split
    using s token_trim token_chars(4) by (auto simp: shard_id_def dest: uuid_not_Nil)
qed

section \<open>Channels\<close>

lemma includes_colon: "js_includes s '':'' \<longleftrightarrow> CHR '':'' \<in> set s"
  by (auto simp: js_includes_iff in_set_conv_decomp)

lemma drop_prefix: "starts_with p c \<and> drop (length p) c = s \<longleftrightarrow> c = p @ s"
  by (auto simp: starts_with_iff)

lemma room_not_dm: "\<not> starts_with COMPANION_ROOM_CHANNEL_PREFIX (COMPANION_DM_CHANNEL_PREFIX @ s)"
  by (simp add: COMPANION_ROOM_CHANNEL_PREFIX_def COMPANION_DM_CHANNEL_PREFIX_def)

lemma parse_room:
  "parseCompanionChannelId c = Some (Channel_room p) \<longleftrightarrow> isValidRoomPlaceId p \<and> c = COMPANION_ROOM_CHANNEL_PREFIX @ p"
  by (auto simp: parseCompanionChannelId_def Let_def starts_with_iff split: list.splits option.splits)

lemma split_colon: "js_split '':'' s = [a, b] \<Longrightarrow> s = a @ '':'' @ b"
  using js_join_split [of "'':''" s] by simp

lemma parse_dm:
  "parseCompanionChannelId c = Some (Channel_dm a b)
     \<longleftrightarrow> isRfc4122Uuid a \<and> isRfc4122Uuid b \<and> a < b \<and> c = COMPANION_DM_CHANNEL_PREFIX @ a @ '':'' @ b"
  (is "?l \<longleftrightarrow> ?r")
proof
  assume ?l
  then show ?r
    by (auto simp: parseCompanionChannelId_def Let_def starts_with_iff parseCompanionId_Some not_less
        dest!: split_colon split: list.splits option.splits if_splits)
next
  assume r: ?r
  then have "js_split '':'' (a @ '':'' @ b) = [a, b]"
    by (intro js_split_two) (auto simp: uuid_no_sep)
  then show ?l using r room_not_dm
    by (auto simp: parseCompanionChannelId_def Let_def parseCompanionId_def)
qed

lemma compose_dm:
  "composeCompanionDmChannelId x y = Inr c \<longleftrightarrow>
     (let a = js_trim x; b = js_trim y in
      isRfc4122Uuid a \<and> isRfc4122Uuid b \<and> a \<noteq> b \<and> c = COMPANION_DM_CHANNEL_PREFIX @ min a b @ '':'' @ max a b)"
  by (auto simp: composeCompanionDmChannelId_def Let_def guard_simps result_simps min_def max_def split: if_splits)

lemma compose_room:
  "composeCompanionRoomChannelId p = Inr c \<longleftrightarrow>
     isValidRoomPlaceId (js_trim p) \<and> c = COMPANION_ROOM_CHANNEL_PREFIX @ js_trim p"
  by (auto simp: composeCompanionRoomChannelId_def Let_def)

section \<open>Properties\<close>

text \<open>
  C33. One conversation, one channel identifier: what the composers produce parses to the place or to the
  sorted pair of participants, whoever addresses whom; what the parser accepts is exactly what a composer
  produces from the parsed parts; so two accepted spellings of one conversation are the same identifier.
\<close>

theorem companion_channel_one_spelling:
  "(composeCompanionDmChannelId x y = Inr c \<longrightarrow>
      composeCompanionDmChannelId y x = Inr c
      \<and> parseCompanionChannelId c = Some (Channel_dm (min (js_trim x) (js_trim y)) (max (js_trim x) (js_trim y))))
   \<and> (composeCompanionRoomChannelId p = Inr c \<longrightarrow> parseCompanionChannelId c = Some (Channel_room (js_trim p)))
   \<and> (parseCompanionChannelId c = Some ch \<longrightarrow>
        (case ch of Channel_room q \<Rightarrow> composeCompanionRoomChannelId q | Channel_dm a b \<Rightarrow> composeCompanionDmChannelId a b) = Inr c
        \<and> (parseCompanionChannelId c' = Some ch \<longrightarrow> c' = c))"
proof (intro conjI impI)
  assume "composeCompanionDmChannelId x y = Inr c"
  then show "composeCompanionDmChannelId y x = Inr c"
    and "parseCompanionChannelId c = Some (Channel_dm (min (js_trim x) (js_trim y)) (max (js_trim x) (js_trim y)))"
    by (auto simp: compose_dm parse_dm Let_def min_def max_def)
next
  assume "composeCompanionRoomChannelId p = Inr c"
  then show "parseCompanionChannelId c = Some (Channel_room (js_trim p))" by (simp add: compose_room parse_room)
next
  assume c: "parseCompanionChannelId c = Some ch"
  then show "(case ch of Channel_room q \<Rightarrow> composeCompanionRoomChannelId q | Channel_dm a b \<Rightarrow> composeCompanionDmChannelId a b) = Inr c"
    by (cases ch) (auto simp: compose_room parse_room compose_dm parse_dm Let_def isValidRoomPlaceId_def min_def max_def)
  assume "parseCompanionChannelId c' = Some ch"
  with c show "c' = c" by (cases ch) (simp_all add: parse_room parse_dm)
qed

definition sample_id :: "char \<Rightarrow> string" where
  "sample_id d = replicate 8 d @ ''-0000-4000-8000-000000000000''"

lemma sample_id_uuid: "isRfc4122Uuid (sample_id CHR ''1'')" "isRfc4122Uuid (sample_id CHR ''2'')"
  by (simp_all add: sample_id_def isRfc4122Uuid_def uuid_pattern_def is_hex_def numeral_eq_Suc)

lemma sample_id_less: "sample_id CHR ''1'' < sample_id CHR ''2''"
  by (simp add: sample_id_def numeral_eq_Suc less_char_def)

theorem companion_channel_one_spelling_witness:
  "parseCompanionChannelId (''companion-dm:'' @ sample_id CHR ''1'' @ '':'' @ sample_id CHR ''2'')
     = Some (Channel_dm (sample_id CHR ''1'') (sample_id CHR ''2''))
   \<and> composeCompanionDmChannelId (sample_id CHR ''2'') (sample_id CHR ''1'')
     = Inr (''companion-dm:'' @ sample_id CHR ''1'' @ '':'' @ sample_id CHR ''2'')"
proof -
  have "composeCompanionDmChannelId (sample_id CHR ''1'') (sample_id CHR ''2'')
     = Inr (''companion-dm:'' @ sample_id CHR ''1'' @ '':'' @ sample_id CHR ''2'')"
    using sample_id_uuid sample_id_less
    by (simp add: compose_dm Let_def min_def max_def COMPANION_DM_CHANNEL_PREFIX_def less_imp_le less_imp_neq)
  from companion_channel_one_spelling [THEN conjunct1, rule_format, OF this]
  show ?thesis using sample_id_uuid less_imp_le [OF sample_id_less] by (simp add: min_def max_def)
qed

text \<open>
  The type of a runtime identity: \<open>createRuntimeCompanionId\<close> returns a lowercase UUID or such a UUID, one of the
  two separators and a shard token, and gives every such identity back unchanged, so normalising twice is
  normalising once.
\<close>

theorem runtime_companion_id_canonical:
  assumes "createRuntimeCompanionId v f = Inr r"
  shows "(isRfc4122Uuid r \<or> (\<exists>core sep shard. shard_id core sep shard \<and> r = core @ sep @ shard))
    \<and> createRuntimeCompanionId r f' = Inr r"
proof -
  consider "isRfc4122Uuid r" | core sep shard where "shard_id core sep shard" "r = core @ sep @ shard"
    using assms createShardCompanionId_sound
    by (auto simp: createRuntimeCompanionId_def guard_simps split: if_splits)
  then show ?thesis
  proof cases
    case 1
    then have "\<not> js_includes r ''/shards/'' \<and> \<not> js_includes r ''::''"
      using uuid_no_sep includes_hd by fastforce
    then show ?thesis using 1 by (simp add: createRuntimeCompanionId_def guard_simps)
  next
    case (2 core sep shard)
    then have "js_includes r ''/shards/'' \<or> js_includes r ''::''"
      unfolding shard_id_def using js_includes_append by metis
    then have "createRuntimeCompanionId r f' = Inr r"
      using 2 createShardCompanionId_complete by (simp add: createRuntimeCompanionId_def)
    then show ?thesis using 2 by blast
  qed
qed

theorem runtime_companion_id_canonical_witness:
  "createRuntimeCompanionId ('' '' @ sample_id CHR ''1'' @ ''::left'') ''id'' = Inr (sample_id CHR ''1'' @ ''::left'')
   \<and> createRuntimeCompanionId (sample_id CHR ''1'' @ ''::left'') ''id'' = Inr (sample_id CHR ''1'' @ ''::left'')"
proof -
  have "createRuntimeCompanionId ('' '' @ sample_id CHR ''1'' @ ''::left'') ''id'' = Inr (sample_id CHR ''1'' @ ''::left'')"
    by code_simp
  then show ?thesis using runtime_companion_id_canonical by blast
qed

end
