(* ===== verification/Icp_Contract.thy ===== *)
theory Icp_Contract
  imports Companion_Channels Fatigue_Enforcement
begin

text \<open>
  The content-free control-plane vocabulary of inter-companion conversations
  (\<^verbatim>\<open>src/src/shared/contracts/icp-autonomy.ts\<close>): availability leases, conversation episodes, dyads,
  initiation permits and the correlation every turn carries, with their parsers from untrusted values and
  the status transitions.

  An untrusted value is a \<open>wire\<close>; an object is the list of its own keys and values in order, each key once.
  \<open>\<dots>_wire\<close> gives the object a parsed record is in memory, so that parsing it again can be stated.
\<close>

section \<open>Untrusted values and their guards\<close>

datatype wire =
  Wire_undefined | Wire_null | Wire_bool bool | Wire_number jsnum | Wire_string string
| Wire_array "wire list" | Wire_object "(string \<times> wire) list"

definition member :: "(string \<times> wire) list \<Rightarrow> string \<Rightarrow> wire" where
  "member raw key = (case map_of raw key of None \<Rightarrow> Wire_undefined | Some v \<Rightarrow> v)"

definition requireRecord :: "wire \<Rightarrow> string \<Rightarrow> (string \<times> wire) list result" where
  "requireRecord value label =
     (case value of Wire_object raw \<Rightarrow> Inr raw | _ \<Rightarrow> Inl (Error (label @ '' must be an object'')))"

definition assertNoUnknownKeys :: "(string \<times> wire) list \<Rightarrow> string list \<Rightarrow> string \<Rightarrow> unit result" where
  "assertNoUnknownKeys value allowedKeys fieldPath =
     (let unknown = sort (filter (\<lambda>key. key \<notin> set allowedKeys) (map fst value)) in
      throwIf (unknown \<noteq> []) (fieldPath @ '' contains unknown keys: '' @ js_join '', '' unknown) (Inr ()))"

fun decimal :: "nat \<Rightarrow> string" where
  "decimal n = (if n < 10 then [char_of (48 + n)] else decimal (n div 10) @ [char_of (48 + n mod 10)])"

declare decimal.simps [simp del]

definition requireUuidValue :: "wire \<Rightarrow> string \<Rightarrow> string result" where
  "requireUuidValue value field =
     (case value of
        Wire_string s \<Rightarrow> if isRfc4122Uuid s then Inr s else Inl (Error (field @ '' must be a lowercase RFC-4122 UUID''))
      | _ \<Rightarrow> Inl (Error (field @ '' must be a lowercase RFC-4122 UUID'')))"

definition requireString :: "wire \<Rightarrow> string \<Rightarrow> nat \<Rightarrow> string result" where
  "requireString value field maxLength =
     (case value of
        Wire_string s \<Rightarrow>
          if s = [] \<or> js_trim s \<noteq> s then Inl (Error (field @ '' must be a non-empty trimmed string''))
          else if length s > maxLength then Inl (Error (field @ '' must be '' @ decimal maxLength @ '' characters or fewer''))
          else Inr s
      | _ \<Rightarrow> Inl (Error (field @ '' must be a non-empty trimmed string'')))"

definition provenance_prefix :: string where
  "provenance_prefix = ''icp-prov:''"

definition parseIcpProvenanceHandle :: "wire \<Rightarrow> string \<Rightarrow> string result" where
  "parseIcpProvenanceHandle value field =
     (let refuse = Inl (Error (field @ '' must be an opaque provenance handle (icp-prov:<lowercase RFC-4122 UUID>)'')) in
      case value of
        Wire_string s \<Rightarrow>
          if starts_with provenance_prefix s \<and> isRfc4122Uuid (drop (length provenance_prefix) s) then Inr s else refuse
      | _ \<Rightarrow> refuse)"

definition requireTimestampValue :: "wire \<Rightarrow> string \<Rightarrow> int result" where
  "requireTimestampValue value field =
     (case value of
        Wire_number n \<Rightarrow> requireTimestamp n field
      | _ \<Rightarrow> Inl (Error (field @ '' must be a non-negative safe integer timestamp'')))"

definition requireRevision :: "wire \<Rightarrow> string \<Rightarrow> int result" where
  "requireRevision value field =
     (let refuse = Inl (Error (field @ '' must be a positive safe integer'')) in
      case value of
        Wire_number n \<Rightarrow> if \<not> isSafeInteger n \<or> numval n < 1 then refuse else Inr (intval n)
      | _ \<Rightarrow> refuse)"

definition requireEnum :: "wire \<Rightarrow> (string \<times> 'a) list \<Rightarrow> string \<Rightarrow> 'a result" where
  "requireEnum value values field =
     (let refuse = Inl (Error (field @ '' must be one of: '' @ js_join '', '' (map fst values))) in
      case value of
        Wire_string s \<Rightarrow> (case map_of values s of None \<Rightarrow> refuse | Some x \<Rightarrow> Inr x)
      | _ \<Rightarrow> refuse)"

definition ICP_AUTONOMY_REASON_CODES :: "string list" where
  "ICP_AUTONOMY_REASON_CODES =
     [''peer_offline'', ''availability_missing'', ''availability_expired'', ''peer_busy'', ''peer_resting'',
      ''peer_do_not_disturb'', ''quiet_hours'', ''charge_pressure'', ''relationship_pressure'',
      ''peer_appraisal_unavailable'', ''recipient_busy_timeout'', ''fatigue_exhausted'', ''cost_hard_stop'',
      ''peer_blocked'', ''invalid_identity'', ''unknown_participant'', ''malformed_channel'', ''channel_mismatch'',
      ''stale_provenance'', ''recursive_trigger'', ''policy_denied'', ''invitation_outstanding'', ''candidate_expired'',
      ''candidate_declined'', ''candidate_deferred'', ''candidate_cancelled'', ''permit_expired'', ''permit_revoked'',
      ''permit_replayed'', ''permit_mismatch'', ''conversation_declined'', ''conversation_deferred'',
      ''conversation_ended'', ''conversation_suppressed'', ''operator_cancelled'', ''lifecycle_readmitted'',
      ''delivery_failed'', ''inactivity_timeout'', ''dyad_not_found'', ''dyad_paused'', ''dyad_closed'',
      ''dyad_blocked'', ''dyad_stale_revision'']"

definition ICP_SYSTEM_FAILURE_END_REASON_CODES :: "string list" where
  "ICP_SYSTEM_FAILURE_END_REASON_CODES = [''peer_appraisal_unavailable'', ''recipient_busy_timeout'']"

definition requireOptionalReason :: "wire \<Rightarrow> string \<Rightarrow> string option result" where
  "requireOptionalReason value field =
     (if value = Wire_undefined then Inr None
      else rbind (requireEnum value (map (\<lambda>s. (s, s)) ICP_AUTONOMY_REASON_CODES) field) (\<lambda>r. Inr (Some r)))"

definition requireOptionalTimestamp :: "wire \<Rightarrow> string \<Rightarrow> int option result" where
  "requireOptionalTimestamp value field =
     (if value = Wire_undefined then Inr None
      else rbind (requireTimestampValue value field) (\<lambda>t. Inr (Some t)))"

fun require_each :: "(nat \<Rightarrow> wire \<Rightarrow> 'a result) \<Rightarrow> nat \<Rightarrow> wire list \<Rightarrow> 'a list result" where
  "require_each f i [] = Inr []"
| "require_each f i (v # vs) = rbind (f i v) (\<lambda>x. rbind (require_each f (Suc i) vs) (\<lambda>xs. Inr (x # xs)))"

definition requireUuidArray :: "wire \<Rightarrow> string \<Rightarrow> nat \<Rightarrow> string list result" where
  "requireUuidArray value field minimumLength =
     (let refuse = Inl (Error (field @ '' must contain at least '' @ decimal minimumLength @ '' UUIDs'')) in
      case value of
        Wire_array vs \<Rightarrow>
          if length vs < minimumLength then refuse
          else rbind (require_each (\<lambda>i v. requireUuidValue v (field @ ''['' @ decimal i @ '']'')) 0 vs) (\<lambda>participants.
            throwIf (length (remdups participants) \<noteq> length participants) (field @ '' must not contain duplicates'') (
            throwIf (participants \<noteq> sort participants) (field @ '' must be in canonical sorted order'') (
            Inr participants)))
      | _ \<Rightarrow> refuse)"

datatype channel_kind = Kind_dm | Kind_room

definition assertChannelPairBinding :: "string \<Rightarrow> string \<Rightarrow> string \<Rightarrow> string \<Rightarrow> channel_kind result" where
  "assertChannelPairBinding channelId firstCompanionId secondCompanionId label =
     (case parseCompanionChannelId channelId of
        None \<Rightarrow> Inl (Error (label @ ''.channelId must be a canonical companion channel''))
      | Some parsed \<Rightarrow>
          throwIf (firstCompanionId = secondCompanionId) (label @ '' must bind two distinct companions'') (
          case parsed of
            Channel_dm a b \<Rightarrow>
              let expected = sort [firstCompanionId, secondCompanionId] in
              throwIf (a \<noteq> expected ! 0 \<or> b \<noteq> expected ! 1) (label @ '' must bind exactly to the DM channel participants'') (
              Inr Kind_dm)
          | Channel_room p \<Rightarrow> Inr Kind_room))"


section \<open>Availability leases\<close>

definition ICP_AVAILABILITY_STATES :: "(string \<times> availability_state) list" where
  "ICP_AVAILABILITY_STATES = [(''available'', Available), (''open_to_chat'', Open_to_chat),
     (''busy'', Busy), (''resting'', Resting), (''do_not_disturb'', Do_not_disturb)]"

datatype availability_source = Source_companion | Source_operator | Source_runtime

definition ICP_AVAILABILITY_SOURCES :: "(string \<times> availability_source) list" where
  "ICP_AVAILABILITY_SOURCES = [(''companion'', Source_companion), (''operator'', Source_operator), (''runtime'', Source_runtime)]"

record availability_lease =
  al_companionId :: string
  al_state :: availability_state
  al_issuedAtMs :: int
  al_expiresAtMs :: int
  al_source :: availability_source
  al_revision :: int

definition MAX_ICP_AVAILABILITY_LEASE_TTL_MS :: int where
  "MAX_ICP_AVAILABILITY_LEASE_TTL_MS = 24 * 60 * 60000"

definition AVAILABILITY_KEYS :: "string list" where
  "AVAILABILITY_KEYS = [''companionId'', ''state'', ''issuedAtMs'', ''expiresAtMs'', ''source'', ''revision'']"

text \<open>\<open>Some nowMs\<close> is the option \<^verbatim>\<open>requireCurrent: true\<close> with that \<^verbatim>\<open>nowMs\<close>.\<close>

definition parseIcpAvailabilityLease :: "wire \<Rightarrow> wire option \<Rightarrow> availability_lease result" where
  "parseIcpAvailabilityLease value current =
     rbind (requireRecord value ''ICP availability lease'') (\<lambda>raw.
     rbind (assertNoUnknownKeys raw AVAILABILITY_KEYS ''ICP availability lease'') (\<lambda>_.
     rbind (requireTimestampValue (member raw ''issuedAtMs'') ''ICP availability lease.issuedAtMs'') (\<lambda>issuedAtMs.
     rbind (requireTimestampValue (member raw ''expiresAtMs'') ''ICP availability lease.expiresAtMs'') (\<lambda>expiresAtMs.
     throwIf (expiresAtMs \<le> issuedAtMs) ''ICP availability lease.expiresAtMs must be later than issuedAtMs'' (
     throwIf (expiresAtMs - issuedAtMs > MAX_ICP_AVAILABILITY_LEASE_TTL_MS)
       ''ICP availability lease exceeds maximum TTL 86400000ms'' (
     rbind (case current of
              None \<Rightarrow> Inr ()
            | Some now \<Rightarrow> rbind (requireTimestampValue now ''ICP availability validation nowMs'') (\<lambda>nowMs.
                throwIf (issuedAtMs > nowMs) ''ICP availability lease is not yet valid'' (
                throwIf (expiresAtMs \<le> nowMs) ''ICP availability lease is expired'' (Inr ())))) (\<lambda>_.
     rbind (requireUuidValue (member raw ''companionId'') ''ICP availability lease.companionId'') (\<lambda>companionId.
     rbind (requireEnum (member raw ''state'') ICP_AVAILABILITY_STATES ''ICP availability lease.state'') (\<lambda>state.
     rbind (requireEnum (member raw ''source'') ICP_AVAILABILITY_SOURCES ''ICP availability lease.source'') (\<lambda>source.
     rbind (requireRevision (member raw ''revision'') ''ICP availability lease.revision'') (\<lambda>revision.
     Inr \<lparr>al_companionId = companionId, al_state = state, al_issuedAtMs = issuedAtMs, al_expiresAtMs = expiresAtMs,
          al_source = source, al_revision = revision\<rparr>)))))))))))"

section \<open>Conversation episodes\<close>

datatype initiation_source =
  Initiation_free_time | Initiation_weighted_thought | Initiation_intention | Initiation_foreground
| Initiation_felt_impulse | Initiation_operator_test

definition ICP_INITIATION_SOURCES :: "(string \<times> initiation_source) list" where
  "ICP_INITIATION_SOURCES = [(''free_time'', Initiation_free_time), (''weighted_thought'', Initiation_weighted_thought),
     (''intention'', Initiation_intention), (''foreground'', Initiation_foreground),
     (''felt_impulse'', Initiation_felt_impulse), (''operator_test'', Initiation_operator_test)]"

datatype conversation_status =
  Conversation_invited | Conversation_active | Conversation_declined | Conversation_deferred
| Conversation_ended | Conversation_suppressed

definition ICP_CONVERSATION_STATUSES :: "(string \<times> conversation_status) list" where
  "ICP_CONVERSATION_STATUSES = [(''invited'', Conversation_invited), (''active'', Conversation_active),
     (''declined'', Conversation_declined), (''deferred'', Conversation_deferred), (''ended'', Conversation_ended),
     (''suppressed'', Conversation_suppressed)]"

record conversation_episode =
  cv_conversationId :: string
  cv_channelId :: string
  cv_participantCompanionIds :: "string list"
  cv_rootInitiationId :: string
  cv_initiatedByCompanionId :: string
  cv_initiationSource :: initiation_source
  cv_provenanceRef :: string
  cv_openedAtMs :: int
  cv_lastActivityAtMs :: int
  cv_status :: conversation_status
  cv_closeReasonCode :: "string option"
  cv_revision :: int

definition EPISODE_KEYS :: "string list" where
  "EPISODE_KEYS = [''conversationId'', ''channelId'', ''participantCompanionIds'', ''rootInitiationId'',
     ''initiatedByCompanionId'', ''initiationSource'', ''provenanceRef'', ''openedAtMs'', ''lastActivityAtMs'',
     ''status'', ''closeReasonCode'', ''revision'']"

definition check_known :: "string list option \<Rightarrow> string list \<Rightarrow> string \<Rightarrow> unit result" where
  "check_known knownCompanionIds participants label =
     (case knownCompanionIds of
        None \<Rightarrow> Inr ()
      | Some known \<Rightarrow> (case find (\<lambda>p. p \<notin> set known) participants of
            None \<Rightarrow> Inr ()
          | Some p \<Rightarrow> Inl (Error (label @ '' has unknown participant '' @ p))))"

definition parseIcpConversationEpisode :: "wire \<Rightarrow> string list option \<Rightarrow> conversation_episode result" where
  "parseIcpConversationEpisode value knownCompanionIds =
     rbind (requireRecord value ''ICP conversation episode'') (\<lambda>raw.
     rbind (assertNoUnknownKeys raw EPISODE_KEYS ''ICP conversation episode'') (\<lambda>_.
     rbind (requireString (member raw ''channelId'') ''ICP conversation episode.channelId'' 512) (\<lambda>channelId.
     rbind (requireUuidArray (member raw ''participantCompanionIds'')
              ''ICP conversation episode.participantCompanionIds'' 2) (\<lambda>participants.
     rbind (case parseCompanionChannelId channelId of
              None \<Rightarrow> Inl (Error ''ICP conversation episode.channelId must be a canonical companion channel'')
            | Some (Channel_dm a b) \<Rightarrow>
                throwIf (participants \<noteq> [a, b])
                  ''ICP conversation participants must exactly match the DM channel participants'' (Inr ())
            | Some (Channel_room p) \<Rightarrow> Inr ()) (\<lambda>_.
     rbind (check_known knownCompanionIds participants ''ICP conversation'') (\<lambda>_.
     rbind (requireUuidValue (member raw ''initiatedByCompanionId'')
              ''ICP conversation episode.initiatedByCompanionId'') (\<lambda>initiatedByCompanionId.
     throwIf (initiatedByCompanionId \<notin> set participants)
       ''ICP conversation initiatedByCompanionId must be a participant'' (
     rbind (requireTimestampValue (member raw ''openedAtMs'') ''ICP conversation episode.openedAtMs'') (\<lambda>openedAtMs.
     rbind (requireTimestampValue (member raw ''lastActivityAtMs'')
              ''ICP conversation episode.lastActivityAtMs'') (\<lambda>lastActivityAtMs.
     throwIf (lastActivityAtMs < openedAtMs) ''ICP conversation lastActivityAtMs must not precede openedAtMs'' (
     rbind (requireOptionalReason (member raw ''closeReasonCode'')
              ''ICP conversation episode.closeReasonCode'') (\<lambda>closeReasonCode.
     rbind (requireUuidValue (member raw ''conversationId'') ''ICP conversation episode.conversationId'') (\<lambda>conversationId.
     rbind (requireUuidValue (member raw ''rootInitiationId'') ''ICP conversation episode.rootInitiationId'') (\<lambda>rootInitiationId.
     rbind (requireEnum (member raw ''initiationSource'') ICP_INITIATION_SOURCES
              ''ICP conversation episode.initiationSource'') (\<lambda>initiationSource.
     rbind (parseIcpProvenanceHandle (member raw ''provenanceRef'') ''ICP conversation episode.provenanceRef'') (\<lambda>provenanceRef.
     rbind (requireEnum (member raw ''status'') ICP_CONVERSATION_STATUSES ''ICP conversation episode.status'') (\<lambda>status.
     rbind (requireRevision (member raw ''revision'') ''ICP conversation episode.revision'') (\<lambda>revision.
     Inr \<lparr>cv_conversationId = conversationId, cv_channelId = channelId, cv_participantCompanionIds = participants,
          cv_rootInitiationId = rootInitiationId, cv_initiatedByCompanionId = initiatedByCompanionId,
          cv_initiationSource = initiationSource, cv_provenanceRef = provenanceRef, cv_openedAtMs = openedAtMs,
          cv_lastActivityAtMs = lastActivityAtMs, cv_status = status, cv_closeReasonCode = closeReasonCode,
          cv_revision = revision\<rparr>))))))))))))))))))"

fun CONVERSATION_TRANSITIONS :: "conversation_status \<Rightarrow> conversation_status list" where
  "CONVERSATION_TRANSITIONS Conversation_invited =
     [Conversation_active, Conversation_declined, Conversation_deferred, Conversation_ended, Conversation_suppressed]"
| "CONVERSATION_TRANSITIONS Conversation_active = [Conversation_ended, Conversation_suppressed]"
| "CONVERSATION_TRANSITIONS Conversation_deferred = [Conversation_invited, Conversation_ended, Conversation_suppressed]"
| "CONVERSATION_TRANSITIONS Conversation_declined = []"
| "CONVERSATION_TRANSITIONS Conversation_ended = []"
| "CONVERSATION_TRANSITIONS Conversation_suppressed = []"

definition enum_name :: "(string \<times> 'a) list \<Rightarrow> 'a \<Rightarrow> string" where
  "enum_name table x = (case find (\<lambda>(s, y). y = x) table of None \<Rightarrow> [] | Some (s, y) \<Rightarrow> s)"

definition assertIcpConversationStatusTransition :: "conversation_status \<Rightarrow> conversation_status \<Rightarrow> unit result" where
  "assertIcpConversationStatusTransition from to =
     throwIf (to \<notin> set (CONVERSATION_TRANSITIONS from))
       (''Invalid ICP conversation status transition: '' @ enum_name ICP_CONVERSATION_STATUSES from @ '' -> ''
        @ enum_name ICP_CONVERSATION_STATUSES to) (Inr ())"

definition assertIcpConversationActivityTransition :: "jsnum \<Rightarrow> jsnum \<Rightarrow> unit result" where
  "assertIcpConversationActivityTransition previousLastActivityAtMs nextLastActivityAtMs =
     rbind (requireTimestamp previousLastActivityAtMs ''ICP conversation previousLastActivityAtMs'') (\<lambda>previous.
     rbind (requireTimestamp nextLastActivityAtMs ''ICP conversation nextLastActivityAtMs'') (\<lambda>next'.
     throwIf (next' < previous) ''ICP conversation lastActivityAtMs must not regress'' (Inr ())))"


section \<open>Dyads\<close>

datatype dyad_status = Dyad_open | Dyad_paused | Dyad_closed | Dyad_blocked

definition ICP_DYAD_STATUSES :: "(string \<times> dyad_status) list" where
  "ICP_DYAD_STATUSES = [(''open'', Dyad_open), (''paused'', Dyad_paused), (''closed'', Dyad_closed), (''blocked'', Dyad_blocked)]"

datatype dyad_relationship = Relationship_open | Relationship_paused | Relationship_closed

definition ICP_DYAD_RELATIONSHIP_STATES :: "(string \<times> dyad_relationship) list" where
  "ICP_DYAD_RELATIONSHIP_STATES =
     [(''open'', Relationship_open), (''paused'', Relationship_paused), (''closed'', Relationship_closed)]"

fun icpDyadStatusReasonCode :: "dyad_status \<Rightarrow> string" where
  "icpDyadStatusReasonCode Dyad_paused = ''dyad_paused''"
| "icpDyadStatusReasonCode Dyad_closed = ''dyad_closed''"
| "icpDyadStatusReasonCode Dyad_blocked = ''dyad_blocked''"
| "icpDyadStatusReasonCode Dyad_open = ''dyad_stale_revision''"

record dyad_participant =
  dp_companionId :: string
  dp_relationshipState :: dyad_relationship
  dp_blocked :: bool
  dp_updatedAtMs :: int

record icp_dyad =
  dy_dyadId :: string
  dy_channelId :: string
  dy_participantCompanionIds :: "string list"
  dy_status :: dyad_status
  dy_participantStates :: "dyad_participant list"
  dy_createdAtMs :: int
  dy_provenanceConversationIds :: "string list"
  dy_lifecycleRevision :: int
  dy_revision :: int

definition DYAD_KEYS :: "string list" where
  "DYAD_KEYS = [''dyadId'', ''channelId'', ''participantCompanionIds'', ''status'', ''participantStates'',
     ''createdAtMs'', ''provenanceConversationIds'', ''revision'', ''lifecycleRevision'']"

definition DYAD_STATE_KEYS :: "string list" where
  "DYAD_STATE_KEYS = [''companionId'', ''relationshipState'', ''blocked'', ''updatedAtMs'']"

text \<open>Effective sendability is the intersection of both sides' grants.\<close>

definition resolveIcpDyadStatus :: "dyad_participant list \<Rightarrow> dyad_status" where
  "resolveIcpDyadStatus participantStates =
     (if list_ex dp_blocked participantStates then Dyad_blocked
      else if list_ex (\<lambda>s. dp_relationshipState s = Relationship_closed) participantStates then Dyad_closed
      else if list_ex (\<lambda>s. dp_relationshipState s = Relationship_paused) participantStates then Dyad_paused
      else Dyad_open)"

definition parse_dyad_state :: "string list \<Rightarrow> int \<Rightarrow> nat \<Rightarrow> wire \<Rightarrow> dyad_participant result" where
  "parse_dyad_state participants createdAtMs index value =
     (let path = ''ICP dyad.participantStates['' @ decimal index @ '']'' in
     rbind (requireRecord value path) (\<lambda>state.
     rbind (assertNoUnknownKeys state DYAD_STATE_KEYS path) (\<lambda>_.
     rbind (requireUuidValue (member state ''companionId'') (path @ ''.companionId'')) (\<lambda>companionId.
     throwIf (companionId \<noteq> participants ! index) ''ICP dyad.participantStates must match canonical participant order'' (
     rbind (requireTimestampValue (member state ''updatedAtMs'') (path @ ''.updatedAtMs'')) (\<lambda>updatedAtMs.
     throwIf (updatedAtMs < createdAtMs) ''ICP dyad participant state cannot predate dyad creation'' (
     case member state ''blocked'' of
       Wire_bool blocked \<Rightarrow>
         rbind (requireEnum (member state ''relationshipState'') ICP_DYAD_RELATIONSHIP_STATES
                  (path @ ''.relationshipState'')) (\<lambda>relationshipState.
         Inr \<lparr>dp_companionId = companionId, dp_relationshipState = relationshipState, dp_blocked = blocked,
              dp_updatedAtMs = updatedAtMs\<rparr>)
     | _ \<Rightarrow> Inl (Error (path @ ''.blocked must be a boolean'')))))))))"

definition parseIcpDyad :: "wire \<Rightarrow> string list option \<Rightarrow> icp_dyad result" where
  "parseIcpDyad value knownCompanionIds =
     rbind (requireRecord value ''ICP dyad'') (\<lambda>raw.
     rbind (assertNoUnknownKeys raw DYAD_KEYS ''ICP dyad'') (\<lambda>_.
     rbind (requireUuidArray (member raw ''participantCompanionIds'') ''ICP dyad.participantCompanionIds'' 2) (\<lambda>participants.
     throwIf (length participants \<noteq> 2) ''ICP dyad must contain exactly two companions'' (
     rbind (requireString (member raw ''channelId'') ''ICP dyad.channelId'' 512) (\<lambda>channelId.
     rbind (assertChannelPairBinding channelId (participants ! 0) (participants ! 1) ''ICP dyad'') (\<lambda>channelKind.
     throwIf (channelKind \<noteq> Kind_dm) ''ICP dyad.channelId must be a companion DM'' (
     rbind (check_known knownCompanionIds participants ''ICP dyad'') (\<lambda>_.
     rbind (requireEnum (member raw ''status'') ICP_DYAD_STATUSES ''ICP dyad.status'') (\<lambda>status.
     rbind (requireTimestampValue (member raw ''createdAtMs'') ''ICP dyad.createdAtMs'') (\<lambda>createdAtMs.
     rbind (case member raw ''participantStates'' of
              Wire_array vs \<Rightarrow>
                if length vs \<noteq> 2
                then Inl (Error ''ICP dyad.participantStates must contain exactly two participant states'')
                else require_each (parse_dyad_state participants createdAtMs) 0 vs
            | _ \<Rightarrow> Inl (Error ''ICP dyad.participantStates must contain exactly two participant states'')) (\<lambda>participantStates.
     throwIf (resolveIcpDyadStatus participantStates \<noteq> status) ''ICP dyad status does not match its effective status'' (
     rbind (requireUuidArray (member raw ''provenanceConversationIds'')
              ''ICP dyad.provenanceConversationIds'' 1) (\<lambda>provenanceConversationIds.
     rbind (requireUuidValue (member raw ''dyadId'') ''ICP dyad.dyadId'') (\<lambda>dyadId.
     rbind (requireRevision (member raw ''lifecycleRevision'') ''ICP dyad.lifecycleRevision'') (\<lambda>lifecycleRevision.
     rbind (requireRevision (member raw ''revision'') ''ICP dyad.revision'') (\<lambda>revision.
     Inr \<lparr>dy_dyadId = dyadId, dy_channelId = channelId, dy_participantCompanionIds = participants, dy_status = status,
          dy_participantStates = participantStates, dy_createdAtMs = createdAtMs,
          dy_provenanceConversationIds = provenanceConversationIds, dy_lifecycleRevision = lifecycleRevision,
          dy_revision = revision\<rparr>))))))))))))))))"

fun DYAD_TRANSITIONS :: "dyad_status \<Rightarrow> dyad_status list" where
  "DYAD_TRANSITIONS Dyad_open = [Dyad_paused, Dyad_closed, Dyad_blocked]"
| "DYAD_TRANSITIONS Dyad_paused = [Dyad_open, Dyad_closed, Dyad_blocked]"
| "DYAD_TRANSITIONS Dyad_closed = [Dyad_open, Dyad_blocked]"
| "DYAD_TRANSITIONS Dyad_blocked = [Dyad_open, Dyad_paused, Dyad_closed]"

definition assertIcpDyadStatusTransition :: "dyad_status \<Rightarrow> dyad_status \<Rightarrow> unit result" where
  "assertIcpDyadStatusTransition from to =
     throwIf (to \<notin> set (DYAD_TRANSITIONS from))
       (''Invalid ICP dyad status transition: '' @ enum_name ICP_DYAD_STATUSES from @ '' -> '' @ enum_name ICP_DYAD_STATUSES to)
       (Inr ())"

section \<open>Initiation permits\<close>

datatype permit_status = Permit_issued | Permit_consumed | Permit_revoked | Permit_expired

definition ICP_PERMIT_STATUSES :: "(string \<times> permit_status) list" where
  "ICP_PERMIT_STATUSES = [(''issued'', Permit_issued), (''consumed'', Permit_consumed), (''revoked'', Permit_revoked),
     (''expired'', Permit_expired)]"

definition MAX_ICP_PERMIT_TTL_MS :: int where
  "MAX_ICP_PERMIT_TTL_MS = 15 * 60000"

record initiation_permit =
  ip_permitId :: string
  ip_candidateId :: string
  ip_conversationId :: string
  ip_senderCompanionId :: string
  ip_recipientCompanionId :: string
  ip_channelId :: string
  ip_provenanceRef :: string
  ip_issuedAtMs :: int
  ip_expiresAtMs :: int
  ip_status :: permit_status
  ip_consumedAtMs :: "int option"
  ip_revokedAtMs :: "int option"
  ip_reasonCode :: "string option"
  ip_revision :: int

definition PERMIT_KEYS :: "string list" where
  "PERMIT_KEYS = [''permitId'', ''candidateId'', ''conversationId'', ''senderCompanionId'', ''recipientCompanionId'',
     ''channelId'', ''provenanceRef'', ''issuedAtMs'', ''expiresAtMs'', ''status'', ''consumedAtMs'', ''revokedAtMs'',
     ''reasonCode'', ''revision'']"

definition check_permit_times :: "permit_status \<Rightarrow> int \<Rightarrow> int \<Rightarrow> int option \<Rightarrow> int option \<Rightarrow> unit result" where
  "check_permit_times status issuedAtMs expiresAtMs consumedAtMs revokedAtMs =
     throwIf (status = Permit_consumed \<and> consumedAtMs = None) ''Consumed ICP initiation permit requires consumedAtMs'' (
     throwIf (status \<noteq> Permit_consumed \<and> consumedAtMs \<noteq> None) ''Only a consumed ICP initiation permit may carry consumedAtMs'' (
     throwIf (status = Permit_revoked \<and> revokedAtMs = None) ''Revoked ICP initiation permit requires revokedAtMs'' (
     throwIf (status \<noteq> Permit_revoked \<and> revokedAtMs \<noteq> None) ''Only a revoked ICP initiation permit may carry revokedAtMs'' (
     throwIf (\<exists>t \<in> set_option consumedAtMs. t < issuedAtMs) ''ICP initiation permit.consumedAtMs must not predate issuedAtMs'' (
     throwIf (\<exists>t \<in> set_option consumedAtMs. t \<ge> expiresAtMs) ''ICP initiation permit.consumedAtMs must precede expiresAtMs'' (
     throwIf (\<exists>t \<in> set_option revokedAtMs. t < issuedAtMs) ''ICP initiation permit.revokedAtMs must not predate issuedAtMs'' (
     Inr ())))))))"

text \<open>\<open>Some nowMs\<close> is the option \<^verbatim>\<open>requireUsable: true\<close> with that \<^verbatim>\<open>nowMs\<close>.\<close>

definition check_permit_usable :: "permit_status \<Rightarrow> int \<Rightarrow> int \<Rightarrow> wire option \<Rightarrow> unit result" where
  "check_permit_usable status issuedAtMs expiresAtMs usable =
     (case usable of
        None \<Rightarrow> Inr ()
      | Some now \<Rightarrow> rbind (requireTimestampValue now ''ICP permit validation nowMs'') (\<lambda>nowMs.
          throwIf (status \<noteq> Permit_issued) (''ICP initiation permit is not usable: '' @ enum_name ICP_PERMIT_STATUSES status) (
          throwIf (issuedAtMs > nowMs) ''ICP initiation permit is not yet valid'' (
          throwIf (expiresAtMs \<le> nowMs) ''ICP initiation permit is expired'' (Inr ())))))"

definition parseIcpInitiationPermit :: "wire \<Rightarrow> wire option \<Rightarrow> initiation_permit result" where
  "parseIcpInitiationPermit value usable =
     rbind (requireRecord value ''ICP initiation permit'') (\<lambda>raw.
     rbind (assertNoUnknownKeys raw PERMIT_KEYS ''ICP initiation permit'') (\<lambda>_.
     rbind (requireUuidValue (member raw ''senderCompanionId'') ''ICP initiation permit.senderCompanionId'') (\<lambda>sender.
     rbind (requireUuidValue (member raw ''recipientCompanionId'') ''ICP initiation permit.recipientCompanionId'') (\<lambda>recipient.
     rbind (requireString (member raw ''channelId'') ''ICP initiation permit.channelId'' 512) (\<lambda>channelId.
     rbind (assertChannelPairBinding channelId sender recipient ''ICP initiation permit'') (\<lambda>_.
     rbind (requireTimestampValue (member raw ''issuedAtMs'') ''ICP initiation permit.issuedAtMs'') (\<lambda>issuedAtMs.
     rbind (requireTimestampValue (member raw ''expiresAtMs'') ''ICP initiation permit.expiresAtMs'') (\<lambda>expiresAtMs.
     throwIf (expiresAtMs \<le> issuedAtMs) ''ICP initiation permit.expiresAtMs must be later than issuedAtMs'' (
     throwIf (expiresAtMs - issuedAtMs > MAX_ICP_PERMIT_TTL_MS) ''ICP initiation permit exceeds maximum TTL 900000ms'' (
     rbind (requireEnum (member raw ''status'') ICP_PERMIT_STATUSES ''ICP initiation permit.status'') (\<lambda>status.
     rbind (requireOptionalTimestamp (member raw ''consumedAtMs'') ''ICP initiation permit.consumedAtMs'') (\<lambda>consumedAtMs.
     rbind (requireOptionalTimestamp (member raw ''revokedAtMs'') ''ICP initiation permit.revokedAtMs'') (\<lambda>revokedAtMs.
     rbind (check_permit_times status issuedAtMs expiresAtMs consumedAtMs revokedAtMs) (\<lambda>_.
     rbind (check_permit_usable status issuedAtMs expiresAtMs usable) (\<lambda>_.
     rbind (requireOptionalReason (member raw ''reasonCode'') ''ICP initiation permit.reasonCode'') (\<lambda>reasonCode.
     rbind (requireUuidValue (member raw ''permitId'') ''ICP initiation permit.permitId'') (\<lambda>permitId.
     rbind (requireUuidValue (member raw ''candidateId'') ''ICP initiation permit.candidateId'') (\<lambda>candidateId.
     rbind (requireUuidValue (member raw ''conversationId'') ''ICP initiation permit.conversationId'') (\<lambda>conversationId.
     rbind (parseIcpProvenanceHandle (member raw ''provenanceRef'') ''ICP initiation permit.provenanceRef'') (\<lambda>provenanceRef.
     rbind (requireRevision (member raw ''revision'') ''ICP initiation permit.revision'') (\<lambda>revision.
     Inr \<lparr>ip_permitId = permitId, ip_candidateId = candidateId, ip_conversationId = conversationId,
          ip_senderCompanionId = sender, ip_recipientCompanionId = recipient, ip_channelId = channelId,
          ip_provenanceRef = provenanceRef, ip_issuedAtMs = issuedAtMs, ip_expiresAtMs = expiresAtMs, ip_status = status,
          ip_consumedAtMs = consumedAtMs, ip_revokedAtMs = revokedAtMs, ip_reasonCode = reasonCode,
          ip_revision = revision\<rparr>)))))))))))))))))))))"

definition redactIcpInitiationPermit :: "initiation_permit \<Rightarrow> initiation_permit" where
  "redactIcpInitiationPermit permit = permit\<lparr>ip_permitId := ''[redacted]''\<rparr>"

section \<open>Conversation correlation\<close>

datatype correlation_surface = Surface_companion_dm | Surface_companion_room

datatype cost_purpose = Purpose_conversation_turn | Purpose_tool | Purpose_summary | Purpose_extraction | Purpose_sidecar

datatype cost_stage = Cost_initiation | Cost_reply | Cost_post_turn | Cost_maintenance

datatype icp_fatigue_decision = Icp_allow | Icp_allow_overcharge | Icp_suppress | Icp_not_evaluated

definition surface_names :: "(string \<times> correlation_surface) list" where
  "surface_names = [(''companion_dm'', Surface_companion_dm), (''companion_room'', Surface_companion_room)]"

definition lane_names :: "(string \<times> charge_lane) list" where
  "lane_names = [(''interactive'', Lane_interactive), (''companion_social'', Lane_companion_social)]"

definition purpose_names :: "(string \<times> cost_purpose) list" where
  "purpose_names = [(''conversation_turn'', Purpose_conversation_turn), (''tool'', Purpose_tool),
     (''summary'', Purpose_summary), (''extraction'', Purpose_extraction), (''sidecar'', Purpose_sidecar)]"

definition stage_names :: "(string \<times> cost_stage) list" where
  "stage_names = [(''initiation'', Cost_initiation), (''reply'', Cost_reply), (''post_turn'', Cost_post_turn),
     (''maintenance'', Cost_maintenance)]"

definition fatigue_decision_names :: "(string \<times> icp_fatigue_decision) list" where
  "fatigue_decision_names = [(''allow'', Icp_allow), (''allow_overcharge'', Icp_allow_overcharge),
     (''suppress'', Icp_suppress), (''not_evaluated'', Icp_not_evaluated)]"

record icp_correlation =
  ic_dyadId :: "string option"
  ic_conversationId :: string
  ic_rootInitiationId :: string
  ic_initiatedByCompanionId :: string
  ic_localCompanionId :: string
  ic_peerCompanionId :: string
  ic_peerContactId :: string
  ic_channelId :: string
  ic_turnId :: string
  ic_messageId :: string
  ic_requestId :: string
  ic_chargeLane :: charge_lane
  ic_surface :: correlation_surface
  ic_costPurpose :: cost_purpose
  ic_costOriginStage :: cost_stage
  ic_fatigueDecision :: icp_fatigue_decision
  ic_fatigueReasonCode :: "string option"

definition CORRELATION_KEYS :: "string list" where
  "CORRELATION_KEYS = [''dyadId'', ''conversationId'', ''rootInitiationId'', ''initiatedByCompanionId'',
     ''localCompanionId'', ''peerCompanionId'', ''peerContactId'', ''channelId'', ''turnId'', ''messageId'', ''requestId'',
     ''chargeLane'', ''surface'', ''costPurpose'', ''costOriginStage'', ''fatigueDecision'', ''fatigueReasonCode'']"

definition parseIcpConversationCorrelation :: "wire \<Rightarrow> icp_correlation result" where
  "parseIcpConversationCorrelation value =
     rbind (requireRecord value ''ICP conversation correlation'') (\<lambda>raw.
     rbind (assertNoUnknownKeys raw CORRELATION_KEYS ''ICP conversation correlation'') (\<lambda>_.
     rbind (requireUuidValue (member raw ''localCompanionId'') ''ICP conversation correlation.localCompanionId'') (\<lambda>local.
     rbind (requireUuidValue (member raw ''peerCompanionId'') ''ICP conversation correlation.peerCompanionId'') (\<lambda>peer.
     rbind (requireString (member raw ''channelId'') ''ICP conversation correlation.channelId'' 512) (\<lambda>channelId.
     rbind (assertChannelPairBinding channelId local peer ''ICP conversation correlation'') (\<lambda>channelKind.
     rbind (requireEnum (member raw ''surface'') surface_names ''ICP conversation correlation.surface'') (\<lambda>surface.
     throwIf ((channelKind = Kind_dm \<and> surface \<noteq> Surface_companion_dm) \<or> (channelKind = Kind_room \<and> surface \<noteq> Surface_companion_room))
       ''ICP conversation correlation.surface does not match channelId'' (
     throwIf (member raw ''dyadId'' \<noteq> Wire_undefined \<and> channelKind \<noteq> Kind_dm)
       ''ICP conversation correlation.dyadId is restricted to companion DM traffic'' (
     rbind (requireOptionalReason (member raw ''fatigueReasonCode'')
              ''ICP conversation correlation.fatigueReasonCode'') (\<lambda>fatigueReasonCode.
     rbind (requireUuidValue (member raw ''initiatedByCompanionId'')
              ''ICP conversation correlation.initiatedByCompanionId'') (\<lambda>initiatedBy.
     throwIf (initiatedBy \<noteq> local \<and> initiatedBy \<noteq> peer)
       ''ICP conversation correlation.initiatedByCompanionId must be the local or peer companion'' (
     rbind (if member raw ''dyadId'' \<noteq> Wire_undefined
            then rbind (requireUuidValue (member raw ''dyadId'') ''ICP conversation correlation.dyadId'') (\<lambda>d. Inr (Some d))
            else Inr None) (\<lambda>dyadId.
     rbind (requireUuidValue (member raw ''conversationId'') ''ICP conversation correlation.conversationId'') (\<lambda>conversationId.
     rbind (requireUuidValue (member raw ''rootInitiationId'')
              ''ICP conversation correlation.rootInitiationId'') (\<lambda>rootInitiationId.
     rbind (requireString (member raw ''peerContactId'') ''ICP conversation correlation.peerContactId'' 512) (\<lambda>peerContactId.
     rbind (requireString (member raw ''turnId'') ''ICP conversation correlation.turnId'' 512) (\<lambda>turnId.
     rbind (requireString (member raw ''messageId'') ''ICP conversation correlation.messageId'' 512) (\<lambda>messageId.
     rbind (requireString (member raw ''requestId'') ''ICP conversation correlation.requestId'' 512) (\<lambda>requestId.
     rbind (requireEnum (member raw ''chargeLane'') lane_names ''ICP conversation correlation.chargeLane'') (\<lambda>chargeLane.
     rbind (requireEnum (member raw ''costPurpose'') purpose_names ''ICP conversation correlation.costPurpose'') (\<lambda>costPurpose.
     rbind (requireEnum (member raw ''costOriginStage'') stage_names
              ''ICP conversation correlation.costOriginStage'') (\<lambda>costOriginStage.
     rbind (requireEnum (member raw ''fatigueDecision'') fatigue_decision_names
              ''ICP conversation correlation.fatigueDecision'') (\<lambda>fatigueDecision.
     Inr \<lparr>ic_dyadId = dyadId, ic_conversationId = conversationId, ic_rootInitiationId = rootInitiationId,
          ic_initiatedByCompanionId = initiatedBy, ic_localCompanionId = local, ic_peerCompanionId = peer,
          ic_peerContactId = peerContactId, ic_channelId = channelId, ic_turnId = turnId, ic_messageId = messageId,
          ic_requestId = requestId, ic_chargeLane = chargeLane, ic_surface = surface, ic_costPurpose = costPurpose,
          ic_costOriginStage = costOriginStage, ic_fatigueDecision = fatigueDecision,
          ic_fatigueReasonCode = fatigueReasonCode\<rparr>)))))))))))))))))))))))"

text \<open>The object a correlation is in memory.\<close>

definition optional_member :: "string \<Rightarrow> string option \<Rightarrow> (string \<times> wire) list" where
  "optional_member key v = (case v of None \<Rightarrow> [] | Some s \<Rightarrow> [(key, Wire_string s)])"

definition correlation_wire :: "icp_correlation \<Rightarrow> wire" where
  "correlation_wire c = Wire_object (optional_member ''dyadId'' (ic_dyadId c) @
     [(''conversationId'', Wire_string (ic_conversationId c)), (''rootInitiationId'', Wire_string (ic_rootInitiationId c)),
      (''initiatedByCompanionId'', Wire_string (ic_initiatedByCompanionId c)),
      (''localCompanionId'', Wire_string (ic_localCompanionId c)), (''peerCompanionId'', Wire_string (ic_peerCompanionId c)),
      (''peerContactId'', Wire_string (ic_peerContactId c)), (''channelId'', Wire_string (ic_channelId c)),
      (''turnId'', Wire_string (ic_turnId c)), (''messageId'', Wire_string (ic_messageId c)),
      (''requestId'', Wire_string (ic_requestId c)), (''chargeLane'', Wire_string (enum_name lane_names (ic_chargeLane c))),
      (''surface'', Wire_string (enum_name surface_names (ic_surface c))),
      (''costPurpose'', Wire_string (enum_name purpose_names (ic_costPurpose c))),
      (''costOriginStage'', Wire_string (enum_name stage_names (ic_costOriginStage c))),
      (''fatigueDecision'', Wire_string (enum_name fatigue_decision_names (ic_fatigueDecision c)))]
     @ optional_member ''fatigueReasonCode'' (ic_fatigueReasonCode c))"

definition deriveIcpTransportMessageId :: "icp_correlation \<Rightarrow> string result" where
  "deriveIcpTransportMessageId value =
     rbind (parseIcpConversationCorrelation (correlation_wire value)) (\<lambda>correlation.
     if ic_costOriginStage correlation = Cost_initiation
     then let initiation = starts_with ''icp-initiation:'' (ic_messageId correlation) in
          throwIf (\<not> initiation \<and> \<not> starts_with ''icp-continuation:'' (ic_messageId correlation))
            ''ICP initiation correlation messageId is not authority-bound'' (
          let candidateId = js_trim (drop (length (if initiation then ''icp-initiation:'' else ''icp-continuation:''))
                (ic_messageId correlation)) in
          throwIf (candidateId = []) ''ICP initiation correlation is missing candidate identity'' (
          Inr ((if initiation then ''companion-initiation-'' else ''companion-continuation-'') @ candidateId)))
     else throwIf (ic_costOriginStage correlation \<noteq> Cost_reply)
            ''Only initiation and reply ICP correlations can be transported'' (
          Inr (''companion-reply-'' @ ic_localCompanionId correlation @ ''-'' @ ic_turnId correlation)))"

definition deriveChildIcpConversationCostCorrelation ::
  "icp_correlation \<Rightarrow> string \<Rightarrow> cost_purpose \<Rightarrow> cost_stage \<Rightarrow> icp_correlation result" where
  "deriveChildIcpConversationCostCorrelation value requestId costPurpose costOriginStage =
     rbind (parseIcpConversationCorrelation (correlation_wire value)) (\<lambda>correlation.
     parseIcpConversationCorrelation (correlation_wire (correlation\<lparr>ic_requestId := requestId,
       ic_costPurpose := costPurpose, ic_costOriginStage := costOriginStage\<rparr>)))"

end
