(* ===== verification/Icp_Laws.thy ===== *)
theory Icp_Laws
  imports Icp_Contract
begin

text \<open>
  What the parsers of the inter-companion vocabulary accept, and that what they return is canonical.
\<close>

section \<open>Guards\<close>

lemma requireRecord_Inr [guard_simps]: "requireRecord v l = Inr raw \<longleftrightarrow> v = Wire_object raw"
  by (cases v) (auto simp: requireRecord_def)

lemma assertNoUnknownKeys_Inr [guard_simps]:
  "assertNoUnknownKeys raw allowed path = Inr u \<longleftrightarrow> fst ` set raw \<subseteq> set allowed"
proof -
  have "sort (filter (\<lambda>key. key \<notin> set allowed) (map fst raw)) = []
      \<longleftrightarrow> set (filter (\<lambda>key. key \<notin> set allowed) (map fst raw)) = {}"
    by (metis set_empty set_sort)
  then show ?thesis by (auto simp: assertNoUnknownKeys_def Let_def)
qed

lemma requireUuidValue_Inr [guard_simps]: "requireUuidValue v f = Inr s \<longleftrightarrow> v = Wire_string s \<and> isRfc4122Uuid s"
  by (cases v) (auto simp: requireUuidValue_def)

definition text_ok :: "nat \<Rightarrow> string \<Rightarrow> bool" where
  "text_ok n s \<longleftrightarrow> s \<noteq> [] \<and> js_trim s = s \<and> length s \<le> n"

lemma requireString_Inr [guard_simps]: "requireString v f n = Inr s \<longleftrightarrow> v = Wire_string s \<and> text_ok n s"
  by (cases v) (auto simp: requireString_def text_ok_def)

lemma requireTimestampValue_Inr [guard_simps]:
  "requireTimestampValue v f = Inr t \<longleftrightarrow> (\<exists>n. v = Wire_number n \<and> is_timestamp n \<and> t = intval n)"
  by (cases v) (auto simp: requireTimestampValue_def guard_simps)

definition enum_at :: "(string \<times> 'a) list \<Rightarrow> wire \<Rightarrow> 'a \<Rightarrow> bool" where
  "enum_at table v x \<longleftrightarrow> (case v of Wire_string s \<Rightarrow> map_of table s = Some x | _ \<Rightarrow> False)"

definition optional_at :: "wire \<Rightarrow> string option \<Rightarrow> bool" where
  "optional_at v r \<longleftrightarrow> v = (case r of None \<Rightarrow> Wire_undefined | Some s \<Rightarrow> Wire_string s)"

lemma requireEnum_Inr [guard_simps]: "requireEnum v table f = Inr x \<longleftrightarrow> enum_at table v x"
  by (cases v) (auto simp: requireEnum_def enum_at_def split: option.splits)

lemma map_of_self: "map_of (map (\<lambda>s. (s, s)) xs) s = Some t \<longleftrightarrow> s \<in> set xs \<and> t = s"
  by (induction xs) auto

lemma requireOptionalReason_Inr [guard_simps]:
  "requireOptionalReason v f = Inr r \<longleftrightarrow> optional_at v r \<and> set_option r \<subseteq> set ICP_AUTONOMY_REASON_CODES"
  by (cases v; cases r) (auto simp: requireOptionalReason_def result_simps guard_simps map_of_self enum_at_def optional_at_def)

definition optional_uuid :: "wire \<Rightarrow> string \<Rightarrow> string option result" where
  "optional_uuid v f = (if v \<noteq> Wire_undefined then rbind (requireUuidValue v f) (\<lambda>d. Inr (Some d)) else Inr None)"

lemma optional_uuid_Inr [guard_simps]:
  "optional_uuid v f = Inr r \<longleftrightarrow> optional_at v r \<and> (\<forall>s \<in> set_option r. isRfc4122Uuid s)"
  by (cases v; cases r) (auto simp: optional_uuid_def result_simps guard_simps optional_at_def)

text \<open>A channel binds a pair as its sorted direct-message channel, or as a room.\<close>

definition binds :: "string \<Rightarrow> string \<Rightarrow> string \<Rightarrow> channel_kind \<Rightarrow> bool" where
  "binds channelId a b kind \<longleftrightarrow> a \<noteq> b \<and>
     (case kind of Kind_dm \<Rightarrow> parseCompanionChannelId channelId = Some (Channel_dm (min a b) (max a b))
      | Kind_room \<Rightarrow> (case parseCompanionChannelId channelId of Some (Channel_room p) \<Rightarrow> True | _ \<Rightarrow> False))"

lemma assertChannelPairBinding_Inr [guard_simps]:
  "assertChannelPairBinding ch a b label = Inr kind \<longleftrightarrow> binds ch a b kind"
  by (auto simp: assertChannelPairBinding_def binds_def Let_def min_def max_def throwIf_def
      split: option.splits companion_channel.splits channel_kind.splits)

section \<open>Correlations\<close>

fun kind_of :: "correlation_surface \<Rightarrow> channel_kind" where
  "kind_of Surface_companion_dm = Kind_dm"
| "kind_of Surface_companion_room = Kind_room"

lemma kind_matches:
  "\<not> ((kind = Kind_dm \<and> s \<noteq> Surface_companion_dm) \<or> (kind = Kind_room \<and> s \<noteq> Surface_companion_room)) \<longleftrightarrow> kind = kind_of s"
  by (cases kind; cases s) auto

definition correlation_ok :: "icp_correlation \<Rightarrow> bool" where
  "correlation_ok c \<longleftrightarrow>
     isRfc4122Uuid (ic_localCompanionId c) \<and> isRfc4122Uuid (ic_peerCompanionId c)
     \<and> isRfc4122Uuid (ic_conversationId c) \<and> isRfc4122Uuid (ic_rootInitiationId c)
     \<and> (ic_initiatedByCompanionId c = ic_localCompanionId c \<or> ic_initiatedByCompanionId c = ic_peerCompanionId c)
     \<and> text_ok 512 (ic_channelId c)
     \<and> binds (ic_channelId c) (ic_localCompanionId c) (ic_peerCompanionId c) (kind_of (ic_surface c))
     \<and> (\<forall>d \<in> set_option (ic_dyadId c). isRfc4122Uuid d \<and> ic_surface c = Surface_companion_dm)
     \<and> text_ok 512 (ic_peerContactId c) \<and> text_ok 512 (ic_turnId c) \<and> text_ok 512 (ic_messageId c) \<and> text_ok 512 (ic_requestId c)
     \<and> set_option (ic_fatigueReasonCode c) \<subseteq> set ICP_AUTONOMY_REASON_CODES"

text \<open>The members of an object are those of the correlation.\<close>

definition correlation_members :: "(string \<times> wire) list \<Rightarrow> icp_correlation \<Rightarrow> bool" where
  "correlation_members raw c \<longleftrightarrow>
     optional_at (member raw ''dyadId'') (ic_dyadId c)
     \<and> member raw ''conversationId'' = Wire_string (ic_conversationId c)
     \<and> member raw ''rootInitiationId'' = Wire_string (ic_rootInitiationId c)
     \<and> member raw ''initiatedByCompanionId'' = Wire_string (ic_initiatedByCompanionId c)
     \<and> member raw ''localCompanionId'' = Wire_string (ic_localCompanionId c)
     \<and> member raw ''peerCompanionId'' = Wire_string (ic_peerCompanionId c)
     \<and> member raw ''peerContactId'' = Wire_string (ic_peerContactId c)
     \<and> member raw ''channelId'' = Wire_string (ic_channelId c)
     \<and> member raw ''turnId'' = Wire_string (ic_turnId c)
     \<and> member raw ''messageId'' = Wire_string (ic_messageId c)
     \<and> member raw ''requestId'' = Wire_string (ic_requestId c)
     \<and> enum_at lane_names (member raw ''chargeLane'') (ic_chargeLane c)
     \<and> enum_at surface_names (member raw ''surface'') (ic_surface c)
     \<and> enum_at purpose_names (member raw ''costPurpose'') (ic_costPurpose c)
     \<and> enum_at stage_names (member raw ''costOriginStage'') (ic_costOriginStage c)
     \<and> enum_at fatigue_decision_names (member raw ''fatigueDecision'') (ic_fatigueDecision c)
     \<and> optional_at (member raw ''fatigueReasonCode'') (ic_fatigueReasonCode c)"

lemmas correlation_unfold = parseIcpConversationCorrelation_def [folded optional_uuid_def]

lemma dm_only: "optional_at v r \<Longrightarrow>
    \<not> (v \<noteq> Wire_undefined \<and> kind_of s \<noteq> Kind_dm) \<longleftrightarrow> (\<forall>d \<in> set_option r. s = Surface_companion_dm)"
  by (cases r; cases s) (auto simp: optional_at_def)

definition checked_correlation :: "(string \<times> wire) list \<Rightarrow> icp_correlation \<Rightarrow> bool" where
  "checked_correlation raw c \<longleftrightarrow>
     isRfc4122Uuid (ic_localCompanionId c) \<and> isRfc4122Uuid (ic_peerCompanionId c)
     \<and> isRfc4122Uuid (ic_conversationId c) \<and> isRfc4122Uuid (ic_rootInitiationId c) \<and> isRfc4122Uuid (ic_initiatedByCompanionId c)
     \<and> (ic_initiatedByCompanionId c = ic_localCompanionId c \<or> ic_initiatedByCompanionId c = ic_peerCompanionId c)
     \<and> text_ok 512 (ic_channelId c)
     \<and> binds (ic_channelId c) (ic_localCompanionId c) (ic_peerCompanionId c) (kind_of (ic_surface c))
     \<and> \<not> (member raw ''dyadId'' \<noteq> Wire_undefined \<and> kind_of (ic_surface c) \<noteq> Kind_dm)
     \<and> (\<forall>d \<in> set_option (ic_dyadId c). isRfc4122Uuid d)
     \<and> text_ok 512 (ic_peerContactId c) \<and> text_ok 512 (ic_turnId c) \<and> text_ok 512 (ic_messageId c) \<and> text_ok 512 (ic_requestId c)
     \<and> set_option (ic_fatigueReasonCode c) \<subseteq> set ICP_AUTONOMY_REASON_CODES"

lemma checked_correlation_ok: "correlation_members raw c \<Longrightarrow> checked_correlation raw c \<longleftrightarrow> correlation_ok c"
proof -
  assume "correlation_members raw c"
  then have "optional_at (member raw ''dyadId'') (ic_dyadId c)" by (simp add: correlation_members_def)
  from dm_only [OF this] show ?thesis unfolding checked_correlation_def correlation_ok_def by auto
qed

lemma parse_correlation_iff:
  "parseIcpConversationCorrelation v = Inr c \<longleftrightarrow>
     (\<exists>raw. v = Wire_object raw \<and> fst ` set raw \<subseteq> set CORRELATION_KEYS \<and> correlation_members raw c \<and> correlation_ok c)"
proof -
  have "parseIcpConversationCorrelation v = Inr c \<longleftrightarrow>
     (\<exists>raw. v = Wire_object raw \<and> fst ` set raw \<subseteq> set CORRELATION_KEYS \<and> correlation_members raw c
        \<and> checked_correlation raw c)"
    unfolding correlation_unfold checked_correlation_def
    by (cases c) (simp only: rbind_eq_Inr throwIf_eq_Inr guard_simps kind_matches, simp add: correlation_members_def, blast)
  then show ?thesis using checked_correlation_ok by auto
qed

lemma enum_names:
  "map_of lane_names (enum_name lane_names l) = Some l"
  "map_of surface_names (enum_name surface_names s) = Some s"
  "map_of purpose_names (enum_name purpose_names p) = Some p"
  "map_of stage_names (enum_name stage_names g) = Some g"
  "map_of fatigue_decision_names (enum_name fatigue_decision_names d) = Some d"
  by ((cases l; simp add: lane_names_def enum_name_def), (cases s; simp add: surface_names_def enum_name_def),
      (cases p; simp add: purpose_names_def enum_name_def), (cases g; simp add: stage_names_def enum_name_def),
      (cases d; simp add: fatigue_decision_names_def enum_name_def))

lemma member_simps [simp]:
  "member [] k = Wire_undefined"
  "member ((k', v) # raw) k = (if k' = k then v else member raw k)"
  by (simp_all add: member_def)

lemma member_optional [simp]:
  "member (optional_member k' v @ raw) k = (if k' = k \<and> v \<noteq> None then Wire_string (the v) else member raw k)"
  "member (optional_member k' v) k = (if k' = k \<and> v \<noteq> None then Wire_string (the v) else Wire_undefined)"
  by (auto simp: optional_member_def member_def split: option.splits)

lemma wire_members:
  assumes "correlation_wire c = Wire_object raw"
  shows "correlation_members raw c"
proof -
  have raw: "raw = (case correlation_wire c of Wire_object raw \<Rightarrow> raw)" using assms by simp
  show ?thesis unfolding raw correlation_wire_def correlation_members_def wire.case
    by (intro conjI; simp add: optional_at_def enum_at_def enum_names split: option.split)
qed

lemma wire_keys:
  assumes "correlation_wire c = Wire_object raw"
  shows "fst ` set raw \<subseteq> set CORRELATION_KEYS"
  using assms
  by (auto simp: correlation_wire_def CORRELATION_KEYS_def optional_member_def split: option.splits)

lemma optional_at_unique: "optional_at v r \<Longrightarrow> optional_at v r' \<Longrightarrow> r = r'"
  by (cases r; cases r') (auto simp: optional_at_def)

lemma enum_at_unique: "enum_at t v x \<Longrightarrow> enum_at t v y \<Longrightarrow> x = y"
  by (cases v) (auto simp: enum_at_def)

lemma string_at_unique: "v = Wire_string s \<Longrightarrow> v = Wire_string t \<Longrightarrow> s = t"
  by simp

lemma members_unique:
  assumes "correlation_members raw d" "correlation_members raw c"
  shows "d = c"
  using assms unfolding correlation_members_def
  apply (elim conjE)
  apply (rule icp_correlation.equality)
                   apply (erule (1) optional_at_unique enum_at_unique string_at_unique)+
  apply simp
  done

lemma parse_wire: "parseIcpConversationCorrelation (correlation_wire c) = Inr d \<longleftrightarrow> correlation_ok c \<and> d = c"
proof -
  obtain raw where raw: "correlation_wire c = Wire_object raw" by (simp add: correlation_wire_def)
  have same: "correlation_members raw d \<Longrightarrow> d = c"
    by (rule members_unique [OF _ wire_members [OF raw]])
  show ?thesis
    unfolding parse_correlation_iff raw using wire_members [OF raw] wire_keys [OF raw] same by auto
qed


section \<open>Dyads and permits\<close>

lemma requireOptionalTimestamp_Inr [guard_simps]:
  "requireOptionalTimestamp v f = Inr r \<longleftrightarrow>
     (case r of None \<Rightarrow> v = Wire_undefined | Some t \<Rightarrow> requireTimestampValue v f = Inr t)"
  by (cases v) (auto simp: requireOptionalTimestamp_def requireTimestampValue_def result_simps split: option.splits)

lemma require_each_length: "require_each f i vs = Inr xs \<Longrightarrow> length xs = length vs"
  by (induction f i vs arbitrary: xs rule: require_each.induct) (auto simp: result_simps)

lemma require_each_nth: "require_each f i vs = Inr xs \<Longrightarrow> n < length vs \<Longrightarrow> f (i + n) (vs ! n) = Inr (xs ! n)"
proof (induction f i vs arbitrary: xs n rule: require_each.induct)
  case (2 f i v vs)
  then show ?case by (cases n) (auto simp: result_simps)
qed simp

lemma case_bool_Inr:
  "(case w of Wire_bool b \<Rightarrow> f b | _ \<Rightarrow> Inl e) = Inr x \<longleftrightarrow> (\<exists>b. w = Wire_bool b \<and> f b = Inr x)"
  by (cases w) auto

lemma case_array_Inr:
  "(case w of Wire_array vs \<Rightarrow> f vs | _ \<Rightarrow> Inl e) = Inr x \<longleftrightarrow> (\<exists>vs. w = Wire_array vs \<and> f vs = Inr x)"
  by (cases w) auto

lemma if_Inl_Inr: "(if b then Inl e else m) = Inr x \<longleftrightarrow> \<not> b \<and> m = Inr x"
  by simp

lemma parse_dyad_state_companion:
  "parse_dyad_state ps t i v = Inr s \<Longrightarrow> dp_companionId s = ps ! i \<and> t \<le> dp_updatedAtMs s"
  by (auto simp: parse_dyad_state_def Let_def rbind_eq_Inr guard_simps case_bool_Inr)

lemma resolve_open:
  "resolveIcpDyadStatus states = Dyad_open \<longleftrightarrow>
     (\<forall>s \<in> set states. dp_relationshipState s = Relationship_open \<and> \<not> dp_blocked s)"
proof -
  have "r = Relationship_open \<longleftrightarrow> r \<noteq> Relationship_closed \<and> r \<noteq> Relationship_paused" for r by (cases r) auto
  then show ?thesis by (auto simp: resolveIcpDyadStatus_def list_ex_iff)
qed

lemma check_permit_times_Inr [guard_simps]:
  "check_permit_times st issued expires consumed revoked = Inr u \<longleftrightarrow>
     (consumed \<noteq> None \<longleftrightarrow> st = Permit_consumed) \<and> (revoked \<noteq> None \<longleftrightarrow> st = Permit_revoked)
     \<and> (\<forall>t \<in> set_option consumed. issued \<le> t \<and> t < expires) \<and> (\<forall>t \<in> set_option revoked. issued \<le> t)"
  by (auto simp: check_permit_times_def not_less not_le)

lemma check_permit_usable_Inr [guard_simps]:
  "check_permit_usable st issued expires usable = Inr u \<longleftrightarrow>
     (case usable of None \<Rightarrow> True
      | Some now \<Rightarrow> \<exists>n. now = Wire_number n \<and> is_timestamp n \<and> st = Permit_issued \<and> issued \<le> intval n \<and> intval n < expires)"
  by (auto simp: check_permit_usable_def rbind_eq_Inr guard_simps not_less not_le split: option.splits)

lemma parse_permit_facts:
  assumes "parseIcpInitiationPermit v usable = Inr p"
  shows "\<exists>kind. binds (ip_channelId p) (ip_senderCompanionId p) (ip_recipientCompanionId p) kind"
    and "ip_issuedAtMs p < ip_expiresAtMs p" "ip_expiresAtMs p - ip_issuedAtMs p \<le> MAX_ICP_PERMIT_TTL_MS"
    and "check_permit_times (ip_status p) (ip_issuedAtMs p) (ip_expiresAtMs p) (ip_consumedAtMs p) (ip_revokedAtMs p) = Inr ()"
    and "check_permit_usable (ip_status p) (ip_issuedAtMs p) (ip_expiresAtMs p) usable = Inr ()"
  using assms unfolding parseIcpInitiationPermit_def
  by (simp_all only: rbind_eq_Inr throwIf_eq_Inr assertChannelPairBinding_Inr)
    (clarsimp; blast)+

lemma parse_dyad_facts:
  assumes "parseIcpDyad v known = Inr d"
  shows "dy_status d = resolveIcpDyadStatus (dy_participantStates d)"
    and "length (dy_participantCompanionIds d) = 2"
    and "binds (dy_channelId d) (dy_participantCompanionIds d ! 0) (dy_participantCompanionIds d ! 1) Kind_dm"
    and "\<exists>vs. length vs = 2 \<and> require_each (parse_dyad_state (dy_participantCompanionIds d) (dy_createdAtMs d)) 0 vs
           = Inr (dy_participantStates d)"
  using assms unfolding parseIcpDyad_def
  by (simp_all only: rbind_eq_Inr throwIf_eq_Inr assertChannelPairBinding_Inr not_not case_array_Inr if_Inl_Inr)
    (clarsimp; blast)+


section \<open>Properties\<close>

definition demo_correlation :: icp_correlation where
  "demo_correlation =
     \<lparr>ic_dyadId = None, ic_conversationId = sample_id CHR ''3'', ic_rootInitiationId = sample_id CHR ''4'',
      ic_initiatedByCompanionId = sample_id CHR ''2'', ic_localCompanionId = sample_id CHR ''1'',
      ic_peerCompanionId = sample_id CHR ''2'', ic_peerContactId = ''peer'',
      ic_channelId = ''companion-dm:'' @ sample_id CHR ''1'' @ '':'' @ sample_id CHR ''2'',
      ic_turnId = sample_id CHR ''5'', ic_messageId = ''message'', ic_requestId = ''request'',
      ic_chargeLane = Lane_interactive, ic_surface = Surface_companion_dm, ic_costPurpose = Purpose_conversation_turn,
      ic_costOriginStage = Cost_reply, ic_fatigueDecision = Icp_not_evaluated, ic_fatigueReasonCode = None\<rparr>"

lemma sample_id_uuids:
  "isRfc4122Uuid (sample_id CHR ''3'')" "isRfc4122Uuid (sample_id CHR ''4'')" "isRfc4122Uuid (sample_id CHR ''5'')"
  by (simp_all add: sample_id_def isRfc4122Uuid_def uuid_pattern_def is_hex_def numeral_eq_Suc)

lemma demo_channel:
  "parseCompanionChannelId (''companion-dm:'' @ sample_id CHR ''1'' @ '':'' @ sample_id CHR ''2'')
     = Some (Channel_dm (sample_id CHR ''1'') (sample_id CHR ''2''))"
  using sample_id_uuid sample_id_less by (simp add: parse_dm COMPANION_DM_CHANNEL_PREFIX_def)

lemma demo_correlation_ok: "correlation_ok demo_correlation"
proof -
  have "text_ok 512 (''companion-dm:'' @ sample_id CHR ''1'' @ '':'' @ sample_id CHR ''2'')"
    "text_ok 512 (sample_id CHR ''5'')" "text_ok 512 ''peer''" "text_ok 512 ''message''" "text_ok 512 ''request''"
    by code_simp+
  then show ?thesis
    using sample_id_uuid sample_id_uuids demo_channel sample_id_less
    by (simp add: correlation_ok_def demo_correlation_def binds_def min_def max_def less_imp_le)
qed

text \<open>
  C18. A parsed correlation is well formed and canonical: its identities are lowercase UUIDs, its channel is the
  sorted direct-message channel of exactly the local and the peer companion or a room, as its surface says, only
  direct messages carry a dyad, the initiator is one of the two, and parsing the object it is in memory again
  gives the same correlation.
\<close>

theorem icp_correlation_canonical:
  assumes "parseIcpConversationCorrelation v = Inr c"
  shows "correlation_ok c \<and> parseIcpConversationCorrelation (correlation_wire c) = Inr c
    \<and> (ic_surface c = Surface_companion_dm \<longrightarrow>
        composeCompanionDmChannelId (ic_localCompanionId c) (ic_peerCompanionId c) = Inr (ic_channelId c))"
proof (intro conjI impI)
  show ok: "correlation_ok c" using assms by (auto simp: parse_correlation_iff)
  then show "parseIcpConversationCorrelation (correlation_wire c) = Inr c" by (simp add: parse_wire)
  assume "ic_surface c = Surface_companion_dm"
  then have "binds (ic_channelId c) (ic_localCompanionId c) (ic_peerCompanionId c) Kind_dm"
    using ok by (simp add: correlation_ok_def)
  then show "composeCompanionDmChannelId (ic_localCompanionId c) (ic_peerCompanionId c) = Inr (ic_channelId c)"
    using ok by (auto simp: binds_def parse_dm compose_dm Let_def correlation_ok_def)
qed

theorem icp_correlation_canonical_witness:
  "correlation_ok demo_correlation
   \<and> composeCompanionDmChannelId (sample_id CHR ''1'') (sample_id CHR ''2'')
     = Inr (''companion-dm:'' @ sample_id CHR ''1'' @ '':'' @ sample_id CHR ''2'')"
proof -
  have p: "parseIcpConversationCorrelation (correlation_wire demo_correlation) = Inr demo_correlation"
    by (simp add: parse_wire demo_correlation_ok)
  show ?thesis using icp_correlation_canonical [OF p]
    by (simp add: demo_correlation_def)
qed

text \<open>An initiation message id is bound to its candidate by one of two prefixes.\<close>

definition authored :: "string \<Rightarrow> icp_correlation \<Rightarrow> bool" where
  "authored prefix c \<longleftrightarrow> (prefix = ''icp-initiation:'' \<or> prefix = ''icp-continuation:'') \<and> starts_with prefix (ic_messageId c)"

lemma transport_cases:
  assumes "deriveIcpTransportMessageId c = Inr m"
  obtains "ic_costOriginStage c = Cost_reply" "length (ic_localCompanionId c) = 36"
      "m = ''companion-reply-'' @ ic_localCompanionId c @ ''-'' @ ic_turnId c"
  | "ic_costOriginStage c = Cost_initiation" "authored ''icp-initiation:'' c"
      "m = ''companion-initiation-'' @ js_trim (drop (length ''icp-initiation:'') (ic_messageId c))"
  | "ic_costOriginStage c = Cost_initiation" "authored ''icp-continuation:'' c"
      "m = ''companion-continuation-'' @ js_trim (drop (length ''icp-continuation:'') (ic_messageId c))"
proof -
  have ok: "correlation_ok c" and run: "(if ic_costOriginStage c = Cost_initiation
     then let initiation = starts_with ''icp-initiation:'' (ic_messageId c) in
          throwIf (\<not> initiation \<and> \<not> starts_with ''icp-continuation:'' (ic_messageId c))
            ''ICP initiation correlation messageId is not authority-bound'' (
          let candidateId = js_trim (drop (length (if initiation then ''icp-initiation:'' else ''icp-continuation:''))
                (ic_messageId c)) in
          throwIf (candidateId = []) ''ICP initiation correlation is missing candidate identity'' (
          Inr ((if initiation then ''companion-initiation-'' else ''companion-continuation-'') @ candidateId)))
     else throwIf (ic_costOriginStage c \<noteq> Cost_reply)
            ''Only initiation and reply ICP correlations can be transported'' (
          Inr (''companion-reply-'' @ ic_localCompanionId c @ ''-'' @ ic_turnId c))) = Inr m"
    using assms unfolding deriveIcpTransportMessageId_def rbind_eq_Inr parse_wire by blast+
  show thesis
  proof (cases "ic_costOriginStage c = Cost_initiation")
    case False
    have "length (ic_localCompanionId c) = 36" using ok isRfc4122Uuid_length by (auto simp: correlation_ok_def)
    moreover have "ic_costOriginStage c = Cost_reply" "m = ''companion-reply-'' @ ic_localCompanionId c @ ''-'' @ ic_turnId c"
      using run False unfolding if_not_P [OF False] throwIf_eq_Inr by blast+
    ultimately show thesis using that(1) by blast
  next
    case True
    note run = run [unfolded if_P [OF True] Let_def throwIf_eq_Inr sum.inject]
    show thesis
    proof (cases "starts_with ''icp-initiation:'' (ic_messageId c)")
      case initiation: True
      show thesis using run unfolding if_P [OF initiation] authored_def by (intro that(2) True) (simp_all add: authored_def initiation)
    next
      case initiation: False
      show thesis using run unfolding if_not_P [OF initiation] by (intro that(3) True) (simp_all add: authored_def initiation)
    qed
  qed
qed

text \<open>
  The transport identifier of a turn is its own: two correlations with the same identifier are of the same stage,
  for replies of the same companion and the same turn, and for initiations of the same candidate under the same
  prefix; so a retry of one turn reuses the identifier and another turn never does.
\<close>

theorem icp_transport_id_identifies:
  assumes "deriveIcpTransportMessageId c = Inr m" "deriveIcpTransportMessageId d = Inr m"
  shows "ic_costOriginStage c = ic_costOriginStage d
    \<and> (ic_costOriginStage c = Cost_reply \<longrightarrow>
        ic_localCompanionId c = ic_localCompanionId d \<and> ic_turnId c = ic_turnId d)
    \<and> (ic_costOriginStage c = Cost_initiation \<longrightarrow>
        (\<exists>prefix. authored prefix c \<and> authored prefix d
          \<and> js_trim (drop (length prefix) (ic_messageId c)) = js_trim (drop (length prefix) (ic_messageId d))))"
  using transport_cases [OF assms(1)]
proof cases
  case 1
  show ?thesis using transport_cases [OF assms(2)] by cases (use 1 in simp_all)
next
  case c: 2
  show ?thesis using transport_cases [OF assms(2)] by cases (use c in auto)
next
  case c: 3
  show ?thesis using transport_cases [OF assms(2)] by cases (use c in auto)
qed

theorem icp_transport_id_identifies_witness:
  "deriveIcpTransportMessageId demo_correlation = Inr (''companion-reply-'' @ sample_id CHR ''1'' @ ''-'' @ sample_id CHR ''5'')
   \<and> deriveIcpTransportMessageId (demo_correlation\<lparr>ic_turnId := sample_id CHR ''3''\<rparr>)
     \<noteq> deriveIcpTransportMessageId demo_correlation"
proof -
  have a: "deriveIcpTransportMessageId demo_correlation = Inr (''companion-reply-'' @ sample_id CHR ''1'' @ ''-'' @ sample_id CHR ''5'')"
    using parse_wire [of demo_correlation demo_correlation] demo_correlation_ok
    by (simp add: deriveIcpTransportMessageId_def) (simp add: demo_correlation_def)
  have "deriveIcpTransportMessageId (demo_correlation\<lparr>ic_turnId := sample_id CHR ''3''\<rparr>)
      \<noteq> Inr (''companion-reply-'' @ sample_id CHR ''1'' @ ''-'' @ sample_id CHR ''5'')"
    using icp_transport_id_identifies [OF a] by (force simp: demo_correlation_def sample_id_def numeral_eq_Suc)
  then show ?thesis using a by simp
qed

text \<open>
  An accepted dyad is open exactly when both participants keep their side open and unblocked; its channel is the
  direct-message channel of exactly its two participants, and the two states are theirs, in order.
\<close>

lemma icp_dyad_mutual:
  assumes "parseIcpDyad v known = Inr d"
  shows "dy_status d = Dyad_open \<longleftrightarrow>
      (\<forall>s \<in> set (dy_participantStates d). dp_relationshipState s = Relationship_open \<and> \<not> dp_blocked s)"
    and "\<exists>a b. dy_participantCompanionIds d = [a, b] \<and> composeCompanionDmChannelId a b = Inr (dy_channelId d)
           \<and> map dp_companionId (dy_participantStates d) = [a, b]"
proof -
  show "dy_status d = Dyad_open \<longleftrightarrow>
      (\<forall>s \<in> set (dy_participantStates d). dp_relationshipState s = Relationship_open \<and> \<not> dp_blocked s)"
    by (simp add: parse_dyad_facts(1) [OF assms] resolve_open)
  obtain a b where ab: "dy_participantCompanionIds d = [a, b]"
    using parse_dyad_facts(2) [OF assms] by (auto simp: numeral_2_eq_2 length_Suc_conv)
  obtain vs where vs: "length vs = 2"
    "require_each (parse_dyad_state [a, b] (dy_createdAtMs d)) 0 vs = Inr (dy_participantStates d)"
    using parse_dyad_facts(4) [OF assms] ab by auto
  have states: "length (dy_participantStates d) = 2" using require_each_length [OF vs(2)] vs(1) by simp
  have "dp_companionId (dy_participantStates d ! n) = [a, b] ! n" if "n < 2" for n
    using require_each_nth [OF vs(2), of n] vs(1) that parse_dyad_state_companion by fastforce
  then have "map dp_companionId (dy_participantStates d) = [a, b]"
    using states by (intro nth_equalityI) (auto simp: less_Suc_eq numeral_2_eq_2)
  moreover have "composeCompanionDmChannelId a b = Inr (dy_channelId d)"
    using parse_dyad_facts(3) [OF assms] ab by (auto simp: binds_def parse_dm compose_dm Let_def min_def max_def split: if_splits)
  ultimately show "\<exists>a b. dy_participantCompanionIds d = [a, b] \<and> composeCompanionDmChannelId a b = Inr (dy_channelId d)
           \<and> map dp_companionId (dy_participantStates d) = [a, b]"
    using ab by (intro exI [of _ a] exI [of _ b]) simp
qed


text \<open>
  A permit accepted as usable at a time is issued and not used up, current then, lives at most fifteen minutes and binds
  two distinct companions to their channel.
\<close>

lemma icp_permit_usable:
  assumes "parseIcpInitiationPermit v (Some (Wire_number now)) = Inr p"
  shows "ip_status p = Permit_issued" "ip_consumedAtMs p = None" "ip_revokedAtMs p = None"
    "ip_issuedAtMs p \<le> intval now" "intval now < ip_expiresAtMs p" "ip_expiresAtMs p - ip_issuedAtMs p \<le> 900000"
    "ip_senderCompanionId p \<noteq> ip_recipientCompanionId p"
proof -
  note facts = parse_permit_facts [OF assms]
  show st: "ip_status p = Permit_issued" using facts(5) by (auto simp: guard_simps)
  then show "ip_consumedAtMs p = None" "ip_revokedAtMs p = None" using facts(4) by (auto simp: guard_simps)
  show "ip_issuedAtMs p \<le> intval now" "intval now < ip_expiresAtMs p" using facts(5) by (auto simp: guard_simps)
  show "ip_expiresAtMs p - ip_issuedAtMs p \<le> 900000" using facts(3) by (simp add: MAX_ICP_PERMIT_TTL_MS_def)
  show "ip_senderCompanionId p \<noteq> ip_recipientCompanionId p" using facts(1) by (auto simp: binds_def)
qed

end
