(* ===== verification/Icp_Fence.thy ===== *)
theory Icp_Fence
  imports Icp_Laws Fatigue_Turn
begin

text \<open>
  The shared concurrency fence of inter-companion fatigue: \<^verbatim>\<open>PostgresIcpFatigueRegulationReservationStore\<close> of
  \<^verbatim>\<open>src/src/persistence/postgres/icp-fatigue-regulation-reservation-store.ts\<close> over the tables of
  \<^verbatim>\<open>src/src/persistence/postgres/shared-schema-migrations.ts\<close>.

  The state is the database (reservation rows, episodes, permits, the advisory locks of the lease sessions) and, for
  each process, its map from turns to lease sessions. One event is one step the database or a process takes
  between two awaits: a transaction, the taking or giving back of a lease, the death of a session. A transaction on
  one pair of companions is one step, since it starts by taking the advisory lock of the pair. The methods of the
  class are procedures over these events, with the events of everybody else in between (\<open>fence_call\<close>).

  Taking a lease is one event, although the code awaits inside it: it looks into the map of the process, pings or gives back
  an old session, and asks a new session for the lock. Only the last of these is seen by other processes. Two calls of one
  process for the same turn that run at the same time may interleave there, and the second is then refused as active
  elsewhere where the event finds the lease of the first; such overlapping calls are not modelled.

  Parameters: \<open>sv_hash\<close> is \<^verbatim>\<open>hashtextextended\<close> and \<open>sv_uuid\<close> the input function of the type \<^verbatim>\<open>uuid\<close>, which gives the
  canonical text of a turn id or refuses it.
\<close>

section \<open>State\<close>

datatype slot_decision = Slot_charged | Slot_overcharge

fun slot_budget :: "slot_decision \<Rightarrow> budget_decision" where
  "slot_budget Slot_charged = Decision_charged"
| "slot_budget Slot_overcharge = Decision_overcharge"

datatype fence_outcome = Fence_pending | Fence_delivering | Fence_delivered | Fence_no_reply | Fence_failed

datatype final_outcome = Final_delivered | Final_no_reply | Final_failed

fun fence_of_final :: "final_outcome \<Rightarrow> fence_outcome" where
  "fence_of_final Final_delivered = Fence_delivered"
| "fence_of_final Final_no_reply = Fence_no_reply"
| "fence_of_final Final_failed = Fence_failed"

record fence_row =
  fr_turn :: string
  fr_conversation :: string
  fr_root :: string
  fr_local :: string
  fr_peer :: string
  fr_peerContact :: string
  fr_channel :: string
  fr_decision :: slot_decision
  fr_amount :: int
  fr_reservedAt :: int
  fr_finalizedAt :: "int option"
  fr_outcome :: fence_outcome

text \<open>The CHECK constraints of the table.\<close>

definition fence_row_ok :: "fence_row \<Rightarrow> bool" where
  "fence_row_ok r \<longleftrightarrow> 0 < fr_amount r \<and> 0 \<le> fr_reservedAt r \<and> fr_local r \<noteq> fr_peer r
     \<and> (fr_outcome r = Fence_pending \<or> fr_outcome r = Fence_delivering \<longleftrightarrow> fr_finalizedAt r = None)
     \<and> (case fr_finalizedAt r of None \<Rightarrow> True | Some t \<Rightarrow> fr_reservedAt r \<le> t)"

text \<open>A process: its lease map, in insertion order, and the outcome of \<^verbatim>\<open>close\<close> once it was called.\<close>

record fence_process =
  fp_leases :: "(string \<times> nat) list"
  fp_closed :: "unit result option"

record fence_state =
  fs_rows :: "fence_row list"
  fs_episodes :: "conversation_episode list"
  fs_permits :: "initiation_permit list"
  fs_locks :: "(nat \<times> int) list"
  fs_next :: nat
  fs_process :: "nat \<Rightarrow> fence_process"

record fence_services =
  sv_hash :: "string \<Rightarrow> int \<Rightarrow> int"
  sv_uuid :: "string \<Rightarrow> string option"

definition FATIGUE_LEASE_LOCK_SEED :: int where
  "FATIGUE_LEASE_LOCK_SEED = 1"

definition lease_key :: "fence_services \<Rightarrow> string \<Rightarrow> int" where
  "lease_key sv turn = sv_hash sv turn FATIGUE_LEASE_LOCK_SEED"

section \<open>Inputs\<close>

record reservation_input =
  fi_correlation :: icp_correlation
  fi_timestampMs :: jsnum
  fi_decision :: slot_decision
  fi_amount :: jsnum
  fi_hardLimit :: jsnum
  fi_overchargeLimit :: jsnum
  fi_relationshipPressureHalfLifeMs :: jsnum
  fi_relationshipPressureWindowMs :: jsnum
  fi_unansweredInitiationAfterMs :: jsnum
  fi_declinedPressureUnits :: jsnum
  fi_deferredPressureUnits :: jsnum
  fi_unansweredPressureUnits :: jsnum

record reservation_request =
  fq_correlation :: icp_correlation
  fq_timestampMs :: int
  fq_decision :: slot_decision
  fq_amount :: int
  fq_hardLimit :: int
  fq_overchargeLimit :: int
  fq_halfLifeMs :: int
  fq_windowMs :: int
  fq_unansweredAfterMs :: int
  fq_declinedUnits :: real
  fq_deferredUnits :: real
  fq_unansweredUnits :: real

record pressure_query =
  pq_local :: string
  pq_peer :: string
  pq_root :: "string option"
  pq_timestampMs :: int
  pq_halfLifeMs :: int
  pq_windowMs :: int
  pq_unansweredAfterMs :: int
  pq_declinedUnits :: real
  pq_deferredUnits :: real
  pq_unansweredUnits :: real
  pq_mutual :: "(int \<times> real) option"

record pressure_snapshot =
  sn_rootNormalSpent :: int
  sn_rootOverchargeSpent :: int
  sn_directionalChargedPressure :: real
  sn_relationshipPressure :: real
  sn_chargedPressure :: real
  sn_declinedPressure :: real
  sn_deferredPressure :: real
  sn_unansweredPressure :: real
  sn_reservationCount :: nat
  sn_episodeCount :: nat

record fence_result = reservation_result +
  fe_reservationOutcome :: "fence_outcome option"

definition requireNonNegativeFinite :: "jsnum \<Rightarrow> string \<Rightarrow> real result" where
  "requireNonNegativeFinite value field =
     (if \<not> isFinite value \<or> numval value < 0 then Inl (Error (field @ '' must be a finite non-negative number''))
      else Inr (numval value))"

definition requireFenceNonNegativeInteger :: "jsnum \<Rightarrow> string \<Rightarrow> int result" where
  "requireFenceNonNegativeInteger value field =
     (if \<not> isSafeInteger value \<or> numval value < 0 then Inl (Error (field @ '' must be a non-negative safe integer''))
      else Inr (intval value))"

definition requirePositiveInteger :: "jsnum \<Rightarrow> string \<Rightarrow> int result" where
  "requirePositiveInteger value field =
     (if \<not> isSafeInteger value \<or> numval value < 1 then Inl (Error (field @ '' must be a positive safe integer''))
      else Inr (intval value))"

definition requireFenceCompanionId :: "string \<Rightarrow> string \<Rightarrow> string result" where
  "requireFenceCompanionId value field =
     (if \<not> isRfc4122Uuid value then Inl (Error (field @ '' must be an RFC 4122 UUID'')) else Inr value)"

text \<open>The validation at the head of \<^verbatim>\<open>reserve\<close>.\<close>

definition normalize_input :: "reservation_input \<Rightarrow> reservation_request result" where
  "normalize_input input =
     rbind (parseIcpConversationCorrelation (correlation_wire (fi_correlation input))) (\<lambda>correlation.
     rbind (requireTimestamp (fi_timestampMs input) ''reservation.timestampMs'') (\<lambda>timestampMs.
     rbind (requirePositiveInteger (fi_amount input) ''reservation.amount'') (\<lambda>amount.
     rbind (requirePositiveInteger (fi_hardLimit input) ''reservation.hardLimit'') (\<lambda>hardLimit.
     rbind (requirePositiveInteger (fi_overchargeLimit input) ''reservation.overchargeLimit'') (\<lambda>overchargeLimit.
     rbind (requirePositiveInteger (fi_relationshipPressureHalfLifeMs input)
              ''reservation.relationshipPressureHalfLifeMs'') (\<lambda>halfLifeMs.
     rbind (requirePositiveInteger (fi_relationshipPressureWindowMs input)
              ''reservation.relationshipPressureWindowMs'') (\<lambda>windowMs.
     rbind (requirePositiveInteger (fi_unansweredInitiationAfterMs input)
              ''reservation.unansweredInitiationAfterMs'') (\<lambda>unansweredAfterMs.
     rbind (requireNonNegativeFinite (fi_declinedPressureUnits input) ''reservation.declinedPressureUnits'') (\<lambda>declined.
     rbind (requireNonNegativeFinite (fi_deferredPressureUnits input) ''reservation.deferredPressureUnits'') (\<lambda>deferred.
     rbind (requireNonNegativeFinite (fi_unansweredPressureUnits input) ''reservation.unansweredPressureUnits'') (\<lambda>unanswered.
     throwIf (windowMs < halfLifeMs) ''reservation relationship pressure window must be at least one half-life'' (
     Inr \<lparr>fq_correlation = correlation, fq_timestampMs = timestampMs, fq_decision = fi_decision input, fq_amount = amount,
          fq_hardLimit = hardLimit, fq_overchargeLimit = overchargeLimit, fq_halfLifeMs = halfLifeMs, fq_windowMs = windowMs,
          fq_unansweredAfterMs = unansweredAfterMs, fq_declinedUnits = declined, fq_deferredUnits = deferred,
          fq_unansweredUnits = unanswered\<rparr>))))))))))))"

section \<open>Bindings\<close>

definition row_matches :: "fence_row \<Rightarrow> icp_correlation \<Rightarrow> bool" where
  "row_matches row c \<longleftrightarrow> fr_conversation row = ic_conversationId c \<and> fr_root row = ic_rootInitiationId c
     \<and> fr_local row = ic_localCompanionId c \<and> fr_peer row = ic_peerCompanionId c
     \<and> fr_peerContact row = ic_peerContactId c \<and> fr_channel row = ic_channelId c"

definition assertReplayMatches :: "fence_row \<Rightarrow> reservation_request \<Rightarrow> unit result" where
  "assertReplayMatches row q =
     (let refuse = Inl (Error (''ICP fatigue reservation replay mismatch for turn '' @ ic_turnId (fq_correlation q))) in
      if \<not> row_matches row (fq_correlation q) \<or> fr_decision row \<noteq> fq_decision q then refuse
      else rbind (requireSafeInteger (fr_amount row) ''reservation.amount'') (\<lambda>amount.
        if amount \<noteq> fq_amount q then refuse else Inr ()))"

definition recorded_binding :: "enforcement_metadata \<Rightarrow> bool" where
  "recorded_binding fatigue =
     (case em_recordedEvent fatigue of
        None \<Rightarrow> False
      | Some event \<Rightarrow> re_decision event = em_spendDecision fatigue \<and> re_amount event = bm_amount (em_budget fatigue))"

definition assertFinalizationMatches ::
  "fence_row \<Rightarrow> icp_correlation \<Rightarrow> enforcement_metadata \<Rightarrow> final_outcome \<Rightarrow> unit result" where
  "assertFinalizationMatches row c fatigue outcome =
     (let refuse = Inl (Error (''ICP fatigue reservation finalization metadata binding mismatch for turn '' @ ic_turnId c)) in
      if \<not> row_matches row c \<or> slot_budget (fr_decision row) \<noteq> em_spendDecision fatigue then refuse
      else rbind (requireSafeInteger (fr_amount row) ''reservation.amount'') (\<lambda>amount.
        if of_int amount \<noteq> bm_amount (em_budget fatigue)
           \<or> sm_rootInitiationId (em_socialRegulation fatigue) \<noteq> Some (ic_rootInitiationId c)
           \<or> ((outcome = Final_delivered \<or> outcome = Final_no_reply) \<and> \<not> recorded_binding fatigue)
        then refuse else Inr ()))"

section \<open>Pressure\<close>

definition live_outcome :: "fence_outcome \<Rightarrow> bool" where
  "live_outcome out \<longleftrightarrow> out \<in> {Fence_pending, Fence_delivering, Fence_delivered, Fence_no_reply}"

definition root_rows :: "string \<Rightarrow> string \<Rightarrow> string option \<Rightarrow> string option \<Rightarrow> slot_decision \<Rightarrow> fence_row list \<Rightarrow> fence_row list" where
  "root_rows local peer rootId excluded decision rows =
     filter (\<lambda>r. fr_local r = local \<and> fr_peer r = peer \<and> Some (fr_root r) = rootId \<and> live_outcome (fr_outcome r)
       \<and> Some (fr_turn r) \<noteq> excluded \<and> fr_decision r = decision) rows"

definition root_spend :: "string \<Rightarrow> string \<Rightarrow> string option \<Rightarrow> string option \<Rightarrow> slot_decision \<Rightarrow> fence_row list \<Rightarrow> int" where
  "root_spend local peer rootId excluded decision rows = sum_list (map fr_amount (root_rows local peer rootId excluded decision rows))"

definition decayed :: "int \<Rightarrow> int \<Rightarrow> real \<Rightarrow> int \<Rightarrow> real" where
  "decayed now halfLife weight since = weight * 2 powr (- real_of_int (now - since) / real_of_int halfLife)"

text \<open>The rows that press on a pair: live, in the window, of conversations no system failure spoiled.\<close>

definition system_closed :: "conversation_episode list \<Rightarrow> string \<Rightarrow> bool" where
  "system_closed episodes conversation \<longleftrightarrow> list_ex (\<lambda>e. cv_conversationId e = conversation
     \<and> (\<exists>code \<in> set_option (cv_closeReasonCode e). code \<in> set ICP_SYSTEM_FAILURE_END_REASON_CODES)) episodes"

definition side_never_completed :: "fence_row list \<Rightarrow> string \<Rightarrow> bool" where
  "side_never_completed rows conversation \<longleftrightarrow> list_ex (\<lambda>f. fr_conversation f = conversation \<and> fr_outcome f = Fence_failed
     \<and> \<not> list_ex (\<lambda>c. fr_conversation c = fr_conversation f \<and> fr_local c = fr_local f \<and> live_outcome (fr_outcome c)) rows) rows"

definition pressing_rows :: "pressure_query \<Rightarrow> string option \<Rightarrow> fence_state \<Rightarrow> fence_row list" where
  "pressing_rows q excluded s =
     filter (\<lambda>r. ((fr_local r = pq_local q \<and> fr_peer r = pq_peer q) \<or> (fr_local r = pq_peer q \<and> fr_peer r = pq_local q))
       \<and> live_outcome (fr_outcome r)
       \<and> max 0 (pq_timestampMs q - pq_windowMs q) \<le> fr_reservedAt r \<and> fr_reservedAt r \<le> pq_timestampMs q
       \<and> Some (fr_turn r) \<noteq> excluded
       \<and> \<not> system_closed (fs_episodes s) (fr_conversation r)
       \<and> \<not> side_never_completed (fs_rows s) (fr_conversation r)) (fs_rows s)"

definition side_rank :: "fence_row list \<Rightarrow> fence_row \<Rightarrow> int" where
  "side_rank rows r = 1 + int (length (filter (\<lambda>o'. fr_conversation o' = fr_conversation r \<and> fr_local o' = fr_local r
     \<and> fr_decision o' = fr_decision r
     \<and> (fr_reservedAt o' < fr_reservedAt r \<or> fr_reservedAt o' = fr_reservedAt r \<and> fr_turn o' < fr_turn r)) rows))"

definition is_mutual :: "fence_row list \<Rightarrow> fence_row \<Rightarrow> bool" where
  "is_mutual rows r \<longleftrightarrow> list_ex (\<lambda>reply. fr_conversation reply = fr_conversation r \<and> fr_local reply \<noteq> fr_local r
     \<and> fr_outcome reply = Fence_delivered) rows"

definition invitation_delivered :: "initiation_permit list \<Rightarrow> string \<Rightarrow> bool" where
  "invitation_delivered permits conversation \<longleftrightarrow>
     list_ex (\<lambda>p. ip_conversationId p = conversation \<and> ip_status p = Permit_consumed) permits"

definition pressing_episodes :: "pressure_query \<Rightarrow> fence_state \<Rightarrow> conversation_episode list" where
  "pressing_episodes q s =
     filter (\<lambda>e. (cv_initiatedByCompanionId e = pq_local q \<or> cv_initiatedByCompanionId e = pq_peer q)
       \<and> pq_local q \<in> set (cv_participantCompanionIds e) \<and> pq_peer q \<in> set (cv_participantCompanionIds e)
       \<and> max 0 (pq_timestampMs q - pq_windowMs q) \<le> cv_lastActivityAtMs e \<and> cv_lastActivityAtMs e \<le> pq_timestampMs q
       \<and> (cv_status e = Conversation_declined \<or> cv_status e = Conversation_deferred
          \<or> (cv_status e = Conversation_invited \<and> cv_lastActivityAtMs e \<le> pq_timestampMs q - pq_unansweredAfterMs q
             \<and> invitation_delivered (fs_permits s) (cv_conversationId e)))) (fs_episodes s)"

definition episode_pressure :: "pressure_query \<Rightarrow> conversation_status \<Rightarrow> real \<Rightarrow> conversation_episode list \<Rightarrow> real" where
  "episode_pressure q status units episodes =
     sum_list (map (\<lambda>e. decayed (pq_timestampMs q) (pq_halfLifeMs q) units (cv_lastActivityAtMs e))
       (filter (\<lambda>e. cv_status e = status) episodes))"

definition pressureSnapshot :: "pressure_query \<Rightarrow> string option \<Rightarrow> fence_state \<Rightarrow> pressure_snapshot result" where
  "pressureSnapshot q excluded s =
     (let rows = pressing_rows q excluded s; charged = filter (\<lambda>r. fr_decision r = Slot_charged) rows;
          strain = (\<lambda>w r. decayed (pq_timestampMs q) (pq_halfLifeMs q) (of_int (fr_amount r) * w r) (fr_reservedAt r));
          weight = (\<lambda>r. case pq_mutual q of None \<Rightarrow> 1
            | Some (allowance, units) \<Rightarrow> if is_mutual (fs_rows s) r \<and> side_rank rows r \<le> allowance then units else 1);
          episodes = pressing_episodes q s;
          directional = sum_list (map (strain (\<lambda>_. 1)) (filter (\<lambda>r. fr_local r = pq_local q \<and> fr_peer r = pq_peer q) charged));
          chargedPressure = sum_list (map (strain weight) charged);
          declined = episode_pressure q Conversation_declined (pq_declinedUnits q) episodes;
          deferred = episode_pressure q Conversation_deferred (pq_deferredUnits q) episodes;
          unanswered = episode_pressure q Conversation_invited (pq_unansweredUnits q) episodes in
      rbind (requireSafeInteger (root_spend (pq_local q) (pq_peer q) (pq_root q) excluded Slot_charged (fs_rows s))
               ''reservation.normalSpent'') (\<lambda>rootNormalSpent.
      throwIf (chargedPressure < 0 \<or> declined < 0 \<or> deferred < 0 \<or> unanswered < 0 \<or> directional < 0)
        ''reservation pressure components must be finite non-negative numbers'' (
      rbind (requireSafeInteger (root_spend (pq_local q) (pq_peer q) (pq_root q) excluded Slot_overcharge (fs_rows s))
               ''reservation.overchargeSpent'') (\<lambda>rootOverchargeSpent.
      rbind (requireSafeInteger (int (length charged)) ''reservation.contributingReservationCount'') (\<lambda>_.
      rbind (requireSafeInteger (int (length episodes)) ''reservation.contributingEpisodeCount'') (\<lambda>_.
      Inr \<lparr>sn_rootNormalSpent = rootNormalSpent, sn_rootOverchargeSpent = rootOverchargeSpent,
           sn_directionalChargedPressure = directional,
           sn_relationshipPressure = chargedPressure + declined + deferred + unanswered,
           sn_chargedPressure = chargedPressure, sn_declinedPressure = declined, sn_deferredPressure = deferred,
           sn_unansweredPressure = unanswered, sn_reservationCount = length charged,
           sn_episodeCount = length episodes\<rparr>))))))"

definition snapshotResult :: "reservation_request \<Rightarrow> reservation_outcome \<Rightarrow> string option \<Rightarrow> fence_state \<Rightarrow> fence_result result" where
  "snapshotResult q outcome excluded s =
     rbind (pressureSnapshot \<lparr>pq_local = ic_localCompanionId (fq_correlation q), pq_peer = ic_peerCompanionId (fq_correlation q),
         pq_root = Some (ic_rootInitiationId (fq_correlation q)), pq_timestampMs = fq_timestampMs q,
         pq_halfLifeMs = fq_halfLifeMs q, pq_windowMs = fq_windowMs q, pq_unansweredAfterMs = fq_unansweredAfterMs q,
         pq_declinedUnits = fq_declinedUnits q, pq_deferredUnits = fq_deferredUnits q,
         pq_unansweredUnits = fq_unansweredUnits q, pq_mutual = None\<rparr> excluded s) (\<lambda>snapshot.
     Inr \<lparr>rr_outcome = outcome,
          rr_normalSpentBefore = of_int (max (sn_rootNormalSpent snapshot) \<lceil>sn_directionalChargedPressure snapshot\<rceil>),
          rr_overchargeSpentBefore = of_int (sn_rootOverchargeSpent snapshot),
          rr_relationshipPressure = sn_directionalChargedPressure snapshot,
          rr_rootNormalSpent = of_int (sn_rootNormalSpent snapshot),
          rr_rootOverchargeSpent = of_int (sn_rootOverchargeSpent snapshot),
          rr_contributingReservationCount = sn_reservationCount snapshot, fe_reservationOutcome = None\<rparr>)"


section \<open>Transactions\<close>

text \<open>A session lock is free when no lease session holds it.\<close>

definition lock_free :: "fence_state \<Rightarrow> int \<Rightarrow> bool" where
  "lock_free s key \<longleftrightarrow> key \<notin> snd ` set (fs_locks s)"

definition fence_exec :: "(fence_row list \<Rightarrow> fence_row list) \<Rightarrow> (fence_state, unit) tx" where
  "fence_exec f = txexec (\<lambda>s. list_all fence_row_ok (fs_rows s)) (\<lambda>s. s\<lparr>fs_rows := f (fs_rows s)\<rparr>)"

definition turn_param :: "fence_services \<Rightarrow> icp_correlation \<Rightarrow> (fence_state, string) tx" where
  "turn_param sv c s =
     (case sv_uuid sv (ic_turnId c) of
        None \<Rightarrow> Inl (DatabaseError (''invalid input syntax for type uuid: '' @ json_string (ic_turnId c)))
      | Some turn \<Rightarrow> Inr (turn, s))"

definition find_turn :: "string \<Rightarrow> fence_state \<Rightarrow> fence_row option" where
  "find_turn turn s = find (\<lambda>r. fr_turn r = turn) (fs_rows s)"

definition same_pair :: "icp_correlation \<Rightarrow> fence_row \<Rightarrow> bool" where
  "same_pair c r \<longleftrightarrow> (fr_local r = ic_localCompanionId c \<and> fr_peer r = ic_peerCompanionId c)
     \<or> (fr_local r = ic_peerCompanionId c \<and> fr_peer r = ic_localCompanionId c)"

definition orphaned :: "fence_services \<Rightarrow> icp_correlation \<Rightarrow> string \<Rightarrow> fence_state \<Rightarrow> fence_row \<Rightarrow> bool" where
  "orphaned sv c turn s r \<longleftrightarrow> same_pair c r \<and> fr_outcome r = Fence_pending \<and> fr_turn r \<noteq> turn
     \<and> lock_free s (lease_key sv (fr_turn r))"

definition reclaim :: "fence_services \<Rightarrow> icp_correlation \<Rightarrow> string \<Rightarrow> int \<Rightarrow> (fence_state, unit) tx" where
  "reclaim sv c turn timestampMs s =
     fence_exec (update_where (orphaned sv c turn s)
       (\<lambda>r. r\<lparr>fr_outcome := Fence_failed, fr_finalizedAt := Some timestampMs\<rparr>)) s"

definition episode_admits :: "icp_correlation \<Rightarrow> conversation_episode \<Rightarrow> bool" where
  "episode_admits c e \<longleftrightarrow> cv_conversationId e = ic_conversationId c \<and> cv_rootInitiationId e = ic_rootInitiationId c
     \<and> cv_channelId e = ic_channelId c
     \<and> ic_localCompanionId c \<in> set (cv_participantCompanionIds e) \<and> ic_peerCompanionId c \<in> set (cv_participantCompanionIds e)
     \<and> (cv_status e = Conversation_invited \<or> cv_status e = Conversation_active)"

definition new_row :: "reservation_request \<Rightarrow> string \<Rightarrow> fence_row" where
  "new_row q turn =
     (let c = fq_correlation q in
      \<lparr>fr_turn = turn, fr_conversation = ic_conversationId c, fr_root = ic_rootInitiationId c,
       fr_local = ic_localCompanionId c, fr_peer = ic_peerCompanionId c, fr_peerContact = ic_peerContactId c,
       fr_channel = ic_channelId c, fr_decision = fq_decision q, fr_amount = fq_amount q,
       fr_reservedAt = fq_timestampMs q, fr_finalizedAt = None, fr_outcome = Fence_pending\<rparr>)"

text \<open>\<^verbatim>\<open>INSERT ... SELECT FROM icp_conversation_episodes ... ON CONFLICT (turn_id) DO UPDATE ... WHERE outcome = 'failed' RETURNING\<close>.\<close>

definition insert_row :: "reservation_request \<Rightarrow> string \<Rightarrow> (fence_state, fence_row option) tx" where
  "insert_row q turn =
     txbind (txget (\<lambda>s. (list_ex (episode_admits (fq_correlation q)) (fs_episodes s), find_turn turn s))) (\<lambda>(admitted, existing).
     if \<not> admitted then txret None
     else case existing of
       None \<Rightarrow> txbind (fence_exec (\<lambda>rows. rows @ [new_row q turn])) (\<lambda>_. txret (Some (new_row q turn)))
     | Some row \<Rightarrow>
         if fr_outcome row \<noteq> Fence_failed then txret None
         else let row' = row\<lparr>fr_reservedAt := fq_timestampMs q, fr_finalizedAt := None, fr_outcome := Fence_pending\<rparr> in
           txbind (fence_exec (update_where (\<lambda>r. fr_turn r = turn) (\<lambda>_. row'))) (\<lambda>_. txret (Some row')))"

definition slot_exhausted :: "reservation_request \<Rightarrow> fence_result \<Rightarrow> bool" where
  "slot_exhausted q snapshot =
     (if fq_decision q = Slot_charged then rr_normalSpentBefore snapshot \<ge> of_int (fq_hardLimit q)
      else rr_overchargeSpentBefore snapshot \<ge> of_int (fq_overchargeLimit q))"

definition admit_slot :: "fence_services \<Rightarrow> reservation_request \<Rightarrow> string \<Rightarrow> (fence_state, fence_result \<times> bool) tx" where
  "admit_slot sv q turn =
     txbind (reclaim sv (fq_correlation q) turn (fq_timestampMs q)) (\<lambda>_.
     txbind (txget (snapshotResult q Reservation_reserved None)) (\<lambda>found.
     txbind (txpure found) (\<lambda>snapshot.
     if slot_exhausted q snapshot
     then txret (snapshot\<lparr>rr_outcome := Reservation_exhausted, fe_reservationOutcome := None\<rparr>, False)
     else
     txbind (insert_row q turn) (\<lambda>inserted.
     case inserted of
       None \<Rightarrow> txthrow ''ICP fatigue reservation episode/channel/participant binding mismatch''
     | Some row \<Rightarrow>
         txbind (txpure (assertReplayMatches row q)) (\<lambda>_.
         txret (snapshot\<lparr>fe_reservationOutcome := Some Fence_pending\<rparr>, True))))))"

definition reserve_fence_tx :: "fence_services \<Rightarrow> reservation_request \<Rightarrow> (fence_state, fence_result \<times> bool) tx" where
  "reserve_fence_tx sv q =
     txbind (turn_param sv (fq_correlation q)) (\<lambda>turn.
     txbind (txget (find_turn turn)) (\<lambda>existing.
     case existing of
       None \<Rightarrow> admit_slot sv q turn
     | Some row \<Rightarrow>
         if fr_outcome row = Fence_failed then admit_slot sv q turn
         else
           txbind (txpure (assertReplayMatches row q)) (\<lambda>_.
           txbind (txget (snapshotResult q Reservation_replayed (Some turn))) (\<lambda>found.
           txbind (txpure found) (\<lambda>snapshot.
           txret (snapshot\<lparr>fe_reservationOutcome := Some (fr_outcome row)\<rparr>, fr_outcome row = Fence_pending))))))"

definition prepare_tx ::
  "fence_services \<Rightarrow> icp_correlation \<Rightarrow> enforcement_metadata \<Rightarrow> final_outcome option \<Rightarrow> bool \<Rightarrow> (fence_state, unit) tx" where
  "prepare_tx sv c fatigue recoveredOutcome lease =
     txbind (turn_param sv c) (\<lambda>turn.
     txbind (txget (find_turn turn)) (\<lambda>found.
     let conflict = txthrow (''ICP fatigue delivery preparation conflict for turn '' @ ic_turnId c) in
     case found of
       None \<Rightarrow> conflict
     | Some row \<Rightarrow>
         if fr_outcome row = Fence_delivered \<or> fr_outcome row = Fence_no_reply
         then case recoveredOutcome of
                None \<Rightarrow> txthrow (''ICP fatigue delivery terminal replay conflict for turn '' @ ic_turnId c)
              | Some outcome \<Rightarrow>
                  if fence_of_final outcome \<noteq> fr_outcome row
                  then txthrow (''ICP fatigue delivery terminal replay conflict for turn '' @ ic_turnId c)
                  else txpure (assertFinalizationMatches row c fatigue outcome)
         else if fr_outcome row = Fence_failed then conflict
         else if fr_outcome row = Fence_pending \<and> \<not> lease
         then txthrow (''ICP fatigue delivery preparation requires the live reservation lease for turn '' @ ic_turnId c)
         else
           txbind (txpure (assertFinalizationMatches row c fatigue Final_delivered)) (\<lambda>_.
           txif (fr_outcome row = Fence_pending)
             (fence_exec (update_where (\<lambda>r. fr_turn r = turn \<and> fr_outcome r = Fence_pending)
               (\<lambda>r. r\<lparr>fr_outcome := Fence_delivering\<rparr>))))))"

definition finalize_tx ::
  "fence_services \<Rightarrow> icp_correlation \<Rightarrow> enforcement_metadata \<Rightarrow> final_outcome \<Rightarrow> int \<Rightarrow> (fence_state, unit) tx" where
  "finalize_tx sv c fatigue outcome finalizedAtMs =
     (let source = (if outcome = Final_failed then Fence_pending else Fence_delivering);
          finish = (\<lambda>r. r\<lparr>fr_outcome := fence_of_final outcome, fr_finalizedAt := Some finalizedAtMs\<rparr>) in
     txbind (turn_param sv c) (\<lambda>turn.
     txbind (txget (find_turn turn)) (\<lambda>found.
     case found of
       None \<Rightarrow> txthrow (''ICP fatigue reservation finalization conflict for turn '' @ ic_turnId c)
     | Some row \<Rightarrow>
         if fr_outcome row = source
         then txbind (fence_exec (update_where (\<lambda>r. fr_turn r = turn \<and> fr_outcome r = source) finish)) (\<lambda>_.
              txpure (assertFinalizationMatches (finish row) c fatigue outcome))
         else
           txbind (txpure (assertFinalizationMatches row c fatigue outcome)) (\<lambda>_.
           if fr_outcome row \<noteq> fence_of_final outcome
           then txthrow (''ICP fatigue reservation finalization conflict for turn '' @ ic_turnId c)
           else txret ()))))"

definition turn_fenced :: "string \<Rightarrow> fence_state \<Rightarrow> bool" where
  "turn_fenced companionId s \<longleftrightarrow>
     list_ex (\<lambda>r. fr_local r = companionId \<and> (fr_outcome r = Fence_pending \<or> fr_outcome r = Fence_delivering)) (fs_rows s)"

section \<open>Events\<close>

text \<open>
  \<open>Acquire_lease p turn ping connection\<close>: \<open>ping\<close> says whether \<^verbatim>\<open>SELECT 1\<close> goes through on a session that still
  lives and \<open>connection\<close> is the message of a lease pool that gives no connection. \<open>Release_lease p turn ok\<close>: \<open>ok\<close> says
  whether the unlock goes through on a session that still lives; if it does not, the connection is destroyed, which
  gives the lock back as well. \<open>Others episodes permits\<close>: other stores change their tables.
\<close>

datatype fence_event =
  Acquire_lease nat string bool "string option"
| Release_lease nat string bool
| Check_lease nat string bool
| Reserve_tx nat reservation_request
| Prepare_tx nat icp_correlation enforcement_metadata "final_outcome option" bool
| Finalize_tx nat icp_correlation enforcement_metadata final_outcome int
| Session_dies nat
| Others "conversation_episode list" "initiation_permit list"
| Close_store nat

datatype fence_answer = Done | Created bool | Leased bool | Reserved fence_result bool

definition session_lives :: "fence_state \<Rightarrow> nat \<Rightarrow> bool" where
  "session_lives s session \<longleftrightarrow> session \<in> fst ` set (fs_locks s)"

definition drop_session :: "nat \<Rightarrow> fence_state \<Rightarrow> fence_state" where
  "drop_session session s = s\<lparr>fs_locks := filter (\<lambda>(n, k). n \<noteq> session) (fs_locks s)\<rparr>"

definition set_process :: "nat \<Rightarrow> (fence_process \<Rightarrow> fence_process) \<Rightarrow> fence_state \<Rightarrow> fence_state" where
  "set_process p f s = s\<lparr>fs_process := (fs_process s)(p := f (fs_process s p))\<rparr>"

definition lease_of :: "fence_state \<Rightarrow> nat \<Rightarrow> string \<Rightarrow> nat option" where
  "lease_of s p turn = map_of (fp_leases (fs_process s p)) turn"

definition releaseLease :: "nat \<Rightarrow> string \<Rightarrow> bool \<Rightarrow> (fence_state, unit) io" where
  "releaseLease p turn ok s =
     (case lease_of s p turn of
        None \<Rightarrow> (Inr (), s)
      | Some session \<Rightarrow>
          (if session_lives s session \<and> ok then Inr () else Inl (Error ''lease connection failed''),
           drop_session session (set_process p (\<lambda>q. q\<lparr>fp_leases := filter (\<lambda>(t, n). t \<noteq> turn) (fp_leases q)\<rparr>) s)))"

definition open_lease :: "fence_services \<Rightarrow> nat \<Rightarrow> string \<Rightarrow> string option \<Rightarrow> (fence_state, bool) io" where
  "open_lease sv p turn connection s =
     (case connection of
        Some message \<Rightarrow> (Inl (Error (''ICP fatigue reservation lease capacity unavailable: '' @ message)), s)
      | None \<Rightarrow>
          if \<not> lock_free s (lease_key sv turn)
          then (Inl (Error (''ICP fatigue reservation turn '' @ turn @ '' is already active in another process'')), s)
          else (Inr True, set_process p (\<lambda>q. q\<lparr>fp_leases := filter (\<lambda>(t, n). t \<noteq> turn) (fp_leases q) @ [(turn, fs_next s)]\<rparr>)
                 (s\<lparr>fs_locks := fs_locks s @ [(fs_next s, lease_key sv turn)], fs_next := Suc (fs_next s)\<rparr>)))"

definition acquireLease :: "fence_services \<Rightarrow> nat \<Rightarrow> string \<Rightarrow> bool \<Rightarrow> string option \<Rightarrow> (fence_state, bool) io" where
  "acquireLease sv p turn ping connection s =
     (if fp_closed (fs_process s p) \<noteq> None then (Inl (Error ''ICP fatigue reservation store is closed''), s)
      else case lease_of s p turn of
        Some session \<Rightarrow>
          if session_lives s session \<and> ping then (Inr False, s)
          else iobind (releaseLease p turn True) (\<lambda>_. open_lease sv p turn connection) s
      | None \<Rightarrow> open_lease sv p turn connection s)"

definition closeResources :: "nat \<Rightarrow> (fence_state, unit) io" where
  "closeResources p s =
     (let sessions = map snd (fp_leases (fs_process s p));
          outcome = (if list_all (session_lives s) sessions then Inr ()
                     else Inl (Error ''Failed to close ICP fatigue reservation resources'')) in
      (outcome, fold drop_session sessions (set_process p (\<lambda>_. \<lparr>fp_leases = [], fp_closed = Some outcome\<rparr>) s)))"

definition pool_tx :: "nat \<Rightarrow> (fence_state, 'a) tx \<Rightarrow> (fence_state, 'a) io" where
  "pool_tx p handler s =
     (if fp_closed (fs_process s p) \<noteq> None then (Inl (Error ''Cannot use a pool after calling end on the pool''), s)
      else withPostgresClient handler s)"

fun fence_step :: "fence_services \<Rightarrow> fence_event \<Rightarrow> fence_state \<Rightarrow> fence_answer result \<times> fence_state" where
  "fence_step sv (Acquire_lease p turn ping connection) s = iobind (acquireLease sv p turn ping connection) (\<lambda>b. ioret (Created b)) s"
| "fence_step sv (Release_lease p turn ok) s = iobind (releaseLease p turn ok) (\<lambda>_. ioret Done) s"
| "fence_step sv (Check_lease p turn ping) s =
     (case lease_of s p turn of
        None \<Rightarrow> (Inr (Leased False), s)
      | Some session \<Rightarrow>
          if session_lives s session \<and> ping then (Inr (Leased True), s) else (Inl (Error ''lease connection failed''), s))"
| "fence_step sv (Reserve_tx p q) s = iobind (pool_tx p (reserve_fence_tx sv q)) (\<lambda>(r, keep). ioret (Reserved r keep)) s"
| "fence_step sv (Prepare_tx p c fatigue recovered lease) s =
     iobind (pool_tx p (prepare_tx sv c fatigue recovered lease)) (\<lambda>_. ioret Done) s"
| "fence_step sv (Finalize_tx p c fatigue outcome at') s =
     iobind (pool_tx p (finalize_tx sv c fatigue outcome at')) (\<lambda>_. ioret Done) s"
| "fence_step sv (Session_dies session) s = (Inr Done, drop_session session s)"
| "fence_step sv (Others episodes permits) s = (Inr Done, s\<lparr>fs_episodes := episodes, fs_permits := permits\<rparr>)"
| "fence_step sv (Close_store p) s =
     (case fp_closed (fs_process s p) of
        Some outcome \<Rightarrow> (rbind outcome (\<lambda>_. Inr Done), s)
      | None \<Rightarrow> iobind (closeResources p) (\<lambda>_. ioret Done) s)"

definition fence_next :: "fence_services \<Rightarrow> fence_event \<Rightarrow> fence_state \<Rightarrow> fence_state" where
  "fence_next sv ev s = snd (fence_step sv ev s)"

section \<open>The methods\<close>

text \<open>A process with the schedule of what everybody else does before each of its steps.\<close>

record fence_world =
  fw_state :: fence_state
  fw_others :: "fence_event list list"
  fw_oracle :: "(bool \<times> string option) list"

definition fence_call :: "fence_services \<Rightarrow> (bool \<times> string option \<Rightarrow> fence_event) \<Rightarrow> (fence_world, fence_answer) io" where
  "fence_call sv ev w =
     (let s = fold (fence_next sv) (case fw_others w of [] \<Rightarrow> [] | b # _ \<Rightarrow> b) (fw_state w);
          luck = (case fw_oracle w of [] \<Rightarrow> (True, None) | l # _ \<Rightarrow> l) in
      case fence_step sv (ev luck) s of
        (r, s') \<Rightarrow> (r, w\<lparr>fw_state := s', fw_others := tl (fw_others w), fw_oracle := tl (fw_oracle w)\<rparr>))"

definition call_release :: "fence_services \<Rightarrow> nat \<Rightarrow> string \<Rightarrow> (fence_world, unit) io" where
  "call_release sv p turn = iobind (fence_call sv (\<lambda>(ok, _). Release_lease p turn ok)) (\<lambda>_. ioret ())"

definition reserveFatigue :: "fence_services \<Rightarrow> nat \<Rightarrow> reservation_input \<Rightarrow> (fence_world, fence_result) io" where
  "reserveFatigue sv p input =
     iobind (iopure (normalize_input input)) (\<lambda>q.
     let turnId = ic_turnId (fq_correlation q) in
     iobind (fence_call sv (\<lambda>(ping, connection). Acquire_lease p turnId ping connection)) (\<lambda>lease.
     iotry (iobind (fence_call sv (\<lambda>_. Reserve_tx p q)) (\<lambda>answer.
              case answer of
                Reserved result keepLease \<Rightarrow>
                  if \<not> keepLease then iobind (call_release sv p turnId) (\<lambda>_. ioret result) else ioret result
              | _ \<Rightarrow> iothrow (Error ''unexpected answer'')))
       (\<lambda>e. if lease = Created True then iobind (call_release sv p turnId) (\<lambda>_. iothrow e) else iothrow e)
       ioret))"

definition isTurnFenced :: "nat \<Rightarrow> string \<Rightarrow> (fence_state, bool) io" where
  "isTurnFenced p companionId s =
     guarded (requireFenceCompanionId companionId ''fence.companionId'') (\<lambda>cid. pool_tx p (txget (turn_fenced cid))) s"

record initiation_pressure_input =
  pn_localCompanionId :: string
  pn_peerCompanionId :: string
  pn_timestampMs :: jsnum
  pn_relationshipPressureHalfLifeMs :: jsnum
  pn_relationshipPressureWindowMs :: jsnum
  pn_unansweredAfterMs :: jsnum
  pn_declinedPressureUnits :: jsnum
  pn_deferredPressureUnits :: jsnum
  pn_unansweredPressureUnits :: jsnum
  pn_mutualReplyAllowancePerSide :: jsnum
  pn_mutualReplyPressureUnits :: jsnum

definition normalize_pressure_input :: "initiation_pressure_input \<Rightarrow> pressure_query result" where
  "normalize_pressure_input input =
     rbind (requireFenceCompanionId (pn_localCompanionId input) ''initiationPressure.localCompanionId'') (\<lambda>local.
     rbind (requireFenceCompanionId (pn_peerCompanionId input) ''initiationPressure.peerCompanionId'') (\<lambda>peer.
     rbind (requireTimestamp (pn_timestampMs input) ''initiationPressure.timestampMs'') (\<lambda>timestampMs.
     rbind (requirePositiveInteger (pn_relationshipPressureHalfLifeMs input)
              ''initiationPressure.relationshipPressureHalfLifeMs'') (\<lambda>halfLifeMs.
     rbind (requirePositiveInteger (pn_relationshipPressureWindowMs input)
              ''initiationPressure.relationshipPressureWindowMs'') (\<lambda>windowMs.
     rbind (requirePositiveInteger (pn_unansweredAfterMs input) ''initiationPressure.unansweredAfterMs'') (\<lambda>unansweredAfterMs.
     rbind (requireNonNegativeFinite (pn_declinedPressureUnits input) ''initiationPressure.declinedPressureUnits'') (\<lambda>declined.
     rbind (requireNonNegativeFinite (pn_deferredPressureUnits input) ''initiationPressure.deferredPressureUnits'') (\<lambda>deferred.
     rbind (requireNonNegativeFinite (pn_unansweredPressureUnits input)
              ''initiationPressure.unansweredPressureUnits'') (\<lambda>unanswered.
     rbind (requireFenceNonNegativeInteger (pn_mutualReplyAllowancePerSide input)
              ''initiationPressure.mutualReplyAllowancePerSide'') (\<lambda>allowance.
     rbind (requireNonNegativeFinite (pn_mutualReplyPressureUnits input)
              ''initiationPressure.mutualReplyPressureUnits'') (\<lambda>mutualUnits.
     throwIf (local = peer) ''initiationPressure companion pair must be distinct'' (
     throwIf (windowMs < halfLifeMs) ''initiation pressure window must be at least one half-life'' (
     Inr \<lparr>pq_local = local, pq_peer = peer, pq_root = None, pq_timestampMs = timestampMs, pq_halfLifeMs = halfLifeMs,
          pq_windowMs = windowMs, pq_unansweredAfterMs = unansweredAfterMs, pq_declinedUnits = declined,
          pq_deferredUnits = deferred, pq_unansweredUnits = unanswered, pq_mutual = Some (allowance, mutualUnits)\<rparr>)))))))))))))"

definition readInitiationPressure :: "nat \<Rightarrow> initiation_pressure_input \<Rightarrow> (fence_state, pressure_snapshot) io" where
  "readInitiationPressure p input =
     guarded (normalize_pressure_input input) (\<lambda>q.
       pool_tx p (txbind (txget (pressureSnapshot q None)) txpure))"

definition prepareDelivery ::
  "fence_services \<Rightarrow> nat \<Rightarrow> icp_correlation \<Rightarrow> enforcement_metadata \<Rightarrow> final_outcome option \<Rightarrow> (fence_world, unit) io" where
  "prepareDelivery sv p correlation0 fatigue recoveredOutcome =
     iobind (iopure (parseIcpConversationCorrelation (correlation_wire correlation0))) (\<lambda>correlation.
     iobind (fence_call sv (\<lambda>(ping, _). Check_lease p (ic_turnId correlation) ping)) (\<lambda>lease.
     iobind (fence_call sv (\<lambda>_. Prepare_tx p correlation fatigue recoveredOutcome (lease = Leased True))) (\<lambda>_.
     call_release sv p (ic_turnId correlation))))"

definition handoff :: "fence_services \<Rightarrow> nat \<Rightarrow> icp_correlation \<Rightarrow> (fence_world, unit) io" where
  "handoff sv p correlation0 =
     iobind (iopure (parseIcpConversationCorrelation (correlation_wire correlation0))) (\<lambda>correlation.
     call_release sv p (ic_turnId correlation))"

definition finalizeFatigue ::
  "fence_services \<Rightarrow> nat \<Rightarrow> icp_correlation \<Rightarrow> final_outcome \<Rightarrow> jsnum \<Rightarrow> enforcement_metadata \<Rightarrow> (fence_world, unit) io" where
  "finalizeFatigue sv p correlation0 outcome finalizedAt fatigue =
     iobind (iopure (parseIcpConversationCorrelation (correlation_wire correlation0))) (\<lambda>correlation.
     iobind (iopure (requireTimestamp finalizedAt ''finalizedAtMs'')) (\<lambda>finalizedAtMs.
     if bs_localCompanionId (em_scope fatigue) \<noteq> ic_localCompanionId correlation
        \<or> bs_peerContactId (em_scope fatigue) \<noteq> ic_peerContactId correlation
        \<or> bs_channelId (em_scope fatigue) \<noteq> ic_channelId correlation
     then iothrow (Error ''ICP fatigue reservation finalization metadata binding mismatch'')
     else
     iobind (if outcome = Final_failed
             then iobind (fence_call sv (\<lambda>(ping, _). Check_lease p (ic_turnId correlation) ping)) (\<lambda>lease.
                    if lease = Leased True then ioret ()
                    else iothrow (Error (''ICP fatigue failure finalization requires the live reservation lease for turn ''
                           @ ic_turnId correlation)))
             else ioret ()) (\<lambda>_.
     iobind (fence_call sv (\<lambda>_. Finalize_tx p correlation fatigue outcome finalizedAtMs)) (\<lambda>_.
     call_release sv p (ic_turnId correlation)))))"

definition closeFatigue :: "fence_services \<Rightarrow> nat \<Rightarrow> (fence_world, unit) io" where
  "closeFatigue sv p = iobind (fence_call sv (\<lambda>_. Close_store p)) (\<lambda>_. ioret ())"

end
