(* ===== verification/Icp_Fence_Laws.thy ===== *)
theory Icp_Fence_Laws
  imports Icp_Fence
begin

text \<open>
  The life of a turn in the fence, its capacity, and what a lease protects.
\<close>

section \<open>What a transaction does to the rows\<close>

lemma pool_tx_rows: "snd (pool_tx p h s) = s \<or> (\<exists>x. h s = Inr (x, snd (pool_tx p h s)))"
  by (auto simp: pool_tx_def withPostgresClient_def split: sum.splits)

lemma fence_exec_Inr:
  "fence_exec f s = Inr (u, s') \<longleftrightarrow> list_all fence_row_ok (f (fs_rows s)) \<and> s' = s\<lparr>fs_rows := f (fs_rows s)\<rparr>"
  by (auto simp: fence_exec_def tx_Inr)

lemma turn_param_Inr: "turn_param sv c s = Inr (turn, s') \<longleftrightarrow> sv_uuid sv (ic_turnId c) = Some turn \<and> s' = s"
  by (auto simp: turn_param_def split: option.splits)

definition reclaimed :: "fence_services \<Rightarrow> icp_correlation \<Rightarrow> string \<Rightarrow> int \<Rightarrow> fence_state \<Rightarrow> fence_state" where
  "reclaimed sv c turn t s = s\<lparr>fs_rows := update_where (orphaned sv c turn s)
     (\<lambda>r. r\<lparr>fr_outcome := Fence_failed, fr_finalizedAt := Some t\<rparr>) (fs_rows s)\<rparr>"

lemma reclaim_Inr:
  "reclaim sv c turn t s = Inr (u, s') \<longleftrightarrow>
     list_all fence_row_ok (fs_rows (reclaimed sv c turn t s)) \<and> s' = reclaimed sv c turn t s"
  by (auto simp: reclaim_def fence_exec_Inr reclaimed_def)

definition renewed :: "reservation_request \<Rightarrow> fence_row \<Rightarrow> fence_row" where
  "renewed q row = row\<lparr>fr_reservedAt := fq_timestampMs q, fr_finalizedAt := None, fr_outcome := Fence_pending\<rparr>"

lemma insert_row_Inr:
  assumes "insert_row q turn s = Inr (r, s')"
  obtains (None) "r = None" "s' = s"
  | (New) "find_turn turn s = None" "r = Some (new_row q turn)" "s' = s\<lparr>fs_rows := fs_rows s @ [new_row q turn]\<rparr>"
      "list_all fence_row_ok (fs_rows s')"
  | (Renewed) row where "find_turn turn s = Some row" "fr_outcome row = Fence_failed" "r = Some (renewed q row)"
      "s' = s\<lparr>fs_rows := update_where (\<lambda>r. fr_turn r = turn) (\<lambda>_. renewed q row) (fs_rows s)\<rparr>"
      "list_all fence_row_ok (fs_rows s')"
  using assms
  by (auto simp: insert_row_def tx_Inr fence_exec_Inr Let_def renewed_def split: if_splits option.splits)

lemma assertReplayMatches_Inr:
  "assertReplayMatches row q = Inr u \<longleftrightarrow> row_matches row (fq_correlation q) \<and> fr_decision row = fq_decision q
     \<and> \<bar>fr_amount row\<bar> \<le> MAX_SAFE_INTEGER \<and> fr_amount row = fq_amount q"
  by (auto simp: assertReplayMatches_def Let_def guard_simps rbind_eq_Inr)

lemma reserve_turn:
  "reserve_fence_tx sv q s = Inr (r, s') \<Longrightarrow> \<exists>turn. sv_uuid sv (ic_turnId (fq_correlation q)) = Some turn"
  by (auto simp: reserve_fence_tx_def tx_Inr turn_param_Inr)

lemma find_update_where:
  "(\<And>r. P r \<Longrightarrow> key (f r) = key r) \<Longrightarrow>
     find (\<lambda>r. key r = k) (update_where P f rs) = map_option (\<lambda>r. if P r then f r else r) (find (\<lambda>r. key r = k) rs)"
  by (induction rs) auto

lemma find_reclaimed: "find_turn turn (reclaimed sv c turn t s) = find_turn turn s"
proof -
  have "find_turn turn (reclaimed sv c turn t s)
      = map_option (\<lambda>r. if orphaned sv c turn s r then r\<lparr>fr_outcome := Fence_failed, fr_finalizedAt := Some t\<rparr> else r)
          (find_turn turn s)"
    unfolding find_turn_def reclaimed_def by (simp add: find_update_where)
  then show ?thesis
    by (cases "find_turn turn s") (auto simp: find_turn_def orphaned_def dest: find_Some_iff')
qed

lemma admit_Inr:
  assumes "admit_slot sv q turn s = Inr (r, s')"
  defines "s1 \<equiv> reclaimed sv (fq_correlation q) turn (fq_timestampMs q) s"
  obtains snapshot where "list_all fence_row_ok (fs_rows s1)" "snapshotResult q Reservation_reserved None s1 = Inr snapshot"
    "if slot_exhausted q snapshot
     then s' = s1 \<and> r = (snapshot\<lparr>rr_outcome := Reservation_exhausted, fe_reservationOutcome := None\<rparr>, False)
     else (\<exists>row. insert_row q turn s1 = Inr (Some row, s') \<and> assertReplayMatches row q = Inr ()
        \<and> r = (snapshot\<lparr>fe_reservationOutcome := Some Fence_pending\<rparr>, True))"
  using assms(1) unfolding admit_slot_def s1_def
  by (auto simp: tx_Inr reclaim_Inr split: if_splits option.splits)

lemma reserve_cases:
  assumes "reserve_fence_tx sv q s = Inr (r, s')"
  obtains (Replayed) turn row where "sv_uuid sv (ic_turnId (fq_correlation q)) = Some turn" "find_turn turn s = Some row"
      "fr_outcome row \<noteq> Fence_failed" "s' = s" "fe_reservationOutcome (fst r) = Some (fr_outcome row)"
      "rr_outcome (fst r) = Reservation_replayed" "snd r = (fr_outcome row = Fence_pending)"
      "row_matches row (fq_correlation q)" "fr_decision row = fq_decision q" "fr_amount row = fq_amount q"
  | (Exhausted) turn where "sv_uuid sv (ic_turnId (fq_correlation q)) = Some turn"
      "s' = reclaimed sv (fq_correlation q) turn (fq_timestampMs q) s" "list_all fence_row_ok (fs_rows s')"
      "rr_outcome (fst r) = Reservation_exhausted" "\<not> snd r" "fe_reservationOutcome (fst r) = None"
  | (New) turn snapshot where "sv_uuid sv (ic_turnId (fq_correlation q)) = Some turn" "find_turn turn s = None"
      "snapshotResult q Reservation_reserved None (reclaimed sv (fq_correlation q) turn (fq_timestampMs q) s) = Inr snapshot"
      "\<not> slot_exhausted q snapshot"
      "s' = (reclaimed sv (fq_correlation q) turn (fq_timestampMs q) s)
         \<lparr>fs_rows := fs_rows (reclaimed sv (fq_correlation q) turn (fq_timestampMs q) s) @ [new_row q turn]\<rparr>"
      "list_all fence_row_ok (fs_rows s')"
      "r = (snapshot\<lparr>fe_reservationOutcome := Some Fence_pending\<rparr>, True)"
  | (Renewed) turn snapshot row where "sv_uuid sv (ic_turnId (fq_correlation q)) = Some turn" "find_turn turn s = Some row"
      "fr_outcome row = Fence_failed"
      "snapshotResult q Reservation_reserved None (reclaimed sv (fq_correlation q) turn (fq_timestampMs q) s) = Inr snapshot"
      "\<not> slot_exhausted q snapshot"
      "s' = (reclaimed sv (fq_correlation q) turn (fq_timestampMs q) s)
         \<lparr>fs_rows := update_where (\<lambda>r. fr_turn r = turn) (\<lambda>_. renewed q row)
            (fs_rows (reclaimed sv (fq_correlation q) turn (fq_timestampMs q) s))\<rparr>"
      "list_all fence_row_ok (fs_rows s')"
      "row_matches row (fq_correlation q)" "fr_decision row = fq_decision q" "fr_amount row = fq_amount q"
      "r = (snapshot\<lparr>fe_reservationOutcome := Some Fence_pending\<rparr>, True)"
proof -
  obtain turn where turn: "sv_uuid sv (ic_turnId (fq_correlation q)) = Some turn"
    using assms by (auto simp: reserve_fence_tx_def tx_Inr turn_param_Inr)
  let ?s1 = "reclaimed sv (fq_correlation q) turn (fq_timestampMs q) s"
  consider (replay) row snapshot where "find_turn turn s = Some row" "fr_outcome row \<noteq> Fence_failed" "s' = s"
      "assertReplayMatches row q = Inr ()" "snapshotResult q Reservation_replayed (Some turn) s = Inr snapshot"
      "r = (snapshot\<lparr>fe_reservationOutcome := Some (fr_outcome row)\<rparr>, fr_outcome row = Fence_pending)"
    | (admit) "admit_slot sv q turn s = Inr (r, s')"
        "find_turn turn s = None \<or> (\<exists>row. find_turn turn s = Some row \<and> fr_outcome row = Fence_failed)"
    using assms turn by (auto simp: reserve_fence_tx_def tx_Inr turn_param_Inr split: option.splits if_splits)
  then show thesis
  proof cases
    case (replay row snapshot)
    moreover have "rr_outcome snapshot = Reservation_replayed" using replay(5) by (auto simp: snapshotResult_def rbind_eq_Inr)
    ultimately show thesis using Replayed [OF turn, of row] by (simp add: assertReplayMatches_Inr)
  next
    case admit
    obtain snapshot where snap: "list_all fence_row_ok (fs_rows ?s1)" "snapshotResult q Reservation_reserved None ?s1 = Inr snapshot"
      "if slot_exhausted q snapshot
       then s' = ?s1 \<and> r = (snapshot\<lparr>rr_outcome := Reservation_exhausted, fe_reservationOutcome := None\<rparr>, False)
       else (\<exists>row. insert_row q turn ?s1 = Inr (Some row, s') \<and> assertReplayMatches row q = Inr ()
          \<and> r = (snapshot\<lparr>fe_reservationOutcome := Some Fence_pending\<rparr>, True))"
      using admit_Inr [OF admit(1)] by blast
    show thesis
    proof (cases "slot_exhausted q snapshot")
      case True
      then show thesis using Exhausted [OF turn] snap by simp
    next
      case False
      then obtain row where row: "insert_row q turn ?s1 = Inr (Some row, s')" "assertReplayMatches row q = Inr ()"
        "r = (snapshot\<lparr>fe_reservationOutcome := Some Fence_pending\<rparr>, True)"
        using snap(3) by auto
      from row(1) show thesis
      proof (cases rule: insert_row_Inr)
        case New
        then show thesis using that(3) [OF turn _ snap(2) False] row(3) find_reclaimed by simp
      next
        case (Renewed row0)
        then show thesis using that(4) [OF turn _ _ snap(2) False, of row0] row find_reclaimed
          by (simp add: assertReplayMatches_Inr renewed_def row_matches_def)
      qed simp
    qed
  qed
qed


section \<open>The life of a turn\<close>

definition same_binding :: "fence_row \<Rightarrow> fence_row \<Rightarrow> bool" where
  "same_binding r r' \<longleftrightarrow> fr_turn r' = fr_turn r \<and> fr_conversation r' = fr_conversation r \<and> fr_root r' = fr_root r
     \<and> fr_local r' = fr_local r \<and> fr_peer r' = fr_peer r \<and> fr_peerContact r' = fr_peerContact r
     \<and> fr_channel r' = fr_channel r \<and> fr_decision r' = fr_decision r \<and> fr_amount r' = fr_amount r"

definition outcome_edge :: "fence_outcome \<Rightarrow> fence_outcome \<Rightarrow> bool" where
  "outcome_edge a b \<longleftrightarrow> (a, b) \<in> {(Fence_pending, Fence_delivering), (Fence_pending, Fence_failed),
     (Fence_delivering, Fence_delivered), (Fence_delivering, Fence_no_reply), (Fence_failed, Fence_pending)}"

text \<open>The abstract automaton of one turn: it appears pending and then moves along the edges, keeping its binding.\<close>

inductive turn_step :: "fence_row option \<Rightarrow> fence_row option \<Rightarrow> bool" where
  Appears: "fr_outcome r = Fence_pending \<Longrightarrow> turn_step None (Some r)"
| Moves: "same_binding r r' \<Longrightarrow> outcome_edge (fr_outcome r) (fr_outcome r') \<Longrightarrow> turn_step (Some r) (Some r')"

inductive_cases turn_step_Some: "turn_step (Some r) y"

lemma fence_fields [simp]:
  "fs_rows (drop_session n s) = fs_rows s" "fs_rows (set_process p f s) = fs_rows s"
  "fs_next (drop_session n s) = fs_next s" "fs_next (set_process p f s) = fs_next s"
  "fs_locks (set_process p f s) = fs_locks s" "fs_process (drop_session n s) = fs_process s"
  by (simp_all add: drop_session_def set_process_def)

lemma fold_drop_rows [simp]: "fs_rows (fold drop_session ns s) = fs_rows s"
  by (induction ns arbitrary: s) auto

lemma lease_rows:
  "fs_rows (snd (releaseLease p t ok s)) = fs_rows s"
  "fs_rows (snd (open_lease sv p t conn s)) = fs_rows s"
  "fs_rows (snd (acquireLease sv p t ping conn s)) = fs_rows s"
  "fs_rows (snd (closeResources p s)) = fs_rows s"
proof -
  show r: "fs_rows (snd (releaseLease p t ok s)) = fs_rows s" for ok s by (simp add: releaseLease_def split: option.splits)
  show o': "fs_rows (snd (open_lease sv p t conn s)) = fs_rows s" for s by (simp add: open_lease_def split: option.splits)
  show "fs_rows (snd (acquireLease sv p t ping conn s)) = fs_rows s"
    using r [of True s] o' [of s] o' [of "snd (releaseLease p t True s)"]
    by (auto simp: acquireLease_def iobind_def split: option.splits prod.splits sum.splits)
  show "fs_rows (snd (closeResources p s)) = fs_rows s" by (simp add: closeResources_def Let_def)
qed

lemma snd_iobind_ret: "snd (iobind m (\<lambda>x. ioret (f x)) s) = snd (m s)"
  by (auto simp: iobind_def ioret_def split: prod.splits sum.splits)

lemma snd_iobind_pair: "snd (iobind m (\<lambda>(x, y). ioret (f x y)) s) = snd (m s)"
  by (auto simp: iobind_def ioret_def split: prod.splits sum.splits)

text \<open>An event leaves the rows alone, or is one of the three transactions and commits.\<close>

lemma event_rows:
  obtains (Same) "fs_rows (fence_next sv ev s) = fs_rows s"
  | (Reserve) p q r where "ev = Reserve_tx p q" "reserve_fence_tx sv q s = Inr (r, fence_next sv ev s)"
  | (Prepare) p c f rec lease where "ev = Prepare_tx p c f rec lease" "prepare_tx sv c f rec lease s = Inr ((), fence_next sv ev s)"
  | (Finalize) p c f out t where "ev = Finalize_tx p c f out t" "finalize_tx sv c f out t s = Inr ((), fence_next sv ev s)"
proof (cases ev)
  case (Reserve_tx p q)
  then have "fence_next sv ev s = snd (pool_tx p (reserve_fence_tx sv q) s)" by (simp add: fence_next_def snd_iobind_pair)
  then show thesis using pool_tx_rows [of p "reserve_fence_tx sv q" s] Same Reserve [OF Reserve_tx] by auto
next
  case (Prepare_tx p c f rec lease)
  then have "fence_next sv ev s = snd (pool_tx p (prepare_tx sv c f rec lease) s)" by (simp add: fence_next_def snd_iobind_ret)
  then show thesis
    using pool_tx_rows [of p "prepare_tx sv c f rec lease" s] Same Prepare [OF Prepare_tx] by auto
next
  case (Finalize_tx p c f out t)
  then have "fence_next sv ev s = snd (pool_tx p (finalize_tx sv c f out t) s)" by (simp add: fence_next_def snd_iobind_ret)
  then show thesis
    using pool_tx_rows [of p "finalize_tx sv c f out t" s] Same Finalize [OF Finalize_tx] by auto
qed (rule Same, simp add: fence_next_def snd_iobind_ret lease_rows split: option.splits)+

lemma finalization_binds: "assertFinalizationMatches row c f out = Inr u \<Longrightarrow> row_matches row c"
  by (auto simp: assertFinalizationMatches_def Let_def split: if_splits)

lemma prepare_cases:
  assumes "prepare_tx sv c f rec lease s = Inr ((), s')"
  obtains (Same) turn row where "s' = s" "sv_uuid sv (ic_turnId c) = Some turn" "find_turn turn s = Some row"
      "fr_outcome row \<in> {Fence_delivering, Fence_delivered, Fence_no_reply}"
  | (Delivering) turn row where "find_turn turn s = Some row" "fr_outcome row = Fence_pending" "lease"
      "s' = s\<lparr>fs_rows := update_where (\<lambda>r. fr_turn r = turn \<and> fr_outcome r = Fence_pending)
         (\<lambda>r. r\<lparr>fr_outcome := Fence_delivering\<rparr>) (fs_rows s)\<rparr>" "list_all fence_row_ok (fs_rows s')"
      "sv_uuid sv (ic_turnId c) = Some turn" "row_matches row c"
proof -
  obtain turn where turn: "sv_uuid sv (ic_turnId c) = Some turn"
    using assms by (auto simp: prepare_tx_def tx_Inr turn_param_Inr)
  obtain row where row: "find_turn turn s = Some row"
    using assms turn by (cases "find_turn turn s") (auto simp: prepare_tx_def tx_Inr turn_param_Inr Let_def)
  note tx = assms [unfolded prepare_tx_def tx_Inr turn_param_Inr Let_def turn option.inject, simplified row, simplified]
  show thesis
  proof (cases "fr_outcome row = Fence_pending")
    case True
    then show thesis using tx Delivering [OF row True _ _ _ turn] row finalization_binds [of row c f]
      by (auto simp: tx_Inr fence_exec_Inr split: if_splits)
  next
    case False
    then show thesis using tx Same [OF _ turn row] row
      by (cases "fr_outcome row") (auto simp: tx_Inr split: if_splits option.splits)
  qed
qed

lemma finalize_cases:
  assumes "finalize_tx sv c f out t s = Inr ((), s')"
  obtains (Same) turn row where "s' = s" "sv_uuid sv (ic_turnId c) = Some turn" "find_turn turn s = Some row"
      "fr_outcome row = fence_of_final out"
  | (Finished) turn row where "find_turn turn s = Some row"
      "s' = s\<lparr>fs_rows := update_where (\<lambda>r. fr_turn r = turn
           \<and> fr_outcome r = (if out = Final_failed then Fence_pending else Fence_delivering))
         (\<lambda>r. r\<lparr>fr_outcome := fence_of_final out, fr_finalizedAt := Some t\<rparr>) (fs_rows s)\<rparr>"
      "list_all fence_row_ok (fs_rows s')" "sv_uuid sv (ic_turnId c) = Some turn" "row_matches row c"
      "fr_outcome row = (if out = Final_failed then Fence_pending else Fence_delivering)"
proof -
  let ?source = "if out = Final_failed then Fence_pending else Fence_delivering"
  let ?finish = "\<lambda>r. r\<lparr>fr_outcome := fence_of_final out, fr_finalizedAt := Some t\<rparr>"
  obtain turn where turn: "sv_uuid sv (ic_turnId c) = Some turn"
    using assms by (auto simp: finalize_tx_def Let_def tx_Inr turn_param_Inr)
  obtain row where row: "find_turn turn s = Some row"
    using assms turn by (cases "find_turn turn s") (auto simp: finalize_tx_def tx_Inr turn_param_Inr Let_def)
  show thesis
  proof (cases "fr_outcome row = ?source")
    case True
    then have "assertFinalizationMatches (?finish row) c f out = Inr ()"
      "s' = s\<lparr>fs_rows := update_where (\<lambda>r. fr_turn r = turn \<and> fr_outcome r = ?source) ?finish (fs_rows s)\<rparr>"
      "list_all fence_row_ok (fs_rows s')"
      using assms turn row by (auto simp: finalize_tx_def tx_Inr turn_param_Inr fence_exec_Inr Let_def)
    then show thesis using Finished [OF row _ _ turn _ True] finalization_binds [of "?finish row"] by (simp add: row_matches_def)
  next
    case False
    then show thesis using Same [OF _ turn row] assms turn row
      by (auto simp: finalize_tx_def tx_Inr turn_param_Inr Let_def split: if_splits)
  qed
qed

lemma find_mapped:
  assumes "\<And>r. P r \<Longrightarrow> fr_turn (f r) = fr_turn r"
  shows "find_turn t (s\<lparr>fs_rows := update_where P f (fs_rows s)\<rparr>) = map_option (\<lambda>r. if P r then f r else r) (find_turn t s)"
  unfolding find_turn_def using find_update_where [of P fr_turn f t] assms by simp

lemma find_one:
  assumes "find_turn turn s = Some row" "Q row" "\<And>r. fr_turn (f r) = fr_turn r"
  shows "find_turn t (s\<lparr>fs_rows := update_where (\<lambda>r. fr_turn r = turn \<and> Q r) f (fs_rows s)\<rparr>)
    = (if t = turn then Some (f row) else find_turn t s)"
proof -
  have key: "find_turn t s = Some r \<Longrightarrow> fr_turn r = t" for r t by (auto simp: find_turn_def dest: find_Some_iff')
  show ?thesis using assms(1,2) key by (subst find_mapped) (auto simp: assms(3) intro: option.map_ident_strong split: if_splits)
qed

lemma find_turn_key: "find_turn t s = Some r \<Longrightarrow> fr_turn r = t"
  by (auto simp: find_turn_def dest: find_Some_iff')

lemma find_reclaimed_other:
  "find_turn t (reclaimed sv c turn at' s) = map_option (\<lambda>r. if orphaned sv c turn s r
     then r\<lparr>fr_outcome := Fence_failed, fr_finalizedAt := Some at'\<rparr> else r) (find_turn t s)"
  unfolding find_turn_def reclaimed_def by (simp add: find_update_where)

lemma reserve_others:
  assumes "reserve_fence_tx sv q s = Inr (r, s')" "sv_uuid sv (ic_turnId (fq_correlation q)) = Some turn" "t \<noteq> turn"
  shows "find_turn t s' = (if rr_outcome (fst r) = Reservation_replayed then find_turn t s
    else find_turn t (reclaimed sv (fq_correlation q) turn (fq_timestampMs q) s))"
  using assms(1)
proof (cases rule: reserve_cases)
  case (New turn' snapshot)
  have "rr_outcome snapshot = Reservation_reserved" using New(3) by (auto simp: snapshotResult_def rbind_eq_Inr)
  then show ?thesis using New assms(2,3) by (auto simp: find_turn_def find_snoc new_row_def Let_def split: option.splits)
next
  case (Renewed turn' snapshot row)
  have out: "rr_outcome snapshot = Reservation_reserved" using Renewed(4) by (auto simp: snapshotResult_def rbind_eq_Inr)
  have turn: "turn' = turn" using Renewed(1) assms(2) by simp
  let ?s1 = "reclaimed sv (fq_correlation q) turn (fq_timestampMs q) s"
  have "fr_turn row = turn" using Renewed(2) turn by (auto simp: find_turn_def dest: find_Some_iff')
  then have "find_turn t s' = map_option (\<lambda>r. if fr_turn r = turn then renewed q row else r) (find_turn t ?s1)"
    unfolding Renewed(6) turn find_turn_def
    using find_update_where [of "\<lambda>r. fr_turn r = turn" fr_turn "\<lambda>_. renewed q row" t] by (simp add: renewed_def)
  then show ?thesis using out Renewed(11) assms(3)
    by (cases "find_turn t ?s1") (auto simp: find_turn_def dest: find_Some_iff')
qed (use assms(2) in auto)

text \<open>
  What one event may do to the row of a turn, with the event and the condition of each move. A reservation of the turn itself
  makes it appear, or renews it after a failure; a reservation of another turn of the same pair fails it when it is pending
  and nobody holds its lease; only a delivery prepared under the lease moves it on from pending, only a finalization as a
  failure ends a pending turn, and only a delivering one is finalized as delivered or as left without a reply.
\<close>

inductive fence_moves :: "fence_services \<Rightarrow> fence_state \<Rightarrow> string \<Rightarrow> fence_event \<Rightarrow> fence_row option \<Rightarrow> fence_row option \<Rightarrow> bool"
  for sv s t where
  Stays: "fence_moves sv s t ev x x"
| Appears: "sv_uuid sv (ic_turnId (fq_correlation q)) = Some t \<Longrightarrow> fr_turn r = t \<Longrightarrow> row_matches r (fq_correlation q) \<Longrightarrow>
    fr_decision r = fq_decision q \<Longrightarrow> fr_amount r = fq_amount q \<Longrightarrow> fr_reservedAt r = fq_timestampMs q \<Longrightarrow>
    fr_finalizedAt r = None \<Longrightarrow> fr_outcome r = Fence_pending \<Longrightarrow> fence_moves sv s t (Reserve_tx p q) None (Some r)"
| Renews: "sv_uuid sv (ic_turnId (fq_correlation q)) = Some t \<Longrightarrow> row_matches r (fq_correlation q) \<Longrightarrow>
    fr_decision r = fq_decision q \<Longrightarrow> fr_amount r = fq_amount q \<Longrightarrow> fr_outcome r = Fence_failed \<Longrightarrow>
    fence_moves sv s t (Reserve_tx p q) (Some r)
      (Some (r\<lparr>fr_reservedAt := fq_timestampMs q, fr_finalizedAt := None, fr_outcome := Fence_pending\<rparr>))"
| Lapses: "sv_uuid sv (ic_turnId (fq_correlation q)) \<noteq> Some t \<Longrightarrow> same_pair (fq_correlation q) r \<Longrightarrow>
    fr_outcome r = Fence_pending \<Longrightarrow> lock_free s (lease_key sv t) \<Longrightarrow>
    fence_moves sv s t (Reserve_tx p q) (Some r) (Some (r\<lparr>fr_outcome := Fence_failed, fr_finalizedAt := Some (fq_timestampMs q)\<rparr>))"
| Delivers: "sv_uuid sv (ic_turnId c) = Some t \<Longrightarrow> row_matches r c \<Longrightarrow> fr_outcome r = Fence_pending \<Longrightarrow>
    fence_moves sv s t (Prepare_tx p c f rec True) (Some r) (Some (r\<lparr>fr_outcome := Fence_delivering\<rparr>))"
| Fails: "sv_uuid sv (ic_turnId c) = Some t \<Longrightarrow> row_matches r c \<Longrightarrow> fr_outcome r = Fence_pending \<Longrightarrow>
    fence_moves sv s t (Finalize_tx p c f Final_failed at') (Some r) (Some (r\<lparr>fr_outcome := Fence_failed, fr_finalizedAt := Some at'\<rparr>))"
| Delivered: "sv_uuid sv (ic_turnId c) = Some t \<Longrightarrow> row_matches r c \<Longrightarrow> fr_outcome r = Fence_delivering \<Longrightarrow>
    fence_moves sv s t (Finalize_tx p c f Final_delivered at') (Some r) (Some (r\<lparr>fr_outcome := Fence_delivered, fr_finalizedAt := Some at'\<rparr>))"
| No_reply: "sv_uuid sv (ic_turnId c) = Some t \<Longrightarrow> row_matches r c \<Longrightarrow> fr_outcome r = Fence_delivering \<Longrightarrow>
    fence_moves sv s t (Finalize_tx p c f Final_no_reply at') (Some r) (Some (r\<lparr>fr_outcome := Fence_no_reply, fr_finalizedAt := Some at'\<rparr>))"

lemma reserve_moves:
  assumes tx: "reserve_fence_tx sv q s = Inr (r, s')"
  shows "fence_moves sv s t (Reserve_tx p q) (find_turn t s) (find_turn t s')"
proof -
  obtain turn where turn: "sv_uuid sv (ic_turnId (fq_correlation q)) = Some turn" using reserve_turn [OF tx] by blast
  let ?s1 = "reclaimed sv (fq_correlation q) turn (fq_timestampMs q) s"
  show ?thesis
  proof (cases "t = turn")
    case False
    have "fence_moves sv s t (Reserve_tx p q) (find_turn t s) (find_turn t ?s1)"
      using turn False find_turn_key [of t s]
      by (cases "find_turn t s") (auto simp: find_reclaimed_other orphaned_def intro: Stays Lapses)
    then show ?thesis using reserve_others [OF tx turn False] Stays by simp
  next
    case True
    from tx show ?thesis
    proof (cases rule: reserve_cases)
      case (Replayed turn' row)
      then show ?thesis by (simp add: Stays)
    next
      case (Exhausted turn')
      then show ?thesis using turn True find_reclaimed by (simp add: Stays)
    next
      case (New turn' snapshot)
      have "find_turn t s = None" "find_turn t s' = Some (new_row q t)"
        using New(1,2,5) turn True find_reclaimed [of turn sv "fq_correlation q" "fq_timestampMs q" s]
        by (simp_all add: find_turn_def find_snoc new_row_def Let_def)
      then show ?thesis using turn True by (simp add: Appears new_row_def row_matches_def Let_def)
    next
      case (Renewed turn' snapshot row)
      have t': "turn' = t" using Renewed(1) turn True by simp
      have "find_turn t s' = map_option (\<lambda>r. if fr_turn r = t then renewed q row else r) (find_turn t ?s1)"
        unfolding Renewed(6) t' True using find_mapped [of "\<lambda>r. fr_turn r = turn" "\<lambda>_. renewed q row" turn ?s1]
          find_turn_key [OF Renewed(2)] t' True by (simp add: renewed_def)
      then have "find_turn t s' = Some (renewed q row)"
        using Renewed(2) t' True find_reclaimed [of turn sv "fq_correlation q" "fq_timestampMs q" s] find_turn_key [OF Renewed(2)] by simp
      then show ?thesis using Renews [OF Renewed(1,8,9,10,3)] Renewed(2) t' by (simp add: renewed_def)
    qed
  qed
qed

lemma event_moves: "fence_moves sv s t ev (find_turn t s) (find_turn t (fence_next sv ev s))"
proof (cases rule: event_rows [of sv ev s])
  case Same
  then show ?thesis by (simp add: find_turn_def Stays)
next
  case (Reserve p q r)
  then show ?thesis using reserve_moves by blast
next
  case (Prepare p c f rec lease)
  from Prepare(2) show ?thesis
  proof (cases rule: prepare_cases)
    case (Same turn row)
    show ?thesis unfolding Same(1) by (rule Stays)
  next
    case (Delivering turn row)
    have "find_turn t (fence_next sv ev s) = (if t = turn then Some (row\<lparr>fr_outcome := Fence_delivering\<rparr>) else find_turn t s)"
      unfolding Delivering(4) by (rule find_one) (use Delivering(1,2) in simp_all)
    then show ?thesis
      using Delivering(1,3) Delivers [OF Delivering(6,7,2)] Prepare(1) Stays by (cases "t = turn") simp_all
  qed
next
  case (Finalize p c f out at')
  from Finalize(2) show ?thesis
  proof (cases rule: finalize_cases)
    case (Same turn row)
    show ?thesis unfolding Same(1) by (rule Stays)
  next
    case (Finished turn row)
    have found: "find_turn t (fence_next sv ev s) = (if t = turn
        then Some (row\<lparr>fr_outcome := fence_of_final out, fr_finalizedAt := Some at'\<rparr>) else find_turn t s)"
      unfolding Finished(2) by (rule find_one) (use Finished(1,6) in simp_all)
    show ?thesis
    proof (cases "t = turn")
      case True
      then show ?thesis
        using found Finished(1,4-6) Finalize(1) by (cases out) (simp_all add: Fails Delivered No_reply)
    qed (use found Stays in simp)
  qed
qed

text \<open>What a transaction that succeeds has left in the table.\<close>

definition answered :: "fence_services \<Rightarrow> fence_event \<Rightarrow> fence_answer \<Rightarrow> fence_state \<Rightarrow> bool" where
  "answered sv ev a s' \<longleftrightarrow>
     (case ev of
        Reserve_tx p q \<Rightarrow> (\<forall>r keep. a = Reserved r keep \<and> rr_outcome r \<noteq> Reservation_exhausted \<longrightarrow>
          (\<exists>t row. sv_uuid sv (ic_turnId (fq_correlation q)) = Some t \<and> find_turn t s' = Some row
             \<and> row_matches row (fq_correlation q) \<and> fe_reservationOutcome r = Some (fr_outcome row)
             \<and> (rr_outcome r = Reservation_reserved \<longrightarrow> fr_outcome row = Fence_pending)))
      | Prepare_tx p c f rec lease \<Rightarrow> (\<exists>t row. sv_uuid sv (ic_turnId c) = Some t \<and> find_turn t s' = Some row
             \<and> fr_outcome row \<in> {Fence_delivering, Fence_delivered, Fence_no_reply})
      | Finalize_tx p c f out at' \<Rightarrow> (\<exists>t row. sv_uuid sv (ic_turnId c) = Some t \<and> find_turn t s' = Some row
             \<and> fr_outcome row = (case out of Final_delivered \<Rightarrow> Fence_delivered | Final_no_reply \<Rightarrow> Fence_no_reply
                 | Final_failed \<Rightarrow> Fence_failed))
      | _ \<Rightarrow> True)"

lemma reserve_answered:
  assumes "reserve_fence_tx sv q s = Inr ((r, keep), s')"
  shows "answered sv (Reserve_tx p q) (Reserved r keep) s'"
  using assms
proof (cases rule: reserve_cases)
  case (New turn snapshot)
  have "find_turn turn s' = Some (new_row q turn)"
    using New(2,5) find_reclaimed [of turn sv "fq_correlation q" "fq_timestampMs q" s]
    by (simp add: find_turn_def find_snoc new_row_def Let_def)
  then show ?thesis using New(1,7) by (simp add: answered_def new_row_def row_matches_def Let_def)
next
  case (Renewed turn snapshot row)
  have "find_turn turn s' = Some (renewed q row)"
    unfolding Renewed(6) using find_mapped [of "\<lambda>r. fr_turn r = turn" "\<lambda>_. renewed q row" turn]
      find_reclaimed [of turn sv "fq_correlation q" "fq_timestampMs q" s] Renewed(2) find_turn_key [OF Renewed(2)]
    by (simp add: renewed_def)
  then show ?thesis using Renewed(1,8,11) by (simp add: answered_def renewed_def row_matches_def)
qed (simp_all add: answered_def)

lemma event_answered:
  assumes "fence_step sv ev s = (Inr a, s')"
  shows "answered sv ev a s'"
proof (cases ev)
  case (Reserve_tx p q)
  then obtain r keep where "reserve_fence_tx sv q s = Inr ((r, keep), s')" "a = Reserved r keep"
    using assms by (auto simp: io_Inr pool_tx_def withPostgresClient_Inr split: if_splits)
  then show ?thesis using reserve_answered Reserve_tx by blast
next
  case (Prepare_tx p c f rec lease)
  then have "prepare_tx sv c f rec lease s = Inr ((), s')"
    using assms by (auto simp: io_Inr pool_tx_def withPostgresClient_Inr split: if_splits)
  then show ?thesis
  proof (cases rule: prepare_cases)
    case (Delivering turn row)
    have "find_turn turn s' = Some (row\<lparr>fr_outcome := Fence_delivering\<rparr>)"
      unfolding Delivering(4) using Delivering(1,2) find_turn_key [OF Delivering(1)] by (subst find_mapped) simp_all
    then show ?thesis using Delivering(6) Prepare_tx by (simp add: answered_def)
  qed (use Prepare_tx in \<open>auto simp: answered_def\<close>)
next
  case (Finalize_tx p c f out at')
  then have "finalize_tx sv c f out at' s = Inr ((), s')"
    using assms by (auto simp: io_Inr pool_tx_def withPostgresClient_Inr split: if_splits)
  then show ?thesis
  proof (cases rule: finalize_cases)
    case (Finished turn row)
    have "find_turn turn s' = Some (row\<lparr>fr_outcome := fence_of_final out, fr_finalizedAt := Some at'\<rparr>)"
      unfolding Finished(2) using Finished(1,6) find_turn_key [OF Finished(1)] by (subst find_mapped) simp_all
    then show ?thesis using Finished(4) Finalize_tx by (cases out) (simp_all add: answered_def)
  qed (use Finalize_tx in \<open>cases out; auto simp: answered_def\<close>)
qed (simp_all add: answered_def)

text \<open>Over a run the moves compose to steps of a plain automaton.\<close>

lemma moves_step: "fence_moves sv s t ev x y \<Longrightarrow> turn_step\<^sup>=\<^sup>= x y"
  by (erule fence_moves.cases) (auto simp: same_binding_def outcome_edge_def intro: turn_step.intros)

lemma event_step: "turn_step\<^sup>=\<^sup>= (find_turn t s) (find_turn t (fence_next sv ev s))"
  by (rule moves_step [OF event_moves])

abbreviation fence_run :: "fence_services \<Rightarrow> fence_event list \<Rightarrow> fence_state \<Rightarrow> fence_state" where
  "fence_run sv \<equiv> fold (fence_next sv)"

lemma run_steps: "turn_step\<^sup>*\<^sup>* (find_turn t s) (find_turn t (fence_run sv evs s))"
proof (induction evs arbitrary: s)
  case (Cons ev evs)
  have "turn_step\<^sup>*\<^sup>* (find_turn t s) (find_turn t (fence_next sv ev s))" using event_step by (metis rtranclp.rtrancl_refl r_into_rtranclp sup2CI sup2E)
  then show ?case using Cons.IH [of "fence_next sv ev s"] by simp
qed simp

definition terminal :: "fence_outcome \<Rightarrow> bool" where
  "terminal out \<longleftrightarrow> out = Fence_delivered \<or> out = Fence_no_reply"

lemma terminal_stays: "turn_step\<^sup>*\<^sup>* x y \<Longrightarrow> x = Some r \<Longrightarrow> terminal (fr_outcome r) \<Longrightarrow> y = Some r"
  by (induction rule: rtranclp_induct) (auto simp: terminal_def outcome_edge_def elim: turn_step_Some)

lemma binding_kept: "turn_step\<^sup>*\<^sup>* x y \<Longrightarrow> x = Some r \<Longrightarrow> \<exists>r'. y = Some r' \<and> same_binding r r'"
proof (induction rule: rtranclp_induct)
  case base
  then show ?case by (simp add: same_binding_def)
next
  case (step y z)
  then obtain r' where r': "y = Some r'" "same_binding r r'" by blast
  then show ?case using step(2) by (auto elim!: turn_step_Some simp: same_binding_def)
qed

section \<open>Capacity\<close>

abbreviation spend :: "slot_decision \<Rightarrow> string \<Rightarrow> string \<Rightarrow> string \<Rightarrow> fence_row list \<Rightarrow> int" where
  "spend d l p ro rows \<equiv> root_spend l p (Some ro) None d rows"

definition counts :: "slot_decision \<Rightarrow> string \<Rightarrow> string \<Rightarrow> string \<Rightarrow> fence_row \<Rightarrow> bool" where
  "counts d l p ro r \<longleftrightarrow> fr_local r = l \<and> fr_peer r = p \<and> fr_root r = ro \<and> live_outcome (fr_outcome r) \<and> fr_decision r = d"

lemma spend_simps [simp]:
  "spend d l p ro [] = 0"
  "spend d l p ro (r # rows) = (if counts d l p ro r then fr_amount r else 0) + spend d l p ro rows"
  "spend d l p ro (rows @ rows') = spend d l p ro rows + spend d l p ro rows'"
  by (auto simp: root_spend_def root_rows_def counts_def)

lemma spend_update_le:
  assumes "\<And>r. P r \<Longrightarrow> same_binding r (f r)" "\<And>r. P r \<Longrightarrow> live_outcome (fr_outcome (f r)) \<Longrightarrow> live_outcome (fr_outcome r)"
    and "\<And>r. r \<in> set rows \<Longrightarrow> 0 < fr_amount r"
  shows "spend d l p ro (update_where P f rows) \<le> spend d l p ro rows"
  using assms(3)
proof (induction rows)
  case (Cons r rows)
  have "(if counts d l p ro (f r) then fr_amount (f r) else 0) \<le> (if counts d l p ro r then fr_amount r else 0)" if "P r"
    using Cons.prems [of r] assms(1,2) [OF that] by (auto simp: counts_def same_binding_def)
  then show ?case using Cons by fastforce
qed simp

lemma spend_replace:
  assumes "distinct (map fr_turn rows)" "find (\<lambda>r. fr_turn r = turn) rows = Some row" "\<not> live_outcome (fr_outcome row)"
  shows "spend d l p ro (update_where (\<lambda>r. fr_turn r = turn) (\<lambda>_. row') rows)
     = spend d l p ro rows + (if counts d l p ro row' then fr_amount row' else 0)"
  using assms
proof (induction rows)
  case (Cons r rows)
  show ?case
  proof (cases "fr_turn r = turn")
    case True
    then have "update_where (\<lambda>r. fr_turn r = turn) (\<lambda>_. row') rows = rows"
      using Cons.prems(1) by (intro update_where_none) (metis distinct.simps(2) image_eqI list.set_map list.simps(9))
    then show ?thesis using True Cons.prems by (simp add: counts_def)
  next
    case False
    then show ?thesis using Cons by simp
  qed
qed simp


text \<open>Turn ids are the primary key and the rows satisfy the CHECK constraints.\<close>

definition rows_ok :: "fence_state \<Rightarrow> bool" where
  "rows_ok s \<longleftrightarrow> distinct (map fr_turn (fs_rows s)) \<and> list_all fence_row_ok (fs_rows s)"

lemma reclaimed_turns: "map fr_turn (fs_rows (reclaimed sv c turn at' s)) = map fr_turn (fs_rows s)"
  by (simp add: reclaimed_def map_update_where)

lemma find_turn_None: "find_turn t s = None \<longleftrightarrow> t \<notin> fr_turn ` set (fs_rows s)"
  by (auto simp: find_turn_def find_None_iff')

lemma reserve_keeps_rows:
  assumes "reserve_fence_tx sv q s = Inr (r, s')" "rows_ok s"
  shows "rows_ok s'"
  using assms(1)
proof (cases rule: reserve_cases)
  case (Exhausted turn)
  then show ?thesis using assms(2) by (simp add: rows_ok_def reclaimed_turns)
next
  case (New turn snapshot)
  have "turn \<notin> set (map fr_turn (fs_rows s))" using New(2) by (simp add: find_turn_None)
  then have "distinct (map fr_turn (fs_rows s'))"
    using New(5) assms(2) by (simp add: rows_ok_def reclaimed_turns new_row_def Let_def del: set_map)
  then show ?thesis using New(6) by (simp add: rows_ok_def)
next
  case (Renewed turn snapshot row)
  have "fr_turn row = turn" using Renewed(2) by (auto simp: find_turn_def dest: find_Some_iff')
  then have "map fr_turn (fs_rows s') = map fr_turn (fs_rows s)"
    unfolding Renewed(6) by (simp add: map_update_where renewed_def reclaimed_turns)
  then show ?thesis using Renewed(7) assms(2) by (simp add: rows_ok_def)
qed (use assms(2) in simp)

lemma event_keeps_rows:
  assumes "rows_ok s"
  shows "rows_ok (fence_next sv ev s)"
proof (cases rule: event_rows [of sv ev s])
  case Same
  then show ?thesis using assms by (simp add: rows_ok_def)
next
  case (Reserve p q r)
  then show ?thesis using reserve_keeps_rows assms by blast
next
  case (Prepare p c f rec lease)
  from Prepare(2) show ?thesis
  proof (cases rule: prepare_cases)
    case (Delivering turn row)
    then show ?thesis using assms by (simp add: rows_ok_def map_update_where)
  qed (use assms in simp)
next
  case (Finalize p c f out at')
  from Finalize(2) show ?thesis
  proof (cases rule: finalize_cases)
    case (Finished turn row)
    then show ?thesis using assms by (simp add: rows_ok_def map_update_where)
  qed (use assms in simp)
qed

lemma rows_amounts: "rows_ok s \<Longrightarrow> r \<in> set (fs_rows s) \<Longrightarrow> 0 < fr_amount r"
  by (auto simp: rows_ok_def list_all_iff fence_row_ok_def)

lemma reclaimed_spend: "rows_ok s \<Longrightarrow> spend d l p ro (fs_rows (reclaimed sv c turn at' s)) \<le> spend d l p ro (fs_rows s)"
  by (auto simp: reclaimed_def same_binding_def live_outcome_def rows_amounts intro!: spend_update_le)

definition slot_limit :: "reservation_request \<Rightarrow> int" where
  "slot_limit q = (if fq_decision q = Slot_charged then fq_hardLimit q else fq_overchargeLimit q)"

lemma admitted_below:
  assumes "snapshotResult q out None s = Inr snapshot" "\<not> slot_exhausted q snapshot"
  shows "spend (fq_decision q) (ic_localCompanionId (fq_correlation q)) (ic_peerCompanionId (fq_correlation q))
    (ic_rootInitiationId (fq_correlation q)) (fs_rows s) < slot_limit q"
  using assms
  by (cases "fq_decision q") (auto simp: snapshotResult_def pressureSnapshot_def Let_def rbind_eq_Inr guard_simps slot_exhausted_def slot_limit_def)

lemma reserve_spend:
  assumes tx: "reserve_fence_tx sv q s = Inr (r, s')" and ok: "rows_ok s"
  shows "spend d l p ro (fs_rows s') \<le> spend d l p ro (fs_rows s)
    \<or> fq_decision q = d \<and> spend d l p ro (fs_rows s') < slot_limit q + fq_amount q"
  using tx
proof (cases rule: reserve_cases)
  case (Exhausted turn)
  then show ?thesis using reclaimed_spend [OF ok] by simp
next
  case (New turn snapshot)
  let ?s1 = "reclaimed sv (fq_correlation q) turn (fq_timestampMs q) s"
  have s': "spend d l p ro (fs_rows s') = spend d l p ro (fs_rows ?s1) + (if counts d l p ro (new_row q turn) then fq_amount q else 0)"
    using New(5) by (simp add: new_row_def Let_def)
  show ?thesis
  proof (cases "counts d l p ro (new_row q turn)")
    case True
    then show ?thesis using s' admitted_below [OF New(3,4)] by (simp add: counts_def new_row_def Let_def)
  next
    case False
    then show ?thesis using s' reclaimed_spend [OF ok, of l p ro d sv "fq_correlation q" turn "fq_timestampMs q"] by simp
  qed
next
  case (Renewed turn snapshot row)
  let ?s1 = "reclaimed sv (fq_correlation q) turn (fq_timestampMs q) s"
  have found: "find (\<lambda>r. fr_turn r = turn) (fs_rows ?s1) = Some row"
    using Renewed(2) find_reclaimed [of turn sv "fq_correlation q" "fq_timestampMs q" s] by (simp add: find_turn_def)
  have turns: "distinct (map fr_turn (fs_rows ?s1))" using ok by (simp add: rows_ok_def reclaimed_turns)
  have "\<not> live_outcome (fr_outcome row)" using Renewed(3) by (simp add: live_outcome_def)
  then have s': "spend d l p ro (fs_rows s')
      = spend d l p ro (fs_rows ?s1) + (if counts d l p ro (renewed q row) then fr_amount row else 0)"
    using Renewed(6) spend_replace [OF turns found, of l p ro d "renewed q row"] by (simp add: renewed_def)
  show ?thesis
  proof (cases "counts d l p ro (renewed q row)")
    case True
    then have key: "l = ic_localCompanionId (fq_correlation q)" "p = ic_peerCompanionId (fq_correlation q)"
      "ro = ic_rootInitiationId (fq_correlation q)" "d = fq_decision q"
      using Renewed(8,9) by (simp_all add: counts_def renewed_def row_matches_def)
    show ?thesis using s' True admitted_below [OF Renewed(4,5)] Renewed(10) by (simp add: key)
  next
    case False
    then show ?thesis using s' reclaimed_spend [OF ok, of l p ro d sv "fq_correlation q" turn "fq_timestampMs q"] by simp
  qed
qed simp

lemma event_spend:
  assumes ok: "rows_ok s"
  shows "spend d l p ro (fs_rows (fence_next sv ev s)) \<le> spend d l p ro (fs_rows s)
    \<or> (\<exists>n q. ev = Reserve_tx n q \<and> fq_decision q = d \<and> spend d l p ro (fs_rows (fence_next sv ev s)) < slot_limit q + fq_amount q)"
proof (cases rule: event_rows [of sv ev s])
  case (Reserve n q r)
  then show ?thesis using reserve_spend [OF _ ok] by blast
next
  case (Prepare n c f rec lease)
  from Prepare(2) show ?thesis
  proof (cases rule: prepare_cases)
    case (Delivering turn row)
    have "spend d l p ro (fs_rows (fence_next sv ev s)) \<le> spend d l p ro (fs_rows s)" unfolding Delivering(4)
      by (simp, rule spend_update_le) (auto simp: same_binding_def live_outcome_def rows_amounts [OF ok])
    then show ?thesis ..
  qed simp
next
  case (Finalize n c f out at')
  from Finalize(2) show ?thesis
  proof (cases rule: finalize_cases)
    case (Finished turn row)
    have rows: "fs_rows (fence_next sv ev s) = update_where (\<lambda>r. fr_turn r = turn
         \<and> fr_outcome r = (if out = Final_failed then Fence_pending else Fence_delivering))
       (\<lambda>r. r\<lparr>fr_outcome := fence_of_final out, fr_finalizedAt := Some at'\<rparr>) (fs_rows s)"
      by (subst Finished(2)) simp
    have "spend d l p ro (fs_rows (fence_next sv ev s)) \<le> spend d l p ro (fs_rows s)" unfolding rows
      by (rule spend_update_le) (auto simp: same_binding_def live_outcome_def rows_amounts [OF ok])
    then show ?thesis ..
  qed simp
qed simp


section \<open>Leases\<close>

text \<open>Every session that lives holds the lock of the turn its process leased it for; new sessions are new.\<close>

definition lease_sessions_ok :: "fence_services \<Rightarrow> fence_state \<Rightarrow> bool" where
  "lease_sessions_ok sv s \<longleftrightarrow> (\<forall>n. session_lives s n \<longrightarrow> n < fs_next s)
     \<and> (\<forall>p t n. (t, n) \<in> set (fp_leases (fs_process s p)) \<longrightarrow>
          n < fs_next s \<and> (session_lives s n \<longrightarrow> (n, lease_key sv t) \<in> set (fs_locks s)))"

definition lease_view :: "fence_state \<Rightarrow> (nat \<times> int) list \<times> (nat \<Rightarrow> fence_process) \<times> nat" where
  "lease_view s = (fs_locks s, fs_process s, fs_next s)"

lemma lease_sessions_ok_view: "lease_view s' = lease_view s \<Longrightarrow> lease_sessions_ok sv s' = lease_sessions_ok sv s"
  by (simp add: lease_view_def lease_sessions_ok_def session_lives_def)

lemma lease_view_rows [simp]: "lease_view (s\<lparr>fs_rows := x\<rparr>) = lease_view s" "lease_view (reclaimed sv c turn t s) = lease_view s"
  "lease_view (s\<lparr>fs_episodes := es, fs_permits := ps\<rparr>) = lease_view s"
  by (simp_all add: lease_view_def reclaimed_def)

lemma tx_view:
  "reserve_fence_tx sv q s = Inr (r, s') \<Longrightarrow> lease_view s' = lease_view s"
  "prepare_tx sv c f rec lease s = Inr (u, s') \<Longrightarrow> lease_view s' = lease_view s"
  "finalize_tx sv c f out t s = Inr (v, s') \<Longrightarrow> lease_view s' = lease_view s"
  subgoal by (erule reserve_cases) simp_all
  subgoal by (cases u) (auto elim: prepare_cases)
  subgoal by (cases v) (auto elim: finalize_cases)
  done

lemma session_drop: "session_lives (drop_session m s) n \<longleftrightarrow> session_lives s n \<and> n \<noteq> m"
  by (force simp: session_lives_def drop_session_def)

lemma lease_sessions_ok_drop: "lease_sessions_ok sv s \<Longrightarrow> lease_sessions_ok sv (drop_session m s)"
  unfolding lease_sessions_ok_def session_drop by (auto simp: drop_session_def)

lemma lease_sessions_ok_fold_drop: "lease_sessions_ok sv s \<Longrightarrow> lease_sessions_ok sv (fold drop_session ms s)"
  by (induction ms arbitrary: s) (auto intro: lease_sessions_ok_drop)

lemma lease_sessions_ok_shrink:
  assumes "lease_sessions_ok sv s" "set (fp_leases (f (fs_process s p))) \<subseteq> set (fp_leases (fs_process s p))"
  shows "lease_sessions_ok sv (set_process p f s)"
proof -
  have "session_lives (set_process p f s) n = session_lives s n" for n by (simp add: session_lives_def)
  moreover have "fp_leases (fs_process (set_process p f s) r) = (if r = p then fp_leases (f (fs_process s p)) else fp_leases (fs_process s r))" for r
    by (simp add: set_process_def)
  ultimately show ?thesis using assms unfolding lease_sessions_ok_def by (auto split: if_splits)
qed

lemma lease_sessions_ok_release: "lease_sessions_ok sv s \<Longrightarrow> lease_sessions_ok sv (snd (releaseLease p t ok s))"
  by (auto simp: releaseLease_def intro!: lease_sessions_ok_drop lease_sessions_ok_shrink split: option.splits)

lemma lease_sessions_ok_open:
  assumes ok: "lease_sessions_ok sv s"
  shows "lease_sessions_ok sv (snd (open_lease sv p t conn s))"
proof (cases conn)
  case None
  let ?s' = "set_process p (\<lambda>q. q\<lparr>fp_leases := filter (\<lambda>(t', n). t' \<noteq> t) (fp_leases q) @ [(t, fs_next s)]\<rparr>)
                 (s\<lparr>fs_locks := fs_locks s @ [(fs_next s, lease_key sv t)], fs_next := Suc (fs_next s)\<rparr>)"
  have lives: "session_lives ?s' n \<longleftrightarrow> session_lives s n \<or> n = fs_next s" for n
    by (auto simp: session_lives_def)
  have "n < Suc (fs_next s) \<and> (session_lives ?s' n \<longrightarrow> (n, lease_key sv u) \<in> set (fs_locks ?s'))"
    if "(u, n) \<in> set (fp_leases (fs_process ?s' r))" for r u n
  proof -
    have "(u, n) \<in> set (fp_leases (fs_process s r)) \<or> (u, n) = (t, fs_next s)"
      using that by (auto simp: set_process_def split: if_splits)
    then show ?thesis
    proof
      assume "(u, n) \<in> set (fp_leases (fs_process s r))"
      then have "n < fs_next s" "session_lives s n \<longrightarrow> (n, lease_key sv u) \<in> set (fs_locks s)"
        using ok unfolding lease_sessions_ok_def by blast+
      then show ?thesis using lives [of n] by auto
    qed simp
  qed
  moreover have "n < Suc (fs_next s)" if "session_lives ?s' n" for n
    using that lives ok unfolding lease_sessions_ok_def by (auto intro: less_SucI)
  ultimately have "lease_sessions_ok sv ?s'" unfolding lease_sessions_ok_def by simp
  then show ?thesis using ok None by (simp add: open_lease_def)
qed (use ok in \<open>simp add: open_lease_def\<close>)

lemma snd_acquire:
  "snd (acquireLease sv p t ping conn s) \<in> {s, snd (open_lease sv p t conn s), snd (releaseLease p t True s),
     snd (open_lease sv p t conn (snd (releaseLease p t True s)))}"
  by (simp add: acquireLease_def iobind_def split: option.split prod.split sum.split)

lemma lease_sessions_ok_acquire: "lease_sessions_ok sv s \<Longrightarrow> lease_sessions_ok sv (snd (acquireLease sv p t ping conn s))"
  using snd_acquire [of sv p t ping conn s] by (elim insertE) (simp_all add: lease_sessions_ok_open lease_sessions_ok_release)

lemma lease_sessions_ok_close: "lease_sessions_ok sv s \<Longrightarrow> lease_sessions_ok sv (snd (closeResources p s))"
  by (auto simp: closeResources_def Let_def intro!: lease_sessions_ok_fold_drop lease_sessions_ok_shrink)

lemma pool_tx_ok:
  assumes "lease_sessions_ok sv s" "\<And>x s'. h s = Inr (x, s') \<Longrightarrow> lease_view s' = lease_view s"
  shows "lease_sessions_ok sv (snd (pool_tx p h s))"
  using pool_tx_rows [of p h s]
proof
  assume "\<exists>x. h s = Inr (x, snd (pool_tx p h s))"
  then have "lease_view (snd (pool_tx p h s)) = lease_view s" using assms(2) by blast
  from lease_sessions_ok_view [OF this] show ?thesis using assms(1) by blast
qed (use assms(1) in simp)

lemma event_keeps_leases:
  assumes ok: "lease_sessions_ok sv s"
  shows "lease_sessions_ok sv (fence_next sv ev s)"
proof (cases ev)
  case (Reserve_tx p q)
  then show ?thesis by (simp add: fence_next_def snd_iobind_pair) (rule pool_tx_ok [OF ok], erule tx_view(1))
next
  case (Prepare_tx p c f rec lease)
  then show ?thesis by (simp add: fence_next_def snd_iobind_ret) (rule pool_tx_ok [OF ok], erule tx_view(2))
next
  case (Finalize_tx p c f out t)
  then show ?thesis by (simp add: fence_next_def snd_iobind_ret) (rule pool_tx_ok [OF ok], erule tx_view(3))
next
  case (Others es ps)
  then show ?thesis using ok by (simp add: fence_next_def lease_sessions_ok_view [OF lease_view_rows(3)])
qed (use ok in \<open>simp_all add: fence_next_def snd_iobind_ret lease_sessions_ok_release lease_sessions_ok_acquire lease_sessions_ok_close
    lease_sessions_ok_drop split: option.split\<close>)

lemma run_keeps: "rows_ok s \<Longrightarrow> rows_ok (fence_run sv evs s)" "lease_sessions_ok sv s \<Longrightarrow> lease_sessions_ok sv (fence_run sv evs s)"
  by (induction evs arbitrary: s) (auto intro: event_keeps_rows event_keeps_leases)

end
