(* ===== verification/Icp_Fence_Safety.thy ===== *)
theory Icp_Fence_Safety
  imports Icp_Fence_Laws
begin

text \<open>
  The properties of the fence under every interleaving of the processes that share it.
\<close>

section \<open>An example\<close>

definition demo_fence_services :: fence_services where
  "demo_fence_services =
     \<lparr>sv_hash = (\<lambda>t k. (case t of [] \<Rightarrow> 0 | c # _ \<Rightarrow> of_char c) + k),
      sv_uuid = (\<lambda>t. if isRfc4122Uuid t then Some t else None)\<rparr>"

definition demo_conversation :: conversation_episode where
  "demo_conversation =
     \<lparr>cv_conversationId = ic_conversationId demo_correlation, cv_channelId = ic_channelId demo_correlation,
      cv_participantCompanionIds = [sample_id CHR ''1'', sample_id CHR ''2''],
      cv_rootInitiationId = ic_rootInitiationId demo_correlation, cv_initiatedByCompanionId = sample_id CHR ''2'',
      cv_initiationSource = Initiation_free_time, cv_provenanceRef = ''icp-prov:'' @ sample_id CHR ''3'',
      cv_openedAtMs = 0, cv_lastActivityAtMs = 900, cv_status = Conversation_active, cv_closeReasonCode = None, cv_revision = 1\<rparr>"

definition demo_fence :: fence_state where
  "demo_fence = \<lparr>fs_rows = [], fs_episodes = [demo_conversation], fs_permits = [], fs_locks = [], fs_next = 0,
     fs_process = (\<lambda>_. \<lparr>fp_leases = [], fp_closed = None\<rparr>)\<rparr>"

definition demo_request :: "string \<Rightarrow> reservation_request" where
  "demo_request turn =
     \<lparr>fq_correlation = demo_correlation\<lparr>ic_turnId := turn\<rparr>, fq_timestampMs = 1000, fq_decision = Slot_charged, fq_amount = 1,
      fq_hardLimit = 1, fq_overchargeLimit = 1, fq_halfLifeMs = 1000, fq_windowMs = 2000, fq_unansweredAfterMs = 1000,
      fq_declinedUnits = 1, fq_deferredUnits = 1, fq_unansweredUnits = 1\<rparr>"

lemma demo_fence_ok: "rows_ok demo_fence" "lease_sessions_ok demo_fence_services demo_fence"
  by (simp_all add: demo_fence_def rows_ok_def lease_sessions_ok_def session_lives_def)

text \<open>With no live row left after the reclaim, the example request is admitted.\<close>

definition demo_result :: fence_result where
  "demo_result = \<lparr>rr_outcome = Reservation_reserved, rr_normalSpentBefore = 0, rr_overchargeSpentBefore = 0,
     rr_relationshipPressure = 0, rr_rootNormalSpent = 0, rr_rootOverchargeSpent = 0, rr_contributingReservationCount = 0,
     fe_reservationOutcome = Some Fence_pending\<rparr>"

lemma demo_result_reserved [simp]: "rr_outcome demo_result = Reservation_reserved"
  by (simp add: demo_result_def)

lemma demo_admitted:
  fixes s t defines "q \<equiv> demo_request t" and "s1 \<equiv> reclaimed demo_fence_services (fq_correlation (demo_request t)) t 1000 s"
  assumes t: "isRfc4122Uuid t" "find_turn t s = None" and rows: "list_all fence_row_ok (fs_rows s1)"
    and none: "\<And>r. r \<in> set (fs_rows s1) \<Longrightarrow> \<not> live_outcome (fr_outcome r)"
    and env: "fs_episodes s = [demo_conversation]" "fp_closed (fs_process s p) = None"
  shows "fence_step demo_fence_services (Reserve_tx p q) s
     = (Inr (Reserved demo_result True), s1\<lparr>fs_rows := fs_rows s1 @ [new_row q t]\<rparr>)"
proof -
  have s1: "fs_episodes s1 = [demo_conversation]" using env by (simp add: s1_def reclaimed_def)
  have turn: "turn_param demo_fence_services (fq_correlation q) s = Inr (t, s)"
    using t by (simp add: turn_param_def demo_fence_services_def demo_request_def q_def)
  have no_rows: "root_rows l pr ro ex d (fs_rows s1) = []" "pressing_rows pq ex s1 = []" for l pr ro ex d pq
    using none by (auto simp: root_rows_def pressing_rows_def)
  have no_episodes: "pressing_episodes pq s1 = []" for pq by (simp add: pressing_episodes_def s1 demo_conversation_def)
  have x: "snapshotResult q Reservation_reserved None s1 = Inr (demo_result\<lparr>fe_reservationOutcome := None\<rparr>)"
    by (simp add: snapshotResult_def pressureSnapshot_def Let_def no_rows no_episodes root_spend_def episode_pressure_def
        requireSafeInteger_def MAX_SAFE_INTEGER_def demo_result_def)
  have "find_turn t s1 = None" using t(2) by (simp add: s1_def find_reclaimed)
  moreover have "fence_row_ok (new_row q t)"
    using sample_id_less by (simp add: q_def demo_request_def new_row_def demo_correlation_def fence_row_ok_def less_imp_neq)
  moreover have "episode_admits (fq_correlation q) demo_conversation"
    by (simp add: episode_admits_def demo_conversation_def q_def demo_request_def demo_correlation_def)
  ultimately have ins: "insert_row q t s1 = Inr (Some (new_row q t), s1\<lparr>fs_rows := fs_rows s1 @ [new_row q t]\<rparr>)"
    using rows s1 by (simp add: insert_row_def txbind_def txget_def fence_exec_def txexec_def txret_def)
  have match: "assertReplayMatches (new_row q t) q = Inr ()"
    by (simp add: assertReplayMatches_Inr new_row_def Let_def row_matches_def) (simp add: q_def demo_request_def MAX_SAFE_INTEGER_def)
  have time: "fq_timestampMs q = 1000" "fq_decision q = Slot_charged" "fq_hardLimit q = 1" by (simp_all add: q_def demo_request_def)
  have rec: "reclaim demo_fence_services (fq_correlation q) t (fq_timestampMs q) s = Inr ((), s1)"
    using rows by (simp add: reclaim_Inr s1_def q_def [symmetric] time)
  have "admit_slot demo_fence_services q t s
      = Inr ((demo_result, True), s1\<lparr>fs_rows := fs_rows s1 @ [new_row q t]\<rparr>)"
    using x rec ins match
    by (simp add: admit_slot_def txbind_def txget_def txpure_def txret_def slot_exhausted_def time demo_result_def)
  then have "reserve_fence_tx demo_fence_services q s
      = Inr ((demo_result, True), s1\<lparr>fs_rows := fs_rows s1 @ [new_row q t]\<rparr>)"
    using turn t(2) by (simp add: reserve_fence_tx_def txbind_def txget_def)
  then show ?thesis using env(2) by (simp add: iobind_def pool_tx_def withPostgresClient_def ioret_def)
qed

section \<open>Capacity\<close>

text \<open>
  C4. Capacity under concurrency: whatever the processes do and however their steps interleave, if every reservation of a
  kind (charged or overcharge) asks for at most \<open>A\<close> units under a limit of at most \<open>L\<close>, then the live units of
  that kind of one ordered pair and root stay below \<open>L + A\<close>; for single units the limit is never exceeded.
\<close>

theorem fence_capacity:
  assumes "rows_ok s" "root_spend l p (Some ro) None d (fs_rows s) < L + A"
    and "\<forall>n q. Reserve_tx n q \<in> set evs \<and> fq_decision q = d \<longrightarrow> fq_amount q \<le> A \<and> slot_limit q \<le> L"
  shows "root_spend l p (Some ro) None d (fs_rows (fence_run sv evs s)) < L + A"
  using assms
proof (induction evs arbitrary: s)
  case (Cons ev evs)
  have "root_spend l p (Some ro) None d (fs_rows (fence_next sv ev s)) < L + A"
    using event_spend [OF Cons.prems(1), of l p ro d sv ev] Cons.prems(2,3) by fastforce
  from Cons.IH [OF event_keeps_rows [OF Cons.prems(1)] this] show ?case using Cons.prems(3) by auto
qed simp

text \<open>Two processes race for the one unit of the pair: it is given, and only once.\<close>

definition demo_race :: "fence_event list" where
  "demo_race = [Reserve_tx 0 (demo_request (sample_id CHR ''5'')), Reserve_tx 1 (demo_request (sample_id CHR ''3''))]"

lemma demo_request_units: "fq_amount (demo_request t) = 1" "slot_limit (demo_request t) = 1"
  by (simp_all add: demo_request_def slot_limit_def)

lemma demo_race_limits: "\<forall>n q. Reserve_tx n q \<in> set demo_race \<and> fq_decision q = Slot_charged \<longrightarrow> fq_amount q \<le> 1 \<and> slot_limit q \<le> 1"
  by (auto simp: demo_race_def demo_request_units)

lemma demo_first_event:
  "fence_next demo_fence_services (hd demo_race) demo_fence
     = demo_fence\<lparr>fs_rows := [new_row (demo_request (sample_id CHR ''5'')) (sample_id CHR ''5'')]\<rparr>"
proof -
  have s1: "reclaimed demo_fence_services c t at' demo_fence = demo_fence" for c t at'
    by (simp add: reclaimed_def demo_fence_def)
  show ?thesis using demo_admitted [of "sample_id CHR ''5''" demo_fence 0] sample_id_uuids
    by (auto simp: s1 demo_race_def fence_next_def) (auto simp: demo_fence_def find_turn_def)
qed

theorem fence_capacity_witness:
  "root_spend (sample_id CHR ''1'') (sample_id CHR ''2'') (Some (sample_id CHR ''4'')) None Slot_charged
     (fs_rows (fence_run demo_fence_services demo_race demo_fence)) < 1 + 1
   \<and> root_spend (sample_id CHR ''1'') (sample_id CHR ''2'') (Some (sample_id CHR ''4'')) None Slot_charged
     (fs_rows (fence_run demo_fence_services [hd demo_race] demo_fence)) = 1"
proof
  show "root_spend (sample_id CHR ''1'') (sample_id CHR ''2'') (Some (sample_id CHR ''4'')) None Slot_charged
     (fs_rows (fence_run demo_fence_services demo_race demo_fence)) < 1 + 1"
    by (rule fence_capacity [OF demo_fence_ok(1) _ demo_race_limits]) (simp add: demo_fence_def)
  show "root_spend (sample_id CHR ''1'') (sample_id CHR ''2'') (Some (sample_id CHR ''4'')) None Slot_charged
     (fs_rows (fence_run demo_fence_services [hd demo_race] demo_fence)) = 1"
    by (simp add: demo_first_event counts_def new_row_def demo_request_def demo_correlation_def live_outcome_def Let_def)
qed

section \<open>The automaton of a turn\<close>

text \<open>
  C32. The fence follows the automaton of a turn, event by event. From any state, an event leaves the row of a turn as it
  was, or makes exactly one of the moves of \<open>fence_moves\<close>: a reservation of the turn inserts it as pending with the binding
  of the request, or renews it after a failure; a reservation of another turn of the pair fails it while it is pending and
  its lease is free; a delivery prepared under the lease moves it from pending to delivering; a finalization moves it from
  pending to failed, or from delivering to delivered or to no reply. A reservation, preparation or finalization that
  succeeds has left the turn in the outcome it reports. Over any run a turn keeps its conversation, pair, channel, kind and
  amount, and once delivered or closed without a reply its row never changes again.
\<close>

theorem fence_turn_automaton:
  "fence_moves sv s t ev (find_turn t s) (find_turn t (fence_next sv ev s))
   \<and> (\<forall>a s'. fence_step sv ev s = (Inr a, s') \<longrightarrow> answered sv ev a s')
   \<and> (\<forall>r. find_turn t s = Some r \<longrightarrow> (\<exists>r'. find_turn t (fence_run sv evs s) = Some r' \<and> same_binding r r'
      \<and> (fr_outcome r = Fence_delivered \<or> fr_outcome r = Fence_no_reply \<longrightarrow> r' = r)))"
proof (intro conjI allI impI)
  show "fence_moves sv s t ev (find_turn t s) (find_turn t (fence_next sv ev s))" by (rule event_moves)
  show "answered sv ev a s'" if "fence_step sv ev s = (Inr a, s')" for a s' using that by (rule event_answered)
  fix r assume r: "find_turn t s = Some r"
  note run = run_steps [of t s sv evs]
  obtain r' where "find_turn t (fence_run sv evs s) = Some r'" "same_binding r r'" using binding_kept [OF run r] by blast
  moreover have "fr_outcome r = Fence_delivered \<or> fr_outcome r = Fence_no_reply \<Longrightarrow> find_turn t (fence_run sv evs s) = Some r"
    using terminal_stays [OF run r] by (simp add: terminal_def)
  ultimately show "\<exists>r'. find_turn t (fence_run sv evs s) = Some r' \<and> same_binding r r'
      \<and> (fr_outcome r = Fence_delivered \<or> fr_outcome r = Fence_no_reply \<longrightarrow> r' = r)" by auto
qed

definition demo_delivered :: fence_row where
  "demo_delivered = (new_row (demo_request (sample_id CHR ''5'')) (sample_id CHR ''5''))
     \<lparr>fr_outcome := Fence_delivered, fr_finalizedAt := Some 1500\<rparr>"

text \<open>Turn 5 is delivered and the race does not touch it; in an empty table the first reservation makes it appear.\<close>

theorem fence_turn_automaton_witness:
  "find_turn (sample_id CHR ''5'') (fence_run demo_fence_services demo_race (demo_fence\<lparr>fs_rows := [demo_delivered]\<rparr>))
     = Some demo_delivered
   \<and> fence_moves demo_fence_services demo_fence (sample_id CHR ''5'') (hd demo_race) None
       (Some (new_row (demo_request (sample_id CHR ''5'')) (sample_id CHR ''5'')))"
proof
  have "find_turn (sample_id CHR ''5'') (demo_fence\<lparr>fs_rows := [demo_delivered]\<rparr>) = Some demo_delivered"
    by (simp add: find_turn_def demo_delivered_def new_row_def Let_def)
  with fence_turn_automaton [of demo_fence_services "demo_fence\<lparr>fs_rows := [demo_delivered]\<rparr>" "sample_id CHR ''5''" _ demo_race]
  show "find_turn (sample_id CHR ''5'') (fence_run demo_fence_services demo_race (demo_fence\<lparr>fs_rows := [demo_delivered]\<rparr>))
     = Some demo_delivered" by (auto simp: demo_delivered_def)
  have "find_turn (sample_id CHR ''5'') demo_fence = None"
    "find_turn (sample_id CHR ''5'') (fence_next demo_fence_services (hd demo_race) demo_fence)
       = Some (new_row (demo_request (sample_id CHR ''5'')) (sample_id CHR ''5''))"
    unfolding demo_first_event by (simp_all add: find_turn_def demo_fence_def new_row_def Let_def)
  with fence_turn_automaton [of demo_fence_services demo_fence "sample_id CHR ''5''" "hd demo_race"]
  show "fence_moves demo_fence_services demo_fence (sample_id CHR ''5'') (hd demo_race) None
       (Some (new_row (demo_request (sample_id CHR ''5'')) (sample_id CHR ''5'')))" by simp
qed

section \<open>Leases\<close>

lemma lease_protects:
  assumes "lease_sessions_ok sv s0" "s = fence_run sv evs s0"
  shows "lease_of s p turn = Some session \<Longrightarrow> session_lives s session \<Longrightarrow> find_turn turn s = Some row \<Longrightarrow>
      fr_outcome row = Fence_pending \<Longrightarrow> find_turn turn (fence_next sv (Reserve_tx p' q) s) = Some row"
    and "find_turn turn s = Some row \<Longrightarrow> fr_outcome row = Fence_pending \<Longrightarrow> same_pair (fq_correlation q) row \<Longrightarrow>
      lock_free s (lease_key sv turn) \<Longrightarrow> sv_uuid sv (ic_turnId (fq_correlation q)) \<noteq> Some turn \<Longrightarrow>
      fence_step sv (Reserve_tx p' q) s = (Inr (Reserved r keep), s') \<Longrightarrow> rr_outcome r \<noteq> Reservation_replayed \<Longrightarrow>
      find_turn turn s' = Some (row\<lparr>fr_outcome := Fence_failed, fr_finalizedAt := Some (fq_timestampMs q)\<rparr>)"
proof -
  have ok: "lease_sessions_ok sv s" using run_keeps(2) [OF assms(1)] assms(2) by simp
  {
    assume lease: "lease_of s p turn = Some session" "session_lives s session"
      and row: "find_turn turn s = Some row" "fr_outcome row = Fence_pending"
    have turn: "fr_turn row = turn" using row(1) by (auto simp: find_turn_def dest: find_Some_iff')
    have "(turn, session) \<in> set (fp_leases (fs_process s p))" using lease(1) by (simp add: lease_of_def map_of_SomeD)
    then have "\<not> lock_free s (lease_key sv turn)" using ok lease(2) unfolding lease_sessions_ok_def lock_free_def by force
    then have kept: "find_turn turn (reclaimed sv c t' at' s) = Some row" for c t' at'
      using row turn by (simp add: find_reclaimed_other orphaned_def)
    show "find_turn turn (fence_next sv (Reserve_tx p' q) s) = Some row"
    proof (cases rule: event_rows [of sv "Reserve_tx p' q" s])
      case Same
      then show ?thesis using row(1) by (simp add: find_turn_def)
    next
      case (Reserve n q' r)
      then have tx: "reserve_fence_tx sv q s = Inr (r, fence_next sv (Reserve_tx p' q) s)" by simp
      show ?thesis
      proof (cases "sv_uuid sv (ic_turnId (fq_correlation q)) = Some turn")
        case True
        from tx show ?thesis
        proof (cases rule: reserve_cases)
          case (Exhausted t')
          then show ?thesis using kept by simp
        qed (use True row in simp_all)
      next
        case False
        then obtain t' where "sv_uuid sv (ic_turnId (fq_correlation q)) = Some t'" "turn \<noteq> t'"
          using reserve_turn [OF tx] by auto
        from reserve_others [OF tx this] show ?thesis using kept row(1) by simp
      qed
    qed simp_all
  next
    assume row: "find_turn turn s = Some row" "fr_outcome row = Fence_pending" "same_pair (fq_correlation q) row"
      and free: "lock_free s (lease_key sv turn)" and other: "sv_uuid sv (ic_turnId (fq_correlation q)) \<noteq> Some turn"
      and ev: "fence_step sv (Reserve_tx p' q) s = (Inr (Reserved r keep), s')" "rr_outcome r \<noteq> Reservation_replayed"
    have turn: "fr_turn row = turn" using row(1) by (auto simp: find_turn_def dest: find_Some_iff')
    have tx: "reserve_fence_tx sv q s = Inr ((r, keep), s')"
      using ev(1) by (auto simp: io_Inr pool_tx_def withPostgresClient_Inr split: if_splits)
    obtain t' where "sv_uuid sv (ic_turnId (fq_correlation q)) = Some t'" "turn \<noteq> t'"
      using other reserve_turn [OF tx] by auto
    from reserve_others [OF tx this] show "find_turn turn s' = Some (row\<lparr>fr_outcome := Fence_failed, fr_finalizedAt := Some (fq_timestampMs q)\<rparr>)"
      using ev(2) row free turn \<open>turn \<noteq> t'\<close> by (simp add: find_reclaimed_other orphaned_def)
  }
qed

text \<open>
  C13. A lease protects a pending turn and only a lease does: while the session its process leased for a turn lives, no
  reservation of any process takes the turn's slot away; a pending turn of the same pair whose session lock is free
  is failed by the next reservation of the pair that is not a replay, so its units become free again.
\<close>

theorem fence_lease_protects:
  assumes "lease_sessions_ok sv s0" "s = fence_run sv evs s0" "find_turn turn s = Some row" "fr_outcome row = Fence_pending"
  shows "(lease_of s p turn = Some session \<and> session_lives s session \<longrightarrow>
      find_turn turn (fence_next sv (Reserve_tx p' q) s) = Some row)
    \<and> (same_pair (fq_correlation q) row \<and> lock_free s (lease_key sv turn)
        \<and> sv_uuid sv (ic_turnId (fq_correlation q)) \<noteq> Some turn
        \<and> fence_step sv (Reserve_tx p' q) s = (Inr (Reserved r keep), s') \<and> rr_outcome r \<noteq> Reservation_replayed \<longrightarrow>
      find_turn turn s' = Some (row\<lparr>fr_outcome := Fence_failed, fr_finalizedAt := Some (fq_timestampMs q)\<rparr>))"
  using lease_protects [OF assms(1,2)] assms(3,4) by blast

text \<open>
  Turn 5 is pending and leased: the reservation of turn 3 leaves it pending. After its session died the same
  reservation fails it.
\<close>

definition demo_leased :: fence_state where
  "demo_leased = demo_fence\<lparr>fs_rows := [new_row (demo_request (sample_id CHR ''5'')) (sample_id CHR ''5'')],
     fs_locks := [(0, lease_key demo_fence_services (sample_id CHR ''5''))], fs_next := 1,
     fs_process := (\<lambda>p. \<lparr>fp_leases = (if p = 0 then [(sample_id CHR ''5'', 0)] else []), fp_closed = None\<rparr>)\<rparr>"

lemma demo_leased_ok: "lease_sessions_ok demo_fence_services demo_leased"
  by (simp add: demo_leased_def demo_fence_def lease_sessions_ok_def session_lives_def)

theorem fence_lease_protects_witness:
  "find_turn (sample_id CHR ''5'') (fence_next demo_fence_services (Reserve_tx 1 (demo_request (sample_id CHR ''3''))) demo_leased)
     = Some (new_row (demo_request (sample_id CHR ''5'')) (sample_id CHR ''5''))
   \<and> map_option fr_outcome (find_turn (sample_id CHR ''5'') (fence_next demo_fence_services
        (Reserve_tx 1 (demo_request (sample_id CHR ''3''))) (fence_next demo_fence_services (Session_dies 0) demo_leased)))
     = Some Fence_failed"
proof -
  let ?row = "new_row (demo_request (sample_id CHR ''5'')) (sample_id CHR ''5'')" and ?q = "demo_request (sample_id CHR ''3'')"
  let ?s = "fence_next demo_fence_services (Session_dies 0) demo_leased"
  have row: "fr_turn ?row = sample_id CHR ''5''" "fr_outcome ?row = Fence_pending" "same_pair (fq_correlation ?q) ?row"
    "fr_reservedAt ?row = 1000" "fence_row_ok ?row"
    using sample_id_less
    by (simp_all add: new_row_def Let_def same_pair_def demo_request_def fence_row_ok_def demo_correlation_def less_imp_neq)
  have found: "find_turn (sample_id CHR ''5'') demo_leased = Some ?row" by (simp add: find_turn_def demo_leased_def row)
  have held: "find_turn (sample_id CHR ''5'') (fence_next demo_fence_services (Reserve_tx 1 ?q) demo_leased) = Some ?row"
    using fence_lease_protects [of demo_fence_services demo_leased demo_leased "[]" "sample_id CHR ''5''" ?row 0 0 1 ?q]
      found row(2) demo_leased_ok by (simp add: lease_of_def session_lives_def demo_leased_def)
  have s: "?s = demo_leased\<lparr>fs_locks := []\<rparr>"
    by (simp add: fence_next_def drop_session_def demo_leased_def)
  have orphan: "orphaned demo_fence_services (fq_correlation ?q) (sample_id CHR ''3'') ?s ?row"
    using row unfolding s by (simp add: orphaned_def lock_free_def) (simp add: sample_id_def numeral_eq_Suc)
  have rows: "fs_rows (reclaimed demo_fence_services (fq_correlation ?q) (sample_id CHR ''3'') 1000 ?s)
      = [?row\<lparr>fr_outcome := Fence_failed, fr_finalizedAt := Some 1000\<rparr>]"
  proof -
    have "fs_rows ?s = [?row]" unfolding s by (simp add: demo_leased_def)
    then show ?thesis using orphan by (simp add: reclaimed_def)
  qed
  have "\<exists>r s'. fence_step demo_fence_services (Reserve_tx 1 ?q) ?s = (Inr (Reserved r True), s') \<and> rr_outcome r = Reservation_reserved"
  proof -
    have "find_turn (sample_id CHR ''3'') ?s = None"
      unfolding s by (simp add: find_turn_def demo_leased_def row) (simp add: sample_id_def numeral_eq_Suc)
    moreover have "list_all fence_row_ok (fs_rows (reclaimed demo_fence_services (fq_correlation ?q) (sample_id CHR ''3'') 1000 ?s))"
      using row(4,5) by (simp add: rows fence_row_ok_def)
    ultimately show ?thesis
      using demo_admitted [of "sample_id CHR ''3''" ?s 1] sample_id_uuids
      unfolding rows by (simp add: live_outcome_def s) (auto simp: demo_leased_def demo_fence_def)
  qed
  then obtain r s' where step: "fence_step demo_fence_services (Reserve_tx 1 ?q) ?s = (Inr (Reserved r True), s')"
    "rr_outcome r = Reservation_reserved" by blast
  have "find_turn (sample_id CHR ''5'') s' = Some (?row\<lparr>fr_outcome := Fence_failed, fr_finalizedAt := Some (fq_timestampMs ?q)\<rparr>)"
  proof -
    have run: "?s = fence_run demo_fence_services [Session_dies 0] demo_leased" by simp
    have row5: "find_turn (sample_id CHR ''5'') ?s = Some ?row" using found unfolding s by (simp add: find_turn_def)
    have free: "lock_free ?s (lease_key demo_fence_services (sample_id CHR ''5''))" unfolding s by (simp add: lock_free_def)
    have other: "sv_uuid demo_fence_services (ic_turnId (fq_correlation ?q)) \<noteq> Some (sample_id CHR ''5'')"
      by (simp add: demo_fence_services_def demo_request_def) (simp add: sample_id_def numeral_eq_Suc)
    have fresh: "rr_outcome r \<noteq> Reservation_replayed" using step(2) by simp
    show ?thesis
      using fence_lease_protects [OF demo_leased_ok run row5 row(2), where p' = 1 and q = ?q and r = r and keep = True and s' = s']
        row(3) free other step(1) fresh by blast
  qed
  moreover have "fence_next demo_fence_services (Reserve_tx 1 ?q) ?s = s'"
    unfolding fence_next_def [of _ "Reserve_tx 1 ?q"] step(1) by simp
  ultimately have "map_option fr_outcome (find_turn (sample_id CHR ''5'') (fence_next demo_fence_services (Reserve_tx 1 ?q) ?s))
      = Some Fence_failed" by simp
  then show ?thesis using held by blast
qed


section \<open>Divergences\<close>

text \<open>
  A lease whose session died is not renewed by the call that notices it: releasing it fails on the same dead
  connection, so the call throws; only the next call opens a new lease.
\<close>

lemma dead_lease_not_renewed:
  assumes "lease_of s p turn = Some session" "\<not> session_lives s session" "fp_closed (fs_process s p) = None"
  shows "fst (acquireLease sv p turn ping connection s) = Inl (Error ''lease connection failed'')"
    and "lease_of (snd (acquireLease sv p turn ping connection s)) p turn = None"
proof -
  let ?s' = "drop_session session (set_process p (\<lambda>q. q\<lparr>fp_leases := filter (\<lambda>(t, n). t \<noteq> turn) (fp_leases q)\<rparr>) s)"
  have "acquireLease sv p turn ping connection s = (Inl (Error ''lease connection failed''), ?s')"
    using assms by (simp add: acquireLease_def releaseLease_def iobind_def)
  moreover have "lease_of ?s' p turn = None"
    by (auto simp: lease_of_def drop_session_def set_process_def map_of_eq_None_iff)
  ultimately show "fst (acquireLease sv p turn ping connection s) = Inl (Error ''lease connection failed'')"
    "lease_of (snd (acquireLease sv p turn ping connection s)) p turn = None" by simp_all
qed

text \<open>
  The reclaim stamps an orphan with the time of the reservation that reclaims it. When that time lies before the
  orphan's own reservation, the CHECK constraint refuses the statement and the reservation throws, and it will
  do so again until its timestamp has caught up.
\<close>

lemma reclaim_behind_orphan_throws:
  assumes "sv_uuid sv (ic_turnId (fq_correlation q)) = Some turn" "find_turn turn s = None"
    and "row \<in> set (fs_rows s)" "orphaned sv (fq_correlation q) turn s row" "fq_timestampMs q < fr_reservedAt row"
  shows "reserve_fence_tx sv q s = Inl (DatabaseError ''constraint violation'')"
proof -
  let ?failed = "row\<lparr>fr_outcome := Fence_failed, fr_finalizedAt := Some (fq_timestampMs q)\<rparr>"
  have "?failed \<in> set (update_where (orphaned sv (fq_correlation q) turn s)
      (\<lambda>r. r\<lparr>fr_outcome := Fence_failed, fr_finalizedAt := Some (fq_timestampMs q)\<rparr>) (fs_rows s))"
    using assms(3,4) by (force simp: set_update_where)
  moreover have "\<not> fence_row_ok ?failed" using assms(5) by (simp add: fence_row_ok_def)
  ultimately have "reclaim sv (fq_correlation q) turn (fq_timestampMs q) s = Inl (DatabaseError ''constraint violation'')"
    by (auto simp: reclaim_def fence_exec_def txexec_def list_all_iff)
  then show ?thesis
    using assms(1,2) by (simp add: reserve_fence_tx_def txbind_def turn_param_def txget_def admit_slot_def)
qed

end
