(* ===== verification/Icp_Regulation.thy ===== *)
theory Icp_Regulation
  imports Icp_Fence_Safety
begin

text \<open>
  The turn's side of the fence (\<^verbatim>\<open>src/src/core/agent/substrate-agent/turn-execution/icp-fatigue-regulation.ts\<close>):
  a charged inter-companion turn reserves its slot before the model runs, is reconciled with what the fence saw, or is
  suppressed when the fence is exhausted.
\<close>

section \<open>The port and the inputs\<close>

record 'w regulation_port =
  rp_reserveSlot :: "reservation_input \<Rightarrow> ('w, fence_result) io"
  rp_finalizeSlot :: "icp_correlation \<Rightarrow> final_outcome \<Rightarrow> jsnum \<Rightarrow> enforcement_metadata \<Rightarrow> ('w, unit) io"
  rp_handoffSlot :: "icp_correlation \<Rightarrow> ('w, unit) io"

text \<open>The fields of \<^verbatim>\<open>socialRegulation\<close> that only the fence reads.\<close>

record regulation_units =
  ru_unansweredInitiationAfterMs :: jsnum
  ru_declinedPressureUnits :: jsnum
  ru_deferredPressureUnits :: jsnum
  ru_unansweredPressureUnits :: jsnum

record reconciliation =
  rc_correlation :: icp_correlation
  rc_fatigueDecision :: turn_decision
  rc_durableReservation :: "icp_correlation option"

definition fence_input :: "icp_correlation \<Rightarrow> budget_evaluation \<Rightarrow> fatigue_policy_config \<Rightarrow> regulation_units \<Rightarrow>
    slot_decision \<Rightarrow> reservation_input" where
  "fence_input correlation evaluation policy units decision =
     (let regulation = fp_socialRegulation policy in
      \<lparr>fi_correlation = correlation, fi_timestampMs = ev_timestampMs evaluation, fi_decision = decision,
       fi_amount = Fin (ev_amount evaluation), fi_hardLimit = Fin (bst_allowance (ev_stateBefore evaluation)),
       fi_overchargeLimit = Fin (bst_overchargeAllowance (ev_stateBefore evaluation)),
       fi_relationshipPressureHalfLifeMs = Fin (sr_relationshipPressureHalfLifeMs regulation),
       fi_relationshipPressureWindowMs = Fin (sr_relationshipPressureWindowMs regulation),
       fi_unansweredInitiationAfterMs = ru_unansweredInitiationAfterMs units,
       fi_declinedPressureUnits = ru_declinedPressureUnits units, fi_deferredPressureUnits = ru_deferredPressureUnits units,
       fi_unansweredPressureUnits = ru_unansweredPressureUnits units\<rparr>)"

section \<open>Operations\<close>

definition releaseUnreconciledReservation ::
  "'w regulation_port \<Rightarrow> icp_correlation \<Rightarrow> turn_decision \<Rightarrow> jsnum \<Rightarrow> slot_decision \<Rightarrow> ('w, unit) io" where
  "releaseUnreconciledReservation port correlation fatigueDecision now reservedDecision =
     (let aggregate = iothrow (Error (''ICP fatigue reservation '' @ ic_turnId correlation
            @ '' could not be released after a reconciliation failure''));
          fatigue = (td_metadata fatigueDecision)\<lparr>em_spendDecision := slot_budget reservedDecision\<rparr> in
      iotry (rp_finalizeSlot port correlation Final_failed now fatigue)
        (\<lambda>_. iotry (rp_handoffSlot port correlation) (\<lambda>_. aggregate) (\<lambda>_. aggregate))
        (\<lambda>_. iotry (rp_handoffSlot port correlation) (\<lambda>_. aggregate) (\<lambda>_. ioret ())))"

definition reserve_with_overcharge ::
  "'w regulation_port \<Rightarrow> icp_correlation \<Rightarrow> turn_decision \<Rightarrow> fatigue_policy_config \<Rightarrow> regulation_units \<Rightarrow>
     ('w, fence_result \<times> slot_decision) io" where
  "reserve_with_overcharge port correlation fatigueDecision policy units =
     (let evaluation = td_evaluation fatigueDecision;
          reserve = (\<lambda>decision. rp_reserveSlot port (fence_input correlation evaluation policy units decision));
          localDecision = (if ev_decision evaluation = Decision_overcharge then Slot_overcharge else Slot_charged) in
      iobind (reserve localDecision) (\<lambda>reservation.
      if rr_outcome reservation = Reservation_exhausted \<and> localDecision = Slot_charged \<and> oc_enabled (fp_overcharge policy)
         \<and> sm_continuationEvidence (em_socialRegulation (td_metadata fatigueDecision)) \<noteq> []
         \<and> rr_overchargeSpentBefore reservation < bst_overchargeAllowance (ev_stateBefore evaluation)
      then iobind (reserve Slot_overcharge) (\<lambda>second. ioret (second, Slot_overcharge))
      else ioret (reservation, localDecision)))"

definition settle_reservation ::
  "'w regulation_port \<Rightarrow> icp_correlation \<Rightarrow> turn_decision \<Rightarrow> fatigue_policy_config \<Rightarrow> jsnum \<Rightarrow> fence_result \<Rightarrow> slot_decision \<Rightarrow>
     ('w, reconciliation) io" where
  "settle_reservation port correlation fatigueDecision policy now reservation reservedDecision =
     (if rr_outcome reservation \<noteq> Reservation_exhausted
      then iotry (iopure (reconcileFatigueWithReservationSnapshot fatigueDecision (reservation_result.truncate reservation) policy
                    (reservedDecision = Slot_overcharge)))
             (\<lambda>e. iobind (releaseUnreconciledReservation port correlation fatigueDecision now reservedDecision) (\<lambda>_. iothrow e))
             (\<lambda>reconciled.
               let correlation' = correlation\<lparr>
                     ic_fatigueDecision := (if em_decision (td_metadata reconciled) = Overcharge_charged then Icp_allow_overcharge else Icp_allow),
                     ic_chargeLane := sm_chargeLane (em_socialRegulation (td_metadata reconciled))\<rparr>
               in ioret \<lparr>rc_correlation = correlation', rc_fatigueDecision = reconciled,
                    rc_durableReservation = Some correlation'\<rparr>)
      else
        iobind (iopure (suppressFatigueAfterReservationExhaustion (td_metadata fatigueDecision)
                 (reservation_result.truncate reservation) policy)) (\<lambda>metadata.
        ioret \<lparr>rc_correlation = correlation\<lparr>ic_fatigueDecision := Icp_suppress, ic_fatigueReasonCode := Some ''fatigue_exhausted'',
                 ic_chargeLane := sm_chargeLane (em_socialRegulation metadata)\<rparr>,
               rc_fatigueDecision = fatigueDecision\<lparr>td_metadata := metadata, td_suppressModel := True, td_shouldRecordSpend := False\<rparr>,
               rc_durableReservation = None\<rparr>))"

definition reserveIcpFatigueRegulation ::
  "'w regulation_port option \<Rightarrow> icp_correlation \<Rightarrow> turn_decision \<Rightarrow> bool \<Rightarrow> fatigue_policy_config \<Rightarrow> regulation_units \<Rightarrow>
     jsnum \<Rightarrow> ('w, reconciliation) io" where
  "reserveIcpFatigueRegulation reservationPort correlation fatigueDecision multiCompanion policy units now =
     (let untouched = ioret \<lparr>rc_correlation = correlation, rc_fatigueDecision = fatigueDecision, rc_durableReservation = None\<rparr> in
      if \<not> td_shouldRecordSpend fatigueDecision then untouched
      else case reservationPort of
        None \<Rightarrow> if multiCompanion then iothrow (Error ''ICP fatigue enforcement requires durable regulation reservations'')
                else untouched
      | Some port \<Rightarrow>
          iobind (reserve_with_overcharge port correlation fatigueDecision policy units) (\<lambda>(reservation, reservedDecision).
          settle_reservation port correlation fatigueDecision policy now reservation reservedDecision))"

definition resumeIcpFatigueRegulation ::
  "'w regulation_port \<Rightarrow> icp_correlation \<Rightarrow> pending_spend \<Rightarrow> fatigue_policy_config \<Rightarrow> regulation_units \<Rightarrow> ('w, fence_outcome) io" where
  "resumeIcpFatigueRegulation port correlation pendingSpend policy units =
     (if ps_decision pendingSpend \<noteq> Decision_charged \<and> ps_decision pendingSpend \<noteq> Decision_overcharge
      then iothrow (Error ''Recovered ICP fatigue reservation must describe a charged spend'')
      else let regulation = fp_socialRegulation policy in
      iobind (rp_reserveSlot port \<lparr>fi_correlation = correlation, fi_timestampMs = ps_timestampMs pendingSpend,
         fi_decision = (if ps_decision pendingSpend = Decision_charged then Slot_charged else Slot_overcharge),
         fi_amount = ps_amount pendingSpend, fi_hardLimit = ps_hardLimit pendingSpend,
         fi_overchargeLimit = ps_overchargeLimit pendingSpend,
         fi_relationshipPressureHalfLifeMs = Fin (sr_relationshipPressureHalfLifeMs regulation),
         fi_relationshipPressureWindowMs = Fin (sr_relationshipPressureWindowMs regulation),
         fi_unansweredInitiationAfterMs = ru_unansweredInitiationAfterMs units,
         fi_declinedPressureUnits = ru_declinedPressureUnits units, fi_deferredPressureUnits = ru_deferredPressureUnits units,
         fi_unansweredPressureUnits = ru_unansweredPressureUnits units\<rparr>) (\<lambda>reservation.
      if rr_outcome reservation = Reservation_exhausted
      then iothrow (Error (''Recovered ICP fatigue reservation '' @ ic_turnId correlation @ '' no longer owns capacity''))
      else case fe_reservationOutcome reservation of
        None \<Rightarrow> iothrow (Error (''Recovered ICP fatigue reservation '' @ ic_turnId correlation @ '' has no durable state''))
      | Some outcome \<Rightarrow> ioret outcome))"

text \<open>The port over the fence.\<close>

definition fence_port :: "fence_services \<Rightarrow> nat \<Rightarrow> fence_world regulation_port" where
  "fence_port sv p = \<lparr>rp_reserveSlot = reserveFatigue sv p, rp_finalizeSlot = finalizeFatigue sv p, rp_handoffSlot = handoff sv p\<rparr>"

section \<open>What the port promises\<close>

text \<open>
  \<open>holds w c d a\<close>: in world \<open>w\<close> the turn of \<open>c\<close> durably owns a slot of kind \<open>d\<close> and amount \<open>a\<close>.
\<close>

locale slot_port =
  fixes port :: "'w regulation_port" and holds :: "'w \<Rightarrow> icp_correlation \<Rightarrow> slot_decision \<Rightarrow> real \<Rightarrow> bool"
  assumes reserve_holds: "rp_reserveSlot port input w = (Inr r, w') \<Longrightarrow> rr_outcome r \<noteq> Reservation_exhausted \<Longrightarrow>
    holds w' (fi_correlation input) (fi_decision input) (numval (fi_amount input))"
begin

lemma reserve_twice_holds:
  assumes "reserve_with_overcharge port c dec policy units w = (Inr (r, d), w')" "rr_outcome r \<noteq> Reservation_exhausted"
  shows "holds w' c d (ev_amount (td_evaluation dec))"
proof -
  let ?in = "fence_input c (td_evaluation dec) policy units d"
  obtain w1 where "rp_reserveSlot port ?in w1 = (Inr r, w')"
    using assms(1) by (auto simp: reserve_with_overcharge_def Let_def io_Inr split: if_splits)
  from reserve_holds [OF this assms(2)] show ?thesis by (simp add: fence_input_def Let_def)
qed

end



lemma reconciled_spend:
  assumes "reconcileFatigueWithReservationSnapshot dec r policy overcharge = Inr d"
  shows "em_spendDecision (td_metadata d) = (if overcharge then Decision_overcharge else Decision_charged)"
    and "ev_amount (td_evaluation d) = ev_amount (td_evaluation dec)" "td_shouldRecordSpend d" "\<not> td_suppressModel d"
  using assms unfolding reconcileFatigueWithReservationSnapshot_def Let_def throwIf_eq_Inr rbind_eq_Inr sum.inject
  by (elim conjE exE; hypsubst; simp (no_asm) add: rebaseFatigueEvaluation_def Let_def)+

lemma regulation_run:
  assumes "reserveIcpFatigueRegulation (Some port) c dec multi policy units now w = (Inr rc, w')" "td_shouldRecordSpend dec"
  obtains r d w1 where "reserve_with_overcharge port c dec policy units w = (Inr (r, d), w1)"
    "rr_outcome r \<noteq> Reservation_exhausted \<Longrightarrow>
       reconcileFatigueWithReservationSnapshot dec (reservation_result.truncate r) policy (d = Slot_overcharge) = Inr (rc_fatigueDecision rc)
       \<and> w' = w1 \<and> rc_durableReservation rc \<noteq> None"
    "rr_outcome r = Reservation_exhausted \<Longrightarrow>
       td_suppressModel (rc_fatigueDecision rc) \<and> \<not> td_shouldRecordSpend (rc_fatigueDecision rc)
       \<and> rc_durableReservation rc = None \<and> ic_fatigueDecision (rc_correlation rc) = Icp_suppress"
proof -
  obtain r d w1 where first: "reserve_with_overcharge port c dec policy units w = (Inr (r, d), w1)"
    and second: "settle_reservation port c dec policy now r d w1 = (Inr rc, w')"
    using assms by (auto simp: reserveIcpFatigueRegulation_def io_Inr)
  show thesis
  proof (rule that [OF first])
    assume "rr_outcome r \<noteq> Reservation_exhausted"
    then show "reconcileFatigueWithReservationSnapshot dec (reservation_result.truncate r) policy (d = Slot_overcharge)
        = Inr (rc_fatigueDecision rc) \<and> w' = w1 \<and> rc_durableReservation rc \<noteq> None"
      using second by (auto simp: settle_reservation_def io_Inr Let_def)
  next
    assume "rr_outcome r = Reservation_exhausted"
    then show "td_suppressModel (rc_fatigueDecision rc) \<and> \<not> td_shouldRecordSpend (rc_fatigueDecision rc)
       \<and> rc_durableReservation rc = None \<and> ic_fatigueDecision (rc_correlation rc) = Icp_suppress"
      using second by (auto simp: settle_reservation_def io_Inr)
  qed
qed

context slot_port
begin

text \<open>A turn that goes on to spend owns the slot it spends; a turn without a slot is suppressed and spends nothing.\<close>

lemma regulated_turn:
  assumes "reserveIcpFatigueRegulation (Some port) c dec multi policy units now w = (Inr rc, w')" "td_shouldRecordSpend dec"
  shows "if rc_durableReservation rc = None
    then td_suppressModel (rc_fatigueDecision rc) \<and> \<not> td_shouldRecordSpend (rc_fatigueDecision rc)
      \<and> ic_fatigueDecision (rc_correlation rc) = Icp_suppress
    else td_shouldRecordSpend (rc_fatigueDecision rc) \<and> \<not> td_suppressModel (rc_fatigueDecision rc)
      \<and> (\<exists>d. em_spendDecision (td_metadata (rc_fatigueDecision rc)) = slot_budget d
          \<and> holds w' c d (ev_amount (td_evaluation (rc_fatigueDecision rc))))"
proof -
  obtain r d w1 where run: "reserve_with_overcharge port c dec policy units w = (Inr (r, d), w1)"
    and kept: "rr_outcome r \<noteq> Reservation_exhausted \<Longrightarrow>
       reconcileFatigueWithReservationSnapshot dec (reservation_result.truncate r) policy (d = Slot_overcharge) = Inr (rc_fatigueDecision rc)
       \<and> w' = w1 \<and> rc_durableReservation rc \<noteq> None"
    and gone: "rr_outcome r = Reservation_exhausted \<Longrightarrow>
       td_suppressModel (rc_fatigueDecision rc) \<and> \<not> td_shouldRecordSpend (rc_fatigueDecision rc)
       \<and> rc_durableReservation rc = None \<and> ic_fatigueDecision (rc_correlation rc) = Icp_suppress"
    using regulation_run [OF assms] by metis
  show ?thesis
  proof (cases "rr_outcome r = Reservation_exhausted")
    case True
    then show ?thesis using gone by simp
  next
    case False
    note rec = kept [OF False]
    have "em_spendDecision (td_metadata (rc_fatigueDecision rc)) = slot_budget d"
      using reconciled_spend(1) [OF conjunct1 [OF rec]] by (cases d) auto
    moreover have "holds w' c d (ev_amount (td_evaluation (rc_fatigueDecision rc)))"
      using reserve_twice_holds [OF run False] reconciled_spend(2) [OF conjunct1 [OF rec]] rec by simp
    ultimately show ?thesis using rec reconciled_spend(3,4) [OF conjunct1 [OF rec]] by auto
  qed
qed

lemma resumed_turn:
  assumes "resumeIcpFatigueRegulation port c ps policy units w = (Inr outcome, w')"
  shows "\<exists>d. slot_budget d = ps_decision ps \<and> holds w' c d (numval (ps_amount ps))"
proof -
  let ?d = "if ps_decision ps = Decision_charged then Slot_charged else Slot_overcharge"
  obtain input r where "rp_reserveSlot port input w = (Inr r, w')" "rr_outcome r \<noteq> Reservation_exhausted"
    and input: "fi_correlation input = c" "fi_decision input = ?d" "fi_amount input = ps_amount ps"
    and charged: "ps_decision ps = Decision_charged \<or> ps_decision ps = Decision_overcharge"
    using assms by (auto simp: resumeIcpFatigueRegulation_def Let_def io_Inr split: if_splits option.splits)
  from reserve_holds [OF this(1,2)] input have "holds w' c ?d (numval (ps_amount ps))" by simp
  moreover have "slot_budget ?d = ps_decision ps" using charged by auto
  ultimately show ?thesis by blast
qed

end

lemma charged_turn_needs_fence:
  "td_shouldRecordSpend dec \<Longrightarrow> isl (fst (reserveIcpFatigueRegulation None c dec True policy units now w))"
  by (simp add: reserveIcpFatigueRegulation_def iothrow_def)

section \<open>The fence keeps the promise\<close>

definition owns_slot :: "fence_services \<Rightarrow> fence_world \<Rightarrow> icp_correlation \<Rightarrow> slot_decision \<Rightarrow> real \<Rightarrow> bool" where
  "owns_slot sv w c d a \<longleftrightarrow> (\<exists>turn row. sv_uuid sv (ic_turnId c) = Some turn \<and> find_turn turn (fw_state w) = Some row
     \<and> live_outcome (fr_outcome row) \<and> row_matches row c \<and> fr_decision row = d \<and> of_int (fr_amount row) = a)"

definition slot_row :: "reservation_request \<Rightarrow> fence_row \<Rightarrow> bool" where
  "slot_row q row \<longleftrightarrow> row_matches row (fq_correlation q) \<and> fr_decision row = fq_decision q \<and> fr_amount row = fq_amount q"

lemma reserve_row:
  assumes "reserve_fence_tx sv q s = Inr ((r, keep), s')" "rr_outcome r \<noteq> Reservation_exhausted"
  obtains turn row where "sv_uuid sv (ic_turnId (fq_correlation q)) = Some turn" "find_turn turn s' = Some row" "slot_row q row"
    "fr_outcome row \<noteq> Fence_failed" "keep \<longleftrightarrow> fr_outcome row = Fence_pending"
  using assms(1)
proof (cases rule: reserve_cases)
  case (Replayed turn row)
  then show thesis using that [of turn row] by (simp add: slot_row_def)
next
  case (Exhausted turn)
  then show thesis using assms(2) by simp
next
  case (New turn snapshot)
  let ?s1 = "reclaimed sv (fq_correlation q) turn (fq_timestampMs q) s"
  have "find_turn turn ?s1 = None" using New(2) by (simp add: find_reclaimed)
  then have "find_turn turn s' = Some (new_row q turn)"
    unfolding New(5) by (simp add: find_turn_def find_snoc new_row_def Let_def)
  then show thesis using that [of turn "new_row q turn"] New(1,7) by (simp add: slot_row_def new_row_def Let_def row_matches_def)
next
  case (Renewed turn snapshot row)
  let ?s1 = "reclaimed sv (fq_correlation q) turn (fq_timestampMs q) s"
  have "find_turn turn ?s1 = Some row" using Renewed(2) by (simp add: find_reclaimed)
  moreover have row: "fr_turn row = turn" using Renewed(2) by (auto simp: find_turn_def dest: find_Some_iff')
  ultimately have "find_turn turn s' = Some (renewed q row)"
    unfolding Renewed(6) find_turn_def
    using find_update_where [of "\<lambda>r. fr_turn r = turn" fr_turn "\<lambda>_. renewed q row" turn] by (simp add: renewed_def)
  then show thesis using that [of turn "renewed q row"] Renewed by (simp add: slot_row_def renewed_def row_matches_def)
qed

text \<open>A turn past pending stays live whatever happens.\<close>

lemma committed_stays:
  "turn_step\<^sup>*\<^sup>* x y \<Longrightarrow> x = Some r \<Longrightarrow> fr_outcome r \<noteq> Fence_pending \<Longrightarrow> fr_outcome r \<noteq> Fence_failed \<Longrightarrow>
     \<exists>r'. y = Some r' \<and> fr_outcome r' \<noteq> Fence_pending \<and> fr_outcome r' \<noteq> Fence_failed"
  by (induction rule: rtranclp_induct) (auto simp: outcome_edge_def elim!: turn_step_Some)

lemma slot_row_binding: "same_binding r r' \<Longrightarrow> slot_row q r \<Longrightarrow> slot_row q r'"
  by (simp add: same_binding_def slot_row_def row_matches_def)

lemma call_events:
  assumes "fence_call sv ev w = (r, w')"
  obtains s e where "turn_step\<^sup>*\<^sup>* (find_turn t (fw_state w)) (find_turn t s)" "fence_step sv e s = (r, fw_state w')" "\<exists>l. e = ev l"
proof -
  let ?block = "case fw_others w of [] \<Rightarrow> [] | b # _ \<Rightarrow> b" and ?luck = "case fw_oracle w of [] \<Rightarrow> (True, None) | l # _ \<Rightarrow> l"
  have "fence_step sv (ev ?luck) (fence_run sv ?block (fw_state w)) = (r, fw_state w')"
    using assms by (auto simp: fence_call_def Let_def split: prod.splits)
  then show thesis using that run_steps by blast
qed

lemma call_steps: "fence_call sv ev w = (r, w') \<Longrightarrow> turn_step\<^sup>*\<^sup>* (find_turn t (fw_state w)) (find_turn t (fw_state w'))"
proof (erule call_events [where t = t])
  fix s e assume a: "turn_step\<^sup>*\<^sup>* (find_turn t (fw_state w)) (find_turn t s)" "fence_step sv e s = (r, fw_state w')"
  then have "fence_next sv e s = fw_state w'" by (simp add: fence_next_def)
  then have "turn_step\<^sup>*\<^sup>* (find_turn t s) (find_turn t (fw_state w'))" using run_steps [of t s sv "[e]"] by simp
  with a(1) show ?thesis by simp
qed

lemma normalize_input_Inr:
  assumes "normalize_input input = Inr q"
  shows "fq_correlation q = fi_correlation input" "fq_decision q = fi_decision input" "of_int (fq_amount q) = numval (fi_amount input)"
proof -
  obtain amount where "requirePositiveInteger (fi_amount input) ''reservation.amount'' = Inr amount" and q: "fq_amount q = amount"
    "parseIcpConversationCorrelation (correlation_wire (fi_correlation input)) = Inr (fq_correlation q)"
    "fq_decision q = fi_decision input"
    using assms unfolding normalize_input_def by (simp only: rbind_eq_Inr throwIf_eq_Inr sum.inject) (elim exE conjE, hypsubst, simp)
  then have "isSafeInteger (fi_amount input)" "amount = intval (fi_amount input)"
    by (auto simp: requirePositiveInteger_def split: if_splits)
  then have "fi_amount input = jsint amount" using isSafeInteger_intval by simp
  then show "of_int (fq_amount q) = numval (fi_amount input)" using q(1) by (simp add: jsint_def)
  show "fq_correlation q = fi_correlation input" "fq_decision q = fi_decision input" using q(2,3) by (simp_all add: parse_wire)
qed

lemma reserve_run:
  assumes "reserveFatigue sv p input w = (Inr r, w')" "normalize_input input = Inr q"
  obtains w1 w2 keep where "fence_call sv (\<lambda>_. Reserve_tx p q) w1 = (Inr (Reserved r keep), w2)"
    "if keep then w' = w2 else (\<exists>u. call_release sv p (ic_turnId (fq_correlation q)) w2 = (Inr u, w'))"
proof -
  let ?reply = "\<lambda>answer. case answer of Reserved result keepLease \<Rightarrow>
      if \<not> keepLease then iobind (call_release sv p (ic_turnId (fq_correlation q))) (\<lambda>_. ioret result) else ioret result
    | _ \<Rightarrow> iothrow (Error ''unexpected answer'')"
  obtain w1 w2 answer where tx: "fence_call sv (\<lambda>_. Reserve_tx p q) w1 = (Inr answer, w2)" and "?reply answer w2 = (Inr r, w')"
    using assms unfolding reserveFatigue_def Let_def by (fastforce simp: io_Inr split: if_splits)
  then show thesis using that [of w1] by (cases answer) (auto simp: io_Inr split: if_splits)
qed

lemma reserve_owns:
  assumes "reserveFatigue sv p input w = (Inr r, w')" "rr_outcome r \<noteq> Reservation_exhausted"
  shows "owns_slot sv w' (fi_correlation input) (fi_decision input) (numval (fi_amount input))"
proof -
  obtain q where q: "normalize_input input = Inr q" using assms(1) by (auto simp: reserveFatigue_def io_Inr)
  let ?turnId = "ic_turnId (fq_correlation q)"
  obtain w1 w2 keep where tx: "fence_call sv (\<lambda>_. Reserve_tx p q) w1 = (Inr (Reserved r keep), w2)"
    and rel: "if keep then w' = w2 else (\<exists>u. call_release sv p ?turnId w2 = (Inr u, w'))"
    using reserve_run [OF assms(1) q] by metis
  obtain s where "fence_step sv (Reserve_tx p q) s = (Inr (Reserved r keep), fw_state w2)"
    using call_events [OF tx] by metis
  then have "reserve_fence_tx sv q s = Inr ((r, keep), fw_state w2)"
    by (auto simp: io_Inr pool_tx_def withPostgresClient_Inr split: if_splits)
  then obtain turn row where row: "sv_uuid sv ?turnId = Some turn" "find_turn turn (fw_state w2) = Some row" "slot_row q row"
    "fr_outcome row \<noteq> Fence_failed" "keep \<longleftrightarrow> fr_outcome row = Fence_pending"
    using reserve_row assms(2) by blast
  obtain row' where row': "find_turn turn (fw_state w') = Some row'" "slot_row q row'" "fr_outcome row' \<noteq> Fence_failed"
  proof (cases keep)
    case True
    then show thesis using that row rel by simp
  next
    case False
    then obtain a where "fence_call sv (\<lambda>(ok, _). Release_lease p ?turnId ok) w2 = (Inr a, w')"
      using rel by (auto simp: call_release_def io_Inr)
    note steps = call_steps [OF this, of turn]
    show thesis
      using that binding_kept [OF steps row(2)] committed_stays [OF steps row(2)] False row(3-5) slot_row_binding by auto
  qed
  have "live_outcome (fr_outcome row')" using row'(3) by (cases "fr_outcome row'") (simp_all add: live_outcome_def)
  then show ?thesis
    using row(1) row'(1,2) normalize_input_Inr [OF q] unfolding owns_slot_def slot_row_def by auto
qed

interpretation fence_slots: slot_port "fence_port sv p" "owns_slot sv" for sv p
  by unfold_locales (simp add: fence_port_def reserve_owns)

section \<open>Regulated turns\<close>

text \<open>
  C7. A charged turn that passes regulation owns what it spends: when the regulation of a turn that records a spend returns,
  either the turn carries no durable reservation, its model call is suppressed and it records no spend, or it goes on to
  spend and, in the shared fence, its turn has a live reservation bound to the same conversation, of the kind and the amount the turn
  will record; other processes may have acted between the calls.
\<close>

theorem regulated_turn_owns_slot:
  assumes "reserveIcpFatigueRegulation (Some (fence_port sv p)) c dec multi policy units now w = (Inr rc, w')"
    "td_shouldRecordSpend dec"
  shows "if rc_durableReservation rc = None
    then td_suppressModel (rc_fatigueDecision rc) \<and> \<not> td_shouldRecordSpend (rc_fatigueDecision rc)
      \<and> ic_fatigueDecision (rc_correlation rc) = Icp_suppress
    else td_shouldRecordSpend (rc_fatigueDecision rc) \<and> \<not> td_suppressModel (rc_fatigueDecision rc)
      \<and> (\<exists>d. em_spendDecision (td_metadata (rc_fatigueDecision rc)) = slot_budget d
          \<and> owns_slot sv w' c d (ev_amount (td_evaluation (rc_fatigueDecision rc))))"
  by (rule fence_slots.regulated_turn [OF assms])

definition wrap_limits :: normal_limits where
  "wrap_limits = \<lparr>nl_softLimit = 1, nl_hardLimit = 1, nl_overchargeLimit = 1\<rparr>"

definition wrap_regulation :: budget_regulation where
  "wrap_regulation = \<lparr>br_rootInitiationId = sample_id CHR ''4'', br_relationshipPressure = 0, br_rootNormalSpent = 0,
     br_rootOverchargeSpent = 0, br_contributingEventCount = 0, br_oldestContributingEventAtMs = None,
     br_latestContributingEventAtMs = None\<rparr>"

definition wrap_evaluation :: budget_evaluation where
  "wrap_evaluation = demo_evaluation\<lparr>ev_timestampMs := Fin 1000,
     ev_stateBefore := createState demo_scope 0 0 wrap_limits (Some wrap_regulation) None,
     ev_stateAfter := createState demo_scope 1 0 wrap_limits (Some wrap_regulation) None\<rparr>"

definition wrap_policy :: fatigue_policy_config where
  "wrap_policy = demo_policy\<lparr>fp_socialRegulation := (fp_socialRegulation demo_policy)\<lparr>sr_relationshipPressureWindowMs := 2000\<rparr>\<rparr>"

definition wrap_turn :: turn_decision where
  "wrap_turn =
     \<lparr>td_metadata = \<lparr>em_decision = Wrap_up_charged, em_modelDisposition = Model_allowed, em_alertInjected = True,
        em_shouldRecordSpend = True, em_spendDecision = Decision_charged, em_spendReason = Reason_machine_intelligence_response,
        em_policyState = State_base Base_wrap_up_allowed, em_policyBaseState = Base_wrap_up_allowed, em_intent = Intent_casual,
        em_relationshipClass = Known_mi, em_channelSetting = Setting_dm, em_overchargeEligible = False,
        em_overchargePermitted = False,
        em_overchargeBlockedReasons = [Blocked_normal_allowance_not_exhausted, Blocked_no_qualifying_overcharge_trigger],
        em_overchargeReasons = [], em_scope = demo_scope, em_peer = demo_peer, em_triggeringAuthor = demo_author,
        em_budget = projected_budget wrap_evaluation 1,
        em_socialRegulation = projectFatigueSocialRegulation wrap_policy Wrap_up_charged Base_wrap_up_allowed Intent_casual None
          False False None (ev_stateBefore wrap_evaluation) 1,
        em_recordedEvent = None\<rparr>,
      td_evaluation = wrap_evaluation, td_suppressModel = False, td_shouldRecordSpend = True\<rparr>"

definition wrap_units :: regulation_units where
  "wrap_units = \<lparr>ru_unansweredInitiationAfterMs = Fin 1000, ru_declinedPressureUnits = Fin 1, ru_deferredPressureUnits = Fin 1,
     ru_unansweredPressureUnits = Fin 1\<rparr>"

definition wrap_world :: fence_world where
  "wrap_world = \<lparr>fw_state = demo_fence, fw_others = [], fw_oracle = []\<rparr>"

lemma positive_integer: "1 \<le> n \<Longrightarrow> n \<le> MAX_SAFE_INTEGER \<Longrightarrow> requirePositiveInteger (Fin (of_int n)) f = Inr n"
  using isSafeInteger_jsint [of n] by (simp add: requirePositiveInteger_def jsint_def intval_def del: isSafeInteger_jsint)

lemma wrap_numbers: "requirePositiveInteger (Fin 1) f = Inr 1" "requirePositiveInteger (Fin 1000) f = Inr 1000"
  "requirePositiveInteger (Fin 2000) f = Inr 2000" "requireNonNegativeFinite (Fin 1) f = Inr 1"
  "requireTimestamp (Fin 1000) f = Inr 1000"
  using positive_integer [of 1 f] positive_integer [of 1000 f] positive_integer [of 2000 f]
  by (simp_all add: MAX_SAFE_INTEGER_def requireNonNegativeFinite_def requirePositiveInteger_def requireTimestamp_def
      split: if_splits)

lemma wrap_input:
  "normalize_input (fence_input demo_correlation (td_evaluation wrap_turn) wrap_policy wrap_units Slot_charged)
     = Inr (demo_request (sample_id CHR ''5''))"
proof -
  have "parseIcpConversationCorrelation (correlation_wire demo_correlation) = Inr demo_correlation"
    using demo_correlation_ok by (simp add: parse_wire)
  moreover have "demo_correlation\<lparr>ic_turnId := sample_id CHR ''5''\<rparr> = demo_correlation" by (simp add: demo_correlation_def)
  ultimately show ?thesis
    by (simp add: normalize_input_def fence_input_def wrap_turn_def wrap_evaluation_def wrap_policy_def wrap_units_def
        demo_policy_def createState_def wrap_limits_def demo_request_def Let_def wrap_numbers demo_evaluation_def)
qed

lemma wrap_reserved:
  "\<exists>w'. reserveFatigue demo_fence_services 0
     (fence_input demo_correlation (td_evaluation wrap_turn) wrap_policy wrap_units Slot_charged) wrap_world
     = (Inr demo_result, w')"
proof -
  let ?t = "sample_id CHR ''5''" let ?q = "demo_request ?t"
  have turn: "ic_turnId (fq_correlation ?q) = ?t" by (simp add: demo_request_def)
  obtain s where lease: "acquireLease demo_fence_services 0 ?t True None demo_fence = (Inr True, s)"
    and state: "fs_rows s = []" "fs_episodes s = [demo_conversation]" "fp_closed (fs_process s 0) = None"
    by (simp add: acquireLease_def demo_fence_def lease_of_def open_lease_def lock_free_def set_process_def)
  obtain s' where "fence_step demo_fence_services (Reserve_tx 0 ?q) s = (Inr (Reserved demo_result True), s')"
    using demo_admitted [of ?t s 0] sample_id_uuids state by (simp add: reclaimed_def find_turn_def)
  then have tx: "fence_call demo_fence_services (\<lambda>_. Reserve_tx 0 ?q) (wrap_world\<lparr>fw_state := s\<rparr>)
      = (Inr (Reserved demo_result True), wrap_world\<lparr>fw_state := s'\<rparr>)"
    by (simp only: fence_call_def) (simp add: wrap_world_def)
  have "fence_call demo_fence_services (\<lambda>(ping, connection). Acquire_lease 0 ?t ping connection) wrap_world
      = (Inr (Created True), wrap_world\<lparr>fw_state := s\<rparr>)"
    using lease by (simp add: fence_call_def wrap_world_def iobind_def ioret_def)
  with tx show ?thesis
    unfolding reserveFatigue_def wrap_input by (simp add: iobind_def iopure_def turn iotry_def ioret_def Let_def)
qed

lemma wrap_settled:
  "\<exists>rc. settle_reservation port demo_correlation wrap_turn wrap_policy now demo_result Slot_charged w = (Inr rc, w)
     \<and> rc_durableReservation rc \<noteq> None"
proof -
  have "\<not> isl (reconcileFatigueWithReservationSnapshot wrap_turn (reservation_result.truncate demo_result) wrap_policy False)"
    by code_simp
  then show ?thesis
    by (auto simp: settle_reservation_def iotry_def iopure_def ioret_def Let_def split: sum.splits)
qed

theorem regulated_turn_owns_slot_witness:
  "\<exists>rc w'. reserveIcpFatigueRegulation (Some (fence_port demo_fence_services 0)) demo_correlation wrap_turn True wrap_policy
       wrap_units (Fin 1000) wrap_world = (Inr rc, w')
     \<and> td_shouldRecordSpend (rc_fatigueDecision rc)
     \<and> (\<exists>d. owns_slot demo_fence_services w' demo_correlation d (ev_amount (td_evaluation (rc_fatigueDecision rc))))"
proof -
  obtain rc w' where run: "reserveIcpFatigueRegulation (Some (fence_port demo_fence_services 0)) demo_correlation wrap_turn True
      wrap_policy wrap_units (Fin 1000) wrap_world = (Inr rc, w')" and kept: "rc_durableReservation rc \<noteq> None"
  proof -
    obtain w1 where "reserveFatigue demo_fence_services 0
        (fence_input demo_correlation (td_evaluation wrap_turn) wrap_policy wrap_units Slot_charged) wrap_world = (Inr demo_result, w1)"
      using wrap_reserved by blast
    moreover have "ev_decision (td_evaluation wrap_turn) = Decision_charged"
      by (simp add: wrap_turn_def wrap_evaluation_def demo_evaluation_def)
    ultimately have "reserve_with_overcharge (fence_port demo_fence_services 0) demo_correlation wrap_turn wrap_policy wrap_units wrap_world
        = (Inr (demo_result, Slot_charged), w1)"
      by (simp add: reserve_with_overcharge_def Let_def fence_port_def iobind_def ioret_def)
    with wrap_settled [of "fence_port demo_fence_services 0" "Fin 1000" w1] that show thesis
      by (auto simp: reserveIcpFatigueRegulation_def wrap_turn_def iobind_def)
  qed
  have "td_shouldRecordSpend wrap_turn" by (simp add: wrap_turn_def)
  from regulated_turn_owns_slot [OF run this] run kept show ?thesis by auto
qed

end
