(* ===== verification/Autonomy_Db.thy ===== *)
theory Autonomy_Db
  imports Icp_Contract
begin

text \<open>
  The shared tables of inter-companion autonomy: availability leases, conversation episodes, dyads, initiation permits,
  dyad deliveries and invalidation fences, with the constraints of
  \<^verbatim>\<open>src/src/persistence/postgres/shared-schema-migrations.ts\<close> and the row mappers of
  \<^verbatim>\<open>src/src/persistence/postgres/icp-shared-autonomy-store.ts\<close>.

  Identifier columns are of type uuid; every identifier an operation passes is a lowercase UUID, whose text, order and
  equality are those of the column, so a column is its text. Integer columns are integers.
\<close>

section \<open>Rows\<close>

datatype dyad_delivery_outcome =
  DyadDelivery_queued | DyadDelivery_delayed | DyadDelivery_delivered | DyadDelivery_ignored | DyadDelivery_declined | DyadDelivery_failed
| DyadDelivery_retrying | DyadDelivery_duplicate | DyadDelivery_suppressed

record dyad_delivery =
  dd_deliveryId :: string
  dd_dyadId :: string
  dd_conversationId :: string
  dd_senderCompanionId :: string
  dd_recipientCompanionId :: string
  dd_outcome :: dyad_delivery_outcome
  dd_createdAtMs :: int
  dd_updatedAtMs :: int
  dd_attempt :: int
  dd_gatewayMessageId :: "string option"
  dd_reasonCode :: "string option"
  dd_dyadLifecycleRevision :: int
  dd_revision :: int

text \<open>A conversation row is an episode with the dyad it belongs to.\<close>

record conversation_row = conversation_episode +
  er_dyadId :: "string option"

text \<open>The row of a dyad; the retired columns \<^verbatim>\<open>closed_at_ms\<close> and \<^verbatim>\<open>close_reason_code\<close> are always null.\<close>

record dyad_row =
  dr_dyadId :: string
  dr_channelId :: string
  dr_first :: string
  dr_second :: string
  dr_status :: dyad_status
  dr_firstState :: dyad_relationship
  dr_secondState :: dyad_relationship
  dr_firstBlocked :: bool
  dr_secondBlocked :: bool
  dr_firstUpdatedAtMs :: int
  dr_secondUpdatedAtMs :: int
  dr_lifecycleRevision :: int
  dr_createdAtMs :: int
  dr_provenance :: "string list"
  dr_revision :: int

record invalidation_row =
  iv_companionId :: string
  iv_generation :: int
  iv_invalidatedAtMs :: "int option"
  iv_lastReasonCode :: "string option"
  iv_lifecycleFenced :: bool

record autonomy_db =
  au_availability :: "availability_lease list"
  au_episodes :: "conversation_row list"
  au_dyads :: "dyad_row list"
  au_permits :: "initiation_permit list"
  au_deliveries :: "dyad_delivery list"
  au_fences :: "invalidation_row list"

section \<open>Constraints\<close>

definition availability_row_ok :: "availability_lease \<Rightarrow> bool" where
  "availability_row_ok l \<longleftrightarrow> al_issuedAtMs l \<ge> 0 \<and> al_expiresAtMs l > al_issuedAtMs l \<and> al_revision l \<ge> 1"

definition episode_row_ok :: "conversation_row \<Rightarrow> bool" where
  "episode_row_ok e \<longleftrightarrow> cv_openedAtMs e \<ge> 0 \<and> cv_lastActivityAtMs e \<ge> cv_openedAtMs e \<and> cv_revision e \<ge> 1
     \<and> length (cv_participantCompanionIds e) \<ge> 2 \<and> cv_initiatedByCompanionId e \<in> set (cv_participantCompanionIds e)"

definition permit_row_ok :: "initiation_permit \<Rightarrow> bool" where
  "permit_row_ok p \<longleftrightarrow> ip_issuedAtMs p \<ge> 0 \<and> ip_expiresAtMs p > ip_issuedAtMs p \<and> ip_revision p \<ge> 1
     \<and> ip_senderCompanionId p \<noteq> ip_recipientCompanionId p
     \<and> (ip_status p = Permit_consumed) = (ip_consumedAtMs p \<noteq> None)
     \<and> (ip_status p = Permit_revoked) = (ip_revokedAtMs p \<noteq> None)
     \<and> (case ip_consumedAtMs p of None \<Rightarrow> True | Some t \<Rightarrow> t \<ge> ip_issuedAtMs p \<and> t < ip_expiresAtMs p)
     \<and> (case ip_revokedAtMs p of None \<Rightarrow> True | Some t \<Rightarrow> t \<ge> ip_issuedAtMs p)"

definition dyad_row_ok :: "dyad_row \<Rightarrow> bool" where
  "dyad_row_ok d \<longleftrightarrow> dr_createdAtMs d \<ge> 0 \<and> dr_revision d \<ge> 1 \<and> dr_first d < dr_second d
     \<and> dr_channelId d = ''companion-dm:'' @ dr_first d @ '':'' @ dr_second d \<and> dr_provenance d \<noteq> []
     \<and> dr_firstUpdatedAtMs d \<ge> dr_createdAtMs d \<and> dr_secondUpdatedAtMs d \<ge> dr_createdAtMs d \<and> dr_lifecycleRevision d \<ge> 1
     \<and> dr_status d = (if dr_firstBlocked d \<or> dr_secondBlocked d then Dyad_blocked
         else if dr_firstState d = Relationship_closed \<or> dr_secondState d = Relationship_closed then Dyad_closed
         else if dr_firstState d = Relationship_paused \<or> dr_secondState d = Relationship_paused then Dyad_paused
         else Dyad_open)"

definition with_receipt :: "dyad_delivery_outcome \<Rightarrow> bool" where
  "with_receipt outcome \<longleftrightarrow> outcome = DyadDelivery_delivered \<or> outcome = DyadDelivery_duplicate"

definition delivery_row_ok :: "dyad_delivery \<Rightarrow> bool" where
  "delivery_row_ok d \<longleftrightarrow> dd_createdAtMs d \<ge> 0 \<and> dd_updatedAtMs d \<ge> dd_createdAtMs d \<and> dd_attempt d \<ge> 0 \<and> dd_revision d \<ge> 1
     \<and> dd_senderCompanionId d \<noteq> dd_recipientCompanionId d \<and> with_receipt (dd_outcome d) = (dd_gatewayMessageId d \<noteq> None)
     \<and> dd_dyadLifecycleRevision d \<ge> 1"

definition invalidation_row_ok :: "invalidation_row \<Rightarrow> bool" where
  "invalidation_row_ok f \<longleftrightarrow> iv_generation f \<ge> 0 \<and> (iv_generation f = 0) = (iv_invalidatedAtMs f = None)
     \<and> (iv_generation f = 0) = (iv_lastReasonCode f = None)
     \<and> (case iv_invalidatedAtMs f of None \<Rightarrow> True | Some t \<Rightarrow> t \<ge> 0) \<and> (iv_lifecycleFenced f \<longrightarrow> iv_generation f > 0)"

definition pair_key :: "string \<Rightarrow> string \<Rightarrow> string \<times> string" where
  "pair_key a b = (min a b, max a b)"

definition permit_pair :: "initiation_permit \<Rightarrow> string \<times> string" where
  "permit_pair p = pair_key (ip_senderCompanionId p) (ip_recipientCompanionId p)"

definition outstanding :: "initiation_permit list \<Rightarrow> initiation_permit list" where
  "outstanding permits = filter (\<lambda>p. ip_status p = Permit_issued) permits"

definition keys_unique :: "autonomy_db \<Rightarrow> bool" where
  "keys_unique db \<longleftrightarrow> distinct (map al_companionId (au_availability db)) \<and> distinct (map cv_conversationId (au_episodes db))
     \<and> distinct (map dr_dyadId (au_dyads db)) \<and> distinct (map dr_channelId (au_dyads db))
     \<and> distinct (map (\<lambda>d. (dr_first d, dr_second d)) (au_dyads db))
     \<and> distinct (map ip_permitId (au_permits db)) \<and> distinct (map ip_candidateId (au_permits db))
     \<and> distinct (map permit_pair (outstanding (au_permits db)))
     \<and> distinct (map dd_deliveryId (au_deliveries db)) \<and> distinct (map iv_companionId (au_fences db))"

definition references_ok :: "autonomy_db \<Rightarrow> bool" where
  "references_ok db \<longleftrightarrow>
     list_all (\<lambda>p. ip_conversationId p \<in> set (map cv_conversationId (au_episodes db))) (au_permits db)
     \<and> list_all (\<lambda>e. case er_dyadId e of None \<Rightarrow> True | Some d \<Rightarrow> d \<in> set (map dr_dyadId (au_dyads db))) (au_episodes db)
     \<and> list_all (\<lambda>d. dd_dyadId d \<in> set (map dr_dyadId (au_dyads db))
         \<and> dd_conversationId d \<in> set (map cv_conversationId (au_episodes db))) (au_deliveries db)"

definition autonomy_ok :: "autonomy_db \<Rightarrow> bool" where
  "autonomy_ok db \<longleftrightarrow> list_all availability_row_ok (au_availability db) \<and> list_all episode_row_ok (au_episodes db)
     \<and> list_all dyad_row_ok (au_dyads db) \<and> list_all permit_row_ok (au_permits db)
     \<and> list_all delivery_row_ok (au_deliveries db) \<and> list_all invalidation_row_ok (au_fences db)
     \<and> keys_unique db \<and> references_ok db"

text \<open>A statement of a transaction, refused when a constraint fails after it.\<close>

definition statement :: "(autonomy_db \<Rightarrow> autonomy_db) \<Rightarrow> (autonomy_db, unit) tx" where
  "statement = txexec autonomy_ok"

section \<open>Mapping rows\<close>

definition wire_int :: "int \<Rightarrow> wire" where
  "wire_int i = Wire_number (jsint i)"

definition optional_int :: "string \<Rightarrow> int option \<Rightarrow> (string \<times> wire) list" where
  "optional_int key v = (case v of None \<Rightarrow> [] | Some i \<Rightarrow> [(key, wire_int i)])"

definition wire_strings :: "string list \<Rightarrow> wire" where
  "wire_strings xs = Wire_array (map Wire_string xs)"

definition mapAvailability :: "availability_lease \<Rightarrow> availability_lease result" where
  "mapAvailability row =
     rbind (requireSafeInteger (al_issuedAtMs row) ''availability.issuedAtMs'') (\<lambda>issuedAtMs.
     rbind (requireSafeInteger (al_expiresAtMs row) ''availability.expiresAtMs'') (\<lambda>expiresAtMs.
     rbind (requireSafeInteger (al_revision row) ''availability.revision'') (\<lambda>revision.
     parseIcpAvailabilityLease (Wire_object
       [(''companionId'', Wire_string (al_companionId row)),
        (''state'', Wire_string (enum_name ICP_AVAILABILITY_STATES (al_state row))),
        (''issuedAtMs'', wire_int issuedAtMs), (''expiresAtMs'', wire_int expiresAtMs),
        (''source'', Wire_string (enum_name ICP_AVAILABILITY_SOURCES (al_source row))),
        (''revision'', wire_int revision)]) None)))"

definition mapConversation :: "string list \<Rightarrow> conversation_row \<Rightarrow> conversation_episode result" where
  "mapConversation known row =
     rbind (requireSafeInteger (cv_openedAtMs row) ''episode.openedAtMs'') (\<lambda>openedAtMs.
     rbind (requireSafeInteger (cv_lastActivityAtMs row) ''episode.lastActivityAtMs'') (\<lambda>lastActivityAtMs.
     rbind (requireSafeInteger (cv_revision row) ''episode.revision'') (\<lambda>revision.
     parseIcpConversationEpisode (Wire_object (
       [(''conversationId'', Wire_string (cv_conversationId row)), (''channelId'', Wire_string (cv_channelId row)),
        (''participantCompanionIds'', wire_strings (cv_participantCompanionIds row)),
        (''rootInitiationId'', Wire_string (cv_rootInitiationId row)),
        (''initiatedByCompanionId'', Wire_string (cv_initiatedByCompanionId row)),
        (''initiationSource'', Wire_string (enum_name ICP_INITIATION_SOURCES (cv_initiationSource row))),
        (''provenanceRef'', Wire_string (cv_provenanceRef row)), (''openedAtMs'', wire_int openedAtMs),
        (''lastActivityAtMs'', wire_int lastActivityAtMs),
        (''status'', Wire_string (enum_name ICP_CONVERSATION_STATUSES (cv_status row)))]
       @ optional_member ''closeReasonCode'' (cv_closeReasonCode row) @ [(''revision'', wire_int revision)])) (Some known))))"

definition state_wire :: "string \<Rightarrow> dyad_relationship \<Rightarrow> bool \<Rightarrow> int \<Rightarrow> wire" where
  "state_wire companion state blocked updatedAtMs = Wire_object
     [(''companionId'', Wire_string companion),
      (''relationshipState'', Wire_string (enum_name ICP_DYAD_RELATIONSHIP_STATES state)),
      (''blocked'', Wire_bool blocked), (''updatedAtMs'', wire_int updatedAtMs)]"

definition mapDyad :: "string list \<Rightarrow> dyad_row \<Rightarrow> icp_dyad result" where
  "mapDyad known row =
     rbind (requireSafeInteger (dr_firstUpdatedAtMs row) ''dyad.firstStateUpdatedAtMs'') (\<lambda>firstUpdatedAtMs.
     rbind (requireSafeInteger (dr_secondUpdatedAtMs row) ''dyad.secondStateUpdatedAtMs'') (\<lambda>secondUpdatedAtMs.
     rbind (requireSafeInteger (dr_createdAtMs row) ''dyad.createdAtMs'') (\<lambda>createdAtMs.
     rbind (requireSafeInteger (dr_lifecycleRevision row) ''dyad.lifecycleRevision'') (\<lambda>lifecycleRevision.
     rbind (requireSafeInteger (dr_revision row) ''dyad.revision'') (\<lambda>revision.
     parseIcpDyad (Wire_object
       [(''dyadId'', Wire_string (dr_dyadId row)), (''channelId'', Wire_string (dr_channelId row)),
        (''participantCompanionIds'', wire_strings [dr_first row, dr_second row]),
        (''status'', Wire_string (enum_name ICP_DYAD_STATUSES (dr_status row))),
        (''participantStates'', Wire_array
          [state_wire (dr_first row) (dr_firstState row) (dr_firstBlocked row) firstUpdatedAtMs,
           state_wire (dr_second row) (dr_secondState row) (dr_secondBlocked row) secondUpdatedAtMs]),
        (''createdAtMs'', wire_int createdAtMs), (''provenanceConversationIds'', wire_strings (dr_provenance row)),
        (''lifecycleRevision'', wire_int lifecycleRevision), (''revision'', wire_int revision)]) (Some known))))))"

definition mapPermit :: "initiation_permit \<Rightarrow> initiation_permit result" where
  "mapPermit row =
     rbind (requireSafeInteger (ip_issuedAtMs row) ''permit.issuedAtMs'') (\<lambda>issuedAtMs.
     rbind (requireSafeInteger (ip_expiresAtMs row) ''permit.expiresAtMs'') (\<lambda>expiresAtMs.
     rbind (case ip_consumedAtMs row of None \<Rightarrow> Inr None
            | Some t \<Rightarrow> rbind (requireSafeInteger t ''permit.consumedAtMs'') (\<lambda>t. Inr (Some t))) (\<lambda>consumedAtMs.
     rbind (case ip_revokedAtMs row of None \<Rightarrow> Inr None
            | Some t \<Rightarrow> rbind (requireSafeInteger t ''permit.revokedAtMs'') (\<lambda>t. Inr (Some t))) (\<lambda>revokedAtMs.
     rbind (requireSafeInteger (ip_revision row) ''permit.revision'') (\<lambda>revision.
     parseIcpInitiationPermit (Wire_object (
       [(''permitId'', Wire_string (ip_permitId row)), (''candidateId'', Wire_string (ip_candidateId row)),
        (''conversationId'', Wire_string (ip_conversationId row)),
        (''senderCompanionId'', Wire_string (ip_senderCompanionId row)),
        (''recipientCompanionId'', Wire_string (ip_recipientCompanionId row)),
        (''channelId'', Wire_string (ip_channelId row)), (''provenanceRef'', Wire_string (ip_provenanceRef row)),
        (''issuedAtMs'', wire_int issuedAtMs), (''expiresAtMs'', wire_int expiresAtMs),
        (''status'', Wire_string (enum_name ICP_PERMIT_STATUSES (ip_status row)))]
       @ optional_int ''consumedAtMs'' consumedAtMs @ optional_int ''revokedAtMs'' revokedAtMs
       @ optional_member ''reasonCode'' (ip_reasonCode row) @ [(''revision'', wire_int revision)])) None)))))"

definition requireUuidText :: "string \<Rightarrow> string \<Rightarrow> string result" where
  "requireUuidText value field = requireUuidValue (Wire_string value) field"

definition requireReasonCode :: "string \<Rightarrow> string \<Rightarrow> string result" where
  "requireReasonCode value field =
     throwIf (value \<notin> set ICP_AUTONOMY_REASON_CODES) (field @ '' is not a known ICP reason code'') (Inr value)"

text \<open>An empty receipt counts as none.\<close>

definition trimmed_receipt :: "string option \<Rightarrow> string option" where
  "trimmed_receipt v = (case v of None \<Rightarrow> None | Some s \<Rightarrow> if js_trim s = [] then None else Some (js_trim s))"

definition mapDyadDelivery :: "dyad_delivery \<Rightarrow> dyad_delivery result" where
  "mapDyadDelivery row =
     (let gatewayMessageId = trimmed_receipt (dd_gatewayMessageId row) in
     throwIf (with_receipt (dd_outcome row) \<noteq> (gatewayMessageId \<noteq> None))
       ''ICP dyad delivery gateway receipt does not match its outcome'' (
     rbind (requireUuidText (dd_deliveryId row) ''dyadDelivery.deliveryId'') (\<lambda>_.
     rbind (requireUuidText (dd_dyadId row) ''dyadDelivery.dyadId'') (\<lambda>_.
     rbind (requireUuidText (dd_conversationId row) ''dyadDelivery.conversationId'') (\<lambda>_.
     rbind (requireUuidText (dd_senderCompanionId row) ''dyadDelivery.senderCompanionId'') (\<lambda>_.
     rbind (requireUuidText (dd_recipientCompanionId row) ''dyadDelivery.recipientCompanionId'') (\<lambda>_.
     rbind (requireSafeInteger (dd_createdAtMs row) ''dyadDelivery.createdAtMs'') (\<lambda>_.
     rbind (requireSafeInteger (dd_updatedAtMs row) ''dyadDelivery.updatedAtMs'') (\<lambda>_.
     rbind (requireSafeInteger (dd_attempt row) ''dyadDelivery.attempt'') (\<lambda>_.
     rbind (case dd_reasonCode row of None \<Rightarrow> Inr None
            | Some r \<Rightarrow> rbind (requireReasonCode r ''dyadDelivery.reasonCode'') (\<lambda>r. Inr (Some r))) (\<lambda>_.
     rbind (requireSafeInteger (dd_dyadLifecycleRevision row) ''dyadDelivery.dyadLifecycleRevision'') (\<lambda>_.
     rbind (requireSafeInteger (dd_revision row) ''dyadDelivery.revision'') (\<lambda>_.
     Inr (row\<lparr>dd_gatewayMessageId := gatewayMessageId\<rparr>))))))))))))))"

text \<open>Mapping every row of a result, failing at the first that fails.\<close>

fun map_rows :: "('r \<Rightarrow> 'a result) \<Rightarrow> 'r list \<Rightarrow> 'a list result" where
  "map_rows f [] = Inr []"
| "map_rows f (r # rs) = rbind (f r) (\<lambda>x. rbind (map_rows f rs) (\<lambda>xs. Inr (x # xs)))"

end
