(* ===== verification/Autonomy_Store.thy ===== *)
theory Autonomy_Store
  imports Autonomy_Db "HOL-Library.Product_Lexorder"
begin

text \<open>
  The shared store of inter-companion autonomy (\<^verbatim>\<open>src/src/persistence/postgres/icp-shared-autonomy-store.ts\<close>):
  availability leases, conversation episodes and their dyads, single-use initiation permits guarded by the
  invalidation fences of both companions, dyad lifecycles and deliveries.

  A transaction of the store is one step of the shared database: every transaction that decides on a fence or a dyad
  holds the row lock of it, and the single statements re-check their conditions on the locked row. A statement
  outside a transaction commits before its row is mapped, so a mapping that throws leaves it done. The set of known
  companions is fixed for a store object; arguments that an operation parses are untrusted values (\<open>wire\<close>).
\<close>

section \<open>Statements outside a transaction\<close>

definition autocommit :: "(autonomy_db, 'a) tx \<Rightarrow> (autonomy_db, 'a) io" where
  "autocommit = withPostgresClient"

section \<open>Availability\<close>

fun source_priority :: "availability_source \<Rightarrow> nat" where
  "source_priority Source_runtime = 1"
| "source_priority Source_companion = 2"
| "source_priority Source_operator = 3"

text \<open>
  When the published lease may replace the current one: it follows it and is not outranked while the current one
  lasts, or it has the same revision and outranks it.
\<close>

definition replaces :: "availability_lease \<Rightarrow> availability_lease \<Rightarrow> bool" where
  "replaces lease current \<longleftrightarrow>
     al_revision current + 1 = al_revision lease
       \<and> (al_expiresAtMs current \<le> al_issuedAtMs lease \<or> source_priority (al_source lease) \<ge> source_priority (al_source current))
     \<or> al_revision current = al_revision lease \<and> source_priority (al_source lease) > source_priority (al_source current)"

definition published :: "availability_lease \<Rightarrow> availability_lease \<Rightarrow> availability_lease" where
  "published lease current =
     lease\<lparr>al_revision := if al_revision current = al_revision lease then al_revision current + 1 else al_revision lease\<rparr>"

text \<open>\<^verbatim>\<open>PUBLISH_AVAILABILITY_SQL\<close>: the row it returns, if any.\<close>

definition publish_sql :: "availability_lease \<Rightarrow> (autonomy_db, availability_lease option) tx" where
  "publish_sql lease =
     txbind (txget (\<lambda>db. find (\<lambda>l. al_companionId l = al_companionId lease) (au_availability db))) (\<lambda>found.
     case found of
       None \<Rightarrow>
         if al_revision lease = 1
         then txbind (statement (\<lambda>db. db\<lparr>au_availability := au_availability db @ [lease]\<rparr>)) (\<lambda>_. txret (Some lease))
         else txret None
     | Some current \<Rightarrow>
         if replaces lease current
         then txbind (statement (\<lambda>db. db\<lparr>au_availability :=
                update_where (\<lambda>l. al_companionId l = al_companionId lease) (\<lambda>_. published lease current) (au_availability db)\<rparr>))
                (\<lambda>_. txret (Some (published lease current)))
         else txret None)"

definition revision_conflict :: "availability_lease \<Rightarrow> string" where
  "revision_conflict lease = ''ICP availability revision conflict for '' @ al_companionId lease"

definition publishAvailability :: "wire \<Rightarrow> (autonomy_db, availability_lease) io" where
  "publishAvailability leaseInput =
     iobind (iopure (parseIcpAvailabilityLease leaseInput None)) (\<lambda>lease.
     iobind (autocommit (publish_sql lease)) (\<lambda>row.
     case row of None \<Rightarrow> iothrow (Error (revision_conflict lease)) | Some r \<Rightarrow> iopure (mapAvailability r)))"

definition getAvailability :: "string \<Rightarrow> autonomy_db \<Rightarrow> availability_lease option result" where
  "getAvailability companionId db =
     rbind (requireUuidText companionId ''companionId'') (\<lambda>i.
     case find (\<lambda>l. al_companionId l = i) (au_availability db) of
       None \<Rightarrow> Inr None
     | Some row \<Rightarrow> rbind (mapAvailability row) (\<lambda>l. Inr (Some l)))"

text \<open>\<^verbatim>\<open>CLEAR_AVAILABILITY_SQL\<close>: whether a row was deleted.\<close>

definition clear_sql :: "string \<Rightarrow> int \<Rightarrow> availability_source \<Rightarrow> int \<Rightarrow> (autonomy_db, bool) tx" where
  "clear_sql companionId expectedRevision source nowMs =
     (let doomed = (\<lambda>l. al_companionId l = companionId \<and> al_revision l = expectedRevision
        \<and> (al_expiresAtMs l \<le> nowMs \<or> source_priority source \<ge> source_priority (al_source l))) in
      txbind (txget (\<lambda>db. list_ex doomed (au_availability db))) (\<lambda>cleared.
      txbind (statement (\<lambda>db. db\<lparr>au_availability := filter (\<lambda>l. \<not> doomed l) (au_availability db)\<rparr>)) (\<lambda>_. txret cleared)))"

definition requirePositiveSafeInteger :: "jsnum \<Rightarrow> string \<Rightarrow> int result" where
  "requirePositiveSafeInteger value field =
     (if \<not> isSafeInteger value \<or> numval value < 1 then Inl (Error (field @ '' must be a positive safe integer''))
      else Inr (intval value))"

definition clearAvailability :: "string \<Rightarrow> jsnum \<Rightarrow> availability_source \<Rightarrow> jsnum \<Rightarrow> (autonomy_db, bool) io" where
  "clearAvailability companionId expectedRevision source nowMs =
     iobind (iopure (requireUuidText companionId ''companionId'')) (\<lambda>i.
     iobind (iopure (requirePositiveSafeInteger expectedRevision ''expectedRevision'')) (\<lambda>revision.
     iobind (iopure (requireTimestamp nowMs ''nowMs'')) (\<lambda>now.
     autocommit (clear_sql i revision source now))))"

section \<open>Invalidation fences\<close>

definition find_fence :: "string \<Rightarrow> autonomy_db \<Rightarrow> invalidation_row option" where
  "find_fence companionId db = find (\<lambda>f. iv_companionId f = companionId) (au_fences db)"

definition touches :: "string \<Rightarrow> initiation_permit \<Rightarrow> bool" where
  "touches companionId p \<longleftrightarrow> ip_senderCompanionId p = companionId \<or> ip_recipientCompanionId p = companionId"

definition revoked :: "int \<Rightarrow> string \<Rightarrow> initiation_permit \<Rightarrow> initiation_permit" where
  "revoked revokedAtMs reasonCode p = p\<lparr>ip_status := Permit_revoked, ip_revokedAtMs := Some (max revokedAtMs (ip_issuedAtMs p)),
     ip_reasonCode := Some reasonCode, ip_revision := ip_revision p + 1\<rparr>"

text \<open>Revoking every issued permit that a condition selects; the revoked rows are returned.\<close>

definition revoke_where :: "(autonomy_db \<Rightarrow> initiation_permit \<Rightarrow> bool) \<Rightarrow> int \<Rightarrow> string \<Rightarrow> (autonomy_db, initiation_permit list) tx" where
  "revoke_where P revokedAtMs reasonCode =
     txbind (txget (\<lambda>db. filter (\<lambda>p. ip_status p = Permit_issued \<and> P db p) (au_permits db))) (\<lambda>doomed.
     txbind (statement (\<lambda>db. db\<lparr>au_permits :=
        update_where (\<lambda>p. ip_status p = Permit_issued \<and> P db p) (revoked revokedAtMs reasonCode) (au_permits db)\<rparr>)) (\<lambda>_.
     txpure (map_rows mapPermit (map (revoked revokedAtMs reasonCode) doomed))))"

definition invalidateCompanion :: "string \<Rightarrow> int \<Rightarrow> string \<Rightarrow> (autonomy_db, initiation_permit list) tx" where
  "invalidateCompanion companionId revokedAtMs reasonCode =
     txbind (txget (find_fence companionId)) (\<lambda>fence.
     txbind (statement (\<lambda>db. db\<lparr>au_fences := update_where (\<lambda>f. iv_companionId f = companionId)
        (\<lambda>f. f\<lparr>iv_generation := iv_generation f + 1, iv_invalidatedAtMs := Some revokedAtMs,
               iv_lastReasonCode := Some reasonCode\<rparr>) (au_fences db)\<rparr>)) (\<lambda>_.
     if fence = None then txthrow (''ICP invalidation fence missing companion '' @ companionId)
     else revoke_where (\<lambda>_. touches companionId) revokedAtMs reasonCode))"

definition publishAvailabilityAndInvalidate ::
  "wire \<Rightarrow> string \<Rightarrow> (autonomy_db, availability_lease \<times> initiation_permit list) io" where
  "publishAvailabilityAndInvalidate leaseInput reasonCodeInput =
     iobind (iopure (parseIcpAvailabilityLease leaseInput None)) (\<lambda>lease.
     iobind (iopure (requireReasonCode reasonCodeInput ''reasonCode'')) (\<lambda>reasonCode.
     withPostgresClient (
       txbind (invalidateCompanion (al_companionId lease) (al_issuedAtMs lease) reasonCode) (\<lambda>revokedPermits.
       txbind (publish_sql lease) (\<lambda>row.
       case row of
         None \<Rightarrow> txthrow (revision_conflict lease)
       | Some r \<Rightarrow> txbind (txpure (mapAvailability r)) (\<lambda>l. txret (l, revokedPermits)))))))"

definition clearAvailabilityAndInvalidate ::
  "string \<Rightarrow> jsnum \<Rightarrow> availability_source \<Rightarrow> jsnum \<Rightarrow> string \<Rightarrow> (autonomy_db, bool \<times> initiation_permit list) io" where
  "clearAvailabilityAndInvalidate companionId expectedRevision source nowMs reasonCodeInput =
     iobind (iopure (requireUuidText companionId ''companionId'')) (\<lambda>i.
     iobind (iopure (requirePositiveSafeInteger expectedRevision ''expectedRevision'')) (\<lambda>revision.
     iobind (iopure (requireTimestamp nowMs ''nowMs'')) (\<lambda>now.
     iobind (iopure (requireReasonCode reasonCodeInput ''reasonCode'')) (\<lambda>reasonCode.
     withPostgresClient (
       txbind (txget (find_fence i)) (\<lambda>fence.
       if fence = None then txthrow (''ICP invalidation fence missing companion '' @ i)
       else txbind (clear_sql i revision source now) (\<lambda>cleared.
         if \<not> cleared then txret (False, [])
         else txbind (invalidateCompanion i now reasonCode) (\<lambda>revokedPermits. txret (True, revokedPermits)))))))))"

text \<open>The fence a caller captured: both companions with their generations, and the lifecycle of their dyad.\<close>

record autonomy_fence =
  af_companions :: "(string \<times> jsnum) list"
  af_dyadLifecycle :: "(string \<times> jsnum) option"

record checked_fence =
  cf_companions :: "(string \<times> int) list"
  cf_dyadLifecycle :: "(string \<times> int) option"

definition requireNonNegativeSafeInteger :: "jsnum \<Rightarrow> string \<Rightarrow> int result" where
  "requireNonNegativeSafeInteger value field =
     (if \<not> isSafeInteger value \<or> numval value < 0 then Inl (Error (field @ '' must be a non-negative safe integer''))
      else Inr (intval value))"

definition require_entry :: "nat \<times> string \<times> jsnum \<Rightarrow> (string \<times> int) result" where
  "require_entry entry =
     (case entry of (index, companionId, generation) \<Rightarrow>
      let path = ''expectedInvalidationFence.companions['' @ decimal index @ '']'' in
      rbind (requireUuidText companionId (path @ ''.companionId'')) (\<lambda>companionId.
      rbind (requireNonNegativeSafeInteger generation (path @ ''.generation'')) (\<lambda>generation.
      Inr (companionId, generation))))"

definition normalizeFence :: "autonomy_fence \<Rightarrow> string \<Rightarrow> string \<Rightarrow> checked_fence result" where
  "normalizeFence input firstCompanionId secondCompanionId =
     rbind (requireUuidText firstCompanionId ''firstCompanionId'') (\<lambda>_.
     rbind (requireUuidText secondCompanionId ''secondCompanionId'') (\<lambda>_.
     throwIf (firstCompanionId = secondCompanionId) ''Invalidation fence requires distinct companions'' (
     throwIf (length (af_companions input) \<noteq> 2) ''expectedInvalidationFence must contain exactly two companions'' (
     rbind (map_rows require_entry (List.enumerate 0 (af_companions input))) (\<lambda>unsorted.
     let entries = sort_key fst unsorted in
     throwIf (map fst entries \<noteq> sort [firstCompanionId, secondCompanionId])
       ''expectedInvalidationFence does not match permit participants'' (
     rbind (case af_dyadLifecycle input of
              None \<Rightarrow> Inr None
            | Some (dyadId, revision) \<Rightarrow>
                rbind (requireUuidText dyadId ''expectedInvalidationFence.dyadLifecycle.dyadId'') (\<lambda>dyadId.
                rbind (requirePositiveSafeInteger revision ''expectedInvalidationFence.dyadLifecycle.revision'') (\<lambda>revision.
                Inr (Some (dyadId, revision))))) (\<lambda>dyadLifecycle.
     Inr \<lparr>cf_companions = entries, cf_dyadLifecycle = dyadLifecycle\<rparr>)))))))"

fun fenceConflictReason :: "(string \<times> int) list \<Rightarrow> invalidation_row list \<Rightarrow> string option result" where
  "fenceConflictReason [] rows = Inr None"
| "fenceConflictReason ((companionId, generation) # entries) rows =
     (case find (\<lambda>r. iv_companionId r = companionId) rows of
        None \<Rightarrow> Inl (Error (''ICP invalidation fence missing companion '' @ companionId))
      | Some current \<Rightarrow>
          if iv_generation current = generation then fenceConflictReason entries rows
          else case iv_lastReasonCode current of
                 Some reason \<Rightarrow> if reason \<in> set ICP_AUTONOMY_REASON_CODES then Inr (Some reason)
                   else Inl (Error (''ICP invalidation fence has invalid reason for '' @ companionId))
               | None \<Rightarrow> Inl (Error (''ICP invalidation fence has invalid reason for '' @ companionId)))"

definition find_pair_dyad :: "string \<Rightarrow> string \<Rightarrow> autonomy_db \<Rightarrow> dyad_row option" where
  "find_pair_dyad a b db = find (\<lambda>d. dr_first d = min a b \<and> dr_second d = max a b) (au_dyads db)"

definition lockInvalidationFence ::
  "autonomy_fence \<Rightarrow> string \<Rightarrow> string \<Rightarrow> bool \<Rightarrow> autonomy_db \<Rightarrow> string option result" where
  "lockInvalidationFence expectedInput firstCompanionId secondCompanionId enforceDyadLifecycle db =
     rbind (normalizeFence expectedInput firstCompanionId secondCompanionId) (\<lambda>expected.
     let rows = filter (\<lambda>r. iv_companionId r \<in> set (map fst (cf_companions expected))) (au_fences db) in
     throwIf (length rows \<noteq> 2) ''ICP invalidation fence is missing a companion row'' (
     if list_ex iv_lifecycleFenced rows then Inr (Some ''unknown_participant'')
     else rbind (map_rows (\<lambda>r. requireSafeInteger (iv_generation r) ''invalidationFence.generation'') rows) (\<lambda>_.
     rbind (fenceConflictReason (cf_companions expected) rows) (\<lambda>companionReason.
     if companionReason \<noteq> None \<or> \<not> enforceDyadLifecycle then Inr companionReason
     else case (find_pair_dyad firstCompanionId secondCompanionId db, cf_dyadLifecycle expected) of
            (None, None) \<Rightarrow> Inr None
          | (Some current, Some (dyadId, revision)) \<Rightarrow>
              if dr_dyadId current \<noteq> dyadId then Inr (Some ''dyad_stale_revision'')
              else rbind (requireSafeInteger (dr_lifecycleRevision current) ''dyadLifecycle.revision'') (\<lambda>actual.
                Inr (if actual \<noteq> revision then Some ''dyad_stale_revision'' else None))
          | _ \<Rightarrow> Inr (Some ''dyad_stale_revision'')))))"

text \<open>
  \<^verbatim>\<open>captureInvalidationFence\<close> reads the fences and then the dyad, in two statements: the second may see a later state.
\<close>

definition captureInvalidationFence :: "string \<Rightarrow> string \<Rightarrow> autonomy_db \<Rightarrow> autonomy_db \<Rightarrow> autonomy_fence result" where
  "captureInvalidationFence firstCompanionId secondCompanionId db later =
     rbind (requireUuidText firstCompanionId ''firstCompanionId'') (\<lambda>a.
     rbind (requireUuidText secondCompanionId ''secondCompanionId'') (\<lambda>b.
     throwIf (a = b) ''Invalidation fence requires distinct companions'' (
     let rows = sort_key iv_companionId (filter (\<lambda>r. iv_companionId r = a \<or> iv_companionId r = b) (au_fences db)) in
     throwIf (length rows \<noteq> 2) ''ICP invalidation fence is missing a companion row'' (
     rbind (map_rows (\<lambda>r. rbind (requireUuidText (iv_companionId r) ''invalidationFence.companionId'') (\<lambda>i.
              rbind (requireSafeInteger (iv_generation r) ''invalidationFence.generation'') (\<lambda>g. Inr (i, jsint g)))) rows) (\<lambda>companions.
     case find_pair_dyad a b later of
       None \<Rightarrow> Inr \<lparr>af_companions = companions, af_dyadLifecycle = None\<rparr>
     | Some d \<Rightarrow>
         rbind (requireUuidText (dr_dyadId d) ''dyadLifecycle.dyadId'') (\<lambda>dyadId.
         rbind (requireSafeInteger (dr_lifecycleRevision d) ''dyadLifecycle.revision'') (\<lambda>revision.
         Inr \<lparr>af_companions = companions, af_dyadLifecycle = Some (dyadId, jsint revision)\<rparr>)))))))"

section \<open>Lifecycle admission\<close>

definition setLifecycleAdmissionTx :: "string \<Rightarrow> bool \<Rightarrow> int \<Rightarrow> string \<Rightarrow> (autonomy_db, bool \<times> initiation_permit list) tx" where
  "setLifecycleAdmissionTx companionId lifecycleFenced nowMs reasonCode =
     txbind (statement (\<lambda>db. if find_fence companionId db = None
        then db\<lparr>au_fences := au_fences db @ [\<lparr>iv_companionId = companionId, iv_generation = 0, iv_invalidatedAtMs = None,
               iv_lastReasonCode = None, iv_lifecycleFenced = False\<rparr>]\<rparr>
        else db)) (\<lambda>_.
     txbind (txget (find_fence companionId)) (\<lambda>found.
     case found of
       None \<Rightarrow> txthrow (''ICP invalidation fence missing companion '' @ companionId)
     | Some current \<Rightarrow>
         if iv_lifecycleFenced current = lifecycleFenced then txret (False, [])
         else txbind (invalidateCompanion companionId nowMs reasonCode) (\<lambda>revokedPermits.
           txbind (statement (\<lambda>db. db\<lparr>au_fences := update_where (\<lambda>f. iv_companionId f = companionId)
             (\<lambda>f. f\<lparr>iv_lifecycleFenced := lifecycleFenced\<rparr>) (au_fences db)\<rparr>)) (\<lambda>_. txret (True, revokedPermits)))))"

definition setLifecycleAdmission :: "string \<Rightarrow> jsnum \<Rightarrow> bool \<Rightarrow> string \<Rightarrow> (autonomy_db, bool \<times> initiation_permit list) io" where
  "setLifecycleAdmission companionId nowMs lifecycleFenced reasonCode =
     iobind (iopure (requireUuidText companionId ''companionId'')) (\<lambda>i.
     iobind (iopure (requireTimestamp nowMs ''nowMs'')) (\<lambda>now.
     withPostgresClient (setLifecycleAdmissionTx i lifecycleFenced now reasonCode)))"

definition fenceLifecycleAdmission :: "string \<Rightarrow> jsnum \<Rightarrow> (autonomy_db, bool \<times> initiation_permit list) io" where
  "fenceLifecycleAdmission companionId nowMs = setLifecycleAdmission companionId nowMs True ''unknown_participant''"

definition clearLifecycleAdmission :: "string \<Rightarrow> jsnum \<Rightarrow> (autonomy_db, bool \<times> initiation_permit list) io" where
  "clearLifecycleAdmission companionId nowMs = setLifecycleAdmission companionId nowMs False ''lifecycle_readmitted''"

definition isLifecycleAdmissionFenced :: "string \<Rightarrow> autonomy_db \<Rightarrow> bool result" where
  "isLifecycleAdmissionFenced companionId db =
     rbind (requireUuidText companionId ''companionId'') (\<lambda>i.
     Inr (case find_fence i db of None \<Rightarrow> False | Some f \<Rightarrow> iv_lifecycleFenced f))"

definition normalizeKnownCompanionIds :: "string list \<Rightarrow> string list result" where
  "normalizeKnownCompanionIds values =
     rbind (map_rows (\<lambda>(index, v). requireUuidText v (''knownCompanionIds['' @ decimal index @ '']'')) (List.enumerate 0 values)) (\<lambda>ids.
     throwIf (length (remdups ids) < 2) ''ICP shared autonomy store requires at least two known companion IDs'' (
     throwIf (length (remdups ids) \<noteq> length values) ''ICP shared autonomy store knownCompanionIds must not contain duplicates'' (
     Inr ids)))"

text \<open>The companions outside the fleet that still hold a fence or an issued permit, each once and in order.\<close>

definition outside_ids :: "string list \<Rightarrow> autonomy_db \<Rightarrow> string list" where
  "outside_ids known db =
     (let issued = outstanding (au_permits db);
          all = map iv_companionId (au_fences db) @ map ip_senderCompanionId issued @ map ip_recipientCompanionId issued in
      sort (remdups (filter (\<lambda>i. i \<notin> set known) all)))"

fun fence_each :: "int \<Rightarrow> string list \<Rightarrow> (autonomy_db, unit) tx" where
  "fence_each nowMs [] = txret ()"
| "fence_each nowMs (i # ids) = txbind (setLifecycleAdmissionTx i True nowMs ''unknown_participant'') (\<lambda>_. fence_each nowMs ids)"

definition revokeOutstandingPermitsOutsideFleet :: "string list \<Rightarrow> jsnum \<Rightarrow> (autonomy_db, initiation_permit list) io" where
  "revokeOutstandingPermitsOutsideFleet knownInput revokedAtMs =
     iobind (iopure (normalizeKnownCompanionIds knownInput)) (\<lambda>known.
     iobind (iopure (requireTimestamp revokedAtMs ''revokedAtMs'')) (\<lambda>now.
     withPostgresClient (
       txbind (txget (outside_ids known)) (\<lambda>found.
       txbind (txpure (map_rows (\<lambda>i. requireUuidText i ''outsideFleetCompanionId'') found)) (\<lambda>outside.
       txbind (fence_each now outside) (\<lambda>_.
       revoke_where (\<lambda>_ p. \<not> (ip_senderCompanionId p \<in> set known \<and> ip_recipientCompanionId p \<in> set known)) now
         ''unknown_participant''))))))"

text \<open>
  What \<^verbatim>\<open>connect\<close> does to the tables: a fence for every known companion, then the sweep of the others. These are two
  commits; in a run each of them is also an operation of its own, so that others may come in between.
\<close>

definition insert_fences :: "string list \<Rightarrow> (autonomy_db, unit) io" where
  "insert_fences known =
     autocommit (statement (\<lambda>db. db\<lparr>au_fences := au_fences db @
        map (\<lambda>i. \<lparr>iv_companionId = i, iv_generation = 0, iv_invalidatedAtMs = None, iv_lastReasonCode = None,
                   iv_lifecycleFenced = False\<rparr>) (filter (\<lambda>i. find_fence i db = None) known)\<rparr>))"

definition connectStore :: "string list \<Rightarrow> jsnum \<Rightarrow> (autonomy_db, initiation_permit list) io" where
  "connectStore knownInput now =
     iobind (iopure (normalizeKnownCompanionIds knownInput)) (\<lambda>known.
     iobind (insert_fences known) (\<lambda>_. revokeOutstandingPermitsOutsideFleet known now))"

definition revokeOutstandingPermitsForCompanion :: "string \<Rightarrow> jsnum \<Rightarrow> string \<Rightarrow> (autonomy_db, initiation_permit list) io" where
  "revokeOutstandingPermitsForCompanion companionId revokedAtMs reasonCodeInput =
     iobind (iopure (requireReasonCode reasonCodeInput ''reasonCode'')) (\<lambda>reasonCode.
     iobind (iopure (requireUuidText companionId ''companionId'')) (\<lambda>i.
     iobind (iopure (requireTimestamp revokedAtMs ''revokedAtMs'')) (\<lambda>now.
     withPostgresClient (invalidateCompanion i now reasonCode))))"

section \<open>Episodes and dyads\<close>

definition episodeUsesDurableDyad :: "conversation_episode \<Rightarrow> bool" where
  "episodeUsesDurableDyad episode \<longleftrightarrow> cv_initiationSource episode \<noteq> Initiation_operator_test
     \<and> (case parseCompanionChannelId (cv_channelId episode) of Some (Channel_dm _ _) \<Rightarrow> True | _ \<Rightarrow> False)
     \<and> length (cv_participantCompanionIds episode) = 2"

definition new_dyad :: "conversation_episode \<Rightarrow> string \<Rightarrow> string \<Rightarrow> dyad_row" where
  "new_dyad episode a b =
     \<lparr>dr_dyadId = cv_conversationId episode, dr_channelId = cv_channelId episode, dr_first = a, dr_second = b,
      dr_status = Dyad_open, dr_firstState = Relationship_open, dr_secondState = Relationship_open,
      dr_firstBlocked = False, dr_secondBlocked = False, dr_firstUpdatedAtMs = cv_openedAtMs episode,
      dr_secondUpdatedAtMs = cv_openedAtMs episode, dr_lifecycleRevision = 1, dr_createdAtMs = cv_openedAtMs episode,
      dr_provenance = [cv_conversationId episode], dr_revision = 1\<rparr>"

definition with_provenance :: "string \<Rightarrow> dyad_row \<Rightarrow> dyad_row" where
  "with_provenance conversationId d =
     (if conversationId \<in> set (dr_provenance d) then d
      else d\<lparr>dr_provenance := sort (dr_provenance d @ [conversationId]), dr_revision := dr_revision d + 1\<rparr>)"

definition ensureCanonicalDyad :: "string list \<Rightarrow> conversation_episode \<Rightarrow> (autonomy_db, icp_dyad) tx" where
  "ensureCanonicalDyad known episode =
     (case (parseCompanionChannelId (cv_channelId episode), cv_participantCompanionIds episode) of
        (Some (Channel_dm _ _), [a, b]) \<Rightarrow>
          txbind (txget (\<lambda>db. find (\<lambda>d. dr_first d = a \<and> dr_second d = b) (au_dyads db))) (\<lambda>found.
          case found of
            None \<Rightarrow>
              txbind (statement (\<lambda>db. db\<lparr>au_dyads := au_dyads db @ [new_dyad episode a b]\<rparr>)) (\<lambda>_.
              txpure (mapDyad known (new_dyad episode a b)))
          | Some d \<Rightarrow>
              if dr_channelId d \<noteq> cv_channelId episode then txthrow ''ICP dyad pair/channel ownership is ambiguous''
              else
                txbind (statement (\<lambda>db. db\<lparr>au_dyads := update_where (\<lambda>d. dr_first d = a \<and> dr_second d = b)
                  (with_provenance (cv_conversationId episode)) (au_dyads db)\<rparr>)) (\<lambda>_.
                txpure (mapDyad known (with_provenance (cv_conversationId episode) d))))
      | _ \<Rightarrow> txthrow ''ICP dyads require a canonical two-companion DM episode'')"

definition resolveEpisodeDyadId :: "string list \<Rightarrow> conversation_episode \<Rightarrow> (autonomy_db, string option) tx" where
  "resolveEpisodeDyadId known episode =
     (if \<not> episodeUsesDurableDyad episode then txret None
      else txbind (ensureCanonicalDyad known episode) (\<lambda>d. txret (Some (dy_dyadId d))))"

definition episode_row_of :: "conversation_episode \<Rightarrow> string option \<Rightarrow> conversation_row" where
  "episode_row_of episode dyadId = conversation_episode.extend episode \<lparr>er_dyadId = dyadId\<rparr>"

definition insert_episode :: "conversation_episode \<Rightarrow> string option \<Rightarrow> (autonomy_db, unit) tx" where
  "insert_episode episode dyadId =
     statement (\<lambda>db. db\<lparr>au_episodes := au_episodes db @ [episode_row_of episode dyadId]\<rparr>)"

definition createEpisode :: "string list \<Rightarrow> wire \<Rightarrow> (autonomy_db, conversation_episode) io" where
  "createEpisode known episodeInput =
     iobind (iopure (parseIcpConversationEpisode episodeInput (Some known))) (\<lambda>episode.
     if cv_status episode \<noteq> Conversation_invited \<or> cv_revision episode \<noteq> 1
     then iothrow (Error ''A new ICP conversation episode must start invited at revision 1'')
     else withPostgresClient (
       txbind (resolveEpisodeDyadId known episode) (\<lambda>dyadId.
       txbind (insert_episode episode dyadId) (\<lambda>_.
       txpure (mapConversation known (episode_row_of episode dyadId))))))"

definition find_dyad :: "string \<Rightarrow> autonomy_db \<Rightarrow> dyad_row option" where
  "find_dyad dyadId db = find (\<lambda>d. dr_dyadId d = dyadId) (au_dyads db)"

definition map_found :: "('r \<Rightarrow> 'a result) \<Rightarrow> 'r option \<Rightarrow> 'a option result" where
  "map_found f found = (case found of None \<Rightarrow> Inr None | Some r \<Rightarrow> rbind (f r) (\<lambda>x. Inr (Some x)))"

definition getDyad :: "string list \<Rightarrow> string \<Rightarrow> autonomy_db \<Rightarrow> icp_dyad option result" where
  "getDyad known dyadId db =
     rbind (requireUuidText dyadId ''dyadId'') (\<lambda>i. map_found (mapDyad known) (find_dyad i db))"

definition getDyadBetween :: "string list \<Rightarrow> string \<Rightarrow> string \<Rightarrow> autonomy_db \<Rightarrow> icp_dyad option result" where
  "getDyadBetween known firstCompanionId secondCompanionId db =
     rbind (requireUuidText firstCompanionId ''firstCompanionId'') (\<lambda>a.
     rbind (requireUuidText secondCompanionId ''secondCompanionId'') (\<lambda>b.
     throwIf (a = b) ''ICP dyad lookup requires distinct companions'' (
     map_found (mapDyad known) (find_pair_dyad a b db))))"

definition listDyadsForCompanion :: "string list \<Rightarrow> string \<Rightarrow> autonomy_db \<Rightarrow> icp_dyad list result" where
  "listDyadsForCompanion known companionId db =
     rbind (requireUuidText companionId ''companionId'') (\<lambda>owner.
     throwIf (owner \<notin> set known) ''Unknown ICP dyad owner'' (
     map_rows (mapDyad known) (sort_key (\<lambda>d. (dr_createdAtMs d, dr_dyadId d))
       (filter (\<lambda>d. dr_first d = owner \<or> dr_second d = owner) (au_dyads db)))))"

section \<open>Continuations and deliveries\<close>

definition queued_continuation :: "dyad_delivery \<Rightarrow> string \<Rightarrow> conversation_episode \<Rightarrow> jsnum \<Rightarrow> bool" where
  "queued_continuation delivery dyadId episode expectedLifecycleRevision \<longleftrightarrow>
     dd_dyadId delivery = dyadId \<and> dd_conversationId delivery = cv_conversationId episode
     \<and> dd_outcome delivery = DyadDelivery_queued \<and> dd_attempt delivery = 0 \<and> dd_revision delivery = 1
     \<and> dd_createdAtMs delivery = dd_updatedAtMs delivery \<and> dd_gatewayMessageId delivery = None \<and> dd_reasonCode delivery = None
     \<and> jsint (dd_dyadLifecycleRevision delivery) = expectedLifecycleRevision"

definition continuation_bound :: "conversation_episode \<Rightarrow> dyad_delivery \<Rightarrow> bool" where
  "continuation_bound episode delivery \<longleftrightarrow> cv_status episode = Conversation_invited \<and> cv_revision episode = 1
     \<and> cv_initiatedByCompanionId episode = dd_senderCompanionId delivery
     \<and> length (cv_participantCompanionIds episode) = 2
     \<and> dd_senderCompanionId delivery \<in> set (cv_participantCompanionIds episode)
     \<and> dd_recipientCompanionId delivery \<in> set (cv_participantCompanionIds episode)"

definition find_episode :: "string \<Rightarrow> autonomy_db \<Rightarrow> conversation_row option" where
  "find_episode conversationId db = find (\<lambda>e. cv_conversationId e = conversationId) (au_episodes db)"

text \<open>Insert the episode unless its id exists; either way the stored episode of the dyad must be the one given.\<close>

definition persist_episode :: "string list \<Rightarrow> conversation_episode \<Rightarrow> string \<Rightarrow> (autonomy_db, conversation_episode) tx" where
  "persist_episode known episode dyadId =
     (let collision = ''ICP dyad continuation episode collision'' in
      txbind (txget (find_episode (cv_conversationId episode))) (\<lambda>existing.
      txbind (case existing of
                None \<Rightarrow> txbind (insert_episode episode (Some dyadId)) (\<lambda>_.
                  txpure (mapConversation known (episode_row_of episode (Some dyadId))))
              | Some row \<Rightarrow> if er_dyadId row = Some dyadId then txpure (mapConversation known row) else txthrow collision) (\<lambda>persisted.
      if persisted \<noteq> episode then txthrow collision else txret persisted)))"

definition find_delivery :: "string \<Rightarrow> autonomy_db \<Rightarrow> dyad_delivery option" where
  "find_delivery deliveryId db = find (\<lambda>d. dd_deliveryId d = deliveryId) (au_deliveries db)"

text \<open>
  The source compares the JSON texts of the stored and the given record. Here this is equality of the records: the records
  list their members in the order of the type. A caller that passes a delivery with its members in another order is
  refused by the code although the records are equal; nothing below rests on such a call being accepted.
\<close>

definition persist_delivery :: "dyad_delivery \<Rightarrow> (autonomy_db, dyad_delivery) tx" where
  "persist_delivery delivery =
     txbind (txget (find_delivery (dd_deliveryId delivery))) (\<lambda>existing.
     txbind (case existing of
               None \<Rightarrow> txbind (statement (\<lambda>db. db\<lparr>au_deliveries := au_deliveries db @ [delivery]\<rparr>)) (\<lambda>_.
                 txpure (mapDyadDelivery delivery))
             | Some row \<Rightarrow> txpure (mapDyadDelivery row)) (\<lambda>persisted.
     if persisted \<noteq> delivery then txthrow ''ICP dyad delivery collision'' else txret persisted))"

definition createDyadContinuation ::
  "string list \<Rightarrow> string \<Rightarrow> jsnum \<Rightarrow> wire \<Rightarrow> dyad_delivery \<Rightarrow> (autonomy_db, icp_dyad \<times> conversation_episode \<times> dyad_delivery) io" where
  "createDyadContinuation known dyadIdInput expectedLifecycleRevision episodeInput delivery =
     (let unowned = ''ICP dyad continuation requires an owned open dyad'' in
     iobind (iopure (requireUuidText dyadIdInput ''dyadId'')) (\<lambda>dyadId.
     iobind (iopure (parseIcpConversationEpisode episodeInput (Some known))) (\<lambda>episode.
     iobind (iopure (requireUuidText (dd_deliveryId delivery) ''delivery.deliveryId'')) (\<lambda>_.
     if \<not> queued_continuation delivery dyadId episode expectedLifecycleRevision
     then iothrow (Error ''New ICP dyad delivery must be a revision-1 queued continuation'')
     else
     iobind (iopure (requireUuidText (dd_senderCompanionId delivery) ''delivery.senderCompanionId'')) (\<lambda>_.
     iobind (iopure (requireUuidText (dd_recipientCompanionId delivery) ''delivery.recipientCompanionId'')) (\<lambda>_.
     if \<not> continuation_bound episode delivery
     then iothrow (Error ''ICP dyad continuation episode/delivery binding is invalid'')
     else withPostgresClient (
       txbind (txget (find_dyad dyadId)) (\<lambda>found.
       case found of
         None \<Rightarrow> txthrow unowned
       | Some dyadRow \<Rightarrow>
           txbind (txpure (mapDyad known dyadRow)) (\<lambda>dyad.
           if dy_status dyad \<noteq> Dyad_open then txthrow unowned
           else txbind (txpure (requirePositiveSafeInteger expectedLifecycleRevision ''expectedLifecycleRevision'')) (\<lambda>revision.
           if dy_lifecycleRevision dyad \<noteq> revision \<or> dy_channelId dyad \<noteq> cv_channelId episode
              \<or> dd_senderCompanionId delivery \<notin> set (dy_participantCompanionIds dyad)
              \<or> dd_recipientCompanionId delivery \<notin> set (dy_participantCompanionIds dyad)
           then txthrow unowned
           else
           txbind (persist_episode known episode dyadId) (\<lambda>persistedEpisode.
           txbind (persist_delivery delivery) (\<lambda>persistedDelivery.
           if cv_conversationId episode \<in> set (dy_provenanceConversationIds dyad)
           then txret (dyad, persistedEpisode, persistedDelivery)
           else
             txbind (statement (\<lambda>db. db\<lparr>au_dyads := update_where (\<lambda>d. dr_dyadId d = dyadId)
               (\<lambda>d. d\<lparr>dr_provenance := sort (dr_provenance d @ [cv_conversationId episode]),
                      dr_revision := dr_revision d + 1\<rparr>) (au_dyads db)\<rparr>)) (\<lambda>_.
             txbind (txpure (mapDyad known (dyadRow\<lparr>dr_provenance := sort (dr_provenance dyadRow @ [cv_conversationId episode]),
                      dr_revision := dr_revision dyadRow + 1\<rparr>))) (\<lambda>updated.
             txret (updated, persistedEpisode, persistedDelivery)))))))))))))))"

definition getDyadDelivery :: "string \<Rightarrow> autonomy_db \<Rightarrow> dyad_delivery option result" where
  "getDyadDelivery deliveryId db =
     rbind (requireUuidText deliveryId ''deliveryId'') (\<lambda>i. map_found mapDyadDelivery (find_delivery i db))"

definition getLatestDyadDelivery :: "string \<Rightarrow> autonomy_db \<Rightarrow> dyad_delivery option result" where
  "getLatestDyadDelivery dyadId db =
     rbind (requireUuidText dyadId ''dyadId'') (\<lambda>i.
     let rows = sort_key (\<lambda>d. (dd_updatedAtMs d, dd_deliveryId d)) (filter (\<lambda>d. dd_dyadId d = i) (au_deliveries db)) in
     map_found mapDyadDelivery (if rows = [] then None else Some (last rows)))"

record delivery_transition =
  dt_deliveryId :: string
  dt_expectedOutcomes :: "dyad_delivery_outcome list"
  dt_outcome :: dyad_delivery_outcome
  dt_updatedAtMs :: jsnum
  dt_attempt :: jsnum
  dt_gatewayMessageId :: "string option"
  dt_reasonCode :: "string option"

definition transitionDyadDelivery :: "delivery_transition \<Rightarrow> (autonomy_db, dyad_delivery) io" where
  "transitionDyadDelivery input =
     (let gatewayMessageId = trimmed_receipt (dt_gatewayMessageId input) in
     if dt_expectedOutcomes input = [] then iothrow (Error ''ICP dyad delivery transition requires expected outcomes'')
     else if with_receipt (dt_outcome input) \<noteq> (gatewayMessageId \<noteq> None)
     then iothrow (Error ''ICP dyad delivery receipt does not match its outcome'')
     else
     iobind (iopure (requireUuidText (dt_deliveryId input) ''deliveryId'')) (\<lambda>i.
     iobind (iopure (requireTimestamp (dt_updatedAtMs input) ''updatedAtMs'')) (\<lambda>updatedAtMs.
     iobind (iopure (requireNonNegativeSafeInteger (dt_attempt input) ''attempt'')) (\<lambda>attempt.
     iobind (iopure (case dt_reasonCode input of None \<Rightarrow> Inr None
              | Some r \<Rightarrow> rbind (requireReasonCode r ''reasonCode'') (\<lambda>r. Inr (Some r)))) (\<lambda>reasonCode.
     let matches = (\<lambda>d. dd_deliveryId d = i \<and> dd_outcome d \<in> set (dt_expectedOutcomes input)
           \<and> dd_updatedAtMs d \<le> updatedAtMs \<and> dd_attempt d \<le> attempt);
         change = (\<lambda>d. d\<lparr>dd_outcome := dt_outcome input, dd_updatedAtMs := updatedAtMs, dd_attempt := attempt,
           dd_gatewayMessageId := gatewayMessageId, dd_reasonCode := reasonCode, dd_revision := dd_revision d + 1\<rparr>) in
     iobind (autocommit (txbind (txget (\<lambda>db. find matches (au_deliveries db))) (\<lambda>row.
        txbind (statement (\<lambda>db. db\<lparr>au_deliveries := update_where matches change (au_deliveries db)\<rparr>)) (\<lambda>_. txret row)))) (\<lambda>row.
     case row of
       None \<Rightarrow> iothrow (Error ''ICP dyad delivery transition conflict'')
     | Some d \<Rightarrow> iopure (mapDyadDelivery (change d))))))))"

section \<open>The lifecycle of a dyad\<close>

datatype dyad_action = Act_pause | Act_resume | Act_close | Act_block | Act_unblock

definition lifecycle_conflict :: "string \<Rightarrow> 'a result" where
  "lifecycle_conflict reason = Inl (Error (''ICP dyad lifecycle conflict: '' @ reason))"

fun transitionParticipantState :: "dyad_participant \<Rightarrow> dyad_action \<Rightarrow> int \<Rightarrow> dyad_participant result" where
  "transitionParticipantState current Act_pause transitionedAtMs =
     (if dp_relationshipState current \<noteq> Relationship_open
      then lifecycle_conflict (if dp_relationshipState current = Relationship_closed then ''dyad_closed'' else ''dyad_paused'')
      else Inr (current\<lparr>dp_relationshipState := Relationship_paused, dp_updatedAtMs := transitionedAtMs\<rparr>))"
| "transitionParticipantState current Act_resume transitionedAtMs =
     (if dp_relationshipState current \<noteq> Relationship_paused
      then lifecycle_conflict (if dp_relationshipState current = Relationship_closed then ''dyad_closed'' else ''dyad_stale_revision'')
      else Inr (current\<lparr>dp_relationshipState := Relationship_open, dp_updatedAtMs := transitionedAtMs\<rparr>))"
| "transitionParticipantState current Act_close transitionedAtMs =
     (if dp_relationshipState current = Relationship_closed then lifecycle_conflict ''dyad_closed''
      else Inr (current\<lparr>dp_relationshipState := Relationship_closed, dp_updatedAtMs := transitionedAtMs\<rparr>))"
| "transitionParticipantState current Act_block transitionedAtMs =
     (if dp_blocked current then lifecycle_conflict ''dyad_blocked''
      else Inr (current\<lparr>dp_blocked := True, dp_updatedAtMs := transitionedAtMs\<rparr>))"
| "transitionParticipantState current Act_unblock transitionedAtMs =
     (if \<not> dp_blocked current then lifecycle_conflict ''dyad_stale_revision''
      else Inr (current\<lparr>dp_blocked := False, dp_updatedAtMs := transitionedAtMs\<rparr>))"

definition with_states :: "dyad_status \<Rightarrow> dyad_participant \<Rightarrow> dyad_participant \<Rightarrow> dyad_row \<Rightarrow> dyad_row" where
  "with_states status s1 s2 d = d\<lparr>dr_status := status, dr_firstState := dp_relationshipState s1,
     dr_secondState := dp_relationshipState s2, dr_firstBlocked := dp_blocked s1, dr_secondBlocked := dp_blocked s2,
     dr_firstUpdatedAtMs := dp_updatedAtMs s1, dr_secondUpdatedAtMs := dp_updatedAtMs s2,
     dr_lifecycleRevision := dr_lifecycleRevision d + 1, dr_revision := dr_revision d + 1\<rparr>"

definition of_dyad :: "string \<Rightarrow> autonomy_db \<Rightarrow> initiation_permit \<Rightarrow> bool" where
  "of_dyad dyadId db p \<longleftrightarrow>
     list_ex (\<lambda>e. cv_conversationId e = ip_conversationId p \<and> er_dyadId e = Some dyadId) (au_episodes db)"

definition revokePairPermits :: "string \<Rightarrow> int \<Rightarrow> string \<Rightarrow> (autonomy_db, initiation_permit list) tx" where
  "revokePairPermits dyadId = revoke_where (of_dyad dyadId)"

definition fenced_delivery :: "string \<Rightarrow> int \<Rightarrow> dyad_delivery \<Rightarrow> bool" where
  "fenced_delivery dyadId lifecycleRevision d \<longleftrightarrow> dd_dyadId d = dyadId \<and> dd_dyadLifecycleRevision d < lifecycleRevision
     \<and> dd_outcome d \<in> {DyadDelivery_queued, DyadDelivery_delayed, DyadDelivery_retrying, DyadDelivery_failed}"

definition suppressed :: "int \<Rightarrow> string \<Rightarrow> dyad_delivery \<Rightarrow> dyad_delivery" where
  "suppressed transitionedAtMs reasonCode d = d\<lparr>dd_outcome := DyadDelivery_suppressed,
     dd_updatedAtMs := max (dd_updatedAtMs d) transitionedAtMs, dd_reasonCode := Some reasonCode, dd_gatewayMessageId := None,
     dd_revision := dd_revision d + 1\<rparr>"

definition transition_tx ::
  "string list \<Rightarrow> string \<Rightarrow> string \<Rightarrow> int \<Rightarrow> dyad_action \<Rightarrow> int \<Rightarrow>
     (autonomy_db, icp_dyad \<times> initiation_permit list \<times> dyad_delivery list) tx" where
  "transition_tx known dyadId actor expectedRevision action transitionedAtMs =
     txbind (txget (find_dyad dyadId)) (\<lambda>found.
     case found of
       None \<Rightarrow> txpure (lifecycle_conflict ''dyad_not_found'')
     | Some currentRow \<Rightarrow>
         txbind (txpure (mapDyad known currentRow)) (\<lambda>current.
         if dy_lifecycleRevision current \<noteq> expectedRevision then txpure (lifecycle_conflict ''dyad_stale_revision'')
         else if actor \<notin> set (map dp_companionId (dy_participantStates current))
         then txpure (lifecycle_conflict ''dyad_not_found'')
         else
         let index = (if dp_companionId (dy_participantStates current ! 0) = actor then 0 else 1) in
         txbind (txpure (transitionParticipantState (dy_participantStates current ! index) action transitionedAtMs)) (\<lambda>changed.
         let states = (dy_participantStates current)[index := changed];
             status = resolveIcpDyadStatus states;
             updatedRow = with_states status (states ! 0) (states ! 1) currentRow;
             reasonCode = icpDyadStatusReasonCode status in
         txbind (statement (\<lambda>db. db\<lparr>au_dyads := update_where (\<lambda>d. dr_dyadId d = dyadId \<and> dr_lifecycleRevision d = expectedRevision)
            (with_states status (states ! 0) (states ! 1)) (au_dyads db)\<rparr>)) (\<lambda>_.
         txbind (txpure (mapDyad known updatedRow)) (\<lambda>dyad.
         txbind (revokePairPermits dyadId transitionedAtMs reasonCode) (\<lambda>revokedPermits.
         txbind (txget (\<lambda>db. filter (fenced_delivery dyadId (dy_lifecycleRevision dyad)) (au_deliveries db))) (\<lambda>fenced.
         txbind (statement (\<lambda>db. db\<lparr>au_deliveries := update_where (fenced_delivery dyadId (dy_lifecycleRevision dyad))
            (suppressed transitionedAtMs reasonCode) (au_deliveries db)\<rparr>)) (\<lambda>_.
         txbind (txpure (map_rows mapDyadDelivery (map (suppressed transitionedAtMs reasonCode) fenced))) (\<lambda>fencedDeliveries.
         txret (dyad, revokedPermits, fencedDeliveries))))))))))"

definition transitionDyad ::
  "string list \<Rightarrow> string \<Rightarrow> string \<Rightarrow> jsnum \<Rightarrow> dyad_action \<Rightarrow> jsnum \<Rightarrow>
     (autonomy_db, icp_dyad \<times> initiation_permit list \<times> dyad_delivery list) io" where
  "transitionDyad known dyadIdInput actorCompanionId expectedRevision action transitionedAtMs =
     iobind (iopure (requireUuidText dyadIdInput ''dyadId'')) (\<lambda>dyadId.
     iobind (iopure (requireUuidText actorCompanionId ''actorCompanionId'')) (\<lambda>actor.
     iobind (iopure (requirePositiveSafeInteger expectedRevision ''expectedRevision'')) (\<lambda>revision.
     iobind (iopure (requireTimestamp transitionedAtMs ''transitionedAtMs'')) (\<lambda>now.
     withPostgresClient (transition_tx known dyadId actor revision action now)))))"

section \<open>Transitions of an episode\<close>

definition getEpisode :: "string list \<Rightarrow> string \<Rightarrow> autonomy_db \<Rightarrow> conversation_episode option result" where
  "getEpisode known conversationId db =
     rbind (requireUuidText conversationId ''conversationId'') (\<lambda>i. map_found (mapConversation known) (find_episode i db))"

record episode_transition =
  et_conversationId :: string
  et_expectedStatus :: conversation_status
  et_expectedRevision :: jsnum
  et_expectedLastActivityAtMs :: jsnum
  et_status :: conversation_status
  et_lastActivityAtMs :: jsnum
  et_closeReasonCode :: "string option"

text \<open>One guarded update of an episode outside a transaction; the updated row is mapped after the commit.\<close>

definition update_episode ::
  "string list \<Rightarrow> (conversation_row \<Rightarrow> bool) \<Rightarrow> (conversation_row \<Rightarrow> conversation_row) \<Rightarrow> string \<Rightarrow> (autonomy_db, conversation_episode) io" where
  "update_episode known P change conflict =
     iobind (autocommit (txbind (txget (\<lambda>db. find P (au_episodes db))) (\<lambda>row.
        txbind (statement (\<lambda>db. db\<lparr>au_episodes := update_where P change (au_episodes db)\<rparr>)) (\<lambda>_. txret row)))) (\<lambda>row.
     case row of None \<Rightarrow> iothrow (Error conflict) | Some e \<Rightarrow> iopure (mapConversation known (change e)))"

definition transitionEpisode :: "string list \<Rightarrow> episode_transition \<Rightarrow> (autonomy_db, conversation_episode) io" where
  "transitionEpisode known input =
     iobind (iopure (assertIcpConversationStatusTransition (et_expectedStatus input) (et_status input))) (\<lambda>_.
     iobind (iopure (assertIcpConversationActivityTransition (et_expectedLastActivityAtMs input) (et_lastActivityAtMs input))) (\<lambda>_.
     iobind (iopure (case et_closeReasonCode input of None \<Rightarrow> Inr None
              | Some r \<Rightarrow> rbind (requireReasonCode r ''closeReasonCode'') (\<lambda>r. Inr (Some r)))) (\<lambda>reasonCode.
     iobind (iopure (requireUuidText (et_conversationId input) ''conversationId'')) (\<lambda>i.
     iobind (iopure (requirePositiveSafeInteger (et_expectedRevision input) ''expectedRevision'')) (\<lambda>revision.
     iobind (iopure (requireTimestamp (et_expectedLastActivityAtMs input) ''expectedLastActivityAtMs'')) (\<lambda>expectedActivity.
     iobind (iopure (requireTimestamp (et_lastActivityAtMs input) ''lastActivityAtMs'')) (\<lambda>activity.
     update_episode known
       (\<lambda>e. cv_conversationId e = i \<and> cv_status e = et_expectedStatus input \<and> cv_revision e = revision
            \<and> cv_lastActivityAtMs e = expectedActivity \<and> activity \<ge> cv_lastActivityAtMs e)
       (\<lambda>e. e\<lparr>cv_status := et_status input, cv_lastActivityAtMs := activity, cv_closeReasonCode := reasonCode,
              cv_revision := cv_revision e + 1\<rparr>)
       (''ICP conversation transition conflict for '' @ et_conversationId input))))))))"

definition reclassifyEndedEpisodeCloseReason ::
  "string list \<Rightarrow> string \<Rightarrow> jsnum \<Rightarrow> string \<Rightarrow> string \<Rightarrow> (autonomy_db, conversation_episode) io" where
  "reclassifyEndedEpisodeCloseReason known conversationId expectedRevision fromReasonCode toReasonCode =
     iobind (iopure (requireUuidText conversationId ''conversationId'')) (\<lambda>i.
     iobind (iopure (requirePositiveSafeInteger expectedRevision ''expectedRevision'')) (\<lambda>revision.
     iobind (iopure (requireReasonCode fromReasonCode ''fromReasonCode'')) (\<lambda>fromReason.
     iobind (iopure (requireReasonCode toReasonCode ''toReasonCode'')) (\<lambda>toReason.
     update_episode known
       (\<lambda>e. cv_conversationId e = i \<and> cv_status e = Conversation_ended \<and> cv_revision e = revision
            \<and> cv_closeReasonCode e = Some fromReason)
       (\<lambda>e. e\<lparr>cv_closeReasonCode := Some toReason, cv_revision := cv_revision e + 1\<rparr>)
       (''ICP conversation close-reason reclassification conflict for '' @ conversationId)))))"

section \<open>Permits\<close>

definition expired :: "initiation_permit \<Rightarrow> initiation_permit" where
  "expired p = p\<lparr>ip_status := Permit_expired, ip_reasonCode := Some ''permit_expired'', ip_revision := ip_revision p + 1\<rparr>"

text \<open>The lazy expiry of the outstanding permit of a pair.\<close>

definition expire_pair :: "string \<Rightarrow> string \<Rightarrow> int \<Rightarrow> (autonomy_db, unit) tx" where
  "expire_pair a b now = statement (\<lambda>db. db\<lparr>au_permits := update_where
     (\<lambda>p. ip_status p = Permit_issued \<and> ip_expiresAtMs p \<le> now \<and> permit_pair p = pair_key a b) expired (au_permits db)\<rparr>)"

definition outstanding_between :: "string \<Rightarrow> string \<Rightarrow> int \<Rightarrow> autonomy_db \<Rightarrow> initiation_permit option" where
  "outstanding_between a b now db = find (\<lambda>p. ip_status p = Permit_issued \<and> ip_issuedAtMs p \<le> now \<and> ip_expiresAtMs p > now
     \<and> permit_pair p = pair_key a b) (au_permits db)"

definition invites :: "initiation_permit \<Rightarrow> conversation_row \<Rightarrow> bool" where
  "invites permit e \<longleftrightarrow> cv_conversationId e = ip_conversationId permit \<and> cv_channelId e = ip_channelId permit
     \<and> ip_senderCompanionId permit \<in> set (cv_participantCompanionIds e)
     \<and> ip_recipientCompanionId permit \<in> set (cv_participantCompanionIds e) \<and> cv_status e = Conversation_invited"

text \<open>A row an insert without conflict target would collide with: its id, its candidate or the outstanding pair.\<close>

definition permit_conflicts :: "initiation_permit \<Rightarrow> initiation_permit \<Rightarrow> bool" where
  "permit_conflicts permit p \<longleftrightarrow> ip_permitId p = ip_permitId permit \<or> ip_candidateId p = ip_candidateId permit
     \<or> ip_status permit = Permit_issued \<and> ip_status p = Permit_issued \<and> permit_pair p = permit_pair permit"

definition new_permit :: "initiation_permit \<Rightarrow> initiation_permit" where
  "new_permit permit = permit\<lparr>ip_consumedAtMs := None, ip_revokedAtMs := None, ip_reasonCode := None\<rparr>"

definition outstanding_conflict :: js_error where
  "outstanding_conflict = Error ''ICP outstanding invitation conflict for companion pair''"

definition insert_permit :: "initiation_permit \<Rightarrow> (autonomy_db, initiation_permit) tx" where
  "insert_permit permit =
     txbind (txget (\<lambda>db. list_ex (invites permit) (au_episodes db) \<and> \<not> list_ex (permit_conflicts permit) (au_permits db))) (\<lambda>admitted.
     if admitted
     then txbind (statement (\<lambda>db. db\<lparr>au_permits := au_permits db @ [new_permit permit]\<rparr>)) (\<lambda>_. txret (new_permit permit))
     else
       txbind (txget (\<lambda>db. list_ex (\<lambda>p. ip_candidateId p = ip_candidateId permit) (au_permits db))) (\<lambda>sameCandidate.
       txbind (txget (outstanding_between (ip_senderCompanionId permit) (ip_recipientCompanionId permit) (ip_issuedAtMs permit))) (\<lambda>rival.
       if sameCandidate \<or> rival \<noteq> None then txpure (Inl outstanding_conflict)
       else txthrow ''ICP permit conversation/channel/participant/candidate binding mismatch'')))"

definition invalidation_conflict :: "string \<Rightarrow> js_error" where
  "invalidation_conflict reason = Error (''ICP autonomy invalidated during permit operation: '' @ reason)"

definition has_dyad :: "string \<Rightarrow> autonomy_db \<Rightarrow> bool" where
  "has_dyad conversationId db = (case find_episode conversationId db of None \<Rightarrow> False | Some e \<Rightarrow> er_dyadId e \<noteq> None)"

definition issue_tx :: "initiation_permit \<Rightarrow> autonomy_fence \<Rightarrow> (autonomy_db, initiation_permit) tx" where
  "issue_tx permit fence =
     txbind (txget (\<lambda>db. lockInvalidationFence fence (ip_senderCompanionId permit) (ip_recipientCompanionId permit)
        (has_dyad (ip_conversationId permit) db) db)) (\<lambda>locked.
     txbind (txpure locked) (\<lambda>invalidationReason.
     case invalidationReason of
       Some reason \<Rightarrow> txpure (Inl (invalidation_conflict reason))
     | None \<Rightarrow>
         txbind (expire_pair (ip_senderCompanionId permit) (ip_recipientCompanionId permit) (ip_issuedAtMs permit)) (\<lambda>_.
         txbind (insert_permit permit) (\<lambda>row. txpure (mapPermit row)))))"

definition issuePermit :: "wire \<Rightarrow> autonomy_fence \<Rightarrow> (autonomy_db, initiation_permit) io" where
  "issuePermit permitInput fence =
     iobind (iopure (parseIcpInitiationPermit permitInput None)) (\<lambda>permit.
     if ip_status permit \<noteq> Permit_issued \<or> ip_revision permit \<noteq> 1
     then iothrow (Error ''A new ICP initiation permit must start issued at revision 1'')
     else withPostgresClient (issue_tx permit fence))"

definition permit_binds :: "initiation_permit \<Rightarrow> conversation_episode \<Rightarrow> bool" where
  "permit_binds permit episode \<longleftrightarrow> ip_conversationId permit = cv_conversationId episode \<and> ip_channelId permit = cv_channelId episode
     \<and> ip_senderCompanionId permit = cv_initiatedByCompanionId episode
     \<and> ip_senderCompanionId permit \<in> set (cv_participantCompanionIds episode)
     \<and> ip_recipientCompanionId permit \<in> set (cv_participantCompanionIds episode)
     \<and> ip_provenanceRef permit = cv_provenanceRef episode \<and> ip_issuedAtMs permit = cv_openedAtMs episode"

definition create_and_issue_tx ::
  "string list \<Rightarrow> conversation_episode \<Rightarrow> initiation_permit \<Rightarrow> autonomy_fence \<Rightarrow>
     (autonomy_db, icp_dyad option \<times> conversation_episode \<times> initiation_permit) tx" where
  "create_and_issue_tx known episode permit fence =
     txbind (txget (lockInvalidationFence fence (ip_senderCompanionId permit) (ip_recipientCompanionId permit)
        (episodeUsesDurableDyad episode))) (\<lambda>locked.
     txbind (txpure locked) (\<lambda>invalidationReason.
     case invalidationReason of
       Some reason \<Rightarrow> txpure (Inl (invalidation_conflict reason))
     | None \<Rightarrow>
         txbind (expire_pair (ip_senderCompanionId permit) (ip_recipientCompanionId permit) (ip_issuedAtMs permit)) (\<lambda>_.
         txbind (resolveEpisodeDyadId known episode) (\<lambda>dyadId.
         txbind (case dyadId of
                   None \<Rightarrow> txret None
                 | Some i \<Rightarrow> txbind (txget (find_dyad i)) (\<lambda>row.
                     case row of None \<Rightarrow> txthrow ''ICP dyad disappeared after insert''
                     | Some r \<Rightarrow> txbind (txpure (mapDyad known r)) (\<lambda>d. txret (Some d)))) (\<lambda>dyad.
         txbind (insert_episode episode dyadId) (\<lambda>_.
         txbind (insert_permit permit) (\<lambda>permitRow.
         txbind (txpure (mapConversation known (episode_row_of episode dyadId))) (\<lambda>created.
         txbind (txpure (mapPermit permitRow)) (\<lambda>issued.
         txret (dyad, created, issued))))))))))"

definition createEpisodeAndIssuePermit ::
  "string list \<Rightarrow> wire \<Rightarrow> wire \<Rightarrow> autonomy_fence \<Rightarrow>
     (autonomy_db, icp_dyad option \<times> conversation_episode \<times> initiation_permit) io" where
  "createEpisodeAndIssuePermit known episodeInput permitInput fence =
     iobind (iopure (parseIcpConversationEpisode episodeInput (Some known))) (\<lambda>episode.
     iobind (iopure (parseIcpInitiationPermit permitInput None)) (\<lambda>permit.
     if cv_status episode \<noteq> Conversation_invited \<or> cv_revision episode \<noteq> 1
     then iothrow (Error ''A new ICP conversation episode must start invited at revision 1'')
     else if ip_status permit \<noteq> Permit_issued \<or> ip_revision permit \<noteq> 1
     then iothrow (Error ''A new ICP initiation permit must start issued at revision 1'')
     else if \<not> permit_binds permit episode then iothrow (Error ''ICP atomic episode/permit binding mismatch'')
     else withPostgresClient (create_and_issue_tx known episode permit fence)))"

definition find_permit :: "string \<Rightarrow> autonomy_db \<Rightarrow> initiation_permit option" where
  "find_permit permitId db = find (\<lambda>p. ip_permitId p = permitId) (au_permits db)"

definition getPermit :: "string \<Rightarrow> autonomy_db \<Rightarrow> initiation_permit option result" where
  "getPermit permitId db = rbind (requireUuidText permitId ''permitId'') (\<lambda>i. map_found mapPermit (find_permit i db))"

definition getPermitByCandidate :: "string \<Rightarrow> autonomy_db \<Rightarrow> initiation_permit option result" where
  "getPermitByCandidate candidateId db =
     rbind (requireUuidText candidateId ''candidateId'') (\<lambda>i.
     map_found mapPermit (find (\<lambda>p. ip_candidateId p = i) (au_permits db)))"

record permit_consumption =
  pm_permitId :: string
  pm_conversationId :: string
  pm_senderCompanionId :: string
  pm_recipientCompanionId :: string
  pm_channelId :: string
  pm_consumedAtMs :: jsnum
  pm_expectedInvalidationFence :: autonomy_fence

datatype consumption_outcome =
  Outcome_consumed | Outcome_not_found | Outcome_expired | Outcome_revoked | Outcome_replayed | Outcome_mismatch

definition validateConsumptionBinding :: "permit_consumption \<Rightarrow> int result" where
  "validateConsumptionBinding input =
     rbind (requireUuidText (pm_permitId input) ''permitId'') (\<lambda>_.
     rbind (requireUuidText (pm_conversationId input) ''conversationId'') (\<lambda>_.
     rbind (requireUuidText (pm_senderCompanionId input) ''senderCompanionId'') (\<lambda>sender.
     rbind (requireUuidText (pm_recipientCompanionId input) ''recipientCompanionId'') (\<lambda>recipient.
     rbind (requireTimestamp (pm_consumedAtMs input) ''consumedAtMs'') (\<lambda>consumedAtMs.
     case parseCompanionChannelId (pm_channelId input) of
       None \<Rightarrow> Inl (Error ''channelId must be a canonical companion channel'')
     | Some parsed \<Rightarrow>
         throwIf (sender = recipient) ''permit consumption requires distinct companions'' (
         case parsed of
           Channel_dm a b \<Rightarrow> throwIf ([a, b] \<noteq> sort [sender, recipient])
             ''permit consumption binding does not match the DM channel'' (Inr consumedAtMs)
         | Channel_room _ \<Rightarrow> Inr consumedAtMs))))))"

definition permitMatches :: "initiation_permit \<Rightarrow> permit_consumption \<Rightarrow> bool" where
  "permitMatches permit input \<longleftrightarrow> ip_conversationId permit = pm_conversationId input
     \<and> ip_senderCompanionId permit = pm_senderCompanionId input
     \<and> ip_recipientCompanionId permit = pm_recipientCompanionId input \<and> ip_channelId permit = pm_channelId input"

definition consumable :: "permit_consumption \<Rightarrow> int \<Rightarrow> initiation_permit \<Rightarrow> bool" where
  "consumable input now p \<longleftrightarrow> ip_permitId p = pm_permitId input \<and> ip_status p = Permit_issued \<and> permitMatches p input
     \<and> ip_issuedAtMs p \<le> now \<and> ip_expiresAtMs p > now"

definition consumed :: "int \<Rightarrow> initiation_permit \<Rightarrow> initiation_permit" where
  "consumed now p = p\<lparr>ip_status := Permit_consumed, ip_consumedAtMs := Some now, ip_revision := ip_revision p + 1\<rparr>"

definition reopened :: "int \<Rightarrow> dyad_row \<Rightarrow> dyad_row" where
  "reopened now d = d\<lparr>dr_status := Dyad_open, dr_firstState := Relationship_open, dr_secondState := Relationship_open,
     dr_firstUpdatedAtMs := now, dr_secondUpdatedAtMs := now, dr_lifecycleRevision := dr_lifecycleRevision d + 1,
     dr_revision := dr_revision d + 1\<rparr>"

text \<open>A consumed permit reopens the paused or closed dyad of its conversation; a blocked dyad refuses it.\<close>

definition reopen_dyad :: "string list \<Rightarrow> string \<Rightarrow> int \<Rightarrow> (autonomy_db, unit) tx" where
  "reopen_dyad known conversationId now =
     txbind (txget (\<lambda>db. case find_episode conversationId db of None \<Rightarrow> None
        | Some e \<Rightarrow> (case er_dyadId e of None \<Rightarrow> None | Some i \<Rightarrow> find_dyad i db))) (\<lambda>found.
     case found of
       None \<Rightarrow> txret ()
     | Some row \<Rightarrow>
         txbind (txpure (mapDyad known row)) (\<lambda>dyad.
         if dy_status dyad = Dyad_blocked then txpure (Inl (invalidation_conflict ''dyad_blocked''))
         else if dy_status dyad = Dyad_open then txret ()
         else if dr_firstBlocked row \<or> dr_secondBlocked row then txpure (Inl (invalidation_conflict ''dyad_stale_revision''))
         else statement (\<lambda>db. db\<lparr>au_dyads := update_where (\<lambda>d. dr_dyadId d = dy_dyadId dyad
                \<and> dr_lifecycleRevision d = dy_lifecycleRevision dyad \<and> \<not> dr_firstBlocked d \<and> \<not> dr_secondBlocked d)
                (reopened now) (au_dyads db)\<rparr>)))"

text \<open>What a consumption that consumed nothing answers.\<close>

definition explain_tx :: "permit_consumption \<Rightarrow> int \<Rightarrow> string option \<Rightarrow> (autonomy_db, consumption_outcome \<times> initiation_permit option) tx" where
  "explain_tx input now invalidationReason =
     txbind (txget (find_permit (pm_permitId input))) (\<lambda>found.
     case found of
       None \<Rightarrow> txret (Outcome_not_found, None)
     | Some row \<Rightarrow>
         txbind (txpure (mapPermit row)) (\<lambda>existing.
         if \<not> permitMatches existing input then txret (Outcome_mismatch, Some existing)
         else if ip_status existing = Permit_revoked then txret (Outcome_revoked, Some existing)
         else if ip_status existing = Permit_consumed
         then (case invalidationReason of
                 Some reason \<Rightarrow> if reason \<noteq> ''dyad_stale_revision'' then txpure (Inl (invalidation_conflict reason))
                   else txret (Outcome_replayed, Some existing)
               | None \<Rightarrow> txret (Outcome_replayed, Some existing))
         else case invalidationReason of
           Some reason \<Rightarrow> txpure (Inl (invalidation_conflict reason))
         | None \<Rightarrow>
             if ip_status existing = Permit_expired then txret (Outcome_expired, Some existing)
             else if ip_expiresAtMs existing \<le> now
             then txbind (statement (\<lambda>db. db\<lparr>au_permits := update_where (\<lambda>p. ip_permitId p = ip_permitId existing
                      \<and> ip_status p = Permit_issued \<and> ip_revision p = ip_revision existing \<and> ip_expiresAtMs p \<le> now)
                      expired (au_permits db)\<rparr>)) (\<lambda>_.
                  txbind (txpure (mapPermit (expired row))) (\<lambda>p. txret (Outcome_expired, Some p)))
             else txret (Outcome_mismatch, Some existing)))"

definition consume_tx :: "string list \<Rightarrow> permit_consumption \<Rightarrow> int \<Rightarrow> (autonomy_db, consumption_outcome \<times> initiation_permit option) tx" where
  "consume_tx known input now =
     txbind (txget (\<lambda>db. lockInvalidationFence (pm_expectedInvalidationFence input) (pm_senderCompanionId input)
        (pm_recipientCompanionId input) (has_dyad (pm_conversationId input) db) db)) (\<lambda>locked.
     txbind (txpure locked) (\<lambda>invalidationReason.
     txbind (txget (\<lambda>db. find (consumable input now) (au_permits db))) (\<lambda>found.
     case (invalidationReason, found) of
       (None, Some row) \<Rightarrow>
         txbind (statement (\<lambda>db. db\<lparr>au_permits := update_where (consumable input now) (consumed now) (au_permits db)\<rparr>)) (\<lambda>_.
         txbind (reopen_dyad known (pm_conversationId input) now) (\<lambda>_.
         txbind (txpure (mapPermit (consumed now row))) (\<lambda>p. txret (Outcome_consumed, Some p))))
     | _ \<Rightarrow> explain_tx input now invalidationReason)))"

definition consumePermit :: "string list \<Rightarrow> permit_consumption \<Rightarrow> (autonomy_db, consumption_outcome \<times> initiation_permit option) io" where
  "consumePermit known input =
     iobind (iopure (validateConsumptionBinding input)) (\<lambda>now. withPostgresClient (consume_tx known input now))"

definition revokePermit :: "string \<Rightarrow> jsnum \<Rightarrow> jsnum \<Rightarrow> string \<Rightarrow> (autonomy_db, initiation_permit) io" where
  "revokePermit permitId expectedRevision revokedAtMs reasonCodeInput =
     iobind (iopure (requireReasonCode reasonCodeInput ''reasonCode'')) (\<lambda>reasonCode.
     iobind (iopure (requireUuidText permitId ''permitId'')) (\<lambda>i.
     iobind (iopure (requirePositiveSafeInteger expectedRevision ''expectedRevision'')) (\<lambda>revision.
     iobind (iopure (requireTimestamp revokedAtMs ''revokedAtMs'')) (\<lambda>now.
     let matches = (\<lambda>p. ip_permitId p = i \<and> ip_revision p = revision \<and> ip_status p = Permit_issued \<and> ip_issuedAtMs p \<le> now);
         change = (\<lambda>p. p\<lparr>ip_status := Permit_revoked, ip_revokedAtMs := Some now, ip_reasonCode := Some reasonCode,
           ip_revision := ip_revision p + 1\<rparr>) in
     iobind (autocommit (txbind (txget (\<lambda>db. find matches (au_permits db))) (\<lambda>row.
        txbind (statement (\<lambda>db. db\<lparr>au_permits := update_where matches change (au_permits db)\<rparr>)) (\<lambda>_. txret row)))) (\<lambda>row.
     case row of None \<Rightarrow> iothrow (Error ''ICP permit revocation conflict'') | Some p \<Rightarrow> iopure (mapPermit (change p)))))))"

definition findOutstandingPermitBetween :: "string \<Rightarrow> string \<Rightarrow> jsnum \<Rightarrow> (autonomy_db, initiation_permit option) io" where
  "findOutstandingPermitBetween firstCompanionId secondCompanionId nowMs =
     iobind (iopure (requireUuidText firstCompanionId ''firstCompanionId'')) (\<lambda>a.
     iobind (iopure (requireUuidText secondCompanionId ''secondCompanionId'')) (\<lambda>b.
     if a = b then iothrow (Error ''Outstanding permit lookup requires distinct companions'')
     else iobind (iopure (requireTimestamp nowMs ''nowMs'')) (\<lambda>now.
     iobind (autocommit (expire_pair a b now)) (\<lambda>_.
     iobind (autocommit (txget (outstanding_between a b now))) (\<lambda>row.
     iopure (map_found mapPermit row))))))"

section \<open>Runs\<close>

text \<open>One operation of a store object with its known companions; the answers are left out.\<close>

datatype autonomy_op =
  Publish wire
| Publish_invalidate wire string
| Clear_lease string jsnum availability_source jsnum
| Clear_invalidate string jsnum availability_source jsnum string
| Fence_lifecycle string jsnum
| Clear_lifecycle string jsnum
| Sweep_fleet jsnum
| Insert_fences
| Connect jsnum
| Revoke_for string jsnum string
| Create_episode wire
| Continue_dyad string jsnum wire dyad_delivery
| Transition_delivery delivery_transition
| Transition_dyad string string jsnum dyad_action jsnum
| Transition_episode episode_transition
| Reclassify string jsnum string string
| Issue wire autonomy_fence
| Create_and_issue wire wire autonomy_fence
| Consume permit_consumption
| Revoke_permit string jsnum jsnum string
| Find_outstanding string string jsnum

fun autonomy_next :: "string list \<times> autonomy_op \<Rightarrow> autonomy_db \<Rightarrow> autonomy_db" where
  "autonomy_next (known, Publish l) db = snd (publishAvailability l db)"
| "autonomy_next (known, Publish_invalidate l r) db = snd (publishAvailabilityAndInvalidate l r db)"
| "autonomy_next (known, Clear_lease c n src now) db = snd (clearAvailability c n src now db)"
| "autonomy_next (known, Clear_invalidate c n src now r) db = snd (clearAvailabilityAndInvalidate c n src now r db)"
| "autonomy_next (known, Fence_lifecycle c now) db = snd (fenceLifecycleAdmission c now db)"
| "autonomy_next (known, Clear_lifecycle c now) db = snd (clearLifecycleAdmission c now db)"
| "autonomy_next (known, Sweep_fleet now) db = snd (revokeOutstandingPermitsOutsideFleet known now db)"
| "autonomy_next (known, Insert_fences) db = snd (iobind (iopure (normalizeKnownCompanionIds known)) insert_fences db)"
| "autonomy_next (known, Connect now) db = snd (connectStore known now db)"
| "autonomy_next (known, Revoke_for c now r) db = snd (revokeOutstandingPermitsForCompanion c now r db)"
| "autonomy_next (known, Create_episode e) db = snd (createEpisode known e db)"
| "autonomy_next (known, Continue_dyad d n e dl) db = snd (createDyadContinuation known d n e dl db)"
| "autonomy_next (known, Transition_delivery t) db = snd (transitionDyadDelivery t db)"
| "autonomy_next (known, Transition_dyad d a n act now) db = snd (transitionDyad known d a n act now db)"
| "autonomy_next (known, Transition_episode t) db = snd (transitionEpisode known t db)"
| "autonomy_next (known, Reclassify c n r1 r2) db = snd (reclassifyEndedEpisodeCloseReason known c n r1 r2 db)"
| "autonomy_next (known, Issue p f) db = snd (issuePermit p f db)"
| "autonomy_next (known, Create_and_issue e p f) db = snd (createEpisodeAndIssuePermit known e p f db)"
| "autonomy_next (known, Consume i) db = snd (consumePermit known i db)"
| "autonomy_next (known, Revoke_permit i n now r) db = snd (revokePermit i n now r db)"
| "autonomy_next (known, Find_outstanding a b now) db = snd (findOutstandingPermitBetween a b now db)"

definition autonomy_run :: "(string list \<times> autonomy_op) list \<Rightarrow> autonomy_db \<Rightarrow> autonomy_db" where
  "autonomy_run ops db = fold autonomy_next ops db"

end
