(* ===== verification/Autonomy_Steps.thy ===== *)
theory Autonomy_Steps
  imports Autonomy_Store
begin

text \<open>
  Every operation of the shared autonomy store is a sequence of a few kinds of table changes. The kinds are the steps of
  an \<open>inductive\<close> relation; that each operation is such a sequence is shown once, and the laws of the store follow
  by cases on a step.
\<close>

section \<open>Operations that stay within a relation\<close>

definition io_within :: "('w \<Rightarrow> 'w \<Rightarrow> bool) \<Rightarrow> ('w, 'a) io \<Rightarrow> bool" where
  "io_within R m \<longleftrightarrow> (\<forall>w. R w (snd (m w)))"

named_theorems within_rules \<open>introduction rules for \<open>io_within\<close>\<close>

lemma io_within_basic [within_rules]:
  assumes "reflp R"
  shows "io_within R (iopure r)" "io_within R (iothrow e)" "io_within R (ioret a)"
  using assms by (simp_all add: io_within_def iopure_def iothrow_def ioret_def reflp_def)

lemma io_within_bind [within_rules]:
  assumes "transp R" "io_within R m" "\<And>a. io_within R (f a)"
  shows "io_within R (iobind m f)"
  unfolding io_within_def
proof
  fix w show "R w (snd (iobind m f w))"
  proof (cases "m w")
    case (Pair r w')
    then have "R w w'" using assms(2) unfolding io_within_def by (metis snd_conv)
    moreover have "R w' (snd (f a w'))" for a using assms(3) unfolding io_within_def by blast
    ultimately show ?thesis using assms(1) Pair
      by (cases r) (auto simp: iobind_def intro: transpD)
  qed
qed

lemma io_within_pure:
  assumes "reflp R" "\<And>a. r = Inr a \<Longrightarrow> io_within R (f a)"
  shows "io_within R (iobind (iopure r) f)"
  using assms by (cases r) (simp_all add: io_within_basic)

lemma io_within_transaction [within_rules]:
  assumes "reflp R" "tx_within R m"
  shows "io_within R (withPostgresClient m)"
  using assms by (auto simp: io_within_def tx_within_def withPostgresClient_def reflp_def split: sum.splits prod.splits)

lemma io_within_cases [within_rules]:
  "(b \<Longrightarrow> io_within R m) \<Longrightarrow> (\<not> b \<Longrightarrow> io_within R n) \<Longrightarrow> io_within R (if b then m else n)"
  "io_within R m \<Longrightarrow> (\<And>x. io_within R (f x)) \<Longrightarrow> io_within R (case v of None \<Rightarrow> m | Some x \<Rightarrow> f x)"
  by (simp_all split: option.splits)

lemma tx_within_prod [tx_rules]: "(\<And>x y. tx_within R (f x y)) \<Longrightarrow> tx_within R (case v of (x, y) \<Rightarrow> f x y)"
  by (cases v) simp

section \<open>Steps\<close>

text \<open>The parts of an episode that never change, and a change of its status or its closing reason.\<close>

definition same_episode :: "conversation_row \<Rightarrow> conversation_row \<Rightarrow> bool" where
  "same_episode e e' \<longleftrightarrow> cv_conversationId e' = cv_conversationId e \<and> cv_channelId e' = cv_channelId e
     \<and> cv_participantCompanionIds e' = cv_participantCompanionIds e \<and> cv_rootInitiationId e' = cv_rootInitiationId e
     \<and> cv_initiatedByCompanionId e' = cv_initiatedByCompanionId e \<and> cv_initiationSource e' = cv_initiationSource e
     \<and> cv_provenanceRef e' = cv_provenanceRef e \<and> cv_openedAtMs e' = cv_openedAtMs e \<and> er_dyadId e' = er_dyadId e"

definition episode_edge :: "conversation_row \<Rightarrow> conversation_row \<Rightarrow> bool" where
  "episode_edge e e' \<longleftrightarrow> same_episode e e' \<and> cv_revision e' = cv_revision e + 1
     \<and> (cv_status e' \<in> set (CONVERSATION_TRANSITIONS (cv_status e)) \<and> cv_lastActivityAtMs e' \<ge> cv_lastActivityAtMs e
        \<or> cv_status e = Conversation_ended \<and> cv_status e' = Conversation_ended \<and> cv_lastActivityAtMs e' = cv_lastActivityAtMs e)"

text \<open>The parts of a permit that never change, and its settlement.\<close>

definition same_permit :: "initiation_permit \<Rightarrow> initiation_permit \<Rightarrow> bool" where
  "same_permit p p' \<longleftrightarrow> ip_permitId p' = ip_permitId p \<and> ip_candidateId p' = ip_candidateId p
     \<and> ip_conversationId p' = ip_conversationId p \<and> ip_senderCompanionId p' = ip_senderCompanionId p
     \<and> ip_recipientCompanionId p' = ip_recipientCompanionId p \<and> ip_channelId p' = ip_channelId p
     \<and> ip_provenanceRef p' = ip_provenanceRef p \<and> ip_issuedAtMs p' = ip_issuedAtMs p \<and> ip_expiresAtMs p' = ip_expiresAtMs p"

definition settles :: "initiation_permit \<Rightarrow> initiation_permit \<Rightarrow> bool" where
  "settles p p' \<longleftrightarrow> same_permit p p' \<and> ip_status p = Permit_issued \<and> ip_status p' \<noteq> Permit_issued \<and> ip_revision p' = ip_revision p + 1"

definition bumped :: "int \<Rightarrow> string \<Rightarrow> invalidation_row \<Rightarrow> invalidation_row" where
  "bumped now reason f = f\<lparr>iv_generation := iv_generation f + 1, iv_invalidatedAtMs := Some now, iv_lastReasonCode := Some reason\<rparr>"

definition fresh_fence :: "string \<Rightarrow> invalidation_row" where
  "fresh_fence c = \<lparr>iv_companionId = c, iv_generation = 0, iv_invalidatedAtMs = None, iv_lastReasonCode = None, iv_lifecycleFenced = False\<rparr>"

text \<open>A companion that lifecycle administration fenced off, and one that holds an outstanding permit.\<close>

definition fenced :: "string \<Rightarrow> autonomy_db \<Rightarrow> bool" where
  "fenced c db \<longleftrightarrow> list_ex (\<lambda>f. iv_companionId f = c \<and> iv_lifecycleFenced f) (au_fences db)"

definition engaged :: "string \<Rightarrow> autonomy_db \<Rightarrow> bool" where
  "engaged c db \<longleftrightarrow> list_ex (touches c) (outstanding (au_permits db))"

text \<open>
  \<open>A\<close> holds the companions that the step may readmit. A permit is issued between companions that are not
  fenced, and a companion is fenced when it has no outstanding permit.
\<close>

inductive autonomy_step :: "(string \<Rightarrow> bool) \<Rightarrow> autonomy_db \<Rightarrow> autonomy_db \<Rightarrow> bool" for A where
  Leases: "db' = db\<lparr>au_availability := ls\<rparr> \<Longrightarrow> autonomy_ok db' \<Longrightarrow> autonomy_step A db db'"
| Settle: "db' = db\<lparr>au_permits := update_where P f (au_permits db)\<rparr> \<Longrightarrow> (\<And>p. P p \<Longrightarrow> settles p (f p)) \<Longrightarrow> autonomy_ok db' \<Longrightarrow>
    autonomy_step A db db'"
| Issued: "db' = db\<lparr>au_permits := au_permits db @ [p]\<rparr> \<Longrightarrow> \<not> fenced (ip_senderCompanionId p) db \<Longrightarrow>
    \<not> fenced (ip_recipientCompanionId p) db \<Longrightarrow> autonomy_ok db' \<Longrightarrow> autonomy_step A db db'"
| Invalidate: "db' = db\<lparr>au_fences := update_where (\<lambda>f. iv_companionId f = c) (bumped now reason) (au_fences db)\<rparr> \<Longrightarrow> autonomy_ok db' \<Longrightarrow>
    autonomy_step A db db'"
| Admission: "db' = db\<lparr>au_fences := update_where (\<lambda>f. iv_companionId f = c) (\<lambda>f. f\<lparr>iv_lifecycleFenced := b\<rparr>) (au_fences db)\<rparr> \<Longrightarrow>
    b \<or> A c \<Longrightarrow> \<not> engaged c db \<Longrightarrow> autonomy_ok db' \<Longrightarrow> autonomy_step A db db'"
| Fences: "db' = db\<lparr>au_fences := au_fences db @ map fresh_fence cs\<rparr> \<Longrightarrow> autonomy_ok db' \<Longrightarrow> autonomy_step A db db'"
| Opened: "db' = db\<lparr>au_episodes := au_episodes db @ [e]\<rparr> \<Longrightarrow> autonomy_ok db' \<Longrightarrow> autonomy_step A db db'"
| Moved: "db' = db\<lparr>au_episodes := update_where P f (au_episodes db)\<rparr> \<Longrightarrow> (\<And>e. P e \<Longrightarrow> episode_edge e (f e)) \<Longrightarrow> autonomy_ok db' \<Longrightarrow>
    autonomy_step A db db'"
| Dyads: "db' = db\<lparr>au_dyads := ds\<rparr> \<Longrightarrow> autonomy_ok db' \<Longrightarrow> autonomy_step A db db'"
| Deliveries: "db' = db\<lparr>au_deliveries := dls\<rparr> \<Longrightarrow> autonomy_ok db' \<Longrightarrow> autonomy_step A db db'"

abbreviation autonomy_steps :: "(string \<Rightarrow> bool) \<Rightarrow> autonomy_db \<Rightarrow> autonomy_db \<Rightarrow> bool" where
  "autonomy_steps A \<equiv> (autonomy_step A)\<^sup>*\<^sup>*"

lemma steps_refl_trans [within_rules, tx_rules]: "reflp (autonomy_steps A)" "transp (autonomy_steps A)"
  by (auto intro: reflpI transpI)

lemma statement_within:
  "(\<And>db. autonomy_ok (f db) \<Longrightarrow> autonomy_step A db (f db)) \<Longrightarrow> tx_within (autonomy_steps A) (statement f)"
  unfolding statement_def by (rule tx_within_exec) blast

section \<open>Every operation is a sequence of steps\<close>

lemma leases_within: "tx_within (autonomy_steps A) (statement (\<lambda>db. db\<lparr>au_availability := g db\<rparr>))"
  by (rule statement_within) (rule autonomy_step.Leases [OF refl])

lemma dyads_within: "tx_within (autonomy_steps A) (statement (\<lambda>db. db\<lparr>au_dyads := g db\<rparr>))"
  by (rule statement_within) (rule autonomy_step.Dyads [OF refl])

lemma deliveries_within: "tx_within (autonomy_steps A) (statement (\<lambda>db. db\<lparr>au_deliveries := g db\<rparr>))"
  by (rule statement_within) (rule autonomy_step.Deliveries [OF refl])

lemma opened_within: "tx_within (autonomy_steps A) (insert_episode e d)"
  unfolding insert_episode_def by (rule statement_within) (rule autonomy_step.Opened [OF refl])

lemma settle_within:
  "(\<And>db p. P db p \<Longrightarrow> settles p (f p)) \<Longrightarrow>
     tx_within (autonomy_steps A) (statement (\<lambda>db. db\<lparr>au_permits := update_where (P db) f (au_permits db)\<rparr>))"
  by (rule statement_within) (rule autonomy_step.Settle [OF refl])

lemma moved_within:
  "(\<And>e. P e \<Longrightarrow> episode_edge e (f e)) \<Longrightarrow>
     tx_within (autonomy_steps A) (statement (\<lambda>db. db\<lparr>au_episodes := update_where P f (au_episodes db)\<rparr>))"
  by (rule statement_within) (rule autonomy_step.Moved [OF refl])

lemma settling:
  "ip_status p = Permit_issued \<Longrightarrow> settles p (revoked now reason p)"
  "ip_status p = Permit_issued \<Longrightarrow> settles p (expired p)"
  "ip_status p = Permit_issued \<Longrightarrow> settles p (consumed now p)"
  by (simp_all add: settles_def same_permit_def revoked_def expired_def consumed_def)

lemma revoke_within: "tx_within (autonomy_steps A) (revoke_where P now reason)"
  unfolding revoke_where_def by (intro tx_rules steps_refl_trans settle_within) (auto intro: settling)

lemma invalidate_within: "tx_within (autonomy_steps A) (invalidateCompanion c now reason)"
  unfolding invalidateCompanion_def bumped_def [symmetric]
  by (intro tx_rules steps_refl_trans revoke_within statement_within) (rule autonomy_step.Invalidate [OF refl])

lemma publish_within: "tx_within (autonomy_steps A) (publish_sql l)"
  unfolding publish_sql_def by (intro tx_rules steps_refl_trans leases_within)

lemma clear_within: "tx_within (autonomy_steps A) (clear_sql c n src now)"
  unfolding clear_sql_def Let_def by (intro tx_rules steps_refl_trans leases_within)

lemma engaged_iff: "engaged c db \<longleftrightarrow> (\<exists>p \<in> set (au_permits db). ip_status p = Permit_issued \<and> touches c p)"
  by (auto simp: engaged_def outstanding_def list_ex_iff)

lemma fenced_iff: "fenced c db \<longleftrightarrow> (\<exists>f \<in> set (au_fences db). iv_companionId f = c \<and> iv_lifecycleFenced f)"
  by (simp add: fenced_def list_ex_iff)

lemma invalidate_disengages:
  assumes "invalidateCompanion c now reason db = Inr (ps, db')"
  shows "\<not> engaged c db'"
proof -
  obtain db1 where "revoke_where (\<lambda>_. touches c) now reason db1 = Inr (ps, db')"
    using assms by (auto simp: invalidateCompanion_def tx_Inr split: if_splits)
  then have "au_permits db' = update_where (\<lambda>p. ip_status p = Permit_issued \<and> touches c p) (revoked now reason) (au_permits db1)"
    by (auto simp: revoke_where_def statement_def tx_Inr)
  note permits = this
  show ?thesis
  proof
    assume "engaged c db'"
    then obtain q where q: "q \<in> set (au_permits db')" "ip_status q = Permit_issued" "touches c q"
      unfolding engaged_iff by blast
    then obtain p where "q = (if ip_status p = Permit_issued \<and> touches c p then revoked now reason p else p)"
      unfolding permits set_update_where by blast
    with q(2,3) show False by (simp add: revoked_def split: if_splits)
  qed
qed

lemma fence_row_within:
  "tx_within (autonomy_steps A) (statement (\<lambda>db. if find_fence c db = None
     then db\<lparr>au_fences := au_fences db @ [fresh_fence c]\<rparr> else db))"
proof (rule statement_within)
  fix db assume ok: "autonomy_ok (if find_fence c db = None then db\<lparr>au_fences := au_fences db @ [fresh_fence c]\<rparr> else db)"
  have eq: "(if find_fence c db = None then db\<lparr>au_fences := au_fences db @ [fresh_fence c]\<rparr> else db)
      = db\<lparr>au_fences := au_fences db @ map fresh_fence (if find_fence c db = None then [c] else [])\<rparr>" by simp
  show "autonomy_step A db (if find_fence c db = None then db\<lparr>au_fences := au_fences db @ [fresh_fence c]\<rparr> else db)"
    by (rule autonomy_step.Fences [OF eq ok])
qed

lemma admission_within:
  assumes "b \<or> A c"
  shows "tx_within (autonomy_steps A) (setLifecycleAdmissionTx c b now reason)"
proof -
  define change where "change db = db\<lparr>au_fences := update_where (\<lambda>f. iv_companionId f = c)
      (\<lambda>f. f\<lparr>iv_lifecycleFenced := b\<rparr>) (au_fences db)\<rparr>" for db :: autonomy_db
  have "tx_within (autonomy_steps A) (txbind (invalidateCompanion c now reason) (\<lambda>ps. txbind (statement change) (\<lambda>_. txret (True, ps))))"
    unfolding tx_within_def
  proof (intro allI impI)
    fix db x db' assume "txbind (invalidateCompanion c now reason) (\<lambda>ps. txbind (statement change) (\<lambda>_. txret (True, ps))) db = Inr (x, db')"
    then obtain ps db1 where inv: "invalidateCompanion c now reason db = Inr (ps, db1)"
      and eq: "db' = change db1" and ok: "autonomy_ok (change db1)"
      by (auto simp: tx_Inr statement_def)
    have "autonomy_step A db1 db'"
      using autonomy_step.Admission [where A = A and c = c and b = b, OF eq [unfolded change_def] assms invalidate_disengages [OF inv]] ok eq by simp
    with tx_withinD [OF invalidate_within inv] show "autonomy_steps A db db'" by (rule rtranclp.rtrancl_into_rtrancl)
  qed
  note invalidated = this [unfolded change_def]
  show ?thesis
    unfolding setLifecycleAdmissionTx_def fresh_fence_def [symmetric]
    by (intro invalidated fence_row_within tx_within_option tx_within_if tx_within_basic steps_refl_trans | rule tx_within_bind)+
qed

lemma fence_each_within: "tx_within (autonomy_steps A) (fence_each now cs)"
  by (induction cs) (auto intro!: tx_rules steps_refl_trans admission_within)

lemma dyad_within: "tx_within (autonomy_steps A) (resolveEpisodeDyadId known e)"
  unfolding resolveEpisodeDyadId_def ensureCanonicalDyad_def
  by (auto intro!: tx_rules steps_refl_trans dyads_within split: option.splits companion_channel.splits list.splits)

lemma persist_within: "tx_within (autonomy_steps A) (persist_episode known e d)" "tx_within (autonomy_steps A) (persist_delivery dl)"
  unfolding persist_episode_def persist_delivery_def Let_def
  by (intro tx_rules steps_refl_trans opened_within deliveries_within)+

lemma expire_within: "tx_within (autonomy_steps A) (expire_pair a b now)"
  unfolding expire_pair_def by (rule settle_within) (auto intro: settling)

lemma requireUuidText_Inr: "requireUuidText s field = Inr t \<Longrightarrow> t = s \<and> isRfc4122Uuid s"
  by (simp add: requireUuidText_def requireUuidValue_def split: if_splits)

lemma map_rows_Inr: "map_rows f rs = Inr xs \<Longrightarrow> x \<in> set xs \<Longrightarrow> \<exists>r \<in> set rs. f r = Inr x"
  by (induction rs arbitrary: xs) (auto simp: rbind_eq_Inr)

lemma normalizeFence_Inr:
  assumes "normalizeFence fence a b = Inr expected"
  shows "map fst (cf_companions expected) = sort [a, b]"
    and "\<And>c g. (c, g) \<in> set (cf_companions expected) \<Longrightarrow> \<exists>n. (c, n) \<in> set (af_companions fence) \<and> intval n = g"
proof -
  obtain entries where entries: "map_rows require_entry (List.enumerate 0 (af_companions fence)) = Inr entries"
    and expected: "cf_companions expected = sort_key fst entries" "map fst (sort_key fst entries) = sort [a, b]"
    using assms by (auto simp: normalizeFence_def rbind_eq_Inr throwIf_eq_Inr Let_def)
  show "map fst (cf_companions expected) = sort [a, b]" using expected by simp
  fix c g assume "(c, g) \<in> set (cf_companions expected)"
  then have "(c, g) \<in> set entries" using expected by simp
  then obtain i c' n where "(i, c', n) \<in> set (List.enumerate 0 (af_companions fence))" and "require_entry (i, c', n) = Inr (c, g)"
    using map_rows_Inr [OF entries] by (metis prod_cases3)
  then show "\<exists>n. (c, n) \<in> set (af_companions fence) \<and> intval n = g"
    by (auto simp: require_entry_def Let_def rbind_eq_Inr requireNonNegativeSafeInteger_def in_set_enumerate_eq
        dest!: requireUuidText_Inr split: if_splits) (metis nth_mem)
qed

lemma lock_Inr_None:
  assumes "lockInvalidationFence fence a b d db = Inr None"
  obtains expected rows where "normalizeFence fence a b = Inr expected"
    and "rows = filter (\<lambda>r. iv_companionId r \<in> {a, b}) (au_fences db)"
    and "\<not> list_ex iv_lifecycleFenced rows" "fenceConflictReason (cf_companions expected) rows = Inr None"
proof -
  from assms obtain expected where n: "normalizeFence fence a b = Inr expected"
    by (auto simp: lockInvalidationFence_def rbind_eq_Inr)
  have ids: "set (map fst (cf_companions expected)) = {a, b}"
    unfolding normalizeFence_Inr(1) [OF n] by (simp only: set_sort list.set)
  let ?rows = "filter (\<lambda>r. iv_companionId r \<in> {a, b}) (au_fences db)"
  have "\<not> list_ex iv_lifecycleFenced ?rows" "fenceConflictReason (cf_companions expected) ?rows = Inr None"
    using assms unfolding lockInvalidationFence_def n rbind_simps Let_def ids throwIf_eq_Inr
    by (auto simp: rbind_eq_Inr split: if_splits)
  with n show ?thesis by (intro that) simp_all
qed

lemma lock_passed:
  assumes "lockInvalidationFence fence a b d db = Inr None"
  shows "\<not> fenced a db" "\<not> fenced b db"
  using assms by (auto elim!: lock_Inr_None simp: fenced_iff list_ex_iff)

lemma insert_permit_step:
  assumes "insert_permit p db = Inr (r, db')" "\<not> fenced (ip_senderCompanionId p) db" "\<not> fenced (ip_recipientCompanionId p) db"
  shows "autonomy_step A db db'"
proof -
  have eq: "db' = db\<lparr>au_permits := au_permits db @ [new_permit p]\<rparr>" and ok: "autonomy_ok db'"
    using assms(1) by (auto simp: insert_permit_def statement_def tx_Inr split: if_splits)
  show ?thesis
    by (rule autonomy_step.Issued [OF eq _ _ ok]) (use assms in \<open>simp_all add: new_permit_def\<close>)
qed

text \<open>What happens between the lock of the fences and the insert of a permit leaves the fences alone.\<close>

definition same_fences :: "autonomy_db \<Rightarrow> autonomy_db \<Rightarrow> bool" where
  "same_fences db db' \<longleftrightarrow> au_fences db' = au_fences db"

lemma same_fences_order: "reflp same_fences" "transp same_fences"
  by (auto simp: same_fences_def reflp_def transp_def)

lemma same_fences_within:
  "tx_within same_fences (expire_pair x y now)" "tx_within same_fences (resolveEpisodeDyadId known e)"
  "tx_within same_fences (insert_episode e d)"
  unfolding expire_pair_def resolveEpisodeDyadId_def ensureCanonicalDyad_def insert_episode_def statement_def
  by (auto intro!: tx_rules same_fences_order tx_within_exec simp: same_fences_def
      split: option.splits companion_channel.splits list.splits)

lemma fenced_same: "same_fences db db' \<Longrightarrow> fenced c db' = fenced c db"
  by (simp add: same_fences_def fenced_def)

text \<open>A transaction that locks the fences, does \<open>m\<close> and inserts a permit.\<close>

lemma issue_pattern:
  assumes lock: "lockInvalidationFence fence (ip_senderCompanionId p) (ip_recipientCompanionId p) d db = Inr None"
    and m: "m db = Inr (x, db1)" "tx_within (autonomy_steps A) m" "tx_within same_fences m"
    and insert: "insert_permit p db1 = Inr (r, db')"
  shows "autonomy_steps A db db'"
proof -
  have "same_fences db db1" using m by (auto dest: tx_withinD)
  then have "autonomy_step A db1 db'"
    using insert_permit_step [OF insert] lock_passed [OF lock] by (simp add: fenced_same)
  with tx_withinD [OF m(2,1)] show ?thesis by (rule rtranclp.rtrancl_into_rtrancl)
qed

lemma issue_within: "tx_within (autonomy_steps A) (issue_tx p fence)"
  unfolding tx_within_def
proof (intro allI impI)
  fix db x db' assume "issue_tx p fence db = Inr (x, db')"
  then obtain d db1 r where "lockInvalidationFence fence (ip_senderCompanionId p) (ip_recipientCompanionId p) d db = Inr None"
    and "expire_pair (ip_senderCompanionId p) (ip_recipientCompanionId p) (ip_issuedAtMs p) db = Inr ((), db1)"
    and "insert_permit p db1 = Inr (r, db')"
    by (auto simp: issue_tx_def tx_Inr split: option.splits)
  then show "autonomy_steps A db db'"
    by (rule issue_pattern [OF _ _ expire_within same_fences_within(1)])
qed

definition episode_before_permit :: "string list \<Rightarrow> conversation_episode \<Rightarrow> initiation_permit \<Rightarrow> (autonomy_db, icp_dyad option \<times> string option) tx" where
  "episode_before_permit known e p =
     txbind (expire_pair (ip_senderCompanionId p) (ip_recipientCompanionId p) (ip_issuedAtMs p)) (\<lambda>_.
     txbind (resolveEpisodeDyadId known e) (\<lambda>dyadId.
     txbind (case dyadId of
               None \<Rightarrow> txret None
             | Some i \<Rightarrow> txbind (txget (find_dyad i)) (\<lambda>row.
                 case row of None \<Rightarrow> txthrow ''ICP dyad disappeared after insert''
                 | Some r \<Rightarrow> txbind (txpure (mapDyad known r)) (\<lambda>d. txret (Some d)))) (\<lambda>dyad.
     txbind (insert_episode e dyadId) (\<lambda>_. txret (dyad, dyadId)))))"

lemma episode_before_permit_within:
  "tx_within (autonomy_steps A) (episode_before_permit known e p)" "tx_within same_fences (episode_before_permit known e p)"
  unfolding episode_before_permit_def
  by (intro tx_rules steps_refl_trans expire_within dyad_within opened_within same_fences_order same_fences_within)+

lemma txbind_assoc: "txbind (txbind m f) g = txbind m (\<lambda>x. txbind (f x) g)"
  by (auto simp: fun_eq_iff txbind_def rbind_def split: sum.splits prod.splits)

lemma create_and_issue_eq:
  "create_and_issue_tx known e p fence =
     txbind (txget (lockInvalidationFence fence (ip_senderCompanionId p) (ip_recipientCompanionId p) (episodeUsesDurableDyad e))) (\<lambda>locked.
     txbind (txpure locked) (\<lambda>reason.
     case reason of
       Some reason \<Rightarrow> txpure (Inl (invalidation_conflict reason))
     | None \<Rightarrow>
         txbind (episode_before_permit known e p) (\<lambda>(dyad, dyadId).
         txbind (insert_permit p) (\<lambda>permitRow.
         txbind (txpure (mapConversation known (episode_row_of e dyadId))) (\<lambda>created.
         txbind (txpure (mapPermit permitRow)) (\<lambda>issued. txret (dyad, created, issued)))))))"
  unfolding create_and_issue_tx_def episode_before_permit_def txbind_assoc txbind_simps prod.case by (rule refl)

lemma create_and_issue_within: "tx_within (autonomy_steps A) (create_and_issue_tx known e p fence)"
  unfolding tx_within_def
proof (intro allI impI)
  fix db x db' assume "create_and_issue_tx known e p fence db = Inr (x, db')"
  then obtain d y db1 r where "lockInvalidationFence fence (ip_senderCompanionId p) (ip_recipientCompanionId p) d db = Inr None"
    and "episode_before_permit known e p db = Inr (y, db1)" and "insert_permit p db1 = Inr (r, db')"
    by (auto simp: create_and_issue_eq tx_Inr split: option.splits prod.splits)
  then show "autonomy_steps A db db'"
    by (rule issue_pattern [OF _ _ episode_before_permit_within])
qed

lemma consume_within: "tx_within (autonomy_steps A) (consume_tx known input now)"
proof -
  have "tx_within (autonomy_steps A) (explain_tx input now r)" for r
    unfolding explain_tx_def by (intro tx_rules steps_refl_trans settle_within) (auto intro: settling)
  moreover have "tx_within (autonomy_steps A) (reopen_dyad known c now)" for c
    unfolding reopen_dyad_def by (intro tx_rules steps_refl_trans dyads_within)
  moreover have "tx_within (autonomy_steps A) (statement (\<lambda>db. db\<lparr>au_permits := update_where (consumable input now) (consumed now) (au_permits db)\<rparr>))"
    by (rule settle_within) (auto simp: consumable_def intro: settling)
  ultimately show ?thesis
    unfolding consume_tx_def by (intro tx_rules steps_refl_trans)
qed

lemma transition_within: "tx_within (autonomy_steps A) (transition_tx known d a n act now)"
  unfolding transition_tx_def revokePairPermits_def Let_def
  by (intro tx_rules steps_refl_trans dyads_within deliveries_within revoke_within)


section \<open>Runs\<close>

text \<open>Only \<^verbatim>\<open>clearLifecycleAdmission\<close> readmits a companion.\<close>

definition readmits :: "string \<Rightarrow> autonomy_op \<Rightarrow> bool" where
  "readmits c oper \<longleftrightarrow> (\<exists>now. oper = Clear_lifecycle c now)"

lemma autocommit_within:
  "tx_within (autonomy_steps A) m \<Longrightarrow> io_within (autonomy_steps A) (withPostgresClient m)"
  "tx_within (autonomy_steps A) m \<Longrightarrow> io_within (autonomy_steps A) (autocommit m)"
  unfolding autocommit_def by (rule io_within_transaction [OF steps_refl_trans(1)]; assumption)+

lemma outside_within: "io_within (autonomy_steps A) (revokeOutstandingPermitsOutsideFleet known now)"
  unfolding revokeOutstandingPermitsOutsideFleet_def
  by (intro within_rules tx_rules steps_refl_trans autocommit_within fence_each_within revoke_within)

lemma connect_within:
  "io_within (autonomy_steps A) (insert_fences known)"
  "io_within (autonomy_steps A) (iobind (iopure (normalizeKnownCompanionIds known)) insert_fences)"
  "io_within (autonomy_steps A) (connectStore known now)"
proof -
  show i: "io_within (autonomy_steps A) (insert_fences known)" for known
    unfolding insert_fences_def fresh_fence_def [symmetric]
    by (intro autocommit_within statement_within) (rule autonomy_step.Fences [OF refl])
  show "io_within (autonomy_steps A) (iobind (iopure (normalizeKnownCompanionIds known)) insert_fences)"
    "io_within (autonomy_steps A) (connectStore known now)"
    unfolding connectStore_def by (intro within_rules steps_refl_trans outside_within i)+
qed

lemma lifecycle_within:
  assumes "b \<or> A c"
  shows "io_within (autonomy_steps A) (setLifecycleAdmission c now b reason)"
  unfolding setLifecycleAdmission_def
  by (intro io_within_pure steps_refl_trans autocommit_within admission_within)
     (use assms in \<open>auto dest: requireUuidText_Inr\<close>)

lemma lease_within:
  "io_within (autonomy_steps A) (publishAvailability l)"
  "io_within (autonomy_steps A) (publishAvailabilityAndInvalidate l r)"
  "io_within (autonomy_steps A) (clearAvailability c n src now)"
  "io_within (autonomy_steps A) (clearAvailabilityAndInvalidate c n src now r)"
  "io_within (autonomy_steps A) (revokeOutstandingPermitsForCompanion c now r)"
  unfolding publishAvailability_def publishAvailabilityAndInvalidate_def clearAvailability_def
    clearAvailabilityAndInvalidate_def revokeOutstandingPermitsForCompanion_def
  by (intro within_rules tx_rules steps_refl_trans autocommit_within invalidate_within publish_within clear_within)+

lemma episode_within:
  "io_within (autonomy_steps A) (createEpisode known e)"
  "io_within (autonomy_steps A) (createDyadContinuation known d n e dl)"
  unfolding createEpisode_def createDyadContinuation_def Let_def
  by (intro within_rules tx_rules steps_refl_trans autocommit_within dyad_within opened_within persist_within dyads_within)+

lemma delivery_within: "io_within (autonomy_steps A) (transitionDyadDelivery t)"
  unfolding transitionDyadDelivery_def Let_def
  by (intro within_rules tx_rules steps_refl_trans autocommit_within deliveries_within)

lemma transition_dyad_within: "io_within (autonomy_steps A) (transitionDyad known d a n act now)"
  unfolding transitionDyad_def by (intro within_rules steps_refl_trans autocommit_within transition_within)

lemma update_episode_within:
  "(\<And>e. P e \<Longrightarrow> episode_edge e (f e)) \<Longrightarrow> io_within (autonomy_steps A) (update_episode known P f msg)"
  unfolding update_episode_def by (intro within_rules tx_rules steps_refl_trans autocommit_within moved_within)

lemma transition_episode_within: "io_within (autonomy_steps A) (transitionEpisode known t)"
  unfolding transitionEpisode_def
  by (intro io_within_pure steps_refl_trans update_episode_within)
     (auto simp: episode_edge_def same_episode_def assertIcpConversationStatusTransition_def split: if_splits)

lemma reclassify_within: "io_within (autonomy_steps A) (reclassifyEndedEpisodeCloseReason known c n r1 r2)"
  unfolding reclassifyEndedEpisodeCloseReason_def
  by (intro within_rules steps_refl_trans update_episode_within) (auto simp: episode_edge_def same_episode_def)

lemma permit_within:
  "io_within (autonomy_steps A) (issuePermit p f)"
  "io_within (autonomy_steps A) (createEpisodeAndIssuePermit known e p f)"
  "io_within (autonomy_steps A) (consumePermit known i)"
  "io_within (autonomy_steps A) (findOutstandingPermitBetween x y now)"
  unfolding issuePermit_def createEpisodeAndIssuePermit_def consumePermit_def findOutstandingPermitBetween_def
  by (intro within_rules tx_rules steps_refl_trans autocommit_within issue_within create_and_issue_within consume_within expire_within)+

lemma revoke_permit_within: "io_within (autonomy_steps A) (revokePermit i n now r)"
  unfolding revokePermit_def Let_def
  by (intro within_rules tx_rules steps_refl_trans autocommit_within settle_within) (auto simp: settles_def same_permit_def)

lemma next_within:
  assumes "\<And>c. readmits c oper \<Longrightarrow> A c"
  shows "autonomy_steps A db (autonomy_next (known, oper) db)"
proof -
  have "io_within (autonomy_steps A) m \<Longrightarrow> autonomy_steps A db (snd (m db))" for m :: "(autonomy_db, 'b) io"
    by (simp add: io_within_def)
  note * = this
  show ?thesis
    using assms by (cases oper) (simp_all add: * readmits_def fenceLifecycleAdmission_def clearLifecycleAdmission_def
      lease_within lifecycle_within outside_within connect_within episode_within delivery_within transition_dyad_within
      transition_episode_within reclassify_within permit_within revoke_permit_within)
qed

lemma run_within:
  assumes "\<And>c known oper. (known, oper) \<in> set ops \<Longrightarrow> readmits c oper \<Longrightarrow> A c"
  shows "autonomy_steps A db (autonomy_run ops db)"
  using assms
proof (induction ops arbitrary: db)
  case Nil
  then show ?case by (simp add: autonomy_run_def)
next
  case (Cons first ops)
  obtain known oper where first: "first = (known, oper)" by (cases first)
  have "autonomy_steps A db (autonomy_next first db)"
    unfolding first by (rule next_within) (use Cons.prems first in auto)
  moreover have "autonomy_steps A (autonomy_next first db) (autonomy_run ops (autonomy_next first db))"
    by (rule Cons.IH) (use Cons.prems in auto)
  ultimately show ?case by (simp add: autonomy_run_def)
qed

lemma run_within_all: "autonomy_steps (\<lambda>_. True) db (autonomy_run ops db)"
  by (rule run_within) simp

end
