(* ===== verification/Autonomy_Rows.thy ===== *)
theory Autonomy_Rows
  imports Autonomy_Steps Icp_Laws
begin

text \<open>
  The rows of the shared autonomy store: a row that maps at all maps to itself, and every row of permits, invalidation
  fences and episodes is followed, over any run of operations, by a row that keeps what may not change.
\<close>

section \<open>Mapped rows are the rows\<close>

lemma safe_int_id: "requireSafeInteger i field = Inr j \<Longrightarrow> j = i"
  by (simp add: requireSafeInteger_def split: if_splits)

lemma timestamp_int: "requireTimestampValue (wire_int i) field = Inr j \<longleftrightarrow> j = i \<and> is_timestamp (jsint i)"
  by (auto simp: wire_int_def guard_simps)

lemma revision_int: "requireRevision (wire_int i) field = Inr j \<Longrightarrow> j = i"
  by (auto simp: wire_int_def requireRevision_def split: if_splits)

lemma member_optional_int:
  "member (optional_int k' v @ raw) k = (if k' = k \<and> v \<noteq> None then wire_int (the v) else member raw k)"
  by (auto simp: optional_int_def member_def split: option.splits)

lemma parse_permit_members:
  assumes "parseIcpInitiationPermit (Wire_object raw) usable = Inr p"
  shows "requireUuidValue (member raw ''permitId'') ''ICP initiation permit.permitId'' = Inr (ip_permitId p)"
    "requireUuidValue (member raw ''candidateId'') ''ICP initiation permit.candidateId'' = Inr (ip_candidateId p)"
    "requireUuidValue (member raw ''conversationId'') ''ICP initiation permit.conversationId'' = Inr (ip_conversationId p)"
    "requireUuidValue (member raw ''senderCompanionId'') ''ICP initiation permit.senderCompanionId'' = Inr (ip_senderCompanionId p)"
    "requireUuidValue (member raw ''recipientCompanionId'') ''ICP initiation permit.recipientCompanionId'' = Inr (ip_recipientCompanionId p)"
    "requireString (member raw ''channelId'') ''ICP initiation permit.channelId'' 512 = Inr (ip_channelId p)"
    "parseIcpProvenanceHandle (member raw ''provenanceRef'') ''ICP initiation permit.provenanceRef'' = Inr (ip_provenanceRef p)"
    "requireTimestampValue (member raw ''issuedAtMs'') ''ICP initiation permit.issuedAtMs'' = Inr (ip_issuedAtMs p)"
    "requireTimestampValue (member raw ''expiresAtMs'') ''ICP initiation permit.expiresAtMs'' = Inr (ip_expiresAtMs p)"
    "requireEnum (member raw ''status'') ICP_PERMIT_STATUSES ''ICP initiation permit.status'' = Inr (ip_status p)"
    "requireOptionalTimestamp (member raw ''consumedAtMs'') ''ICP initiation permit.consumedAtMs'' = Inr (ip_consumedAtMs p)"
    "requireOptionalTimestamp (member raw ''revokedAtMs'') ''ICP initiation permit.revokedAtMs'' = Inr (ip_revokedAtMs p)"
    "requireOptionalReason (member raw ''reasonCode'') ''ICP initiation permit.reasonCode'' = Inr (ip_reasonCode p)"
    "requireRevision (member raw ''revision'') ''ICP initiation permit.revision'' = Inr (ip_revision p)"
  using assms unfolding parseIcpInitiationPermit_def requireRecord_def wire.case rbind_simps
  by (simp_all only: rbind_eq_Inr throwIf_eq_Inr sum.inject)
    (elim exE conjE, hypsubst, simp only: initiation_permit.simps)+

lemma optional_timestamp_int:
  "requireOptionalTimestamp (if v \<noteq> None then wire_int (the v) else Wire_undefined) f = Inr r \<Longrightarrow> r = v"
  by (cases v) (auto simp: requireOptionalTimestamp_def timestamp_int rbind_eq_Inr wire_int_def guard_simps)

lemma status_name: "enum_at ICP_PERMIT_STATUSES (Wire_string (enum_name ICP_PERMIT_STATUSES s)) t \<Longrightarrow> t = s"
  by (cases s) (auto simp: enum_at_def ICP_PERMIT_STATUSES_def enum_name_def)

definition permit_raw :: "initiation_permit \<Rightarrow> (string \<times> wire) list" where
  "permit_raw row =
     [(''permitId'', Wire_string (ip_permitId row)), (''candidateId'', Wire_string (ip_candidateId row)),
      (''conversationId'', Wire_string (ip_conversationId row)),
      (''senderCompanionId'', Wire_string (ip_senderCompanionId row)),
      (''recipientCompanionId'', Wire_string (ip_recipientCompanionId row)),
      (''channelId'', Wire_string (ip_channelId row)), (''provenanceRef'', Wire_string (ip_provenanceRef row)),
      (''issuedAtMs'', wire_int (ip_issuedAtMs row)), (''expiresAtMs'', wire_int (ip_expiresAtMs row)),
      (''status'', Wire_string (enum_name ICP_PERMIT_STATUSES (ip_status row)))]
     @ optional_int ''consumedAtMs'' (ip_consumedAtMs row) @ optional_int ''revokedAtMs'' (ip_revokedAtMs row)
     @ optional_member ''reasonCode'' (ip_reasonCode row) @ [(''revision'', wire_int (ip_revision row))]"

lemma optional_safe_Inr:
  "(case v of None \<Rightarrow> Inr None | Some t \<Rightarrow> rbind (requireSafeInteger t f) (\<lambda>t. Inr (Some t))) = Inr r \<Longrightarrow> r = v"
  by (auto simp: rbind_eq_Inr dest: safe_int_id split: option.splits)

lemma mapPermit_raw:
  assumes "mapPermit row = Inr p"
  shows "parseIcpInitiationPermit (Wire_object (permit_raw row)) None = Inr p"
  using assms unfolding mapPermit_def rbind_eq_Inr
  apply (elim exE conjE)
  apply (drule safe_int_id optional_safe_Inr)+
  apply (simp only: permit_raw_def)
  done

lemma permit_raw_members:
  "member (permit_raw row) ''permitId'' = Wire_string (ip_permitId row)"
  "member (permit_raw row) ''candidateId'' = Wire_string (ip_candidateId row)"
  "member (permit_raw row) ''conversationId'' = Wire_string (ip_conversationId row)"
  "member (permit_raw row) ''senderCompanionId'' = Wire_string (ip_senderCompanionId row)"
  "member (permit_raw row) ''recipientCompanionId'' = Wire_string (ip_recipientCompanionId row)"
  "member (permit_raw row) ''channelId'' = Wire_string (ip_channelId row)"
  "member (permit_raw row) ''provenanceRef'' = Wire_string (ip_provenanceRef row)"
  "member (permit_raw row) ''issuedAtMs'' = wire_int (ip_issuedAtMs row)"
  "member (permit_raw row) ''expiresAtMs'' = wire_int (ip_expiresAtMs row)"
  "member (permit_raw row) ''status'' = Wire_string (enum_name ICP_PERMIT_STATUSES (ip_status row))"
  "member (permit_raw row) ''consumedAtMs'' = (if ip_consumedAtMs row \<noteq> None then wire_int (the (ip_consumedAtMs row)) else Wire_undefined)"
  "member (permit_raw row) ''revokedAtMs'' = (if ip_revokedAtMs row \<noteq> None then wire_int (the (ip_revokedAtMs row)) else Wire_undefined)"
  "member (permit_raw row) ''reasonCode'' = (if ip_reasonCode row \<noteq> None then Wire_string (the (ip_reasonCode row)) else Wire_undefined)"
  "member (permit_raw row) ''revision'' = wire_int (ip_revision row)"
  by (simp_all add: permit_raw_def member_optional_int)

lemma provenance_Inr: "parseIcpProvenanceHandle (Wire_string s) f = Inr t \<Longrightarrow> t = s"
  by (simp add: parseIcpProvenanceHandle_def Let_def split: if_splits)

lemma optional_reason_string:
  "requireOptionalReason (if v \<noteq> None then Wire_string (the v) else Wire_undefined) f = Inr r \<Longrightarrow> r = v"
  by (cases v) (auto simp: requireOptionalReason_def rbind_eq_Inr guard_simps enum_at_def map_of_self)

lemma mapPermit_Inr:
  assumes "mapPermit row = Inr p"
  shows "p = row"
proof -
  note m = parse_permit_members [OF mapPermit_raw [OF assms], unfolded permit_raw_members]
  show ?thesis
    using m(1-6) provenance_Inr [OF m(7)] m(8,9) [unfolded timestamp_int] status_name [OF m(10) [unfolded requireEnum_Inr]]
      optional_timestamp_int [OF m(11)] optional_timestamp_int [OF m(12)] optional_reason_string [OF m(13)] revision_int [OF m(14)]
    by (intro initiation_permit.equality) (auto simp: guard_simps)
qed

text \<open>A mapped dyad keeps the id, the lifecycle and both sides of its row.\<close>

definition side :: "string \<Rightarrow> dyad_relationship \<Rightarrow> bool \<Rightarrow> int \<Rightarrow> dyad_participant" where
  "side c r b t = \<lparr>dp_companionId = c, dp_relationshipState = r, dp_blocked = b, dp_updatedAtMs = t\<rparr>"

definition first_side :: "dyad_row \<Rightarrow> dyad_participant" where
  "first_side d = side (dr_first d) (dr_firstState d) (dr_firstBlocked d) (dr_firstUpdatedAtMs d)"

definition second_side :: "dyad_row \<Rightarrow> dyad_participant" where
  "second_side d = side (dr_second d) (dr_secondState d) (dr_secondBlocked d) (dr_secondUpdatedAtMs d)"

lemma relationship_name:
  "enum_at ICP_DYAD_RELATIONSHIP_STATES (Wire_string (enum_name ICP_DYAD_RELATIONSHIP_STATES s)) t \<Longrightarrow> t = s"
  by (cases s) (auto simp: enum_at_def ICP_DYAD_RELATIONSHIP_STATES_def enum_name_def)

lemma state_wire_Inr: "parse_dyad_state ps created i (state_wire c r b t) = Inr s \<Longrightarrow> s = side c r b t"
  by (auto simp: parse_dyad_state_def state_wire_def Let_def rbind_eq_Inr guard_simps case_bool_Inr wire_int_def side_def
      dest: relationship_name)

lemma parse_dyad_members:
  assumes "parseIcpDyad (Wire_object raw) known = Inr d" "member raw ''participantStates'' = Wire_array vs"
  shows "requireUuidValue (member raw ''dyadId'') ''ICP dyad.dyadId'' = Inr (dy_dyadId d)"
    "requireRevision (member raw ''lifecycleRevision'') ''ICP dyad.lifecycleRevision'' = Inr (dy_lifecycleRevision d)"
    "require_each (parse_dyad_state (dy_participantCompanionIds d) (dy_createdAtMs d)) 0 vs = Inr (dy_participantStates d)"
  using assms unfolding parseIcpDyad_def requireRecord_def wire.case rbind_simps
  by (simp_all only: rbind_eq_Inr throwIf_eq_Inr sum.inject wire.case if_Inl_Inr)
    (elim exE conjE, hypsubst, simp only: icp_dyad.simps)+

definition dyad_raw :: "dyad_row \<Rightarrow> (string \<times> wire) list" where
  "dyad_raw row =
     [(''dyadId'', Wire_string (dr_dyadId row)), (''channelId'', Wire_string (dr_channelId row)),
      (''participantCompanionIds'', wire_strings [dr_first row, dr_second row]),
      (''status'', Wire_string (enum_name ICP_DYAD_STATUSES (dr_status row))),
      (''participantStates'', Wire_array
        [state_wire (dr_first row) (dr_firstState row) (dr_firstBlocked row) (dr_firstUpdatedAtMs row),
         state_wire (dr_second row) (dr_secondState row) (dr_secondBlocked row) (dr_secondUpdatedAtMs row)]),
      (''createdAtMs'', wire_int (dr_createdAtMs row)), (''provenanceConversationIds'', wire_strings (dr_provenance row)),
      (''lifecycleRevision'', wire_int (dr_lifecycleRevision row)), (''revision'', wire_int (dr_revision row))]"

lemma mapDyad_raw:
  assumes "mapDyad known row = Inr d"
  shows "parseIcpDyad (Wire_object (dyad_raw row)) (Some known) = Inr d"
  using assms unfolding mapDyad_def rbind_eq_Inr
  apply (elim exE conjE)
  apply (drule safe_int_id)+
  apply (simp only: dyad_raw_def)
  done

lemma mapDyad_Inr:
  assumes "mapDyad known row = Inr d"
  shows "dy_dyadId d = dr_dyadId row" "dy_lifecycleRevision d = dr_lifecycleRevision row"
    "dy_participantStates d = [first_side row, second_side row]"
    "dy_status d = resolveIcpDyadStatus [first_side row, second_side row]"
proof -
  note parsed = mapDyad_raw [OF assms]
  have states: "member (dyad_raw row) ''participantStates'' = Wire_array
        [state_wire (dr_first row) (dr_firstState row) (dr_firstBlocked row) (dr_firstUpdatedAtMs row),
         state_wire (dr_second row) (dr_secondState row) (dr_secondBlocked row) (dr_secondUpdatedAtMs row)]"
    by (simp add: dyad_raw_def)
  note m = parse_dyad_members [OF parsed states]
  show "dy_dyadId d = dr_dyadId row" using m(1) by (simp add: dyad_raw_def guard_simps)
  show "dy_lifecycleRevision d = dr_lifecycleRevision row" using m(2) by (auto simp: dyad_raw_def dest: revision_int)
  show sides: "dy_participantStates d = [first_side row, second_side row]"
    using m(3) by (auto simp: rbind_eq_Inr first_side_def second_side_def dest!: state_wire_Inr)
  show "dy_status d = resolveIcpDyadStatus [first_side row, second_side row]"
    using parse_dyad_facts(1) [OF parsed] sides by simp
qed

section \<open>Rows along a run\<close>

text \<open>
  A table whose rows are only ever replaced by rows that follow them.
\<close>

locale tracked_rows =
  fixes rows :: "autonomy_db \<Rightarrow> 'r list"
    and follows :: "'r \<Rightarrow> 'r \<Rightarrow> bool"
    and A :: "string \<Rightarrow> bool"
  assumes follows_refl: "follows r r"
    and follows_trans: "follows r s \<Longrightarrow> follows s t \<Longrightarrow> follows r t"
    and step_tracks: "autonomy_step A db db' \<Longrightarrow> r \<in> set (rows db) \<Longrightarrow> \<exists>r' \<in> set (rows db'). follows r r'"
begin

lemma steps_track:
  assumes "autonomy_steps A db db'" "r \<in> set (rows db)"
  shows "\<exists>r' \<in> set (rows db'). follows r r'"
  using assms by (induction) (blast intro: follows_refl, meson follows_trans step_tracks)

lemma run_tracks:
  assumes "\<And>c known oper. (known, oper) \<in> set ops \<Longrightarrow> readmits c oper \<Longrightarrow> A c" "r \<in> set (rows db)"
  shows "\<exists>r' \<in> set (rows (autonomy_run ops db)). follows r r'"
  using steps_track [OF run_within] assms by blast

end

lemma update_where_follows:
  "r \<in> set rs \<Longrightarrow> (P r \<Longrightarrow> R r (f r)) \<Longrightarrow> R r r \<Longrightarrow> \<exists>r' \<in> set (update_where P f rs). R r r'"
  unfolding set_update_where by (rule bexI [of _ "if P r then f r else r"]) auto

definition permit_follows :: "initiation_permit \<Rightarrow> initiation_permit \<Rightarrow> bool" where
  "permit_follows p p' \<longleftrightarrow> same_permit p p' \<and> (ip_status p \<noteq> Permit_issued \<longrightarrow> p' = p)"

interpretation permits: tracked_rows au_permits permit_follows A for A
proof
  show "permit_follows r r" for r by (simp add: permit_follows_def same_permit_def)
  show "permit_follows r s \<Longrightarrow> permit_follows s t \<Longrightarrow> permit_follows r t" for r s t
    by (auto simp: permit_follows_def same_permit_def)
  show "\<exists>r' \<in> set (au_permits db'). permit_follows r r'" if "autonomy_step A db db'" "r \<in> set (au_permits db)" for db db' r
    using that
  proof (cases rule: autonomy_step.cases)
    case (Settle P f)
    then show ?thesis using that(2)
      by (auto intro!: update_where_follows simp: settles_def permit_follows_def same_permit_def)
  qed (auto simp: permit_follows_def same_permit_def intro!: bexI [of _ r])
qed

definition fence_follows :: "(string \<Rightarrow> bool) \<Rightarrow> invalidation_row \<Rightarrow> invalidation_row \<Rightarrow> bool" where
  "fence_follows A f f' \<longleftrightarrow> iv_companionId f' = iv_companionId f \<and> iv_generation f \<le> iv_generation f'
     \<and> (iv_lifecycleFenced f \<longrightarrow> \<not> A (iv_companionId f) \<longrightarrow> iv_lifecycleFenced f')"

interpretation fences: tracked_rows au_fences "fence_follows A" A for A
proof
  show "fence_follows A r r" for r by (simp add: fence_follows_def)
  show "fence_follows A r s \<Longrightarrow> fence_follows A s t \<Longrightarrow> fence_follows A r t" for r s t
    by (auto simp: fence_follows_def)
  show "\<exists>r' \<in> set (au_fences db'). fence_follows A r r'" if "autonomy_step A db db'" "r \<in> set (au_fences db)" for db db' r
    using that
  proof (cases rule: autonomy_step.cases)
    case (Invalidate c now reason)
    then show ?thesis using that(2) by (auto intro!: update_where_follows simp: fence_follows_def bumped_def)
  next
    case (Admission c b)
    then show ?thesis using that(2) by (auto intro!: update_where_follows simp: fence_follows_def)
  qed (auto simp: fence_follows_def intro!: bexI [of _ r])
qed

text \<open>The statuses an episode may pass through.\<close>

definition status_edge :: "conversation_status \<Rightarrow> conversation_status \<Rightarrow> bool" where
  "status_edge s t \<longleftrightarrow> t \<in> set (CONVERSATION_TRANSITIONS s)"

definition episode_follows :: "conversation_row \<Rightarrow> conversation_row \<Rightarrow> bool" where
  "episode_follows e e' \<longleftrightarrow> same_episode e e' \<and> status_edge\<^sup>*\<^sup>* (cv_status e) (cv_status e')
     \<and> cv_revision e \<le> cv_revision e' \<and> cv_lastActivityAtMs e \<le> cv_lastActivityAtMs e'"

lemma episode_edge_follows: "episode_edge e e' \<Longrightarrow> episode_follows e e'"
  by (auto simp: episode_edge_def episode_follows_def status_edge_def)

lemma episode_follows_refl: "episode_follows e e"
  by (simp add: episode_follows_def same_episode_def)

interpretation episodes: tracked_rows au_episodes episode_follows A for A
proof
  show "episode_follows r r" for r by (rule episode_follows_refl)
  show "episode_follows r s \<Longrightarrow> episode_follows s t \<Longrightarrow> episode_follows r t" for r s t
    by (auto simp: episode_follows_def same_episode_def intro: rtranclp_trans)
  show "\<exists>r' \<in> set (au_episodes db'). episode_follows r r'" if "autonomy_step A db db'" "r \<in> set (au_episodes db)" for db db' r
    using that
  proof (cases rule: autonomy_step.cases)
    case (Moved P f)
    then show ?thesis using that(2)
      by (auto intro!: update_where_follows episode_edge_follows episode_follows_refl)
  qed (auto intro!: bexI [of _ r] episode_follows_refl)
qed

lemma step_ok: "autonomy_step A db db' \<Longrightarrow> autonomy_ok db'"
  by (erule autonomy_step.cases) simp_all

lemma steps_ok: "autonomy_steps A db db' \<Longrightarrow> autonomy_ok db \<Longrightarrow> autonomy_ok db'"
  by (induction rule: rtranclp_induct) (simp_all add: step_ok)

lemma run_ok: "autonomy_ok db \<Longrightarrow> autonomy_ok (autonomy_run ops db)"
  using steps_ok [OF run_within_all] .

end
