(* ===== verification/Autonomy_Laws.thy ===== *)
theory Autonomy_Laws
  imports Autonomy_Rows
begin

text \<open>
  What the shared autonomy store guarantees over any run of its operations: a permit is consumed once, a fenced companion
  stays silent until it is readmitted, an invalidation spends the fences captured before it, episodes and dyads keep to
  their lifecycles, and availability follows rank and revision.
\<close>

section \<open>Permits\<close>

lemma withPostgresClient_eq: "withPostgresClient m db = (Inr x, db') \<longleftrightarrow> m db = Inr (x, db')"
  by (auto simp: withPostgresClient_def split: sum.splits prod.splits)

lemma distinct_row: "distinct (map g xs) \<Longrightarrow> x \<in> set xs \<Longrightarrow> y \<in> set xs \<Longrightarrow> g x = g y \<Longrightarrow> x = y"
  by (simp add: distinct_map inj_on_def)

lemma permit_ids: "autonomy_ok db \<Longrightarrow> distinct (map ip_permitId (au_permits db))"
  by (simp add: autonomy_ok_def keys_unique_def)

lemma fence_ids: "autonomy_ok db \<Longrightarrow> distinct (map iv_companionId (au_fences db))"
  by (simp add: autonomy_ok_def keys_unique_def)

lemma find_permit_row: "autonomy_ok db \<Longrightarrow> p \<in> set (au_permits db) \<Longrightarrow> find_permit (ip_permitId p) db = Some p"
  unfolding find_permit_def by (rule find_distinct [OF permit_ids])

lemma reopen_keeps: "reopen_dyad known c now db = Inr (x, db') \<Longrightarrow> au_permits db' = au_permits db \<and> au_fences db' = au_fences db \<and> (autonomy_ok db \<longrightarrow> autonomy_ok db')"
  by (auto simp: reopen_dyad_def statement_def tx_Inr split: option.splits if_splits)

text \<open>What a consumption that answers has done.\<close>

lemma consume_cases:
  assumes "consumePermit known i db = (Inr (outcome, q), db')"
  obtains (Consumed) now p d where "outcome = Outcome_consumed" "q = Some (consumed now p)" "p \<in> set (au_permits db)" "consumable i now p"
      "lockInvalidationFence (pm_expectedInvalidationFence i) (pm_senderCompanionId i) (pm_recipientCompanionId i) d db = Inr None"
      "au_permits db' = update_where (consumable i now) (consumed now) (au_permits db)" "autonomy_ok db'"
  | (Explained) now reason where "explain_tx i now reason db = Inr ((outcome, q), db')" "outcome \<noteq> Outcome_consumed"
proof -
  obtain now where tx: "consume_tx known i now db = Inr ((outcome, q), db')"
    using assms by (auto simp: consumePermit_def io_Inr withPostgresClient_eq)
  define d where "d = has_dyad (pm_conversationId i) db"
  obtain reason where lock: "lockInvalidationFence (pm_expectedInvalidationFence i) (pm_senderCompanionId i)
      (pm_recipientCompanionId i) d db = Inr reason"
    and rest: "(case (reason, find (consumable i now) (au_permits db)) of
       (None, Some row) \<Rightarrow>
         txbind (statement (\<lambda>db. db\<lparr>au_permits := update_where (consumable i now) (consumed now) (au_permits db)\<rparr>)) (\<lambda>_.
         txbind (reopen_dyad known (pm_conversationId i) now) (\<lambda>_.
         txbind (txpure (mapPermit (consumed now row))) (\<lambda>p. txret (Outcome_consumed, Some p))))
     | _ \<Rightarrow> explain_tx i now reason) db = Inr ((outcome, q), db')"
    using tx unfolding consume_tx_def d_def by (simp only: tx_Inr) (elim exE conjE, hypsubst, blast)
  show ?thesis
  proof (cases "reason = None \<and> find (consumable i now) (au_permits db) \<noteq> None")
    case True
    then obtain row where row: "find (consumable i now) (au_permits db) = Some row" "reason = None" by blast
    then show ?thesis
      using rest lock find_Some_iff' [OF row(1)]
      by (auto simp: tx_Inr statement_def dest!: reopen_keeps mapPermit_Inr intro!: Consumed)
  next
    case False
    then have "explain_tx i now reason db = Inr ((outcome, q), db')" using rest by (auto split: option.splits)
    moreover from this have "outcome \<noteq> Outcome_consumed"
      by (auto simp: explain_tx_def tx_Inr split: option.splits if_splits)
    ultimately show ?thesis by (rule Explained)
  qed
qed

lemma explain_settled:
  assumes "explain_tx i now reason db = Inr ((outcome, q), db')" "find_permit (pm_permitId i) db = Some p"
  shows "ip_status p = Permit_consumed \<Longrightarrow> outcome \<in> {Outcome_replayed, Outcome_mismatch}"
    and "ip_status p = Permit_revoked \<Longrightarrow> outcome \<in> {Outcome_revoked, Outcome_mismatch}"
    and "ip_status p = Permit_expired \<Longrightarrow> outcome \<in> {Outcome_expired, Outcome_mismatch}"
  using assms by (auto simp: explain_tx_def tx_Inr dest!: mapPermit_Inr split: option.splits if_splits)

text \<open>A settled permit stays as it is, and no consumption consumes it.\<close>

lemma settled_final:
  assumes "autonomy_ok db" "p \<in> set (au_permits db)" "ip_status p \<noteq> Permit_issued"
  shows "find_permit (ip_permitId p) (autonomy_run ops db) = Some p"
proof -
  obtain p' where "p' \<in> set (au_permits (autonomy_run ops db))" "permit_follows p p'"
    using permits.run_tracks [of ops "\<lambda>_. True"] assms(2) by blast
  then have "p \<in> set (au_permits (autonomy_run ops db))" using assms(3) by (simp add: permit_follows_def)
  then show ?thesis using find_permit_row run_ok [OF assms(1)] by blast
qed

lemma not_consumable:
  assumes "find_permit (pm_permitId i) db = Some p" "ip_status p \<noteq> Permit_issued" "autonomy_ok db"
    "consumePermit known i db = (Inr (outcome, q), db')"
  obtains now reason where "explain_tx i now reason db = Inr ((outcome, q), db')"
  using assms(4)
proof (cases rule: consume_cases)
  case (Consumed now r d)
  have "p \<in> set (au_permits db)" "ip_permitId p = pm_permitId i"
    using assms(1) find_Some_iff' unfolding find_permit_def by fastforce+
  then have "r = p"
    using Consumed(3,4) distinct_row [OF permit_ids [OF assms(3)]] by (auto simp: consumable_def)
  with Consumed(4) assms(2) show ?thesis by (simp add: consumable_def)
qed (rule that)

lemma consumed_row:
  assumes "consumePermit known i db = (Inr (Outcome_consumed, q), db')"
  obtains p where "p \<in> set (au_permits db')" "ip_permitId p = pm_permitId i" "ip_status p = Permit_consumed" "autonomy_ok db'"
  using assms
proof (cases rule: consume_cases)
  case (Consumed now p d)
  then have "consumed now p \<in> set (au_permits db')" by (auto simp: set_update_where)
  with Consumed that show ?thesis by (simp add: consumed_def consumable_def)
qed simp

text \<open>
  C3. A permit is consumed at most once: after a consumption has answered consumed, whatever operations follow, a later
  consumption of the same permit that answers at all answers replayed or mismatch.
\<close>

theorem permit_consumed_once:
  assumes "consumePermit known i db = (Inr (Outcome_consumed, q), db')" "pm_permitId j = pm_permitId i"
    "consumePermit known' j (autonomy_run ops db') = (Inr (outcome, r), db'')"
  shows "outcome = Outcome_replayed \<or> outcome = Outcome_mismatch"
proof -
  obtain p where p: "p \<in> set (au_permits db')" "ip_permitId p = pm_permitId i" "ip_status p = Permit_consumed" "autonomy_ok db'"
    using assms(1) by (rule consumed_row)
  then have found: "find_permit (pm_permitId j) (autonomy_run ops db') = Some p"
    using settled_final [OF p(4,1)] assms(2) by simp
  obtain now reason where "explain_tx j now reason (autonomy_run ops db') = Inr ((outcome, r), db'')"
    using not_consumable [OF found _ run_ok [OF p(4)] assms(3)] p(3) by auto
  from explain_settled(1) [OF this found p(3)] show ?thesis by simp
qed

section \<open>Lifecycle fences\<close>

lemma fenced_isLifecycle: "autonomy_ok db \<Longrightarrow> isRfc4122Uuid c \<Longrightarrow> isLifecycleAdmissionFenced c db = Inr (fenced c db)"
proof -
  assume ok: "autonomy_ok db" and uuid: "isRfc4122Uuid c"
  have "(case find_fence c db of None \<Rightarrow> False | Some f \<Rightarrow> iv_lifecycleFenced f) = fenced c db"
  proof (cases "find_fence c db")
    case None
    then have "\<not> fenced c db" by (auto simp: find_fence_def find_None_iff fenced_iff)
    with None show ?thesis by simp
  next
    case (Some f)
    then have "f \<in> set (au_fences db)" "iv_companionId f = c" using find_Some_iff' unfolding find_fence_def by fastforce+
    then show ?thesis using Some distinct_row [OF fence_ids [OF ok]] by (auto simp: fenced_iff)
  qed
  then show ?thesis by (simp add: isLifecycleAdmissionFenced_def requireUuidText_def requireUuidValue_def uuid)
qed

definition quiet :: "autonomy_db \<Rightarrow> bool" where
  "quiet db \<longleftrightarrow> (\<forall>c. fenced c db \<longrightarrow> \<not> engaged c db)"

lemma step_quiet:
  assumes "autonomy_step A db db'" "quiet db"
  shows "quiet db'"
  using assms
proof (cases rule: autonomy_step.cases)
  case (Settle P f)
  have "engaged c db' \<Longrightarrow> engaged c db" for c
    using Settle unfolding engaged_iff by (auto simp: set_update_where settles_def split: if_splits)
  then show ?thesis using Settle assms(2) by (auto simp: quiet_def fenced_def)
next
  case (Issued p)
  then show ?thesis using assms(2) by (auto simp: quiet_def fenced_def engaged_iff touches_def)
next
  case (Invalidate c now reason)
  have "fenced x db' \<Longrightarrow> fenced x db" for x
    unfolding Invalidate(1) fenced_iff by (auto simp: set_update_where bumped_def)
  then show ?thesis using Invalidate assms(2) by (auto simp: quiet_def engaged_def)
next
  case (Admission c b)
  have "fenced x db' \<Longrightarrow> fenced x db \<or> x = c" for x
    unfolding Admission(1) fenced_iff by (auto simp: set_update_where split: if_splits)
  moreover have "engaged x db' = engaged x db" for x unfolding Admission(1) engaged_def by simp
  ultimately show ?thesis using Admission(3) assms(2) unfolding quiet_def by metis
next
  case (Fences cs)
  have "fenced x db' = fenced x db" for x
    unfolding Fences(1) fenced_iff by (auto simp: fresh_fence_def)
  then show ?thesis using Fences assms(2) by (simp add: quiet_def engaged_def)
qed (simp_all add: quiet_def fenced_def engaged_def)

lemma steps_quiet: "autonomy_steps A db db' \<Longrightarrow> quiet db \<Longrightarrow> quiet db'"
  by (induction rule: rtranclp_induct) (auto intro: step_quiet)

lemma run_quiet: "quiet db \<Longrightarrow> quiet (autonomy_run ops db)"
  using steps_quiet [OF run_within_all] .

definition empty_autonomy :: autonomy_db where
  "empty_autonomy = \<lparr>au_availability = [], au_episodes = [], au_dyads = [], au_permits = [], au_deliveries = [], au_fences = []\<rparr>"

lemma empty_autonomy_ok: "autonomy_ok empty_autonomy" "quiet empty_autonomy"
  by (simp_all add: empty_autonomy_def autonomy_ok_def keys_unique_def references_ok_def outstanding_def quiet_def fenced_def)

lemma stays_fenced:
  assumes "fenced c db" "\<And>known oper. (known, oper) \<in> set ops \<Longrightarrow> \<not> readmits c oper"
  shows "fenced c (autonomy_run ops db)"
proof -
  obtain f where "f \<in> set (au_fences db)" "iv_companionId f = c" "iv_lifecycleFenced f" using assms(1) by (auto simp: fenced_iff)
  then obtain f' where "f' \<in> set (au_fences (autonomy_run ops db))" "fence_follows (\<lambda>x. x \<noteq> c) f f'"
    using fences.run_tracks [of ops "\<lambda>x. x \<noteq> c" f db] assms(2) by blast
  then show ?thesis using \<open>iv_companionId f = c\<close> \<open>iv_lifecycleFenced f\<close> by (auto simp: fence_follows_def fenced_iff)
qed

lemma issue_locked:
  assumes "issuePermit w fence db = (Inr p, db')"
  obtains d where "lockInvalidationFence fence (ip_senderCompanionId p) (ip_recipientCompanionId p) d db = Inr None"
proof -
  obtain permit where "issue_tx permit fence db = Inr (p, db')"
    using assms by (auto simp: issuePermit_def io_Inr withPostgresClient_eq split: if_splits)
  then obtain d where "lockInvalidationFence fence (ip_senderCompanionId permit) (ip_recipientCompanionId permit) d db = Inr None"
    and "p = new_permit permit"
    by (auto simp: issue_tx_def insert_permit_def tx_Inr dest!: mapPermit_Inr split: option.splits if_splits)
  then show ?thesis using that by (simp add: new_permit_def)
qed

lemma create_locked:
  assumes "createEpisodeAndIssuePermit known e w fence db = (Inr (d, episode, p), db')"
  obtains d' where "lockInvalidationFence fence (ip_senderCompanionId p) (ip_recipientCompanionId p) d' db = Inr None"
proof -
  obtain ep permit where "create_and_issue_tx known ep permit fence db = Inr ((d, episode, p), db')"
    using assms by (auto simp: createEpisodeAndIssuePermit_def io_Inr withPostgresClient_eq split: if_splits)
  then obtain d' where "lockInvalidationFence fence (ip_senderCompanionId permit) (ip_recipientCompanionId permit) d' db = Inr None"
    and "p = new_permit permit"
    by (auto simp: create_and_issue_eq insert_permit_def tx_Inr dest!: mapPermit_Inr split: option.splits if_splits prod.splits)
  then show ?thesis using that by (simp add: new_permit_def)
qed

lemma consume_locked:
  assumes "consumePermit known i db = (Inr (Outcome_consumed, q), db')"
  obtains d p where "q = Some p" "ip_senderCompanionId p = pm_senderCompanionId i" "ip_recipientCompanionId p = pm_recipientCompanionId i"
    "lockInvalidationFence (pm_expectedInvalidationFence i) (pm_senderCompanionId i) (pm_recipientCompanionId i) d db = Inr None"
  using assms
proof (cases rule: consume_cases)
  case (Consumed now r d)
  then show ?thesis using that by (simp add: consumed_def consumable_def permitMatches_def)
qed simp

text \<open>
  C6. A companion fenced by lifecycle administration stays silent: in any state that operations reach from empty tables,
  and through any further operations that do not readmit it, it stays fenced, holds no outstanding permit, and no
  operation issues or consumes a permit from or to it.
\<close>

theorem fenced_companion_silent:
  assumes "isLifecycleAdmissionFenced c (autonomy_run before empty_autonomy) = Inr True"
    and "\<forall>(known, oper) \<in> set ops. \<not> readmits c oper"
  shows "let db = autonomy_run ops (autonomy_run before empty_autonomy) in
     isLifecycleAdmissionFenced c db = Inr True \<and> \<not> engaged c db
     \<and> (\<forall>w fence p db'. issuePermit w fence db = (Inr p, db') \<longrightarrow> \<not> touches c p)
     \<and> (\<forall>known e w fence d ep p db'. createEpisodeAndIssuePermit known e w fence db = (Inr (d, ep, p), db') \<longrightarrow> \<not> touches c p)
     \<and> (\<forall>known i p db'. consumePermit known i db = (Inr (Outcome_consumed, Some p), db') \<longrightarrow> \<not> touches c p)"
proof -
  define db where "db = autonomy_run ops (autonomy_run before empty_autonomy)"
  have ok: "autonomy_ok (autonomy_run before empty_autonomy)" "autonomy_ok db" "quiet db"
    unfolding db_def by (intro run_ok run_quiet empty_autonomy_ok)+
  have uuid: "isRfc4122Uuid c"
    using assms(1) by (auto simp: isLifecycleAdmissionFenced_def rbind_eq_Inr dest: requireUuidText_Inr)
  have "fenced c (autonomy_run before empty_autonomy)"
    using assms(1) fenced_isLifecycle [OF ok(1) uuid] by simp
  then have "fenced c db" unfolding db_def by (rule stays_fenced) (use assms(2) in auto)
  then show ?thesis
    unfolding Let_def db_def [symmetric]
    using fenced_isLifecycle [OF ok(2) uuid] ok(3)
    by (auto simp: quiet_def touches_def dest: lock_passed elim!: issue_locked create_locked consume_locked)
qed

section \<open>Captured fences\<close>

lemma fence_generations:
  "fenceConflictReason entries rows = Inr None \<Longrightarrow> (c, g) \<in> set entries \<Longrightarrow>
     \<exists>r. find (\<lambda>r. iv_companionId r = c) rows = Some r \<and> iv_generation r = g"
  by (induction entries rows rule: fenceConflictReason.induct) (auto split: option.splits if_splits)

lemma map_rows_mem: "map_rows f rs = Inr xs \<Longrightarrow> r \<in> set rs \<Longrightarrow> \<exists>x \<in> set xs. f r = Inr x"
  by (induction rs arbitrary: xs) (auto simp: rbind_eq_Inr)

lemma normalizeFence_mem:
  assumes "normalizeFence fence a b = Inr expected" "(c, n) \<in> set (af_companions fence)"
  shows "(c, intval n) \<in> set (cf_companions expected)"
proof -
  obtain entries where entries: "map_rows require_entry (List.enumerate 0 (af_companions fence)) = Inr entries"
    and expected: "cf_companions expected = sort_key fst entries"
    using assms by (auto simp: normalizeFence_def rbind_eq_Inr throwIf_eq_Inr Let_def)
  obtain i where "i < length (af_companions fence)" "af_companions fence ! i = (c, n)"
    using assms(2) by (auto simp: in_set_conv_nth)
  then have "(i, c, n) \<in> set (List.enumerate 0 (af_companions fence))" by (simp add: in_set_enumerate_eq)
  then obtain e where "e \<in> set entries" "require_entry (i, c, n) = Inr e" using map_rows_mem [OF entries] by blast
  then show ?thesis
    by (auto simp: expected require_entry_def Let_def rbind_eq_Inr requireNonNegativeSafeInteger_def
        dest!: requireUuidText_Inr split: if_splits)
qed

lemma lock_generation:
  assumes "lockInvalidationFence fence a b d db = Inr None" "(c, n) \<in> set (af_companions fence)"
  shows "\<exists>f \<in> set (au_fences db). iv_companionId f = c \<and> iv_generation f = intval n"
proof -
  obtain expected rows where "normalizeFence fence a b = Inr expected" and rows: "set rows \<subseteq> set (au_fences db)"
    and "fenceConflictReason (cf_companions expected) rows = Inr None"
    using assms(1) by (rule lock_Inr_None) (metis filter_is_subset)
  then obtain r where r: "find (\<lambda>r. iv_companionId r = c) rows = Some r" "iv_generation r = intval n"
    using fence_generations normalizeFence_mem assms(2) by blast
  then show ?thesis using find_Some_iff' [OF r(1)] rows by auto
qed

definition fence_entry :: "invalidation_row \<Rightarrow> (string \<times> jsnum) result" where
  "fence_entry r = rbind (requireUuidText (iv_companionId r) ''invalidationFence.companionId'') (\<lambda>i.
     rbind (requireSafeInteger (iv_generation r) ''invalidationFence.generation'') (\<lambda>g. Inr (i, jsint g)))"

lemma capture_rows:
  assumes "captureInvalidationFence a b db later = Inr fence"
  shows "a \<noteq> b \<and> length (sort_key iv_companionId (filter (\<lambda>r. iv_companionId r = a \<or> iv_companionId r = b) (au_fences db))) = 2
    \<and> map_rows fence_entry (sort_key iv_companionId (filter (\<lambda>r. iv_companionId r = a \<or> iv_companionId r = b) (au_fences db)))
       = Inr (af_companions fence)"
  using assms unfolding captureInvalidationFence_def Let_def fence_entry_def [symmetric] rbind_eq_Inr throwIf_eq_Inr not_not
  apply (elim exE conjE)
  apply (drule requireUuidText_Inr)+
  apply (elim conjE, hypsubst)
  apply (intro conjI; (assumption | simp only: rbind_eq_Inr split: option.splits))
  apply (auto split: option.splits)
  done

lemma capture_generation:
  assumes "autonomy_ok db" "captureInvalidationFence a b db later = Inr fence" "c = a \<or> c = b"
  obtains f where "f \<in> set (au_fences db)" "iv_companionId f = c" "(c, jsint (iv_generation f)) \<in> set (af_companions fence)"
proof -
  let ?rows = "filter (\<lambda>r. iv_companionId r = a \<or> iv_companionId r = b) (au_fences db)"
  obtain companions where ab: "a \<noteq> b" "length ?rows = 2" and mapped: "map_rows fence_entry (sort_key iv_companionId ?rows) = Inr companions"
    and fence: "af_companions fence = companions"
    using capture_rows [OF assms(2)] by auto
  have "distinct (map iv_companionId ?rows)" by (rule distinct_map_filter [OF fence_ids [OF assms(1)]])
  then have "card (set (map iv_companionId ?rows)) = 2" using ab(2) by (simp only: distinct_card length_map)
  then have "set (map iv_companionId ?rows) = {a, b}" using ab(1) by (intro card_subset_eq) auto
  then have "c \<in> set (map iv_companionId ?rows)" using assms(3) by (simp only: insert_iff empty_iff simp_thms)
  then obtain f where f: "f \<in> set ?rows" "iv_companionId f = c" unfolding set_map by blast
  then obtain x where "x \<in> set companions" "fence_entry f = Inr x" using map_rows_mem [OF mapped, of f] by auto
  then have "(c, jsint (iv_generation f)) \<in> set (af_companions fence)"
    using f(2) fence by (auto simp: fence_entry_def rbind_eq_Inr dest!: requireUuidText_Inr safe_int_id)
  with f show ?thesis by (intro that) auto
qed

lemma revoke_for_bumps:
  assumes "revokeOutstandingPermitsForCompanion c now reason db = (Inr ps, db')" "f \<in> set (au_fences db)" "iv_companionId f = c"
  shows "autonomy_ok db'" "\<exists>f' \<in> set (au_fences db'). iv_companionId f' = c \<and> iv_generation f' = iv_generation f + 1"
proof -
  obtain t reason' where tx: "invalidateCompanion c t reason' db = Inr (ps, db')"
    using assms(1) by (auto simp: revokeOutstandingPermitsForCompanion_def io_Inr withPostgresClient_eq iopure_def
        dest!: requireUuidText_Inr)
  then show "autonomy_ok db'"
    by (auto simp: invalidateCompanion_def revoke_where_def statement_def tx_Inr split: if_splits)
  from tx have "au_fences db' = update_where (\<lambda>f. iv_companionId f = c) (bumped t reason') (au_fences db)"
    by (auto simp: invalidateCompanion_def bumped_def [symmetric] revoke_where_def statement_def tx_Inr split: if_splits)
  then have "bumped t reason' f \<in> set (au_fences db')"
    using assms(2,3) by (auto simp: set_update_where)
  then show "\<exists>f' \<in> set (au_fences db'). iv_companionId f' = c \<and> iv_generation f' = iv_generation f + 1"
    by (rule bexI [rotated]) (simp add: bumped_def assms(3))
qed

text \<open>
  C11. An invalidation spends every fence captured before it: once the permits of either companion of a captured fence have
  been revoked, no later operation that carries that fence issues or consumes a permit.
\<close>

theorem stale_fence_refused:
  assumes "autonomy_ok db" "captureInvalidationFence a b db later = Inr fence" "c = a \<or> c = b"
    "revokeOutstandingPermitsForCompanion c now reason (autonomy_run ops db) = (Inr ps, db1)"
  shows "let db2 = autonomy_run ops' db1 in
     (\<forall>w p db'. issuePermit w fence db2 \<noteq> (Inr p, db'))
     \<and> (\<forall>known e w x db'. createEpisodeAndIssuePermit known e w fence db2 \<noteq> (Inr x, db'))
     \<and> (\<forall>known i q db'. pm_expectedInvalidationFence i = fence \<longrightarrow> consumePermit known i db2 \<noteq> (Inr (Outcome_consumed, q), db'))"
proof -
  define db2 where "db2 = autonomy_run ops' db1"
  obtain f where f: "f \<in> set (au_fences db)" "iv_companionId f = c" "(c, jsint (iv_generation f)) \<in> set (af_companions fence)"
    using capture_generation [OF assms(1-3)] by blast
  obtain g where g: "g \<in> set (au_fences (autonomy_run ops db))" "iv_companionId g = c" "iv_generation f \<le> iv_generation g"
    using fences.run_tracks [of ops "\<lambda>_. True", OF _ f(1)] f(2) by (auto simp: fence_follows_def)
  obtain h where h: "h \<in> set (au_fences db1)" "iv_companionId h = c" "iv_generation h = iv_generation g + 1"
    using revoke_for_bumps(2) [OF assms(4) g(1,2)] by blast
  obtain k where k: "k \<in> set (au_fences db2)" "iv_companionId k = c" "iv_generation h \<le> iv_generation k"
    using fences.run_tracks [of ops' "\<lambda>_. True", OF _ h(1)] h(2) by (auto simp: fence_follows_def db2_def)
  have ok: "autonomy_ok db2" unfolding db2_def by (rule run_ok [OF revoke_for_bumps(1) [OF assms(4) g(1,2)]])
  have refused: "lockInvalidationFence fence x y d db2 \<noteq> Inr None" for x y d
  proof
    assume "lockInvalidationFence fence x y d db2 = Inr None"
    then obtain f' where f': "f' \<in> set (au_fences db2)" "iv_companionId f' = c" "iv_generation f' = iv_generation f"
      by (auto dest: lock_generation [OF _ f(3)])
    have "k = f'" by (rule distinct_row [OF fence_ids [OF ok] k(1) f'(1)]) (simp add: k f')
    with f' k g h show False by simp
  qed
  then show ?thesis
    unfolding Let_def db2_def [symmetric] by (auto elim!: issue_locked create_locked consume_locked)
qed

section \<open>Episodes\<close>

text \<open>
  C34. An episode keeps its binding for ever: over any run of operations its channel, participants, initiator, origin and
  dyad stay, its revision and last activity never go back, and its status only follows the edges of the conversation
  lifecycle; the ended, declined and suppressed ones keep their status.
\<close>

theorem episode_lifecycle:
  assumes "e \<in> set (au_episodes db)"
  shows "\<exists>e' \<in> set (au_episodes (autonomy_run ops db)). same_episode e e' \<and> cv_revision e \<le> cv_revision e'
     \<and> cv_lastActivityAtMs e \<le> cv_lastActivityAtMs e' \<and> status_edge\<^sup>*\<^sup>* (cv_status e) (cv_status e')
     \<and> (cv_status e \<in> {Conversation_ended, Conversation_declined, Conversation_suppressed} \<longrightarrow> cv_status e' = cv_status e)"
proof -
  obtain e' where e': "e' \<in> set (au_episodes (autonomy_run ops db))" "episode_follows e e'"
    using episodes.run_tracks [of ops "\<lambda>_. True", OF _ assms] by blast
  have "status_edge\<^sup>*\<^sup>* s t \<Longrightarrow> CONVERSATION_TRANSITIONS s = [] \<Longrightarrow> t = s" for s t
    by (induction rule: rtranclp_induct) (auto simp: status_edge_def)
  then show ?thesis using e' by (intro bexI [of _ e']) (auto simp: episode_follows_def)
qed

section \<open>Dyads\<close>

text \<open>The side of a dyad row that belongs to a companion, and the other one.\<close>

definition sides :: "dyad_row \<Rightarrow> dyad_participant list" where
  "sides d = [first_side d, second_side d]"

text \<open>The part of the transaction that follows its checks, with the new states of both sides.\<close>

definition settle_dyad ::
  "string list \<Rightarrow> string \<Rightarrow> int \<Rightarrow> int \<Rightarrow> dyad_row \<Rightarrow> dyad_participant list \<Rightarrow> (autonomy_db, icp_dyad \<times> initiation_permit list \<times> dyad_delivery list) tx" where
  "settle_dyad known dyadId n now row states =
     (let status = resolveIcpDyadStatus states;
          updatedRow = with_states status (states ! 0) (states ! 1) row;
          reasonCode = icpDyadStatusReasonCode status in
      txbind (statement (\<lambda>db. db\<lparr>au_dyads := update_where (\<lambda>d. dr_dyadId d = dyadId \<and> dr_lifecycleRevision d = n)
         (with_states status (states ! 0) (states ! 1)) (au_dyads db)\<rparr>)) (\<lambda>_.
      txbind (txpure (mapDyad known updatedRow)) (\<lambda>dyad.
      txbind (revokePairPermits dyadId now reasonCode) (\<lambda>revokedPermits.
      txbind (txget (\<lambda>db. filter (fenced_delivery dyadId (dy_lifecycleRevision dyad)) (au_deliveries db))) (\<lambda>fenced.
      txbind (statement (\<lambda>db. db\<lparr>au_deliveries := update_where (fenced_delivery dyadId (dy_lifecycleRevision dyad))
         (suppressed now reasonCode) (au_deliveries db)\<rparr>)) (\<lambda>_.
      txbind (txpure (map_rows mapDyadDelivery (map (suppressed now reasonCode) fenced))) (\<lambda>fencedDeliveries.
      txret (dyad, revokedPermits, fencedDeliveries))))))))"

definition side_index :: "string \<Rightarrow> dyad_row \<Rightarrow> nat" where
  "side_index actor row = (if dp_companionId (first_side row) = actor then 0 else 1)"

lemma tx_exec:
  "txbind (txget g) f db = f (g db) db"
  "txbind (txpure (Inr x)) f = f x"
  "txbind (txpure (Inl e)) f db = Inl e"
  "txpure (Inl e) db = Inl e"
  by (simp_all add: fun_eq_iff txbind_def txget_def txpure_def)

lemma transition_checked:
  assumes "find_dyad dyadId db = Some row" "mapDyad known row = Inr current"
    "transition_tx known dyadId actor n action now db = Inr (x, db')"
  obtains changed where "dr_lifecycleRevision row = n" "dp_companionId (sides row ! side_index actor row) = actor"
    "transitionParticipantState (sides row ! side_index actor row) action now = Inr changed"
    "settle_dyad known dyadId n now row ((sides row)[side_index actor row := changed]) db = Inr (x, db')"
proof -
  note facts = mapDyad_Inr [OF assms(2)]
  have index: "(if dp_companionId ([first_side row, second_side row] ! 0) = actor then 0 else 1) = side_index actor row"
    by (simp add: side_index_def)
  have tx: "(if dr_lifecycleRevision row \<noteq> n then txpure (lifecycle_conflict ''dyad_stale_revision'')
      else if actor \<notin> set (map dp_companionId (sides row)) then txpure (lifecycle_conflict ''dyad_not_found'')
      else txbind (txpure (transitionParticipantState (sides row ! side_index actor row) action now))
        (\<lambda>changed. settle_dyad known dyadId n now row ((sides row)[side_index actor row := changed]))) db = Inr (x, db')"
    using assms(3) unfolding transition_tx_def tx_exec assms(1,2) option.case facts index settle_dyad_def sides_def Let_def .
  then have ok: "dr_lifecycleRevision row = n" "actor \<in> set (map dp_companionId (sides row))"
    and rest: "txbind (txpure (transitionParticipantState (sides row ! side_index actor row) action now))
        (\<lambda>changed. settle_dyad known dyadId n now row ((sides row)[side_index actor row := changed])) db = Inr (x, db')"
    by (auto simp: lifecycle_conflict_def tx_exec split: if_splits)
  then obtain changed where "transitionParticipantState (sides row ! side_index actor row) action now = Inr changed"
    and "settle_dyad known dyadId n now row ((sides row)[side_index actor row := changed]) db = Inr (x, db')"
    by (auto simp: tx_Inr)
  moreover have "dp_companionId (sides row ! side_index actor row) = actor" using ok(2) by (auto simp: sides_def side_index_def)
  ultimately show ?thesis using ok(1) by (intro that)
qed

lemma settle_dyad_Inr:
  assumes "settle_dyad known dyadId n now row states db = Inr ((dyad, ps, ds), db')" "dr_lifecycleRevision row = n"
  shows "dy_lifecycleRevision dyad = n + 1"
    "au_episodes db' = au_episodes db"
    "au_permits db' = update_where (\<lambda>p. ip_status p = Permit_issued \<and> of_dyad dyadId db p)
        (revoked now (icpDyadStatusReasonCode (resolveIcpDyadStatus states))) (au_permits db)"
    "au_deliveries db' = update_where (fenced_delivery dyadId (n + 1))
        (suppressed now (icpDyadStatusReasonCode (resolveIcpDyadStatus states))) (au_deliveries db)"
    "au_dyads db' = update_where (\<lambda>d. dr_dyadId d = dyadId \<and> dr_lifecycleRevision d = n)
         (with_states (resolveIcpDyadStatus states) (states ! 0) (states ! 1)) (au_dyads db)"
    "mapDyad known (with_states (resolveIcpDyadStatus states) (states ! 0) (states ! 1) row) = Inr dyad"
    "autonomy_ok db'"
proof -
  from assms(1) have mapped: "mapDyad known (with_states (resolveIcpDyadStatus states) (states ! 0) (states ! 1) row) = Inr dyad"
    by (auto simp: settle_dyad_def Let_def tx_Inr)
  have n: "dy_lifecycleRevision dyad = n + 1" using mapDyad_Inr(2) [OF mapped] assms(2) by (simp add: with_states_def)
  show "dy_lifecycleRevision dyad = n + 1" by (rule n)
  show "mapDyad known (with_states (resolveIcpDyadStatus states) (states ! 0) (states ! 1) row) = Inr dyad" by (rule mapped)
  have of_dyad: "of_dyad dyadId (db\<lparr>au_dyads := x\<rparr>) = of_dyad dyadId db" for x by (simp add: of_dyad_def fun_eq_iff)
  show "au_episodes db' = au_episodes db" "autonomy_ok db'"
    "au_permits db' = update_where (\<lambda>p. ip_status p = Permit_issued \<and> of_dyad dyadId db p)
        (revoked now (icpDyadStatusReasonCode (resolveIcpDyadStatus states))) (au_permits db)"
    "au_deliveries db' = update_where (fenced_delivery dyadId (n + 1))
        (suppressed now (icpDyadStatusReasonCode (resolveIcpDyadStatus states))) (au_deliveries db)"
    "au_dyads db' = update_where (\<lambda>d. dr_dyadId d = dyadId \<and> dr_lifecycleRevision d = n)
         (with_states (resolveIcpDyadStatus states) (states ! 0) (states ! 1)) (au_dyads db)"
    using assms(1) unfolding settle_dyad_def Let_def revokePairPermits_def revoke_where_def statement_def
    by (simp_all only: tx_Inr mapped sum.inject) (elim exE conjE, hypsubst, simp add: n of_dyad)+
qed

lemma transition_keeps_companion: "transitionParticipantState s action now = Inr s' \<Longrightarrow> dp_companionId s' = dp_companionId s"
  by (cases action) (auto simp: lifecycle_conflict_def split: if_splits)

lemma sides_with_states:
  assumes "dp_companionId s = dr_first row" "dp_companionId t = dr_second row"
  shows "sides (with_states status s t row) = [s, t]"
  using assms by (simp add: sides_def first_side_def second_side_def side_def with_states_def)

lemma changed_sides:
  assumes "dp_companionId changed = dp_companionId (sides row ! side_index actor row)"
    "states = (sides row)[side_index actor row := changed]"
  shows "sides (with_states status (states ! 0) (states ! 1) row) = states"
proof -
  have "length states = 2" by (simp add: assms(2) sides_def side_index_def)
  then have "states = [states ! 0, states ! 1]" by (auto simp: length_Suc_conv numeral_2_eq_2)
  moreover have "dp_companionId (states ! 0) = dr_first row" "dp_companionId (states ! 1) = dr_second row"
    using assms by (auto simp: sides_def side_index_def first_side_def second_side_def side_def split: if_splits)
  ultimately show ?thesis using sides_with_states by metis
qed

text \<open>
  What a side of a dyad may do, written out: its relationship and whether it has blocked the other, before and after an action.
\<close>

inductive side_moves :: "dyad_action \<Rightarrow> dyad_relationship \<times> bool \<Rightarrow> dyad_relationship \<times> bool \<Rightarrow> bool" where
  side_pause: "side_moves Act_pause (Relationship_open, b) (Relationship_paused, b)"
| side_resume: "side_moves Act_resume (Relationship_paused, b) (Relationship_open, b)"
| side_close: "r \<noteq> Relationship_closed \<Longrightarrow> side_moves Act_close (r, b) (Relationship_closed, b)"
| side_block: "side_moves Act_block (r, False) (r, True)"
| side_unblock: "side_moves Act_unblock (r, True) (r, False)"

definition side_state :: "dyad_participant \<Rightarrow> dyad_relationship \<times> bool" where
  "side_state s = (dp_relationshipState s, dp_blocked s)"

text \<open>What two sides grant together: a block outweighs a closing, a closing a pause.\<close>

definition granted :: "dyad_relationship \<times> bool \<Rightarrow> dyad_relationship \<times> bool \<Rightarrow> dyad_status" where
  "granted x y =
     (if snd x \<or> snd y then Dyad_blocked
      else if fst x = Relationship_closed \<or> fst y = Relationship_closed then Dyad_closed
      else if fst x = Relationship_paused \<or> fst y = Relationship_paused then Dyad_paused else Dyad_open)"

fun boundary_reason :: "dyad_status \<Rightarrow> string" where
  "boundary_reason Dyad_open = ''dyad_stale_revision''"
| "boundary_reason Dyad_paused = ''dyad_paused''"
| "boundary_reason Dyad_closed = ''dyad_closed''"
| "boundary_reason Dyad_blocked = ''dyad_blocked''"

lemma transition_moves:
  assumes "transitionParticipantState s action now = Inr s'"
  shows "side_moves action (side_state s) (side_state s') \<and> dp_updatedAtMs s' = now"
  using assms
  by (cases action; cases "dp_relationshipState s"; cases "dp_blocked s")
    (auto simp: lifecycle_conflict_def side_state_def intro: side_moves.intros split: if_splits)

lemma resolve_granted: "resolveIcpDyadStatus [s, t] = granted (side_state s) (side_state t)"
  by (simp add: resolveIcpDyadStatus_def granted_def side_state_def)

lemma reason_granted: "icpDyadStatusReasonCode status = boundary_reason status"
  by (cases status) simp_all

lemma boundary_row:
  assumes "find_dyad d db = Some row" "dr_lifecycleRevision row = n"
    "au_dyads db' = update_where (\<lambda>x. dr_dyadId x = d \<and> dr_lifecycleRevision x = n) (with_states status s t) (au_dyads db)"
  shows "find_dyad d db' = Some (with_states status s t row)"
proof -
  have "find (\<lambda>x. dr_dyadId x = d) rs = Some row \<Longrightarrow> find (\<lambda>x. dr_dyadId x = d)
      (update_where (\<lambda>x. dr_dyadId x = d \<and> dr_lifecycleRevision x = n) (with_states status s t) rs) = Some (with_states status s t row)" for rs
    using assms(2) by (induction rs) (auto simp: with_states_def split: if_splits)
  then show ?thesis using assms(1,3) by (simp add: find_dyad_def)
qed

lemma boundary_checked:
  assumes "transitionDyad known d actor n action t db = (Inr (dyad, ps, ds), db')"
  obtains row changed m where "find_dyad d db = Some row" "jsint m = n" "dr_lifecycleRevision row = m"
    "dp_companionId (sides row ! side_index actor row) = actor"
    "transitionParticipantState (sides row ! side_index actor row) action (intval t) = Inr changed"
    "settle_dyad known d m (intval t) row ((sides row)[side_index actor row := changed]) db = Inr ((dyad, ps, ds), db')"
proof -
  obtain m where tx: "transition_tx known d actor m action (intval t) db = Inr ((dyad, ps, ds), db')"
    and m: "jsint m = n"
    using assms by (auto simp: transitionDyad_def io_Inr withPostgresClient_eq requirePositiveSafeInteger_def
        requireTimestamp_def iopure_def dest!: requireUuidText_Inr split: if_splits intro: isSafeInteger_intval [symmetric])
  obtain row where row: "find_dyad d db = Some row"
    using tx by (auto simp: transition_tx_def tx_Inr lifecycle_conflict_def split: option.splits)
  obtain current where current: "mapDyad known row = Inr current"
    using tx row by (auto simp: transition_tx_def tx_Inr)
  show thesis using row current tx by (rule transition_checked) (rule that [OF row m])
qed

text \<open>
  C15. A dyad transition is a boundary. It needs the revision it was asked for, and moves the actor's own side by one step of
  the side's lifecycle (an open side may pause, a paused one resume, one that is not closed close; a block is set once and
  lifted once), stamps it with the time of the transition and leaves the other side as it was. The status is what both sides
  then grant, the lifecycle revision goes up by one, and the row that is read next is the one returned. Exactly the issued
  permits of the dyad's episodes are revoked, and exactly the deliveries of an earlier lifecycle of the dyad that are
  queued, delayed, retrying or failed are suppressed, with the reason of the new status.
\<close>

theorem dyad_boundary:
  assumes "transitionDyad known d actor n action t db = (Inr (dyad, ps, ds), db')"
  shows "\<exists>row row' i mine other. find_dyad d db = Some row \<and> i < 2 \<and> dp_companionId (sides row ! i) = actor
     \<and> jsint (dr_lifecycleRevision row) = n
     \<and> dp_companionId mine = actor \<and> dp_updatedAtMs mine = intval t \<and> side_moves action (side_state (sides row ! i)) (side_state mine)
     \<and> other = sides row ! (1 - i) \<and> dy_participantStates dyad = (if i = 0 then [mine, other] else [other, mine])
     \<and> dy_status dyad = granted (side_state mine) (side_state other)
     \<and> dy_lifecycleRevision dyad = dr_lifecycleRevision row + 1
     \<and> find_dyad d db' = Some row' \<and> sides row' = dy_participantStates dyad \<and> dr_status row' = dy_status dyad
     \<and> dr_lifecycleRevision row' = dy_lifecycleRevision dyad
     \<and> au_permits db' = map (\<lambda>p. if ip_status p = Permit_issued
            \<and> (\<exists>e \<in> set (au_episodes db). cv_conversationId e = ip_conversationId p \<and> er_dyadId e = Some d)
          then p\<lparr>ip_status := Permit_revoked, ip_revokedAtMs := Some (max (intval t) (ip_issuedAtMs p)),
            ip_reasonCode := Some (boundary_reason (dy_status dyad)), ip_revision := ip_revision p + 1\<rparr> else p) (au_permits db)
     \<and> au_deliveries db' = map (\<lambda>x. if dd_dyadId x = d \<and> dd_dyadLifecycleRevision x < dy_lifecycleRevision dyad
            \<and> dd_outcome x \<in> {DyadDelivery_queued, DyadDelivery_delayed, DyadDelivery_retrying, DyadDelivery_failed}
          then x\<lparr>dd_outcome := DyadDelivery_suppressed, dd_updatedAtMs := max (dd_updatedAtMs x) (intval t),
            dd_reasonCode := Some (boundary_reason (dy_status dyad)), dd_gatewayMessageId := None, dd_revision := dd_revision x + 1\<rparr>
          else x) (au_deliveries db)"
proof -
  obtain row changed m where row: "find_dyad d db = Some row" and m: "jsint m = n"
    and facts: "dr_lifecycleRevision row = m" "dp_companionId (sides row ! side_index actor row) = actor"
      "transitionParticipantState (sides row ! side_index actor row) action (intval t) = Inr changed"
    and settled: "settle_dyad known d m (intval t) row ((sides row)[side_index actor row := changed]) db = Inr ((dyad, ps, ds), db')"
    using assms by (rule boundary_checked)
  define states where "states = (sides row)[side_index actor row := changed]"
  note s = settle_dyad_Inr [OF settled [folded states_def] facts(1)]
  note kept = transition_keeps_companion [OF facts(3)]
  let ?i = "side_index actor row" and ?other = "sides row ! (1 - side_index actor row)"
  have i: "?i < 2" "states = (if ?i = 0 then [changed, ?other] else [?other, changed])"
    by (auto simp: states_def sides_def side_index_def)
  have states: "dy_participantStates dyad = states" "dy_status dyad = resolveIcpDyadStatus states"
    using mapDyad_Inr(3,4) [OF s(6)] changed_sides [OF kept states_def] by (simp_all add: sides_def)
  have status: "dy_status dyad = granted (side_state changed) (side_state ?other)"
    using i(2) by (auto simp: states(2) resolve_granted) (auto simp: granted_def)
  have row': "find_dyad d db' = Some (with_states (dy_status dyad) (states ! 0) (states ! 1) row)"
    using boundary_row [OF row facts(1) s(5)] states(2) by simp
  let ?row = "with_states (dy_status dyad) (states ! 0) (states ! 1) row"
  have sides': "sides ?row = dy_participantStates dyad" unfolding states(1) by (rule changed_sides [OF kept states_def])
  have rev: "dr_lifecycleRevision ?row = dy_lifecycleRevision dyad" "dr_status ?row = dy_status dyad"
    "dy_lifecycleRevision dyad = dr_lifecycleRevision row + 1"
    using s(1) facts(1) by (simp_all add: with_states_def)
  note tables = s(3,4) [folded s(1) states(2), unfolded update_where_def reason_granted revoked_def suppressed_def
      fenced_delivery_def of_dyad_def list_ex_iff conj_assoc]
  show ?thesis
  proof (intro exI conjI)
    show "jsint (dr_lifecycleRevision row) = n" using facts(1) m by simp
    show "dp_companionId changed = actor" using kept facts(2) by simp
    show "side_moves action (side_state (sides row ! ?i)) (side_state changed)" "dp_updatedAtMs changed = intval t"
      using transition_moves [OF facts(3)] by blast+
    show "dy_participantStates dyad = (if ?i = 0 then [changed, ?other] else [?other, changed])" using states(1) i(2) by simp
  qed (fact row row' i(1) facts(2) status rev sides' tables refl)+
qed

section \<open>Availability\<close>

definition lease_raw :: "availability_lease \<Rightarrow> (string \<times> wire) list" where
  "lease_raw row =
     [(''companionId'', Wire_string (al_companionId row)),
      (''state'', Wire_string (enum_name ICP_AVAILABILITY_STATES (al_state row))),
      (''issuedAtMs'', wire_int (al_issuedAtMs row)), (''expiresAtMs'', wire_int (al_expiresAtMs row)),
      (''source'', Wire_string (enum_name ICP_AVAILABILITY_SOURCES (al_source row))),
      (''revision'', wire_int (al_revision row))]"

lemma parse_lease_members:
  assumes "parseIcpAvailabilityLease (Wire_object raw) current = Inr l"
  shows "requireUuidValue (member raw ''companionId'') ''ICP availability lease.companionId'' = Inr (al_companionId l)"
    "requireEnum (member raw ''state'') ICP_AVAILABILITY_STATES ''ICP availability lease.state'' = Inr (al_state l)"
    "requireTimestampValue (member raw ''issuedAtMs'') ''ICP availability lease.issuedAtMs'' = Inr (al_issuedAtMs l)"
    "requireTimestampValue (member raw ''expiresAtMs'') ''ICP availability lease.expiresAtMs'' = Inr (al_expiresAtMs l)"
    "requireEnum (member raw ''source'') ICP_AVAILABILITY_SOURCES ''ICP availability lease.source'' = Inr (al_source l)"
    "requireRevision (member raw ''revision'') ''ICP availability lease.revision'' = Inr (al_revision l)"
  using assms unfolding parseIcpAvailabilityLease_def requireRecord_def wire.case rbind_simps
  by (simp_all only: rbind_eq_Inr throwIf_eq_Inr sum.inject)
    (elim exE conjE, hypsubst, simp only: availability_lease.simps)+

lemma availability_names:
  "enum_at ICP_AVAILABILITY_STATES (Wire_string (enum_name ICP_AVAILABILITY_STATES s)) t \<Longrightarrow> t = s"
  "enum_at ICP_AVAILABILITY_SOURCES (Wire_string (enum_name ICP_AVAILABILITY_SOURCES u)) v \<Longrightarrow> v = u"
  by ((cases s; auto simp: enum_at_def ICP_AVAILABILITY_STATES_def enum_name_def),
      (cases u; auto simp: enum_at_def ICP_AVAILABILITY_SOURCES_def enum_name_def))

lemma mapAvailability_Inr:
  assumes "mapAvailability row = Inr l"
  shows "l = row \<and> isRfc4122Uuid (al_companionId l)"
proof -
  have "parseIcpAvailabilityLease (Wire_object (lease_raw row)) None = Inr l"
    using assms unfolding mapAvailability_def rbind_eq_Inr
    by (elim exE conjE) (drule safe_int_id, drule safe_int_id, drule safe_int_id, simp only: lease_raw_def)
  note m = parse_lease_members [OF this]
  have raw: "member (lease_raw row) ''companionId'' = Wire_string (al_companionId row)"
    "member (lease_raw row) ''state'' = Wire_string (enum_name ICP_AVAILABILITY_STATES (al_state row))"
    "member (lease_raw row) ''issuedAtMs'' = wire_int (al_issuedAtMs row)"
    "member (lease_raw row) ''expiresAtMs'' = wire_int (al_expiresAtMs row)"
    "member (lease_raw row) ''source'' = Wire_string (enum_name ICP_AVAILABILITY_SOURCES (al_source row))"
    "member (lease_raw row) ''revision'' = wire_int (al_revision row)"
    by (simp_all add: lease_raw_def)
  have "l = row"
    using m(1) [unfolded raw] availability_names(1) [OF m(2) [unfolded raw requireEnum_Inr]] m(3,4) [unfolded raw timestamp_int]
      availability_names(2) [OF m(5) [unfolded raw requireEnum_Inr]] revision_int [OF m(6) [unfolded raw]]
    by (intro availability_lease.equality) (simp_all add: guard_simps)
  with m(1) [unfolded raw] show ?thesis by (simp add: guard_simps)
qed

text \<open>
  C35. Publishing availability obeys rank and revision: a publication that succeeds starts a lease at revision one, or
  replaces a lease that had expired or was not of higher rank, and then carries exactly the next revision; and what it
  returns is what a read of the companion's availability returns next.
\<close>

theorem availability_by_rank:
  assumes "parseIcpAvailabilityLease w None = Inr l" "publishAvailability w db = (Inr r, db')"
  shows "(case find (\<lambda>x. al_companionId x = al_companionId l) (au_availability db) of
        None \<Rightarrow> al_revision l = 1 \<and> r = l
      | Some current \<Rightarrow> r = l\<lparr>al_revision := al_revision current + 1\<rparr>
          \<and> (al_expiresAtMs current \<le> al_issuedAtMs l \<or> source_priority (al_source l) \<ge> source_priority (al_source current)))
     \<and> getAvailability (al_companionId l) db' = Inr (Some r)"
proof -
  let ?mine = "\<lambda>x. al_companionId x = al_companionId l"
  obtain row where tx: "publish_sql l db = Inr (Some row, db')" and mapped: "mapAvailability row = Inr r"
    using assms by (auto simp: publishAvailability_def autocommit_def io_Inr withPostgresClient_eq iopure_def split: option.splits)
  have r: "row = r" "isRfc4122Uuid (al_companionId r)" using mapAvailability_Inr [OF mapped] by auto
  have read: "getAvailability (al_companionId l) db' = Inr (Some r)" if "find ?mine (au_availability db') = Some r"
    using that mapped r by (auto simp: getAvailability_def requireUuidText_def requireUuidValue_def dest: find_Some_iff')
  show ?thesis
  proof (cases "find ?mine (au_availability db)")
    case None
    with tx have "al_revision l = 1" "row = l" "au_availability db' = au_availability db @ [l]"
      by (auto simp: publish_sql_def tx_Inr statement_def split: if_splits)
    moreover have "find ?mine (xs @ [l]) = Some l" if "find ?mine xs = None" for xs
      using that by (induction xs) (auto split: if_splits)
    ultimately show ?thesis using None r read by simp
  next
    case (Some current)
    with tx have "replaces l current" and row: "row = published l current"
      and table: "au_availability db' = update_where ?mine (\<lambda>_. published l current) (au_availability db)"
      by (auto simp: publish_sql_def tx_Inr statement_def split: if_splits)
    then have "published l current = l\<lparr>al_revision := al_revision current + 1\<rparr>"
      "al_expiresAtMs current \<le> al_issuedAtMs l \<or> source_priority (al_source l) \<ge> source_priority (al_source current)"
      by (auto simp: replaces_def published_def)
    moreover have "find ?mine (update_where ?mine (\<lambda>_. published l current) xs) = Some (published l current)"
      if "find ?mine xs = Some current" for xs
      using that by (induction xs) (auto simp: published_def split: if_splits)
    ultimately show ?thesis using Some r(1) row read table by simp
  qed
qed

section \<open>The fleet\<close>

text \<open>Nothing that the sweep does before its last statement issues a permit.\<close>

definition issues_none :: "autonomy_db \<Rightarrow> autonomy_db \<Rightarrow> bool" where
  "issues_none db db' \<longleftrightarrow> (\<forall>p \<in> set (au_permits db'). ip_status p = Permit_issued \<longrightarrow> p \<in> set (au_permits db))"

lemma issues_none_order: "reflp issues_none" "transp issues_none"
  by (auto simp: issues_none_def reflp_def transp_def)

lemma issues_none_revoke: "tx_within issues_none (revoke_where P now reason)"
  unfolding revoke_where_def statement_def
  by (intro tx_rules issues_none_order tx_within_exec)
    (auto simp: issues_none_def set_update_where revoked_def split: if_splits)

lemma issues_none_admission: "tx_within issues_none (setLifecycleAdmissionTx c b now reason)"
  unfolding setLifecycleAdmissionTx_def invalidateCompanion_def statement_def
  by (intro tx_rules issues_none_order issues_none_revoke tx_within_exec) (auto simp: issues_none_def)

lemma fence_each_issues_none: "tx_within issues_none (fence_each now cs)"
  by (induction cs) (auto intro!: tx_rules issues_none_order issues_none_admission)

lemma admission_fences:
  assumes "setLifecycleAdmissionTx c True now reason db = Inr (x, db')"
  shows "fenced c db'"
proof -
  define enter where "enter = (\<lambda>current :: invalidation_row. if iv_lifecycleFenced current then txret (False, [])
         else txbind (invalidateCompanion c now reason) (\<lambda>revokedPermits.
           txbind (statement (\<lambda>db. db\<lparr>au_fences := update_where (\<lambda>f. iv_companionId f = c)
             (\<lambda>f. f\<lparr>iv_lifecycleFenced := True\<rparr>) (au_fences db)\<rparr>)) (\<lambda>_. txret (True, revokedPermits))))"
  obtain db1 where db1: "(case find_fence c db1 of None \<Rightarrow> txthrow (''ICP invalidation fence missing companion '' @ c)
     | Some current \<Rightarrow> enter current) db1 = Inr (x, db')"
  proof -
    from assms have "\<exists>db1. txbind (txget (find_fence c)) (case_option (txthrow (''ICP invalidation fence missing companion '' @ c)) enter) db1
        = Inr (x, db')"
      unfolding setLifecycleAdmissionTx_def enter_def eq_True by (rule iffD1 [OF tx_Inr(3), THEN exE]) blast
    then show ?thesis using that unfolding tx_exec by blast
  qed
  then obtain current where current: "find_fence c db1 = Some current" and rest: "enter current db1 = Inr (x, db')"
    by (cases "find_fence c db1") (auto simp: tx_Inr)
  have row: "current \<in> set (au_fences db1)" "iv_companionId current = c"
    using find_Some_iff' [OF current [unfolded find_fence_def]] by auto
  show ?thesis
  proof (cases "iv_lifecycleFenced current")
    case True
    then show ?thesis using rest row by (auto simp: enter_def tx_Inr fenced_iff)
  next
    case False
    then obtain ps db2 where inv: "invalidateCompanion c now reason db1 = Inr (ps, db2)"
      and fences: "au_fences db' = update_where (\<lambda>f. iv_companionId f = c) (\<lambda>f. f\<lparr>iv_lifecycleFenced := True\<rparr>) (au_fences db2)"
      using rest by (auto simp: enter_def tx_Inr statement_def)
    obtain f where f: "f \<in> set (au_fences db2)" "iv_companionId f = c"
      using fences.steps_track [OF tx_withinD [OF invalidate_within inv] row(1)] row(2) by (auto simp: fence_follows_def)
    have "f\<lparr>iv_lifecycleFenced := True\<rparr> \<in> set (au_fences db')"
      unfolding fences set_update_where using f by (intro image_eqI [of _ _ f]) simp_all
    then show ?thesis unfolding fenced_iff by (rule bexI [rotated]) (simp add: f)
  qed
qed

lemma fence_each_fences:
  assumes "fence_each now cs db = Inr (x, db')" "c \<in> set cs"
  shows "fenced c db'"
  using assms
proof (induction cs arbitrary: db)
  case (Cons i ids)
  then obtain y db1 where first: "setLifecycleAdmissionTx i True now ''unknown_participant'' db = Inr (y, db1)"
    and rest: "fence_each now ids db1 = Inr (x, db')" by (auto simp: tx_Inr)
  show ?case
  proof (cases "c \<in> set ids")
    case False
    then have "fenced c db1" using Cons.prems(2) admission_fences [OF first] by simp
    moreover have "autonomy_steps (\<lambda>_. False) db1 db'" using fence_each_within rest by (rule tx_withinD)
    ultimately show ?thesis
      using fences.steps_track by (fastforce simp: fenced_iff fence_follows_def)
  qed (use Cons.IH rest in blast)
qed simp

lemma outside_mem:
  assumes "c \<notin> set known"
  shows "f \<in> set (au_fences db) \<Longrightarrow> iv_companionId f = c \<Longrightarrow> c \<in> set (outside_ids known db)"
    and "p \<in> set (au_permits db) \<Longrightarrow> ip_status p = Permit_issued \<Longrightarrow> touches c p \<Longrightarrow> c \<in> set (outside_ids known db)"
  using assms by (auto simp: outside_ids_def Let_def outstanding_def touches_def)

lemma map_uuid_rows: "map_rows (\<lambda>i. requireUuidText i f) is = Inr os \<Longrightarrow> os = is"
  by (induction "is" arbitrary: os) (auto simp: rbind_eq_Inr dest: requireUuidText_Inr)

lemma revoke_where_answer:
  assumes "revoke_where P now reason db = Inr (ps, db')" "\<And>p. p \<in> set (au_permits db) \<Longrightarrow> ip_status p = Permit_issued \<Longrightarrow> \<not> P db p"
  shows "ps = [] \<and> db' = db"
proof -
  have "filter (\<lambda>p. ip_status p = Permit_issued \<and> P db p) (au_permits db) = []"
    using assms(2) by (simp add: filter_empty_conv)
  moreover have "update_where (\<lambda>p. ip_status p = Permit_issued \<and> P db p) f (au_permits db) = au_permits db" for f
    by (rule update_where_none) (use assms(2) in blast)
  ultimately show ?thesis using assms(1) by (simp add: revoke_where_def statement_def tx_Inr)
qed

lemma known_same:
  assumes "normalizeKnownCompanionIds known = Inr known'"
  shows "known' = known"
proof -
  have "map_rows (\<lambda>(index, v). requireUuidText v (f index)) (List.enumerate n vs) = Inr is \<Longrightarrow> is = vs" for f n vs "is"
    by (induction vs arbitrary: n "is") (auto simp: rbind_eq_Inr dest: requireUuidText_Inr)
  then show ?thesis using assms by (auto simp: normalizeKnownCompanionIds_def rbind_eq_Inr)
qed

text \<open>The sweep adds fence rows only for the companions it fences.\<close>

definition fences_only :: "string \<Rightarrow> autonomy_db \<Rightarrow> autonomy_db \<Rightarrow> bool" where
  "fences_only c db db' \<longleftrightarrow> iv_companionId ` set (au_fences db') \<subseteq> insert c (iv_companionId ` set (au_fences db))"

lemma fences_only_order: "reflp (fences_only c)" "transp (fences_only c)"
  unfolding fences_only_def reflp_def transp_def by blast+

lemma admission_fences_only: "tx_within (fences_only c) (setLifecycleAdmissionTx c b now reason)"
  unfolding setLifecycleAdmissionTx_def invalidateCompanion_def revoke_where_def statement_def
  by (intro tx_rules fences_only_order tx_within_exec)
    (auto simp: fences_only_def image_update_where)

lemma fence_each_only:
  "fence_each now cs db = Inr (x, db') \<Longrightarrow> iv_companionId ` set (au_fences db') \<subseteq> set cs \<union> iv_companionId ` set (au_fences db)"
proof (induction cs arbitrary: db)
  case (Cons i ids)
  then obtain y db1 where first: "setLifecycleAdmissionTx i True now ''unknown_participant'' db = Inr (y, db1)"
    and rest: "fence_each now ids db1 = Inr (x, db')" by (auto simp: tx_Inr)
  show ?case using Cons.IH [OF rest] tx_withinD [OF admission_fences_only first] by (auto simp: fences_only_def)
qed (simp add: tx_Inr)

text \<open>
  C36. Sweeping the fleet silences every companion that has left it: after the sweep every outstanding permit is between
  companions of the fleet and every other companion with a fence row is lifecycle-fenced. The permits it revokes on the
  way are not among those it returns: it returns none.
\<close>

theorem fleet_sweep_complete:
  assumes "revokeOutstandingPermitsOutsideFleet known now (autonomy_run ops empty_autonomy) = (Inr ps, db')"
  shows "(\<forall>p \<in> set (au_permits db'). ip_status p = Permit_issued \<longrightarrow> ip_senderCompanionId p \<in> set known \<and> ip_recipientCompanionId p \<in> set known)
     \<and> (\<forall>f \<in> set (au_fences db'). iv_companionId f \<notin> set known \<longrightarrow> iv_lifecycleFenced f) \<and> ps = []"
proof -
  define db where "db = autonomy_run ops empty_autonomy"
  obtain t known' where known': "normalizeKnownCompanionIds known = Inr known'"
    and tx: "txbind (txget (outside_ids known')) (\<lambda>found.
       txbind (txpure (map_rows (\<lambda>i. requireUuidText i ''outsideFleetCompanionId'') found)) (\<lambda>outside.
       txbind (fence_each t outside) (\<lambda>_.
       revoke_where (\<lambda>_ p. \<not> (ip_senderCompanionId p \<in> set known' \<and> ip_recipientCompanionId p \<in> set known')) t
         ''unknown_participant''))) db = Inr (ps, db')"
    using assms unfolding revokeOutstandingPermitsOutsideFleet_def db_def
    by (auto simp: io_Inr withPostgresClient_eq iopure_def)
  have same: "known' = known" by (rule known_same [OF known'])
  obtain db1 x where fe: "fence_each t (outside_ids known db) db = Inr (x, db1)"
    and rw: "revoke_where (\<lambda>_ p. \<not> (ip_senderCompanionId p \<in> set known \<and> ip_recipientCompanionId p \<in> set known)) t
         ''unknown_participant'' db1 = Inr (ps, db')"
    using tx unfolding same by (auto simp: tx_Inr dest!: map_uuid_rows)
  have "autonomy_steps (\<lambda>_. False) db db1" using fence_each_within fe by (rule tx_withinD)
  then have "quiet db1" "autonomy_ok db1"
    using run_quiet run_ok empty_autonomy_ok by (auto simp: db_def intro: steps_quiet steps_ok)
  have none: "issues_none db db1" using fence_each_issues_none fe by (rule tx_withinD)
  have silent: "c \<in> set known" if "p \<in> set (au_permits db1)" "ip_status p = Permit_issued" "touches c p" for p c
  proof (rule ccontr)
    assume c: "c \<notin> set known"
    have "p \<in> set (au_permits db)" using none that by (auto simp: issues_none_def)
    then have "fenced c db1" using outside_mem(2) [OF c _ that(2,3)] fence_each_fences [OF fe] by blast
    then show False using \<open>quiet db1\<close> that by (auto simp: quiet_def engaged_iff)
  qed
  have "ps = [] \<and> db' = db1"
    by (rule revoke_where_answer [OF rw]) (use silent in \<open>auto simp: touches_def\<close>)
  moreover have "iv_lifecycleFenced f" if f: "f \<in> set (au_fences db1)" "iv_companionId f \<notin> set known" for f
  proof -
    have "iv_companionId f \<in> set (outside_ids known db)"
      using fence_each_only [OF fe] f outside_mem(1) [OF f(2)] by auto
    then obtain g where g: "g \<in> set (au_fences db1)" "iv_companionId g = iv_companionId f" "iv_lifecycleFenced g"
      using fence_each_fences [OF fe] by (auto simp: fenced_iff)
    then show ?thesis using distinct_row [OF fence_ids [OF \<open>autonomy_ok db1\<close>] g(1) f(1)] by simp
  qed
  ultimately show ?thesis using silent by (auto simp: touches_def)
qed

lemma mapDyad_known:
  assumes "mapDyad known row = Inr d"
  shows "dr_first row \<in> set known" "dr_second row \<in> set known"
proof -
  note parsed = mapDyad_raw [OF assms]
  have "requireUuidArray (member (dyad_raw row) ''participantCompanionIds'') ''ICP dyad.participantCompanionIds'' 2
      = Inr (dy_participantCompanionIds d)"
    and "\<exists>u. check_known (Some known) (dy_participantCompanionIds d) ''ICP dyad'' = Inr u"
    using parsed unfolding parseIcpDyad_def requireRecord_def wire.case rbind_simps
    by (simp_all only: rbind_eq_Inr throwIf_eq_Inr sum.inject)
      (elim exE conjE, hypsubst, simp only: icp_dyad.simps, (rule exI, rule refl)?)+
  then have "set [dr_first row, dr_second row] \<subseteq> set known"
    by (auto simp: dyad_raw_def requireUuidArray_def wire_strings_def Let_def rbind_eq_Inr guard_simps check_known_def find_None_iff
        split: option.splits)
  then show "dr_first row \<in> set known" "dr_second row \<in> set known" by simp_all
qed

text \<open>One dyad with a companion that has left the fleet makes every listing of its partner's dyads throw.\<close>

lemma departed_peer_breaks_listing:
  assumes "d \<in> set (au_dyads db)" "dr_first d = owner \<or> dr_second d = owner" "\<not> {dr_first d, dr_second d} \<subseteq> set known"
  shows "\<exists>e. listDyadsForCompanion known owner db = Inl e"
proof (rule ccontr)
  assume "\<nexists>e. listDyadsForCompanion known owner db = Inl e"
  then obtain ds where "listDyadsForCompanion known owner db = Inr ds" by (metis sum.exhaust)
  then have "map_rows (mapDyad known) (sort_key (\<lambda>d. (dr_createdAtMs d, dr_dyadId d))
       (filter (\<lambda>d. dr_first d = owner \<or> dr_second d = owner) (au_dyads db))) = Inr ds"
    by (auto simp: listDyadsForCompanion_def rbind_eq_Inr dest!: requireUuidText_Inr)
  then obtain x where "mapDyad known d = Inr x" using assms(1,2) by (auto dest!: map_rows_mem [of "mapDyad known" _ ds d])
  from mapDyad_known [OF this] assms(3) show False by simp
qed

section \<open>Examples\<close>

text \<open>Two companions with a direct channel, an invited episode and its issued permit.\<close>

definition demo_first :: string where "demo_first = sample_id CHR ''1''"

definition demo_second :: string where "demo_second = sample_id CHR ''2''"

definition demo_dm :: string where "demo_dm = ''companion-dm:'' @ demo_first @ '':'' @ demo_second"

definition demo_permit :: initiation_permit where
  "demo_permit = \<lparr>ip_permitId = sample_id CHR ''3'', ip_candidateId = sample_id CHR ''4'', ip_conversationId = sample_id CHR ''5'',
     ip_senderCompanionId = demo_first, ip_recipientCompanionId = demo_second, ip_channelId = demo_dm,
     ip_provenanceRef = ''icp-prov:'' @ sample_id CHR ''6'', ip_issuedAtMs = 0, ip_expiresAtMs = 60000, ip_status = Permit_issued,
     ip_consumedAtMs = None, ip_revokedAtMs = None, ip_reasonCode = None, ip_revision = 1\<rparr>"

definition demo_row :: conversation_row where
  "demo_row = \<lparr>cv_conversationId = sample_id CHR ''5'', cv_channelId = demo_dm,
     cv_participantCompanionIds = [demo_first, demo_second], cv_rootInitiationId = sample_id CHR ''7'',
     cv_initiatedByCompanionId = demo_first, cv_initiationSource = Initiation_operator_test,
     cv_provenanceRef = ''icp-prov:'' @ sample_id CHR ''6'', cv_openedAtMs = 0, cv_lastActivityAtMs = 0,
     cv_status = Conversation_invited, cv_closeReasonCode = None, cv_revision = 1, er_dyadId = None\<rparr>"

definition demo_store :: autonomy_db where
  "demo_store = \<lparr>au_availability = [], au_episodes = [demo_row], au_dyads = [], au_permits = [demo_permit], au_deliveries = [],
     au_fences = [fresh_fence demo_first, fresh_fence demo_second]\<rparr>"

definition demo_use :: permit_consumption where
  "demo_use = \<lparr>pm_permitId = sample_id CHR ''3'', pm_conversationId = sample_id CHR ''5'', pm_senderCompanionId = demo_first,
     pm_recipientCompanionId = demo_second, pm_channelId = demo_dm, pm_consumedAtMs = jsint 1000,
     pm_expectedInvalidationFence = \<lparr>af_companions = [(demo_first, jsint 0), (demo_second, jsint 0)], af_dyadLifecycle = None\<rparr>\<rparr>"

lemma demo_ok: "autonomy_ok demo_store"
  by code_simp

lemma demo_consumed:
  "consumePermit [] demo_use demo_store
     = (Inr (Outcome_consumed, Some (consumed 1000 demo_permit)), demo_store\<lparr>au_permits := [consumed 1000 demo_permit]\<rparr>)"
  by code_simp

definition demo_lookup :: "(string list \<times> autonomy_op) list" where
  "demo_lookup = [([], Find_outstanding demo_first demo_second (jsint 2000))]"

lemma demo_replayed:
  "consumePermit [] demo_use (autonomy_run demo_lookup (demo_store\<lparr>au_permits := [consumed 1000 demo_permit]\<rparr>))
     = (Inr (Outcome_replayed, Some (consumed 1000 demo_permit)), demo_store\<lparr>au_permits := [consumed 1000 demo_permit]\<rparr>)"
  by code_simp

theorem permit_consumed_once_witness:
  "\<exists>outcome r db''. consumePermit [] demo_use (autonomy_run demo_lookup (snd (consumePermit [] demo_use demo_store))) = (Inr (outcome, r), db'')
     \<and> (outcome = Outcome_replayed \<or> outcome = Outcome_mismatch)"
  using permit_consumed_once [OF demo_consumed refl demo_replayed] demo_replayed unfolding demo_consumed snd_conv by blast

definition demo_fleet :: "string list" where
  "demo_fleet = [demo_first, demo_second]"

definition demo_before :: "(string list \<times> autonomy_op) list" where
  "demo_before = [(demo_fleet, Connect (jsint 1)), (demo_fleet, Fence_lifecycle demo_first (jsint 5))]"

lemma demo_fenced: "isLifecycleAdmissionFenced demo_first (autonomy_run demo_before empty_autonomy) = Inr True"
  by code_simp

theorem fenced_companion_silent_witness:
  "isLifecycleAdmissionFenced demo_first (autonomy_run [(demo_fleet, Clear_lifecycle demo_second (jsint 9))]
     (autonomy_run demo_before empty_autonomy)) = Inr True"
proof -
  have "\<forall>(known, oper) \<in> set [(demo_fleet, Clear_lifecycle demo_second (jsint 9))]. \<not> readmits demo_first oper"
    by (simp add: readmits_def demo_first_def demo_second_def sample_id_def)
  from fenced_companion_silent [OF demo_fenced this] show ?thesis by (simp add: Let_def)
qed

definition demo_fence :: autonomy_fence where
  "demo_fence = \<lparr>af_companions = [(demo_first, jsint 0), (demo_second, jsint 0)], af_dyadLifecycle = None\<rparr>"

lemma demo_captured: "captureInvalidationFence demo_first demo_second demo_store demo_store = Inr demo_fence"
  by code_simp

definition demo_invalidated :: autonomy_db where
  "demo_invalidated = demo_store\<lparr>au_permits := [revoked 2000 ''peer_blocked'' demo_permit],
     au_fences := [bumped 2000 ''peer_blocked'' (fresh_fence demo_first), fresh_fence demo_second]\<rparr>"

lemma demo_revoked:
  "revokeOutstandingPermitsForCompanion demo_first (jsint 2000) ''peer_blocked'' (autonomy_run [] demo_store)
     = (Inr [revoked 2000 ''peer_blocked'' demo_permit], demo_invalidated)"
  by code_simp

theorem stale_fence_refused_witness:
  "(\<forall>w p db'. issuePermit w demo_fence (autonomy_run [] demo_invalidated) \<noteq> (Inr p, db'))
   \<and> (\<forall>q db'. consumePermit [] demo_use (autonomy_run [] demo_invalidated) \<noteq> (Inr (Outcome_consumed, q), db'))"
  using stale_fence_refused [OF demo_ok demo_captured disjI1 [OF refl] demo_revoked, of "[]"]
  by (simp add: Let_def demo_use_def demo_fence_def)

theorem episode_lifecycle_witness:
  "\<exists>e' \<in> set (au_episodes (autonomy_run demo_lookup demo_store)). same_episode demo_row e' \<and> cv_revision demo_row \<le> cv_revision e'"
proof -
  have "demo_row \<in> set (au_episodes demo_store)" by (simp add: demo_store_def)
  from episode_lifecycle [OF this] show ?thesis by blast
qed

definition demo_dyad :: dyad_row where
  "demo_dyad = \<lparr>dr_dyadId = sample_id CHR ''5'', dr_channelId = demo_dm, dr_first = demo_first, dr_second = demo_second,
     dr_status = Dyad_open, dr_firstState = Relationship_open, dr_secondState = Relationship_open, dr_firstBlocked = False,
     dr_secondBlocked = False, dr_firstUpdatedAtMs = 0, dr_secondUpdatedAtMs = 0, dr_lifecycleRevision = 1, dr_createdAtMs = 0,
     dr_provenance = [sample_id CHR ''5''], dr_revision = 1\<rparr>"

definition demo_paused :: icp_dyad where
  "demo_paused = \<lparr>dy_dyadId = sample_id CHR ''5'', dy_channelId = demo_dm, dy_participantCompanionIds = demo_fleet,
     dy_status = Dyad_paused, dy_participantStates = [side demo_first Relationship_paused False 100, side demo_second Relationship_open False 0],
     dy_createdAtMs = 0, dy_provenanceConversationIds = [sample_id CHR ''5''], dy_lifecycleRevision = 2, dy_revision = 2\<rparr>"

lemma demo_transition:
  "transitionDyad demo_fleet (sample_id CHR ''5'') demo_first (jsint 1) Act_pause (jsint 100) (empty_autonomy\<lparr>au_dyads := [demo_dyad]\<rparr>)
     = (Inr (demo_paused, [], []), snd (transitionDyad demo_fleet (sample_id CHR ''5'') demo_first (jsint 1) Act_pause (jsint 100)
         (empty_autonomy\<lparr>au_dyads := [demo_dyad]\<rparr>)))"
  by code_simp

theorem dyad_boundary_witness:
  "\<exists>row i mine. find_dyad (sample_id CHR ''5'') (empty_autonomy\<lparr>au_dyads := [demo_dyad]\<rparr>) = Some row \<and> i < 2
     \<and> dp_companionId mine = demo_first \<and> side_moves Act_pause (side_state (sides row ! i)) (side_state mine)
     \<and> dy_lifecycleRevision demo_paused = dr_lifecycleRevision row + 1"
  using dyad_boundary [OF demo_transition] by blast

definition demo_lease :: availability_lease where
  "demo_lease = \<lparr>al_companionId = demo_first, al_state = Busy, al_issuedAtMs = 0, al_expiresAtMs = 1000,
     al_source = Source_companion, al_revision = 1\<rparr>"

lemma demo_lease_parsed: "parseIcpAvailabilityLease (Wire_object (lease_raw demo_lease)) None = Inr demo_lease"
  by code_simp

lemma demo_published:
  "publishAvailability (Wire_object (lease_raw demo_lease)) empty_autonomy = (Inr demo_lease, empty_autonomy\<lparr>au_availability := [demo_lease]\<rparr>)"
  by code_simp

theorem availability_by_rank_witness:
  "getAvailability demo_first (empty_autonomy\<lparr>au_availability := [demo_lease]\<rparr>) = Inr (Some demo_lease)"
  using availability_by_rank [OF demo_lease_parsed demo_published] by (simp add: demo_lease_def)

definition demo_third :: string where
  "demo_third = sample_id CHR ''8''"

definition demo_departed :: "(string list \<times> autonomy_op) list" where
  "demo_departed =
     [([demo_first, demo_second, demo_third], Connect (jsint 1)),
      ([demo_first, demo_second, demo_third], Create_and_issue
        (Wire_object
          [(''conversationId'', Wire_string (sample_id CHR ''5'')),
           (''channelId'', Wire_string (''companion-dm:'' @ demo_first @ '':'' @ demo_third)),
           (''participantCompanionIds'', wire_strings [demo_first, demo_third]),
           (''rootInitiationId'', Wire_string (sample_id CHR ''7'')), (''initiatedByCompanionId'', Wire_string demo_first),
           (''initiationSource'', Wire_string ''operator_test''), (''provenanceRef'', Wire_string (''icp-prov:'' @ sample_id CHR ''6'')),
           (''openedAtMs'', wire_int 10), (''lastActivityAtMs'', wire_int 10), (''status'', Wire_string ''invited''),
           (''revision'', wire_int 1)])
        (Wire_object (permit_raw (demo_permit\<lparr>ip_recipientCompanionId := demo_third, ip_issuedAtMs := 10,
           ip_channelId := ''companion-dm:'' @ demo_first @ '':'' @ demo_third\<rparr>)))
        \<lparr>af_companions = [(demo_first, jsint 0), (demo_third, jsint 0)], af_dyadLifecycle = None\<rparr>)]"

definition demo_left :: autonomy_db where
  "demo_left = \<lparr>au_availability = [],
     au_episodes = [demo_row\<lparr>cv_channelId := ''companion-dm:'' @ demo_first @ '':'' @ demo_third,
       cv_participantCompanionIds := [demo_first, demo_third], cv_openedAtMs := 10, cv_lastActivityAtMs := 10\<rparr>],
     au_dyads = [],
     au_permits = [demo_permit\<lparr>ip_recipientCompanionId := demo_third, ip_issuedAtMs := 10,
       ip_channelId := ''companion-dm:'' @ demo_first @ '':'' @ demo_third\<rparr>],
     au_deliveries = [], au_fences = [fresh_fence demo_first, fresh_fence demo_second, fresh_fence demo_third]\<rparr>"

lemma demo_left_reached: "autonomy_run demo_departed empty_autonomy = demo_left"
  by code_simp

lemma demo_sweep:
  "revokeOutstandingPermitsOutsideFleet demo_fleet (jsint 20) demo_left
     = (Inr [], demo_left\<lparr>au_permits := map (revoked 20 ''unknown_participant'') (au_permits demo_left),
          au_fences := [fresh_fence demo_first, fresh_fence demo_second,
            (bumped 20 ''unknown_participant'' (fresh_fence demo_third))\<lparr>iv_lifecycleFenced := True\<rparr>]\<rparr>)"
  by code_simp

theorem fleet_sweep_complete_witness:
  "\<exists>ps db'. revokeOutstandingPermitsOutsideFleet demo_fleet (jsint 20) (autonomy_run demo_departed empty_autonomy) = (Inr ps, db')
     \<and> map ip_status (au_permits db') = [Permit_revoked] \<and> ps = []"
  using fleet_sweep_complete [OF demo_sweep [folded demo_left_reached]] unfolding demo_left_reached demo_sweep
  by (simp add: demo_left_def revoked_def)

end
