(* ===== verification/Candidate_Contract.thy ===== *)
theory Candidate_Contract
  imports Autonomy_Db Icp_Laws
begin

text \<open>
  The private motivation of a companion to start a conversation
  (\<^verbatim>\<open>src/src/core/icp/initiation-candidate.ts\<close>), with the projection of it that may leave the companion, and the
  content-free record of a felt impulse (\<^verbatim>\<open>src/src/core/icp/felt-impulse-funnel.ts\<close>).
\<close>

section \<open>Candidates\<close>

datatype candidate_status =
  Candidate_pending | Candidate_deferred | Candidate_declined | Candidate_rejected | Candidate_permitted
| Candidate_consumed | Candidate_expired | Candidate_cancelled

definition ICP_INITIATION_CANDIDATE_STATUSES :: "(string \<times> candidate_status) list" where
  "ICP_INITIATION_CANDIDATE_STATUSES = [(''pending'', Candidate_pending), (''deferred'', Candidate_deferred),
     (''declined'', Candidate_declined), (''rejected'', Candidate_rejected), (''permitted'', Candidate_permitted),
     (''consumed'', Candidate_consumed), (''expired'', Candidate_expired), (''cancelled'', Candidate_cancelled)]"

fun CANDIDATE_TRANSITIONS :: "candidate_status \<Rightarrow> candidate_status list" where
  "CANDIDATE_TRANSITIONS Candidate_pending = [Candidate_deferred, Candidate_declined, Candidate_rejected,
     Candidate_permitted, Candidate_expired, Candidate_cancelled]"
| "CANDIDATE_TRANSITIONS Candidate_deferred = [Candidate_pending, Candidate_declined, Candidate_rejected,
     Candidate_expired, Candidate_cancelled]"
| "CANDIDATE_TRANSITIONS Candidate_permitted = [Candidate_consumed, Candidate_expired, Candidate_cancelled]"
| "CANDIDATE_TRANSITIONS _ = []"

datatype preferred_channel = Prefer_dm | Prefer_current_room

definition preferred_channels :: "(string \<times> preferred_channel) list" where
  "preferred_channels = [(''dm'', Prefer_dm), (''current_room'', Prefer_current_room)]"

datatype delivery_disposition = Disposition_delivered | Disposition_suppressed

definition delivery_dispositions :: "(string \<times> delivery_disposition) list" where
  "delivery_dispositions = [(''delivered'', Disposition_delivered), (''suppressed'', Disposition_suppressed)]"

datatype continuation_task = Task_work | Task_research | Task_problem_solving

definition ICP_CONTINUATION_TASK_KINDS :: "(string \<times> continuation_task) list" where
  "ICP_CONTINUATION_TASK_KINDS = [(''work'', Task_work), (''research'', Task_research),
     (''problem_solving'', Task_problem_solving)]"

record initiation_candidate =
  cd_candidateId :: string
  cd_rootInitiationId :: string
  cd_localCompanionId :: string
  cd_peerContactId :: string
  cd_peerCompanionId :: string
  cd_preferredChannel :: preferred_channel
  cd_targetChannelId :: "string option"
  cd_source :: initiation_source
  cd_provenanceRef :: string
  cd_reasonSummary :: string
  cd_continuationTaskKind :: "continuation_task option"
  cd_createdAtMs :: int
  cd_expiresAtMs :: int
  cd_status :: candidate_status
  cd_reasonCode :: "string option"
  cd_permitId :: "string option"
  cd_pendingFollowUpId :: "string option"
  cd_deliveryDisposition :: "delivery_disposition option"
  cd_retryAttempt :: "int option"
  cd_retryEligibleAtMs :: "int option"
  cd_revision :: int

definition MAX_ICP_CANDIDATE_TTL_MS :: int where
  "MAX_ICP_CANDIDATE_TTL_MS = 7 * 24 * 60 * 60000"

definition MAX_ICP_CANDIDATE_REASON_CHARS :: nat where
  "MAX_ICP_CANDIDATE_REASON_CHARS = 1000"

definition CANDIDATE_KEYS :: "string list" where
  "CANDIDATE_KEYS =
     [''candidateId'', ''rootInitiationId'', ''localCompanionId'', ''peerContactId'', ''peerCompanionId'',
      ''preferredChannel'', ''source'', ''provenanceRef'', ''reasonSummary'', ''targetChannelId'',
      ''continuationTaskKind'', ''createdAtMs'', ''expiresAtMs'', ''status'', ''reasonCode'', ''permitId'',
      ''pendingFollowUpId'', ''deliveryDisposition'', ''retryAttempt'', ''retryEligibleAtMs'', ''revision'']"

definition SHARED_CANDIDATE_KEYS :: "string list" where
  "SHARED_CANDIDATE_KEYS =
     [''candidateId'', ''rootInitiationId'', ''localCompanionId'', ''peerCompanionId'', ''preferredChannel'', ''source'',
      ''provenanceRef'', ''createdAtMs'', ''expiresAtMs'', ''status'', ''reasonCode'', ''revision'']"

text \<open>Optional members: \<^verbatim>\<open>value === undefined ? undefined : require...(value, field)\<close>.\<close>

definition optional_guard :: "(wire \<Rightarrow> 'a result) \<Rightarrow> wire \<Rightarrow> 'a option result" where
  "optional_guard guard v = (if v = Wire_undefined then Inr None else rbind (guard v) (\<lambda>x. Inr (Some x)))"

definition isIcpContinuationTaskKind :: "wire \<Rightarrow> continuation_task option" where
  "isIcpContinuationTaskKind v = (case v of Wire_string s \<Rightarrow> map_of ICP_CONTINUATION_TASK_KINDS s | _ \<Rightarrow> None)"

definition require_task :: "wire \<Rightarrow> continuation_task result" where
  "require_task v = (case isIcpContinuationTaskKind v of
     None \<Rightarrow> Inl (Error ''ICP candidate.continuationTaskKind is invalid'') | Some k \<Rightarrow> Inr k)"

text \<open>The lifetime of a candidate; \<open>Some nowMs\<close> is the option \<^verbatim>\<open>requireCurrent: true\<close> with that \<^verbatim>\<open>nowMs\<close>.\<close>

definition check_candidate_times :: "int \<Rightarrow> int \<Rightarrow> wire option \<Rightarrow> unit result" where
  "check_candidate_times createdAtMs expiresAtMs current =
     throwIf (expiresAtMs \<le> createdAtMs) ''ICP candidate.expiresAtMs must be later than createdAtMs'' (
     throwIf (expiresAtMs - createdAtMs > MAX_ICP_CANDIDATE_TTL_MS)
       ''ICP initiation candidate exceeds maximum TTL 604800000ms'' (
     case current of
       None \<Rightarrow> Inr ()
     | Some now \<Rightarrow> rbind (requireTimestampValue now ''ICP candidate validation nowMs'') (\<lambda>nowMs.
         throwIf (createdAtMs > nowMs) ''ICP initiation candidate is not yet valid'' (
         throwIf (expiresAtMs \<le> nowMs) ''ICP initiation candidate is expired'' (Inr ())))))"

definition check_target_channel :: "string option \<Rightarrow> preferred_channel \<Rightarrow> string \<Rightarrow> string \<Rightarrow> unit result" where
  "check_target_channel targetChannelId preferredChannel localCompanionId peerCompanionId =
     (let mismatch = ''ICP candidate.targetChannelId must match preferredChannel'' in
      case targetChannelId of
        None \<Rightarrow> Inr ()
      | Some channelId \<Rightarrow>
          (case parseCompanionChannelId channelId of
             None \<Rightarrow> Inl (Error mismatch)
           | Some (Channel_room p) \<Rightarrow> throwIf (preferredChannel = Prefer_dm) mismatch (Inr ())
           | Some (Channel_dm a b) \<Rightarrow>
               throwIf (preferredChannel \<noteq> Prefer_dm) mismatch (
               throwIf (\<not> (localCompanionId \<in> set [a, b] \<and> peerCompanionId \<in> set [a, b]))
                 ''ICP candidate.targetChannelId must bind the candidate companion pair'' (Inr ()))))"

definition parseIcpInitiationCandidate :: "wire \<Rightarrow> wire option \<Rightarrow> initiation_candidate result" where
  "parseIcpInitiationCandidate value current =
     rbind (requireRecord value ''ICP initiation candidate'') (\<lambda>raw.
     rbind (assertNoUnknownKeys raw CANDIDATE_KEYS ''ICP initiation candidate'') (\<lambda>_.
     rbind (requireUuidValue (member raw ''localCompanionId'') ''ICP candidate.localCompanionId'') (\<lambda>localCompanionId.
     rbind (requireUuidValue (member raw ''peerCompanionId'') ''ICP candidate.peerCompanionId'') (\<lambda>peerCompanionId.
     throwIf (localCompanionId = peerCompanionId) ''ICP initiation candidate must target a different companion'' (
     rbind (requireTimestampValue (member raw ''createdAtMs'') ''ICP candidate.createdAtMs'') (\<lambda>createdAtMs.
     rbind (requireTimestampValue (member raw ''expiresAtMs'') ''ICP candidate.expiresAtMs'') (\<lambda>expiresAtMs.
     rbind (check_candidate_times createdAtMs expiresAtMs current) (\<lambda>_.
     rbind (requireOptionalReason (member raw ''reasonCode'') ''ICP candidate.reasonCode'') (\<lambda>reasonCode.
     rbind (optional_guard require_task (member raw ''continuationTaskKind'')) (\<lambda>continuationTaskKind.
     rbind (optional_guard (\<lambda>v. requireUuidValue v ''ICP candidate.permitId'') (member raw ''permitId'')) (\<lambda>permitId.
     rbind (optional_guard (\<lambda>v. requireString v ''ICP candidate.pendingFollowUpId'' 1024)
              (member raw ''pendingFollowUpId'')) (\<lambda>pendingFollowUpId.
     rbind (optional_guard (\<lambda>v. requireEnum v delivery_dispositions ''ICP candidate.deliveryDisposition'')
              (member raw ''deliveryDisposition'')) (\<lambda>deliveryDisposition.
     rbind (requireOptionalTimestamp (member raw ''retryAttempt'') ''ICP candidate.retryAttempt'') (\<lambda>retryAttempt.
     rbind (requireOptionalTimestamp (member raw ''retryEligibleAtMs'') ''ICP candidate.retryEligibleAtMs'') (\<lambda>retryEligibleAtMs.
     throwIf (pendingFollowUpId \<noteq> None \<and> member raw ''source'' \<noteq> Wire_string ''intention'')
       ''ICP candidate.pendingFollowUpId is only valid for intention sources'' (
     throwIf (deliveryDisposition \<noteq> None \<and> member raw ''status'' \<noteq> Wire_string ''consumed'')
       ''ICP candidate.deliveryDisposition requires consumed status'' (
     throwIf (retryEligibleAtMs \<noteq> None \<and> member raw ''status'' \<noteq> Wire_string ''deferred'')
       ''ICP candidate.retryEligibleAtMs requires deferred status'' (
     rbind (requireEnum (member raw ''preferredChannel'') preferred_channels ''ICP candidate.preferredChannel'') (\<lambda>preferredChannel.
     rbind (optional_guard (\<lambda>v. requireString v ''ICP candidate.targetChannelId'' 1024)
              (member raw ''targetChannelId'')) (\<lambda>targetChannelId.
     rbind (check_target_channel targetChannelId preferredChannel localCompanionId peerCompanionId) (\<lambda>_.
     rbind (requireRevision (member raw ''revision'') ''ICP candidate.revision'') (\<lambda>revision.
     rbind (requireUuidValue (member raw ''candidateId'') ''ICP candidate.candidateId'') (\<lambda>candidateId.
     rbind (requireUuidValue (member raw ''rootInitiationId'') ''ICP candidate.rootInitiationId'') (\<lambda>rootInitiationId.
     rbind (requireString (member raw ''peerContactId'') ''ICP candidate.peerContactId'' 512) (\<lambda>peerContactId.
     rbind (requireEnum (member raw ''source'') ICP_INITIATION_SOURCES ''ICP candidate.source'') (\<lambda>source.
     rbind (parseIcpProvenanceHandle (member raw ''provenanceRef'') ''ICP candidate.provenanceRef'') (\<lambda>provenanceRef.
     rbind (requireString (member raw ''reasonSummary'') ''ICP candidate.reasonSummary'' MAX_ICP_CANDIDATE_REASON_CHARS) (\<lambda>reasonSummary.
     rbind (requireEnum (member raw ''status'') ICP_INITIATION_CANDIDATE_STATUSES ''ICP candidate.status'') (\<lambda>status.
     Inr \<lparr>cd_candidateId = candidateId, cd_rootInitiationId = rootInitiationId, cd_localCompanionId = localCompanionId,
          cd_peerContactId = peerContactId, cd_peerCompanionId = peerCompanionId, cd_preferredChannel = preferredChannel,
          cd_targetChannelId = targetChannelId, cd_source = source, cd_provenanceRef = provenanceRef,
          cd_reasonSummary = reasonSummary, cd_continuationTaskKind = continuationTaskKind, cd_createdAtMs = createdAtMs,
          cd_expiresAtMs = expiresAtMs, cd_status = status, cd_reasonCode = reasonCode, cd_permitId = permitId,
          cd_pendingFollowUpId = pendingFollowUpId, cd_deliveryDisposition = deliveryDisposition,
          cd_retryAttempt = retryAttempt, cd_retryEligibleAtMs = retryEligibleAtMs,
          cd_revision = revision\<rparr>)))))))))))))))))))))))))))))"

definition assertIcpInitiationCandidateStatusTransition :: "candidate_status \<Rightarrow> candidate_status \<Rightarrow> unit result" where
  "assertIcpInitiationCandidateStatusTransition before after =
     throwIf (after \<notin> set (CANDIDATE_TRANSITIONS before))
       (''Invalid ICP candidate status transition: '' @ enum_name ICP_INITIATION_CANDIDATE_STATUSES before @ '' -> ''
        @ enum_name ICP_INITIATION_CANDIDATE_STATUSES after) (Inr ())"

text \<open>The object a parsed candidate is in memory.\<close>

definition optional_enum :: "string \<Rightarrow> (string \<times> 'a) list \<Rightarrow> 'a option \<Rightarrow> (string \<times> wire) list" where
  "optional_enum key table v = (case v of None \<Rightarrow> [] | Some x \<Rightarrow> [(key, Wire_string (enum_name table x))])"

definition candidate_raw :: "initiation_candidate \<Rightarrow> (string \<times> wire) list" where
  "candidate_raw c =
     [(''candidateId'', Wire_string (cd_candidateId c)), (''rootInitiationId'', Wire_string (cd_rootInitiationId c)),
      (''localCompanionId'', Wire_string (cd_localCompanionId c)), (''peerContactId'', Wire_string (cd_peerContactId c)),
      (''peerCompanionId'', Wire_string (cd_peerCompanionId c)),
      (''preferredChannel'', Wire_string (enum_name preferred_channels (cd_preferredChannel c)))]
     @ optional_member ''targetChannelId'' (cd_targetChannelId c)
     @ [(''source'', Wire_string (enum_name ICP_INITIATION_SOURCES (cd_source c))),
        (''provenanceRef'', Wire_string (cd_provenanceRef c)), (''reasonSummary'', Wire_string (cd_reasonSummary c))]
     @ optional_enum ''continuationTaskKind'' ICP_CONTINUATION_TASK_KINDS (cd_continuationTaskKind c)
     @ [(''createdAtMs'', wire_int (cd_createdAtMs c)), (''expiresAtMs'', wire_int (cd_expiresAtMs c)),
        (''status'', Wire_string (enum_name ICP_INITIATION_CANDIDATE_STATUSES (cd_status c)))]
     @ optional_member ''reasonCode'' (cd_reasonCode c) @ optional_member ''permitId'' (cd_permitId c)
     @ optional_member ''pendingFollowUpId'' (cd_pendingFollowUpId c)
     @ optional_enum ''deliveryDisposition'' delivery_dispositions (cd_deliveryDisposition c)
     @ optional_int ''retryAttempt'' (cd_retryAttempt c) @ optional_int ''retryEligibleAtMs'' (cd_retryEligibleAtMs c)
     @ [(''revision'', wire_int (cd_revision c))]"

definition candidate_wire :: "initiation_candidate \<Rightarrow> wire" where
  "candidate_wire c = Wire_object (candidate_raw c)"

section \<open>What a candidate shows of itself\<close>

record shared_candidate =
  sc_candidateId :: string
  sc_rootInitiationId :: string
  sc_localCompanionId :: string
  sc_peerCompanionId :: string
  sc_preferredChannel :: preferred_channel
  sc_source :: initiation_source
  sc_provenanceRef :: string
  sc_createdAtMs :: int
  sc_expiresAtMs :: int
  sc_status :: candidate_status
  sc_reasonCode :: "string option"
  sc_revision :: int

definition toIcpInitiationCandidateSharedMetadata :: "initiation_candidate \<Rightarrow> shared_candidate" where
  "toIcpInitiationCandidateSharedMetadata candidate =
     \<lparr>sc_candidateId = cd_candidateId candidate, sc_rootInitiationId = cd_rootInitiationId candidate,
      sc_localCompanionId = cd_localCompanionId candidate, sc_peerCompanionId = cd_peerCompanionId candidate,
      sc_preferredChannel = cd_preferredChannel candidate, sc_source = cd_source candidate,
      sc_provenanceRef = cd_provenanceRef candidate, sc_createdAtMs = cd_createdAtMs candidate,
      sc_expiresAtMs = cd_expiresAtMs candidate, sc_status = cd_status candidate,
      sc_reasonCode = cd_reasonCode candidate, sc_revision = cd_revision candidate\<rparr>"

definition private_sentinels :: "(string \<times> wire) list" where
  "private_sentinels = [(''peerContactId'', Wire_string ''[private]''), (''reasonSummary'', Wire_string ''[private]'')]"

definition parseIcpInitiationCandidateSharedMetadata :: "wire \<Rightarrow> wire option \<Rightarrow> shared_candidate result" where
  "parseIcpInitiationCandidateSharedMetadata value current =
     rbind (requireRecord value ''ICP shared initiation candidate'') (\<lambda>raw.
     rbind (assertNoUnknownKeys raw SHARED_CANDIDATE_KEYS ''ICP shared initiation candidate'') (\<lambda>_.
     rbind (parseIcpInitiationCandidate (Wire_object (raw @ private_sentinels)) current) (\<lambda>candidate.
     Inr (toIcpInitiationCandidateSharedMetadata candidate))))"

text \<open>The object the projection is in memory.\<close>

definition shared_candidate_wire :: "shared_candidate \<Rightarrow> wire" where
  "shared_candidate_wire c = Wire_object (
     [(''candidateId'', Wire_string (sc_candidateId c)), (''rootInitiationId'', Wire_string (sc_rootInitiationId c)),
      (''localCompanionId'', Wire_string (sc_localCompanionId c)), (''peerCompanionId'', Wire_string (sc_peerCompanionId c)),
      (''preferredChannel'', Wire_string (enum_name preferred_channels (sc_preferredChannel c))),
      (''source'', Wire_string (enum_name ICP_INITIATION_SOURCES (sc_source c))),
      (''provenanceRef'', Wire_string (sc_provenanceRef c)), (''createdAtMs'', wire_int (sc_createdAtMs c)),
      (''expiresAtMs'', wire_int (sc_expiresAtMs c)),
      (''status'', Wire_string (enum_name ICP_INITIATION_CANDIDATE_STATUSES (sc_status c)))]
     @ optional_member ''reasonCode'' (sc_reasonCode c) @ [(''revision'', wire_int (sc_revision c))])"

section \<open>Felt impulses\<close>

definition FELT_IMPULSE_CORRELATION_PREFIX :: string where
  "FELT_IMPULSE_CORRELATION_PREFIX = ''felt-impulse:would_message:''"

datatype link_outcome = Link_submitted | Link_deduped

datatype 'n funnel_outcome =
  Funnel_no_eligible_peer | Funnel_not_authorized | Funnel_throttled 'n | Funnel_candidate_linked string link_outcome

text \<open>A record before (\<open>'n\<close> a number) and after (\<open>'n\<close> an integer) its validation.\<close>

record 'n funnel_record =
  fu_correlationId :: string
  fu_firstCrossingMs :: 'n
  fu_firedAtMs :: 'n
  fu_recordedAtMs :: 'n
  fu_outcome :: "'n funnel_outcome"

definition is_digit :: "char \<Rightarrow> bool" where
  "is_digit c \<longleftrightarrow> c \<in> set ''0123456789''"

definition digits_value :: "string \<Rightarrow> nat" where
  "digits_value s = foldl (\<lambda>n c. 10 * n + (of_char c - 48)) 0 s"

text \<open>
  \<^verbatim>\<open>Number(suffix)\<close> must be a non-negative safe integer whose \<^verbatim>\<open>String\<close> is the suffix. That string consists of digits, so a
  suffix with any other character is refused whatever number it is, and one of digits is read as a decimal.
\<close>

definition parseFeltImpulseCorrelationFirstCrossingMs :: "string \<Rightarrow> int result" where
  "parseFeltImpulseCorrelationFirstCrossingMs value =
     (let suffix = (if starts_with FELT_IMPULSE_CORRELATION_PREFIX value
                    then drop (length FELT_IMPULSE_CORRELATION_PREFIX) value else []);
          timestamp = digits_value suffix
      in throwIf (\<not> list_all is_digit suffix \<or> int timestamp > MAX_SAFE_INTEGER \<or> decimal timestamp \<noteq> suffix)
           ''Felt-impulse correlationId must be a content-free would_message identity'' (Inr (int timestamp)))"

definition requireFeltImpulseCorrelationId :: "string \<Rightarrow> string result" where
  "requireFeltImpulseCorrelationId value = rbind (parseFeltImpulseCorrelationFirstCrossingMs value) (\<lambda>_. Inr value)"

definition parse_funnel_outcome :: "int \<Rightarrow> jsnum funnel_outcome \<Rightarrow> int funnel_outcome result" where
  "parse_funnel_outcome recordedAtMs outcome =
     (case outcome of
        Funnel_no_eligible_peer \<Rightarrow> Inr Funnel_no_eligible_peer
      | Funnel_not_authorized \<Rightarrow> Inr Funnel_not_authorized
      | Funnel_throttled nextEligibleAtMs \<Rightarrow>
          rbind (requireTimestamp nextEligibleAtMs ''nextEligibleAtMs'') (\<lambda>next.
          throwIf (next \<le> recordedAtMs) ''Felt-impulse nextEligibleAtMs must be after recordedAtMs'' (Inr (Funnel_throttled next)))
      | Funnel_candidate_linked candidateId candidateOutcome \<Rightarrow>
          throwIf (\<not> isRfc4122Uuid candidateId) ''Felt-impulse candidateId must be a lowercase RFC-4122 UUID'' (
          Inr (Funnel_candidate_linked candidateId candidateOutcome)))"

definition parseIcpFeltImpulseFunnelRecord :: "jsnum funnel_record \<Rightarrow> int funnel_record result" where
  "parseIcpFeltImpulseFunnelRecord input =
     rbind (requireFeltImpulseCorrelationId (fu_correlationId input)) (\<lambda>correlationId.
     rbind (requireTimestamp (fu_firstCrossingMs input) ''firstCrossingMs'') (\<lambda>firstCrossingMs.
     rbind (requireTimestamp (fu_firedAtMs input) ''firedAtMs'') (\<lambda>firedAtMs.
     rbind (parseFeltImpulseCorrelationFirstCrossingMs correlationId) (\<lambda>encoded.
     throwIf (encoded \<noteq> firstCrossingMs) ''Felt-impulse correlationId must encode firstCrossingMs'' (
     throwIf (firedAtMs < firstCrossingMs) ''Felt-impulse firedAtMs must not precede firstCrossingMs'' (
     rbind (requireTimestamp (fu_recordedAtMs input) ''recordedAtMs'') (\<lambda>recordedAtMs.
     rbind (parse_funnel_outcome recordedAtMs (fu_outcome input)) (\<lambda>outcome.
     Inr \<lparr>fu_correlationId = correlationId, fu_firstCrossingMs = firstCrossingMs, fu_firedAtMs = firedAtMs,
          fu_recordedAtMs = recordedAtMs, fu_outcome = outcome\<rparr>))))))))"

end
