(* ===== verification/Candidate_Store.thy ===== *)
theory Candidate_Store
  imports Candidate_Contract Autonomy_Store
begin

text \<open>
  The private candidates of one companion and the outcomes of its felt impulses: the two tables of
  \<^verbatim>\<open>src/src/persistence/postgres/intention-migrations.ts\<close>, and the operations of
  \<^verbatim>\<open>src/src/persistence/postgres/icp-initiation-candidate-store.ts\<close> and \<^verbatim>\<open>icp-felt-impulse-funnel-store.ts\<close>.

  A candidate is worked on under a lease: a token with an expiry on the operational clock (\<^verbatim>\<open>Date.now()\<close>), which is an
  argument here. Every change of a row is a single statement that re-checks its condition, so each is one step. A
  statement outside a transaction commits before its row is mapped, so a mapping that throws leaves it done. The pool
  strips NUL bytes from the text it binds (\<^verbatim>\<open>stripNulBytesFromBindParameters\<close>).
\<close>

section \<open>Tables\<close>

record candidate_row =
  cr_candidateId :: string
  cr_rootInitiationId :: string
  cr_localCompanionId :: string
  cr_peerContactId :: string
  cr_peerCompanionId :: string
  cr_preferredChannel :: preferred_channel
  cr_targetChannelId :: "string option"
  cr_source :: initiation_source
  cr_provenanceRef :: string
  cr_reasonSummary :: string
  cr_continuationTaskKind :: "continuation_task option"
  cr_createdAtMs :: int
  cr_expiresAtMs :: int
  cr_status :: candidate_status
  cr_reasonCode :: "string option"
  cr_permitId :: "string option"
  cr_pendingFollowUpId :: "string option"
  cr_deliveryDisposition :: "delivery_disposition option"
  cr_retryAttempt :: int
  cr_retryEligibleAtMs :: "int option"
  cr_claimToken :: "string option"
  cr_claimExpiresAtMs :: "int option"
  cr_revision :: int

datatype funnel_kind = Kind_no_eligible_peer | Kind_not_authorized | Kind_throttled | Kind_candidate_linked

record funnel_row =
  fr_correlationId :: string
  fr_firstCrossingMs :: int
  fr_firedAtMs :: int
  fr_recordedAtMs :: int
  fr_outcome :: funnel_kind
  fr_nextEligibleAtMs :: "int option"
  fr_candidateId :: "string option"
  fr_candidateOutcome :: "link_outcome option"

record candidate_db =
  cb_candidates :: "candidate_row list"
  cb_funnel :: "funnel_row list"

definition candidate_row_ok :: "candidate_row \<Rightarrow> bool" where
  "candidate_row_ok r \<longleftrightarrow> cr_createdAtMs r \<ge> 0 \<and> cr_expiresAtMs r > cr_createdAtMs r
     \<and> 0 \<le> cr_retryAttempt r \<and> cr_retryAttempt r \<le> 2147483647 \<and> cr_revision r \<ge> 1
     \<and> cr_localCompanionId r \<noteq> cr_peerCompanionId r
     \<and> (cr_pendingFollowUpId r \<noteq> None \<longrightarrow> cr_source r = Initiation_intention)
     \<and> (cr_deliveryDisposition r \<noteq> None \<longrightarrow> cr_status r = Candidate_consumed)"

definition funnel_row_ok :: "funnel_row \<Rightarrow> bool" where
  "funnel_row_ok r \<longleftrightarrow> fr_firstCrossingMs r \<ge> 0 \<and> fr_firedAtMs r \<ge> 0 \<and> fr_recordedAtMs r \<ge> 0
     \<and> fr_correlationId r = FELT_IMPULSE_CORRELATION_PREFIX @ decimal (nat (fr_firstCrossingMs r))
     \<and> length (fr_correlationId r) \<le> length FELT_IMPULSE_CORRELATION_PREFIX + 16
     \<and> fr_firedAtMs r \<ge> fr_firstCrossingMs r
     \<and> (fr_outcome r = Kind_throttled) = (fr_nextEligibleAtMs r \<noteq> None)
     \<and> (case fr_nextEligibleAtMs r of None \<Rightarrow> True | Some t \<Rightarrow> t > fr_recordedAtMs r)
     \<and> (fr_outcome r = Kind_candidate_linked) = (fr_candidateId r \<noteq> None \<and> fr_candidateOutcome r \<noteq> None)"

text \<open>The values of a column that are not null.\<close>

definition present :: "('r \<Rightarrow> 'v option) \<Rightarrow> 'r list \<Rightarrow> 'v list" where
  "present column rows = List.map_filter column rows"

definition candidate_tables_ok :: "candidate_db \<Rightarrow> bool" where
  "candidate_tables_ok db \<longleftrightarrow> list_all candidate_row_ok (cb_candidates db) \<and> list_all funnel_row_ok (cb_funnel db)
     \<and> distinct (map cr_candidateId (cb_candidates db)) \<and> distinct (present cr_pendingFollowUpId (cb_candidates db))
     \<and> distinct (map fr_correlationId (cb_funnel db)) \<and> distinct (present fr_candidateId (cb_funnel db))
     \<and> list_all (\<lambda>c. c \<in> set (map cr_candidateId (cb_candidates db))) (present fr_candidateId (cb_funnel db))"

definition candidate_statement :: "(candidate_db \<Rightarrow> candidate_db) \<Rightarrow> (candidate_db, unit) tx" where
  "candidate_statement = txexec candidate_tables_ok"

definition strip_nul :: "string \<Rightarrow> string" where
  "strip_nul = filter (\<lambda>c. c \<noteq> CHR 0x00)"

section \<open>Mapping rows\<close>

text \<open>A row is read as the object of a candidate, with the retry counter always present.\<close>

definition mapCandidate :: "candidate_row \<Rightarrow> initiation_candidate result" where
  "mapCandidate row =
     rbind (requireSafeInteger (cr_createdAtMs row) ''candidate.createdAtMs'') (\<lambda>createdAtMs.
     rbind (requireSafeInteger (cr_expiresAtMs row) ''candidate.expiresAtMs'') (\<lambda>expiresAtMs.
     rbind (requireSafeInteger (cr_retryAttempt row) ''candidate.retryAttempt'') (\<lambda>retryAttempt.
     rbind (case cr_retryEligibleAtMs row of None \<Rightarrow> Inr None
            | Some t \<Rightarrow> rbind (requireSafeInteger t ''candidate.retryEligibleAtMs'') (\<lambda>t. Inr (Some t))) (\<lambda>retryEligibleAtMs.
     rbind (requireSafeInteger (cr_revision row) ''candidate.revision'') (\<lambda>revision.
     parseIcpInitiationCandidate (candidate_wire
       \<lparr>cd_candidateId = cr_candidateId row, cd_rootInitiationId = cr_rootInitiationId row,
        cd_localCompanionId = cr_localCompanionId row, cd_peerContactId = cr_peerContactId row,
        cd_peerCompanionId = cr_peerCompanionId row, cd_preferredChannel = cr_preferredChannel row,
        cd_targetChannelId = cr_targetChannelId row, cd_source = cr_source row, cd_provenanceRef = cr_provenanceRef row,
        cd_reasonSummary = cr_reasonSummary row, cd_continuationTaskKind = cr_continuationTaskKind row,
        cd_createdAtMs = createdAtMs, cd_expiresAtMs = expiresAtMs, cd_status = cr_status row,
        cd_reasonCode = cr_reasonCode row, cd_permitId = cr_permitId row, cd_pendingFollowUpId = cr_pendingFollowUpId row,
        cd_deliveryDisposition = cr_deliveryDisposition row, cd_retryAttempt = Some retryAttempt,
        cd_retryEligibleAtMs = retryEligibleAtMs, cd_revision = revision\<rparr>) None)))))"

section \<open>Claims\<close>

record producer_claim =
  pc_claimToken :: string
  pc_claimExpiresAtMs :: jsnum

definition assertLiveClaim :: "producer_claim \<Rightarrow> int \<Rightarrow> unit result" where
  "assertLiveClaim claim operationalNowMs =
     rbind (requireUuidText (pc_claimToken claim) ''claimToken'') (\<lambda>_.
     throwIf (\<not> isSafeInteger (pc_claimExpiresAtMs claim) \<or> intval (pc_claimExpiresAtMs claim) \<le> operationalNowMs
              \<or> intval (pc_claimExpiresAtMs claim) - operationalNowMs > MAX_ICP_CANDIDATE_TTL_MS)
       ''ICP candidate claim expiry must be a bounded future operational timestamp'' (Inr ()))"

text \<open>The condition under which a row is free to take: \<^verbatim>\<open>token IS NULL OR expiry IS NULL OR expiry <= now\<close>.\<close>

definition unclaimed :: "int \<Rightarrow> candidate_row \<Rightarrow> bool" where
  "unclaimed now r \<longleftrightarrow> cr_claimToken r = None \<or> cr_claimExpiresAtMs r = None \<or> the (cr_claimExpiresAtMs r) \<le> now"

text \<open>\<^verbatim>\<open>lifecycle_claim_token = token AND lifecycle_claim_expires_at_ms > now\<close>; null compares false.\<close>

definition claimed_by :: "string \<Rightarrow> int \<Rightarrow> candidate_row \<Rightarrow> bool" where
  "claimed_by token now r \<longleftrightarrow> cr_claimToken r = Some token
     \<and> (case cr_claimExpiresAtMs r of None \<Rightarrow> False | Some t \<Rightarrow> t > now)"

definition active_status :: "candidate_status \<Rightarrow> bool" where
  "active_status s \<longleftrightarrow> s \<in> set [Candidate_pending, Candidate_deferred, Candidate_permitted]"

text \<open>\<^verbatim>\<open>UPDATE icp_initiation_candidates SET f WHERE P RETURNING ...\<close> for a condition on the primary key.\<close>

definition update_candidate :: "(candidate_row \<Rightarrow> bool) \<Rightarrow> (candidate_row \<Rightarrow> candidate_row) \<Rightarrow> (candidate_db, candidate_row option) tx" where
  "update_candidate P f =
     txbind (txget (\<lambda>db. find P (cb_candidates db))) (\<lambda>found.
     txbind (candidate_statement (\<lambda>db. db\<lparr>cb_candidates := update_where P f (cb_candidates db)\<rparr>)) (\<lambda>_.
     txret (map_option f found)))"

definition renewCandidateClaim :: "string \<Rightarrow> producer_claim \<Rightarrow> int \<Rightarrow> (candidate_db, unit) io" where
  "renewCandidateClaim candidateId claim operationalNowMs =
     iobind (iopure (assertLiveClaim claim operationalNowMs)) (\<lambda>_.
     iobind (iopure (requireUuidText candidateId ''candidateId'')) (\<lambda>i.
     iobind (iopure (requireUuidText (pc_claimToken claim) ''claimToken'')) (\<lambda>token.
     iobind (withPostgresClient (update_candidate (\<lambda>r. cr_candidateId r = i \<and> claimed_by token operationalNowMs r)
       (\<lambda>r. r\<lparr>cr_claimExpiresAtMs := Some (intval (pc_claimExpiresAtMs claim))\<rparr>))) (\<lambda>row.
     case row of None \<Rightarrow> iothrow (Error (''ICP candidate claim renewal conflict for '' @ candidateId)) | Some _ \<Rightarrow> ioret ()))))"

definition take_claim :: "string \<Rightarrow> int \<Rightarrow> candidate_row \<Rightarrow> candidate_row" where
  "take_claim token expiresAtMs r =
     r\<lparr>cr_claimToken := Some token, cr_claimExpiresAtMs := Some expiresAtMs, cr_revision := cr_revision r + 1\<rparr>"

definition claimCandidate :: "string \<Rightarrow> producer_claim \<Rightarrow> int \<Rightarrow> (candidate_db, initiation_candidate option) io" where
  "claimCandidate candidateId claim operationalNowMs =
     iobind (iopure (assertLiveClaim claim operationalNowMs)) (\<lambda>_.
     iobind (iopure (requireUuidText candidateId ''candidateId'')) (\<lambda>i.
     iobind (iopure (requireUuidText (pc_claimToken claim) ''claimToken'')) (\<lambda>token.
     iobind (withPostgresClient (update_candidate
       (\<lambda>r. cr_candidateId r = i \<and> active_status (cr_status r) \<and> unclaimed operationalNowMs r)
       (take_claim token (intval (pc_claimExpiresAtMs claim))))) (\<lambda>row.
     iopure (map_found mapCandidate row)))))"

definition drop_claim :: "candidate_row \<Rightarrow> candidate_row" where
  "drop_claim r = r\<lparr>cr_claimToken := None, cr_claimExpiresAtMs := None\<rparr>"

definition releaseCandidateClaim :: "string \<Rightarrow> string \<Rightarrow> (candidate_db, unit) io" where
  "releaseCandidateClaim candidateId claimToken =
     iobind (iopure (requireUuidText candidateId ''candidateId'')) (\<lambda>i.
     iobind (iopure (requireUuidText claimToken ''claimToken'')) (\<lambda>token.
     iobind (withPostgresClient (update_candidate (\<lambda>r. cr_candidateId r = i \<and> cr_claimToken r = Some token) drop_claim))
       (\<lambda>_. ioret ())))"

section \<open>Creation\<close>

definition assertNewCandidate :: "initiation_candidate \<Rightarrow> unit result" where
  "assertNewCandidate candidate =
     throwIf (cd_status candidate \<noteq> Candidate_pending \<or> cd_revision candidate \<noteq> 1)
       ''A new ICP initiation candidate must start pending at revision 1'' (Inr ())"

definition candidateInsertValues :: "initiation_candidate \<Rightarrow> producer_claim option \<Rightarrow> candidate_row" where
  "candidateInsertValues candidate claim =
     \<lparr>cr_candidateId = cd_candidateId candidate, cr_rootInitiationId = cd_rootInitiationId candidate,
      cr_localCompanionId = cd_localCompanionId candidate, cr_peerContactId = strip_nul (cd_peerContactId candidate),
      cr_peerCompanionId = cd_peerCompanionId candidate, cr_preferredChannel = cd_preferredChannel candidate,
      cr_targetChannelId = map_option strip_nul (cd_targetChannelId candidate), cr_source = cd_source candidate,
      cr_provenanceRef = cd_provenanceRef candidate, cr_reasonSummary = strip_nul (cd_reasonSummary candidate),
      cr_continuationTaskKind = cd_continuationTaskKind candidate, cr_createdAtMs = cd_createdAtMs candidate,
      cr_expiresAtMs = cd_expiresAtMs candidate, cr_status = cd_status candidate, cr_reasonCode = cd_reasonCode candidate,
      cr_permitId = cd_permitId candidate, cr_pendingFollowUpId = map_option strip_nul (cd_pendingFollowUpId candidate),
      cr_deliveryDisposition = cd_deliveryDisposition candidate,
      cr_retryAttempt = (case cd_retryAttempt candidate of None \<Rightarrow> 0 | Some n \<Rightarrow> n),
      cr_retryEligibleAtMs = cd_retryEligibleAtMs candidate,
      cr_claimToken = map_option pc_claimToken claim,
      cr_claimExpiresAtMs = map_option (\<lambda>c. intval (pc_claimExpiresAtMs c)) claim,
      cr_revision = cd_revision candidate\<rparr>"

definition insert_candidate_row :: "candidate_row \<Rightarrow> (candidate_db, unit) tx" where
  "insert_candidate_row row = candidate_statement (\<lambda>db. db\<lparr>cb_candidates := cb_candidates db @ [row]\<rparr>)"

definition insertCandidate :: "wire \<Rightarrow> producer_claim option \<Rightarrow> (candidate_db, initiation_candidate) io" where
  "insertCandidate candidateInput claim =
     iobind (iopure (parseIcpInitiationCandidate candidateInput None)) (\<lambda>candidate.
     iobind (iopure (assertNewCandidate candidate)) (\<lambda>_.
     iobind (withPostgresClient (insert_candidate_row (candidateInsertValues candidate claim))) (\<lambda>_.
     iopure (mapCandidate (candidateInsertValues candidate claim)))))"

definition createCandidate :: "wire \<Rightarrow> (candidate_db, initiation_candidate) io" where
  "createCandidate candidateInput = insertCandidate candidateInput None"

definition createClaimedCandidate :: "wire \<Rightarrow> producer_claim \<Rightarrow> int \<Rightarrow> (candidate_db, initiation_candidate) io" where
  "createClaimedCandidate candidateInput claim operationalNowMs =
     iobind (iopure (parseIcpInitiationCandidate candidateInput None)) (\<lambda>candidate.
     iobind (iopure (assertLiveClaim claim operationalNowMs)) (\<lambda>_.
     insertCandidate (candidate_wire candidate) (Some claim)))"

definition submitted_link :: "int funnel_record \<Rightarrow> funnel_row" where
  "submitted_link outcome =
     \<lparr>fr_correlationId = fu_correlationId outcome, fr_firstCrossingMs = fu_firstCrossingMs outcome,
      fr_firedAtMs = fu_firedAtMs outcome, fr_recordedAtMs = fu_recordedAtMs outcome, fr_outcome = Kind_candidate_linked,
      fr_nextEligibleAtMs = None,
      fr_candidateId = (case fu_outcome outcome of Funnel_candidate_linked c _ \<Rightarrow> Some c | _ \<Rightarrow> None),
      fr_candidateOutcome = Some Link_submitted\<rparr>"

definition insert_outcome :: "funnel_row \<Rightarrow> (candidate_db, unit) tx" where
  "insert_outcome row = candidate_statement (\<lambda>db. db\<lparr>cb_funnel := cb_funnel db @ [row]\<rparr>)"

text \<open>The candidate and the outcome that links it are written together.\<close>

definition createClaimedFeltImpulseCandidate ::
  "wire \<Rightarrow> producer_claim \<Rightarrow> jsnum funnel_record \<Rightarrow> int \<Rightarrow> (candidate_db, initiation_candidate) io" where
  "createClaimedFeltImpulseCandidate candidateInput claim outcomeInput operationalNowMs =
     iobind (iopure (parseIcpInitiationCandidate candidateInput None)) (\<lambda>candidate.
     iobind (iopure (parseIcpFeltImpulseFunnelRecord outcomeInput)) (\<lambda>outcome.
     iobind (iopure (assertNewCandidate candidate)) (\<lambda>_.
     iobind (iopure (assertLiveClaim claim operationalNowMs)) (\<lambda>_.
     if cd_source candidate \<noteq> Initiation_felt_impulse
        \<or> fu_outcome outcome \<noteq> Funnel_candidate_linked (cd_candidateId candidate) Link_submitted
     then iothrow (Error ''Atomic felt-impulse candidate creation requires its exact submitted link'')
     else
       iobind (withPostgresClient (
         txbind (insert_candidate_row (candidateInsertValues candidate (Some claim))) (\<lambda>_.
         insert_outcome (submitted_link outcome)))) (\<lambda>_.
       iopure (mapCandidate (candidateInsertValues candidate (Some claim))))))))"

section \<open>Reads\<close>

definition getCandidate :: "string \<Rightarrow> candidate_db \<Rightarrow> initiation_candidate option result" where
  "getCandidate candidateId db =
     rbind (requireUuidText candidateId ''candidateId'') (\<lambda>i.
     map_found mapCandidate (find (\<lambda>r. cr_candidateId r = i) (cb_candidates db)))"

definition requirePendingFollowUpId :: "string \<Rightarrow> string result" where
  "requirePendingFollowUpId value =
     throwIf (value = [] \<or> js_trim value \<noteq> value) ''pendingFollowUpId must be a non-empty trimmed string'' (
     throwIf (length value > 1024) ''pendingFollowUpId must be 1024 characters or fewer'' (Inr value))"

definition getCandidateByPendingFollowUpId :: "string \<Rightarrow> candidate_db \<Rightarrow> initiation_candidate option result" where
  "getCandidateByPendingFollowUpId pendingFollowUpId db =
     rbind (requirePendingFollowUpId pendingFollowUpId) (\<lambda>i.
     map_found mapCandidate (find (\<lambda>r. cr_pendingFollowUpId r = Some (strip_nul i)) (cb_candidates db)))"

text \<open>\<^verbatim>\<open>ORDER BY created_at_ms DESC, candidate_id ASC\<close>.\<close>

definition newest_first :: "candidate_row list \<Rightarrow> candidate_row list" where
  "newest_first = sort_key (\<lambda>r. (- cr_createdAtMs r, cr_candidateId r))"

definition listCandidates :: "string list option \<Rightarrow> jsnum option \<Rightarrow> candidate_db \<Rightarrow> initiation_candidate list result" where
  "listCandidates statusesOption limitOption db =
     (let statuses = (case statusesOption of None \<Rightarrow> [] | Some ss \<Rightarrow> ss);
          limit = (case limitOption of None \<Rightarrow> jsint 200 | Some l \<Rightarrow> l)
      in case find (\<lambda>s. map_of ICP_INITIATION_CANDIDATE_STATUSES s = None) statuses of
           Some s \<Rightarrow> Inl (Error (''Unknown ICP candidate status '' @ s))
         | None \<Rightarrow>
             throwIf (\<not> isSafeInteger limit \<or> numval limit < 1 \<or> numval limit > 1000)
               ''ICP candidate list limit must be an integer between 1 and 1000'' (
             map_rows mapCandidate (take (nat (intval limit)) (newest_first (
               filter (\<lambda>r. statuses = [] \<or> enum_name ICP_INITIATION_CANDIDATE_STATUSES (cr_status r) \<in> set statuses)
                 (cb_candidates db))))))"

section \<open>Taking what is due\<close>

record claim_options =
  co_nowMs :: jsnum
  co_claimLeaseMs :: jsnum
  co_limit :: jsnum

record candidate_claim =
  cc_candidate :: initiation_candidate
  cc_claimToken :: string
  cc_claimExpiresAtMs :: int

definition check_claim_options :: "claim_options \<Rightarrow> (int \<times> int \<times> nat) result" where
  "check_claim_options options =
     throwIf (\<not> isSafeInteger (co_nowMs options) \<or> numval (co_nowMs options) < 0)
       ''ICP candidate claim nowMs must be a non-negative safe integer timestamp'' (
     throwIf (\<not> isSafeInteger (co_claimLeaseMs options) \<or> numval (co_claimLeaseMs options) < 1
              \<or> intval (co_claimLeaseMs options) > MAX_ICP_CANDIDATE_TTL_MS)
       ''ICP candidate claim lease must be between 1ms and 604800000ms'' (
     throwIf (\<not> isSafeInteger (co_limit options) \<or> numval (co_limit options) < 1
              \<or> intval (co_limit options) > int (length ICP_INITIATION_CANDIDATE_STATUSES) * 25)
       ''ICP candidate claim limit must be an integer between 1 and 200'' (
     Inr (intval (co_nowMs options), intval (co_claimLeaseMs options), nat (intval (co_limit options))))))"

definition is_due :: "int \<Rightarrow> int \<Rightarrow> candidate_row \<Rightarrow> bool" where
  "is_due now stalePendingBeforeMs r \<longleftrightarrow> active_status (cr_status r)
     \<and> (cr_expiresAtMs r \<le> now \<or> cr_status r = Candidate_permitted
        \<or> cr_status r = Candidate_pending \<and> cr_createdAtMs r \<le> stalePendingBeforeMs
        \<or> cr_status r = Candidate_deferred \<and> (case cr_retryEligibleAtMs r of None \<Rightarrow> True | Some t \<Rightarrow> t \<le> now))"

definition due_key :: "int \<Rightarrow> candidate_row \<Rightarrow> nat \<times> int \<times> string" where
  "due_key now r = (if cr_expiresAtMs r \<le> now then 0 else 1,
     case cr_retryEligibleAtMs r of None \<Rightarrow> cr_createdAtMs r | Some t \<Rightarrow> t, cr_candidateId r)"

text \<open>
  The candidates the batch takes: those due that no live lease and no concurrent transaction holds (\<open>locked\<close>, by
  \<^verbatim>\<open>FOR UPDATE SKIP LOCKED\<close>), the expired ones first.
\<close>

definition due_candidates :: "int \<Rightarrow> int \<Rightarrow> nat \<Rightarrow> int \<Rightarrow> (string \<Rightarrow> bool) \<Rightarrow> candidate_db \<Rightarrow> candidate_row list" where
  "due_candidates now lease limit operationalNowMs locked db =
     take limit (sort_key (due_key now) (filter (\<lambda>r. is_due now (max 0 (now - lease)) r \<and> unclaimed operationalNowMs r
       \<and> \<not> locked (cr_candidateId r)) (cb_candidates db)))"

text \<open>\<^verbatim>\<open>UPDATE ... FROM due\<close> returns its rows in no particular order; here it is that of the table.\<close>

definition claim_due :: "int \<Rightarrow> int \<Rightarrow> nat \<Rightarrow> string \<Rightarrow> int \<Rightarrow> (string \<Rightarrow> bool) \<Rightarrow> (candidate_db, candidate_row list) tx" where
  "claim_due now lease limit claimToken operationalNowMs locked =
     txbind (txget (\<lambda>db. map cr_candidateId (due_candidates now lease limit operationalNowMs locked db))) (\<lambda>due.
     txbind (txget (\<lambda>db. map (take_claim claimToken (operationalNowMs + lease))
       (filter (\<lambda>r. cr_candidateId r \<in> set due) (cb_candidates db)))) (\<lambda>rows.
     txbind (candidate_statement (\<lambda>db. db\<lparr>cb_candidates := update_where (\<lambda>r. cr_candidateId r \<in> set due)
       (take_claim claimToken (operationalNowMs + lease)) (cb_candidates db)\<rparr>)) (\<lambda>_.
     txret rows)))"

definition claimDueCandidates ::
  "claim_options \<Rightarrow> string \<Rightarrow> int \<Rightarrow> (string \<Rightarrow> bool) \<Rightarrow> (candidate_db, candidate_claim list) io" where
  "claimDueCandidates options claimToken operationalNowMs locked =
     iobind (iopure (check_claim_options options)) (\<lambda>(now, lease, limit).
     iobind (withPostgresClient (claim_due now lease limit claimToken operationalNowMs locked)) (\<lambda>rows.
     iopure (map_rows (\<lambda>row. rbind (mapCandidate row) (\<lambda>candidate. Inr \<lparr>cc_candidate = candidate,
       cc_claimToken = claimToken, cc_claimExpiresAtMs = operationalNowMs + lease\<rparr>)) rows)))"

section \<open>Transitions\<close>

record transition_input =
  ti_candidateId :: string
  ti_expectedStatus :: candidate_status
  ti_expectedRevision :: jsnum
  ti_status :: candidate_status
  ti_reasonCode :: "string option"
  ti_permitId :: "string option"
  ti_deliveryDisposition :: "string option"
  ti_retryAttempt :: "jsnum option"
  ti_retryEligibleAtMs :: "jsnum option"
  ti_clearRetryEligibility :: bool

definition nonnegative_safe :: "jsnum \<Rightarrow> bool" where
  "nonnegative_safe n \<longleftrightarrow> isSafeInteger n \<and> \<not> numval n < 0"

definition check_transition :: "transition_input \<Rightarrow> unit result" where
  "check_transition input =
     rbind (assertIcpInitiationCandidateStatusTransition (ti_expectedStatus input) (ti_status input)) (\<lambda>_.
     throwIf (\<exists>r \<in> set_option (ti_reasonCode input). r \<notin> set ICP_AUTONOMY_REASON_CODES)
       (''Unknown ICP candidate reason code '' @ the (ti_reasonCode input)) (
     rbind (case ti_permitId input of None \<Rightarrow> Inr None
            | Some p \<Rightarrow> rbind (requireUuidText p ''permitId'') (\<lambda>p. Inr (Some p))) (\<lambda>_.
     throwIf (ti_status input = Candidate_permitted \<and> ti_permitId input = None)
       ''ICP candidate permitted transition requires a recovery permit binding'' (
     throwIf (ti_status input = Candidate_consumed \<and> ti_deliveryDisposition input = None)
       ''ICP candidate consumed transition requires a delivery disposition'' (
     throwIf (\<exists>d \<in> set_option (ti_deliveryDisposition input). d \<notin> set (map fst delivery_dispositions))
       (''Unknown ICP candidate delivery disposition '' @ the (ti_deliveryDisposition input)) (
     throwIf (ti_deliveryDisposition input \<noteq> None \<and> ti_status input \<noteq> Candidate_consumed)
       ''ICP candidate delivery disposition requires consumed status'' (
     throwIf (\<exists>n \<in> set_option (ti_retryAttempt input). \<not> nonnegative_safe n)
       ''ICP candidate retry attempt must be a non-negative safe integer'' (
     throwIf (\<exists>n \<in> set_option (ti_retryEligibleAtMs input). \<not> nonnegative_safe n)
       ''ICP candidate retry eligibility must be a non-negative safe integer timestamp'' (
     throwIf (ti_retryEligibleAtMs input \<noteq> None \<and> ti_status input \<noteq> Candidate_deferred)
       ''ICP candidate retry eligibility requires deferred status'' (
     throwIf (ti_clearRetryEligibility input \<and> ti_status input \<noteq> Candidate_pending)
       ''ICP candidate retry eligibility can only clear when returning to pending'' (Inr ())))))))))))"

definition coalesce :: "'a option \<Rightarrow> 'a option \<Rightarrow> 'a option" where
  "coalesce a b = (case a of None \<Rightarrow> b | Some x \<Rightarrow> Some x)"

definition moved :: "transition_input \<Rightarrow> string option \<Rightarrow> candidate_row \<Rightarrow> candidate_row" where
  "moved input claimToken r =
     (let keeps_claim = (claimToken \<noteq> None \<and> ti_status input \<in> set [Candidate_pending, Candidate_permitted]) in
      r\<lparr>cr_status := ti_status input, cr_reasonCode := ti_reasonCode input,
        cr_permitId := coalesce (ti_permitId input) (cr_permitId r),
        cr_deliveryDisposition := coalesce (Option.bind (ti_deliveryDisposition input) (map_of delivery_dispositions))
          (cr_deliveryDisposition r),
        cr_retryEligibleAtMs := (if ti_status input \<noteq> Candidate_deferred \<or> ti_clearRetryEligibility input then None
          else coalesce (map_option intval (ti_retryEligibleAtMs input)) (cr_retryEligibleAtMs r)),
        cr_retryAttempt := (case ti_retryAttempt input of None \<Rightarrow> cr_retryAttempt r | Some n \<Rightarrow> intval n),
        cr_claimToken := (if keeps_claim then cr_claimToken r else None),
        cr_claimExpiresAtMs := (if keeps_claim then cr_claimExpiresAtMs r else None),
        cr_revision := cr_revision r + 1\<rparr>)"

text \<open>Who may move a row: without a token, when no live lease holds it; with one, its live holder.\<close>

definition may_move :: "string option \<Rightarrow> int \<Rightarrow> candidate_row \<Rightarrow> bool" where
  "may_move claimToken now r \<longleftrightarrow>
     (case claimToken of None \<Rightarrow> unclaimed now r | Some token \<Rightarrow> claimed_by token now r)"

definition candidate_transition :: "transition_input \<Rightarrow> string option \<Rightarrow> int \<Rightarrow> (candidate_db, initiation_candidate) io" where
  "candidate_transition input claimToken now =
     iobind (iopure (check_transition input)) (\<lambda>_.
     iobind (iopure (requireUuidText (ti_candidateId input) ''candidateId'')) (\<lambda>i.
     iobind (iopure (requirePositiveSafeInteger (ti_expectedRevision input) ''expectedRevision'')) (\<lambda>revision.
     iobind (withPostgresClient (update_candidate
       (\<lambda>r. cr_candidateId r = i \<and> cr_status r = ti_expectedStatus input \<and> cr_revision r = revision \<and> may_move claimToken now r)
       (moved input claimToken))) (\<lambda>row.
     case row of
       None \<Rightarrow> iothrow (Error (''ICP candidate transition conflict for '' @ ti_candidateId input))
     | Some r \<Rightarrow> iopure (mapCandidate r)))))"

definition transitionCandidate :: "transition_input \<Rightarrow> int \<Rightarrow> (candidate_db, initiation_candidate) io" where
  "transitionCandidate input now = candidate_transition input None now"

definition transitionClaimedCandidate :: "string \<Rightarrow> transition_input \<Rightarrow> int \<Rightarrow> (candidate_db, initiation_candidate) io" where
  "transitionClaimedCandidate claimToken input now =
     iobind (iopure (requireUuidText claimToken ''claimToken'')) (\<lambda>_. candidate_transition input (Some claimToken) now)"

end
