(* ===== verification/Felt_Funnel.thy ===== *)
theory Felt_Funnel
  imports Candidate_Store
begin

text \<open>
  The funnel of felt impulses (\<^verbatim>\<open>src/src/persistence/postgres/icp-felt-impulse-funnel-store.ts\<close>): one immutable outcome per
  qualified fire, and the operator's projection of what became of them, which follows the linked candidates.
\<close>

section \<open>Outcomes\<close>

definition mapRecord :: "funnel_row \<Rightarrow> int funnel_record result" where
  "mapRecord row =
     rbind (requireSafeInteger (fr_firstCrossingMs row) ''feltImpulse.firstCrossingMs'') (\<lambda>firstCrossingMs.
     rbind (requireSafeInteger (fr_firedAtMs row) ''feltImpulse.firedAtMs'') (\<lambda>firedAtMs.
     rbind (requireSafeInteger (fr_recordedAtMs row) ''feltImpulse.recordedAtMs'') (\<lambda>recordedAtMs.
     let parse = (\<lambda>outcome. parseIcpFeltImpulseFunnelRecord \<lparr>fu_correlationId = fr_correlationId row,
           fu_firstCrossingMs = jsint firstCrossingMs, fu_firedAtMs = jsint firedAtMs,
           fu_recordedAtMs = jsint recordedAtMs, fu_outcome = outcome\<rparr>) in
     case fr_outcome row of
       Kind_no_eligible_peer \<Rightarrow> parse Funnel_no_eligible_peer
     | Kind_not_authorized \<Rightarrow> parse Funnel_not_authorized
     | Kind_throttled \<Rightarrow>
         (case fr_nextEligibleAtMs row of
            None \<Rightarrow> Inl (Error ''Felt-impulse throttled row is missing nextEligibleAtMs'')
          | Some t \<Rightarrow> rbind (requireSafeInteger t ''feltImpulse.nextEligibleAtMs'') (\<lambda>t. parse (Funnel_throttled (jsint t))))
     | Kind_candidate_linked \<Rightarrow>
         (case (fr_candidateId row, fr_candidateOutcome row) of
            (Some candidateId, Some candidateOutcome) \<Rightarrow> parse (Funnel_candidate_linked candidateId candidateOutcome)
          | _ \<Rightarrow> Inl (Error ''Felt-impulse candidate-linked row is incomplete'')))))"

definition getOutcome :: "string \<Rightarrow> candidate_db \<Rightarrow> int funnel_record option result" where
  "getOutcome correlationId db =
     rbind (requireFeltImpulseCorrelationId correlationId) (\<lambda>i.
     map_found mapRecord (find (\<lambda>r. fr_correlationId r = i) (cb_funnel db)))"

fun outcome_kind :: "'n funnel_outcome \<Rightarrow> funnel_kind" where
  "outcome_kind Funnel_no_eligible_peer = Kind_no_eligible_peer"
| "outcome_kind Funnel_not_authorized = Kind_not_authorized"
| "outcome_kind (Funnel_throttled t) = Kind_throttled"
| "outcome_kind (Funnel_candidate_linked c l) = Kind_candidate_linked"

definition outcome_row :: "int funnel_record \<Rightarrow> funnel_row" where
  "outcome_row record =
     \<lparr>fr_correlationId = fu_correlationId record, fr_firstCrossingMs = fu_firstCrossingMs record,
      fr_firedAtMs = fu_firedAtMs record, fr_recordedAtMs = fu_recordedAtMs record,
      fr_outcome = outcome_kind (fu_outcome record),
      fr_nextEligibleAtMs = (case fu_outcome record of Funnel_throttled t \<Rightarrow> Some t | _ \<Rightarrow> None),
      fr_candidateId = (case fu_outcome record of Funnel_candidate_linked c l \<Rightarrow> Some c | _ \<Rightarrow> None),
      fr_candidateOutcome = (case fu_outcome record of Funnel_candidate_linked c l \<Rightarrow> Some l | _ \<Rightarrow> None)\<rparr>"

text \<open>
  \<^verbatim>\<open>INSERT ... ON CONFLICT (correlation_id) DO UPDATE SET correlation_id = EXCLUDED.correlation_id RETURNING ...\<close>: a
  correlation that is recorded already keeps its row, which is returned.
\<close>

definition record_sql :: "funnel_row \<Rightarrow> (candidate_db, funnel_row) tx" where
  "record_sql row =
     txbind (txget (\<lambda>db. find (\<lambda>r. fr_correlationId r = fr_correlationId row) (cb_funnel db))) (\<lambda>found.
     case found of
       Some r \<Rightarrow> txret r
     | None \<Rightarrow> txbind (insert_outcome row) (\<lambda>_. txret row))"

definition recordOutcome :: "jsnum funnel_record \<Rightarrow> (candidate_db, int funnel_record) io" where
  "recordOutcome input =
     iobind (iopure (parseIcpFeltImpulseFunnelRecord input)) (\<lambda>record.
     iobind (withPostgresClient (record_sql (outcome_row record))) (\<lambda>row.
     iopure (mapRecord row)))"

section \<open>The projection\<close>

datatype lifecycle_outcome =
  Lifecycle_pending | Lifecycle_permitted | Lifecycle_deferred | Lifecycle_declined | Lifecycle_rejected
| Lifecycle_delivered | Lifecycle_suppressed | Lifecycle_expired | Lifecycle_cancelled

definition LIFECYCLE_OUTCOMES :: "(string \<times> lifecycle_outcome) list" where
  "LIFECYCLE_OUTCOMES = [(''pending'', Lifecycle_pending), (''permitted'', Lifecycle_permitted),
     (''deferred'', Lifecycle_deferred), (''declined'', Lifecycle_declined), (''rejected'', Lifecycle_rejected),
     (''delivered'', Lifecycle_delivered), (''suppressed'', Lifecycle_suppressed), (''expired'', Lifecycle_expired),
     (''cancelled'', Lifecycle_cancelled)]"

definition lifecycleOutcome :: "string option \<Rightarrow> lifecycle_outcome result" where
  "lifecycleOutcome value =
     (case value of
        None \<Rightarrow> Inl (Error ''Unknown felt-impulse candidate lifecycle outcome null'')
      | Some s \<Rightarrow> (case map_of LIFECYCLE_OUTCOMES s of
            None \<Rightarrow> Inl (Error (''Unknown felt-impulse candidate lifecycle outcome '' @ s))
          | Some l \<Rightarrow> Inr l))"

text \<open>The \<^verbatim>\<open>CASE\<close> expression over the left join with the candidates.\<close>

definition lifecycleSql :: "candidate_db \<Rightarrow> funnel_row \<Rightarrow> string option" where
  "lifecycleSql db funnel =
     (if fr_outcome funnel \<noteq> Kind_candidate_linked then None
      else case find (\<lambda>r. Some (cr_candidateId r) = fr_candidateId funnel) (cb_candidates db) of
        None \<Rightarrow> None
      | Some candidate \<Rightarrow>
          if cr_status candidate = Candidate_consumed
          then map_option (enum_name delivery_dispositions) (cr_deliveryDisposition candidate)
          else Some (enum_name ICP_INITIATION_CANDIDATE_STATUSES (cr_status candidate)))"

record funnel_projection =
  fp_totalQualified :: int
  fp_noEligiblePeer :: int
  fp_notAuthorized :: int
  fp_throttled :: int
  fp_linksTotal :: int
  fp_submitted :: int
  fp_deduped :: int
  fp_lifecycle :: "lifecycle_outcome \<Rightarrow> int"
  fp_recent :: "(int funnel_record \<times> lifecycle_outcome option) list"

text \<open>\<^verbatim>\<open>GROUP BY outcome, candidate_outcome, lifecycle_outcome\<close> with \<^verbatim>\<open>COUNT(*)\<close>; the groups come in no particular order.\<close>

type_synonym group_key = "funnel_kind \<times> link_outcome option \<times> string option"

definition group_of :: "candidate_db \<Rightarrow> funnel_row \<Rightarrow> group_key" where
  "group_of db r = (fr_outcome r, fr_candidateOutcome r, lifecycleSql db r)"

definition countRows :: "candidate_db \<Rightarrow> (group_key \<times> int) list" where
  "countRows db = (let keys = map (group_of db) (cb_funnel db) in
     map (\<lambda>k. (k, int (count_list keys k))) (remdups keys))"

definition recent_row :: "candidate_db \<Rightarrow> funnel_row \<Rightarrow> (int funnel_record \<times> lifecycle_outcome option) result" where
  "recent_row db row =
     rbind (mapRecord row) (\<lambda>record.
     case fu_outcome record of
       Funnel_candidate_linked c l \<Rightarrow> rbind (lifecycleOutcome (lifecycleSql db row)) (\<lambda>life. Inr (record, Some life))
     | _ \<Rightarrow> Inr (record, None))"

definition recentRows :: "nat \<Rightarrow> candidate_db \<Rightarrow> funnel_row list" where
  "recentRows limit db = take limit (sort_key (\<lambda>r. (- fr_firedAtMs r, fr_correlationId r)) (cb_funnel db))"

definition add_group :: "group_key \<times> int \<Rightarrow> funnel_projection \<Rightarrow> funnel_projection result" where
  "add_group row projection =
     (case row of ((kind, link, life), outcome_count) \<Rightarrow>
        rbind (requireSafeInteger outcome_count ''feltImpulse.outcomeCount'') (\<lambda>n.
        let p = projection\<lparr>fp_totalQualified := fp_totalQualified projection + n\<rparr> in
        case kind of
          Kind_no_eligible_peer \<Rightarrow> Inr (p\<lparr>fp_noEligiblePeer := fp_noEligiblePeer p + n\<rparr>)
        | Kind_not_authorized \<Rightarrow> Inr (p\<lparr>fp_notAuthorized := fp_notAuthorized p + n\<rparr>)
        | Kind_throttled \<Rightarrow> Inr (p\<lparr>fp_throttled := fp_throttled p + n\<rparr>)
        | Kind_candidate_linked \<Rightarrow>
            let p = p\<lparr>fp_linksTotal := fp_linksTotal p + n\<rparr> in
            rbind (case link of
                     Some Link_submitted \<Rightarrow> Inr (p\<lparr>fp_submitted := fp_submitted p + n\<rparr>)
                   | Some Link_deduped \<Rightarrow> Inr (p\<lparr>fp_deduped := fp_deduped p + n\<rparr>)
                   | None \<Rightarrow> Inl (Error ''Unknown felt-impulse candidate outcome null'')) (\<lambda>p.
            rbind (lifecycleOutcome life) (\<lambda>l.
            Inr (p\<lparr>fp_lifecycle := (fp_lifecycle p)(l := fp_lifecycle p l + n)\<rparr>)))))"

fun add_groups :: "(group_key \<times> int) list \<Rightarrow> funnel_projection \<Rightarrow> funnel_projection result" where
  "add_groups [] p = Inr p"
| "add_groups (g # gs) p = rbind (add_group g p) (add_groups gs)"

definition empty_projection :: "(int funnel_record \<times> lifecycle_outcome option) list \<Rightarrow> funnel_projection" where
  "empty_projection recent =
     \<lparr>fp_totalQualified = 0, fp_noEligiblePeer = 0, fp_notAuthorized = 0, fp_throttled = 0, fp_linksTotal = 0,
      fp_submitted = 0, fp_deduped = 0, fp_lifecycle = (\<lambda>_. 0), fp_recent = recent\<rparr>"

text \<open>The two queries run on different connections: each sees a state of its own.\<close>

definition readProjection :: "jsnum \<Rightarrow> candidate_db \<Rightarrow> candidate_db \<Rightarrow> funnel_projection result" where
  "readProjection limit recent_db count_db =
     throwIf (\<not> isSafeInteger limit \<or> numval limit < 1)
       ''Felt-impulse funnel projection limit must be a positive safe integer'' (
     rbind (map_rows (recent_row recent_db) (recentRows (nat (intval limit)) recent_db)) (\<lambda>recent.
     add_groups (countRows count_db) (empty_projection recent)))"

section \<open>Runs\<close>

text \<open>One operation of either store that may change a table; its answer is left out.\<close>

datatype candidate_op =
  Create_candidate wire
| Create_claimed wire producer_claim int
| Create_felt wire producer_claim "jsnum funnel_record" int
| Renew_claim string producer_claim int
| Claim_candidate string producer_claim int
| Release_claim string string
| Claim_due claim_options string int "string \<Rightarrow> bool"
| Transition_candidate transition_input int
| Transition_claimed string transition_input int
| Record_outcome "jsnum funnel_record"

fun candidate_next :: "candidate_op \<Rightarrow> candidate_db \<Rightarrow> candidate_db" where
  "candidate_next (Create_candidate v) db = snd (createCandidate v db)"
| "candidate_next (Create_claimed v c now) db = snd (createClaimedCandidate v c now db)"
| "candidate_next (Create_felt v c f now) db = snd (createClaimedFeltImpulseCandidate v c f now db)"
| "candidate_next (Renew_claim i c now) db = snd (renewCandidateClaim i c now db)"
| "candidate_next (Claim_candidate i c now) db = snd (claimCandidate i c now db)"
| "candidate_next (Release_claim i t) db = snd (releaseCandidateClaim i t db)"
| "candidate_next (Claim_due opt t now locked) db = snd (claimDueCandidates opt t now locked db)"
| "candidate_next (Transition_candidate i now) db = snd (transitionCandidate i now db)"
| "candidate_next (Transition_claimed t i now) db = snd (transitionClaimedCandidate t i now db)"
| "candidate_next (Record_outcome f) db = snd (recordOutcome f db)"

definition candidate_run :: "candidate_op list \<Rightarrow> candidate_db \<Rightarrow> candidate_db" where
  "candidate_run ops db = fold candidate_next ops db"

definition empty_candidates :: candidate_db where
  "empty_candidates = \<lparr>cb_candidates = [], cb_funnel = []\<rparr>"

end
