(* ===== verification/Candidate_Rows.thy ===== *)
theory Candidate_Rows
  imports Felt_Funnel Autonomy_Rows
begin

text \<open>
  Which candidates the parser accepts (\<open>candidate_valid\<close>), that what it returns is read back from the object it is
  written as, in full and as its shared projection, and when the row of a candidate is readable.
\<close>

section \<open>Parsing candidates\<close>

lemma optional_guard_Inr [guard_simps]:
  "optional_guard g v = Inr r \<longleftrightarrow> (case r of None \<Rightarrow> v = Wire_undefined | Some x \<Rightarrow> v \<noteq> Wire_undefined \<and> g v = Inr x)"
  by (auto simp: optional_guard_def rbind_eq_Inr split: option.splits)

definition times_ok :: "int \<Rightarrow> int \<Rightarrow> bool" where
  "times_ok createdAtMs expiresAtMs \<longleftrightarrow> 0 \<le> createdAtMs \<and> createdAtMs < expiresAtMs \<and> expiresAtMs \<le> MAX_SAFE_INTEGER
     \<and> expiresAtMs - createdAtMs \<le> MAX_ICP_CANDIDATE_TTL_MS"

definition counter_ok :: "int \<Rightarrow> bool" where
  "counter_ok n \<longleftrightarrow> 0 \<le> n \<and> n \<le> MAX_SAFE_INTEGER"

definition candidate_valid :: "initiation_candidate \<Rightarrow> bool" where
  "candidate_valid c \<longleftrightarrow>
     isRfc4122Uuid (cd_candidateId c) \<and> isRfc4122Uuid (cd_rootInitiationId c) \<and> isRfc4122Uuid (cd_localCompanionId c)
     \<and> isRfc4122Uuid (cd_peerCompanionId c) \<and> cd_localCompanionId c \<noteq> cd_peerCompanionId c
     \<and> times_ok (cd_createdAtMs c) (cd_expiresAtMs c) \<and> set_option (cd_reasonCode c) \<subseteq> set ICP_AUTONOMY_REASON_CODES
     \<and> (\<forall>p \<in> set_option (cd_permitId c). isRfc4122Uuid p)
     \<and> (\<forall>f \<in> set_option (cd_pendingFollowUpId c). text_ok 1024 f \<and> cd_source c = Initiation_intention)
     \<and> (cd_deliveryDisposition c \<noteq> None \<longrightarrow> cd_status c = Candidate_consumed)
     \<and> (\<forall>n \<in> set_option (cd_retryAttempt c). counter_ok n)
     \<and> (\<forall>n \<in> set_option (cd_retryEligibleAtMs c). counter_ok n \<and> cd_status c = Candidate_deferred)
     \<and> (\<forall>t \<in> set_option (cd_targetChannelId c). text_ok 1024 t)
     \<and> check_target_channel (cd_targetChannelId c) (cd_preferredChannel c) (cd_localCompanionId c) (cd_peerCompanionId c) = Inr ()
     \<and> 1 \<le> cd_revision c \<and> cd_revision c \<le> MAX_SAFE_INTEGER
     \<and> text_ok 512 (cd_peerContactId c) \<and> text_ok 1000 (cd_reasonSummary c)
     \<and> (\<exists>u. cd_provenanceRef c = provenance_prefix @ u \<and> isRfc4122Uuid u)"

lemma parse_candidate_members:
  assumes "parseIcpInitiationCandidate (Wire_object raw) current = Inr c"
  shows "requireUuidValue (member raw ''candidateId'') ''ICP candidate.candidateId'' = Inr (cd_candidateId c)"
    "requireUuidValue (member raw ''rootInitiationId'') ''ICP candidate.rootInitiationId'' = Inr (cd_rootInitiationId c)"
    "requireUuidValue (member raw ''localCompanionId'') ''ICP candidate.localCompanionId'' = Inr (cd_localCompanionId c)"
    "requireUuidValue (member raw ''peerCompanionId'') ''ICP candidate.peerCompanionId'' = Inr (cd_peerCompanionId c)"
    "cd_localCompanionId c \<noteq> cd_peerCompanionId c"
    "requireTimestampValue (member raw ''createdAtMs'') ''ICP candidate.createdAtMs'' = Inr (cd_createdAtMs c)"
    "requireTimestampValue (member raw ''expiresAtMs'') ''ICP candidate.expiresAtMs'' = Inr (cd_expiresAtMs c)"
    "check_candidate_times (cd_createdAtMs c) (cd_expiresAtMs c) current = Inr ()"
    "requireOptionalReason (member raw ''reasonCode'') ''ICP candidate.reasonCode'' = Inr (cd_reasonCode c)"
    "optional_guard require_task (member raw ''continuationTaskKind'') = Inr (cd_continuationTaskKind c)"
    "optional_guard (\<lambda>v. requireUuidValue v ''ICP candidate.permitId'') (member raw ''permitId'') = Inr (cd_permitId c)"
    "optional_guard (\<lambda>v. requireString v ''ICP candidate.pendingFollowUpId'' 1024) (member raw ''pendingFollowUpId'')
       = Inr (cd_pendingFollowUpId c)"
    "optional_guard (\<lambda>v. requireEnum v delivery_dispositions ''ICP candidate.deliveryDisposition'')
       (member raw ''deliveryDisposition'') = Inr (cd_deliveryDisposition c)"
    "requireOptionalTimestamp (member raw ''retryAttempt'') ''ICP candidate.retryAttempt'' = Inr (cd_retryAttempt c)"
    "requireOptionalTimestamp (member raw ''retryEligibleAtMs'') ''ICP candidate.retryEligibleAtMs'' = Inr (cd_retryEligibleAtMs c)"
    "\<not> (cd_pendingFollowUpId c \<noteq> None \<and> member raw ''source'' \<noteq> Wire_string ''intention'')"
    "\<not> (cd_deliveryDisposition c \<noteq> None \<and> member raw ''status'' \<noteq> Wire_string ''consumed'')"
    "\<not> (cd_retryEligibleAtMs c \<noteq> None \<and> member raw ''status'' \<noteq> Wire_string ''deferred'')"
    "requireEnum (member raw ''preferredChannel'') preferred_channels ''ICP candidate.preferredChannel'' = Inr (cd_preferredChannel c)"
    "optional_guard (\<lambda>v. requireString v ''ICP candidate.targetChannelId'' 1024) (member raw ''targetChannelId'')
       = Inr (cd_targetChannelId c)"
    "check_target_channel (cd_targetChannelId c) (cd_preferredChannel c) (cd_localCompanionId c) (cd_peerCompanionId c) = Inr ()"
    "requireRevision (member raw ''revision'') ''ICP candidate.revision'' = Inr (cd_revision c)"
    "requireString (member raw ''peerContactId'') ''ICP candidate.peerContactId'' 512 = Inr (cd_peerContactId c)"
    "requireEnum (member raw ''source'') ICP_INITIATION_SOURCES ''ICP candidate.source'' = Inr (cd_source c)"
    "parseIcpProvenanceHandle (member raw ''provenanceRef'') ''ICP candidate.provenanceRef'' = Inr (cd_provenanceRef c)"
    "requireString (member raw ''reasonSummary'') ''ICP candidate.reasonSummary'' MAX_ICP_CANDIDATE_REASON_CHARS
       = Inr (cd_reasonSummary c)"
    "requireEnum (member raw ''status'') ICP_INITIATION_CANDIDATE_STATUSES ''ICP candidate.status'' = Inr (cd_status c)"
  using assms unfolding parseIcpInitiationCandidate_def requireRecord_def wire.case rbind_simps
  by (simp_all only: rbind_eq_Inr throwIf_eq_Inr sum.inject)
    (elim exE conjE, hypsubst, (simp only: initiation_candidate.simps simp_thms; fail | simp))+

lemma optional_timestamp_Inr:
  "requireOptionalTimestamp v f = Inr r \<Longrightarrow> n \<in> set_option r \<Longrightarrow> counter_ok n"
  by (auto simp: requireOptionalTimestamp_def rbind_eq_Inr guard_simps counter_ok_def dest: is_timestampD split: if_splits)

lemma revision_Inr: "requireRevision v f = Inr n \<Longrightarrow> 1 \<le> n \<and> n \<le> MAX_SAFE_INTEGER"
proof (cases v)
  case (Wire_number m)
  assume "requireRevision v f = Inr n"
  then have "isSafeInteger m" "1 \<le> numval m" "n = intval m" by (auto simp: Wire_number requireRevision_def Let_def split: if_splits)
  then show ?thesis using isSafeInteger_intval [of m] by (metis isSafeInteger_jsint numval_jsint abs_le_iff of_int_1_le_iff)
qed (simp_all add: requireRevision_def)

lemma provenance_ok: "parseIcpProvenanceHandle v f = Inr s \<Longrightarrow> \<exists>u. s = provenance_prefix @ u \<and> isRfc4122Uuid u"
  by (cases v) (auto simp: parseIcpProvenanceHandle_def Let_def starts_with_iff split: if_splits)

lemma parse_candidate_valid:
  assumes "parseIcpInitiationCandidate v current = Inr c"
  shows "candidate_valid c"
proof -
  obtain raw where v: "v = Wire_object raw"
    using assms by (cases v) (simp_all add: parseIcpInitiationCandidate_def requireRecord_def)
  note m = parse_candidate_members [OF assms [unfolded v]]
  have times: "times_ok (cd_createdAtMs c) (cd_expiresAtMs c)"
    using m(6,7,8) by (auto simp: times_ok_def check_candidate_times_def guard_simps dest: is_timestampD)
  have source: "cd_pendingFollowUpId c \<noteq> None \<Longrightarrow> cd_source c = Initiation_intention"
    using m(16,24) by (auto simp: guard_simps enum_at_def ICP_INITIATION_SOURCES_def)
  have consumed: "cd_deliveryDisposition c \<noteq> None \<Longrightarrow> cd_status c = Candidate_consumed"
    using m(17,27) by (auto simp: guard_simps enum_at_def ICP_INITIATION_CANDIDATE_STATUSES_def)
  have deferred: "cd_retryEligibleAtMs c \<noteq> None \<Longrightarrow> cd_status c = Candidate_deferred"
    using m(18,27) by (auto simp: guard_simps enum_at_def ICP_INITIATION_CANDIDATE_STATUSES_def)
  have texts: "\<And>t. t \<in> set_option (cd_targetChannelId c) \<Longrightarrow> text_ok 1024 t"
    "\<And>t. t \<in> set_option (cd_pendingFollowUpId c) \<Longrightarrow> text_ok 1024 t" "\<And>p. p \<in> set_option (cd_permitId c) \<Longrightarrow> isRfc4122Uuid p"
    using m(11,12,20) by (auto simp: guard_simps)
  show ?thesis
    unfolding candidate_valid_def
    using m(1-5,9,21,23,26) times source consumed deferred texts optional_timestamp_Inr [OF m(14)] optional_timestamp_Inr [OF m(15)]
      revision_Inr [OF m(22)] provenance_ok [OF m(25)]
    by (auto simp: guard_simps MAX_ICP_CANDIDATE_REASON_CHARS_def)
qed

lemma member_optional_enum:
  "member (optional_enum k' t v @ raw) k = (if k' = k \<and> v \<noteq> None then Wire_string (enum_name t (the v)) else member raw k)"
  by (auto simp: optional_enum_def member_def split: option.splits)

lemma candidate_raw_members:
  "member (candidate_raw c) ''candidateId'' = Wire_string (cd_candidateId c)"
  "member (candidate_raw c) ''rootInitiationId'' = Wire_string (cd_rootInitiationId c)"
  "member (candidate_raw c) ''localCompanionId'' = Wire_string (cd_localCompanionId c)"
  "member (candidate_raw c) ''peerContactId'' = Wire_string (cd_peerContactId c)"
  "member (candidate_raw c) ''peerCompanionId'' = Wire_string (cd_peerCompanionId c)"
  "member (candidate_raw c) ''preferredChannel'' = Wire_string (enum_name preferred_channels (cd_preferredChannel c))"
  "member (candidate_raw c) ''targetChannelId'' = (if cd_targetChannelId c \<noteq> None then Wire_string (the (cd_targetChannelId c)) else Wire_undefined)"
  "member (candidate_raw c) ''source'' = Wire_string (enum_name ICP_INITIATION_SOURCES (cd_source c))"
  "member (candidate_raw c) ''provenanceRef'' = Wire_string (cd_provenanceRef c)"
  "member (candidate_raw c) ''reasonSummary'' = Wire_string (cd_reasonSummary c)"
  "member (candidate_raw c) ''continuationTaskKind'' = (if cd_continuationTaskKind c \<noteq> None
     then Wire_string (enum_name ICP_CONTINUATION_TASK_KINDS (the (cd_continuationTaskKind c))) else Wire_undefined)"
  "member (candidate_raw c) ''createdAtMs'' = wire_int (cd_createdAtMs c)"
  "member (candidate_raw c) ''expiresAtMs'' = wire_int (cd_expiresAtMs c)"
  "member (candidate_raw c) ''status'' = Wire_string (enum_name ICP_INITIATION_CANDIDATE_STATUSES (cd_status c))"
  "member (candidate_raw c) ''reasonCode'' = (if cd_reasonCode c \<noteq> None then Wire_string (the (cd_reasonCode c)) else Wire_undefined)"
  "member (candidate_raw c) ''permitId'' = (if cd_permitId c \<noteq> None then Wire_string (the (cd_permitId c)) else Wire_undefined)"
  "member (candidate_raw c) ''pendingFollowUpId'' = (if cd_pendingFollowUpId c \<noteq> None then Wire_string (the (cd_pendingFollowUpId c)) else Wire_undefined)"
  "member (candidate_raw c) ''deliveryDisposition'' = (if cd_deliveryDisposition c \<noteq> None
     then Wire_string (enum_name delivery_dispositions (the (cd_deliveryDisposition c))) else Wire_undefined)"
  "member (candidate_raw c) ''retryAttempt'' = (if cd_retryAttempt c \<noteq> None then wire_int (the (cd_retryAttempt c)) else Wire_undefined)"
  "member (candidate_raw c) ''retryEligibleAtMs'' = (if cd_retryEligibleAtMs c \<noteq> None then wire_int (the (cd_retryEligibleAtMs c)) else Wire_undefined)"
  "member (candidate_raw c) ''revision'' = wire_int (cd_revision c)"
  by (simp_all add: candidate_raw_def member_optional_int member_optional_enum)

lemma candidate_keys: "fst ` set (candidate_raw c) \<subseteq> set CANDIDATE_KEYS"
  by (auto simp: candidate_raw_def CANDIDATE_KEYS_def optional_member_def optional_int_def optional_enum_def split: option.splits)

text \<open>Reading back what was written.\<close>

lemma candidate_enums [simp]:
  "enum_at preferred_channels (Wire_string (enum_name preferred_channels p)) p' \<longleftrightarrow> p' = p"
  "enum_at ICP_INITIATION_SOURCES (Wire_string (enum_name ICP_INITIATION_SOURCES s)) s' \<longleftrightarrow> s' = s"
  "enum_at ICP_INITIATION_CANDIDATE_STATUSES (Wire_string (enum_name ICP_INITIATION_CANDIDATE_STATUSES t)) t' \<longleftrightarrow> t' = t"
  "enum_at delivery_dispositions (Wire_string (enum_name delivery_dispositions d)) d' \<longleftrightarrow> d' = d"
  "require_task (Wire_string (enum_name ICP_CONTINUATION_TASK_KINDS k)) = Inr k"
  by ((cases p; auto simp: preferred_channels_def enum_name_def enum_at_def),
      (cases s; auto simp: ICP_INITIATION_SOURCES_def enum_name_def enum_at_def),
      (cases t; auto simp: ICP_INITIATION_CANDIDATE_STATUSES_def enum_name_def enum_at_def),
      (cases d; auto simp: delivery_dispositions_def enum_name_def enum_at_def),
      (cases k; simp add: ICP_CONTINUATION_TASK_KINDS_def enum_name_def require_task_def isIcpContinuationTaskKind_def))

lemma candidate_enum_names [simp]:
  "enum_name ICP_INITIATION_SOURCES s = ''intention'' \<longleftrightarrow> s = Initiation_intention"
  "enum_name ICP_INITIATION_CANDIDATE_STATUSES t = ''consumed'' \<longleftrightarrow> t = Candidate_consumed"
  "enum_name ICP_INITIATION_CANDIDATE_STATUSES t = ''deferred'' \<longleftrightarrow> t = Candidate_deferred"
  by ((cases s; simp add: ICP_INITIATION_SOURCES_def enum_name_def), (cases t; simp add: ICP_INITIATION_CANDIDATE_STATUSES_def enum_name_def)+)

lemma written_optionals:
  "set_option v \<subseteq> set ICP_AUTONOMY_REASON_CODES \<Longrightarrow>
     requireOptionalReason (if v \<noteq> None then Wire_string (the v) else Wire_undefined) f = Inr v"
  "\<forall>p \<in> set_option v. isRfc4122Uuid p \<Longrightarrow>
     optional_guard (\<lambda>w. requireUuidValue w f) (if v \<noteq> None then Wire_string (the v) else Wire_undefined) = Inr v"
  "\<forall>t \<in> set_option v. text_ok n t \<Longrightarrow>
     optional_guard (\<lambda>w. requireString w f n) (if v \<noteq> None then Wire_string (the v) else Wire_undefined) = Inr v"
  "\<forall>i \<in> set_option j. counter_ok i \<Longrightarrow>
     requireOptionalTimestamp (if j \<noteq> None then wire_int (the j) else Wire_undefined) f = Inr j"
  "optional_guard require_task (if k \<noteq> None then Wire_string (enum_name ICP_CONTINUATION_TASK_KINDS (the k)) else Wire_undefined) = Inr k"
  "optional_guard (\<lambda>w. requireEnum w delivery_dispositions f)
     (if d \<noteq> None then Wire_string (enum_name delivery_dispositions (the d)) else Wire_undefined) = Inr d"
  by (auto simp: guard_simps optional_at_def requireOptionalTimestamp_def rbind_eq_Inr wire_int_def counter_ok_def split: option.splits)

lemma written_scalars:
  "isRfc4122Uuid s \<Longrightarrow> requireUuidValue (Wire_string s) f = Inr s"
  "text_ok n s \<Longrightarrow> requireString (Wire_string s) f n = Inr s"
  "counter_ok i \<Longrightarrow> requireTimestampValue (wire_int i) f = Inr i"
  "1 \<le> i \<and> i \<le> MAX_SAFE_INTEGER \<Longrightarrow> requireRevision (wire_int i) f = Inr i"
  "\<exists>u. s = provenance_prefix @ u \<and> isRfc4122Uuid u \<Longrightarrow> parseIcpProvenanceHandle (Wire_string s) f = Inr s"
  "requireEnum (Wire_string (enum_name preferred_channels p)) preferred_channels f = Inr p"
  "requireEnum (Wire_string (enum_name ICP_INITIATION_SOURCES q)) ICP_INITIATION_SOURCES f = Inr q"
  "requireEnum (Wire_string (enum_name ICP_INITIATION_CANDIDATE_STATUSES t)) ICP_INITIATION_CANDIDATE_STATUSES f = Inr t"
  by (auto simp: guard_simps wire_int_def counter_ok_def requireRevision_def parseIcpProvenanceHandle_def abs_le_iff
      MAX_SAFE_INTEGER_def)

lemma parse_candidate_wire:
  assumes "candidate_valid c"
  shows "parseIcpInitiationCandidate (candidate_wire c) None = Inr c"
proof -
  have v: "isRfc4122Uuid (cd_candidateId c)" "isRfc4122Uuid (cd_rootInitiationId c)" "isRfc4122Uuid (cd_localCompanionId c)"
     "isRfc4122Uuid (cd_peerCompanionId c)" "(cd_localCompanionId c = cd_peerCompanionId c) = False"
     "set_option (cd_reasonCode c) \<subseteq> set ICP_AUTONOMY_REASON_CODES" "\<forall>p \<in> set_option (cd_permitId c). isRfc4122Uuid p"
     "\<forall>t \<in> set_option (cd_targetChannelId c). text_ok 1024 t" "\<forall>t \<in> set_option (cd_pendingFollowUpId c). text_ok 1024 t"
     "\<forall>n \<in> set_option (cd_retryAttempt c). counter_ok n" "\<forall>n \<in> set_option (cd_retryEligibleAtMs c). counter_ok n"
     "check_target_channel (cd_targetChannelId c) (cd_preferredChannel c) (cd_localCompanionId c) (cd_peerCompanionId c) = Inr ()"
     "1 \<le> cd_revision c \<and> cd_revision c \<le> MAX_SAFE_INTEGER" "text_ok 512 (cd_peerContactId c)" "text_ok 1000 (cd_reasonSummary c)"
     "\<exists>u. cd_provenanceRef c = provenance_prefix @ u \<and> isRfc4122Uuid u"
    using assms by (auto simp: candidate_valid_def)
  have t: "counter_ok (cd_createdAtMs c)" "counter_ok (cd_expiresAtMs c)"
    "check_candidate_times (cd_createdAtMs c) (cd_expiresAtMs c) None = Inr ()"
    using assms by (auto simp: candidate_valid_def times_ok_def counter_ok_def check_candidate_times_def)
  have guards: "(cd_pendingFollowUpId c \<noteq> None \<and> cd_source c \<noteq> Initiation_intention) = False"
    "(cd_deliveryDisposition c \<noteq> None \<and> cd_status c \<noteq> Candidate_consumed) = False"
    "(cd_retryEligibleAtMs c \<noteq> None \<and> cd_status c \<noteq> Candidate_deferred) = False"
    using assms by (auto simp: candidate_valid_def)
  have keys: "assertNoUnknownKeys (candidate_raw c) CANDIDATE_KEYS ''ICP initiation candidate'' = Inr ()"
    by (simp add: assertNoUnknownKeys_Inr candidate_keys)
  show ?thesis
    unfolding parseIcpInitiationCandidate_def candidate_wire_def requireRecord_def wire.case rbind_simps keys candidate_raw_members
      MAX_ICP_CANDIDATE_REASON_CHARS_def wire.inject candidate_enum_names guards
      written_scalars(1) [OF v(1)] written_scalars(1) [OF v(2)] written_scalars(1) [OF v(3)] written_scalars(1) [OF v(4)]
      v(5) throwIf_simps written_scalars(3) [OF t(1)] written_scalars(3) [OF t(2)] t(3) written_optionals(1) [OF v(6)]
      written_optionals(2) [OF v(7)] written_optionals(3) [OF v(8)] written_optionals(3) [OF v(9)]
      written_optionals(4) [OF v(10)] written_optionals(4) [OF v(11)] written_optionals(5,6) v(12)
      written_scalars(4) [OF v(13)] written_scalars(2) [OF v(14)] written_scalars(2) [OF v(15)] written_scalars(5) [OF v(16)]
      written_scalars(6-8)
    by simp
qed

text \<open>A parsed object depends on its members only.\<close>

lemma parse_by_members:
  assumes "\<forall>k \<in> set CANDIDATE_KEYS. member raw k = member raw' k"
    and "fst ` set raw \<subseteq> set CANDIDATE_KEYS" "fst ` set raw' \<subseteq> set CANDIDATE_KEYS"
  shows "parseIcpInitiationCandidate (Wire_object raw) current = parseIcpInitiationCandidate (Wire_object raw') current"
proof -
  have keys: "assertNoUnknownKeys raw CANDIDATE_KEYS ''ICP initiation candidate'' = Inr ()"
      "assertNoUnknownKeys raw' CANDIDATE_KEYS ''ICP initiation candidate'' = Inr ()"
    using assms(2,3) by (simp_all add: assertNoUnknownKeys_Inr)
  show ?thesis
    using assms(1) unfolding CANDIDATE_KEYS_def list.set ball_simps
    by (simp only: parseIcpInitiationCandidate_def requireRecord_def wire.case rbind_simps keys ball_simps simp_thms insert_iff)
qed

definition redacted :: "initiation_candidate \<Rightarrow> initiation_candidate" where
  "redacted c =
     \<lparr>cd_candidateId = cd_candidateId c, cd_rootInitiationId = cd_rootInitiationId c,
      cd_localCompanionId = cd_localCompanionId c, cd_peerContactId = ''[private]'',
      cd_peerCompanionId = cd_peerCompanionId c, cd_preferredChannel = cd_preferredChannel c,
      cd_targetChannelId = None, cd_source = cd_source c, cd_provenanceRef = cd_provenanceRef c,
      cd_reasonSummary = ''[private]'', cd_continuationTaskKind = None, cd_createdAtMs = cd_createdAtMs c,
      cd_expiresAtMs = cd_expiresAtMs c, cd_status = cd_status c, cd_reasonCode = cd_reasonCode c, cd_permitId = None,
      cd_pendingFollowUpId = None, cd_deliveryDisposition = None, cd_retryAttempt = None, cd_retryEligibleAtMs = None,
      cd_revision = cd_revision c\<rparr>"

lemma redacted_valid: "candidate_valid c \<Longrightarrow> candidate_valid (redacted c)"
proof -
  have "text_ok n ''[private]''" if "n \<ge> 9" for n using that by (simp add: text_ok_def js_trim_def white_space_def)
  then show "candidate_valid c \<Longrightarrow> candidate_valid (redacted c)"
    by (auto simp: candidate_valid_def redacted_def check_target_channel_def)
qed

definition shared_raw :: "initiation_candidate \<Rightarrow> (string \<times> wire) list" where
  "shared_raw c =
     [(''candidateId'', Wire_string (cd_candidateId c)), (''rootInitiationId'', Wire_string (cd_rootInitiationId c)),
      (''localCompanionId'', Wire_string (cd_localCompanionId c)), (''peerCompanionId'', Wire_string (cd_peerCompanionId c)),
      (''preferredChannel'', Wire_string (enum_name preferred_channels (cd_preferredChannel c))),
      (''source'', Wire_string (enum_name ICP_INITIATION_SOURCES (cd_source c))),
      (''provenanceRef'', Wire_string (cd_provenanceRef c)), (''createdAtMs'', wire_int (cd_createdAtMs c)),
      (''expiresAtMs'', wire_int (cd_expiresAtMs c)),
      (''status'', Wire_string (enum_name ICP_INITIATION_CANDIDATE_STATUSES (cd_status c)))]
     @ optional_member ''reasonCode'' (cd_reasonCode c) @ [(''revision'', wire_int (cd_revision c))]"

lemma shared_wire_raw: "shared_candidate_wire (toIcpInitiationCandidateSharedMetadata c) = Wire_object (shared_raw c)"
  by (simp add: shared_candidate_wire_def shared_raw_def toIcpInitiationCandidateSharedMetadata_def)

lemma shared_keys: "fst ` set (shared_raw c) \<subseteq> set SHARED_CANDIDATE_KEYS"
  by (auto simp: shared_raw_def SHARED_CANDIDATE_KEYS_def optional_member_def split: option.splits)

lemma shared_members:
  "\<forall>k \<in> set CANDIDATE_KEYS. member (shared_raw c @ private_sentinels) k = member (candidate_raw (redacted c)) k"
  unfolding CANDIDATE_KEYS_def list.set ball_simps candidate_raw_members
  by (intro conjI TrueI) (simp_all add: shared_raw_def private_sentinels_def redacted_def)

lemma shared_of_redacted: "toIcpInitiationCandidateSharedMetadata (redacted c) = toIcpInitiationCandidateSharedMetadata c"
  by (simp add: toIcpInitiationCandidateSharedMetadata_def redacted_def)

lemma shared_round_trip:
  assumes "candidate_valid c"
  shows "parseIcpInitiationCandidateSharedMetadata (shared_candidate_wire (toIcpInitiationCandidateSharedMetadata c)) None
    = Inr (toIcpInitiationCandidateSharedMetadata c)"
proof -
  have "fst ` set (shared_raw c @ private_sentinels) \<subseteq> set CANDIDATE_KEYS"
    using shared_keys [of c] by (auto simp: SHARED_CANDIDATE_KEYS_def CANDIDATE_KEYS_def private_sentinels_def)
  then have "parseIcpInitiationCandidate (Wire_object (shared_raw c @ private_sentinels)) None = Inr (redacted c)"
    using parse_by_members [OF shared_members _ candidate_keys] parse_candidate_wire [OF redacted_valid [OF assms]]
    by (simp add: candidate_wire_def)
  moreover have "assertNoUnknownKeys (shared_raw c) SHARED_CANDIDATE_KEYS ''ICP shared initiation candidate'' = Inr ()"
    by (simp add: assertNoUnknownKeys_Inr shared_keys)
  ultimately show ?thesis
    by (simp add: parseIcpInitiationCandidateSharedMetadata_def shared_wire_raw requireRecord_def shared_of_redacted)
qed

section \<open>Rows\<close>

definition candidate_of :: "candidate_row \<Rightarrow> initiation_candidate" where
  "candidate_of row =
     \<lparr>cd_candidateId = cr_candidateId row, cd_rootInitiationId = cr_rootInitiationId row,
      cd_localCompanionId = cr_localCompanionId row, cd_peerContactId = cr_peerContactId row,
      cd_peerCompanionId = cr_peerCompanionId row, cd_preferredChannel = cr_preferredChannel row,
      cd_targetChannelId = cr_targetChannelId row, cd_source = cr_source row, cd_provenanceRef = cr_provenanceRef row,
      cd_reasonSummary = cr_reasonSummary row, cd_continuationTaskKind = cr_continuationTaskKind row,
      cd_createdAtMs = cr_createdAtMs row, cd_expiresAtMs = cr_expiresAtMs row, cd_status = cr_status row,
      cd_reasonCode = cr_reasonCode row, cd_permitId = cr_permitId row, cd_pendingFollowUpId = cr_pendingFollowUpId row,
      cd_deliveryDisposition = cr_deliveryDisposition row, cd_retryAttempt = Some (cr_retryAttempt row),
      cd_retryEligibleAtMs = cr_retryEligibleAtMs row, cd_revision = cr_revision row\<rparr>"

lemma read_optionals:
  "optional_guard (\<lambda>w. requireUuidValue w f) (if v \<noteq> None then Wire_string (the v) else Wire_undefined) = Inr r \<Longrightarrow> r = v"
  "optional_guard (\<lambda>w. requireString w f n) (if v \<noteq> None then Wire_string (the v) else Wire_undefined) = Inr r \<Longrightarrow> r = v"
  "optional_guard require_task (if k \<noteq> None then Wire_string (enum_name ICP_CONTINUATION_TASK_KINDS (the k)) else Wire_undefined)
     = Inr k' \<Longrightarrow> k' = k"
  "optional_guard (\<lambda>w. requireEnum w delivery_dispositions f)
     (if d \<noteq> None then Wire_string (enum_name delivery_dispositions (the d)) else Wire_undefined) = Inr d' \<Longrightarrow> d' = d"
  by (auto simp: guard_simps split: option.splits if_splits)

lemma read_scalars:
  "requireUuidValue (Wire_string s) f = Inr t \<Longrightarrow> t = s"
  "requireString (Wire_string s) f n = Inr t \<Longrightarrow> t = s"
  "requireTimestampValue (wire_int i) f = Inr j \<Longrightarrow> j = i"
  "requireEnum (Wire_string (enum_name preferred_channels p)) preferred_channels f = Inr p' \<Longrightarrow> p' = p"
  "requireEnum (Wire_string (enum_name ICP_INITIATION_SOURCES q)) ICP_INITIATION_SOURCES f = Inr q' \<Longrightarrow> q' = q"
  "requireEnum (Wire_string (enum_name ICP_INITIATION_CANDIDATE_STATUSES u)) ICP_INITIATION_CANDIDATE_STATUSES f = Inr u' \<Longrightarrow> u' = u"
  by (auto simp: guard_simps wire_int_def)

lemma written_unique:
  assumes "parseIcpInitiationCandidate (candidate_wire d) current = Inr c"
  shows "c = d"
proof -
  note m = parse_candidate_members [OF assms [unfolded candidate_wire_def], unfolded candidate_raw_members]
  note eqs = read_scalars(1) [OF m(1)] read_scalars(1) [OF m(2)] read_scalars(1) [OF m(3)] read_scalars(1) [OF m(4)]
    read_scalars(3) [OF m(6)] read_scalars(3) [OF m(7)] optional_reason_string [OF m(9)] read_optionals(3) [OF m(10)]
    read_optionals(1) [OF m(11)] read_optionals(2) [OF m(12)] read_optionals(4) [OF m(13)] optional_timestamp_int [OF m(14)]
    optional_timestamp_int [OF m(15)] read_scalars(4) [OF m(19)] read_optionals(2) [OF m(20)] revision_int [OF m(22)]
    read_scalars(2) [OF m(23)] read_scalars(5) [OF m(24)] provenance_Inr [OF m(25)] read_scalars(2) [OF m(26)] read_scalars(6) [OF m(27)]
  show ?thesis by (rule initiation_candidate.equality) (simp_all only: eqs, simp)
qed

lemma mapCandidate_Inr: "mapCandidate row = Inr c \<Longrightarrow> c = candidate_of row \<and> candidate_valid c"
  unfolding mapCandidate_def rbind_eq_Inr
  apply (elim exE conjE)
  apply (drule safe_int_id optional_safe_Inr)+
  apply (auto simp: candidate_of_def dest: written_unique parse_candidate_valid)
  done

lemma mapCandidate_valid:
  assumes "candidate_valid (candidate_of row)"
  shows "mapCandidate row = Inr (candidate_of row)"
proof -
  have "\<bar>cr_createdAtMs row\<bar> \<le> MAX_SAFE_INTEGER" "\<bar>cr_expiresAtMs row\<bar> \<le> MAX_SAFE_INTEGER"
    "\<bar>cr_retryAttempt row\<bar> \<le> MAX_SAFE_INTEGER" "\<bar>cr_revision row\<bar> \<le> MAX_SAFE_INTEGER"
    "\<forall>t \<in> set_option (cr_retryEligibleAtMs row). \<bar>t\<bar> \<le> MAX_SAFE_INTEGER"
    using assms by (auto simp: candidate_valid_def candidate_of_def times_ok_def counter_ok_def abs_le_iff MAX_SAFE_INTEGER_def)
  then have "mapCandidate row = parseIcpInitiationCandidate (candidate_wire (candidate_of row)) None"
    by (simp add: mapCandidate_def requireSafeInteger_def candidate_of_def split: option.splits)
  then show ?thesis by (simp add: parse_candidate_wire assms)
qed

lemma mapCandidate_iff: "mapCandidate row = Inr c \<longleftrightarrow> c = candidate_of row \<and> candidate_valid c"
  using mapCandidate_Inr mapCandidate_valid by blast

end
