(* ===== verification/Candidate_Steps.thy ===== *)
theory Candidate_Steps
  imports Candidate_Rows
begin

text \<open>
  Every operation on the private tables of a companion is a sequence of three kinds of changes: rows are edited under
  their leases, a new candidate is inserted, an outcome is recorded. What the operations keep follows by cases on a change.
\<close>

section \<open>Edits of a row\<close>

text \<open>
  \<open>A\<close> holds the tokens the caller presents, \<open>now\<close> is the operational clock: a lease is renewed or released by its
  token, taken when none is live, and a row is moved by its live holder or when no lease is live.
\<close>

inductive row_edit :: "(string \<Rightarrow> bool) \<Rightarrow> int \<Rightarrow> candidate_row \<Rightarrow> candidate_row \<Rightarrow> bool" for A now where
  Renewed: "claimed_by t now r \<Longrightarrow> A t \<Longrightarrow> r' = r\<lparr>cr_claimExpiresAtMs := Some e\<rparr> \<Longrightarrow> row_edit A now r r'"
| Taken: "active_status (cr_status r) \<Longrightarrow> unclaimed now r \<Longrightarrow> r' = take_claim t e r \<Longrightarrow> row_edit A now r r'"
| Released: "cr_claimToken r = Some t \<Longrightarrow> A t \<Longrightarrow> r' = drop_claim r \<Longrightarrow> row_edit A now r r'"
| Moved_to: "check_transition input = Inr () \<Longrightarrow> cr_status r = ti_expectedStatus input \<Longrightarrow> may_move token now r \<Longrightarrow>
    (\<And>t. token = Some t \<Longrightarrow> A t) \<Longrightarrow> r' = moved input token r \<Longrightarrow> row_edit A now r r'"

inductive_cases row_editE: "row_edit A now r r'"

definition new_candidate_row :: "candidate_row \<Rightarrow> bool" where
  "new_candidate_row row \<longleftrightarrow> (\<exists>c claim. candidate_valid c \<and> cd_status c = Candidate_pending \<and> cd_revision c = 1
     \<and> row = candidateInsertValues c claim)"

definition funnel_valid :: "int funnel_record \<Rightarrow> bool" where
  "funnel_valid f \<longleftrightarrow> (\<exists>i. parseIcpFeltImpulseFunnelRecord i = Inr f)"

inductive candidate_step :: "(string \<Rightarrow> bool) \<Rightarrow> int \<Rightarrow> candidate_db \<Rightarrow> candidate_db \<Rightarrow> bool" for A now where
  Edited: "db' = db\<lparr>cb_candidates := update_where P f (cb_candidates db)\<rparr> \<Longrightarrow>
    (\<And>r. r \<in> set (cb_candidates db) \<Longrightarrow> P r \<Longrightarrow> row_edit A now r (f r)) \<Longrightarrow> candidate_tables_ok db' \<Longrightarrow> candidate_step A now db db'"
| Inserted: "db' = db\<lparr>cb_candidates := cb_candidates db @ [row]\<rparr> \<Longrightarrow> new_candidate_row row \<Longrightarrow> candidate_tables_ok db' \<Longrightarrow> candidate_step A now db db'"
| Recorded: "db' = db\<lparr>cb_funnel := cb_funnel db @ [outcome_row f]\<rparr> \<Longrightarrow> funnel_valid f \<Longrightarrow> candidate_tables_ok db' \<Longrightarrow> candidate_step A now db db'"

abbreviation candidate_steps :: "(string \<Rightarrow> bool) \<Rightarrow> int \<Rightarrow> candidate_db \<Rightarrow> candidate_db \<Rightarrow> bool" where
  "candidate_steps A now \<equiv> (candidate_step A now)\<^sup>*\<^sup>*"

lemma steps_rules: "reflp (candidate_steps A now)" "transp (candidate_steps A now)"
  by (auto intro: reflpI transpI rtranclp_trans)

lemma edit_within:
  assumes "\<And>r. P r \<Longrightarrow> row_edit A now r (f r)"
  shows "tx_within (candidate_steps A now) (update_candidate P f)"
  unfolding update_candidate_def candidate_statement_def
  using assms
  by (intro tx_rules steps_rules tx_within_exec) (blast intro: r_into_rtranclp Edited)

lemma insert_within: "new_candidate_row row \<Longrightarrow> tx_within (candidate_steps A now) (insert_candidate_row row)"
  unfolding insert_candidate_row_def candidate_statement_def
  by (intro tx_within_exec) (blast intro: r_into_rtranclp Inserted)

lemma outcome_within: "funnel_valid f \<Longrightarrow> tx_within (candidate_steps A now) (insert_outcome (outcome_row f))"
  unfolding insert_outcome_def candidate_statement_def
  by (intro tx_within_exec) (blast intro: r_into_rtranclp Recorded)

section \<open>Operations\<close>

lemma renew_within:
  "io_within (candidate_steps (\<lambda>t. t = pc_claimToken claim) now) (renewCandidateClaim i claim now)"
  unfolding renewCandidateClaim_def
  by (intro within_rules steps_rules io_within_pure edit_within) (auto simp: requireUuidText_def guard_simps intro: Renewed)

lemma claim_within: "io_within (candidate_steps A now) (claimCandidate i claim now)"
  unfolding claimCandidate_def
  by (intro within_rules steps_rules io_within_pure edit_within) (auto intro: Taken)

lemma release_within: "io_within (candidate_steps (\<lambda>t. t = token) now) (releaseCandidateClaim i token)"
  unfolding releaseCandidateClaim_def
  by (intro within_rules steps_rules io_within_pure edit_within) (auto simp: requireUuidText_def guard_simps intro: Released)

lemma candidate_transition_within:
  "(\<And>t. token = Some t \<Longrightarrow> A t) \<Longrightarrow> io_within (candidate_steps A now) (candidate_transition input token now)"
  unfolding candidate_transition_def
  by (intro within_rules steps_rules io_within_pure edit_within) (auto intro: Moved_to)

lemma claim_due_within: "io_within (candidate_steps A now) (claimDueCandidates options token now locked)"
proof -
  have "tx_within (candidate_steps A now) (claim_due n lease limit token now locked)" for n lease limit
    unfolding tx_within_def claim_due_def candidate_statement_def tx_Inr
  proof (intro allI impI, elim exE conjE, hypsubst)
    fix db
    let ?due = "map cr_candidateId (due_candidates n lease limit now locked db)"
    let ?db = "db\<lparr>cb_candidates := update_where (\<lambda>r. cr_candidateId r \<in> set ?due) (take_claim token (now + lease)) (cb_candidates db)\<rparr>"
    assume ok: "candidate_tables_ok ?db"
    have keys: "distinct (map cr_candidateId (cb_candidates db))"
    proof -
      have "map cr_candidateId (update_where P (take_claim token e) rs) = map cr_candidateId rs" for P e rs
        by (intro map_update_where) (simp add: take_claim_def)
      then show ?thesis using ok by (simp add: candidate_tables_ok_def)
    qed
    have "row_edit A now r (take_claim token (now + lease) r)" if r: "r \<in> set (cb_candidates db)" "cr_candidateId r \<in> set ?due" for r
    proof -
      obtain d where d: "d \<in> set (due_candidates n lease limit now locked db)" "cr_candidateId d = cr_candidateId r"
        using r(2) by auto
      then have row: "d \<in> set (cb_candidates db)" and "is_due n (max 0 (n - lease)) d" "unclaimed now d"
        by (auto simp: due_candidates_def dest!: in_set_takeD)
      moreover have "d = r" using d(2) keys r(1) row by (auto simp: distinct_map inj_on_def)
      ultimately show ?thesis by (auto simp: is_due_def intro: Taken)
    qed
    then show "candidate_steps A now db ?db" by (intro r_into_rtranclp) (rule Edited [OF refl _ ok])
  qed
  then show ?thesis
    unfolding claimDueCandidates_def by (intro within_rules steps_rules io_within_pure) (auto intro!: within_rules steps_rules split: prod.splits)
qed

lemma parsed_new_row:
  assumes "parseIcpInitiationCandidate v None = Inr c" "assertNewCandidate c = Inr u"
  shows "new_candidate_row (candidateInsertValues c claim)"
  using assms parse_candidate_valid by (auto simp: new_candidate_row_def assertNewCandidate_def)

lemma insertCandidate_within: "io_within (candidate_steps A now) (insertCandidate v claim)"
  unfolding insertCandidate_def
  by (intro within_rules steps_rules io_within_pure insert_within parsed_new_row)

lemma createClaimed_within: "io_within (candidate_steps A now) (createClaimedCandidate v claim n)"
  unfolding createClaimedCandidate_def by (intro within_rules steps_rules insertCandidate_within)

lemma submitted_link_row:
  "fu_outcome f = Funnel_candidate_linked c Link_submitted \<Longrightarrow> submitted_link f = outcome_row f"
  by (simp add: submitted_link_def outcome_row_def)

lemma createFelt_within: "io_within (candidate_steps A now) (createClaimedFeltImpulseCandidate v claim f n)"
  unfolding createClaimedFeltImpulseCandidate_def
  apply (rule io_within_pure [OF steps_rules(1)])+
  apply (intro within_rules steps_rules tx_rules insert_within parsed_new_row, assumption+)
  apply (auto simp: submitted_link_row funnel_valid_def intro!: outcome_within)
  done

lemma recordOutcome_within: "io_within (candidate_steps A now) (recordOutcome f)"
  unfolding recordOutcome_def record_sql_def
  by (intro within_rules steps_rules io_within_pure tx_rules outcome_within) (auto simp: funnel_valid_def)

text \<open>The token an operation presents, and the reading of the clock it decides by.\<close>

fun presents :: "candidate_op \<Rightarrow> string \<Rightarrow> bool" where
  "presents (Renew_claim i c now) t = (t = pc_claimToken c)"
| "presents (Release_claim i u) t = (t = u)"
| "presents (Transition_claimed u i now) t = (t = u)"
| "presents _ t = False"

fun clock_of :: "candidate_op \<Rightarrow> int option" where
  "clock_of (Renew_claim i c now) = Some now"
| "clock_of (Claim_candidate i c now) = Some now"
| "clock_of (Claim_due opt t now locked) = Some now"
| "clock_of (Transition_candidate i now) = Some now"
| "clock_of (Transition_claimed u i now) = Some now"
| "clock_of _ = None"

lemma op_within: "(\<And>n. clock_of op = Some n \<Longrightarrow> n = now) \<Longrightarrow> candidate_steps (presents op) now db (candidate_next op db)"
proof (induction op)
  case (Release_claim i t)
  have "presents (Release_claim i t) = (\<lambda>u. u = t)" by (simp add: fun_eq_iff)
  then show ?case using release_within by (simp add: io_within_def)
next
  case (Renew_claim i c n)
  have "presents (Renew_claim i c n) = (\<lambda>u. u = pc_claimToken c)" by (simp add: fun_eq_iff)
  then show ?case using renew_within Renew_claim by (simp add: io_within_def)
next
  case (Transition_claimed t i n)
  have "presents (Transition_claimed t i n) = (\<lambda>u. u = t)" by (simp add: fun_eq_iff)
  moreover have "io_within (candidate_steps (\<lambda>u. u = t) now) (transitionClaimedCandidate t i now)"
    unfolding transitionClaimedCandidate_def by (intro within_rules steps_rules candidate_transition_within) simp
  ultimately show ?case using Transition_claimed by (simp add: io_within_def)
qed (use claim_within candidate_transition_within [of None] claim_due_within insertCandidate_within createClaimed_within
      createFelt_within recordOutcome_within in \<open>simp_all add: createCandidate_def transitionCandidate_def io_within_def\<close>)

section \<open>Rows along a run\<close>

text \<open>Rows of a table that every step replaces by rows that follow them.\<close>

locale followed_rows =
  fixes step :: "'d \<Rightarrow> 'd \<Rightarrow> bool" and rows :: "'d \<Rightarrow> 'r list" and follows :: "'r \<Rightarrow> 'r \<Rightarrow> bool"
  assumes follow_refl: "follows r r"
    and follow_trans: "follows r s \<Longrightarrow> follows s t \<Longrightarrow> follows r t"
    and step_follows: "step d d' \<Longrightarrow> r \<in> set (rows d) \<Longrightarrow> \<exists>r' \<in> set (rows d'). follows r r'"
begin

lemma steps_follow: "step\<^sup>*\<^sup>* d d' \<Longrightarrow> r \<in> set (rows d) \<Longrightarrow> \<exists>r' \<in> set (rows d'). follows r r'"
  by (induction rule: rtranclp_induct) (blast intro: follow_refl, meson follow_trans step_follows)

end

text \<open>The steps of anyone, and those of callers without the token \<open>t\<close> before the time \<open>e\<close>.\<close>

definition any_step :: "candidate_db \<Rightarrow> candidate_db \<Rightarrow> bool" where
  "any_step db db' \<longleftrightarrow> (\<exists>A now. candidate_step A now db db')"

definition outside_step :: "string \<Rightarrow> int \<Rightarrow> candidate_db \<Rightarrow> candidate_db \<Rightarrow> bool" where
  "outside_step t e db db' \<longleftrightarrow> (\<exists>A now. \<not> A t \<and> now < e \<and> candidate_step A now db db')"

lemma steps_mono: "candidate_steps A now db db' \<Longrightarrow> (\<And>d d'. candidate_step A now d d' \<Longrightarrow> R d d') \<Longrightarrow> R\<^sup>*\<^sup>* db db'"
  by (rule mono_rtranclp [rule_format, rotated])

lemma candidate_run_steps:
  assumes "\<And>op db. op \<in> set ops \<Longrightarrow> R\<^sup>*\<^sup>* db (candidate_next op db)"
  shows "R\<^sup>*\<^sup>* db (candidate_run ops db)"
  using assms
proof (induction ops arbitrary: db)
  case (Cons op ops)
  have "R\<^sup>*\<^sup>* (candidate_next op db) (candidate_run ops (candidate_next op db))"
    using Cons.prems by (intro Cons.IH) simp
  moreover have "R\<^sup>*\<^sup>* db (candidate_next op db)" using Cons.prems by simp
  ultimately show ?case by (simp add: candidate_run_def)
qed (simp add: candidate_run_def)

lemma run_any: "any_step\<^sup>*\<^sup>* db (candidate_run ops db)"
proof (rule candidate_run_steps)
  show "any_step\<^sup>*\<^sup>* d (candidate_next op d)" for op d
    using op_within [of op "case clock_of op of None \<Rightarrow> 0 | Some n \<Rightarrow> n" d]
    by (rule steps_mono) (auto simp: any_step_def split: option.splits)
qed

lemma run_outside:
  assumes "\<And>op. op \<in> set ops \<Longrightarrow> \<not> presents op t \<and> (\<forall>n. clock_of op = Some n \<longrightarrow> n < e)"
  shows "(outside_step t e)\<^sup>*\<^sup>* db (candidate_run ops db)"
proof (rule candidate_run_steps)
  fix op d
  assume op: "op \<in> set ops"
  define now where "now = (case clock_of op of None \<Rightarrow> e - 1 | Some n \<Rightarrow> n)"
  have "\<not> presents op t" "now < e" using assms [OF op] by (auto simp: now_def split: option.splits)
  moreover have "candidate_steps (presents op) now d (candidate_next op d)" by (rule op_within) (simp add: now_def)
  moreover from calculation have "candidate_step (presents op) now d1 d2 \<Longrightarrow> outside_step t e d1 d2" for d1 d2
    unfolding outside_step_def by (intro exI [of _ "presents op"] exI [of _ now]) blast
  ultimately show "(outside_step t e)\<^sup>*\<^sup>* d (candidate_next op d)" by (blast intro: steps_mono)
qed

text \<open>A row whose lease \<open>t\<close> is live until \<open>e\<close> is not touched from outside.\<close>

definition held :: "string \<Rightarrow> int \<Rightarrow> candidate_row \<Rightarrow> bool" where
  "held t e r \<longleftrightarrow> cr_claimToken r = Some t \<and> cr_claimExpiresAtMs r = Some e"

lemma held_not_edited: "row_edit A now r r' \<Longrightarrow> \<not> A t \<Longrightarrow> now < e \<Longrightarrow> \<not> held t e r"
  by (erule row_editE) (auto simp: held_def claimed_by_def unclaimed_def may_move_def split: option.splits)

interpretation leased: followed_rows "outside_step t e" cb_candidates "\<lambda>r r'. held t e r \<longrightarrow> r' = r" for t e
proof
  show "\<exists>r' \<in> set (cb_candidates d'). held t e r \<longrightarrow> r' = r" if s: "outside_step t e d d'" and r: "r \<in> set (cb_candidates d)" for d d' r
  proof -
    from s obtain A now where "\<not> A t" "now < e" "candidate_step A now d d'" by (auto simp: outside_step_def)
    from this(3) show ?thesis
    proof cases
      case (Edited P f)
      have "\<not> held t e r" if "P r" using held_not_edited [OF Edited(2) [OF r that] \<open>\<not> A t\<close> \<open>now < e\<close>] .
      then show ?thesis using r Edited(1) by (auto intro!: update_where_follows)
    qed (use r in auto)
  qed
qed auto

text \<open>What a candidate keeps, and how its status moves.\<close>

definition candidate_edge :: "candidate_status \<Rightarrow> candidate_status \<Rightarrow> bool" where
  "candidate_edge s t \<longleftrightarrow> t \<in> set (CANDIDATE_TRANSITIONS s)"

definition same_candidate :: "candidate_row \<Rightarrow> candidate_row \<Rightarrow> bool" where
  "same_candidate r r' \<longleftrightarrow> cr_candidateId r' = cr_candidateId r \<and> cr_rootInitiationId r' = cr_rootInitiationId r
     \<and> cr_localCompanionId r' = cr_localCompanionId r \<and> cr_peerContactId r' = cr_peerContactId r
     \<and> cr_peerCompanionId r' = cr_peerCompanionId r \<and> cr_preferredChannel r' = cr_preferredChannel r
     \<and> cr_targetChannelId r' = cr_targetChannelId r \<and> cr_source r' = cr_source r \<and> cr_provenanceRef r' = cr_provenanceRef r
     \<and> cr_reasonSummary r' = cr_reasonSummary r \<and> cr_continuationTaskKind r' = cr_continuationTaskKind r
     \<and> cr_createdAtMs r' = cr_createdAtMs r \<and> cr_expiresAtMs r' = cr_expiresAtMs r
     \<and> cr_pendingFollowUpId r' = cr_pendingFollowUpId r"

definition candidate_follows :: "candidate_row \<Rightarrow> candidate_row \<Rightarrow> bool" where
  "candidate_follows r r' \<longleftrightarrow> same_candidate r r' \<and> candidate_edge\<^sup>*\<^sup>* (cr_status r) (cr_status r') \<and> cr_revision r \<le> cr_revision r'
     \<and> (\<not> active_status (cr_status r) \<longrightarrow> candidate_of r' = candidate_of r)"

lemma transition_edge: "check_transition input = Inr () \<Longrightarrow> candidate_edge (ti_expectedStatus input) (ti_status input)"
  by (auto simp: check_transition_def rbind_eq_Inr assertIcpInitiationCandidateStatusTransition_def candidate_edge_def)

lemma terminal_edge: "\<not> active_status s \<Longrightarrow> \<not> candidate_edge s t"
  by (cases s) (auto simp: active_status_def candidate_edge_def)

lemma edit_follows:
  assumes "row_edit A now r r'"
  shows "candidate_follows r r'"
  using assms
proof cases
  case (Moved_to input token)
  then have "candidate_edge (cr_status r) (cr_status r')" "active_status (cr_status r)"
    using transition_edge terminal_edge by (auto simp: moved_def Let_def)
  then show ?thesis using Moved_to by (auto simp: candidate_follows_def same_candidate_def moved_def Let_def)
qed (auto simp: candidate_follows_def same_candidate_def take_claim_def drop_claim_def candidate_of_def)

interpretation lives: followed_rows any_step cb_candidates candidate_follows
proof
  show "candidate_follows r r" for r by (simp add: candidate_follows_def same_candidate_def)
  show "candidate_follows r t" if "candidate_follows r s" "candidate_follows s t" for r s t
  proof -
    have "\<not> active_status (cr_status s)" if "\<not> active_status (cr_status r)" "candidate_of s = candidate_of r"
      using that by (simp add: candidate_of_def)
    then show ?thesis using that unfolding candidate_follows_def same_candidate_def by (auto intro: rtranclp_trans)
  qed
  show "\<exists>r' \<in> set (cb_candidates d'). candidate_follows r r'" if s: "any_step d d'" and r: "r \<in> set (cb_candidates d)" for d d' r
  proof -
    have refl: "candidate_follows r r" by (simp add: candidate_follows_def same_candidate_def)
    from s obtain A now where "candidate_step A now d d'" by (auto simp: any_step_def)
    then show ?thesis
    proof cases
      case (Edited P f)
      have "candidate_follows r (f r)" if "P r" by (rule edit_follows [OF Edited(2) [OF r that]])
      then show ?thesis using r Edited(1) by (auto intro!: update_where_follows refl)
    qed (use r refl in auto)
  qed
qed

interpretation outcomes: followed_rows any_step cb_funnel "(=)"
  by unfold_locales (auto simp: any_step_def elim!: candidate_step.cases)

section \<open>What holds of the reachable tables\<close>

definition sound_row :: "candidate_row \<Rightarrow> bool" where
  "sound_row r \<longleftrightarrow> (cr_status r = Candidate_permitted \<or> cr_status r = Candidate_consumed \<longrightarrow> cr_permitId r \<noteq> None)
     \<and> (cr_status r = Candidate_consumed \<longrightarrow> cr_deliveryDisposition r \<noteq> None)"

definition sound_outcome :: "funnel_row \<Rightarrow> bool" where
  "sound_outcome r \<longleftrightarrow> (\<exists>f. funnel_valid f \<and> r = outcome_row f)"

definition sound_tables :: "candidate_db \<Rightarrow> bool" where
  "sound_tables db \<longleftrightarrow> candidate_tables_ok db \<and> (\<forall>r \<in> set (cb_candidates db). sound_row r) \<and> (\<forall>r \<in> set (cb_funnel db). sound_outcome r)"

lemma consumed_from: "candidate_edge s Candidate_consumed \<Longrightarrow> s = Candidate_permitted"
  by (cases s) (auto simp: candidate_edge_def)

lemma disposition_known: "d \<in> set (map fst delivery_dispositions) \<Longrightarrow> \<exists>x. map_of delivery_dispositions d = Some x"
  by (auto simp: delivery_dispositions_def)

lemma edit_sound:
  assumes "row_edit A now r r'" "sound_row r"
  shows "sound_row r'"
  using assms(1)
proof cases
  case (Moved_to input token)
  have "ti_status input = Candidate_permitted \<Longrightarrow> ti_permitId input \<noteq> None"
    "ti_status input = Candidate_consumed \<Longrightarrow> \<exists>d. ti_deliveryDisposition input = Some d \<and> d \<in> set (map fst delivery_dispositions)"
    using Moved_to(1) by (auto simp: check_transition_def rbind_eq_Inr simp del: set_map list.map)
  moreover have "ti_status input = Candidate_consumed \<Longrightarrow> cr_permitId r \<noteq> None"
    using consumed_from transition_edge [OF Moved_to(1)] Moved_to(2) assms(2) by (auto simp: sound_row_def)
  ultimately show ?thesis
    using Moved_to(5) disposition_known
    by (fastforce simp: sound_row_def moved_def Let_def coalesce_def simp del: set_map list.map split: option.splits)
qed (use assms(2) in \<open>auto simp: sound_row_def take_claim_def drop_claim_def\<close>)

lemma new_sound: "new_candidate_row row \<Longrightarrow> sound_row row"
  by (auto simp: new_candidate_row_def sound_row_def candidateInsertValues_def)

lemma step_sound: "candidate_step A now db db' \<Longrightarrow> sound_tables db \<Longrightarrow> sound_tables db'"
  by (erule candidate_step.cases)
    (auto simp: sound_tables_def set_update_where sound_outcome_def dest: edit_sound new_sound)

lemma empty_sound: "sound_tables empty_candidates"
  by (simp add: sound_tables_def empty_candidates_def candidate_tables_ok_def present_def List.map_filter_def)

lemma reachable_sound: "sound_tables (candidate_run ops empty_candidates)"
proof -
  have "any_step\<^sup>*\<^sup>* db db' \<Longrightarrow> sound_tables db \<Longrightarrow> sound_tables db'" for db db'
    by (induction rule: rtranclp_induct) (auto simp: any_step_def dest: step_sound)
  then show ?thesis using run_any empty_sound by blast
qed

end
