(* ===== verification/Candidate_Laws.thy ===== *)
theory Candidate_Laws
  imports Candidate_Steps
begin

text \<open>
  The laws of the private candidates: a live lease keeps everyone else out, statuses move along the transition table
  and end, what is due is claimed with the expired first, a felt impulse is recorded once and together with its
  candidate, and the projection of the funnel accounts for every fire.
\<close>

section \<open>Outcomes read back\<close>

definition as_numbers :: "int funnel_record \<Rightarrow> jsnum funnel_record" where
  "as_numbers f = \<lparr>fu_correlationId = fu_correlationId f, fu_firstCrossingMs = jsint (fu_firstCrossingMs f),
     fu_firedAtMs = jsint (fu_firedAtMs f), fu_recordedAtMs = jsint (fu_recordedAtMs f),
     fu_outcome = map_funnel_outcome jsint (fu_outcome f)\<rparr>"

lemma parse_funnel_again:
  assumes "funnel_valid f"
  shows "parseIcpFeltImpulseFunnelRecord (as_numbers f) = Inr f"
proof -
  from assms obtain i where i: "parseIcpFeltImpulseFunnelRecord i = Inr f" by (auto simp: funnel_valid_def)
  have again: "parse_funnel_outcome r (map_funnel_outcome jsint y) = Inr y" if "parse_funnel_outcome r x = Inr y" for r x y
    using that by (cases x) (auto simp: parse_funnel_outcome_def rbind_eq_Inr guard_simps dest: is_timestampD)
  have "requireFeltImpulseCorrelationId (fu_correlationId f) = Inr (fu_correlationId f)"
    "parseFeltImpulseCorrelationFirstCrossingMs (fu_correlationId f) = Inr (fu_firstCrossingMs f)"
    "fu_firstCrossingMs f \<le> fu_firedAtMs f"
    "is_timestamp (jsint (fu_firstCrossingMs f))" "is_timestamp (jsint (fu_firedAtMs f))" "is_timestamp (jsint (fu_recordedAtMs f))"
    "parse_funnel_outcome (fu_recordedAtMs f) (fu_outcome i) = Inr (fu_outcome f)"
    using i by (auto simp: parseIcpFeltImpulseFunnelRecord_def requireFeltImpulseCorrelationId_def rbind_eq_Inr guard_simps dest: is_timestampD)
  then show ?thesis
    by (simp add: parseIcpFeltImpulseFunnelRecord_def as_numbers_def rbind_eq_Inr guard_simps again)
qed

lemma funnel_numbers:
  assumes "funnel_valid f"
  shows "\<bar>fu_firstCrossingMs f\<bar> \<le> MAX_SAFE_INTEGER" "\<bar>fu_firedAtMs f\<bar> \<le> MAX_SAFE_INTEGER" "\<bar>fu_recordedAtMs f\<bar> \<le> MAX_SAFE_INTEGER"
    "\<And>t. fu_outcome f = Funnel_throttled t \<Longrightarrow> \<bar>t\<bar> \<le> MAX_SAFE_INTEGER"
  using parse_funnel_again [OF assms]
  by (auto simp: parseIcpFeltImpulseFunnelRecord_def as_numbers_def parse_funnel_outcome_def rbind_eq_Inr guard_simps
      MAX_SAFE_INTEGER_def)

lemma mapRecord_outcome_row: "funnel_valid f \<Longrightarrow> mapRecord (outcome_row f) = Inr f"
  using parse_funnel_again [of f] funnel_numbers [of f]
  by (cases "fu_outcome f") (simp_all add: mapRecord_def outcome_row_def requireSafeInteger_def as_numbers_def Let_def)

section \<open>The projection\<close>

lemma lifecycle_known:
  assumes "sound_tables db" "r \<in> set (cb_funnel db)" "fr_outcome r = Kind_candidate_linked"
  shows "\<exists>l. lifecycleOutcome (lifecycleSql db r) = Inr l"
proof -
  have ok: "candidate_tables_ok db" and sound: "sound_outcome r" using assms(1,2) by (auto simp: sound_tables_def)
  then obtain f where "r = outcome_row f" by (auto simp: sound_outcome_def)
  with assms(3) obtain c l where c: "fr_candidateId r = Some c" by (cases "fu_outcome f") (auto simp: outcome_row_def)
  then have "c \<in> set (present fr_candidateId (cb_funnel db))" using assms(2) by (force simp: present_def List.map_filter_def image_iff)
  then have "c \<in> cr_candidateId ` set (cb_candidates db)" using ok by (auto simp: candidate_tables_ok_def list_all_iff)
  then obtain q where q: "find (\<lambda>r'. Some (cr_candidateId r') = fr_candidateId r) (cb_candidates db) = Some q"
    using c by (cases "find (\<lambda>r'. Some (cr_candidateId r') = fr_candidateId r) (cb_candidates db)") (auto simp: find_None_iff')
  then have "sound_row q" using assms(1) find_Some_iff' [OF q] by (auto simp: sound_tables_def)
  moreover have "\<exists>l. lifecycleOutcome (Some (enum_name delivery_dispositions d)) = Inr l" for d
    by (cases d) (simp_all add: delivery_dispositions_def enum_name_def lifecycleOutcome_def LIFECYCLE_OUTCOMES_def)
  moreover have "s \<noteq> Candidate_consumed \<Longrightarrow> \<exists>l. lifecycleOutcome (Some (enum_name ICP_INITIATION_CANDIDATE_STATUSES s)) = Inr l" for s
    by (cases s) (simp_all add: ICP_INITIATION_CANDIDATE_STATUSES_def enum_name_def lifecycleOutcome_def LIFECYCLE_OUTCOMES_def)
  ultimately show ?thesis using q assms(3) by (auto simp: lifecycleSql_def sound_row_def)
qed

lemma map_rows_total: "(\<And>r. r \<in> set rs \<Longrightarrow> \<exists>x. f r = Inr x) \<Longrightarrow> \<exists>xs. map_rows f rs = Inr xs \<and> length xs = length rs"
proof (induction rs)
  case (Cons r rs)
  then obtain x xs where "f r = Inr x" "map_rows f rs = Inr xs" "length xs = length rs" by (metis list.set_intros)
  then show ?case by simp
qed simp

lemma recent_total:
  assumes "sound_tables db" "r \<in> set (cb_funnel db)"
  shows "\<exists>x. recent_row db r = Inr x"
proof -
  obtain f where f: "funnel_valid f" "r = outcome_row f" using assms by (auto simp: sound_tables_def sound_outcome_def)
  show ?thesis
  proof (cases "fu_outcome f")
    case (Funnel_candidate_linked c l)
    then have "fr_outcome r = Kind_candidate_linked" by (simp add: f(2) outcome_row_def)
    then show ?thesis using lifecycle_known [OF assms] mapRecord_outcome_row [OF f(1)] Funnel_candidate_linked
      by (auto simp: recent_row_def f(2))
  qed (use mapRecord_outcome_row [OF f(1)] in \<open>simp_all add: recent_row_def f(2)\<close>)
qed

definition balanced :: "funnel_projection \<Rightarrow> bool" where
  "balanced p \<longleftrightarrow> fp_noEligiblePeer p + fp_notAuthorized p + fp_throttled p + fp_linksTotal p = fp_totalQualified p
     \<and> fp_submitted p + fp_deduped p = fp_linksTotal p \<and> (\<Sum>l \<in> UNIV. fp_lifecycle p l) = fp_linksTotal p"

lemma lifecycle_UNIV: "UNIV = set (map snd LIFECYCLE_OUTCOMES)"
proof -
  have "l \<in> set (map snd LIFECYCLE_OUTCOMES)" for l by (cases l) (simp_all add: LIFECYCLE_OUTCOMES_def)
  then show ?thesis by blast
qed

lemma finite_lifecycle: "finite (UNIV :: lifecycle_outcome set)"
  by (subst lifecycle_UNIV) simp

lemma sum_upd: "finite (UNIV :: 'a set) \<Longrightarrow> (\<Sum>x \<in> UNIV. if x = l then f l + n else f x) = (\<Sum>x \<in> (UNIV :: 'a set). f x) + (n :: int)"
  by (subst (1 2) sum.remove [of _ l]) (auto intro: sum.cong)

definition group_ok :: "group_key \<times> int \<Rightarrow> bool" where
  "group_ok g \<longleftrightarrow> (case g of ((kind, link, life), n) \<Rightarrow> \<bar>n\<bar> \<le> MAX_SAFE_INTEGER
     \<and> (kind = Kind_candidate_linked \<longrightarrow> link \<noteq> None \<and> (\<exists>l. lifecycleOutcome life = Inr l)))"

lemma add_group_total:
  assumes "group_ok g" "balanced p"
  shows "\<exists>p'. add_group g p = Inr p' \<and> balanced p' \<and> fp_totalQualified p' = fp_totalQualified p + snd g \<and> fp_recent p' = fp_recent p"
proof -
  obtain kind link life n where g: "g = ((kind, link, life), n)" by (cases g) auto
  have n: "requireSafeInteger n ''feltImpulse.outcomeCount'' = Inr n" using assms(1) by (simp add: g group_ok_def requireSafeInteger_def)
  show ?thesis
  proof (cases kind)
    case Kind_candidate_linked
    then obtain l q where "lifecycleOutcome life = Inr l" "link = Some q" using assms(1) by (auto simp: g group_ok_def)
    then show ?thesis using assms(2) Kind_candidate_linked
      by (cases q) (simp_all add: add_group_def g n Let_def balanced_def sum_upd [OF finite_lifecycle])
  qed (use assms(2) in \<open>auto simp: add_group_def g n Let_def balanced_def\<close>)
qed

lemma add_groups_total:
  "(\<And>g. g \<in> set gs \<Longrightarrow> group_ok g) \<Longrightarrow> balanced p \<Longrightarrow>
   \<exists>p'. add_groups gs p = Inr p' \<and> balanced p' \<and> fp_totalQualified p' = fp_totalQualified p + sum_list (map snd gs)
      \<and> fp_recent p' = fp_recent p"
proof (induction gs arbitrary: p)
  case (Cons g gs)
  obtain q where q: "add_group g p = Inr q" "balanced q" "fp_totalQualified q = fp_totalQualified p + snd g" "fp_recent q = fp_recent p"
    using add_group_total [of g p] Cons.prems by auto
  then show ?case using Cons.IH [of q] Cons.prems by auto
qed simp

lemma countRows_sum: "sum_list (map snd (countRows db)) = int (length (cb_funnel db))"
proof -
  define keys where "keys = map (group_of db) (cb_funnel db)"
  have "sum_list (map (\<lambda>k. int (count_list keys k)) (remdups keys)) = (\<Sum>k \<in> set keys. int (count_list keys k))"
    by (simp add: sum_list_distinct_conv_sum_set)
  also have "\<dots> = int (length keys)" using sum_count_set [of keys "set keys"] by (simp flip: of_nat_sum)
  finally show ?thesis by (simp add: countRows_def keys_def Let_def comp_def)
qed

lemma countRows_ok:
  assumes "sound_tables db" "int (length (cb_funnel db)) \<le> MAX_SAFE_INTEGER" "g \<in> set (countRows db)"
  shows "group_ok g"
proof -
  obtain r where r: "r \<in> set (cb_funnel db)" "fst g = group_of db r"
    and n: "snd g = int (count_list (map (group_of db) (cb_funnel db)) (fst g))"
    using assms(3) by (auto simp: countRows_def Let_def)
  have "count_list (map (group_of db) (cb_funnel db)) (fst g) \<le> length (cb_funnel db)"
    using count_le_length [of "map (group_of db) (cb_funnel db)"] by simp
  then have "\<bar>snd g\<bar> \<le> MAX_SAFE_INTEGER" using n assms(2) by simp
  moreover have "fr_candidateOutcome r \<noteq> None" if "fr_outcome r = Kind_candidate_linked"
    using r(1) assms(1) that by (auto simp: sound_tables_def candidate_tables_ok_def list_all_iff funnel_row_ok_def)
  ultimately show ?thesis using r(2) lifecycle_known [OF assms(1) r(1)]
    by (cases g) (auto simp: group_ok_def group_of_def)
qed

section \<open>Batches\<close>

lemma take_sorted_before:
  assumes "sorted (map k xs)" "x \<in> set xs" "x \<notin> set (take n xs)" "y \<in> set (take n xs)"
  shows "k y \<le> k x" "length (take n xs) = n"
proof -
  have x: "x \<in> set (drop n xs)" using assms(2,3) by (metis Un_iff append_take_drop_id set_append)
  show "k y \<le> k x"
  proof -
    have "sorted (map k (take n xs) @ map k (drop n xs))" using assms(1) by (metis append_take_drop_id map_append)
    then show ?thesis using x assms(4) by (auto simp: sorted_append)
  qed
  show "length (take n xs) = n" using x by (cases "n \<le> length xs") auto
qed

lemma due_ids_distinct:
  "distinct (map cr_candidateId (cb_candidates db)) \<Longrightarrow>
   distinct (map cr_candidateId (due_candidates now lease limit opnow locked db))"
  unfolding due_candidates_def by (auto intro!: distinct_take simp: take_map [symmetric] distinct_map inj_on_def)

lemma map_rows_Inr_set: "map_rows f rs = Inr xs \<Longrightarrow> list_all2 (\<lambda>r x. f r = Inr x) rs xs"
  by (induction rs arbitrary: xs) (auto simp: rbind_eq_Inr)

text \<open>The rows a batch claims are the due rows, with the lease.\<close>

lemma filter_ids:
  assumes "distinct (map cr_candidateId rs)" "set ds \<subseteq> set rs" "distinct (map cr_candidateId ds)"
  shows "set (filter (\<lambda>r. cr_candidateId r \<in> set (map cr_candidateId ds)) rs) = set ds"
    "length (filter (\<lambda>r. cr_candidateId r \<in> set (map cr_candidateId ds)) rs) = length ds"
proof -
  show s: "set (filter (\<lambda>r. cr_candidateId r \<in> set (map cr_candidateId ds)) rs) = set ds"
    using assms(1,2) by (auto simp: distinct_map inj_on_def)
  have "distinct (filter (\<lambda>r. cr_candidateId r \<in> set (map cr_candidateId ds)) rs)" "distinct ds"
    using assms by (auto simp: distinct_map)
  then show "length (filter (\<lambda>r. cr_candidateId r \<in> set (map cr_candidateId ds)) rs) = length ds"
    using s by (metis distinct_card)
qed

lemma claimDue_Inr:
  assumes "claimDueCandidates options token opnow locked db = (Inr claims, db')"
    and "distinct (map cr_candidateId (cb_candidates db))"
  defines "due \<equiv> due_candidates (intval (co_nowMs options)) (intval (co_claimLeaseMs options)) (nat (intval (co_limit options))) opnow locked db"
  shows "length claims = length due"
    "cd_candidateId ` cc_candidate ` set claims = cr_candidateId ` set due"
    "\<And>c. c \<in> set claims \<Longrightarrow> \<exists>r \<in> set due. cc_candidate c = candidate_of (take_claim token (opnow + intval (co_claimLeaseMs options)) r)"
    "\<And>r. r \<in> set due \<Longrightarrow> candidate_valid (candidate_of (take_claim token (opnow + intval (co_claimLeaseMs options)) r))"
proof -
  let ?take = "take_claim token (opnow + intval (co_claimLeaseMs options))"
  define picked where "picked = filter (\<lambda>r. cr_candidateId r \<in> set (map cr_candidateId due)) (cb_candidates db)"
  have sub: "set due \<subseteq> set (cb_candidates db)" by (auto simp: due_def due_candidates_def dest!: in_set_takeD)
  have ids: "distinct (map cr_candidateId due)" unfolding due_def by (rule due_ids_distinct [OF assms(2)])
  have picked: "set picked = set due" "length picked = length due"
    unfolding picked_def using filter_ids [OF assms(2) sub ids] by auto
  have "map_rows (\<lambda>row. rbind (mapCandidate row) (\<lambda>candidate. Inr \<lparr>cc_candidate = candidate, cc_claimToken = token,
      cc_claimExpiresAtMs = opnow + intval (co_claimLeaseMs options)\<rparr>)) (map ?take picked) = Inr claims"
    using assms(1) by (auto simp: claimDueCandidates_def check_claim_options_def io_Inr withPostgresClient_Inr claim_due_def tx_Inr
        picked_def due_def)
  from map_rows_Inr_set [OF this, unfolded list_all2_map1] have l:
    "list_all2 (\<lambda>r c. cc_candidate c = candidate_of (?take r) \<and> candidate_valid (candidate_of (?take r))) picked claims"
    by (rule list_all2_mono) (auto simp: rbind_eq_Inr mapCandidate_iff)
  show "length claims = length due" using list_all2_lengthD [OF l] picked(2) by simp
  have "map cc_candidate claims = map (\<lambda>r. candidate_of (?take r)) picked" using l by (induction rule: list_all2_induct) auto
  then have "set (map cc_candidate claims) = set (map (\<lambda>r. candidate_of (?take r)) picked)" by (rule arg_cong)
  then have img: "cc_candidate ` set claims = (\<lambda>r. candidate_of (?take r)) ` set due" using picked(1) by simp
  have "\<forall>r \<in> set picked. candidate_valid (candidate_of (?take r))" using l by (induction rule: list_all2_induct) auto
  then have valid: "\<And>r. r \<in> set due \<Longrightarrow> candidate_valid (candidate_of (?take r))" using picked(1) by simp
  from img show "cd_candidateId ` cc_candidate ` set claims = cr_candidateId ` set due"
    by (simp add: image_image candidate_of_def take_claim_def)
  show "\<exists>r \<in> set due. cc_candidate c = candidate_of (?take r)" if "c \<in> set claims" for c using img that by blast
  show "candidate_valid (candidate_of (?take r))" if "r \<in> set due" for r by (rule valid [OF that])
qed

section \<open>Properties\<close>

text \<open>A candidate and a claim for the witnesses.\<close>

definition demo_candidate :: initiation_candidate where
  "demo_candidate =
     \<lparr>cd_candidateId = sample_id CHR ''3'', cd_rootInitiationId = sample_id CHR ''4'',
      cd_localCompanionId = sample_id CHR ''1'', cd_peerContactId = ''ada'', cd_peerCompanionId = sample_id CHR ''2'',
      cd_preferredChannel = Prefer_dm, cd_targetChannelId = None, cd_source = Initiation_felt_impulse,
      cd_provenanceRef = ''icp-prov:'' @ sample_id CHR ''6'', cd_reasonSummary = ''hello'', cd_continuationTaskKind = None,
      cd_createdAtMs = 1000, cd_expiresAtMs = 61000, cd_status = Candidate_pending, cd_reasonCode = None, cd_permitId = None,
      cd_pendingFollowUpId = None, cd_deliveryDisposition = None, cd_retryAttempt = None, cd_retryEligibleAtMs = None,
      cd_revision = 1\<rparr>"

definition demo_claim :: producer_claim where
  "demo_claim = \<lparr>pc_claimToken = sample_id CHR ''7'', pc_claimExpiresAtMs = jsint 5000\<rparr>"

definition demo_candidate_row :: candidate_row where
  "demo_candidate_row = candidateInsertValues demo_candidate (Some demo_claim)"

definition demo_move :: transition_input where
  "demo_move = \<lparr>ti_candidateId = sample_id CHR ''3'', ti_expectedStatus = Candidate_pending, ti_expectedRevision = jsint 1,
     ti_status = Candidate_cancelled, ti_reasonCode = None, ti_permitId = None, ti_deliveryDisposition = None,
     ti_retryAttempt = None, ti_retryEligibleAtMs = None, ti_clearRetryEligibility = False\<rparr>"

lemma demo_candidate_uuids:
  "isRfc4122Uuid (sample_id CHR ''1'')" "isRfc4122Uuid (sample_id CHR ''2'')" "isRfc4122Uuid (sample_id CHR ''3'')"
  "isRfc4122Uuid (sample_id CHR ''4'')" "isRfc4122Uuid (sample_id CHR ''6'')" "isRfc4122Uuid (sample_id CHR ''7'')"
  "isRfc4122Uuid (sample_id CHR ''8'')" "sample_id CHR ''1'' \<noteq> sample_id CHR ''2''"
  by (simp_all add: sample_id_def isRfc4122Uuid_def uuid_pattern_def is_hex_def numeral_eq_Suc)

lemma demo_candidate_valid: "candidate_valid demo_candidate"
  by (simp add: demo_candidate_uuids candidate_valid_def demo_candidate_def times_ok_def MAX_SAFE_INTEGER_def MAX_ICP_CANDIDATE_TTL_MS_def
      check_target_channel_def text_ok_def js_trim_def white_space_def provenance_prefix_def)

text \<open>
  C8. A live lease excludes everyone else. Whatever operations run on the two stores, as long as none presents the token
  of the lease and none reads the operational clock at or after its expiry, the leased row is left exactly as it was: it is
  not claimed by another producer or by a supervisor's batch, not moved, renewed or released.
\<close>

theorem candidate_claim_exclusive:
  assumes "r \<in> set (cb_candidates db)" "cr_claimToken r = Some t" "cr_claimExpiresAtMs r = Some e"
    and "\<And>op. op \<in> set ops \<Longrightarrow> \<not> presents op t \<and> (\<forall>n. clock_of op = Some n \<longrightarrow> n < e)"
  shows "r \<in> set (cb_candidates (candidate_run ops db))"
  using leased.steps_follow [OF run_outside [OF assms(4)] assms(1)] assms(2,3) by (auto simp: held_def)

theorem candidate_claim_exclusive_witness:
  "demo_candidate_row \<in> set (cb_candidates (candidate_run
     [Transition_candidate demo_move 4000, Transition_claimed (sample_id CHR ''8'') demo_move 4500,
      Release_claim (sample_id CHR ''3'') (sample_id CHR ''8'')]
     \<lparr>cb_candidates = [demo_candidate_row], cb_funnel = []\<rparr>))"
  by (rule candidate_claim_exclusive [where t = "sample_id CHR ''7''" and e = 5000])
    (auto simp: demo_candidate_row_def candidateInsertValues_def demo_claim_def sample_id_def)

text \<open>
  C20. The lifecycle of a candidate. Over any sequence of operations a candidate stays in the table with its identity,
  target, motivation and lifetime unchanged; its status only moves along the transition table, its revision never
  decreases, and once its status is final nothing of what is read of it changes any more.
\<close>

theorem candidate_lifecycle:
  assumes "r \<in> set (cb_candidates db)"
  shows "\<exists>r' \<in> set (cb_candidates (candidate_run ops db)). same_candidate r r'
    \<and> candidate_edge\<^sup>*\<^sup>* (cr_status r) (cr_status r') \<and> cr_revision r \<le> cr_revision r'
    \<and> (\<not> active_status (cr_status r) \<longrightarrow> candidate_of r' = candidate_of r)"
  using lives.steps_follow [OF run_any assms] by (simp add: candidate_follows_def)

theorem candidate_lifecycle_witness:
  "\<exists>r' \<in> set (cb_candidates (candidate_run [Transition_candidate demo_move 9000] \<lparr>cb_candidates = [demo_candidate_row], cb_funnel = []\<rparr>)).
     same_candidate demo_candidate_row r' \<and> candidate_edge\<^sup>*\<^sup>* (cr_status demo_candidate_row) (cr_status r') \<and> cr_revision demo_candidate_row \<le> cr_revision r'
     \<and> (\<not> active_status (cr_status demo_candidate_row) \<longrightarrow> candidate_of r' = candidate_of demo_candidate_row)"
  by (rule candidate_lifecycle) simp

text \<open>
  C40. What leaves the companion is what the gateway reads. For every candidate the parser accepts, the shared projection is
  accepted by the parser of shared metadata, which returns it unchanged, although neither the contact nor the motivation nor
  any other private field is in it.
\<close>

theorem shared_metadata_roundtrip:
  assumes "parseIcpInitiationCandidate v current = Inr c"
  shows "parseIcpInitiationCandidateSharedMetadata (shared_candidate_wire (toIcpInitiationCandidateSharedMetadata c)) None
    = Inr (toIcpInitiationCandidateSharedMetadata c)"
  by (rule shared_round_trip [OF parse_candidate_valid [OF assms]])

theorem shared_metadata_roundtrip_witness:
  "parseIcpInitiationCandidateSharedMetadata (shared_candidate_wire (toIcpInitiationCandidateSharedMetadata demo_candidate)) None
    = Inr (toIcpInitiationCandidateSharedMetadata demo_candidate)"
  using shared_metadata_roundtrip [OF parse_candidate_wire [OF demo_candidate_valid]] .

text \<open>
  C38. Expired candidates are taken first. When a supervisor's batch returns, a candidate that has expired, is not final, and
  is neither leased nor locked is in the batch, unless the batch is full and consists of expired candidates only.
\<close>

theorem expired_candidates_first:
  assumes "claimDueCandidates options token opnow locked db = (Inr claims, db')" "candidate_tables_ok db"
    and "r \<in> set (cb_candidates db)" "active_status (cr_status r)" "cr_expiresAtMs r \<le> intval (co_nowMs options)"
    and "unclaimed opnow r" "\<not> locked (cr_candidateId r)"
  shows "cr_candidateId r \<in> cd_candidateId ` cc_candidate ` set claims
    \<or> length claims = nat (intval (co_limit options)) \<and> (\<forall>c \<in> set claims. cd_expiresAtMs (cc_candidate c) \<le> intval (co_nowMs options))"
proof -
  let ?now = "intval (co_nowMs options)" and ?lease = "intval (co_claimLeaseMs options)" and ?limit = "nat (intval (co_limit options))"
  define all where "all = sort_key (due_key ?now) (filter (\<lambda>r. is_due ?now (max 0 (?now - ?lease)) r \<and> unclaimed opnow r
      \<and> \<not> locked (cr_candidateId r)) (cb_candidates db))"
  have due: "due_candidates ?now ?lease ?limit opnow locked db = take ?limit all" by (simp add: due_candidates_def all_def)
  have ids: "distinct (map cr_candidateId (cb_candidates db))" using assms(2) by (simp add: candidate_tables_ok_def)
  note claims = claimDue_Inr [OF assms(1) ids, unfolded due]
  have r: "r \<in> set all" using assms(3-7) by (auto simp: all_def is_due_def)
  have sorted: "sorted (map (due_key ?now) all)" by (simp add: all_def)
  show ?thesis
  proof (cases "r \<in> set (take ?limit all)")
    case True
    then show ?thesis using claims(2) by auto
  next
    case False
    have "cd_expiresAtMs (cc_candidate c) \<le> ?now" if c: "c \<in> set claims" for c
    proof -
      obtain d where d: "d \<in> set (take ?limit all)" "cd_expiresAtMs (cc_candidate c) = cr_expiresAtMs d"
        using claims(3) [OF c] by (auto simp: candidate_of_def take_claim_def)
      then show ?thesis using take_sorted_before(1) [OF sorted r False d(1)] assms(5)
        by (simp add: due_key_def less_eq_prod_def split: if_splits)
    qed
    moreover have "length (take ?limit all) = ?limit"
      using r False by (cases "?limit \<le> length all") auto
    ultimately show ?thesis using claims(1) by simp
  qed
qed

lemma demo_ids: "candidate_tables_ok \<lparr>cb_candidates = [demo_candidate_row], cb_funnel = []\<rparr>"
  by (simp add: candidate_tables_ok_def candidate_row_ok_def demo_candidate_row_def candidateInsertValues_def demo_candidate_def present_def
      List.map_filter_def sample_id_def)

lemma demo_claimed_valid: "candidate_valid (candidate_of (take_claim t e demo_candidate_row))"
  by (simp add: demo_candidate_uuids candidate_valid_def demo_candidate_def times_ok_def MAX_SAFE_INTEGER_def MAX_ICP_CANDIDATE_TTL_MS_def counter_ok_def
      check_target_channel_def text_ok_def js_trim_def white_space_def provenance_prefix_def candidate_of_def take_claim_def
      demo_candidate_row_def candidateInsertValues_def strip_nul_def)

theorem expired_candidates_first_witness:
  "\<exists>claims db'. claimDueCandidates \<lparr>co_nowMs = jsint 70000, co_claimLeaseMs = jsint 1000, co_limit = jsint 1\<rparr> (sample_id CHR ''8'')
       9000 (\<lambda>_. False) \<lparr>cb_candidates = [demo_candidate_row], cb_funnel = []\<rparr> = (Inr claims, db')
     \<and> (cr_candidateId demo_candidate_row \<in> cd_candidateId ` cc_candidate ` set claims
        \<or> length claims = 1 \<and> (\<forall>c \<in> set claims. cd_expiresAtMs (cc_candidate c) \<le> 70000))"
proof -
  let ?db = "\<lparr>cb_candidates = [demo_candidate_row], cb_funnel = []\<rparr>"
  let ?o = "\<lparr>co_nowMs = jsint 70000, co_claimLeaseMs = jsint 1000, co_limit = jsint 1\<rparr>"
  have fields: "cr_expiresAtMs demo_candidate_row = 61000" "cr_status demo_candidate_row = Candidate_pending" "cr_claimExpiresAtMs demo_candidate_row = Some 5000"
    by (simp_all add: demo_candidate_row_def candidateInsertValues_def demo_candidate_def demo_claim_def)
  have ok: "candidate_tables_ok \<lparr>cb_candidates = [take_claim t e demo_candidate_row], cb_funnel = []\<rparr>" for t e
    using demo_ids by (simp add: candidate_tables_ok_def candidate_row_ok_def take_claim_def present_def List.map_filter_def)
  have run: "\<exists>claims db'. claimDueCandidates ?o (sample_id CHR ''8'') 9000 (\<lambda>_. False) ?db = (Inr claims, db')"
    by (simp add: claimDueCandidates_def check_claim_options_def io_Inr withPostgresClient_Inr claim_due_def tx_Inr candidate_statement_def
        due_candidates_def is_due_def active_status_def fields unclaimed_def ok mapCandidate_valid demo_claimed_valid rbind_eq_Inr
        MAX_SAFE_INTEGER_def MAX_ICP_CANDIDATE_TTL_MS_def ICP_INITIATION_CANDIDATE_STATUSES_def)
  then obtain claims db' where c: "claimDueCandidates ?o (sample_id CHR ''8'') 9000 (\<lambda>_. False) ?db = (Inr claims, db')" by blast
  show ?thesis
    using expired_candidates_first [OF c demo_ids, of demo_candidate_row] c by (auto simp: fields active_status_def unclaimed_def)
qed

text \<open>Fires of the same impulse for the witnesses.\<close>

definition demo_fire :: "jsnum funnel_outcome \<Rightarrow> jsnum funnel_record" where
  "demo_fire outcome = \<lparr>fu_correlationId = ''felt-impulse:would_message:1000'', fu_firstCrossingMs = jsint 1000,
     fu_firedAtMs = jsint 2000, fu_recordedAtMs = jsint 2500, fu_outcome = outcome\<rparr>"

definition demo_fired :: "int funnel_outcome \<Rightarrow> int funnel_record" where
  "demo_fired outcome = \<lparr>fu_correlationId = ''felt-impulse:would_message:1000'', fu_firstCrossingMs = 1000,
     fu_firedAtMs = 2000, fu_recordedAtMs = 2500, fu_outcome = outcome\<rparr>"

lemma decimal_1000: "decimal 1000 = ''1000''"
  by (simp add: decimal.simps char_of_eq_iff take_bit_eq_mod)

lemma demo_correlation_number:
  "parseFeltImpulseCorrelationFirstCrossingMs ''felt-impulse:would_message:1000'' = Inr 1000"
  by (simp add: parseFeltImpulseCorrelationFirstCrossingMs_def FELT_IMPULSE_CORRELATION_PREFIX_def digits_value_def is_digit_def
      decimal_1000 MAX_SAFE_INTEGER_def)

lemma demo_fire_parsed:
  "parse_funnel_outcome 2500 x = Inr y \<Longrightarrow> parseIcpFeltImpulseFunnelRecord (demo_fire x) = Inr (demo_fired y)"
  by (simp add: parseIcpFeltImpulseFunnelRecord_def demo_fire_def demo_fired_def requireFeltImpulseCorrelationId_def
      demo_correlation_number requireTimestamp_def MAX_SAFE_INTEGER_def)

lemma record_found:
  assumes "candidate_tables_ok db" "r \<in> set (cb_funnel db)"
  shows "find (\<lambda>q. fr_correlationId q = fr_correlationId r) (cb_funnel db) = Some r"
  using assms by (intro find_distinct) (simp_all add: candidate_tables_ok_def)

lemma steps_tables_ok: "any_step\<^sup>*\<^sup>* db db' \<Longrightarrow> candidate_tables_ok db \<Longrightarrow> candidate_tables_ok db'"
  by (induction rule: rtranclp_induct) (auto simp: any_step_def elim: candidate_step.cases)

lemma recordOutcome_row:
  assumes "recordOutcome f db = (Inr rec, db')"
  obtains row where "row \<in> set (cb_funnel db')" "fr_correlationId row = fu_correlationId f" "mapRecord row = Inr rec"
proof -
  from assms obtain g row where g: "parseIcpFeltImpulseFunnelRecord f = Inr g" and "record_sql (outcome_row g) db = Inr (row, db')"
    and m: "mapRecord row = Inr rec"
    by (auto simp: recordOutcome_def io_Inr withPostgresClient_Inr)
  then have "row \<in> set (cb_funnel db')" "fr_correlationId row = fr_correlationId (outcome_row g)"
    by (auto simp: record_sql_def tx_Inr insert_outcome_def candidate_statement_def dest: find_Some_iff' split: option.splits)
  moreover have "fu_correlationId g = fu_correlationId f"
    using g by (auto simp: parseIcpFeltImpulseFunnelRecord_def requireFeltImpulseCorrelationId_def rbind_eq_Inr)
  ultimately show thesis using m that by (auto simp: outcome_row_def)
qed

text \<open>
  C37. A fire is recorded once. After an outcome of an impulse was recorded, and whatever happens to the tables since, a
  further valid outcome of the same impulse changes nothing and returns the outcome that was recorded first.
\<close>

theorem felt_outcome_first_wins:
  assumes "candidate_tables_ok db" "recordOutcome f db = (Inr first, db')"
    and "parseIcpFeltImpulseFunnelRecord again = Inr g" "fu_correlationId again = fu_correlationId f"
  shows "recordOutcome again (candidate_run ops db') = (Inr first, candidate_run ops db')"
proof -
  let ?db = "candidate_run ops db'"
  obtain row where row: "row \<in> set (cb_funnel db')" "fr_correlationId row = fu_correlationId f" "mapRecord row = Inr first"
    using recordOutcome_row [OF assms(2)] .
  have "candidate_tables_ok db'" using steps_tables_ok [OF run_any [of db "[Record_outcome f]"]] assms(1,2)
    by (simp add: candidate_run_def)
  then have ok: "candidate_tables_ok ?db" by (rule steps_tables_ok [OF run_any])
  have kept: "row \<in> set (cb_funnel ?db)" using outcomes.steps_follow [OF run_any row(1)] by blast
  have id: "fu_correlationId g = fu_correlationId again"
    using assms(3) by (auto simp: parseIcpFeltImpulseFunnelRecord_def requireFeltImpulseCorrelationId_def rbind_eq_Inr)
  have "record_sql (outcome_row g) ?db = Inr (row, ?db)"
    using record_found [OF ok kept] row(2) assms(4) id by (simp add: record_sql_def tx_Inr outcome_row_def)
  then show ?thesis using assms(3) row(3) by (simp add: recordOutcome_def io_Inr withPostgresClient_Inr)
qed

lemma demo_fire_recorded:
  "recordOutcome (demo_fire Funnel_no_eligible_peer) empty_candidates
     = (Inr (demo_fired Funnel_no_eligible_peer), \<lparr>cb_candidates = [], cb_funnel = [outcome_row (demo_fired Funnel_no_eligible_peer)]\<rparr>)"
proof -
  have p: "parseIcpFeltImpulseFunnelRecord (demo_fire Funnel_no_eligible_peer) = Inr (demo_fired Funnel_no_eligible_peer)"
    by (rule demo_fire_parsed) (simp add: parse_funnel_outcome_def)
  have ok: "candidate_tables_ok \<lparr>cb_candidates = [], cb_funnel = [outcome_row (demo_fired Funnel_no_eligible_peer)]\<rparr>"
    by (simp add: candidate_tables_ok_def funnel_row_ok_def outcome_row_def demo_fired_def present_def List.map_filter_def
        FELT_IMPULSE_CORRELATION_PREFIX_def decimal_1000)
  have "funnel_valid (demo_fired Funnel_no_eligible_peer)" using p by (auto simp: funnel_valid_def)
  then show ?thesis
    by (simp add: recordOutcome_def p io_Inr withPostgresClient_Inr record_sql_def tx_Inr empty_candidates_def insert_outcome_def
        candidate_statement_def ok mapRecord_outcome_row)
qed

theorem felt_outcome_first_wins_witness:
  "recordOutcome (demo_fire Funnel_not_authorized)
     (candidate_run [] \<lparr>cb_candidates = [], cb_funnel = [outcome_row (demo_fired Funnel_no_eligible_peer)]\<rparr>)
   = (Inr (demo_fired Funnel_no_eligible_peer),
      candidate_run [] \<lparr>cb_candidates = [], cb_funnel = [outcome_row (demo_fired Funnel_no_eligible_peer)]\<rparr>)"
proof (rule felt_outcome_first_wins [OF _ demo_fire_recorded])
  show "candidate_tables_ok empty_candidates" using empty_sound by (simp add: sound_tables_def)
  show "parseIcpFeltImpulseFunnelRecord (demo_fire Funnel_not_authorized) = Inr (demo_fired Funnel_not_authorized)"
    by (rule demo_fire_parsed) (simp add: parse_funnel_outcome_def)
qed (simp add: demo_fire_def)

text \<open>
  C16. The projection of the funnel accounts for every fire. From the empty tables, whatever the two stores did, the projection
  is returned, never an error; it counts each recorded outcome once, its totals add up (fires without a candidate and
  linked ones, submitted and deduplicated links, and the lifecycle of every linked candidate), and it lists as many recent
  outcomes as asked for and present.
\<close>

theorem felt_projection_accounts:
  assumes "isSafeInteger limit" "1 \<le> numval limit"
    and "int (length (cb_funnel (candidate_run counted empty_candidates))) \<le> MAX_SAFE_INTEGER"
  shows "\<exists>p. readProjection limit (candidate_run listed empty_candidates) (candidate_run counted empty_candidates) = Inr p
    \<and> fp_totalQualified p = int (length (cb_funnel (candidate_run counted empty_candidates)))
    \<and> fp_noEligiblePeer p + fp_notAuthorized p + fp_throttled p + fp_linksTotal p = fp_totalQualified p
    \<and> fp_submitted p + fp_deduped p = fp_linksTotal p \<and> (\<Sum>l \<in> UNIV. fp_lifecycle p l) = fp_linksTotal p
    \<and> length (fp_recent p) = min (nat (intval limit)) (length (cb_funnel (candidate_run listed empty_candidates)))"
proof -
  let ?l = "candidate_run listed empty_candidates" and ?c = "candidate_run counted empty_candidates"
  have "\<exists>xs. map_rows (recent_row ?l) (recentRows (nat (intval limit)) ?l) = Inr xs \<and> length xs = length (recentRows (nat (intval limit)) ?l)"
    by (rule map_rows_total, rule recent_total [OF reachable_sound]) (auto simp: recentRows_def dest!: in_set_takeD)
  then obtain recent where recent: "map_rows (recent_row ?l) (recentRows (nat (intval limit)) ?l) = Inr recent"
    "length recent = min (nat (intval limit)) (length (cb_funnel ?l))"
    by (auto simp: recentRows_def)
  have "balanced (empty_projection recent)" by (simp add: balanced_def empty_projection_def)
  then obtain p where "add_groups (countRows ?c) (empty_projection recent) = Inr p" "balanced p" "fp_recent p = recent"
    "fp_totalQualified p = int (length (cb_funnel ?c))"
    using add_groups_total [of "countRows ?c" "empty_projection recent"] countRows_ok [OF reachable_sound assms(3)] countRows_sum
    by (auto simp: empty_projection_def)
  then show ?thesis using recent assms(1,2) by (simp add: readProjection_def balanced_def)
qed

theorem felt_projection_accounts_witness:
  "\<exists>p. readProjection (jsint 5) (candidate_run [] empty_candidates)
         (candidate_run [Record_outcome (demo_fire Funnel_no_eligible_peer)] empty_candidates) = Inr p \<and> fp_totalQualified p = 1"
  using felt_projection_accounts [of "jsint 5" "[Record_outcome (demo_fire Funnel_no_eligible_peer)]" "[]"]
  by (auto simp: candidate_run_def demo_fire_recorded MAX_SAFE_INTEGER_def)

text \<open>
  C39. A felt impulse leaves a candidate and its link, or nothing. Whatever the arguments and the result of the atomic creation,
  either the tables are as before, or exactly one candidate was added under the caller's lease together with the one outcome
  that links it; and the latter only if the fire had no outcome yet.
\<close>

theorem felt_candidate_atomic:
  "snd (createClaimedFeltImpulseCandidate v claim f now db) = db
   \<or> (\<exists>row link. snd (createClaimedFeltImpulseCandidate v claim f now db)
          = db\<lparr>cb_candidates := cb_candidates db @ [row], cb_funnel := cb_funnel db @ [link]\<rparr>
        \<and> cr_claimToken row = Some (pc_claimToken claim) \<and> fr_candidateId link = Some (cr_candidateId row)
        \<and> fr_correlationId link = fu_correlationId f \<and> fu_correlationId f \<notin> fr_correlationId ` set (cb_funnel db))"
proof (cases "parseIcpInitiationCandidate v None")
  case (Inr c)
  let ?row = "candidateInsertValues c (Some claim)"
  show ?thesis
  proof (cases "parseIcpFeltImpulseFunnelRecord f")
    case g: (Inr g)
    let ?db = "db\<lparr>cb_candidates := cb_candidates db @ [?row], cb_funnel := cb_funnel db @ [submitted_link g]\<rparr>"
    let ?tx = "txbind (insert_candidate_row ?row) (\<lambda>_. insert_outcome (submitted_link g))"
    have id: "fu_correlationId g = fu_correlationId f"
      using g by (auto simp: parseIcpFeltImpulseFunnelRecord_def requireFeltImpulseCorrelationId_def rbind_eq_Inr)
    have tx: "?tx db = Inr (u, db') \<Longrightarrow> db' = ?db \<and> candidate_tables_ok ?db" for u db'
      by (auto simp: tx_Inr insert_candidate_row_def insert_outcome_def candidate_statement_def)
    consider "snd (createClaimedFeltImpulseCandidate v claim f now db) = db"
      | "fu_outcome g = Funnel_candidate_linked (cd_candidateId c) Link_submitted"
        "snd (createClaimedFeltImpulseCandidate v claim f now db) = ?db" "candidate_tables_ok ?db"
    proof (cases "cd_source c \<noteq> Initiation_felt_impulse \<or> fu_outcome g \<noteq> Funnel_candidate_linked (cd_candidateId c) Link_submitted")
      case True
      then have "snd (createClaimedFeltImpulseCandidate v claim f now db) = db"
        by (cases "assertNewCandidate c"; cases "assertLiveClaim claim now")
          (simp_all add: createClaimedFeltImpulseCandidate_def Inr g iobind_def iopure_def iothrow_def if_P)
      then show thesis using that by blast
    next
      case False
      then show thesis using tx that by (cases "?tx db"; cases "assertNewCandidate c"; cases "assertLiveClaim claim now")
        (auto simp: createClaimedFeltImpulseCandidate_def Inr g iobind_def iopure_def iothrow_def withPostgresClient_def)
    qed
    then show ?thesis
    proof cases
      case 2
      then show ?thesis
        by (intro disjI2 exI [of _ ?row] exI [of _ "submitted_link g"])
          (auto simp: candidate_tables_ok_def candidateInsertValues_def submitted_link_def id)
    qed simp
  qed (simp add: createClaimedFeltImpulseCandidate_def Inr iobind_def iopure_def iothrow_def)
qed (simp add: createClaimedFeltImpulseCandidate_def iobind_def iopure_def iothrow_def)

section \<open>Creation\<close>

definition stored :: "initiation_candidate \<Rightarrow> initiation_candidate" where
  "stored c = c\<lparr>cd_retryAttempt := Some (case cd_retryAttempt c of None \<Rightarrow> 0 | Some n \<Rightarrow> n)\<rparr>"

definition nul_free :: "initiation_candidate \<Rightarrow> bool" where
  "nul_free c \<longleftrightarrow> strip_nul (cd_peerContactId c) = cd_peerContactId c \<and> strip_nul (cd_reasonSummary c) = cd_reasonSummary c
     \<and> map_option strip_nul (cd_targetChannelId c) = cd_targetChannelId c
     \<and> map_option strip_nul (cd_pendingFollowUpId c) = cd_pendingFollowUpId c"

lemma candidate_of_insert: "nul_free c \<Longrightarrow> candidate_of (candidateInsertValues c claim) = stored c"
  by (simp add: candidate_of_def candidateInsertValues_def stored_def nul_free_def)

lemma stored_valid: "candidate_valid c \<Longrightarrow> candidate_valid (stored c)"
  by (auto simp: candidate_valid_def stored_def counter_ok_def MAX_SAFE_INTEGER_def split: option.splits)

lemma insert_tables_ok:
  assumes "candidate_tables_ok db" "candidate_valid c" "cd_status c = Candidate_pending"
    and "cd_candidateId c \<notin> cr_candidateId ` set (cb_candidates db)"
    and "\<forall>r \<in> set (cb_candidates db). \<forall>f \<in> set_option (cd_pendingFollowUpId c). cr_pendingFollowUpId r \<noteq> Some (strip_nul f)"
    and "\<forall>n \<in> set_option (cd_retryAttempt c). n \<le> 2147483647"
  shows "candidate_tables_ok (db\<lparr>cb_candidates := cb_candidates db @ [candidateInsertValues c claim]\<rparr>)"
proof -
  have "candidate_row_ok (candidateInsertValues c claim)"
    using assms(2,3,6) by (auto simp: candidate_row_ok_def candidateInsertValues_def candidate_valid_def times_ok_def counter_ok_def
        split: option.splits)
  moreover have "distinct (present cr_pendingFollowUpId (cb_candidates db @ [candidateInsertValues c claim]))"
    using assms(1,5) by (cases "cd_pendingFollowUpId c")
      (auto simp: candidate_tables_ok_def present_def List.map_filter_def candidateInsertValues_def)
  moreover have "cr_candidateId (candidateInsertValues c claim) = cd_candidateId c" by (simp add: candidateInsertValues_def)
  ultimately show ?thesis using assms(1,4) by (auto simp: candidate_tables_ok_def list_all_iff)
qed

text \<open>
  A new candidate is stored and read back. A valid candidate that is pending at revision 1, with a fresh id and a fresh
  follow-up, a retry counter that fits its column and no NUL byte in its texts, is accepted; the call returns it with its
  retry counter filled in, and reading it by its id gives the same.
\<close>

theorem candidate_created:
  assumes "candidate_tables_ok db" "parseIcpInitiationCandidate v None = Inr c"
    and "cd_status c = Candidate_pending" "cd_revision c = 1" "nul_free c"
    and "cd_candidateId c \<notin> cr_candidateId ` set (cb_candidates db)"
    and "\<forall>r \<in> set (cb_candidates db). \<forall>f \<in> set_option (cd_pendingFollowUpId c). cr_pendingFollowUpId r \<noteq> Some f"
    and "\<forall>n \<in> set_option (cd_retryAttempt c). n \<le> 2147483647"
  shows "\<exists>db'. createCandidate v db = (Inr (stored c), db') \<and> getCandidate (cd_candidateId c) db' = Inr (Some (stored c))"
proof -
  let ?row = "candidateInsertValues c None" and ?db = "db\<lparr>cb_candidates := cb_candidates db @ [candidateInsertValues c None]\<rparr>"
  have valid: "candidate_valid c" by (rule parse_candidate_valid [OF assms(2)])
  have m: "mapCandidate ?row = Inr (stored c)"
    using mapCandidate_valid [of ?row] by (simp add: candidate_of_insert assms(5) stored_valid valid)
  have "f = strip_nul f" if "f \<in> set_option (cd_pendingFollowUpId c)" for f using assms(5) that by (auto simp: nul_free_def)
  then have ok: "candidate_tables_ok ?db" using assms(7) by (intro insert_tables_ok assms valid) metis
  have "createCandidate v db = (Inr (stored c), ?db)"
    by (simp add: createCandidate_def insertCandidate_def io_Inr assms(2-4) assertNewCandidate_def withPostgresClient_Inr insert_candidate_row_def
        candidate_statement_def tx_Inr ok m)
  moreover have "find (\<lambda>r. cr_candidateId r = cd_candidateId c) (cb_candidates ?db) = Some ?row"
    using record_found [of ?db] find_distinct [of cr_candidateId "cb_candidates ?db" ?row] ok
    by (simp add: candidate_tables_ok_def candidateInsertValues_def)
  then have "getCandidate (cd_candidateId c) ?db = Inr (Some (stored c))"
    using valid m by (simp add: getCandidate_def requireUuidText_def requireUuidValue_def map_found_def candidate_valid_def)
  ultimately show ?thesis by blast
qed

theorem candidate_created_witness:
  "\<exists>db'. createCandidate (candidate_wire demo_candidate) empty_candidates = (Inr (stored demo_candidate), db')
     \<and> getCandidate (cd_candidateId demo_candidate) db' = Inr (Some (stored demo_candidate))"
proof (rule candidate_created)
  show "candidate_tables_ok empty_candidates" using empty_sound by (simp add: sound_tables_def)
  show "parseIcpInitiationCandidate (candidate_wire demo_candidate) None = Inr demo_candidate"
    by (rule parse_candidate_wire [OF demo_candidate_valid])
qed (simp_all add: demo_candidate_def nul_free_def strip_nul_def empty_candidates_def)

text \<open>
  A text of NUL bytes passes the guards of the parser, but the pool strips it to the empty text before it is stored. The
  insertion is committed, and then the row is refused whenever it is read, by the call that created it first of all.
\<close>

lemma nul_summary_unreadable:
  assumes "candidate_tables_ok db" "parseIcpInitiationCandidate v None = Inr c"
    and "cd_status c = Candidate_pending" "cd_revision c = 1" "strip_nul (cd_reasonSummary c) = []"
    and "cd_candidateId c \<notin> cr_candidateId ` set (cb_candidates db)" "cd_pendingFollowUpId c = None" "cd_retryAttempt c = None"
  shows "\<exists>e. createCandidate v db = (Inl e, db\<lparr>cb_candidates := cb_candidates db @ [candidateInsertValues c None]\<rparr>)
    \<and> mapCandidate (candidateInsertValues c None) = Inl e"
proof -
  have valid: "candidate_valid c" by (rule parse_candidate_valid [OF assms(2)])
  have "\<not> candidate_valid (candidate_of (candidateInsertValues c None))"
    using assms(5) by (simp add: candidate_valid_def candidate_of_def candidateInsertValues_def text_ok_def)
  then obtain e where e: "mapCandidate (candidateInsertValues c None) = Inl e"
    using mapCandidate_iff by (cases "mapCandidate (candidateInsertValues c None)") auto
  have "candidate_tables_ok (db\<lparr>cb_candidates := cb_candidates db @ [candidateInsertValues c None]\<rparr>)"
    by (intro insert_tables_ok assms valid) (simp_all add: assms)
  then show ?thesis using e
    by (simp add: createCandidate_def insertCandidate_def iobind_def iopure_def withPostgresClient_def assms(2-4) assertNewCandidate_def
        insert_candidate_row_def candidate_statement_def txexec_def)
qed

text \<open>A supervisor's batch returns only if every row it takes is readable; one row that is not makes all of it throw.\<close>

lemma unreadable_row_blocks_batch:
  assumes "claimDueCandidates options token now locked db = (Inr claims, db')" "candidate_tables_ok db"
    and "r \<in> set (due_candidates (intval (co_nowMs options)) (intval (co_claimLeaseMs options)) (nat (intval (co_limit options))) now locked db)"
  shows "text_ok 1000 (cr_reasonSummary r)"
proof -
  have ids: "distinct (map cr_candidateId (cb_candidates db))" using assms(2) by (simp add: candidate_tables_ok_def)
  show ?thesis using claimDue_Inr(4) [OF assms(1) ids assms(3)] by (simp add: candidate_valid_def candidate_of_def take_claim_def)
qed

end
