(* ===== verification/Spec2Isabelle.thy ===== *)
theory Spec2Isabelle
  imports Room_Admission Participation_Behaviour Circuit_Laws Fatigue_Consistency Icp_Regulation Autonomy_Laws Candidate_Laws
begin

text \<open>
  Verification of the participation core of the psfn framework: the code that decides whether a companion may speak, in
  a room with other people and machines or to another companion, and that bounds what it spends on it.


  \<^bold>\<open>The program.\<close> A companion is an agent around a language model. Several companions share one PostgreSQL database and
  meet in rooms and on companion channels. Before a reply reaches the outside, four subsystems of the source have a say.

  \<^item> \<^emph>\<open>Room speech.\<close> A candidate reply to a room event first passes the reservation phase, which reads the gates (precedence
    of inter-companion talk, room pressure, the funds of the social pot) and records a reservation; then the egress-lease
    phase, which draws from the pot, takes the exclusive lease of the event from the speaking arbiter's store, sends, and
    completes the lease. A room that only machines keep alive raises a pressure that throttles and then stops it.
  \<^item> \<^emph>\<open>Room participation.\<close> After a companion was addressed, a bounded lease lets it follow the conversation for a while
    without being addressed again. A coordinator admits at most one continuation per message against a claim in the
    database.
  \<^item> \<^emph>\<open>Fatigue.\<close> Every turn is charged to a budget per contact and day, kept in an append-only ledger file. The policy
    turns the spend into soft and hard limits, the enforcement decides a turn from them, and an invariant checks each
    decision before it is recorded.
  \<^item> \<^emph>\<open>Inter-companion autonomy (ICP).\<close> Two companions talk under permits that a shared store issues, consumes and
    revokes, in episodes and dyads with their own lifecycles, guarded by invalidation fences. What moves a companion to
    start one is a private candidate in its own tables, worked on under leases and shown to others only in part. The
    fatigue of such a turn is reserved in a fence that all processes share, and settled after the turn.

  A circuit breaker with a sliding window guards the calls to outside services.


  \<^bold>\<open>The theories\<close>, in the order in which they build on each other. Source files are named from \<^verbatim>\<open>src/src\<close>. A function of
  the source is the definition of the same name; where several files use one name, or the name is taken in HOL, the
  definition says whose it is.

  \<^item> \<^verbatim>\<open>Prelude\<close>: JavaScript numbers (\<open>jsnum\<close>, a real, NaN or an infinity), strings and dynamic values, thrown errors as the
    left side of a sum, transactions (\<open>tx\<close>) and effects (\<open>io\<close>) with their rules, guarded updates of a table
    (\<open>update_where\<close>), and the guards of \<^verbatim>\<open>shared/utils\<close> and \<^verbatim>\<open>persistence/postgres/row-guards.ts\<close>.
  \<^item> \<^verbatim>\<open>Binary64\<close>: rounding to 53 bits, and when a sum, difference or product of doubles is exact.
  \<^item> \<^verbatim>\<open>Social_Pot\<close>: \<^verbatim>\<open>core/agent/fatigue/social-pot.ts\<close>, \<^verbatim>\<open>social-pot-enforcement.ts\<close> and
    \<^verbatim>\<open>persistence/postgres/social-pot-store.ts\<close>. A draw takes all or nothing within the balance and the share of a channel;
    on amounts that doubles hold exactly, regeneration composes and a refund gives the draw back.
  \<^item> \<^verbatim>\<open>Arbiter_Store\<close>, \<^verbatim>\<open>Arbiter_Safety\<close>, \<^verbatim>\<open>Arbiter_Behaviour\<close>: \<^verbatim>\<open>persistence/postgres/speaking-arbiter-store.ts\<close> and its port.
    The store refines one slot per room event that is idle, held or spent; over any sequence of operations an event is
    spoken at most once, and a lapsed holder is replaced under a larger fencing token.
  \<^item> \<^verbatim>\<open>Room_Pressure\<close>: \<^verbatim>\<open>core/agent/fatigue/room-episode-pressure.ts\<close> and \<^verbatim>\<open>room-episode-circuit-breaker.ts\<close>. A reading
    over the ledger of \<^verbatim>\<open>Fatigue_Ledger\<close> counts exactly the charged machine turns of the room inside the window.
  \<^item> \<^verbatim>\<open>Social_Precedence\<close>: \<^verbatim>\<open>core/icp/social-precedence.ts\<close>, its hash kept at 32 bits.
  \<^item> \<^verbatim>\<open>Reservation_Phase\<close>, \<^verbatim>\<open>Egress_Phase\<close>: \<^verbatim>\<open>core/agent/arbiter/reservation-phase.ts\<close> and \<^verbatim>\<open>egress-lease-phase.ts\<close>, written
    over the collaborators they are given.
  \<^item> \<^verbatim>\<open>Room_World\<close>, \<^verbatim>\<open>Room_Admission\<close>: both phases on the stores above, with operations of other processes before every
    store call. At most one grant of an event is sent; a gated candidate leaves no trace; failing gates close.
  \<^item> \<^verbatim>\<open>Participation_Lease\<close>, \<^verbatim>\<open>Participation_Store_Laws\<close>, \<^verbatim>\<open>Participation_Coordinator\<close>, \<^verbatim>\<open>Participation_Behaviour\<close>: the gate
    and the table of \<^verbatim>\<open>core/participation/room-participation-lease.ts\<close> and
    \<^verbatim>\<open>persistence/postgres/room-participation-lease-store.ts\<close>, and the coordinator over them. A message is claimed once, the
    caps hold, only a human lifts the fence after a streak of machines, and undisturbed the claim decides as the gate, but for
    messages of one instant that the collation of the database orders otherwise.
  \<^item> \<^verbatim>\<open>Circuit_Breaker\<close>, \<^verbatim>\<open>Circuit_Laws\<close>: \<^verbatim>\<open>shared/resilience/circuit-breaker.ts\<close>, with overlapping calls as separate begin and
    end steps. The breaker refines its three-state automaton, trips at the threshold, then refuses every call of the
    cooldown whatever else happens, and recovers after it.
  \<^item> \<^verbatim>\<open>Fatigue_Types\<close>, \<^verbatim>\<open>Fatigue_Policy\<close>, \<^verbatim>\<open>Fatigue_Ledger\<close>, \<^verbatim>\<open>Fatigue_Budget\<close>, \<^verbatim>\<open>Fatigue_Spend\<close>, \<^verbatim>\<open>Fatigue_Reads\<close>,
    \<^verbatim>\<open>Fatigue_Enforcement\<close>, \<^verbatim>\<open>Fatigue_Turn\<close>, \<^verbatim>\<open>Fatigue_Consistency\<close>: \<^verbatim>\<open>core/agent/fatigue\<close> and
    \<^verbatim>\<open>shared/telemetry/fatigue-ledger.ts\<close>. A turn is charged once and in its own scope, reopening the ledger restores it,
    limits are ordered and monotone, and every well-formed turn gets a decision that its invariant accepts and that keeps
    the spend within the caps.
  \<^item> \<^verbatim>\<open>Companion_Channels\<close>, \<^verbatim>\<open>Icp_Contract\<close>, \<^verbatim>\<open>Icp_Laws\<close>: \<^verbatim>\<open>shared/routing/companion-id.ts\<close>,
    \<^verbatim>\<open>shared/contracts/companion-channels.ts\<close> and \<^verbatim>\<open>icp-autonomy.ts\<close>. Identifiers and channels have one spelling; parsing is
    canonical and inverse to writing.
  \<^item> \<^verbatim>\<open>Icp_Fence\<close>, \<^verbatim>\<open>Icp_Fence_Laws\<close>, \<^verbatim>\<open>Icp_Fence_Safety\<close>, \<^verbatim>\<open>Icp_Regulation\<close>:
    \<^verbatim>\<open>persistence/postgres/icp-fatigue-regulation-reservation-store.ts\<close> and the turn's side of it,
    \<^verbatim>\<open>core/agent/substrate-agent/turn-execution/icp-fatigue-regulation.ts\<close>. However the processes interleave, the live
    units of a pair stay within the limit, a leased turn keeps its slot, each event moves a turn only along its own edges of
    the turn's automaton, and a charged turn owns what it records.
  \<^item> \<^verbatim>\<open>Autonomy_Db\<close>, \<^verbatim>\<open>Autonomy_Store\<close>: the tables and all operations of
    \<^verbatim>\<open>persistence/postgres/icp-shared-autonomy-store.ts\<close>. \<^verbatim>\<open>Autonomy_Steps\<close> shows once that every operation is a sequence of
    ten kinds of table changes; \<^verbatim>\<open>Autonomy_Rows\<close> that rows are followed along such sequences; \<^verbatim>\<open>Autonomy_Laws\<close> that permits are
    consumed once, fenced companions stay silent, invalidation spends captured fences, the fleet sweep is complete, and
    episodes, dyads and availability keep to their lifecycles.
  \<^item> \<^verbatim>\<open>Candidate_Contract\<close>, \<^verbatim>\<open>Candidate_Store\<close>, \<^verbatim>\<open>Felt_Funnel\<close>: the private side of a companion,
    \<^verbatim>\<open>core/icp/initiation-candidate.ts\<close> and \<^verbatim>\<open>felt-impulse-funnel.ts\<close>, and the stores
    \<^verbatim>\<open>persistence/postgres/icp-initiation-candidate-store.ts\<close> and \<^verbatim>\<open>icp-felt-impulse-funnel-store.ts\<close> over the tables of
    \<^verbatim>\<open>intention-migrations.ts\<close>. \<^verbatim>\<open>Candidate_Rows\<close> says which candidates are accepted and read back; \<^verbatim>\<open>Candidate_Steps\<close> that every
    operation edits rows under their leases, inserts a candidate or records an outcome; \<^verbatim>\<open>Candidate_Laws\<close> that a live lease
    excludes everyone else, statuses keep to their table, expired candidates are taken first, a felt impulse is recorded
    once and together with its candidate, and the projection of the funnel accounts for every fire.


  \<^bold>\<open>Interfaces.\<close> A locale states what a client relies on, and each is interpreted on the model's own definitions: the calls
  of the egress phase and its log of sends (\<open>gate_calls\<close>, \<open>bind_calls\<close>, \<open>send_log\<close>; interpreted in \<^verbatim>\<open>Room_World\<close>), the
  world of the reservation phase (\<open>reservation_world\<close>; in \<^verbatim>\<open>Room_Admission\<close>), the port of the pot (\<open>social_pot_port\<close>), the
  history of spends (\<open>fatigue_history_laws\<close>), the order and the store that the participation coordinator needs
  (\<open>text_collation\<close>, \<open>participation_world\<close>), the slots a turn reserves (\<open>slot_port\<close>), and tables whose rows are only
  ever followed (\<open>tracked_rows\<close>, for permits, fences and episodes; \<open>followed_rows\<close>, for leased candidates, candidates and
  outcomes).


  \<^bold>\<open>How the code is modelled.\<close>

  \<^item> A method is a function of the state it touches that returns a result and the new state; a \<^verbatim>\<open>throw\<close> is \<open>Inl\<close> of its
    message. Values that a function checks at run time are untrusted (\<open>wire\<close>, \<open>jsnum\<close>), so every guard is a branch.
  \<^item> A database is a record of tables, a table a list of rows. A statement is a conditional update that is refused when a
    constraint of the schema fails after it, and a transaction (\<open>withPostgresClient\<close>) rolls back what a throw interrupts.
    Transactions are atomic steps: each holds the lock of what it decides on, or re-checks its condition in the
    statement. Between transactions any operation may run: the properties quantify over sequences of operations, or over
    schedules of foreign operations before each call. The two commits of \<^verbatim>\<open>connect\<close> are one operation of a run and also
    two (\<open>Insert_fences\<close>, \<open>Sweep_fleet\<close>). Taking a session lease of the fence is one step: overlapping calls of one
    process for the same turn are not modelled.
  \<^item> Clocks, ids, hashes, the collation of the database, the sender, the resolvers and the model's answers are arguments,
    and the properties hold for all of them; hypotheses on them are written in the statement.
  \<^item> Integer columns and times are integers; that an operation throws beyond \<^verbatim>\<open>Number.MAX_SAFE_INTEGER\<close> is modelled where the
    source checks it. Balances and weights are the reals that the doubles denote, and an arithmetic operation on them is exact
    unless it is written with \<open>binary64\<close>. Where a statement would fail on rounded doubles it says so: composition of
    regenerations is proved of the rounded operations (\<open>regenerateSocialPot_binary64\<close>) on amounts with enough bits to spare,
    the refund of a draw carries the same condition, and that a room's draws leave a share of the pot
    (\<open>pot_group_draws_bounded\<close>) and the half-life of the pressure (\<open>pressure_decays\<close>) are facts of exact arithmetic only. Every other
    statement on such numbers is one on the reals they denote, over the same operations in the same order as the code.
  \<^item> Every loop of the modelled code is a structural recursion, a fold over a finite list or a recursion with a proved measure
    (\<open>split_from\<close>, \<open>decimal\<close>), so all definitions are total; no fuel is used and no bound is chosen.


  \<^bold>\<open>Findings.\<close> Some lemmas show where the code departs from what it says; each is named for it and explained where it is
  proved: the lease of a dead connection that is not renewed, a reclaim that throws behind the orphan it reclaims, a fleet
  sweep that reports none of the permits it revokes, a companion that left the fleet making its partner's dyads
  unreadable, and a candidate whose text is lost on its way into the table, so that every batch with it throws
  (\<open>dead_lease_not_renewed\<close>, \<open>reclaim_behind_orphan_throws\<close>, \<open>fleet_sweep_complete\<close>, \<open>departed_peer_breaks_listing\<close>,
  \<open>nul_summary_unreadable\<close>, \<open>unreadable_row_blocks_batch\<close>).


  \<^bold>\<open>Not modelled.\<close> The gateway, the channel transports and the user interfaces, which are input and output around
  third-party services; the agent's turn loop, memory and the other faculties, whose core is a call to a language model
  that is not code of the repository; sessions, backups and journals, which are storage of text; configuration loaders, of
  which only what they guarantee of a policy is stated (\<open>policy_config_ok\<close>); opening and closing of connection pools; and
  the broker above the shared autonomy store, whose decisions rest on policies and sidecar calls of the gateway. The
  runtimes that produce candidates and drive them through consent and delivery sequence calls to a language model and to
  the gateway over the candidate store, and are left out with them, as are the operator projections that only read.
\<close>

end
